(* ===== verification/Prelude.thy ===== *)
theory Prelude
  imports Main "HOL-Library.Sublist"
begin

text \<open>
  Shared vocabulary of the development.

  Go values are modelled as follows: a pointer is an option (\<open>None\<close> is nil), an \<open>error\<close>
  result is a value of \<open>result\<close>, and a nil dereference or an explicit panic is the third
  outcome of \<open>result\<close>.  Strings are byte strings, as in Go.  The functions of Go's
  \<^verbatim>\<open>strings\<close>, \<^verbatim>\<open>strconv\<close> and \<^verbatim>\<open>fmt\<close> packages that the
  operator calls are defined here with the behaviour the operator relies on.
\<close>

named_theorems go_string \<open>evaluation of Go string operations\<close>
named_theorems check_rules \<open>outcomes of chains of checks\<close>

section \<open>Errors and results\<close>

text \<open>
  The error values of the operator: \<open>util.ValidationError\<close>, \<open>*util.PersistentError\<close>
  (reason and message), \<open>*nb.RPCError\<close> (code and message), an error variable or type of a library that
  the code compares with (by its name), and every other error, which the code only prints.
\<close>

datatype go_error =
    ValidationError (err_msg: string)
  | PersistentError (err_reason: string) (err_msg: string)
  | RPCError (err_code: string) (err_msg: string)
  | LibraryError (err_msg: string)
  | PlainError (err_msg: string)

fun IsValidationError :: "go_error \<Rightarrow> bool" where
  "IsValidationError (ValidationError _) = True"
| "IsValidationError _ = False"

fun IsPersistentError :: "go_error \<Rightarrow> bool" where
  "IsPersistentError (PersistentError _ _) = True"
| "IsPersistentError _ = False"

text \<open>\<open>err.Error()\<close>.\<close>

definition Error :: "go_error \<Rightarrow> string" where
  "Error e = err_msg e"

datatype 'a result = Ok 'a | Err go_error | Panic

type_synonym check = "unit result"

abbreviation pass :: check where "pass \<equiv> Ok ()"

fun bind_r :: "'a result \<Rightarrow> ('a \<Rightarrow> 'b result) \<Rightarrow> 'b result" where
  "bind_r (Ok x) f = f x"
| "bind_r (Err e) f = Err e"
| "bind_r Panic f = Panic"

text \<open>Dereferencing a pointer.\<close>

definition deref :: "'a option \<Rightarrow> 'a result" where
  "deref p = (case p of None \<Rightarrow> Panic | Some x \<Rightarrow> Ok x)"

text \<open>
  The idiom \<^verbatim>\<open>if err := f(x); err != nil { return err }\<close> repeated: the first
  check that does not pass decides.
\<close>

fun first_err :: "check list \<Rightarrow> check" where
  "first_err [] = pass"
| "first_err (Ok _ # cs) = first_err cs"
| "first_err (Err e # cs) = Err e"
| "first_err (Panic # cs) = Panic"

text \<open>The idiom \<^verbatim>\<open>for _, x := range xs { if err := f(x); err != nil { return err } }\<close>.\<close>

definition for_all_r :: "('a \<Rightarrow> check) \<Rightarrow> 'a list \<Rightarrow> check" where
  "for_all_r f xs = first_err (map f xs)"

definition is_ok :: "'a result \<Rightarrow> bool" where
  "is_ok r = (case r of Ok _ \<Rightarrow> True | _ \<Rightarrow> False)"

lemma is_ok_simps [simp]: "is_ok (Ok x)" "\<not> is_ok (Err e)" "\<not> is_ok Panic"
  by (simp_all add: is_ok_def)

lemma is_ok_pass [simp]: "is_ok c \<longleftrightarrow> c = pass" for c :: check
  by (cases c) auto

lemma deref_simps [simp]: "deref (Some x) = Ok x" "deref None = Panic"
  by (simp_all add: deref_def)

lemma deref_eq_Ok [simp]: "deref p = Ok x \<longleftrightarrow> p = Some x"
  by (cases p) auto

lemma bind_r_eq_Ok: "bind_r r f = Ok y \<longleftrightarrow> (\<exists>x. r = Ok x \<and> f x = Ok y)"
  by (cases r) auto

lemma bind_r_eq_Err: "bind_r r f = Err e \<longleftrightarrow> r = Err e \<or> (\<exists>x. r = Ok x \<and> f x = Err e)"
  by (cases r) auto

lemma bind_r_eq_Panic: "bind_r r f = Panic \<longleftrightarrow> r = Panic \<or> (\<exists>x. r = Ok x \<and> f x = Panic)"
  by (cases r) auto

lemma bind_r_if: "bind_r (if b then r else s) f = (if b then bind_r r f else bind_r s f)"
  by simp

lemma first_err_eq_pass [check_rules]: "first_err cs = pass \<longleftrightarrow> (\<forall>c \<in> set cs. c = pass)"
  by (induction cs rule: first_err.induct) auto

lemma first_err_append: "first_err (xs @ ys) = (if first_err xs = pass then first_err ys else first_err xs)"
  by (induction xs rule: first_err.induct) auto

text \<open>An error of a chain is the error of one of its checks, and all the checks before it passed.\<close>

lemma first_err_eq_Err [check_rules]:
  "first_err cs = Err e \<longleftrightarrow>
     (\<exists>i < length cs. cs ! i = Err e \<and> (\<forall>j < i. cs ! j = pass))"
  by (induction cs rule: first_err.induct) (simp_all add: Ex_less_Suc2 All_less_Suc2)

lemma first_err_in_set: "first_err cs = Err e \<Longrightarrow> Err e \<in> set cs"
  by (induction cs rule: first_err.induct) auto

lemma first_err_Panic_in_set: "first_err cs = Panic \<Longrightarrow> Panic \<in> set cs"
  by (induction cs rule: first_err.induct) auto

lemma for_all_r_pass [check_rules]: "for_all_r f xs = pass \<longleftrightarrow> (\<forall>x \<in> set xs. f x = pass)"
  by (auto simp: for_all_r_def first_err_eq_pass)

lemma for_all_r_Nil [simp]: "for_all_r f [] = pass"
  by (simp add: for_all_r_def)

lemma for_all_r_Cons [simp]:
  "for_all_r f (x # xs) = (if f x = pass then for_all_r f xs else f x)"
  by (cases "f x") (auto simp: for_all_r_def)

lemma for_all_r_Err_in: "for_all_r f xs = Err e \<Longrightarrow> \<exists>x \<in> set xs. f x = Err e"
  unfolding for_all_r_def by (drule first_err_in_set) auto

lemma for_all_r_Panic_in: "for_all_r f xs = Panic \<Longrightarrow> \<exists>x \<in> set xs. f x = Panic"
  unfolding for_all_r_def by (drule first_err_Panic_in_set) (auto dest: sym)

section \<open>Go strings\<close>

definition HasPrefix :: "string \<Rightarrow> string \<Rightarrow> bool" where
  "HasPrefix s p = prefix p s"

definition HasSuffix :: "string \<Rightarrow> string \<Rightarrow> bool" where
  "HasSuffix s p = suffix p s"

definition TrimPrefix :: "string \<Rightarrow> string \<Rightarrow> string" where
  "TrimPrefix s p = (if prefix p s then drop (length p) s else s)"

definition TrimSuffix :: "string \<Rightarrow> string \<Rightarrow> string" where
  "TrimSuffix s p = (if suffix p s then take (length s - length p) s else s)"

definition Contains_str :: "string \<Rightarrow> string \<Rightarrow> bool" where
  "Contains_str s p = sublist p s"

text \<open>\<^verbatim>\<open>strings.Split\<close> with a one-byte separator: always at least one part.\<close>

fun Split :: "string \<Rightarrow> char \<Rightarrow> string list" where
  "Split [] sep = [[]]"
| "Split (c # cs) sep =
     (if c = sep then [] # Split cs sep
      else (case Split cs sep of [] \<Rightarrow> [[c]] | p # ps \<Rightarrow> (c # p) # ps))"

text \<open>\<^verbatim>\<open>strings.Join\<close>.\<close>

fun Join :: "string list \<Rightarrow> string \<Rightarrow> string" where
  "Join [] sep = []"
| "Join [x] sep = x"
| "Join (x # y # ys) sep = x @ sep @ Join (y # ys) sep"

text \<open>\<^verbatim>\<open>strings.Cut\<close> at a one-byte separator: text before, text after, found.\<close>

fun Cut :: "string \<Rightarrow> char \<Rightarrow> string \<times> string \<times> bool" where
  "Cut [] sep = ([], [], False)"
| "Cut (c # cs) sep =
     (if c = sep then ([], cs, True)
      else (case Cut cs sep of (a, b, ok) \<Rightarrow> (c # a, b, ok)))"

text \<open>\<^verbatim>\<open>strings.LastIndex\<close> of a one-byte pattern.\<close>

fun LastIndex :: "string \<Rightarrow> char \<Rightarrow> nat option" where
  "LastIndex [] c = None"
| "LastIndex (x # xs) c =
     (case LastIndex xs c of Some i \<Rightarrow> Some (Suc i) | None \<Rightarrow> if x = c then Some 0 else None)"

text \<open>
  \<^verbatim>\<open>strings.TrimSpace\<close>: the UTF-8 encodings of the runes for which
  \<^verbatim>\<open>unicode.IsSpace\<close> holds are removed at both ends.
\<close>

definition byte :: "nat \<Rightarrow> char" where
  "byte n = char_of n"

definition space_runes :: "string list" where
  "space_runes =
     map (\<lambda>n. [byte n]) [9, 10, 11, 12, 13, 32] @
     [[byte 194, byte 133], [byte 194, byte 160], [byte 225, byte 154, byte 128]] @
     map (\<lambda>n. [byte 226, byte 128, byte n]) ([128 ..< 139] @ [168, 169, 175]) @
     [[byte 226, byte 129, byte 159], [byte 227, byte 128, byte 128]]"

lemma space_runes_nonempty: "p \<in> set space_runes \<Longrightarrow> 0 < length p"
  by (auto simp: space_runes_def)

function trim_left_of :: "string list \<Rightarrow> string \<Rightarrow> string" where
  "trim_left_of rs s =
     (case find (\<lambda>p. p \<noteq> [] \<and> prefix p s) rs of
        None \<Rightarrow> s
      | Some p \<Rightarrow> trim_left_of rs (drop (length p) s))"
  by pat_completeness auto
termination
proof (relation "measure (\<lambda>(rs, s). length s)", goal_cases)
  case 1
  then show ?case by simp
next
  case (2 rs s p)
  then have "p \<noteq> []" "prefix p s"
    by (auto simp: find_Some_iff)
  then have "0 < length p" "length p \<le> length s"
    by (auto dest: prefix_length_le)
  then have "length s - length p < length s"
    by linarith
  then show ?case
    by simp
qed

declare trim_left_of.simps [simp del]

definition TrimSpace :: "string \<Rightarrow> string" where
  "TrimSpace s =
     rev (trim_left_of (map rev space_runes) (rev (trim_left_of space_runes s)))"

lemma trim_left_of_suffix: "suffix (trim_left_of rs s) s"
proof (induction rs s rule: trim_left_of.induct)
  case (1 rs s)
  show ?case
  proof (cases "find (\<lambda>p. p \<noteq> [] \<and> prefix p s) rs")
    case None
    then show ?thesis by (simp add: trim_left_of.simps [of rs s])
  next
    case (Some p)
    with 1 have "suffix (trim_left_of rs (drop (length p) s)) (drop (length p) s)" by simp
    also have "suffix (drop (length p) s) s" by (rule suffix_drop)
    finally show ?thesis
      using Some by (simp add: trim_left_of.simps [of rs s])
  qed
qed

lemma trim_left_of_no_space:
  "(\<And>p. p \<in> set rs \<Longrightarrow> p \<noteq> [] \<Longrightarrow> \<not> prefix p s) \<Longrightarrow> trim_left_of rs s = s"
  by (subst trim_left_of.simps) (auto split: option.splits simp: find_Some_iff)

lemma TrimSpace_Nil [simp]: "TrimSpace [] = []"
  by (simp add: TrimSpace_def trim_left_of_no_space)

text \<open>Trimming never lengthens a string, so a non-empty trimmed string comes from a non-empty one.\<close>

lemma length_TrimSpace_le: "length (TrimSpace s) \<le> length s"
proof -
  have "length (trim_left_of (map rev space_runes) (rev (trim_left_of space_runes s)))
      \<le> length (trim_left_of space_runes s)"
    using suffix_length_le [OF trim_left_of_suffix,
      of "map rev space_runes" "rev (trim_left_of space_runes s)"] by simp
  also have "\<dots> \<le> length s"
    by (rule suffix_length_le [OF trim_left_of_suffix])
  finally show ?thesis by (simp add: TrimSpace_def)
qed

text \<open>\<^verbatim>\<open>%q\<close> and \<^verbatim>\<open>%d\<close> of \<^verbatim>\<open>fmt.Sprintf\<close>.\<close>

definition quote_char :: "char \<Rightarrow> string" where
  "quote_char c =
     (if c = CHR 0x22 then [CHR 0x5C, CHR 0x22]
      else if c = CHR 0x5C then [CHR 0x5C, CHR 0x5C]
      else if c = byte 10 then [CHR 0x5C, CHR ''n'']
      else if c = byte 13 then [CHR 0x5C, CHR ''r'']
      else if c = byte 9 then [CHR 0x5C, CHR ''t'']
      else [c])"

definition go_quote :: "string \<Rightarrow> string" where
  "go_quote s = [CHR 0x22] @ concat (map quote_char s) @ [CHR 0x22]"

fun show_nat :: "nat \<Rightarrow> string" where
  "show_nat n =
     (if n < 10 then [byte (48 + n)] else show_nat (n div 10) @ [byte (48 + n mod 10)])"

declare show_nat.simps [simp del]

definition show_int :: "int \<Rightarrow> string" where
  "show_int i = (if i < 0 then CHR ''-'' # show_nat (nat (- i)) else show_nat (nat i))"

text \<open>The wrap-around of \<open>int64\<close>, and division that truncates towards zero, by a positive number.\<close>

definition wrap64 :: "int \<Rightarrow> int" where
  "wrap64 x = (x + 2 ^ 63) mod 2 ^ 64 - 2 ^ 63"

definition quot64 :: "int \<Rightarrow> int \<Rightarrow> int" where
  "quot64 a b = (if 0 \<le> a then a div b else - (- a div b))"

lemma wrap64_id: "- (2 ^ 63) \<le> x \<Longrightarrow> x < 2 ^ 63 \<Longrightarrow> wrap64 x = x"
  by (simp add: wrap64_def mod_pos_pos_trivial)

lemma quot64_nonneg [simp]: "0 \<le> a \<Longrightarrow> quot64 a b = a div b"
  by (simp add: quot64_def)

text \<open>\<^verbatim>\<open>strconv.ParseInt(s, 10, bits)\<close>.\<close>

definition digit :: "char \<Rightarrow> nat option" where
  "digit c = (let n = of_char c :: nat in if 48 \<le> n \<and> n \<le> 57 then Some (n - 48) else None)"

fun parse_digits :: "nat \<Rightarrow> string \<Rightarrow> nat option" where
  "parse_digits acc [] = Some acc"
| "parse_digits acc (c # cs) =
     (case digit c of None \<Rightarrow> None | Some d \<Rightarrow> parse_digits (10 * acc + d) cs)"

definition split_sign :: "string \<Rightarrow> bool \<times> string" where
  "split_sign s = (case s of
     c # cs \<Rightarrow> if c = CHR ''-'' then (True, cs) else if c = CHR ''+'' then (False, cs) else (False, s)
   | [] \<Rightarrow> (False, s))"

definition ParseInt_syntax :: "string \<Rightarrow> bool" where
  "ParseInt_syntax s \<longleftrightarrow> (let t = snd (split_sign s) in t \<noteq> [] \<and> parse_digits 0 t \<noteq> None)"

definition ParseInt :: "nat \<Rightarrow> string \<Rightarrow> int option" where
  "ParseInt bits s =
     (let (neg, t) = split_sign s
      in if t = [] then None
         else case parse_digits 0 t of
                None \<Rightarrow> None
              | Some n \<Rightarrow>
                  (let v = (if neg then - int n else int n)
                   in if - (2 ^ (bits - 1)) \<le> v \<and> v < 2 ^ (bits - 1) then Some v else None))"

lemma ParseInt_range:
  "ParseInt bits s = Some v \<Longrightarrow> - (2 ^ (bits - 1)) \<le> v \<and> v < 2 ^ (bits - 1)"
  by (auto simp: ParseInt_def split_sign_def Let_def split: list.splits if_splits option.splits)

lemma digit_byte: "n < 10 \<Longrightarrow> digit (byte (48 + n)) = Some n"
  by (simp add: digit_def byte_def Let_def)

lemma parse_digits_append:
  "parse_digits acc (s @ [byte (48 + d)]) = map_option (\<lambda>m. 10 * m + d) (parse_digits acc s)"
  if "d < 10"
  using that by (induction s arbitrary: acc) (auto simp: digit_byte split: option.splits)

lemma parse_digits_show_nat: "parse_digits 0 (show_nat n) = Some n"
proof (induction n rule: show_nat.induct)
  case (1 n)
  show ?case
  proof (cases "n < 10")
    case True
    then show ?thesis by (simp add: show_nat.simps [of n] digit_byte)
  next
    case False
    with 1 have "parse_digits 0 (show_nat (n div 10)) = Some (n div 10)" by simp
    with False show ?thesis
      by (simp add: show_nat.simps [of n] parse_digits_append)
  qed
qed

lemma show_nat_nonempty: "show_nat n \<noteq> []"
  by (subst show_nat.simps) simp

lemma hd_show_nat_digit: "\<exists>d < 10. hd (show_nat n) = byte (48 + d)"
proof (induction n rule: show_nat.induct)
  case (1 n)
  then show ?case
    by (subst show_nat.simps) (auto simp: show_nat_nonempty)
qed

text \<open>Reading back a printed number: the round trip of \<^verbatim>\<open>%d\<close> and \<open>ParseInt\<close>.\<close>

lemma byte_not_sign: "d < 10 \<Longrightarrow> byte (48 + d) \<noteq> CHR ''-''" "d < 10 \<Longrightarrow> byte (48 + d) \<noteq> CHR ''+''"
proof -
  have "of_char (byte (48 + d)) = 48 + d" if "d < 10"
    using that by (simp add: byte_def)
  moreover have "of_char CHR ''-'' = (45 :: nat)" "of_char CHR ''+'' = (43 :: nat)"
    by simp_all
  ultimately show "d < 10 \<Longrightarrow> byte (48 + d) \<noteq> CHR ''-''" "d < 10 \<Longrightarrow> byte (48 + d) \<noteq> CHR ''+''"
    by force+
qed

lemma ParseInt_show_nat:
  assumes "n < 2 ^ (bits - 1)"
  shows "ParseInt bits (show_nat n) = Some (int n)"
proof -
  obtain c cs where s: "show_nat n = c # cs"
    using show_nat_nonempty by (cases "show_nat n") auto
  with hd_show_nat_digit [of n] obtain d where "d < 10" "c = byte (48 + d)" by auto
  then have "c \<noteq> CHR ''-''" "c \<noteq> CHR ''+''" by (auto dest: byte_not_sign)
  moreover have "int n < 2 ^ (bits - 1)"
    using assms by (metis of_nat_less_iff of_nat_numeral of_nat_power)
  moreover have "- (2 ^ (bits - 1)) \<le> int n"
    by (rule order_trans [of _ 0]) auto
  ultimately show ?thesis
    using parse_digits_show_nat [of n] s by (auto simp: ParseInt_def split_sign_def)
qed

section \<open>Lemmas on Go strings\<close>

lemma Split_ne_Nil [simp]: "Split s sep \<noteq> []"
  by (induction s) (auto split: list.splits)

lemma Join_Split: "Join (Split s sep) [sep] = s"
proof (induction s)
  case (Cons c cs)
  then show ?case
    by (cases "Split cs sep"; cases "tl (Split cs sep)") auto
qed simp

lemma Split_append_sep: "sep \<notin> set x \<Longrightarrow> Split (x @ sep # s) sep = x # Split s sep"
  by (induction x) (auto split: list.splits)

lemma Split_no_sep: "sep \<notin> set x \<Longrightarrow> Split x sep = [x]"
  by (induction x) auto

lemma Split_Join:
  "xs \<noteq> [] \<Longrightarrow> (\<And>x. x \<in> set xs \<Longrightarrow> sep \<notin> set x) \<Longrightarrow> Split (Join xs [sep]) sep = xs"
  by (induction xs "[sep]" rule: Join.induct) (simp_all add: Split_append_sep Split_no_sep)

lemma TrimPrefix_append [simp, go_string]: "TrimPrefix (p @ s) p = s"
  by (simp add: TrimPrefix_def)

lemma TrimSuffix_append [simp, go_string]: "TrimSuffix (s @ p) p = s"
  by (simp add: TrimSuffix_def suffix_def)

lemma HasPrefix_append [simp, go_string]: "HasPrefix (p @ s) p"
  by (simp add: HasPrefix_def)

lemma HasSuffix_append [simp, go_string]: "HasSuffix (s @ p) p"
  by (simp add: HasSuffix_def suffix_def)

lemma Cut_eq:
  "Cut s sep = (a, b, ok) \<Longrightarrow> (if ok then s = a @ sep # b \<and> sep \<notin> set a else a = s \<and> b = [] \<and> sep \<notin> set s)"
  by (induction s arbitrary: a b ok) (auto split: if_splits prod.splits)

lemma LastIndex_None: "LastIndex s c = None \<longleftrightarrow> c \<notin> set s"
  by (induction s) (auto split: option.splits)

lemma LastIndex_append: "c \<notin> set t \<Longrightarrow> LastIndex (s @ c # t) c = Some (length s)"
  by (induction s) (auto simp: LastIndex_None split: option.splits)

section \<open>Slices keyed by a name\<close>

text \<open>
  The operator keeps environment variables, volumes and mounts in slices and treats the
  \<open>Name\<close> field as the key.
\<close>

fun first_with :: "('a \<Rightarrow> string) \<Rightarrow> string \<Rightarrow> 'a list \<Rightarrow> 'a option" where
  "first_with key n [] = None"
| "first_with key n (x # xs) = (if key x = n then Some x else first_with key n xs)"

lemma first_with_None: "first_with key n xs = None \<longleftrightarrow> n \<notin> key ` set xs"
  by (induction xs) auto

lemma first_with_append:
  "first_with key n (xs @ ys) =
     (case first_with key n xs of Some x \<Rightarrow> Some x | None \<Rightarrow> first_with key n ys)"
  by (induction xs) auto

lemma first_with_SomeD: "first_with key n xs = Some x \<Longrightarrow> x \<in> set xs \<and> key x = n"
  by (induction xs) (auto split: if_splits)

lemma first_with_filter:
  "(\<And>x. key x = n \<Longrightarrow> P x) \<Longrightarrow> first_with key n (filter P xs) = first_with key n xs"
  by (induction xs) auto

section \<open>Validation checks\<close>

text \<open>Rejecting a request: a validation error unless the condition holds.\<close>

definition require :: "bool \<Rightarrow> string \<Rightarrow> check" where
  "require b msg = (if b then pass else Err (ValidationError msg))"

lemma require_simps [simp]:
  "require b msg = pass \<longleftrightarrow> b" "require b msg \<noteq> Panic" "Panic \<noteq> require b msg"
  "require b msg = Err e \<longleftrightarrow> \<not> b \<and> e = ValidationError msg"
  "Err e = require b msg \<longleftrightarrow> \<not> b \<and> e = ValidationError msg"
  by (auto simp: require_def)

text \<open>The comparison of one field of an old and a new sub-specification, both dereferenced.\<close>

definition unchanged :: "string \<Rightarrow> ('s \<Rightarrow> string) \<Rightarrow> 's option \<Rightarrow> 's option \<Rightarrow> check" where
  "unchanged msg field old new =
     bind_r (deref old) (\<lambda>o'. bind_r (deref new) (\<lambda>n. require (field o' = field n) msg))"

lemma unchanged_pass [simp]:
  "unchanged msg field old new = pass \<longleftrightarrow>
     old \<noteq> None \<and> new \<noteq> None \<and> map_option field old = map_option field new"
  by (cases old; cases new) (simp_all add: unchanged_def)

lemma unchanged_Panic [simp]:
  "unchanged msg field old new = Panic \<longleftrightarrow> old = None \<or> new = None"
  by (cases old; cases new) (simp_all add: unchanged_def)

text \<open>
  A check that neither panics nor fails with anything but a validation error: the outcomes that the
  admission handlers can turn into a verdict.
\<close>

definition vcheck :: "check \<Rightarrow> bool" where
  "vcheck c \<longleftrightarrow> c \<noteq> Panic \<and> (\<forall>e. c = Err e \<longrightarrow> IsValidationError e)"

lemma vcheck_simps [simp, check_rules]:
  "vcheck pass" "vcheck (require b msg)" "vcheck (Err e) \<longleftrightarrow> IsValidationError e" "\<not> vcheck Panic"
  by (auto simp: vcheck_def require_def)

lemma vcheck_first_err [check_rules]: "(\<And>c. c \<in> set cs \<Longrightarrow> vcheck c) \<Longrightarrow> vcheck (first_err cs)"
  using first_err_in_set first_err_Panic_in_set by (metis IsValidationError.elims(2) vcheck_def)

lemma vcheck_for_all_r [check_rules]: "(\<And>x. x \<in> set xs \<Longrightarrow> vcheck (f x)) \<Longrightarrow> vcheck (for_all_r f xs)"
  unfolding for_all_r_def by (rule vcheck_first_err) auto

text \<open>A chain whose first check fails never looks at the others.\<close>

lemma first_err_Cons:
  "first_err (c # cs) = (if c = pass then first_err cs else c)"
  by (cases c) simp_all

lemma vcheck_chain: "vcheck c \<Longrightarrow> (c = pass \<Longrightarrow> vcheck (first_err cs)) \<Longrightarrow> vcheck (first_err (c # cs))"
  by (cases c) auto

end
