(* ===== verification/Api_Types.thy ===== *)
theory Api_Types
  imports Prelude
begin

text \<open>
  The custom resources of \<^verbatim>\<open>pkg/apis/noobaa/v1alpha1\<close>: one record per struct and one
  datatype per string enumeration.  A Go pointer field is an option.  In an enumeration the
  constructor ending in \<open>Other\<close> stands for a string that is none of the declared constants
  (the custom resource is only checked by the admission handlers, so such values do reach the
  code); the zero value of a phase is the constructor ending in \<open>None\<close>.  Fields that no
  modelled operation reads (list metadata, related objects, image names and the like) are left
  out of the records.
\<close>

section \<open>Kubernetes metadata\<close>

record SecretReference =
  sr_Name :: string
  sr_Namespace :: string

record OwnerReference =
  or_APIVersion :: string
  or_Kind :: string
  or_Name :: string
  or_UID :: string
  or_BlockOwnerDeletion :: bool

text \<open>
  The part of \<open>metav1.ObjectMeta\<close> the operator uses.  A label or annotation map that is nil is
  \<open>None\<close>; reading a missing key of a Go map gives the empty string (\<open>map_get\<close>).
\<close>

record ObjectMeta =
  om_Name :: string
  om_Namespace :: string
  om_UID :: string
  om_Generation :: int
  om_Labels :: "(string \<rightharpoonup> string) option"
  om_Annotations :: "(string \<rightharpoonup> string) option"
  om_Finalizers :: "string list"
  om_OwnerReferences :: "OwnerReference list"
  om_DeletionTimestamp :: "int option"
  om_CreationTimestamp :: int

definition map_get :: "(string \<rightharpoonup> string) option \<Rightarrow> string \<Rightarrow> string" where
  "map_get m k = (case m of None \<Rightarrow> [] | Some f \<Rightarrow> (case f k of None \<Rightarrow> [] | Some v \<Rightarrow> v))"

text \<open>
  A \<open>resource.Quantity\<close> is a fixed-point number with nine decimal places; it is modelled by
  its value in units of one billionth.  \<open>Value\<close> and \<open>MilliValue\<close> round away from zero.
\<close>

type_synonym quantity = int

definition round_away :: "int \<Rightarrow> int \<Rightarrow> int" where
  "round_away unit q = (if 0 \<le> q then (q + unit - 1) div unit else - ((- q + unit - 1) div unit))"

definition q_Value :: "quantity \<Rightarrow> int" where
  "q_Value q = round_away (10 ^ 9) q"

definition q_MilliValue :: "quantity \<Rightarrow> int" where
  "q_MilliValue q = round_away (10 ^ 6) q"

definition of_units :: "int \<Rightarrow> quantity" where
  "of_units n = n * 10 ^ 9"

definition of_milli :: "int \<Rightarrow> quantity" where
  "of_milli n = n * 10 ^ 6"

definition q_Cmp :: "quantity \<Rightarrow> quantity \<Rightarrow> int" where
  "q_Cmp a b = (if a < b then - 1 else if a = b then 0 else 1)"

lemma q_Value_of_units [simp]: "q_Value (of_units n) = n"
proof (cases "0 \<le> n")
  case True
  then show ?thesis by (simp add: q_Value_def of_units_def round_away_def; presburger)
next
  case False
  then show ?thesis by (simp add: q_Value_def of_units_def round_away_def; presburger)
qed

lemma q_MilliValue_of_milli [simp]: "q_MilliValue (of_milli n) = n"
proof (cases "0 \<le> n")
  case True
  then show ?thesis by (simp add: q_MilliValue_def of_milli_def round_away_def; presburger)
next
  case False
  then show ?thesis by (simp add: q_MilliValue_def of_milli_def round_away_def; presburger)
qed

lemma q_Cmp_simps [simp]:
  "q_Cmp a b = - 1 \<longleftrightarrow> a < b" "q_Cmp a b < 0 \<longleftrightarrow> a < b" "0 < q_Cmp a b \<longleftrightarrow> b < a" "q_Cmp a b = 0 \<longleftrightarrow> a = b"
  by (auto simp: q_Cmp_def)

datatype ResourceName = ResourceCPU | ResourceMemory | ResourceStorage

fun resource_name :: "ResourceName \<Rightarrow> string" where
  "resource_name ResourceCPU = ''cpu''"
| "resource_name ResourceMemory = ''memory''"
| "resource_name ResourceStorage = ''storage''"

type_synonym ResourceList = "ResourceName \<rightharpoonup> quantity"

text \<open>\<open>corev1.VolumeResourceRequirements\<close> and \<open>corev1.ResourceRequirements\<close>.\<close>

record ResourceRequirements =
  rr_Requests :: ResourceList
  rr_Limits :: ResourceList

section \<open>Tolerations\<close>

datatype TolerationOperator = TolerationOpEqual | TolerationOpExists | TolerationOpEmpty | TolerationOpOther string

text \<open>The taint effect: \<open>NoExecute\<close>, the empty effect (all effects), or another one.\<close>

datatype TaintEffect = TaintEffectNoExecute | TaintEffectNoSchedule | TaintEffectPreferNoSchedule | TaintEffectEmpty

text \<open>
  \<open>TolerationSeconds\<close> is a pointer; the comparison \<^verbatim>\<open>ss == t\<close> of the source compares
  pointers, so the model keeps an address beside the value.
\<close>

record Toleration =
  tol_Key :: string
  tol_Operator :: TolerationOperator
  tol_Value :: string
  tol_Effect :: TaintEffect
  tol_Seconds :: "(nat \<times> int) option"

section \<open>Conditions\<close>

datatype ConditionType =
    ConditionAvailable | ConditionProgressing | ConditionDegraded | ConditionUpgradeable
  | ConditionOther string

datatype ConditionStatus = ConditionTrue | ConditionFalse | ConditionUnknown | ConditionStatusOther string

record Condition =
  c_Type :: ConditionType
  c_Status :: ConditionStatus
  c_Reason :: string
  c_Message :: string

section \<open>Backing stores\<close>

datatype StoreType =
    StoreTypeAWSS3 | StoreTypeS3Compatible | StoreTypeIBMCos | StoreTypeGoogleCloudStorage
  | StoreTypeAzureBlob | StoreTypePVPool | StoreTypeOther string

fun store_type_string :: "StoreType \<Rightarrow> string" where
  "store_type_string StoreTypeAWSS3 = ''aws-s3''"
| "store_type_string StoreTypeS3Compatible = ''s3-compatible''"
| "store_type_string StoreTypeIBMCos = ''ibm-cos''"
| "store_type_string StoreTypeGoogleCloudStorage = ''google-cloud-storage''"
| "store_type_string StoreTypeAzureBlob = ''azure-blob''"
| "store_type_string StoreTypePVPool = ''pv-pool''"
| "store_type_string (StoreTypeOther s) = s"

datatype S3SignatureVersion =
  S3SignatureVersionV4 | S3SignatureVersionV2 | S3SignatureVersionEmpty | S3SignatureVersionOther string

fun sig_version_string :: "S3SignatureVersion \<Rightarrow> string" where
  "sig_version_string S3SignatureVersionV4 = ''v4''"
| "sig_version_string S3SignatureVersionV2 = ''v2''"
| "sig_version_string S3SignatureVersionEmpty = ''''"
| "sig_version_string (S3SignatureVersionOther s) = s"

datatype BackingStorePhase =
    BackingStorePhaseNone | BackingStorePhaseRejected | BackingStorePhaseVerifying
  | BackingStorePhaseConnecting | BackingStorePhaseCreating | BackingStorePhaseReady
  | BackingStorePhaseDeleting

fun bs_phase_string :: "BackingStorePhase \<Rightarrow> string" where
  "bs_phase_string BackingStorePhaseNone = ''''"
| "bs_phase_string BackingStorePhaseRejected = ''Rejected''"
| "bs_phase_string BackingStorePhaseVerifying = ''Verifying''"
| "bs_phase_string BackingStorePhaseConnecting = ''Connecting''"
| "bs_phase_string BackingStorePhaseCreating = ''Creating''"
| "bs_phase_string BackingStorePhaseReady = ''Ready''"
| "bs_phase_string BackingStorePhaseDeleting = ''Deleting''"

record AWSS3Spec =
  aws_TargetBucket :: string
  aws_Secret :: SecretReference
  aws_Region :: string
  aws_SSLDisabled :: bool
  aws_AWSSTSRoleARN :: "string option"

record S3CompatibleSpec =
  s3c_TargetBucket :: string
  s3c_Secret :: SecretReference
  s3c_Endpoint :: string
  s3c_SignatureVersion :: S3SignatureVersion

record IBMCosSpec =
  ibm_TargetBucket :: string
  ibm_Secret :: SecretReference
  ibm_Endpoint :: string
  ibm_SignatureVersion :: S3SignatureVersion

record AzureBlobSpec =
  az_TargetBlobContainer :: string
  az_Secret :: SecretReference
  az_ClientId :: "string option"
  az_TenantId :: "string option"
  az_SubscriptionId :: "string option"
  az_ResourcegroupId :: "string option"

record GoogleCloudStorageSpec =
  gcs_TargetBucket :: string
  gcs_Secret :: SecretReference

record PVPoolSpec =
  pv_StorageClass :: string
  pv_NumVolumes :: int
  pv_VolumeResources :: "ResourceRequirements option"
  pv_PriorityClassName :: string
  pv_Secret :: SecretReference

record BackingStoreSpec =
  bss_Type :: StoreType
  bss_AWSS3 :: "AWSS3Spec option"
  bss_S3Compatible :: "S3CompatibleSpec option"
  bss_IBMCos :: "IBMCosSpec option"
  bss_AzureBlob :: "AzureBlobSpec option"
  bss_GoogleCloudStorage :: "GoogleCloudStorageSpec option"
  bss_PVPool :: "PVPoolSpec option"

record BackingStoreMode =
  mode_ModeCode :: string
  mode_TimeStamp :: string

record BackingStoreStatus =
  bst_Phase :: BackingStorePhase
  bst_Conditions :: "Condition list"
  bst_Mode :: BackingStoreMode

record BackingStore =
  bs_Meta :: ObjectMeta
  bs_Spec :: BackingStoreSpec
  bs_Status :: BackingStoreStatus

abbreviation bs_Name :: "BackingStore \<Rightarrow> string" where "bs_Name bs \<equiv> om_Name (bs_Meta bs)"
abbreviation bs_Namespace :: "BackingStore \<Rightarrow> string" where "bs_Namespace bs \<equiv> om_Namespace (bs_Meta bs)"
abbreviation bs_Type :: "BackingStore \<Rightarrow> StoreType" where "bs_Type bs \<equiv> bss_Type (bs_Spec bs)"

section \<open>Namespace stores\<close>

datatype NSType =
    NSStoreTypeAWSS3 | NSStoreTypeS3Compatible | NSStoreTypeIBMCos | NSStoreTypeAzureBlob
  | NSStoreTypeGoogleCloudStorage | NSStoreTypeNSFS | NSStoreTypeOther string

fun ns_type_string :: "NSType \<Rightarrow> string" where
  "ns_type_string NSStoreTypeAWSS3 = ''aws-s3''"
| "ns_type_string NSStoreTypeS3Compatible = ''s3-compatible''"
| "ns_type_string NSStoreTypeIBMCos = ''ibm-cos''"
| "ns_type_string NSStoreTypeAzureBlob = ''azure-blob''"
| "ns_type_string NSStoreTypeGoogleCloudStorage = ''google-cloud-storage''"
| "ns_type_string NSStoreTypeNSFS = ''nsfs''"
| "ns_type_string (NSStoreTypeOther s) = s"

datatype NamespaceStorePhase =
    NamespaceStorePhaseNone | NamespaceStorePhaseRejected | NamespaceStorePhaseVerifying
  | NamespaceStorePhaseConnecting | NamespaceStorePhaseCreating | NamespaceStorePhaseReady
  | NamespaceStorePhaseDeleting

fun ns_phase_string :: "NamespaceStorePhase \<Rightarrow> string" where
  "ns_phase_string NamespaceStorePhaseNone = ''''"
| "ns_phase_string NamespaceStorePhaseRejected = ''Rejected''"
| "ns_phase_string NamespaceStorePhaseVerifying = ''Verifying''"
| "ns_phase_string NamespaceStorePhaseConnecting = ''Connecting''"
| "ns_phase_string NamespaceStorePhaseCreating = ''Creating''"
| "ns_phase_string NamespaceStorePhaseReady = ''Ready''"
| "ns_phase_string NamespaceStorePhaseDeleting = ''Deleting''"

record NSFSSpec =
  nsfs_PvcName :: string
  nsfs_SubPath :: string
  nsfs_FsBackend :: string

datatype AccessModeType = AccessModeReadWrite | AccessModeReadOnly | AccessModeOther string

record NamespaceStoreSpec =
  nss_Type :: NSType
  nss_AccessMode :: AccessModeType
  nss_Archive :: bool
  nss_AWSS3 :: "AWSS3Spec option"
  nss_S3Compatible :: "S3CompatibleSpec option"
  nss_IBMCos :: "IBMCosSpec option"
  nss_AzureBlob :: "AzureBlobSpec option"
  nss_GoogleCloudStorage :: "GoogleCloudStorageSpec option"
  nss_NSFS :: "NSFSSpec option"

record NamespaceStoreStatus =
  nst_Phase :: NamespaceStorePhase
  nst_Conditions :: "Condition list"
  nst_ModeCode :: string

record NamespaceStore =
  ns_Meta :: ObjectMeta
  ns_Spec :: NamespaceStoreSpec
  ns_Status :: NamespaceStoreStatus

abbreviation ns_Name :: "NamespaceStore \<Rightarrow> string" where "ns_Name ns \<equiv> om_Name (ns_Meta ns)"
abbreviation ns_Namespace :: "NamespaceStore \<Rightarrow> string" where "ns_Namespace ns \<equiv> om_Namespace (ns_Meta ns)"
abbreviation ns_Type :: "NamespaceStore \<Rightarrow> NSType" where "ns_Type ns \<equiv> nss_Type (ns_Spec ns)"

section \<open>Bucket classes\<close>

datatype TierPlacement = TierPlacementSingle | TierPlacementMirror | TierPlacementSpread | TierPlacementOther string

record Tier =
  tier_Placement :: TierPlacement
  tier_BackingStores :: "string list"

record PlacementPolicy =
  pp_Tiers :: "Tier list"

datatype NSBucketClassType =
  NSBucketClassTypeSingle | NSBucketClassTypeMulti | NSBucketClassTypeCache | NSBucketClassTypeOther string

record MultiNamespacePolicy =
  multi_ReadResources :: "string list"
  multi_WriteResource :: string

record CacheSpec =
  cache_TTL :: int
  cache_Prefix :: string

record CacheNamespacePolicy =
  cache_HubResource :: string
  cache_Caching :: "CacheSpec option"

record NamespacePolicy =
  np_Type :: NSBucketClassType
  np_Single :: "string option"
  np_Multi :: "MultiNamespacePolicy option"
  np_Cache :: "CacheNamespacePolicy option"

record Quota =
  quota_MaxSize :: string
  quota_MaxObjects :: string

record VectorPolicy =
  vp_Resource :: string
  vp_VectorDBType :: string

record ArchivePolicy =
  ap_DeepArchiveResource :: string

record BucketClassSpec =
  bcs_PlacementPolicy :: "PlacementPolicy option"
  bcs_NamespacePolicy :: "NamespacePolicy option"
  bcs_Quota :: "Quota option"
  bcs_ReplicationPolicy :: string
  bcs_VectorPolicy :: "VectorPolicy option"
  bcs_ArchivePolicy :: "ArchivePolicy option"

datatype BucketClassPhase =
    BucketClassPhaseNone | BucketClassPhaseRejected | BucketClassPhaseVerifying
  | BucketClassPhaseConfiguring | BucketClassPhaseReady | BucketClassPhaseDeleting

record BucketClassStatus =
  bct_Phase :: BucketClassPhase
  bct_Conditions :: "Condition list"
  bct_Mode :: string

record BucketClass =
  bc_Meta :: ObjectMeta
  bc_Spec :: BucketClassSpec
  bc_Status :: BucketClassStatus

abbreviation bc_Name :: "BucketClass \<Rightarrow> string" where "bc_Name bc \<equiv> om_Name (bc_Meta bc)"
abbreviation bc_Namespace :: "BucketClass \<Rightarrow> string" where "bc_Namespace bc \<equiv> om_Namespace (bc_Meta bc)"

section \<open>Accounts\<close>

record AccountNsfsConfig =
  nsfs_UID :: "int option"
  nsfs_GID :: "int option"
  nsfs_NewBucketsPath :: string
  nsfs_NsfsOnly :: bool
  nsfs_DistinguishedName :: string

record NooBaaAccountSpec =
  nas_AllowBucketCreate :: bool
  nas_NsfsAccountConfig :: "AccountNsfsConfig option"
  nas_DefaultResource :: string
  nas_ForceMd5Etag :: "bool option"

datatype NooBaaAccountPhase =
    NooBaaAccountPhaseNone | NooBaaAccountPhaseRejected | NooBaaAccountPhaseVerifying
  | NooBaaAccountPhaseConnecting | NooBaaAccountPhaseConfiguring | NooBaaAccountPhaseReady
  | NooBaaAccountPhaseDeleting

record NooBaaAccountStatus =
  nat_Phase :: NooBaaAccountPhase
  nat_Conditions :: "Condition list"

record NooBaaAccount =
  na_Meta :: ObjectMeta
  na_Spec :: NooBaaAccountSpec
  na_Status :: NooBaaAccountStatus

section \<open>The NooBaa system resource\<close>

datatype TLSProtocolVersion = VersionTLS12 | VersionTLS13 | VersionTLSOther string

fun tls_version_string :: "TLSProtocolVersion \<Rightarrow> string" where
  "tls_version_string VersionTLS12 = ''TLSv1.2''"
| "tls_version_string VersionTLS13 = ''TLSv1.3''"
| "tls_version_string (VersionTLSOther s) = s"

datatype TLSGroup =
    TLSGroupX25519 | TLSGroupSecp256r1 | TLSGroupSecp384r1 | TLSGroupSecp521r1
  | TLSGroupX25519MLKEM768 | TLSGroupSecP256r1MLKEM768 | TLSGroupSecP384r1MLKEM1024
  | TLSGroupOther string

fun tls_group_string :: "TLSGroup \<Rightarrow> string" where
  "tls_group_string TLSGroupX25519 = ''X25519''"
| "tls_group_string TLSGroupSecp256r1 = ''secp256r1''"
| "tls_group_string TLSGroupSecp384r1 = ''secp384r1''"
| "tls_group_string TLSGroupSecp521r1 = ''secp521r1''"
| "tls_group_string TLSGroupX25519MLKEM768 = ''X25519MLKEM768''"
| "tls_group_string TLSGroupSecP256r1MLKEM768 = ''SecP256r1MLKEM768''"
| "tls_group_string TLSGroupSecP384r1MLKEM1024 = ''SecP384r1MLKEM1024''"
| "tls_group_string (TLSGroupOther s) = s"

record TLSSecuritySpec =
  tls_TLSMinVersion :: "TLSProtocolVersion option"
  tls_TLSCiphers :: "string list"
  tls_TLSGroups :: "TLSGroup list"

datatype AutoscalerTypes = AutoscalerTypeNone | AutoscalerTypeKeda | AutoscalerTypeHPAV2 | AutoscalerTypeOther string

fun autoscaler_string :: "AutoscalerTypes \<Rightarrow> string" where
  "autoscaler_string AutoscalerTypeNone = ''''"
| "autoscaler_string AutoscalerTypeKeda = ''keda''"
| "autoscaler_string AutoscalerTypeHPAV2 = ''hpav2''"
| "autoscaler_string (AutoscalerTypeOther s) = s"

record AutoscalerSpec =
  as_AutoscalerType :: AutoscalerTypes
  as_PrometheusNamespace :: string

record LoadBalancerSourceSubnetSpec =
  lb_S3 :: "string list"
  lb_STS :: "string list"
  lb_IAM :: "string list"
  lb_Vectors :: "string list"

record EndpointsSpec =
  ep_MinCount :: int
  ep_MaxCount :: int
  ep_Resources :: "ResourceRequirements option"
  ep_AdditionalVirtualHosts :: "string list"

record VolumeSnapshotBackupSpec =
  vsb_VolumeSnapshotClass :: string
  vsb_MaxSnapshots :: int

record DBBackupSpec =
  dbb_Schedule :: string
  dbb_VolumeSnapshot :: "VolumeSnapshotBackupSpec option"

record NooBaaDBSpec =
  db_DBImage :: "string option"
  db_PostgresMajorVersion :: "int option"
  db_Instances :: "int option"
  db_DBResources :: "ResourceRequirements option"
  db_DBMinVolumeSize :: string
  db_DBStorageClass :: "string option"
  db_DBConf :: "(string \<rightharpoonup> string) option"
  db_DBBackup :: "DBBackupSpec option"
  db_DBRecovery :: "string option"

datatype PerformanceProfileType =
    PerformanceProfileNone | PerformanceProfileDefault | PerformanceProfileMixedWorkload
  | PerformanceProfileSmallObjects | PerformanceProfileDevEnv | PerformanceProfileMiniEnv
  | PerformanceProfileOther string

text \<open>The connection to a key management service.\<close>

record KeyManagementServiceSpec =
  kms_ConnectionDetails :: "(string \<times> string) list"
  kms_TokenSecretName :: string
  kms_EnableKeyRotation :: bool
  kms_Schedule :: string

record NooBaaSpec =
  nbs_DBSpec :: "NooBaaDBSpec option"
  nbs_CoreResources :: "ResourceRequirements option"
  nbs_LogResources :: "ResourceRequirements option"
  nbs_Endpoints :: "EndpointsSpec option"
  nbs_AllowNoobaaDeletion :: bool
  nbs_APIServerSecurity :: "TLSSecuritySpec option"
  nbs_LoadBalancerSourceSubnets :: LoadBalancerSourceSubnetSpec
  nbs_Autoscaler :: AutoscalerSpec
  nbs_PerformanceProfile :: PerformanceProfileType
  nbs_ImagePullSecret :: "string option"
  nbs_Tolerations :: "Toleration list"
  nbs_Affinity :: "string option"
  nbs_PVPoolDefaultStorageClass :: "string option"
  nbs_Image :: "string option"
  nbs_JoinSecret :: "SecretReference option"
  nbs_ExternalPgSecret :: "SecretReference option"
  nbs_ExternalPgSSLSecret :: "SecretReference option"
  nbs_ExternalPgSSLRequired :: bool
  nbs_ExternalPgSSLUnauthorized :: bool
  nbs_DefaultBackingStoreSpec :: bool
  nbs_LoggingType :: string
  nbs_BucketLoggingPVC :: "string option"
  nbs_NotificationsEnabled :: bool
  nbs_NotificationsPVC :: "string option"
  nbs_CleanupConfirmation :: string
  nbs_DBPriorityClassName :: string
  nbs_KeyManagementService :: KeyManagementServiceSpec
  nbs_DisableRoutes :: bool
  nbs_DisableCoreHA :: bool
  nbs_ManualDefaultBackingStore :: bool
  nbs_Region :: "string option"

text \<open>
  The status holds the addresses of the services (a nil status has none) and the image in
  use.  An affinity is only compared and copied, so it is kept as the text that describes it.
\<close>

record ServiceStatus =
  svs_NodePorts :: "string list"
  svs_PodPorts :: "string list"
  svs_InternalIP :: "string list"
  svs_InternalDNS :: "string list"
  svs_ExternalIP :: "string list"
  svs_ExternalDNS :: "string list"

record ServicesStatus =
  st_ServiceMgmt :: ServiceStatus
  st_ServiceS3 :: ServiceStatus
  st_ServiceSts :: ServiceStatus
  st_ServiceIam :: ServiceStatus
  st_ServiceVectors :: ServiceStatus

datatype SystemPhase =
    SystemPhaseNone | SystemPhaseRejected | SystemPhaseVerifying | SystemPhaseCreating | SystemPhaseConnecting
  | SystemPhaseConfiguring | SystemPhaseReady

record NooBaa =
  nb_Meta :: ObjectMeta
  nb_Spec :: NooBaaSpec
  nb_Conditions :: "Condition list"
  nb_ActualImage :: string
  nb_Services :: ServicesStatus
  nb_Phase :: SystemPhase

abbreviation nb_MgmtNodePorts :: "NooBaa \<Rightarrow> string list" where "nb_MgmtNodePorts nb \<equiv> svs_NodePorts (st_ServiceMgmt (nb_Services nb))"
abbreviation nb_S3InternalDNS :: "NooBaa \<Rightarrow> string list" where "nb_S3InternalDNS nb \<equiv> svs_InternalDNS (st_ServiceS3 (nb_Services nb))"
abbreviation nb_VectorsInternalDNS :: "NooBaa \<Rightarrow> string list" where "nb_VectorsInternalDNS nb \<equiv> svs_InternalDNS (st_ServiceVectors (nb_Services nb))"
abbreviation nb_S3ExternalDNS :: "NooBaa \<Rightarrow> string list" where "nb_S3ExternalDNS nb \<equiv> svs_ExternalDNS (st_ServiceS3 (nb_Services nb))"
abbreviation nb_VectorsExternalDNS :: "NooBaa \<Rightarrow> string list" where "nb_VectorsExternalDNS nb \<equiv> svs_ExternalDNS (st_ServiceVectors (nb_Services nb))"

end
