(* ===== verification/Kube.thy ===== *)
theory Kube
  imports Api_Types
begin

text \<open>
  The Kubernetes helpers of \<^verbatim>\<open>pkg/util/util.go\<close>: existence checks, create, update,
  apply and delete with their error classification, finalizers and common metadata, status
  conditions, and the combination of errors.

  The API server and the client library are not part of the repository.  A client is a record
  of functions over an arbitrary cluster state; the helpers take it as an argument and nothing
  is assumed of it unless a lemma says so.  The function \<open>SetStatusCondition\<close> of the
  custom-resource-status package is an argument as well; what the operator relies on is
  \<open>status_condition_laws\<close>.
\<close>

section \<open>Errors of the API server\<close>

text \<open>
  The classes the helpers distinguish: \<open>meta.IsNoMatchError\<close>,
  \<open>runtime.IsNotRegisteredError\<close>, the \<open>errors.Is...\<close> predicates (all of which are
  \<open>*errors.StatusError\<close>), any other status error, and any other error.
\<close>

datatype kube_error =
    NoMatchError | NotRegisteredError | NotFoundError | ConflictError | ForbiddenError
  | InvalidError | OtherStatusError string | OtherError string

definition crd_missing :: "kube_error \<Rightarrow> bool" where
  "crd_missing e = (e = NoMatchError \<or> e = NotRegisteredError)"

fun is_status_error :: "kube_error \<Rightarrow> bool" where
  "is_status_error NoMatchError = False"
| "is_status_error NotRegisteredError = False"
| "is_status_error (OtherError _) = False"
| "is_status_error _ = True"

record ('s, 'o) klient =
  k_Get :: "'o \<Rightarrow> 's \<Rightarrow> kube_error + 'o"
  k_Create :: "'o \<Rightarrow> 's \<Rightarrow> kube_error option \<times> 's"
  k_Update :: "'o \<Rightarrow> 's \<Rightarrow> kube_error option \<times> 's"
  k_Delete :: "'o \<Rightarrow> 's \<Rightarrow> kube_error option \<times> 's"
  k_SetResourceVersion :: "'o \<Rightarrow> 'o \<Rightarrow> 'o"

section \<open>Existence checks\<close>

text \<open>
  \<open>KubeGet\<close> fills the object; the checks report whether it exists and panic on an
  unexpected error.  The result carries the object as filled by the client.
\<close>

definition KubeCheck :: "kube_error + 'o \<Rightarrow> bool result" where
  "KubeCheck g = (case g of
     Inr _ \<Rightarrow> Ok True
   | Inl err \<Rightarrow>
       if crd_missing err then Ok False
       else if err = NotFoundError then Ok False
       else if err = ConflictError then Ok False
       else Panic)"

definition KubeCheckOptional :: "kube_error + 'o \<Rightarrow> bool result" where
  "KubeCheckOptional g = (case g of
     Inr _ \<Rightarrow> Ok True
   | Inl err \<Rightarrow>
       if crd_missing err then Ok False
       else if err = NotFoundError then Ok False
       else if err = ConflictError then Ok False
       else Panic)"

definition KubeCheckQuiet :: "kube_error + 'o \<Rightarrow> bool result" where
  "KubeCheckQuiet g = (case g of
     Inr _ \<Rightarrow> Ok True
   | Inl err \<Rightarrow>
       if crd_missing err \<or> err = NotFoundError \<or> err = ConflictError then Ok False
       else Panic)"

definition KubeList :: "kube_error option \<Rightarrow> bool result" where
  "KubeList e = (case e of
     None \<Rightarrow> Ok True
   | Some err \<Rightarrow>
       if crd_missing err then Ok False
       else if err = NotFoundError then Ok False
       else if err = ConflictError then Ok False
       else Panic)"

text \<open>A lookup followed by \<open>KubeCheck\<close>: the object when it exists.\<close>

definition check_get :: "kube_error + 'o \<Rightarrow> 'o option result" where
  "check_get g = bind_r (KubeCheck g) (\<lambda>b. Ok (if b then (case g of Inr o' \<Rightarrow> Some o' | Inl _ \<Rightarrow> None) else None))"

lemma check_get_simps [simp]:
  "check_get (Inr x) = Ok (Some x)"
  "check_get (Inl NotFoundError) = Ok None"
  "check_get (Inl NoMatchError) = Ok None"
  "check_get (Inl NotRegisteredError) = Ok None"
  "check_get (Inl ConflictError) = Ok None"
  by (simp_all add: check_get_def KubeCheck_def crd_missing_def)

lemma KubeCheck_agree: "KubeCheckQuiet g = KubeCheck g" "KubeCheckOptional g = KubeCheck g"
  by (auto simp: KubeCheckQuiet_def KubeCheckOptional_def KubeCheck_def split: sum.splits)

lemma check_get_eq_Some [simp]: "check_get g = Ok (Some x) \<longleftrightarrow> g = Inr x"
  by (auto simp: check_get_def KubeCheck_def split: sum.splits if_splits)

lemma check_get_no_Err [simp]: "check_get g \<noteq> Err e"
  by (auto simp: check_get_def KubeCheck_def split: sum.splits if_splits)

section \<open>Create, update and apply\<close>

definition KubeUpdate :: "('s, 'o) klient \<Rightarrow> 'o \<Rightarrow> 's \<Rightarrow> bool result \<times> 's" where
  "KubeUpdate cl obj s = (case k_Update cl obj s of
     (None, s1) \<Rightarrow> (Ok True, s1)
   | (Some err, s1) \<Rightarrow>
       (if crd_missing err then (Ok False, s1)
        else if err = ConflictError then (Ok False, s1)
        else if err = NotFoundError then (Ok False, s1)
        else if is_status_error err then (Ok False, s1)
        else (Panic, s1)))"

definition KubeApply :: "('s, 'o) klient \<Rightarrow> 'o \<Rightarrow> 's \<Rightarrow> bool result \<times> 's" where
  "KubeApply cl obj s =
    (let (obj1, err1, s1) =
       (case k_Get cl obj s of
          Inl e \<Rightarrow> (obj, Some e, s)
        | Inr clone \<Rightarrow>
            (let obj1 = k_SetResourceVersion cl obj clone in
             case k_Update cl obj1 s of (e, s1) \<Rightarrow> (obj1, e, s1)))
     in case err1 of
          None \<Rightarrow> (Ok False, s1)
        | Some err \<Rightarrow>
            if crd_missing err then (Ok False, s1)
            else
              (let (err2, s2) = (if err = NotFoundError then k_Create cl obj1 s1 else (Some err, s1))
               in case err2 of
                    None \<Rightarrow> (Ok True, s2)
                  | Some err' \<Rightarrow>
                      if err' = ConflictError then (Ok False, s2)
                      else if is_status_error err' then (Ok False, s2)
                      else (Panic, s2)))"

definition kubeCreateSkipOrFailExisting ::
    "('s, 'o) klient \<Rightarrow> 'o \<Rightarrow> bool \<Rightarrow> 's \<Rightarrow> bool result \<times> 's" where
  "kubeCreateSkipOrFailExisting cl obj skipOrFail s = (case k_Get cl obj s of
     Inr _ \<Rightarrow> (Ok skipOrFail, s)
   | Inl err \<Rightarrow>
       if crd_missing err then (Ok False, s)
       else
         (let (err2, s2) = (if err = NotFoundError then k_Create cl obj s else (Some err, s))
          in case err2 of
               None \<Rightarrow> (Ok True, s2)
             | Some err' \<Rightarrow>
                 if err = NotFoundError \<and> err' = NotFoundError then (Ok False, s2)
                 else if err' = ConflictError then (Ok False, s2)
                 else if err' = ForbiddenError then (Ok False, s2)
                 else if err' = InvalidError then (Ok False, s2)
                 else if is_status_error err' then (Ok False, s2)
                 else (Panic, s2)))"

definition KubeCreateFailExisting :: "('s, 'o) klient \<Rightarrow> 'o \<Rightarrow> 's \<Rightarrow> bool result \<times> 's" where
  "KubeCreateFailExisting cl obj s = kubeCreateSkipOrFailExisting cl obj False s"

definition KubeCreateSkipExisting :: "('s, 'o) klient \<Rightarrow> 'o \<Rightarrow> 's \<Rightarrow> bool result \<times> 's" where
  "KubeCreateSkipExisting cl obj s = kubeCreateSkipOrFailExisting cl obj True s"

definition KubeCreateOptional :: "('s, 'o) klient \<Rightarrow> 'o \<Rightarrow> 's \<Rightarrow> bool result \<times> 's" where
  "KubeCreateOptional cl obj s = (case k_Get cl obj s of
     Inr _ \<Rightarrow> (Ok False, s)
   | Inl err \<Rightarrow>
       if crd_missing err then (Ok False, s)
       else
         (let (err2, s2) = (if err = NotFoundError then k_Create cl obj s else (Some err, s))
          in case err2 of
               None \<Rightarrow> (Ok True, s2)
             | Some err' \<Rightarrow>
                 if err = NotFoundError \<and> err' = NotFoundError then (Ok False, s2)
                 else if err' = ConflictError then (Ok False, s2)
                 else if err' = ForbiddenError then (Ok False, s2)
                 else if err' = InvalidError then (Ok False, s2)
                 else (Panic, s2)))"

section \<open>Delete\<close>

text \<open>
  \<open>KubeDelete\<close> deletes and then polls with further deletes until the object is gone.  The
  polling loop has no bound of its own; \<open>fuel\<close> bounds the number of polls, and \<open>None\<close> is a
  call that is still polling.
\<close>

fun delete_poll :: "('s, 'o) klient \<Rightarrow> 'o \<Rightarrow> nat \<Rightarrow> bool \<Rightarrow> 's \<Rightarrow> (bool result \<times> 's) option" where
  "delete_poll cl obj 0 deleted s = None"
| "delete_poll cl obj (Suc fuel) deleted s = (case k_Delete cl obj s of
     (None, s1) \<Rightarrow> delete_poll cl obj fuel True s1
   | (Some err, s1) \<Rightarrow>
       (if err = ConflictError then delete_poll cl obj fuel deleted s1
        else if crd_missing err then Some (Ok deleted, s1)
        else if err = NotFoundError then Some (Ok deleted, s1)
        else Some (Panic, s1)))"

definition KubeDelete :: "('s, 'o) klient \<Rightarrow> 'o \<Rightarrow> nat \<Rightarrow> 's \<Rightarrow> (bool result \<times> 's) option" where
  "KubeDelete cl obj fuel s = (case k_Delete cl obj s of
     (None, s1) \<Rightarrow> delete_poll cl obj fuel True s1
   | (Some err, s1) \<Rightarrow>
       (if err = NotFoundError then Some (Ok True, s1)
        else if is_status_error err then Some (Ok False, s1)
        else delete_poll cl obj fuel False s1))"

definition KubeDeleteNoPolling :: "('s, 'o) klient \<Rightarrow> 'o \<Rightarrow> 's \<Rightarrow> bool result \<times> 's" where
  "KubeDeleteNoPolling cl obj s = (case k_Delete cl obj s of
     (None, s1) \<Rightarrow> (Ok True, s1)
   | (Some err, s1) \<Rightarrow> if err = NotFoundError then (Ok True, s1) else (Panic, s1))"

text \<open>
  More polls never change the outcome, and once deletes succeed a bounded number of times and
  then report the object as gone, \<open>KubeDelete\<close> returns \<open>True\<close>.
\<close>

lemma delete_poll_mono:
  "delete_poll cl obj fuel d s = Some r \<Longrightarrow> fuel \<le> fuel' \<Longrightarrow> delete_poll cl obj fuel' d s = Some r"
proof (induction fuel arbitrary: fuel' d s)
  case (Suc fuel)
  obtain m where m: "fuel' = Suc m" "fuel \<le> m"
    using Suc.prems(2) by (cases fuel') auto
  obtain e s1 where del: "k_Delete cl obj s = (e, s1)"
    by fastforce
  show ?case
  proof (cases e)
    case None
    with Suc.prems(1) del have "delete_poll cl obj fuel True s1 = Some r" by simp
    then have "delete_poll cl obj m True s1 = Some r" using m(2) by (rule Suc.IH)
    with None del m(1) show ?thesis by simp
  next
    case (Some err)
    have "delete_poll cl obj fuel d s1 = Some r \<Longrightarrow> delete_poll cl obj m d s1 = Some r"
      using m(2) by (blast intro: Suc.IH)
    with Suc.prems(1) Some del m(1) show ?thesis by (simp split: if_splits)
  qed
qed simp

text \<open>
  A cluster in which a delete is accepted \<open>n\<close> times (the object is terminating, its finalizers
  are still being served) and the object is gone afterwards.
\<close>

fun drains :: "('s, 'o) klient \<Rightarrow> 'o \<Rightarrow> nat \<Rightarrow> 's \<Rightarrow> bool" where
  "drains cl obj 0 s = (fst (k_Delete cl obj s) = Some NotFoundError)"
| "drains cl obj (Suc n) s =
     (fst (k_Delete cl obj s) = None \<and> drains cl obj n (snd (k_Delete cl obj s)))"

lemma delete_poll_drains:
  "drains cl obj n s \<Longrightarrow> n < fuel \<Longrightarrow> \<exists>s'. delete_poll cl obj fuel d s = Some (Ok (d \<or> 0 < n), s')"
proof (induction n arbitrary: fuel d s)
  case 0
  then obtain f where "fuel = Suc f" by (cases fuel) auto
  with 0 show ?case
    by (cases "k_Delete cl obj s") (simp add: crd_missing_def)
next
  case (Suc n)
  then obtain f where f: "fuel = Suc f" "n < f" by (cases fuel) auto
  obtain s1 where del: "k_Delete cl obj s = (None, s1)"
    using Suc.prems(1) by (cases "k_Delete cl obj s") auto
  with Suc.prems(1) have "drains cl obj n s1" by simp
  from Suc.IH [OF this f(2), of True] del f(1) show ?case by auto
qed

section \<open>Finalizers and common metadata\<close>

text \<open>
  \<open>RemoveFinalizer\<close> filters the slice in place; a nil slice (modelled by the empty list, for
  which the loop does nothing either) is returned unchanged.
\<close>

fun filter_finalizers :: "string \<Rightarrow> string list \<Rightarrow> string list \<times> bool" where
  "filter_finalizers fin [] = ([], False)"
| "filter_finalizers fin (f # fs) = (case filter_finalizers fin fs of
     (kept, found) \<Rightarrow> if f = fin then (kept, True) else (f # kept, found))"

definition RemoveFinalizer :: "ObjectMeta \<Rightarrow> string \<Rightarrow> bool \<times> ObjectMeta" where
  "RemoveFinalizer obj fin = (case filter_finalizers fin (om_Finalizers obj) of
     (kept, found) \<Rightarrow> (found, obj\<lparr>om_Finalizers := kept\<rparr>))"

fun ContainsAny :: "'a list \<Rightarrow> 'a \<Rightarrow> ('a \<Rightarrow> 'a \<Rightarrow> bool) \<Rightarrow> bool" where
  "ContainsAny [] item eq = False"
| "ContainsAny (x # xs) item eq = (if eq x item then True else ContainsAny xs item eq)"

definition Contains :: "'a list \<Rightarrow> 'a \<Rightarrow> bool" where
  "Contains arr item = ContainsAny arr item (\<lambda>a b. a = b)"

definition AddFinalizer :: "ObjectMeta \<Rightarrow> string \<Rightarrow> bool \<times> ObjectMeta" where
  "AddFinalizer obj fin =
     (if \<not> Contains (om_Finalizers obj) fin
      then (True, obj\<lparr>om_Finalizers := om_Finalizers obj @ [fin]\<rparr>)
      else (False, obj))"

definition EnsureCommonMetaFields :: "ObjectMeta \<Rightarrow> string \<Rightarrow> bool \<times> ObjectMeta" where
  "EnsureCommonMetaFields obj fin =
     (let (updated, obj1) =
        (case om_Labels obj of
           None \<Rightarrow> (True, obj\<lparr>om_Labels := Some [''app'' \<mapsto> ''noobaa'']\<rparr>)
         | Some labels \<Rightarrow>
             if map_get (Some labels) ''app'' \<noteq> ''noobaa''
             then (True, obj\<lparr>om_Labels := Some (labels(''app'' \<mapsto> ''noobaa''))\<rparr>)
             else (False, obj));
        (added, obj2) = AddFinalizer obj1 fin
      in (updated \<or> added, obj2))"

lemma ContainsAny_iff: "ContainsAny arr item eq \<longleftrightarrow> (\<exists>x \<in> set arr. eq x item)"
  by (induction arr) auto

lemma Contains_iff [simp]: "Contains arr item \<longleftrightarrow> item \<in> set arr"
  by (auto simp: Contains_def ContainsAny_iff)

lemma filter_finalizers_eq:
  "filter_finalizers fin fs = (filter (\<lambda>f. f \<noteq> fin) fs, fin \<in> set fs)"
  by (induction fs) auto

lemma RemoveFinalizer_eq:
  "RemoveFinalizer obj fin =
     (fin \<in> set (om_Finalizers obj), obj\<lparr>om_Finalizers := filter (\<lambda>f. f \<noteq> fin) (om_Finalizers obj)\<rparr>)"
  by (simp add: RemoveFinalizer_def filter_finalizers_eq)

definition has_common_meta :: "ObjectMeta \<Rightarrow> string \<Rightarrow> bool" where
  "has_common_meta obj fin \<longleftrightarrow> map_get (om_Labels obj) ''app'' = ''noobaa'' \<and> fin \<in> set (om_Finalizers obj)"

lemma map_get_simps [simp]:
  "map_get None k = []" "map_get (Some (f(k \<mapsto> v))) k' = (if k' = k then v else map_get (Some f) k')"
  by (auto simp: map_get_def)

lemma EnsureCommonMetaFields_has:
  "EnsureCommonMetaFields obj fin = (u, obj') \<Longrightarrow> has_common_meta obj' fin"
  by (auto simp: EnsureCommonMetaFields_def AddFinalizer_def has_common_meta_def Let_def
      split: option.splits if_splits)

lemma EnsureCommonMetaFields_unchanged:
  "EnsureCommonMetaFields obj fin = (False, obj') \<longleftrightarrow> has_common_meta obj fin \<and> obj' = obj"
  by (auto simp: EnsureCommonMetaFields_def AddFinalizer_def has_common_meta_def Let_def
      split: option.splits if_splits)

section \<open>Status conditions\<close>

type_synonym set_condition = "Condition list \<Rightarrow> Condition \<Rightarrow> Condition list"

fun cond_of :: "ConditionType \<Rightarrow> Condition list \<Rightarrow> Condition option" where
  "cond_of t [] = None"
| "cond_of t (c # cs) = (if c_Type c = t then Some c else cond_of t cs)"

definition status_condition_laws :: "set_condition \<Rightarrow> bool" where
  "status_condition_laws setc \<longleftrightarrow>
     (\<forall>cs c t. cond_of t (setc cs c) = (if t = c_Type c then Some c else cond_of t cs))"

definition set4 ::
    "set_condition \<Rightarrow> ConditionStatus \<Rightarrow> ConditionStatus \<Rightarrow> ConditionStatus \<Rightarrow> ConditionStatus \<Rightarrow>
     Condition list \<Rightarrow> string \<Rightarrow> string \<Rightarrow> Condition list" where
  "set4 setc av pr de up cs reason msg =
     (let cs1 = setc cs \<lparr>c_Type = ConditionAvailable, c_Status = av, c_Reason = reason, c_Message = msg\<rparr>;
          cs2 = setc cs1 \<lparr>c_Type = ConditionProgressing, c_Status = pr, c_Reason = reason, c_Message = msg\<rparr>;
          cs3 = setc cs2 \<lparr>c_Type = ConditionDegraded, c_Status = de, c_Reason = reason, c_Message = msg\<rparr>
      in setc cs3 \<lparr>c_Type = ConditionUpgradeable, c_Status = up, c_Reason = reason, c_Message = msg\<rparr>)"

definition SetAvailableCondition :: "set_condition \<Rightarrow> Condition list \<Rightarrow> string \<Rightarrow> string \<Rightarrow> Condition list" where
  "SetAvailableCondition setc cs reason msg =
     set4 setc ConditionTrue ConditionFalse ConditionFalse ConditionTrue cs reason msg"

definition SetProgressingCondition :: "set_condition \<Rightarrow> Condition list \<Rightarrow> string \<Rightarrow> string \<Rightarrow> Condition list" where
  "SetProgressingCondition setc cs reason msg =
     set4 setc ConditionFalse ConditionTrue ConditionFalse ConditionFalse cs reason msg"

definition SetErrorCondition :: "set_condition \<Rightarrow> Condition list \<Rightarrow> string \<Rightarrow> string \<Rightarrow> Condition list" where
  "SetErrorCondition setc cs reason msg =
     set4 setc ConditionUnknown ConditionFalse ConditionTrue ConditionUnknown cs reason msg"

definition status_of :: "ConditionType \<Rightarrow> Condition list \<Rightarrow> ConditionStatus option" where
  "status_of t cs = map_option c_Status (cond_of t cs)"

lemma status_of_set4:
  assumes "status_condition_laws setc"
  shows "status_of ConditionAvailable (set4 setc av pr de up cs r m) = Some av"
    "status_of ConditionProgressing (set4 setc av pr de up cs r m) = Some pr"
    "status_of ConditionDegraded (set4 setc av pr de up cs r m) = Some de"
    "status_of ConditionUpgradeable (set4 setc av pr de up cs r m) = Some up"
    "status_of (ConditionOther x) (set4 setc av pr de up cs r m) = status_of (ConditionOther x) cs"
  using assms by (auto simp: status_of_def set4_def Let_def status_condition_laws_def)

lemmas condition_defs = SetAvailableCondition_def SetProgressingCondition_def SetErrorCondition_def

text \<open>A condition setter with these laws: replace in place, or append.\<close>

fun list_set_condition :: set_condition where
  "list_set_condition [] c = [c]"
| "list_set_condition (d # ds) c = (if c_Type d = c_Type c then c # ds else d # list_set_condition ds c)"

lemma list_set_condition_laws: "status_condition_laws list_set_condition"
proof -
  have "cond_of t (list_set_condition cs c) = (if t = c_Type c then Some c else cond_of t cs)" for cs c t
    by (induction cs c rule: list_set_condition.induct) auto
  then show ?thesis by (simp add: status_condition_laws_def)
qed

section \<open>Combining errors\<close>

fun combine_from :: "go_error option \<Rightarrow> go_error option list \<Rightarrow> go_error option" where
  "combine_from combined [] = combined"
| "combine_from combined (None # es) = combine_from combined es"
| "combine_from None (Some e # es) = combine_from (Some e) es"
| "combine_from (Some c) (Some e # es) =
     combine_from (if IsPersistentError e \<and> \<not> IsPersistentError c then Some e else Some c) es"

definition CombineErrors :: "go_error option list \<Rightarrow> go_error option" where
  "CombineErrors errs = combine_from None errs"

text \<open>
  The specification: the first persistent error if there is one, otherwise the first error.
\<close>

definition combined_spec :: "go_error option list \<Rightarrow> go_error option" where
  "combined_spec errs =
     (let es = List.map_filter id errs in
      case find IsPersistentError es of Some e \<Rightarrow> Some e | None \<Rightarrow> (case es of [] \<Rightarrow> None | e # _ \<Rightarrow> Some e))"

lemma combine_from_Some:
  "combine_from (Some c) errs =
     (if IsPersistentError c then Some c
      else case find IsPersistentError (List.map_filter id errs) of Some e \<Rightarrow> Some e | None \<Rightarrow> Some c)"
  by (induction "Some c" errs arbitrary: c rule: combine_from.induct)
    (auto simp: map_filter_simps split: option.splits)

lemma combine_from_None: "combine_from None errs = combined_spec errs"
proof (induction errs)
  case (Cons e es)
  then show ?case
    by (cases e) (auto simp: combine_from_Some combined_spec_def map_filter_simps split: option.splits)
qed (simp add: combined_spec_def map_filter_simps)

section \<open>Properties\<close>

text \<open>
  C28. Deleting terminates and reports success on a cluster that accepts the delete a bounded number of times
  (the object is terminating, its finalizers are still being served) and then says that it is gone; fuel
  above that number of polls is enough, and more fuel gives the same answer.
\<close>

theorem delete_terminates:
  assumes "drains cl obj n s" and "n \<le> fuel"
  shows "\<exists>s'. KubeDelete cl obj fuel s = Some (Ok True, s')"
proof (cases n)
  case 0
  with assms(1) obtain s1 where "k_Delete cl obj s = (Some NotFoundError, s1)"
    by (cases "k_Delete cl obj s") auto
  then show ?thesis by (simp add: KubeDelete_def)
next
  case (Suc m)
  with assms(1) obtain s1 where s1: "k_Delete cl obj s = (None, s1)" "drains cl obj m s1"
    by (cases "k_Delete cl obj s") auto
  then show ?thesis
    using delete_poll_drains [OF s1(2), of fuel True] Suc assms(2) by (auto simp: KubeDelete_def)
qed

definition ex_klient :: "(nat, unit) klient" where
  "ex_klient = \<lparr>k_Get = (\<lambda>o' s. if s = 0 then Inl NotFoundError else Inr o'), k_Create = (\<lambda>_ s. (None, s)),
     k_Update = (\<lambda>_ s. (None, s)),
     k_Delete = (\<lambda>_ s. if s = 0 then (Some NotFoundError, 0) else (None, s - 1)),
     k_SetResourceVersion = (\<lambda>o' _. o')\<rparr>"

theorem delete_terminates_witness: "\<exists>s'. KubeDelete ex_klient () 3 2 = Some (Ok True, s')"
proof (rule delete_terminates)
  show "drains ex_klient () 2 2" by (simp add: ex_klient_def numeral_2_eq_2)
qed simp

text \<open>
  Combining errors gives the first persistent error if there is one, otherwise the first error.
\<close>

theorem combine_errors_spec: "CombineErrors errs = combined_spec errs"
  by (simp add: CombineErrors_def combine_from_None)

text \<open>
  Adding a finalizer and removing it again is the identity on an object that did not have it; the
  flags say whether the object changed.
\<close>

theorem finalizer_roundtrip:
  assumes "fin \<notin> set (om_Finalizers obj)" and "AddFinalizer obj fin = (b, obj')"
  shows "b \<and> RemoveFinalizer obj' fin = (True, obj) \<and> fst (RemoveFinalizer obj fin) = False"
proof -
  have "filter (\<lambda>f. f \<noteq> fin) (om_Finalizers obj) = om_Finalizers obj"
    using assms(1) by (auto simp: filter_id_conv)
  then show ?thesis
    using assms by (auto simp: AddFinalizer_def RemoveFinalizer_eq)
qed

text \<open>The object of the witness.\<close>

definition ex_finalizer_meta :: ObjectMeta where
  "ex_finalizer_meta = \<lparr>om_Name = ''x'', om_Namespace = ''n'', om_UID = '''', om_Generation = 0, om_Labels = None,
     om_Annotations = None, om_Finalizers = [''other''], om_OwnerReferences = [], om_DeletionTimestamp = None,
     om_CreationTimestamp = 0\<rparr>"

theorem finalizer_roundtrip_witness:
  "RemoveFinalizer (snd (AddFinalizer ex_finalizer_meta ''fin'')) ''fin'' = (True, ex_finalizer_meta)"
  using finalizer_roundtrip [of "''fin''" ex_finalizer_meta "fst (AddFinalizer ex_finalizer_meta ''fin'')"
      "snd (AddFinalizer ex_finalizer_meta ''fin'')"]
  by (simp add: ex_finalizer_meta_def)

text \<open>
  Ensuring the common metadata reaches a fixed point in one step: afterwards the label and the finalizer are
  there, and a second call changes nothing and says so.
\<close>

theorem common_metadata_idempotent:
  "has_common_meta (snd (EnsureCommonMetaFields obj fin)) fin \<and>
   EnsureCommonMetaFields (snd (EnsureCommonMetaFields obj fin)) fin = (False, snd (EnsureCommonMetaFields obj fin))"
proof -
  have h: "has_common_meta (snd (EnsureCommonMetaFields obj fin)) fin"
    using EnsureCommonMetaFields_has by (metis prod.collapse)
  then show ?thesis by (simp add: EnsureCommonMetaFields_unchanged)
qed

text \<open>
  The three condition setters describe one consistent state each, whatever was there before: available
  is available and upgradeable and neither progressing nor degraded, progressing is only progressing,
  and an error is degraded with the rest unknown or false; other conditions are kept.
\<close>

theorem condition_setters:
  assumes "status_condition_laws setc"
  shows "map (\<lambda>t. status_of t (SetAvailableCondition setc cs r m))
           [ConditionAvailable, ConditionProgressing, ConditionDegraded, ConditionUpgradeable] =
           map Some [ConditionTrue, ConditionFalse, ConditionFalse, ConditionTrue]
       \<and> map (\<lambda>t. status_of t (SetProgressingCondition setc cs r m))
           [ConditionAvailable, ConditionProgressing, ConditionDegraded, ConditionUpgradeable] =
           map Some [ConditionFalse, ConditionTrue, ConditionFalse, ConditionFalse]
       \<and> map (\<lambda>t. status_of t (SetErrorCondition setc cs r m))
           [ConditionAvailable, ConditionProgressing, ConditionDegraded, ConditionUpgradeable] =
           map Some [ConditionUnknown, ConditionFalse, ConditionTrue, ConditionUnknown]
       \<and> status_of (ConditionOther x) (SetErrorCondition setc cs r m) = status_of (ConditionOther x) cs"
  by (simp add: condition_defs status_of_set4 [OF assms])

theorem condition_setters_witness:
  "status_of ConditionDegraded (SetErrorCondition list_set_condition [] ''r'' ''m'') = Some ConditionTrue"
  using condition_setters [OF list_set_condition_laws, of "[]" "''r''" "''m''"] by simp

end
