(* ===== verification/Examples.thy ===== *)
theory Examples
  imports Kube
begin

text \<open>
  Small concrete objects at which the theorems of the development are applied: a few stores, a bucket class
  and a system resource with the fields that matter filled in.
\<close>

definition ex_meta :: "string \<Rightarrow> ObjectMeta" where
  "ex_meta n = \<lparr>om_Name = n, om_Namespace = ''noobaa'', om_UID = ''u'', om_Generation = 1, om_Labels = None,
     om_Annotations = None, om_Finalizers = [], om_OwnerReferences = [], om_DeletionTimestamp = None,
     om_CreationTimestamp = 0\<rparr>"

definition ex_ref :: SecretReference where
  "ex_ref = \<lparr>sr_Name = ''creds'', sr_Namespace = ''''\<rparr>"

definition ex_aws :: "string \<Rightarrow> AWSS3Spec" where
  "ex_aws bucket = \<lparr>aws_TargetBucket = bucket, aws_Secret = ex_ref, aws_Region = '''', aws_SSLDisabled = False,
     aws_AWSSTSRoleARN = None\<rparr>"

definition ex_s3 :: "string \<Rightarrow> string \<Rightarrow> S3CompatibleSpec" where
  "ex_s3 bucket endpoint = \<lparr>s3c_TargetBucket = bucket, s3c_Secret = ex_ref, s3c_Endpoint = endpoint,
     s3c_SignatureVersion = S3SignatureVersionV2\<rparr>"

definition ex_pool :: "int \<Rightarrow> PVPoolSpec" where
  "ex_pool n = \<lparr>pv_StorageClass = '''', pv_NumVolumes = n, pv_VolumeResources = None, pv_PriorityClassName = '''',
     pv_Secret = ex_ref\<rparr>"

definition ex_bs_spec :: BackingStoreSpec where
  "ex_bs_spec = \<lparr>bss_Type = StoreTypeAWSS3, bss_AWSS3 = None, bss_S3Compatible = None, bss_IBMCos = None,
     bss_AzureBlob = None, bss_GoogleCloudStorage = None, bss_PVPool = None\<rparr>"

definition ex_bs_of :: "BackingStoreSpec \<Rightarrow> BackingStore" where
  "ex_bs_of sp = \<lparr>bs_Meta = ex_meta ''store'', bs_Spec = sp,
     bs_Status = \<lparr>bst_Phase = BackingStorePhaseReady, bst_Conditions = [],
       bst_Mode = \<lparr>mode_ModeCode = ''OPTIMAL'', mode_TimeStamp = ''''\<rparr>\<rparr>\<rparr>"

definition ex_aws_bs :: "string \<Rightarrow> BackingStore" where
  "ex_aws_bs bucket = ex_bs_of (ex_bs_spec\<lparr>bss_AWSS3 := Some (ex_aws bucket)\<rparr>)"

definition ex_s3_bs :: "string \<Rightarrow> BackingStore" where
  "ex_s3_bs bucket = ex_bs_of (ex_bs_spec\<lparr>bss_Type := StoreTypeS3Compatible,
     bss_S3Compatible := Some (ex_s3 bucket ''https://s3'')\<rparr>)"

definition ex_pool_bs :: "int \<Rightarrow> BackingStore" where
  "ex_pool_bs n = ex_bs_of (ex_bs_spec\<lparr>bss_Type := StoreTypePVPool, bss_PVPool := Some (ex_pool n)\<rparr>)"

definition ex_ns_spec :: NamespaceStoreSpec where
  "ex_ns_spec = \<lparr>nss_Type = NSStoreTypeAWSS3, nss_AccessMode = AccessModeReadWrite, nss_Archive = False, nss_AWSS3 = None, nss_S3Compatible = None,
     nss_IBMCos = None, nss_AzureBlob = None, nss_GoogleCloudStorage = None, nss_NSFS = None\<rparr>"

definition ex_ns_of :: "NamespaceStoreSpec \<Rightarrow> NamespaceStore" where
  "ex_ns_of sp = \<lparr>ns_Meta = ex_meta ''ns'', ns_Spec = sp,
     ns_Status = \<lparr>nst_Phase = NamespaceStorePhaseReady, nst_Conditions = [], nst_ModeCode = ''OPTIMAL''\<rparr>\<rparr>"

definition ex_s3_ns :: "string \<Rightarrow> NamespaceStore" where
  "ex_s3_ns endpoint = ex_ns_of (ex_ns_spec\<lparr>nss_Type := NSStoreTypeS3Compatible,
     nss_S3Compatible := Some (ex_s3 ''data'' endpoint)\<rparr>)"

definition ex_nsfs_ns :: "string \<Rightarrow> NamespaceStore" where
  "ex_nsfs_ns sub = ex_ns_of (ex_ns_spec\<lparr>nss_Type := NSStoreTypeNSFS,
     nss_NSFS := Some \<lparr>nsfs_PvcName = ''pvc'', nsfs_SubPath = sub, nsfs_FsBackend = ''''\<rparr>\<rparr>)"

definition ex_bc_spec :: BucketClassSpec where
  "ex_bc_spec = \<lparr>bcs_PlacementPolicy = Some \<lparr>pp_Tiers = [\<lparr>tier_Placement = TierPlacementSpread,
       tier_BackingStores = [''store'']\<rparr>]\<rparr>,
     bcs_NamespacePolicy = None, bcs_Quota = None, bcs_ReplicationPolicy = '''', bcs_VectorPolicy = None,
     bcs_ArchivePolicy = None\<rparr>"

definition ex_bc :: BucketClass where
  "ex_bc = \<lparr>bc_Meta = ex_meta ''class'', bc_Spec = ex_bc_spec,
     bc_Status = \<lparr>bct_Phase = BucketClassPhaseNone, bct_Conditions = [], bct_Mode = ''''\<rparr>\<rparr>"

definition ex_na :: NooBaaAccount where
  "ex_na = \<lparr>na_Meta = ex_meta ''acct'',
     na_Spec = \<lparr>nas_AllowBucketCreate = True, nas_NsfsAccountConfig = None, nas_DefaultResource = ''store'',
       nas_ForceMd5Etag = None\<rparr>,
     na_Status = \<lparr>nat_Phase = NooBaaAccountPhaseNone, nat_Conditions = []\<rparr>\<rparr>"

definition no_addresses :: ServiceStatus where
  "no_addresses = \<lparr>svs_NodePorts = [], svs_PodPorts = [], svs_InternalIP = [], svs_InternalDNS = [], svs_ExternalIP = [], svs_ExternalDNS = []\<rparr>"

definition ex_nb :: NooBaa where
  "ex_nb = \<lparr>nb_Meta = ex_meta ''noobaa'',
     nb_Spec = \<lparr>nbs_DBSpec = None, nbs_CoreResources = None, nbs_LogResources = None, nbs_Endpoints = None,
       nbs_AllowNoobaaDeletion = False, nbs_APIServerSecurity = None,
       nbs_LoadBalancerSourceSubnets = \<lparr>lb_S3 = [], lb_STS = [], lb_IAM = [], lb_Vectors = []\<rparr>,
       nbs_Autoscaler = \<lparr>as_AutoscalerType = AutoscalerTypeNone, as_PrometheusNamespace = ''''\<rparr>,
       nbs_PerformanceProfile = PerformanceProfileNone, nbs_ImagePullSecret = None, nbs_Tolerations = [],
       nbs_Affinity = None, nbs_PVPoolDefaultStorageClass = None, nbs_Image = None, nbs_JoinSecret = None,
       nbs_ExternalPgSecret = None, nbs_ExternalPgSSLSecret = None, nbs_ExternalPgSSLRequired = False,
       nbs_ExternalPgSSLUnauthorized = False, nbs_DefaultBackingStoreSpec = False, nbs_LoggingType = ''best-effort'',
       nbs_BucketLoggingPVC = None, nbs_NotificationsEnabled = False, nbs_NotificationsPVC = None, nbs_CleanupConfirmation = '''', nbs_DBPriorityClassName = '''',
       nbs_KeyManagementService = \<lparr>kms_ConnectionDetails = [], kms_TokenSecretName = '''', kms_EnableKeyRotation = False, kms_Schedule = ''''\<rparr>,
       nbs_DisableRoutes = False, nbs_DisableCoreHA = False, nbs_ManualDefaultBackingStore = False, nbs_Region = None\<rparr>,
     nb_Conditions = [], nb_ActualImage = ''core'', 
     nb_Services = \<lparr>st_ServiceMgmt = no_addresses\<lparr>svs_NodePorts := [''https://mgmt'']\<rparr>,
       st_ServiceS3 = no_addresses\<lparr>svs_InternalDNS := [''https://s3'']\<rparr>, st_ServiceSts = no_addresses, st_ServiceIam = no_addresses,
       st_ServiceVectors = no_addresses\<lparr>svs_InternalDNS := [''https://vectors'']\<rparr>\<rparr>, nb_Phase = SystemPhaseNone\<rparr>"

lemmas ex_objects = ex_meta_def ex_ref_def ex_aws_def ex_s3_def ex_pool_def ex_bs_spec_def ex_bs_of_def
  ex_aws_bs_def ex_s3_bs_def ex_pool_bs_def ex_ns_spec_def ex_ns_of_def ex_s3_ns_def ex_nsfs_ns_def
  ex_bc_spec_def ex_bc_def ex_na_def ex_nb_def

end
