(* ===== verification/Store_Util.thy ===== *)
theory Store_Util
  imports Kube Examples
begin

text \<open>
  The accessors of \<^verbatim>\<open>pkg/util/util.go\<close> that dispatch on the type of a backing store or
  a namespace store: endpoint, secret reference, target bucket, short-lived-credential tests,
  and the comparison of the credentials held by two secrets.
\<close>

section \<open>URLs built from a scheme and a host\<close>

text \<open>
  \<open>url.URL.String\<close> for a URL that has only a scheme and a host: the bytes that
  \<^verbatim>\<open>net/url\<close> does not allow in a host are percent-encoded.
\<close>

definition host_char :: "char \<Rightarrow> bool" where
  "host_char c =
     (let n = of_char c :: nat in
      (97 \<le> n \<and> n \<le> 122) \<or> (65 \<le> n \<and> n \<le> 90) \<or> (48 \<le> n \<and> n \<le> 57) \<or>
      c \<in> set ''-_.~!$&()*+,;=:[]<>'' \<or> n = 39 \<or> n = 34)"

definition hex_digit :: "nat \<Rightarrow> char" where
  "hex_digit n = (if n < 10 then char_of (48 + n) else char_of (55 + n))"

definition escape_host :: "string \<Rightarrow> string" where
  "escape_host s =
     concat (map (\<lambda>c. if host_char c then [c]
       else (let n = of_char c :: nat in [CHR ''%'', hex_digit (n div 16), hex_digit (n mod 16)])) s)"

definition url_string :: "string \<Rightarrow> string \<Rightarrow> string" where
  "url_string scheme host = scheme @ ''://'' @ escape_host host"

lemma escape_host_id: "list_all host_char s \<Longrightarrow> escape_host s = s"
  by (induction s) (auto simp: escape_host_def)

section \<open>Short-lived credentials\<close>

definition IsAWSSTSClusterBS :: "BackingStore \<Rightarrow> bool result" where
  "IsAWSSTSClusterBS bs =
     (if bs_Type bs = StoreTypeAWSS3
      then bind_r (deref (bss_AWSS3 (bs_Spec bs))) (\<lambda>a. Ok (aws_AWSSTSRoleARN a \<noteq> None))
      else Ok False)"

definition IsAWSSTSClusterNS :: "NamespaceStore \<Rightarrow> bool result" where
  "IsAWSSTSClusterNS ns =
     (if ns_Type ns = NSStoreTypeAWSS3
      then bind_r (deref (nss_AWSS3 (ns_Spec ns))) (\<lambda>a. Ok (aws_AWSSTSRoleARN a \<noteq> None))
      else Ok False)"

definition IsAzureSTSClusterBS :: "BackingStore \<Rightarrow> bool" where
  "IsAzureSTSClusterBS bs =
     (case (bs_Type bs, bss_AzureBlob (bs_Spec bs)) of
        (StoreTypeAzureBlob, Some az) \<Rightarrow> az_ClientId az \<noteq> None
      | _ \<Rightarrow> False)"

definition IsAzureSTSClusterNS :: "NamespaceStore \<Rightarrow> bool" where
  "IsAzureSTSClusterNS ns =
     (case (ns_Type ns, nss_AzureBlob (ns_Spec ns)) of
        (NSStoreTypeAzureBlob, Some az) \<Rightarrow> az_ClientId az \<noteq> None
      | _ \<Rightarrow> False)"

definition IsArchiveNamespaceStore :: "NamespaceStore option \<Rightarrow> bool" where
  "IsArchiveNamespaceStore p =
     (case p of None \<Rightarrow> False | Some ns \<Rightarrow> ns_Type ns = NSStoreTypeS3Compatible \<and> nss_Archive (ns_Spec ns))"

section \<open>Endpoints\<close>

definition aws_endpoint :: "AWSS3Spec \<Rightarrow> string" where
  "aws_endpoint a =
     url_string (if aws_SSLDisabled a then ''http'' else ''https'')
       (if aws_Region a \<noteq> '''' then ''s3.'' @ aws_Region a @ ''.amazonaws.com'' else ''s3.amazonaws.com'')"

definition GetEndpointByBackingStoreType :: "BackingStore \<Rightarrow> string result" where
  "GetEndpointByBackingStoreType bs = (case bs_Type bs of
     StoreTypeAWSS3 \<Rightarrow> bind_r (deref (bss_AWSS3 (bs_Spec bs))) (\<lambda>a. Ok (aws_endpoint a))
   | StoreTypeS3Compatible \<Rightarrow> bind_r (deref (bss_S3Compatible (bs_Spec bs))) (\<lambda>a. Ok (s3c_Endpoint a))
   | StoreTypeIBMCos \<Rightarrow> bind_r (deref (bss_IBMCos (bs_Spec bs))) (\<lambda>a. Ok (ibm_Endpoint a))
   | StoreTypeAzureBlob \<Rightarrow> Ok ''https://blob.core.windows.net''
   | StoreTypeGoogleCloudStorage \<Rightarrow> Ok ''https://www.googleapis.com''
   | StoreTypePVPool \<Rightarrow> Err (PlainError (go_quote (store_type_string (bs_Type bs))
       @ '' type does not have endpoint parameter '' @ go_quote (bs_Name bs)))
   | StoreTypeOther _ \<Rightarrow> Err (PlainError (''failed to get endpoint url from backingstore '' @ go_quote (bs_Name bs))))"

definition GetEndpointByNamespaceStoreType :: "NamespaceStore \<Rightarrow> string result" where
  "GetEndpointByNamespaceStoreType ns = (case ns_Type ns of
     NSStoreTypeAWSS3 \<Rightarrow> bind_r (deref (nss_AWSS3 (ns_Spec ns))) (\<lambda>a. Ok (aws_endpoint a))
   | NSStoreTypeS3Compatible \<Rightarrow> bind_r (deref (nss_S3Compatible (ns_Spec ns))) (\<lambda>a. Ok (s3c_Endpoint a))
   | NSStoreTypeIBMCos \<Rightarrow> bind_r (deref (nss_IBMCos (ns_Spec ns))) (\<lambda>a. Ok (ibm_Endpoint a))
   | NSStoreTypeAzureBlob \<Rightarrow> Ok ''https://blob.core.windows.net''
   | NSStoreTypeGoogleCloudStorage \<Rightarrow> Ok ''https://www.googleapis.com''
   | NSStoreTypeNSFS \<Rightarrow> Err (PlainError (go_quote (ns_type_string (ns_Type ns))
       @ '' type does not have endpoint parameter '' @ go_quote (ns_Name ns)))
   | NSStoreTypeOther _ \<Rightarrow> Err (PlainError (''failed to get endpoint url from backingstore '' @ go_quote (ns_Name ns))))"

section \<open>Secret references\<close>

definition GetBackingStoreSecretByType :: "BackingStore \<Rightarrow> SecretReference option result" where
  "GetBackingStoreSecretByType bs = (case bs_Type bs of
     StoreTypeAWSS3 \<Rightarrow> bind_r (deref (bss_AWSS3 (bs_Spec bs))) (\<lambda>a. Ok (Some (aws_Secret a)))
   | StoreTypeS3Compatible \<Rightarrow> bind_r (deref (bss_S3Compatible (bs_Spec bs))) (\<lambda>a. Ok (Some (s3c_Secret a)))
   | StoreTypeIBMCos \<Rightarrow> bind_r (deref (bss_IBMCos (bs_Spec bs))) (\<lambda>a. Ok (Some (ibm_Secret a)))
   | StoreTypeAzureBlob \<Rightarrow> bind_r (deref (bss_AzureBlob (bs_Spec bs))) (\<lambda>a. Ok (Some (az_Secret a)))
   | StoreTypeGoogleCloudStorage \<Rightarrow> bind_r (deref (bss_GoogleCloudStorage (bs_Spec bs))) (\<lambda>a. Ok (Some (gcs_Secret a)))
   | StoreTypePVPool \<Rightarrow> bind_r (deref (bss_PVPool (bs_Spec bs))) (\<lambda>a. Ok (Some (pv_Secret a)))
   | StoreTypeOther _ \<Rightarrow> Err (PlainError (''failed to get secret reference from backingstore '' @ go_quote (bs_Name bs))))"

text \<open>The namespace of the store is used when the reference has none.\<close>

definition default_namespace :: "string \<Rightarrow> SecretReference \<Rightarrow> SecretReference" where
  "default_namespace nspace r = (if sr_Namespace r = '''' then r\<lparr>sr_Namespace := nspace\<rparr> else r)"

definition GetBackingStoreSecret :: "BackingStore \<Rightarrow> SecretReference option result" where
  "GetBackingStoreSecret bs =
     bind_r (GetBackingStoreSecretByType bs) (\<lambda>p. Ok (map_option (default_namespace (bs_Namespace bs)) p))"

definition SetBackingStoreSecretRef :: "BackingStore \<Rightarrow> SecretReference \<Rightarrow> BackingStore result" where
  "SetBackingStoreSecretRef bs ref =
    (let sp = bs_Spec bs in
     case bs_Type bs of
       StoreTypeAWSS3 \<Rightarrow> bind_r (deref (bss_AWSS3 sp))
         (\<lambda>a. Ok (bs\<lparr>bs_Spec := sp\<lparr>bss_AWSS3 := Some (a\<lparr>aws_Secret := ref\<rparr>)\<rparr>\<rparr>))
     | StoreTypeS3Compatible \<Rightarrow> bind_r (deref (bss_S3Compatible sp))
         (\<lambda>a. Ok (bs\<lparr>bs_Spec := sp\<lparr>bss_S3Compatible := Some (a\<lparr>s3c_Secret := ref\<rparr>)\<rparr>\<rparr>))
     | StoreTypeIBMCos \<Rightarrow> bind_r (deref (bss_IBMCos sp))
         (\<lambda>a. Ok (bs\<lparr>bs_Spec := sp\<lparr>bss_IBMCos := Some (a\<lparr>ibm_Secret := ref\<rparr>)\<rparr>\<rparr>))
     | StoreTypeAzureBlob \<Rightarrow> bind_r (deref (bss_AzureBlob sp))
         (\<lambda>a. Ok (bs\<lparr>bs_Spec := sp\<lparr>bss_AzureBlob := Some (a\<lparr>az_Secret := ref\<rparr>)\<rparr>\<rparr>))
     | StoreTypeGoogleCloudStorage \<Rightarrow> bind_r (deref (bss_GoogleCloudStorage sp))
         (\<lambda>a. Ok (bs\<lparr>bs_Spec := sp\<lparr>bss_GoogleCloudStorage := Some (a\<lparr>gcs_Secret := ref\<rparr>)\<rparr>\<rparr>))
     | StoreTypePVPool \<Rightarrow> bind_r (deref (bss_PVPool sp))
         (\<lambda>a. Ok (bs\<lparr>bs_Spec := sp\<lparr>bss_PVPool := Some (a\<lparr>pv_Secret := ref\<rparr>)\<rparr>\<rparr>))
     | StoreTypeOther _ \<Rightarrow>
         Err (PlainError (''failed to set backingstore '' @ go_quote (bs_Name bs) @ '' secret reference'')))"

definition GetBackingStoreTargetBucket :: "BackingStore \<Rightarrow> string result" where
  "GetBackingStoreTargetBucket bs = (case bs_Type bs of
     StoreTypeAWSS3 \<Rightarrow> bind_r (deref (bss_AWSS3 (bs_Spec bs))) (\<lambda>a. Ok (aws_TargetBucket a))
   | StoreTypeS3Compatible \<Rightarrow> bind_r (deref (bss_S3Compatible (bs_Spec bs))) (\<lambda>a. Ok (s3c_TargetBucket a))
   | StoreTypeIBMCos \<Rightarrow> bind_r (deref (bss_IBMCos (bs_Spec bs))) (\<lambda>a. Ok (ibm_TargetBucket a))
   | StoreTypeAzureBlob \<Rightarrow> bind_r (deref (bss_AzureBlob (bs_Spec bs))) (\<lambda>a. Ok (az_TargetBlobContainer a))
   | StoreTypeGoogleCloudStorage \<Rightarrow> bind_r (deref (bss_GoogleCloudStorage (bs_Spec bs))) (\<lambda>a. Ok (gcs_TargetBucket a))
   | StoreTypePVPool \<Rightarrow> Ok ''''
   | StoreTypeOther _ \<Rightarrow> Err (PlainError (''failed to get backingstore '' @ go_quote (bs_Name bs) @ '' target bucket'')))"

definition GetNamespaceStoreSecretByType :: "NamespaceStore \<Rightarrow> SecretReference option result" where
  "GetNamespaceStoreSecretByType ns = (case ns_Type ns of
     NSStoreTypeAWSS3 \<Rightarrow> bind_r (deref (nss_AWSS3 (ns_Spec ns))) (\<lambda>a. Ok (Some (aws_Secret a)))
   | NSStoreTypeS3Compatible \<Rightarrow> bind_r (deref (nss_S3Compatible (ns_Spec ns))) (\<lambda>a. Ok (Some (s3c_Secret a)))
   | NSStoreTypeIBMCos \<Rightarrow> bind_r (deref (nss_IBMCos (ns_Spec ns))) (\<lambda>a. Ok (Some (ibm_Secret a)))
   | NSStoreTypeAzureBlob \<Rightarrow> bind_r (deref (nss_AzureBlob (ns_Spec ns))) (\<lambda>a. Ok (Some (az_Secret a)))
   | NSStoreTypeGoogleCloudStorage \<Rightarrow> bind_r (deref (nss_GoogleCloudStorage (ns_Spec ns))) (\<lambda>a. Ok (Some (gcs_Secret a)))
   | NSStoreTypeNSFS \<Rightarrow> Ok None
   | NSStoreTypeOther _ \<Rightarrow> Err (PlainError (''failed to get namespacestore '' @ go_quote (ns_Name ns) @ '' secret'')))"

definition GetNamespaceStoreSecret :: "NamespaceStore \<Rightarrow> SecretReference option result" where
  "GetNamespaceStoreSecret ns =
     bind_r (GetNamespaceStoreSecretByType ns) (\<lambda>p. Ok (map_option (default_namespace (ns_Namespace ns)) p))"

definition SetNamespaceStoreSecretRef :: "NamespaceStore \<Rightarrow> SecretReference \<Rightarrow> NamespaceStore result" where
  "SetNamespaceStoreSecretRef ns ref =
    (let sp = ns_Spec ns in
     case ns_Type ns of
       NSStoreTypeAWSS3 \<Rightarrow> bind_r (deref (nss_AWSS3 sp))
         (\<lambda>a. Ok (ns\<lparr>ns_Spec := sp\<lparr>nss_AWSS3 := Some (a\<lparr>aws_Secret := ref\<rparr>)\<rparr>\<rparr>))
     | NSStoreTypeS3Compatible \<Rightarrow> bind_r (deref (nss_S3Compatible sp))
         (\<lambda>a. Ok (ns\<lparr>ns_Spec := sp\<lparr>nss_S3Compatible := Some (a\<lparr>s3c_Secret := ref\<rparr>)\<rparr>\<rparr>))
     | NSStoreTypeIBMCos \<Rightarrow> bind_r (deref (nss_IBMCos sp))
         (\<lambda>a. Ok (ns\<lparr>ns_Spec := sp\<lparr>nss_IBMCos := Some (a\<lparr>ibm_Secret := ref\<rparr>)\<rparr>\<rparr>))
     | NSStoreTypeAzureBlob \<Rightarrow> bind_r (deref (nss_AzureBlob sp))
         (\<lambda>a. Ok (ns\<lparr>ns_Spec := sp\<lparr>nss_AzureBlob := Some (a\<lparr>az_Secret := ref\<rparr>)\<rparr>\<rparr>))
     | NSStoreTypeGoogleCloudStorage \<Rightarrow> bind_r (deref (nss_GoogleCloudStorage sp))
         (\<lambda>a. Ok (ns\<lparr>ns_Spec := sp\<lparr>nss_GoogleCloudStorage := Some (a\<lparr>gcs_Secret := ref\<rparr>)\<rparr>\<rparr>))
     | NSStoreTypeNSFS \<Rightarrow> Ok ns
     | NSStoreTypeOther _ \<Rightarrow>
         Err (PlainError (''failed to set namespacestore '' @ go_quote (ns_Name ns) @ '' secret reference'')))"

definition GetNamespaceStoreTargetBucket :: "NamespaceStore \<Rightarrow> string result" where
  "GetNamespaceStoreTargetBucket ns = (case ns_Type ns of
     NSStoreTypeAWSS3 \<Rightarrow> bind_r (deref (nss_AWSS3 (ns_Spec ns))) (\<lambda>a. Ok (aws_TargetBucket a))
   | NSStoreTypeS3Compatible \<Rightarrow> bind_r (deref (nss_S3Compatible (ns_Spec ns))) (\<lambda>a. Ok (s3c_TargetBucket a))
   | NSStoreTypeIBMCos \<Rightarrow> bind_r (deref (nss_IBMCos (ns_Spec ns))) (\<lambda>a. Ok (ibm_TargetBucket a))
   | NSStoreTypeAzureBlob \<Rightarrow> bind_r (deref (nss_AzureBlob (ns_Spec ns))) (\<lambda>a. Ok (az_TargetBlobContainer a))
   | NSStoreTypeGoogleCloudStorage \<Rightarrow> bind_r (deref (nss_GoogleCloudStorage (ns_Spec ns))) (\<lambda>a. Ok (gcs_TargetBucket a))
   | NSStoreTypeNSFS \<Rightarrow> Ok ''''
   | NSStoreTypeOther _ \<Rightarrow> Err (PlainError (''failed to ger namespacestore '' @ go_quote (ns_Name ns) @ '' target bucket'')))"

text \<open>The sub-specification that matches the declared type is present.\<close>

definition bs_has_spec :: "BackingStore \<Rightarrow> bool" where
  "bs_has_spec bs = (case bs_Type bs of
     StoreTypeAWSS3 \<Rightarrow> bss_AWSS3 (bs_Spec bs) \<noteq> None
   | StoreTypeS3Compatible \<Rightarrow> bss_S3Compatible (bs_Spec bs) \<noteq> None
   | StoreTypeIBMCos \<Rightarrow> bss_IBMCos (bs_Spec bs) \<noteq> None
   | StoreTypeAzureBlob \<Rightarrow> bss_AzureBlob (bs_Spec bs) \<noteq> None
   | StoreTypeGoogleCloudStorage \<Rightarrow> bss_GoogleCloudStorage (bs_Spec bs) \<noteq> None
   | StoreTypePVPool \<Rightarrow> bss_PVPool (bs_Spec bs) \<noteq> None
   | StoreTypeOther _ \<Rightarrow> False)"

definition ns_has_spec :: "NamespaceStore \<Rightarrow> bool" where
  "ns_has_spec ns = (case ns_Type ns of
     NSStoreTypeAWSS3 \<Rightarrow> nss_AWSS3 (ns_Spec ns) \<noteq> None
   | NSStoreTypeS3Compatible \<Rightarrow> nss_S3Compatible (ns_Spec ns) \<noteq> None
   | NSStoreTypeIBMCos \<Rightarrow> nss_IBMCos (ns_Spec ns) \<noteq> None
   | NSStoreTypeAzureBlob \<Rightarrow> nss_AzureBlob (ns_Spec ns) \<noteq> None
   | NSStoreTypeGoogleCloudStorage \<Rightarrow> nss_GoogleCloudStorage (ns_Spec ns) \<noteq> None
   | NSStoreTypeNSFS \<Rightarrow> nss_NSFS (ns_Spec ns) \<noteq> None
   | NSStoreTypeOther _ \<Rightarrow> False)"

text \<open>
  The contract of the two families of accessors: on an object whose sub-specification is present
  and which keeps its credentials in a secret, setting a reference succeeds, the reference read
  back is the one set, and nothing else that the getters see changes.
\<close>

locale secret_store =
  fixes has_secret :: "'o \<Rightarrow> bool"
    and get_by_type :: "'o \<Rightarrow> SecretReference option result"
    and get :: "'o \<Rightarrow> SecretReference option result"
    and set_ref :: "'o \<Rightarrow> SecretReference \<Rightarrow> 'o result"
    and nspace :: "'o \<Rightarrow> string"
    and bucket :: "'o \<Rightarrow> string result"
  assumes get_eq: "get x = bind_r (get_by_type x) (\<lambda>p. Ok (map_option (default_namespace (nspace x)) p))"
    and set_ok: "has_secret x \<Longrightarrow> \<exists>x'. set_ref x r = Ok x'"
    and get_set: "set_ref x r = Ok x' \<Longrightarrow> has_secret x \<Longrightarrow> get_by_type x' = Ok (Some r)"
    and set_frame: "set_ref x r = Ok x' \<Longrightarrow> has_secret x \<Longrightarrow>
      nspace x' = nspace x \<and> bucket x' = bucket x \<and> has_secret x'"
begin

lemma set_then_get:
  assumes "has_secret x"
  obtains x' where "set_ref x r = Ok x'" "get x' = Ok (Some (default_namespace (nspace x) r))"
    "bucket x' = bucket x"
proof -
  obtain x' where x': "set_ref x r = Ok x'" using set_ok [OF assms] by blast
  with assms have "get_by_type x' = Ok (Some r)" "nspace x' = nspace x" "bucket x' = bucket x"
    by (auto dest: get_set set_frame)
  with x' show thesis by (intro that [of x']) (simp_all add: get_eq)
qed

lemma set_get_roundtrip:
  assumes "has_secret x"
  shows "\<exists>x'. set_ref x r = Ok x' \<and> get x' = Ok (Some (default_namespace (nspace x) r)) \<and> bucket x' = bucket x"
  using set_then_get [OF assms] by metis

lemma set_overwrites:
  assumes "has_secret x" "set_ref x r = Ok x1" "set_ref x1 q = Ok x2"
  shows "get x2 = Ok (Some (default_namespace (nspace x) q))"
proof -
  from set_frame [OF assms(2,1)] have 1: "nspace x1 = nspace x" "has_secret x1" by simp_all
  from set_frame [OF assms(3) 1(2)] get_set [OF assms(3) 1(2)] 1(1) show ?thesis
    by (simp add: get_eq)
qed

end

lemmas bs_accessor_defs = GetBackingStoreSecretByType_def SetBackingStoreSecretRef_def
  GetBackingStoreTargetBucket_def bs_has_spec_def

lemmas ns_accessor_defs = GetNamespaceStoreSecretByType_def SetNamespaceStoreSecretRef_def
  GetNamespaceStoreTargetBucket_def ns_has_spec_def

interpretation bs_secret: secret_store bs_has_spec GetBackingStoreSecretByType GetBackingStoreSecret
  SetBackingStoreSecretRef bs_Namespace GetBackingStoreTargetBucket
proof unfold_locales
  show "GetBackingStoreSecret x =
      bind_r (GetBackingStoreSecretByType x) (\<lambda>p. Ok (map_option (default_namespace (bs_Namespace x)) p))" for x
    by (simp add: GetBackingStoreSecret_def)
next
  show "bs_has_spec x \<Longrightarrow> \<exists>x'. SetBackingStoreSecretRef x r = Ok x'" for x r
    by (auto simp: bs_accessor_defs Let_def split: StoreType.splits)
next
  show "SetBackingStoreSecretRef x r = Ok x' \<Longrightarrow> bs_has_spec x \<Longrightarrow>
      GetBackingStoreSecretByType x' = Ok (Some r)" for x r x'
    by (auto simp: bs_accessor_defs Let_def bind_r_eq_Ok split: StoreType.splits)
next
  show "SetBackingStoreSecretRef x r = Ok x' \<Longrightarrow> bs_has_spec x \<Longrightarrow>
      bs_Namespace x' = bs_Namespace x \<and>
      GetBackingStoreTargetBucket x' = GetBackingStoreTargetBucket x \<and> bs_has_spec x'" for x r x'
    by (auto simp: bs_accessor_defs Let_def bind_r_eq_Ok split: StoreType.splits)
qed

text \<open>An nsfs namespace store has no secret: its getter returns a nil reference and its setter does nothing.\<close>

definition ns_has_secret :: "NamespaceStore \<Rightarrow> bool" where
  "ns_has_secret ns \<longleftrightarrow> ns_has_spec ns \<and> ns_Type ns \<noteq> NSStoreTypeNSFS"

interpretation ns_secret: secret_store ns_has_secret GetNamespaceStoreSecretByType GetNamespaceStoreSecret
  SetNamespaceStoreSecretRef ns_Namespace GetNamespaceStoreTargetBucket
proof unfold_locales
  show "GetNamespaceStoreSecret x =
      bind_r (GetNamespaceStoreSecretByType x) (\<lambda>p. Ok (map_option (default_namespace (ns_Namespace x)) p))" for x
    by (simp add: GetNamespaceStoreSecret_def)
next
  show "ns_has_secret x \<Longrightarrow> \<exists>x'. SetNamespaceStoreSecretRef x r = Ok x'" for x r
    by (auto simp: ns_has_secret_def ns_accessor_defs Let_def split: NSType.splits)
next
  show "SetNamespaceStoreSecretRef x r = Ok x' \<Longrightarrow> ns_has_secret x \<Longrightarrow>
      GetNamespaceStoreSecretByType x' = Ok (Some r)" for x r x'
    by (auto simp: ns_has_secret_def ns_accessor_defs Let_def bind_r_eq_Ok split: NSType.splits)
next
  show "SetNamespaceStoreSecretRef x r = Ok x' \<Longrightarrow> ns_has_secret x \<Longrightarrow>
      ns_Namespace x' = ns_Namespace x \<and>
      GetNamespaceStoreTargetBucket x' = GetNamespaceStoreTargetBucket x \<and> ns_has_secret x'" for x r x'
    by (auto simp: ns_has_secret_def ns_accessor_defs Let_def bind_r_eq_Ok split: NSType.splits)
qed

section \<open>Credentials in secrets\<close>

text \<open>
  A secret as \<open>KubeCheck\<close> leaves it: name, namespace and string data
  (\<open>SecretResetStringDataFromData\<close> moves the data into the string data).
\<close>

record Secret =
  sec_Meta :: ObjectMeta
  sec_StringData :: "string \<rightharpoonup> string"
  sec_Data :: "string \<rightharpoonup> string"

abbreviation sec_Name :: "Secret \<Rightarrow> string" where "sec_Name s \<equiv> om_Name (sec_Meta s)"
abbreviation sec_Namespace :: "Secret \<Rightarrow> string" where "sec_Namespace s \<equiv> om_Namespace (sec_Meta s)"

definition SecretResetStringDataFromData :: "Secret \<Rightarrow> Secret" where
  "SecretResetStringDataFromData s = s\<lparr>sec_StringData := sec_Data s, sec_Data := Map.empty\<rparr>"

definition secretDataString :: "Secret option \<Rightarrow> string \<Rightarrow> string" where
  "secretDataString p key = (case p of
     None \<Rightarrow> ''''
   | Some s \<Rightarrow>
       (let v = map_get (Some (sec_StringData s)) key in
        if v \<noteq> '''' then v
        else (case sec_Data s key of Some d \<Rightarrow> d | None \<Rightarrow> '''')))"

definition alternativeNames :: "string \<Rightarrow> string list" where
  "alternativeNames key =
     (if key = ''AWS_ACCESS_KEY_ID'' then [''aws_access_key_id'', ''AccessKey'']
      else if key = ''AWS_SECRET_ACCESS_KEY'' then [''aws_secret_access_key'', ''SecretKey'']
      else [])"

definition MapAlternateKeysValue :: "(string \<rightharpoonup> string) \<Rightarrow> string \<Rightarrow> string" where
  "MapAlternateKeysValue sd key =
     (let get = map_get (Some sd) in
      if get key = '''' then
        (case find (\<lambda>alt. get alt \<noteq> '''') (alternativeNames key) of
           Some alt \<Rightarrow> get alt
         | None \<Rightarrow> get key)
      else get key)"

definition MapStorTypeToMandatoryProperties :: "string \<Rightarrow> string list option" where
  "MapStorTypeToMandatoryProperties t =
     (if t = ''aws-s3'' then Some [''AWS_ACCESS_KEY_ID'', ''AWS_SECRET_ACCESS_KEY'']
      else if t = ''s3-compatible'' then Some [''AWS_ACCESS_KEY_ID'', ''AWS_SECRET_ACCESS_KEY'']
      else if t = ''ibm-cos'' then Some [''IBM_COS_ACCESS_KEY_ID'', ''IBM_COS_SECRET_ACCESS_KEY'']
      else if t = ''google-cloud-storage'' then Some [''GoogleCredentialsJson'', ''GoogleServiceAccountPrivateKeyJson'']
      else if t = ''azure-blob'' then Some [''AccountName'', ''AccountKey'']
      else if t = ''pv-pool'' then Some []
      else if t = ''nsfs'' then Some []
      else None)"

text \<open>
  \<open>get_secret\<close> is the lookup \<open>KubeGet\<close> makes for a secret of the given name and namespace.
\<close>

type_synonym get_secret = "string \<Rightarrow> string \<Rightarrow> kube_error + Secret"

definition GetSecretFromSecretReference :: "get_secret \<Rightarrow> SecretReference option \<Rightarrow> Secret option result" where
  "GetSecretFromSecretReference get p = (case p of
     None \<Rightarrow> Ok None
   | Some r \<Rightarrow>
       if sr_Name r = '''' then Ok None
       else bind_r (check_get (get (sr_Name r) (sr_Namespace r))) (\<lambda>s. case s of
              Some s' \<Rightarrow> Ok (Some (SecretResetStringDataFromData s'))
            | None \<Rightarrow> Err (PlainError (''Could not get Secret '' @ go_quote (sr_Name r)
                @ '' in namespace '' @ go_quote (sr_Namespace r)))))"

text \<open>The comparison loop over the mandatory properties of one candidate secret.\<close>

fun same_creds :: "(string \<rightharpoonup> string) \<Rightarrow> (string \<rightharpoonup> string) \<Rightarrow> string list \<Rightarrow> bool \<Rightarrow> bool" where
  "same_creds used sec [] found = found"
| "same_creds used sec (k # ks) found =
     (let u = MapAlternateKeysValue used k; v = MapAlternateKeysValue sec k in
      same_creds used sec ks (if u \<noteq> '''' \<or> v \<noteq> '''' then found \<and> u = v else found))"

text \<open>
  One pass over a list of stores.  \<open>ref\<close> is the store's secret reference (an error is only
  logged and leaves a nil reference), \<open>ty\<close> its type as a string; the first store of the
  requested type whose secret has another name and the same credentials decides.
\<close>

fun find_identical ::
    "get_secret \<Rightarrow> Secret \<Rightarrow> string \<Rightarrow> string list \<Rightarrow> (SecretReference option result \<times> string) list \<Rightarrow> Secret option result" where
  "find_identical get secret t props [] = Ok None"
| "find_identical get secret t props ((ref, ty) # rest) = (case ref of
     Panic \<Rightarrow> Panic
   | Err _ \<Rightarrow> find_identical get secret t props rest
   | Ok None \<Rightarrow> find_identical get secret t props rest
   | Ok (Some r) \<Rightarrow>
       (case GetSecretFromSecretReference get (Some r) of
          Panic \<Rightarrow> Panic
        | Ok (Some u) \<Rightarrow>
            if sec_Name u \<noteq> sec_Name secret \<and> ty = t \<and> same_creds (sec_StringData u) (sec_StringData secret) props True
            then Ok (Some u)
            else find_identical get secret t props rest
        | _ \<Rightarrow> find_identical get secret t props rest))"

text \<open>\<open>bss\<close> and \<open>nss\<close> are the stores that \<open>KubeList\<close> returns for the secret's namespace.\<close>

definition CheckForIdenticalSecretsCreds ::
    "get_secret \<Rightarrow> BackingStore list \<Rightarrow> NamespaceStore list \<Rightarrow> Secret option \<Rightarrow> string \<Rightarrow> Secret option result" where
  "CheckForIdenticalSecretsCreds get bss nss secret t =
     (let props = (case MapStorTypeToMandatoryProperties t of Some ps \<Rightarrow> ps | None \<Rightarrow> []) in
      case secret of
        None \<Rightarrow> Ok None
      | Some s \<Rightarrow>
          if props = [] then Ok None
          else bind_r (find_identical get s t props
                   (map (\<lambda>bs. (GetBackingStoreSecret bs, store_type_string (bs_Type bs)))
                     (filter (\<lambda>bs. bs_Type bs \<noteq> StoreTypePVPool) bss)))
                 (\<lambda>r. case r of
                    Some u \<Rightarrow> Ok (Some u)
                  | None \<Rightarrow> find_identical get s t props
                      (map (\<lambda>ns. (GetNamespaceStoreSecret ns, ns_type_string (ns_Type ns)))
                        (filter (\<lambda>ns. ns_Type ns \<noteq> NSStoreTypeNSFS) nss))))"

lemma same_creds_iff:
  "same_creds used sec ks found \<longleftrightarrow>
     found \<and> (\<forall>k \<in> set ks. MapAlternateKeysValue used k = MapAlternateKeysValue sec k)"
  by (induction used sec ks found rule: same_creds.induct) (auto simp: Let_def)

lemma find_identical_Some:
  "find_identical get secret t props xs = Ok (Some u) \<Longrightarrow>
     sec_Name u \<noteq> sec_Name secret \<and>
     (\<forall>k \<in> set props. MapAlternateKeysValue (sec_StringData u) k = MapAlternateKeysValue (sec_StringData secret) k) \<and>
     (\<exists>r. (Ok (Some r), t) \<in> set xs \<and> GetSecretFromSecretReference get (Some r) = Ok (Some u))"
proof (induction xs)
  case (Cons x rest)
  obtain ref ty where x: "x = (ref, ty)" by (cases x)
  have skip: ?case if "find_identical get secret t props rest = Ok (Some u)"
    using Cons.IH [OF that] by (meson list.set_intros(2))
  show ?case
  proof (cases "\<exists>r v. ref = Ok (Some r) \<and> GetSecretFromSecretReference get (Some r) = Ok (Some v)")
    case True
    then obtain r v where rv: "ref = Ok (Some r)" "GetSecretFromSecretReference get (Some r) = Ok (Some v)"
      by blast
    show ?thesis
    proof (cases "sec_Name v \<noteq> sec_Name secret \<and> ty = t
        \<and> same_creds (sec_StringData v) (sec_StringData secret) props True")
      case True
      with Cons.prems x rv have "u = v" by simp
      with True x rv show ?thesis by (auto simp: same_creds_iff)
    next
      case False
      with Cons.prems x rv have "find_identical get secret t props rest = Ok (Some u)"
        by (simp split: if_splits)
      then show ?thesis by (rule skip)
    qed
  next
    case False
    with Cons.prems x have "find_identical get secret t props rest = Ok (Some u)"
      by (simp split: result.splits option.splits)
    then show ?thesis by (rule skip)
  qed
qed simp

section \<open>Properties\<close>

text \<open>
  Setting the secret of a backing store whose sub-specification is there succeeds, reading it gives the
  reference that was set (in the store's namespace when it has none), and the target bucket is unchanged.
\<close>

theorem backing_store_secret_roundtrip:
  assumes "bs_has_spec bs"
  shows "\<exists>bs'. SetBackingStoreSecretRef bs r = Ok bs' \<and>
           GetBackingStoreSecret bs' = Ok (Some (default_namespace (bs_Namespace bs) r)) \<and>
           GetBackingStoreTargetBucket bs' = GetBackingStoreTargetBucket bs"
  using assms by (rule bs_secret.set_get_roundtrip)

theorem backing_store_secret_roundtrip_witness:
  "\<exists>bs'. SetBackingStoreSecretRef (ex_aws_bs ''data'') \<lparr>sr_Name = ''new'', sr_Namespace = ''''\<rparr> = Ok bs' \<and>
     GetBackingStoreSecret bs' = Ok (Some \<lparr>sr_Name = ''new'', sr_Namespace = ''noobaa''\<rparr>)"
proof -
  have "bs_has_spec (ex_aws_bs ''data'')" by (simp add: bs_has_spec_def ex_objects)
  from backing_store_secret_roundtrip [OF this, of "\<lparr>sr_Name = ''new'', sr_Namespace = ''''\<rparr>"] show ?thesis
    by (auto simp: default_namespace_def ex_objects)
qed

text \<open>The same for namespace stores that keep their credentials in a secret.\<close>

theorem namespace_store_secret_roundtrip:
  assumes "ns_has_secret ns"
  shows "\<exists>ns'. SetNamespaceStoreSecretRef ns r = Ok ns' \<and>
           GetNamespaceStoreSecret ns' = Ok (Some (default_namespace (ns_Namespace ns) r)) \<and>
           GetNamespaceStoreTargetBucket ns' = GetNamespaceStoreTargetBucket ns"
  using assms by (rule ns_secret.set_get_roundtrip)

theorem namespace_store_secret_roundtrip_witness:
  "\<exists>ns'. SetNamespaceStoreSecretRef (ex_s3_ns ''https://h'') \<lparr>sr_Name = ''new'', sr_Namespace = ''other''\<rparr> = Ok ns' \<and>
     GetNamespaceStoreSecret ns' = Ok (Some \<lparr>sr_Name = ''new'', sr_Namespace = ''other''\<rparr>)"
proof -
  have "ns_has_secret (ex_s3_ns ''https://h'')" by (simp add: ns_has_secret_def ns_has_spec_def ex_objects)
  from namespace_store_secret_roundtrip [OF this, of "\<lparr>sr_Name = ''new'', sr_Namespace = ''other''\<rparr>"] show ?thesis
    by (auto simp: default_namespace_def ex_objects)
qed

text \<open>
  A secret reported as a duplicate is the secret of an existing store of the same type, has another name,
  and agrees with the given one on every mandatory property of the type.
\<close>

theorem identical_secret_found:
  assumes "CheckForIdenticalSecretsCreds get bss nss (Some s) t = Ok (Some u)"
    and "MapStorTypeToMandatoryProperties t = Some props"
  shows "sec_Name u \<noteq> sec_Name s \<and>
     (\<forall>k \<in> set props. MapAlternateKeysValue (sec_StringData u) k = MapAlternateKeysValue (sec_StringData s) k) \<and>
     (\<exists>r. ((\<exists>bs \<in> set bss. GetBackingStoreSecret bs = Ok (Some r) \<and> store_type_string (bs_Type bs) = t) \<or>
           (\<exists>ns \<in> set nss. GetNamespaceStoreSecret ns = Ok (Some r) \<and> ns_type_string (ns_Type ns) = t)) \<and>
        GetSecretFromSecretReference get (Some r) = Ok (Some u))"
proof -
  from assms consider
    "find_identical get s t props (map (\<lambda>bs. (GetBackingStoreSecret bs, store_type_string (bs_Type bs)))
       (filter (\<lambda>bs. bs_Type bs \<noteq> StoreTypePVPool) bss)) = Ok (Some u)"
  | "find_identical get s t props (map (\<lambda>ns. (GetNamespaceStoreSecret ns, ns_type_string (ns_Type ns)))
       (filter (\<lambda>ns. ns_Type ns \<noteq> NSStoreTypeNSFS) nss)) = Ok (Some u)"
    by (auto simp: CheckForIdenticalSecretsCreds_def Let_def bind_r_eq_Ok split: if_splits option.splits)
  then obtain r where spec: "sec_Name u \<noteq> sec_Name s"
      "\<forall>k \<in> set props. MapAlternateKeysValue (sec_StringData u) k = MapAlternateKeysValue (sec_StringData s) k"
      "GetSecretFromSecretReference get (Some r) = Ok (Some u)"
    and r: "(Ok (Some r), t) \<in> set (map (\<lambda>bs. (GetBackingStoreSecret bs, store_type_string (bs_Type bs))) bss) \<or>
      (Ok (Some r), t) \<in> set (map (\<lambda>ns. (GetNamespaceStoreSecret ns, ns_type_string (ns_Type ns))) nss)"
    by cases (drule find_identical_Some, auto)+
  from r have "(\<exists>bs \<in> set bss. GetBackingStoreSecret bs = Ok (Some r) \<and> store_type_string (bs_Type bs) = t) \<or>
      (\<exists>ns \<in> set nss. GetNamespaceStoreSecret ns = Ok (Some r) \<and> ns_type_string (ns_Type ns) = t)"
    by (auto dest: sym)
  with spec show ?thesis by blast
qed

definition ex_secret :: "string \<Rightarrow> Secret" where
  "ex_secret n = \<lparr>sec_Meta = ex_meta n, sec_StringData = [''AWS_ACCESS_KEY_ID'' \<mapsto> ''k''],
     sec_Data = [''AWS_ACCESS_KEY_ID'' \<mapsto> ''k'']\<rparr>"

theorem identical_secret_found_witness:
  "\<exists>u. CheckForIdenticalSecretsCreds (\<lambda>n _. Inr (ex_secret n)) [ex_aws_bs ''data''] [] (Some (ex_secret ''mine'')) ''aws-s3''
         = Ok (Some u) \<and> sec_Name u \<noteq> ''mine''"
proof -
  have r: "GetBackingStoreSecret (ex_aws_bs ''data'') = Ok (Some \<lparr>sr_Name = ''creds'', sr_Namespace = ''noobaa''\<rparr>)"
    by (simp add: GetBackingStoreSecret_def GetBackingStoreSecretByType_def default_namespace_def ex_objects)
  have t: "bs_Type (ex_aws_bs ''data'') = StoreTypeAWSS3" by (simp add: ex_objects)
  obtain u where u: "CheckForIdenticalSecretsCreds (\<lambda>n _. Inr (ex_secret n)) [ex_aws_bs ''data''] []
      (Some (ex_secret ''mine'')) ''aws-s3'' = Ok (Some u)"
    by (simp add: CheckForIdenticalSecretsCreds_def MapStorTypeToMandatoryProperties_def r t same_creds_iff Let_def
        GetSecretFromSecretReference_def SecretResetStringDataFromData_def ex_secret_def ex_meta_def)
  have "sec_Name u \<noteq> sec_Name (ex_secret ''mine'')"
    using identical_secret_found [OF u] by (simp add: MapStorTypeToMandatoryProperties_def)
  with u show ?thesis by (auto simp: ex_secret_def ex_meta_def)
qed

end
