(* ===== verification/Nb_Types.thy ===== *)
theory Nb_Types
  imports Api_Types Complex_Main "HOL-Library.Word"
begin

text \<open>
  The structures that the NooBaa core returns over its management API
  (\<^verbatim>\<open>pkg/nb/types.go\<close>) as far as the operator reads them, the large integers the API
  uses for capacities, and their conversions at the width of the code (\<open>int64\<close>,
  \<open>uint64\<close>).
\<close>

section \<open>Large integers\<close>

type_synonym int64 = "64 word"
type_synonym uint64 = "64 word"

abbreviation petaInBytes :: "'a::numeral" where "petaInBytes \<equiv> 1125899906842624"

record BigInt =
  bi_N :: int64
  bi_Peta :: int64

text \<open>\<open>ToString\<close> computes in \<open>int64\<close>, so it wraps; \<open>ToBig\<close> computes in unbounded integers.\<close>

definition BigInt_ToString :: "BigInt \<Rightarrow> string" where
  "BigInt_ToString n = show_int (sint (bi_N n + bi_Peta n * petaInBytes))"

definition ToBig :: "BigInt option \<Rightarrow> int" where
  "ToBig p = (case p of None \<Rightarrow> 0 | Some n \<Rightarrow> sint (bi_N n) + sint (bi_Peta n) * petaInBytes)"

definition UInt64ToBigInt :: "uint64 \<Rightarrow> BigInt" where
  "UInt64ToBigInt value = \<lparr>bi_N = value mod petaInBytes, bi_Peta = value div petaInBytes\<rparr>"

lemma sint_eq_uint_of_small: "uint w < 2 ^ 63 \<Longrightarrow> sint w = uint w" for w :: "64 word"
proof -
  assume "uint w < 2 ^ 63"
  moreover have "- (2 ^ 63) \<le> uint w" by (rule order_trans [OF _ uint_ge_0]) simp
  ultimately show ?thesis by (simp add: sint_uint signed_take_bit_int_eq_self_iff)
qed

lemma UInt64ToBigInt_parts:
  "sint (bi_N (UInt64ToBigInt v)) = uint v mod petaInBytes"
  "sint (bi_Peta (UInt64ToBigInt v)) = uint v div petaInBytes"
proof -
  have b: "0 \<le> uint v" "uint v < 18446744073709551616" using uint_bounded [of v] by simp_all
  have m: "uint v mod petaInBytes < 2 ^ 63" "uint v div petaInBytes < 2 ^ 63"
    using b by simp_all
  show "sint (bi_N (UInt64ToBigInt v)) = uint v mod petaInBytes"
    using m(1) by (subst sint_eq_uint_of_small) (simp_all add: UInt64ToBigInt_def uint_mod)
  show "sint (bi_Peta (UInt64ToBigInt v)) = uint v div petaInBytes"
    using m(2) by (subst sint_eq_uint_of_small) (simp_all add: UInt64ToBigInt_def uint_div)
qed

text \<open>The encoding of a capacity loses nothing.\<close>

lemma ToBig_UInt64ToBigInt: "ToBig (Some (UInt64ToBigInt v)) = uint v"
  by (simp add: ToBig_def UInt64ToBigInt_parts)

text \<open>\<open>ToString\<close> of an encoded capacity is its signed reading: it is negative from 8 EiB on.\<close>

lemma BigInt_ToString_UInt64: "BigInt_ToString (UInt64ToBigInt v) = show_int (sint v)"
proof -
  have "v mod petaInBytes + v div petaInBytes * petaInBytes = v"
    by (metis add.commute word_mod_div_equality)
  then show ?thesis by (simp add: BigInt_ToString_def UInt64ToBigInt_def)
qed

section \<open>Information returned by the management API\<close>

text \<open>A quota as the API has it: a size (a floating-point number and a unit) and a number of objects.\<close>

record QuotaConfig =
  qc_Size :: "(rat \<times> string) option"
  qc_Quantity :: "int option"

record DataCapacity =
  dc_Size :: "BigInt option"
  dc_Free :: "BigInt option"

record BucketClaimInfo =
  bci_BucketClass :: string
  bci_Namespace :: string

record BucketInfo =
  bi_Name :: string
  bi_BucketType :: string
  bi_BucketClaim :: "BucketClaimInfo option"
  bi_Tiering :: "string option"
  bi_DataCapacity :: "DataCapacity option"
  bi_NumObjects :: "int option"
  bi_Quota :: "QuotaConfig option"

record CloudInfo =
  ci_EndpointType :: string
  ci_Endpoint :: string
  ci_TargetBucket :: string
  ci_Identity :: string

record PoolInfo =
  pi_Name :: string
  pi_ResourceType :: string
  pi_Mode :: string
  pi_Undeletable :: string
  pi_CloudInfo :: "CloudInfo option"
  pi_VolumeSize :: "int option"
  pi_ConfiguredCount :: "int option"

record NamespaceResourceInfo =
  nri_Name :: string
  nri_Mode :: string
  nri_Undeletable :: string
  nri_EndpointType :: string
  nri_Endpoint :: string
  nri_TargetBucket :: string
  nri_Identity :: string
  nri_AuthMethod :: string

record ExternalConnectionInfo =
  eci_Name :: string
  eci_Identity :: string
  eci_Endpoint :: string
  eci_EndpointType :: string
  eci_AuthMethod :: string

record AccountInfo =
  ai_Name :: string
  ai_Email :: string
  ai_HasS3Access :: bool
  ai_CanCreateBuckets :: bool
  ai_DefaultResource :: string
  ai_NsfsAccountConfig :: "AccountNsfsConfig option"
  ai_Connections :: "ExternalConnectionInfo list"

record SystemInfo =
  si_Accounts :: "AccountInfo list"
  si_Buckets :: "BucketInfo list"
  si_Pools :: "PoolInfo list"
  si_NamespaceResources :: "NamespaceResourceInfo list"

end
