(* ===== verification/BS_Validation.thy ===== *)
theory BS_Validation
  imports Store_Util Nb_Types
begin

text \<open>
  \<^verbatim>\<open>pkg/validations/backingstore_validations.go\<close>: the rules a backing store must
  obey on creation, on update and on deletion.
\<close>

section \<open>The checks\<close>

abbreviation MinimumVolumeSize :: int where "MinimumVolumeSize \<equiv> 16 * 1024 * 1024 * 1024"
abbreviation MaximumPvpoolNameLength :: nat where "MaximumPvpoolNameLength \<equiv> 43"
abbreviation MaximumVolumeCount :: int where "MaximumVolumeCount \<equiv> 20"

abbreviation invalid_bs_type :: string where
  "invalid_bs_type \<equiv> ''Invalid Backingstore type, please provide a valid Backingstore type''"

definition ValidateBSInValidSpec :: "BackingStore \<Rightarrow> check" where
  "ValidateBSInValidSpec bs = (case bs_Type bs of
     StoreTypeAWSS3 \<Rightarrow> require (bss_AWSS3 (bs_Spec bs) \<noteq> None)
       ''AWSS3 spec must be provided for aws-s3 type BackingStore''
   | StoreTypeS3Compatible \<Rightarrow> require (bss_S3Compatible (bs_Spec bs) \<noteq> None)
       ''S3Compatible spec must be provided for s3-compatible type BackingStore''
   | StoreTypeIBMCos \<Rightarrow> require (bss_IBMCos (bs_Spec bs) \<noteq> None)
       ''IBMCos spec must be provided for ibm-cos type BackingStore''
   | StoreTypeAzureBlob \<Rightarrow> require (bss_AzureBlob (bs_Spec bs) \<noteq> None)
       ''AzureBlob spec must be provided for azure-blob type BackingStore''
   | StoreTypeGoogleCloudStorage \<Rightarrow> require (bss_GoogleCloudStorage (bs_Spec bs) \<noteq> None)
       ''GoogleCloudStorage spec must be provided for google-cloud-storage type BackingStore''
   | StoreTypePVPool \<Rightarrow> require (bss_PVPool (bs_Spec bs) \<noteq> None)
       ''PVPool spec must be provided for pv-pool type BackingStore''
   | StoreTypeOther _ \<Rightarrow> Err (ValidationError invalid_bs_type))"

definition ValidateAWSSTSARN :: "BackingStore \<Rightarrow> check" where
  "ValidateAWSSTSARN bs = (case bss_AWSS3 (bs_Spec bs) of
     None \<Rightarrow> pass
   | Some a \<Rightarrow> require (aws_AWSSTSRoleARN a \<noteq> None)
       ''Failed creating the Backingstore, please provide a valid ARN or secret name'')"

definition ValidateAzureSTSCredentials :: "BackingStore \<Rightarrow> check" where
  "ValidateAzureSTSCredentials bs = (case bss_AzureBlob (bs_Spec bs) of
     None \<Rightarrow> pass
   | Some a \<Rightarrow> require (az_ClientId a \<noteq> None)
       ''Failed creating the Backingstore, please provide secret name or Azure STS clientId'')"

abbreviation bs_no_secret :: string where
  "bs_no_secret \<equiv> ''Failed creating the Backingstore, please provide secret name''"

definition ValidateBSEmptySecretName :: "BackingStore \<Rightarrow> check" where
  "ValidateBSEmptySecretName bs = (let sp = bs_Spec bs in case bss_Type sp of
     StoreTypeAWSS3 \<Rightarrow> bind_r (deref (bss_AWSS3 sp)) (\<lambda>a.
       if length (sr_Name (aws_Secret a)) = 0 then ValidateAWSSTSARN bs else pass)
   | StoreTypeS3Compatible \<Rightarrow> bind_r (deref (bss_S3Compatible sp)) (\<lambda>a.
       require (length (sr_Name (s3c_Secret a)) \<noteq> 0) bs_no_secret)
   | StoreTypeIBMCos \<Rightarrow> bind_r (deref (bss_IBMCos sp)) (\<lambda>a.
       require (length (sr_Name (ibm_Secret a)) \<noteq> 0) bs_no_secret)
   | StoreTypeAzureBlob \<Rightarrow> bind_r (deref (bss_AzureBlob sp)) (\<lambda>a.
       if length (sr_Name (az_Secret a)) = 0 then ValidateAzureSTSCredentials bs else pass)
   | StoreTypeGoogleCloudStorage \<Rightarrow> bind_r (deref (bss_GoogleCloudStorage sp)) (\<lambda>a.
       require (length (sr_Name (gcs_Secret a)) \<noteq> 0) bs_no_secret)
   | StoreTypePVPool \<Rightarrow> pass
   | StoreTypeOther _ \<Rightarrow> Err (ValidationError invalid_bs_type))"

abbreviation bs_no_bucket :: string where
  "bs_no_bucket \<equiv> ''Failed creating the Backingstore, please provide target bucket''"

definition ValidateBSEmptyTargetBucket :: "BackingStore \<Rightarrow> check" where
  "ValidateBSEmptyTargetBucket bs = (let sp = bs_Spec bs in case bss_Type sp of
     StoreTypeAWSS3 \<Rightarrow> bind_r (deref (bss_AWSS3 sp)) (\<lambda>a.
       require (length (aws_TargetBucket a) \<noteq> 0) bs_no_bucket)
   | StoreTypeS3Compatible \<Rightarrow> bind_r (deref (bss_S3Compatible sp)) (\<lambda>a.
       require (length (s3c_TargetBucket a) \<noteq> 0) bs_no_bucket)
   | StoreTypeIBMCos \<Rightarrow> bind_r (deref (bss_IBMCos sp)) (\<lambda>a.
       require (length (ibm_TargetBucket a) \<noteq> 0) bs_no_bucket)
   | StoreTypeAzureBlob \<Rightarrow> bind_r (deref (bss_AzureBlob sp)) (\<lambda>a.
       require (length (az_TargetBlobContainer a) \<noteq> 0) bs_no_bucket)
   | StoreTypeGoogleCloudStorage \<Rightarrow> bind_r (deref (bss_GoogleCloudStorage sp)) (\<lambda>a.
       require (length (gcs_TargetBucket a) \<noteq> 0) bs_no_bucket)
   | StoreTypePVPool \<Rightarrow> pass
   | StoreTypeOther _ \<Rightarrow> Err (ValidationError invalid_bs_type))"

definition ValidatePvpoolNameLength :: "BackingStore \<Rightarrow> check" where
  "ValidatePvpoolNameLength bs =
     require (\<not> MaximumPvpoolNameLength < length (bs_Name bs))
       ''Unsupported BackingStore name length, please provide a name shorter then 43 characters''"

text \<open>\<open>Requests.Storage()\<close> is zero when no storage is requested.\<close>

definition Storage :: "ResourceList \<Rightarrow> quantity" where
  "Storage rl = (case rl ResourceStorage of None \<Rightarrow> 0 | Some q \<Rightarrow> q)"

definition ValidatePvpoolMinVolSize :: "BackingStore \<Rightarrow> check" where
  "ValidatePvpoolMinVolSize bs = bind_r (deref (bss_PVPool (bs_Spec bs))) (\<lambda>pv.
     case pv_VolumeResources pv of
       None \<Rightarrow> pass
     | Some vr \<Rightarrow> require (q_Cmp (Storage (rr_Requests vr)) (of_units MinimumVolumeSize) \<noteq> - 1)
         ''Invalid volume size, minimum volume size is 16Gi'')"

definition ValidateSigVersion :: "S3SignatureVersion \<Rightarrow> check" where
  "ValidateSigVersion v = (case v of
     S3SignatureVersionV2 \<Rightarrow> pass
   | S3SignatureVersionV4 \<Rightarrow> pass
   | S3SignatureVersionEmpty \<Rightarrow> pass
   | S3SignatureVersionOther _ \<Rightarrow> Err (ValidationError
       ''Invalid S3 compatible Backingstore signature version, please choose either v2/v4''))"

definition ValidateMaxVolumeCount :: "BackingStore \<Rightarrow> check" where
  "ValidateMaxVolumeCount bs = bind_r (deref (bss_PVPool (bs_Spec bs))) (\<lambda>pv.
     require (\<not> MaximumVolumeCount < pv_NumVolumes pv)
       ''Unsupported volume count, the maximum supported volume count is 20'')"

definition ValidateMinVolumeCount :: "BackingStore \<Rightarrow> check" where
  "ValidateMinVolumeCount bs = bind_r (deref (bss_PVPool (bs_Spec bs))) (\<lambda>pv.
     require (\<not> pv_NumVolumes pv \<le> 0)
       ''Unsupported volume count, the minimum supported volume count is 1'')"

text \<open>One turn of the loop over \<open>cpu\<close> and \<open>memory\<close>; \<open>q_String\<close> prints a quantity.\<close>

definition check_resource :: "(quantity \<Rightarrow> string) \<Rightarrow> ResourceRequirements \<Rightarrow> ResourceName \<Rightarrow> check" where
  "check_resource q_String vr r = first_err [
     (case rr_Requests vr r of
        Some q \<Rightarrow> require (\<not> q_Cmp q 0 < 0)
          (''Invalid PV pool resource: request '' @ resource_name r @ '' must not be negative'')
      | None \<Rightarrow> pass),
     (case rr_Limits vr r of
        Some q \<Rightarrow> require (\<not> q_Cmp q 0 < 0)
          (''Invalid PV pool resource: limit '' @ resource_name r @ '' must not be negative'')
      | None \<Rightarrow> pass),
     (case (rr_Requests vr r, rr_Limits vr r) of
        (Some req, Some limit) \<Rightarrow> require (\<not> 0 < q_Cmp req limit)
          (''Invalid PV pool resource: request '' @ resource_name r @ '' ('' @ q_String req
            @ '') exceeds limit ('' @ q_String limit @ '')'')
      | _ \<Rightarrow> pass)]"

definition ValidatePvpoolResources :: "(quantity \<Rightarrow> string) \<Rightarrow> BackingStore \<Rightarrow> check" where
  "ValidatePvpoolResources q_String bs = (case bss_PVPool (bs_Spec bs) of
     None \<Rightarrow> pass
   | Some pv \<Rightarrow> (case pv_VolumeResources pv of
       None \<Rightarrow> pass
     | Some vr \<Rightarrow> for_all_r (check_resource q_String vr) [ResourceCPU, ResourceMemory]))"

definition ValidateBackingStore :: "(quantity \<Rightarrow> string) \<Rightarrow> BackingStore \<Rightarrow> check" where
  "ValidateBackingStore q_String bs = first_err [
     ValidateBSInValidSpec bs,
     ValidateBSEmptySecretName bs,
     ValidateBSEmptyTargetBucket bs,
     (case bs_Type bs of
        StoreTypePVPool \<Rightarrow> first_err [
          ValidatePvpoolNameLength bs,
          ValidatePvpoolMinVolSize bs,
          ValidateMaxVolumeCount bs,
          ValidateMinVolumeCount bs,
          ValidatePvpoolResources q_String bs]
      | StoreTypeS3Compatible \<Rightarrow>
          bind_r (deref (bss_S3Compatible (bs_Spec bs))) (\<lambda>a. ValidateSigVersion (s3c_SignatureVersion a))
      | StoreTypeIBMCos \<Rightarrow>
          bind_r (deref (bss_IBMCos (bs_Spec bs))) (\<lambda>a. ValidateSigVersion (ibm_SignatureVersion a))
      | StoreTypeAWSS3 \<Rightarrow> pass
      | StoreTypeAzureBlob \<Rightarrow> pass
      | StoreTypeGoogleCloudStorage \<Rightarrow> pass
      | StoreTypeOther _ \<Rightarrow> Err (ValidationError invalid_bs_type))]"


section \<open>Checks on update and on deletion\<close>

definition ValidatePvpoolScaleDown :: "BackingStore \<Rightarrow> BackingStore \<Rightarrow> check" where
  "ValidatePvpoolScaleDown bs oldBs =
     bind_r (deref (bss_PVPool (bs_Spec oldBs))) (\<lambda>old.
     bind_r (deref (bss_PVPool (bs_Spec bs))) (\<lambda>new.
       require (\<not> pv_NumVolumes new < pv_NumVolumes old)
         ''Scaling down the number of nodes is not currently supported''))"

abbreviation bs_bucket_change :: string where
  "bs_bucket_change \<equiv> ''Changing a Backingstore target bucket is unsupported''"

definition ValidateTargetBSBucketChange :: "BackingStore \<Rightarrow> BackingStore \<Rightarrow> check" where
  "ValidateTargetBSBucketChange bs oldBs = (let n = bs_Spec bs; old = bs_Spec oldBs in case bss_Type n of
     StoreTypeAWSS3 \<Rightarrow> unchanged bs_bucket_change aws_TargetBucket (bss_AWSS3 old) (bss_AWSS3 n)
   | StoreTypeS3Compatible \<Rightarrow>
       unchanged bs_bucket_change s3c_TargetBucket (bss_S3Compatible old) (bss_S3Compatible n)
   | StoreTypeIBMCos \<Rightarrow> unchanged bs_bucket_change ibm_TargetBucket (bss_IBMCos old) (bss_IBMCos n)
   | StoreTypeAzureBlob \<Rightarrow>
       unchanged bs_bucket_change az_TargetBlobContainer (bss_AzureBlob old) (bss_AzureBlob n)
   | StoreTypeGoogleCloudStorage \<Rightarrow>
       unchanged bs_bucket_change gcs_TargetBucket (bss_GoogleCloudStorage old) (bss_GoogleCloudStorage n)
   | _ \<Rightarrow> Err (ValidationError ''Failed to identify Backingstore type''))"

definition pool_deletion :: "PoolInfo \<Rightarrow> check" where
  "pool_deletion p =
     (if pi_Undeletable p \<in> {''IS_BACKINGSTORE'', ''BEING_DELETED''} then pass
      else if pi_Undeletable p = ''CONNECTED_BUCKET_DELETING'' then
        Err (ValidationError (''cannot complete because objects in Backingstore '' @ go_quote (pi_Name p)
          @ '' are still being deleted, Please try later''))
      else Err (ValidationError (''cannot complete because pool '' @ go_quote (pi_Name p)
          @ '' in '' @ go_quote (pi_Undeletable p) @ '' state'')))"

definition ValidateBackingstoreDeletion :: "BackingStore \<Rightarrow> SystemInfo \<Rightarrow> check" where
  "ValidateBackingstoreDeletion bs systemInfo =
     (case find (\<lambda>p. pi_Name p = bs_Name bs) (si_Pools systemInfo) of
        None \<Rightarrow> pass
      | Some p \<Rightarrow> pool_deletion p)"

definition isMissing :: "string option \<Rightarrow> bool" where
  "isMissing p = (case p of None \<Rightarrow> True | Some v \<Rightarrow> TrimSpace v = '''')"

definition ValidateAzureSTSCredsPresent ::
    "string option \<Rightarrow> string option \<Rightarrow> string option \<Rightarrow> string option \<Rightarrow> check" where
  "ValidateAzureSTSCredsPresent targetBlobContainer accountName tenantID clientID = first_err [
     require (\<not> isMissing targetBlobContainer) ''Target blob container is required'',
     require (\<not> isMissing accountName) ''Azure storage account name is required'',
     require (\<not> isMissing tenantID) ''Azure tenant ID is required'',
     require (\<not> isMissing clientID) ''Azure client ID is required'']"

section \<open>What a validated backing store looks like\<close>

text \<open>
  The specification: the sub-specification of the declared type is there, a cloud store names a
  bucket and a secret (or, on AWS and Azure, the identity to assume), the signature version is one of
  the supported ones, and a PV pool is within its bounds.
\<close>

definition valid_sig :: "S3SignatureVersion \<Rightarrow> bool" where
  "valid_sig v \<longleftrightarrow> v \<in> {S3SignatureVersionV2, S3SignatureVersionV4, S3SignatureVersionEmpty}"

definition valid_resources :: "ResourceRequirements \<Rightarrow> bool" where
  "valid_resources vr \<longleftrightarrow> (\<forall>r \<in> {ResourceCPU, ResourceMemory}.
     (\<forall>q. rr_Requests vr r = Some q \<longrightarrow> 0 \<le> q) \<and> (\<forall>q. rr_Limits vr r = Some q \<longrightarrow> 0 \<le> q) \<and>
     (\<forall>q l. rr_Requests vr r = Some q \<longrightarrow> rr_Limits vr r = Some l \<longrightarrow> q \<le> l))"

definition valid_pvpool :: "string \<Rightarrow> PVPoolSpec \<Rightarrow> bool" where
  "valid_pvpool name pv \<longleftrightarrow>
     length name \<le> 43 \<and> 1 \<le> pv_NumVolumes pv \<and> pv_NumVolumes pv \<le> 20 \<and>
     (\<forall>vr. pv_VolumeResources pv = Some vr \<longrightarrow>
        of_units (16 * 1024 ^ 3) \<le> Storage (rr_Requests vr) \<and> valid_resources vr)"

fun valid_backing_spec :: "string \<Rightarrow> StoreType \<Rightarrow> BackingStoreSpec \<Rightarrow> bool" where
  "valid_backing_spec name StoreTypeAWSS3 sp \<longleftrightarrow> (\<exists>a. bss_AWSS3 sp = Some a \<and> aws_TargetBucket a \<noteq> [] \<and>
     (sr_Name (aws_Secret a) \<noteq> [] \<or> aws_AWSSTSRoleARN a \<noteq> None))"
| "valid_backing_spec name StoreTypeS3Compatible sp \<longleftrightarrow> (\<exists>a. bss_S3Compatible sp = Some a \<and>
     s3c_TargetBucket a \<noteq> [] \<and> sr_Name (s3c_Secret a) \<noteq> [] \<and> valid_sig (s3c_SignatureVersion a))"
| "valid_backing_spec name StoreTypeIBMCos sp \<longleftrightarrow> (\<exists>a. bss_IBMCos sp = Some a \<and>
     ibm_TargetBucket a \<noteq> [] \<and> sr_Name (ibm_Secret a) \<noteq> [] \<and> valid_sig (ibm_SignatureVersion a))"
| "valid_backing_spec name StoreTypeAzureBlob sp \<longleftrightarrow> (\<exists>a. bss_AzureBlob sp = Some a \<and>
     az_TargetBlobContainer a \<noteq> [] \<and> (sr_Name (az_Secret a) \<noteq> [] \<or> az_ClientId a \<noteq> None))"
| "valid_backing_spec name StoreTypeGoogleCloudStorage sp \<longleftrightarrow> (\<exists>a. bss_GoogleCloudStorage sp = Some a \<and>
     gcs_TargetBucket a \<noteq> [] \<and> sr_Name (gcs_Secret a) \<noteq> [])"
| "valid_backing_spec name StoreTypePVPool sp \<longleftrightarrow> (\<exists>pv. bss_PVPool sp = Some pv \<and> valid_pvpool name pv)"
| "valid_backing_spec name (StoreTypeOther _) sp \<longleftrightarrow> False"

lemma ValidateSigVersion_pass [simp]: "ValidateSigVersion v = pass \<longleftrightarrow> valid_sig v"
  by (cases v) (simp_all add: ValidateSigVersion_def valid_sig_def)

lemma check_resource_pass:
  "check_resource s vr r = pass \<longleftrightarrow>
     (\<forall>q. rr_Requests vr r = Some q \<longrightarrow> 0 \<le> q) \<and> (\<forall>q. rr_Limits vr r = Some q \<longrightarrow> 0 \<le> q) \<and>
     (\<forall>q l. rr_Requests vr r = Some q \<longrightarrow> rr_Limits vr r = Some l \<longrightarrow> q \<le> l)"
  by (cases "rr_Requests vr r"; cases "rr_Limits vr r")
    (simp_all add: check_resource_def first_err_eq_pass not_less)

lemma resources_pass:
  "for_all_r (check_resource s vr) [ResourceCPU, ResourceMemory] = pass \<longleftrightarrow> valid_resources vr"
  unfolding for_all_r_pass valid_resources_def by (simp add: check_resource_pass)

lemmas bs_checks = ValidateBSInValidSpec_def ValidateBSEmptySecretName_def
  ValidateBSEmptyTargetBucket_def ValidateAWSSTSARN_def ValidateAzureSTSCredentials_def

lemmas pvpool_checks = ValidatePvpoolNameLength_def ValidatePvpoolMinVolSize_def
  ValidateMaxVolumeCount_def ValidateMinVolumeCount_def ValidatePvpoolResources_def

lemma pvpool_checks_pass:
  assumes "bss_PVPool (bs_Spec bs) = Some pv"
  shows "first_err [ValidatePvpoolNameLength bs, ValidatePvpoolMinVolSize bs, ValidateMaxVolumeCount bs,
           ValidateMinVolumeCount bs, ValidatePvpoolResources s bs] = pass \<longleftrightarrow> valid_pvpool (bs_Name bs) pv"
proof (cases "pv_VolumeResources pv")
  case None
  with assms show ?thesis
    by (auto simp: first_err_eq_pass pvpool_checks valid_pvpool_def)
next
  case (Some vr)
  with assms show ?thesis
    by (auto simp: first_err_eq_pass pvpool_checks valid_pvpool_def resources_pass not_less simp del: for_all_r_Cons)
qed

lemma ValidateBackingStore_iff:
  "ValidateBackingStore s bs = pass \<longleftrightarrow> valid_backing_spec (bs_Name bs) (bs_Type bs) (bs_Spec bs)"
proof (cases "bs_has_spec bs")
  case False
  then show ?thesis
    by (cases "bs_Type bs")
      (auto simp: ValidateBackingStore_def bs_has_spec_def first_err_eq_pass bs_checks)
next
  case True
  show ?thesis
  proof (cases "bs_Type bs")
    case StoreTypePVPool
    with True obtain pv where pv: "bss_PVPool (bs_Spec bs) = Some pv" by (auto simp: bs_has_spec_def)
    with StoreTypePVPool pvpool_checks_pass [OF pv, of s] show ?thesis
      by (simp add: ValidateBackingStore_def bs_checks first_err_eq_pass)
  qed (use True in \<open>auto simp: ValidateBackingStore_def bs_has_spec_def first_err_eq_pass bs_checks\<close>)
qed

text \<open>
  The first check guards the dereferences of all the later ones, so validation cannot panic, and it
  fails with validation errors only.
\<close>

lemma pvpool_checks_vcheck:
  "bss_PVPool (bs_Spec bs) \<noteq> None \<Longrightarrow>
     vcheck (first_err [ValidatePvpoolNameLength bs, ValidatePvpoolMinVolSize bs, ValidateMaxVolumeCount bs,
           ValidateMinVolumeCount bs, ValidatePvpoolResources s bs])"
  by (rule vcheck_first_err)
    (auto simp: pvpool_checks check_resource_def split: option.splits intro!: vcheck_for_all_r vcheck_first_err
      simp del: for_all_r_Cons)

lemma bs_checks_vcheck:
  assumes "bs_has_spec bs"
  shows "vcheck (ValidateBSEmptySecretName bs)" "vcheck (ValidateBSEmptyTargetBucket bs)"
  using assms by (auto simp: bs_checks bs_has_spec_def Let_def split: StoreType.splits)

lemma ValidateSigVersion_vcheck [simp]: "vcheck (ValidateSigVersion v)"
  by (cases v) (simp_all add: ValidateSigVersion_def)

lemma ValidateBSInValidSpec_pass: "ValidateBSInValidSpec bs = pass \<longleftrightarrow> bs_has_spec bs"
  by (auto simp: ValidateBSInValidSpec_def bs_has_spec_def split: StoreType.splits)

lemma ValidateBSInValidSpec_vcheck: "vcheck (ValidateBSInValidSpec bs)"
  by (auto simp: ValidateBSInValidSpec_def split: StoreType.splits)

lemma ValidateBackingStore_vcheck: "vcheck (ValidateBackingStore s bs)"
  unfolding ValidateBackingStore_def
proof (rule vcheck_chain)
  show "vcheck (ValidateBSInValidSpec bs)" by (rule ValidateBSInValidSpec_vcheck)
  assume "ValidateBSInValidSpec bs = pass"
  then have spec: "bs_has_spec bs" by (simp add: ValidateBSInValidSpec_pass)
  let ?last = "case bs_Type bs of StoreTypePVPool \<Rightarrow> first_err [ValidatePvpoolNameLength bs,
          ValidatePvpoolMinVolSize bs, ValidateMaxVolumeCount bs, ValidateMinVolumeCount bs, ValidatePvpoolResources s bs]
      | StoreTypeS3Compatible \<Rightarrow>
          bind_r (deref (bss_S3Compatible (bs_Spec bs))) (\<lambda>a. ValidateSigVersion (s3c_SignatureVersion a))
      | StoreTypeIBMCos \<Rightarrow>
          bind_r (deref (bss_IBMCos (bs_Spec bs))) (\<lambda>a. ValidateSigVersion (ibm_SignatureVersion a))
      | StoreTypeAWSS3 \<Rightarrow> pass
      | StoreTypeAzureBlob \<Rightarrow> pass
      | StoreTypeGoogleCloudStorage \<Rightarrow> pass
      | StoreTypeOther _ \<Rightarrow> Err (ValidationError invalid_bs_type)"
  have "vcheck ?last"
    using spec pvpool_checks_vcheck [of bs s]
    by (auto simp: bs_has_spec_def split: StoreType.splits)
  with bs_checks_vcheck [OF spec]
  show "vcheck (first_err [ValidateBSEmptySecretName bs, ValidateBSEmptyTargetBucket bs, ?last])"
    by (intro vcheck_first_err) auto
qed

text \<open>The bucket check on update is undefined exactly when the type was changed to one the old object lacks.\<close>

lemma ValidateTargetBSBucketChange_pass:
  "ValidateTargetBSBucketChange bs oldBs = pass \<Longrightarrow> bs_Type oldBs = bs_Type bs \<Longrightarrow>
     GetBackingStoreTargetBucket bs = GetBackingStoreTargetBucket oldBs"
  by (auto simp: ValidateTargetBSBucketChange_def GetBackingStoreTargetBucket_def Let_def
      split: StoreType.splits)

lemma ValidateBackingstoreDeletion_vcheck: "vcheck (ValidateBackingstoreDeletion bs si)"
  by (auto simp: ValidateBackingstoreDeletion_def pool_deletion_def split: option.splits)

lemma ValidateBackingstoreDeletion_pass:
  "ValidateBackingstoreDeletion bs si = pass \<longleftrightarrow>
     (\<forall>p. find (\<lambda>p. pi_Name p = bs_Name bs) (si_Pools si) = Some p \<longrightarrow>
        pi_Undeletable p = ''IS_BACKINGSTORE'' \<or> pi_Undeletable p = ''BEING_DELETED'')"
  by (auto simp: ValidateBackingstoreDeletion_def pool_deletion_def split: option.splits)

section \<open>Properties\<close>


text \<open>
  A backing store may be deleted exactly when the first pool of its name, if any, reports
  \<open>IS_BACKINGSTORE\<close> or \<open>BEING_DELETED\<close>: a pool that still serves buckets blocks the deletion.
\<close>

theorem backing_store_deletion:
  "vcheck (ValidateBackingstoreDeletion bs si) \<and>
   (ValidateBackingstoreDeletion bs si = pass \<longleftrightarrow>
     (case find (\<lambda>p. pi_Name p = bs_Name bs) (si_Pools si) of
        None \<Rightarrow> True
      | Some p \<Rightarrow> pi_Undeletable p \<in> {''IS_BACKINGSTORE'', ''BEING_DELETED''}))"
  using ValidateBackingstoreDeletion_vcheck ValidateBackingstoreDeletion_pass by (auto split: option.splits)

end
