(* ===== verification/NS_Validation.thy ===== *)
theory NS_Validation
  imports BS_Validation Examples
begin

text \<open>
  \<^verbatim>\<open>pkg/validations/namespacestore_validations.go\<close>: the rules for namespace
  stores, with the normalisation of endpoints.  Parsing and printing of URLs
  (\<^verbatim>\<open>net/url\<close>) is an argument of the definitions.
\<close>

section \<open>Endpoints\<close>

text \<open>
  A parsed URL: its scheme, which the code reads and sets, and the rest, which only
  \<open>url_String\<close> looks at.
\<close>

record url =
  u_Scheme :: string
  u_Rest :: string

record url_lib =
  url_Parse :: "string \<Rightarrow> string + url"
  url_String :: "url \<Rightarrow> string"

abbreviation defaultEndPointURI :: string where "defaultEndPointURI \<equiv> ''https://127.0.0.1:6443''"
abbreviation MaximumMountPathLength :: nat where "MaximumMountPathLength \<equiv> 63"

definition word_char :: "char \<Rightarrow> bool" where
  "word_char c = (let n = of_char c :: nat in
     (48 \<le> n \<and> n \<le> 57) \<or> (65 \<le> n \<and> n \<le> 90) \<or> (97 \<le> n \<and> n \<le> 122) \<or> n = 95)"

text \<open>The regular expression \<^verbatim>\<open>^\w+://\<close>.\<close>

definition has_scheme :: "string \<Rightarrow> bool" where
  "has_scheme s \<longleftrightarrow> takeWhile word_char s \<noteq> [] \<and> prefix ''://'' (dropWhile word_char s)"

text \<open>The value written back through the pointer, or the error.\<close>

definition ValidateEndPoint :: "url_lib \<Rightarrow> string \<Rightarrow> string result" where
  "ValidateEndPoint ul p =
     (let e0 = (if p = '''' then defaultEndPointURI else p);
          e1 = (if has_scheme e0 then e0 else ''https://'' @ e0)
      in case url_Parse ul e1 of
           Inl err \<Rightarrow> Err (ValidationError (''Invalid endpoint url '' @ go_quote e1 @ '': '' @ err))
         | Inr u \<Rightarrow> Ok (url_String ul (if u_Scheme u = '''' then u\<lparr>u_Scheme := ''https''\<rparr> else u)))"

definition EndpointsEquivalent :: "url_lib \<Rightarrow> string \<Rightarrow> string \<Rightarrow> bool result" where
  "EndpointsEquivalent ul endpointA endpointB =
     bind_r (ValidateEndPoint ul endpointA) (\<lambda>a.
     bind_r (ValidateEndPoint ul endpointB) (\<lambda>b. Ok (a = b)))"

definition ValidateSignatureVersion :: "url_lib \<Rightarrow> S3SignatureVersion \<Rightarrow> string \<Rightarrow> string \<Rightarrow> check" where
  "ValidateSignatureVersion ul signature nsStoreEndpoint nsStoreName =
     (if signature \<noteq> S3SignatureVersionEmpty \<and> signature \<noteq> S3SignatureVersionV2 \<and> signature \<noteq> S3SignatureVersionV4
      then Err (ValidationError (''Invalid s3 signature version '' @ go_quote (sig_version_string signature)
        @ '' for namespace store '' @ go_quote nsStoreName))
      else if nsStoreEndpoint \<noteq> '''' then
        (case url_Parse ul nsStoreEndpoint of
           Inl _ \<Rightarrow> Panic
         | Inr u \<Rightarrow>
             if u_Scheme u = ''http'' \<and> signature = S3SignatureVersionV4
             then Err (ValidationError (''Non-secure endpoint works only with signature-version '' @ go_quote ''v2''
               @ ''. Please select signature version v2 for namespacestore''))
             else pass)
      else pass)"

section \<open>The checks\<close>

abbreviation invalid_ns_type :: string where
  "invalid_ns_type \<equiv> ''Invalid Namespacestore type, please provide a valid Namespacestore type''"

definition ValidateNSInValidSpec :: "NamespaceStore \<Rightarrow> check" where
  "ValidateNSInValidSpec ns = (case ns_Type ns of
     NSStoreTypeNSFS \<Rightarrow> require (nss_NSFS (ns_Spec ns) \<noteq> None)
       ''NSFS spec must be provided for nsfs type Namespacestore''
   | NSStoreTypeAWSS3 \<Rightarrow> require (nss_AWSS3 (ns_Spec ns) \<noteq> None)
       ''AWSS3 spec must be provided for aws-s3 type Namespacestore''
   | NSStoreTypeS3Compatible \<Rightarrow> require (nss_S3Compatible (ns_Spec ns) \<noteq> None)
       ''S3Compatible spec must be provided for s3-compatible type Namespacestore''
   | NSStoreTypeIBMCos \<Rightarrow> require (nss_IBMCos (ns_Spec ns) \<noteq> None)
       ''IBMCos spec must be provided for ibm-cos type Namespacestore''
   | NSStoreTypeAzureBlob \<Rightarrow> require (nss_AzureBlob (ns_Spec ns) \<noteq> None)
       ''AzureBlob spec must be provided for azure-blob type Namespacestore''
   | NSStoreTypeGoogleCloudStorage \<Rightarrow> require (nss_GoogleCloudStorage (ns_Spec ns) \<noteq> None)
       ''GoogleCloudStorage spec must be provided for google-cloud-storage type Namespacestore''
   | NSStoreTypeOther _ \<Rightarrow> Err (ValidationError invalid_ns_type))"

definition ValidateNSEmptyAWSARN :: "NamespaceStore \<Rightarrow> check" where
  "ValidateNSEmptyAWSARN ns = (case nss_AWSS3 (ns_Spec ns) of
     None \<Rightarrow> pass
   | Some a \<Rightarrow> require (aws_AWSSTSRoleARN a \<noteq> None)
       ''Failed creating the NamespaceStore, please provide a valid ARN or secret name'')"

abbreviation ns_no_secret :: string where
  "ns_no_secret \<equiv> ''Failed creating the namespacestore, please provide secret name''"

definition ValidateNSEmptySecretName :: "NamespaceStore \<Rightarrow> check" where
  "ValidateNSEmptySecretName ns = (let sp = ns_Spec ns in case nss_Type sp of
     NSStoreTypeAWSS3 \<Rightarrow> bind_r (deref (nss_AWSS3 sp)) (\<lambda>a.
       if length (sr_Name (aws_Secret a)) = 0 then ValidateNSEmptyAWSARN ns else pass)
   | NSStoreTypeS3Compatible \<Rightarrow> bind_r (deref (nss_S3Compatible sp)) (\<lambda>a.
       require (length (sr_Name (s3c_Secret a)) \<noteq> 0) ns_no_secret)
   | NSStoreTypeIBMCos \<Rightarrow> bind_r (deref (nss_IBMCos sp)) (\<lambda>a.
       require (length (sr_Name (ibm_Secret a)) \<noteq> 0) ns_no_secret)
   | NSStoreTypeAzureBlob \<Rightarrow> bind_r (deref (nss_AzureBlob sp)) (\<lambda>a.
       if length (sr_Name (az_Secret a)) = 0 then
         if IsAzureSTSClusterNS ns
         then Err (ValidationError (''Azure STS requires a secret (containing azure_tenant_id and azure_client_id); ''
           @ ''provide --secret-name or omit it to create one from flags''))
         else Err (ValidationError (''Failed creating the namespacestore: secret name (secret must contain AccountName ''
           @ ''and AccountKey) and target blob container are both required''))
       else pass)
   | NSStoreTypeGoogleCloudStorage \<Rightarrow> bind_r (deref (nss_GoogleCloudStorage sp)) (\<lambda>a.
       require (length (sr_Name (gcs_Secret a)) \<noteq> 0) ns_no_secret)
   | NSStoreTypeNSFS \<Rightarrow> pass
   | NSStoreTypeOther _ \<Rightarrow> Err (ValidationError invalid_ns_type))"

abbreviation ns_no_bucket :: string where
  "ns_no_bucket \<equiv> ''Failed creating the namespacestore, please provide target bucket''"

definition ValidateNSEmptyTargetBucket :: "NamespaceStore \<Rightarrow> check" where
  "ValidateNSEmptyTargetBucket ns = (let sp = ns_Spec ns in case nss_Type sp of
     NSStoreTypeAWSS3 \<Rightarrow> bind_r (deref (nss_AWSS3 sp)) (\<lambda>a.
       require (length (aws_TargetBucket a) \<noteq> 0) ns_no_bucket)
   | NSStoreTypeS3Compatible \<Rightarrow> bind_r (deref (nss_S3Compatible sp)) (\<lambda>a.
       require (length (s3c_TargetBucket a) \<noteq> 0) ns_no_bucket)
   | NSStoreTypeIBMCos \<Rightarrow> bind_r (deref (nss_IBMCos sp)) (\<lambda>a.
       require (length (ibm_TargetBucket a) \<noteq> 0) ns_no_bucket)
   | NSStoreTypeAzureBlob \<Rightarrow> bind_r (deref (nss_AzureBlob sp)) (\<lambda>a.
       require (length (az_TargetBlobContainer a) \<noteq> 0) ns_no_bucket)
   | NSStoreTypeGoogleCloudStorage \<Rightarrow> bind_r (deref (nss_GoogleCloudStorage sp)) (\<lambda>a.
       require (length (gcs_TargetBucket a) \<noteq> 0) ns_no_bucket)
   | NSStoreTypeNSFS \<Rightarrow> pass
   | NSStoreTypeOther _ \<Rightarrow> Err (ValidationError invalid_ns_type))"

definition ValidateNSArchiveSpec :: "NamespaceStore \<Rightarrow> check" where
  "ValidateNSArchiveSpec ns =
     (if \<not> nss_Archive (ns_Spec ns) then pass
      else first_err [
        require (ns_Type ns = NSStoreTypeS3Compatible)
          ''archive can only be set on s3-compatible type NamespaceStore'',
        require (nss_S3Compatible (ns_Spec ns) \<noteq> None)
          ''S3Compatible spec must be provided when archive is enabled''])"

definition ValidateNsStoreNSFS :: "NamespaceStore \<Rightarrow> check" where
  "ValidateNsStoreNSFS ns = (case nss_NSFS (ns_Spec ns) of
     None \<Rightarrow> pass
   | Some nsfs \<Rightarrow>
       (let path = nsfs_SubPath nsfs; mountPath = ''/nsfs/'' @ ns_Name ns in
        first_err [
          require (nsfs_PvcName nsfs \<noteq> '''') ''PvcName must not be empty'',
          (if path \<noteq> '''' then first_err [
             require (\<not> (0 < length path \<and> hd path = CHR ''/''))
               (''SubPath '' @ path @ '' must be a relative path''),
             for_all_r (\<lambda>item. require (item \<noteq> ''..'') (''SubPath '' @ path @ '' must not contain '' @
                 [CHR 0x27] @ ''..'' @ [CHR 0x27])) (Split path (CHR ''/''))]
           else pass),
          require (\<not> MaximumMountPathLength < length mountPath)
            (''MountPath '' @ mountPath @ '' must be no more than 63 characters'')]))"

text \<open>The three checks that receive a pointer; the endpoint of the store is normalised in place.\<close>

definition ValidateNsStoreS3Compatible :: "url_lib \<Rightarrow> NamespaceStore \<Rightarrow> NamespaceStore result" where
  "ValidateNsStoreS3Compatible ul ns = (case nss_S3Compatible (ns_Spec ns) of
     None \<Rightarrow> Ok ns
   | Some a \<Rightarrow>
       bind_r (ValidateSignatureVersion ul (s3c_SignatureVersion a) (s3c_Endpoint a) (ns_Name ns)) (\<lambda>_.
       bind_r (ValidateEndPoint ul (s3c_Endpoint a)) (\<lambda>e.
         Ok (ns\<lparr>ns_Spec := (ns_Spec ns)\<lparr>nss_S3Compatible := Some (a\<lparr>s3c_Endpoint := e\<rparr>)\<rparr>\<rparr>))))"

definition ValidateNsStoreIBMCos :: "url_lib \<Rightarrow> NamespaceStore \<Rightarrow> NamespaceStore result" where
  "ValidateNsStoreIBMCos ul ns = (case nss_IBMCos (ns_Spec ns) of
     None \<Rightarrow> Ok ns
   | Some a \<Rightarrow>
       bind_r (ValidateSignatureVersion ul (ibm_SignatureVersion a) '''' (ns_Name ns)) (\<lambda>_.
       bind_r (ValidateEndPoint ul (ibm_Endpoint a)) (\<lambda>e.
         Ok (ns\<lparr>ns_Spec := (ns_Spec ns)\<lparr>nss_IBMCos := Some (a\<lparr>ibm_Endpoint := e\<rparr>)\<rparr>\<rparr>))))"

definition ValidateNsStoreAzureBlob :: "NamespaceStore \<Rightarrow> check" where
  "ValidateNsStoreAzureBlob ns =
     (if \<not> IsAzureSTSClusterNS ns then pass
      else bind_r (deref (nss_AzureBlob (ns_Spec ns))) (\<lambda>az. first_err [
        require (TrimSpace (az_TargetBlobContainer az) \<noteq> '''')
          ''Failed creating the namespacestore, please provide target blob container (required for Azure STS)'',
        require (\<not> isMissing (az_ClientId az))
          ''Azure STS requires a non-empty client-id on the namespacestore spec'']))"

definition ValidateAzureSTSRequiredFlags :: "string \<Rightarrow> string \<Rightarrow> string \<Rightarrow> string \<Rightarrow> check" where
  "ValidateAzureSTSRequiredFlags targetBlobContainer clientID tenantID accountName = first_err [
     require (TrimSpace targetBlobContainer \<noteq> '''') ''target-blob-container is required and must be non-empty'',
     require (TrimSpace clientID \<noteq> '''') ''client-id is required and must be non-empty'',
     require (TrimSpace tenantID \<noteq> '''') ''tenant-id is required and must be non-empty'',
     require (TrimSpace accountName \<noteq> '''') ''account-name is required and must be non-empty'']"

text \<open>A check that leaves the store as it is.\<close>

definition keep :: "'a \<Rightarrow> check \<Rightarrow> 'a result" where
  "keep x c = bind_r c (\<lambda>_. Ok x)"

definition ValidateNamespaceStore :: "url_lib \<Rightarrow> NamespaceStore \<Rightarrow> NamespaceStore result" where
  "ValidateNamespaceStore ul ns = bind_r (first_err [
       ValidateNSInValidSpec ns,
       ValidateNSEmptySecretName ns,
       ValidateNSEmptyTargetBucket ns,
       ValidateNSArchiveSpec ns]) (\<lambda>_. case ns_Type ns of
     NSStoreTypeNSFS \<Rightarrow> keep ns (ValidateNsStoreNSFS ns)
   | NSStoreTypeAWSS3 \<Rightarrow> Ok ns
   | NSStoreTypeS3Compatible \<Rightarrow> ValidateNsStoreS3Compatible ul ns
   | NSStoreTypeIBMCos \<Rightarrow> ValidateNsStoreIBMCos ul ns
   | NSStoreTypeAzureBlob \<Rightarrow> keep ns (ValidateNsStoreAzureBlob ns)
   | NSStoreTypeGoogleCloudStorage \<Rightarrow> Ok ns
   | NSStoreTypeOther _ \<Rightarrow> Err (ValidationError invalid_ns_type))"

section \<open>Checks on update and on deletion\<close>

abbreviation ns_bucket_change :: string where
  "ns_bucket_change \<equiv> ''Changing a NamespaceStore target bucket is unsupported''"

definition ValidateTargetNSBucketChange :: "NamespaceStore \<Rightarrow> NamespaceStore \<Rightarrow> check" where
  "ValidateTargetNSBucketChange ns oldNs = (let n = ns_Spec ns; old = ns_Spec oldNs in case nss_Type n of
     NSStoreTypeAWSS3 \<Rightarrow> unchanged ns_bucket_change aws_TargetBucket (nss_AWSS3 old) (nss_AWSS3 n)
   | NSStoreTypeS3Compatible \<Rightarrow>
       unchanged ns_bucket_change s3c_TargetBucket (nss_S3Compatible old) (nss_S3Compatible n)
   | NSStoreTypeIBMCos \<Rightarrow> unchanged ns_bucket_change ibm_TargetBucket (nss_IBMCos old) (nss_IBMCos n)
   | NSStoreTypeAzureBlob \<Rightarrow>
       unchanged ns_bucket_change az_TargetBlobContainer (nss_AzureBlob old) (nss_AzureBlob n)
   | NSStoreTypeGoogleCloudStorage \<Rightarrow>
       unchanged ns_bucket_change gcs_TargetBucket (nss_GoogleCloudStorage old) (nss_GoogleCloudStorage n)
   | _ \<Rightarrow> Err (ValidationError ''Failed to identify NamespaceStore type''))"

definition endpoint_unchanged :: "url_lib \<Rightarrow> string \<Rightarrow> string \<Rightarrow> check" where
  "endpoint_unchanged ul old new = bind_r (EndpointsEquivalent ul old new) (\<lambda>equal. require equal
     ''Changing a NamespaceStore endpoint is unsupported; delete and re-create the NamespaceStore'')"

definition ValidateNSEndpointChange :: "url_lib \<Rightarrow> NamespaceStore \<Rightarrow> NamespaceStore \<Rightarrow> check" where
  "ValidateNSEndpointChange ul ns oldNs = (case ns_Type ns of
     NSStoreTypeS3Compatible \<Rightarrow>
       (case (nss_S3Compatible (ns_Spec oldNs), nss_S3Compatible (ns_Spec ns)) of
          (Some old, Some new) \<Rightarrow> endpoint_unchanged ul (s3c_Endpoint old) (s3c_Endpoint new)
        | _ \<Rightarrow> pass)
   | NSStoreTypeIBMCos \<Rightarrow>
       (case (nss_IBMCos (ns_Spec oldNs), nss_IBMCos (ns_Spec ns)) of
          (Some old, Some new) \<Rightarrow> endpoint_unchanged ul (ibm_Endpoint old) (ibm_Endpoint new)
        | _ \<Rightarrow> pass)
   | _ \<Rightarrow> pass)"

definition ValidateNamespacestoreDeletion :: "NamespaceStore \<Rightarrow> SystemInfo \<Rightarrow> check" where
  "ValidateNamespacestoreDeletion ns systemInfo =
     (case find (\<lambda>r. nri_Name r = ns_Name ns) (si_NamespaceResources systemInfo) of
        None \<Rightarrow> pass
      | Some r \<Rightarrow> require (nri_Undeletable r \<noteq> ''IN_USE'')
          (''cannot complete because nsr '' @ go_quote (nri_Name r) @ '' in '' @ go_quote (nri_Undeletable r) @ '' state''))"

section \<open>Endpoints are compared after normalisation\<close>

lemma ValidateEndPoint_vcheck: "ValidateEndPoint ul e \<noteq> Panic"
    "ValidateEndPoint ul e = Err x \<Longrightarrow> IsValidationError x"
  by (auto simp: ValidateEndPoint_def Let_def split: sum.splits)

lemma EndpointsEquivalent_iff:
  "EndpointsEquivalent ul a b = Ok True \<longleftrightarrow>
     (\<exists>x. ValidateEndPoint ul a = Ok x \<and> ValidateEndPoint ul b = Ok x)"
  by (auto simp: EndpointsEquivalent_def bind_r_eq_Ok)

lemma has_scheme_https: "has_scheme (''https://'' @ s)"
  by (simp add: has_scheme_def word_char_def)

lemma ValidateEndPoint_default: "ValidateEndPoint ul '''' = ValidateEndPoint ul defaultEndPointURI"
  by (simp add: ValidateEndPoint_def)

lemma ValidateEndPoint_no_scheme:
  assumes "\<not> has_scheme h" "h \<noteq> []"
  shows "ValidateEndPoint ul h = ValidateEndPoint ul (''https://'' @ h)"
  using assms has_scheme_https [of h] by (simp add: ValidateEndPoint_def)

text \<open>
  The laws of an equivalence test on the endpoints that normalise: what the update check relies on when
  it compares the stored endpoint with the requested one.
\<close>

locale endpoint_equivalence =
  fixes valid :: "string \<Rightarrow> bool" and equivalent :: "string \<Rightarrow> string \<Rightarrow> bool"
  assumes refl: "equivalent a a \<longleftrightarrow> valid a"
    and sym: "equivalent a b \<Longrightarrow> equivalent b a"
    and trans: "equivalent a b \<Longrightarrow> equivalent b c \<Longrightarrow> equivalent a c"
begin

lemma equivalent_valid: "equivalent a b \<Longrightarrow> valid a \<and> valid b"
  using refl sym trans by metis

text \<open>A chain of accepted updates never moves the endpoint out of its class.\<close>

lemma chain: "successively equivalent (e # es) \<Longrightarrow> valid e \<Longrightarrow> x \<in> set (e # es) \<Longrightarrow> equivalent e x"
proof (induction es arbitrary: e)
  case Nil
  then show ?case by (simp add: refl)
next
  case (Cons f fs)
  then have "equivalent e f" "successively equivalent (f # fs)" by simp_all
  moreover then have "valid f" by (simp add: equivalent_valid)
  ultimately have "x \<in> set (f # fs) \<Longrightarrow> equivalent e x" using Cons.IH trans by blast
  then show ?case using Cons.prems refl by auto
qed

end

interpretation ep: endpoint_equivalence "\<lambda>a. is_ok (ValidateEndPoint ul a)"
  "\<lambda>a b. EndpointsEquivalent ul a b = Ok True" for ul
proof unfold_locales
  show "(EndpointsEquivalent ul a a = Ok True) = is_ok (ValidateEndPoint ul a)" for a
    by (auto simp: EndpointsEquivalent_iff is_ok_def split: result.splits)
  show "EndpointsEquivalent ul a b = Ok True \<Longrightarrow> EndpointsEquivalent ul b a = Ok True" for a b
    by (auto simp: EndpointsEquivalent_iff)
  show "EndpointsEquivalent ul a b = Ok True \<Longrightarrow> EndpointsEquivalent ul b c = Ok True \<Longrightarrow>
      EndpointsEquivalent ul a c = Ok True" for a b c
    by (auto simp: EndpointsEquivalent_iff)
qed

lemma endpoint_unchanged_pass: "endpoint_unchanged ul old new = pass \<longleftrightarrow> EndpointsEquivalent ul old new = Ok True"
  by (auto simp: endpoint_unchanged_def bind_r_eq_Ok)

section \<open>What a validated namespace store looks like\<close>

text \<open>The sub-path of a file-system store stays below the volume: it is relative and has no parent component.\<close>

definition valid_nsfs :: "string \<Rightarrow> NSFSSpec \<Rightarrow> bool" where
  "valid_nsfs name nsfs \<longleftrightarrow> nsfs_PvcName nsfs \<noteq> [] \<and> length name \<le> 57 \<and>
     (nsfs_SubPath nsfs \<noteq> [] \<longrightarrow> hd (nsfs_SubPath nsfs) \<noteq> CHR ''/'') \<and>
     ''..'' \<notin> set (Split (nsfs_SubPath nsfs) (CHR ''/''))"

definition valid_endpoint :: "url_lib \<Rightarrow> string \<Rightarrow> bool" where
  "valid_endpoint ul e \<longleftrightarrow> is_ok (ValidateEndPoint ul e)"

lemma valid_endpoint_iff: "valid_endpoint ul e \<longleftrightarrow> (\<exists>x. ValidateEndPoint ul e = Ok x)"
  by (simp add: valid_endpoint_def is_ok_def split: result.splits)

definition secure_sig :: "url_lib \<Rightarrow> S3SignatureVersion \<Rightarrow> string \<Rightarrow> bool" where
  "secure_sig ul v e \<longleftrightarrow> e = [] \<or> (\<exists>u. url_Parse ul e = Inr u \<and> (u_Scheme u = ''http'' \<longrightarrow> v \<noteq> S3SignatureVersionV4))"

fun valid_namespace_spec :: "url_lib \<Rightarrow> string \<Rightarrow> NSType \<Rightarrow> NamespaceStoreSpec \<Rightarrow> bool" where
  "valid_namespace_spec ul name NSStoreTypeAWSS3 sp \<longleftrightarrow> \<not> nss_Archive sp \<and>
     (\<exists>a. nss_AWSS3 sp = Some a \<and> aws_TargetBucket a \<noteq> [] \<and>
       (sr_Name (aws_Secret a) \<noteq> [] \<or> aws_AWSSTSRoleARN a \<noteq> None))"
| "valid_namespace_spec ul name NSStoreTypeS3Compatible sp \<longleftrightarrow>
     (\<exists>a. nss_S3Compatible sp = Some a \<and> s3c_TargetBucket a \<noteq> [] \<and> sr_Name (s3c_Secret a) \<noteq> [] \<and>
       valid_sig (s3c_SignatureVersion a) \<and> secure_sig ul (s3c_SignatureVersion a) (s3c_Endpoint a) \<and>
       valid_endpoint ul (s3c_Endpoint a))"
| "valid_namespace_spec ul name NSStoreTypeIBMCos sp \<longleftrightarrow> \<not> nss_Archive sp \<and>
     (\<exists>a. nss_IBMCos sp = Some a \<and> ibm_TargetBucket a \<noteq> [] \<and> sr_Name (ibm_Secret a) \<noteq> [] \<and>
       valid_sig (ibm_SignatureVersion a) \<and> valid_endpoint ul (ibm_Endpoint a))"
| "valid_namespace_spec ul name NSStoreTypeAzureBlob sp \<longleftrightarrow> \<not> nss_Archive sp \<and>
     (\<exists>a. nss_AzureBlob sp = Some a \<and> az_TargetBlobContainer a \<noteq> [] \<and> sr_Name (az_Secret a) \<noteq> [] \<and>
       (\<forall>c. az_ClientId a = Some c \<longrightarrow> TrimSpace c \<noteq> [] \<and> TrimSpace (az_TargetBlobContainer a) \<noteq> []))"
| "valid_namespace_spec ul name NSStoreTypeGoogleCloudStorage sp \<longleftrightarrow> \<not> nss_Archive sp \<and>
     (\<exists>a. nss_GoogleCloudStorage sp = Some a \<and> gcs_TargetBucket a \<noteq> [] \<and> sr_Name (gcs_Secret a) \<noteq> [])"
| "valid_namespace_spec ul name NSStoreTypeNSFS sp \<longleftrightarrow> \<not> nss_Archive sp \<and>
     (\<exists>n. nss_NSFS sp = Some n \<and> valid_nsfs name n)"
| "valid_namespace_spec ul name (NSStoreTypeOther _) sp \<longleftrightarrow> False"

lemmas ns_checks = ValidateNSInValidSpec_def ValidateNSEmptySecretName_def ValidateNSEmptyTargetBucket_def
  ValidateNSArchiveSpec_def ValidateNSEmptyAWSARN_def

lemma keep_eq_Ok [simp]: "keep x c = Ok y \<longleftrightarrow> c = pass \<and> y = x"
  by (auto simp: keep_def bind_r_eq_Ok)

lemma is_ok_keep [simp]: "is_ok (keep x c) \<longleftrightarrow> c = pass"
  by (cases c) (simp_all add: keep_def)

lemma ValidateNsStoreNSFS_pass:
  assumes "nss_NSFS (ns_Spec ns) = Some n"
  shows "ValidateNsStoreNSFS ns = pass \<longleftrightarrow> valid_nsfs (ns_Name ns) n"
  using assms by (cases "nsfs_SubPath n = []")
    (auto simp: ValidateNsStoreNSFS_def Let_def first_err_eq_pass for_all_r_pass valid_nsfs_def)

lemma ValidateSignatureVersion_pass:
  "ValidateSignatureVersion ul v e name = pass \<longleftrightarrow> valid_sig v \<and> secure_sig ul v e"
  by (auto simp: ValidateSignatureVersion_def valid_sig_def secure_sig_def split: sum.splits)

lemma is_ok_bind_r: "is_ok (bind_r r f) \<longleftrightarrow> (\<exists>x. r = Ok x \<and> is_ok (f x))"
  by (cases r) auto

lemma ns_prechecks:
  "first_err [ValidateNSInValidSpec ns, ValidateNSEmptySecretName ns, ValidateNSEmptyTargetBucket ns,
     ValidateNSArchiveSpec ns] = pass \<longleftrightarrow>
   ValidateNSInValidSpec ns = pass \<and> ValidateNSEmptySecretName ns = pass \<and>
   ValidateNSEmptyTargetBucket ns = pass \<and> ValidateNSArchiveSpec ns = pass"
  by (auto simp: first_err_eq_pass)

lemma ValidateNsStoreAzureBlob_pass:
  assumes "nss_AzureBlob (ns_Spec ns) = Some a" "ns_Type ns = NSStoreTypeAzureBlob"
  shows "ValidateNsStoreAzureBlob ns = pass \<longleftrightarrow>
     (\<forall>c. az_ClientId a = Some c \<longrightarrow> TrimSpace c \<noteq> [] \<and> TrimSpace (az_TargetBlobContainer a) \<noteq> [])"
  using assms by (cases "az_ClientId a")
    (auto simp: ValidateNsStoreAzureBlob_def IsAzureSTSClusterNS_def first_err_eq_pass isMissing_def)

lemma ValidateNamespaceStore_iff:
  "is_ok (ValidateNamespaceStore ul ns) \<longleftrightarrow> valid_namespace_spec ul (ns_Name ns) (ns_Type ns) (ns_Spec ns)"
proof (cases "ValidateNSInValidSpec ns = pass")
  case False
  then show ?thesis
    by (cases "ns_Type ns")
      (auto simp: ValidateNamespaceStore_def ValidateNSInValidSpec_def is_ok_bind_r first_err_Cons)
next
  case True
  then show ?thesis
    by (cases "ns_Type ns")
      (auto simp: ValidateNamespaceStore_def is_ok_bind_r ns_prechecks ns_checks first_err_eq_pass
        ValidateNsStoreNSFS_pass ValidateNsStoreAzureBlob_pass ValidateNsStoreS3Compatible_def
        ValidateNsStoreIBMCos_def ValidateSignatureVersion_pass valid_endpoint_iff secure_sig_def)
qed

text \<open>Validation changes nothing but the endpoint, which it normalises.\<close>

definition same_but_endpoint :: "NamespaceStore \<Rightarrow> NamespaceStore \<Rightarrow> bool" where
  "same_but_endpoint ns ns' \<longleftrightarrow>
     ns_Meta ns' = ns_Meta ns \<and> ns_Status ns' = ns_Status ns \<and> ns_Type ns' = ns_Type ns \<and>
     GetNamespaceStoreSecretByType ns' = GetNamespaceStoreSecretByType ns \<and>
     GetNamespaceStoreTargetBucket ns' = GetNamespaceStoreTargetBucket ns"

definition normal_endpoint :: "url_lib \<Rightarrow> NamespaceStore \<Rightarrow> NamespaceStore \<Rightarrow> bool" where
  "normal_endpoint ul ns ns' \<longleftrightarrow> (case ns_Type ns of
     NSStoreTypeS3Compatible \<Rightarrow> (\<exists>a a'. nss_S3Compatible (ns_Spec ns) = Some a \<and>
       nss_S3Compatible (ns_Spec ns') = Some a' \<and> ValidateEndPoint ul (s3c_Endpoint a) = Ok (s3c_Endpoint a'))
   | NSStoreTypeIBMCos \<Rightarrow> (\<exists>a a'. nss_IBMCos (ns_Spec ns) = Some a \<and>
       nss_IBMCos (ns_Spec ns') = Some a' \<and> ValidateEndPoint ul (ibm_Endpoint a) = Ok (ibm_Endpoint a'))
   | _ \<Rightarrow> ns' = ns)"

lemma ValidateNamespaceStore_result:
  assumes "ValidateNamespaceStore ul ns = Ok ns'"
  shows "same_but_endpoint ns ns' \<and> normal_endpoint ul ns ns'"
proof -
  have pre: "ValidateNSInValidSpec ns = pass"
    using assms by (auto simp: ValidateNamespaceStore_def bind_r_eq_Ok ns_prechecks)
  from assms pre show ?thesis
    by (cases "ns_Type ns")
      (auto simp: ValidateNamespaceStore_def bind_r_eq_Ok ValidateNSInValidSpec_def
        ValidateNsStoreS3Compatible_def ValidateNsStoreIBMCos_def same_but_endpoint_def normal_endpoint_def
        GetNamespaceStoreSecretByType_def GetNamespaceStoreTargetBucket_def)
qed

text \<open>
  The only way validation can crash is an s3-compatible store whose endpoint does not parse: the parse
  error is dropped and the nil URL dereferenced.
\<close>

lemma ns_prechecks_vcheck:
  "vcheck (first_err [ValidateNSInValidSpec ns, ValidateNSEmptySecretName ns, ValidateNSEmptyTargetBucket ns,
     ValidateNSArchiveSpec ns])"
proof (rule vcheck_chain)
  show "vcheck (ValidateNSInValidSpec ns)"
    by (auto simp: ValidateNSInValidSpec_def split: NSType.splits)
  assume pre: "ValidateNSInValidSpec ns = pass"
  then have "vcheck (ValidateNSEmptySecretName ns)" "vcheck (ValidateNSEmptyTargetBucket ns)"
    by (auto simp: ns_checks Let_def split: NSType.splits)
  moreover have "vcheck (ValidateNSArchiveSpec ns)"
    by (auto simp: ValidateNSArchiveSpec_def first_err_Cons)
  ultimately show "vcheck (first_err [ValidateNSEmptySecretName ns, ValidateNSEmptyTargetBucket ns,
      ValidateNSArchiveSpec ns])"
    by (intro vcheck_first_err) auto
qed

lemma ValidateSignatureVersion_Panic:
  "ValidateSignatureVersion ul v e name = Panic \<longleftrightarrow> valid_sig v \<and> e \<noteq> [] \<and> (\<exists>m. url_Parse ul e = Inl m)"
  by (auto simp: ValidateSignatureVersion_def valid_sig_def split: sum.splits)

lemma ValidateNamespaceStore_Panic:
  assumes "ValidateNamespaceStore ul ns = Panic"
  obtains a m where "ns_Type ns = NSStoreTypeS3Compatible" "nss_S3Compatible (ns_Spec ns) = Some a"
    "s3c_Endpoint a \<noteq> []" "url_Parse ul (s3c_Endpoint a) = Inl m"
proof -
  have "first_err [ValidateNSInValidSpec ns, ValidateNSEmptySecretName ns, ValidateNSEmptyTargetBucket ns,
     ValidateNSArchiveSpec ns] \<noteq> Panic"
    using ns_prechecks_vcheck [of ns] by (auto simp: vcheck_def)
  with assms have pre: "ValidateNSInValidSpec ns = pass" and
    tail: "(case ns_Type ns of NSStoreTypeNSFS \<Rightarrow> keep ns (ValidateNsStoreNSFS ns)
      | NSStoreTypeAWSS3 \<Rightarrow> Ok ns | NSStoreTypeS3Compatible \<Rightarrow> ValidateNsStoreS3Compatible ul ns
      | NSStoreTypeIBMCos \<Rightarrow> ValidateNsStoreIBMCos ul ns
      | NSStoreTypeAzureBlob \<Rightarrow> keep ns (ValidateNsStoreAzureBlob ns)
      | NSStoreTypeGoogleCloudStorage \<Rightarrow> Ok ns
      | NSStoreTypeOther _ \<Rightarrow> Err (ValidationError invalid_ns_type)) = Panic"
    by (auto simp: ValidateNamespaceStore_def bind_r_eq_Panic ns_prechecks)
  have nsfs: "ValidateNsStoreNSFS ns \<noteq> Panic"
    by (auto simp: ValidateNsStoreNSFS_def Let_def first_err_Cons for_all_r_def dest!: first_err_Panic_in_set
        split: option.splits)
  have az: "ns_Type ns = NSStoreTypeAzureBlob \<Longrightarrow> ValidateNsStoreAzureBlob ns \<noteq> Panic"
    using pre by (auto simp: ValidateNsStoreAzureBlob_def ValidateNSInValidSpec_def dest!: first_err_Panic_in_set)
  have ibm: "ns_Type ns = NSStoreTypeIBMCos \<Longrightarrow> ValidateNsStoreIBMCos ul ns \<noteq> Panic"
    by (auto simp: ValidateNsStoreIBMCos_def bind_r_eq_Panic ValidateSignatureVersion_Panic
        ValidateEndPoint_vcheck split: option.splits)
  have "ns_Type ns = NSStoreTypeS3Compatible" "ValidateNsStoreS3Compatible ul ns = Panic"
    using tail nsfs az ibm by (auto simp: keep_def bind_r_eq_Panic split: NSType.splits)
  then show thesis
    using that by (auto simp: ValidateNsStoreS3Compatible_def bind_r_eq_Panic ValidateSignatureVersion_Panic
        ValidateEndPoint_vcheck split: option.splits)
qed

lemma ValidateTargetNSBucketChange_pass:
  "ValidateTargetNSBucketChange ns oldNs = pass \<Longrightarrow> ns_Type oldNs = ns_Type ns \<Longrightarrow>
     GetNamespaceStoreTargetBucket ns = GetNamespaceStoreTargetBucket oldNs"
  by (auto simp: ValidateTargetNSBucketChange_def GetNamespaceStoreTargetBucket_def Let_def split: NSType.splits)

lemma ValidateNamespacestoreDeletion_vcheck: "vcheck (ValidateNamespacestoreDeletion ns si)"
  by (auto simp: ValidateNamespacestoreDeletion_def split: option.splits)

section \<open>Properties\<close>

text \<open>
  Validation of a namespace store succeeds exactly for the stores that have the sub-specification of their
  type, name a bucket and a secret (or a role to assume), use a signature version that fits the endpoint, and,
  for a file system, mount a relative sub-path without parent components; only s3-compatible stores may be
  archives.
\<close>

theorem namespace_store_validation:
  "is_ok (ValidateNamespaceStore ul ns) \<longleftrightarrow> valid_namespace_spec ul (ns_Name ns) (ns_Type ns) (ns_Spec ns)"
  by (rule ValidateNamespaceStore_iff)

text \<open>
  A successful validation rewrites nothing but the endpoint, which becomes its normal form; metadata,
  status, secret and target bucket are kept.
\<close>

theorem namespace_store_normalisation:
  assumes "ValidateNamespaceStore ul ns = Ok ns'"
  shows "same_but_endpoint ns ns' \<and> normal_endpoint ul ns ns'"
  using assms by (rule ValidateNamespaceStore_result)

definition ex_url :: url_lib where
  "ex_url = \<lparr>url_Parse = (\<lambda>s. if prefix ''https://'' s then Inr \<lparr>u_Scheme = ''https'', u_Rest = drop 8 s\<rparr>
       else if prefix ''http://'' s then Inr \<lparr>u_Scheme = ''http'', u_Rest = drop 7 s\<rparr> else Inl ''parse error''),
     url_String = (\<lambda>u. u_Scheme u @ ''://'' @ u_Rest u)\<rparr>"

lemma ex_s3_ns_validates: "ValidateNamespaceStore ex_url (ex_s3_ns ''https://h'') = Ok (ex_s3_ns ''https://h'')"
proof -
  have "ValidateEndPoint ex_url ''https://h'' = Ok ''https://h''"
    "ValidateSignatureVersion ex_url S3SignatureVersionV2 ''https://h'' ''ns'' = pass" by code_simp+
  then show ?thesis
    by (simp add: ValidateNamespaceStore_def ns_checks ValidateNsStoreS3Compatible_def ex_objects require_def)
qed

theorem namespace_store_normalisation_witness:
  "same_but_endpoint (ex_s3_ns ''https://h'') (ex_s3_ns ''https://h'')
   \<and> normal_endpoint ex_url (ex_s3_ns ''https://h'') (ex_s3_ns ''https://h'')"
  by (rule namespace_store_normalisation [OF ex_s3_ns_validates])

text \<open>
  The test that guards endpoint updates is an equivalence on the endpoints that normalise, so no sequence of
  accepted updates moves a store to an endpoint that is not equivalent to the one it started with.
\<close>

theorem endpoint_updates_stay_equivalent:
  assumes "successively (\<lambda>a b. EndpointsEquivalent ul a b = Ok True) (e # es)"
    and "is_ok (ValidateEndPoint ul e)" and "x \<in> set (e # es)"
  shows "EndpointsEquivalent ul e x = Ok True"
  using assms by (rule ep.chain)

theorem endpoint_updates_stay_equivalent_witness:
  "EndpointsEquivalent ex_url '''' ''127.0.0.1:6443'' = Ok True"
proof (rule endpoint_updates_stay_equivalent)
  show "successively (\<lambda>a b. EndpointsEquivalent ex_url a b = Ok True)
      ['''', ''https://127.0.0.1:6443'', ''127.0.0.1:6443'']"
    by code_simp
  show "is_ok (ValidateEndPoint ex_url '''')" by code_simp
qed simp

text \<open>
  The only stores that crash validation are otherwise valid s3-compatible stores whose endpoint does not
  parse as a URL: the error of the parser is dropped and its nil result dereferenced.
\<close>

theorem namespace_store_validation_panics:
  "ValidateNamespaceStore ul ns = Panic \<longleftrightarrow>
     ns_Type ns = NSStoreTypeS3Compatible \<and>
     (\<exists>a m. nss_S3Compatible (ns_Spec ns) = Some a \<and> s3c_TargetBucket a \<noteq> [] \<and> sr_Name (s3c_Secret a) \<noteq> [] \<and>
        valid_sig (s3c_SignatureVersion a) \<and> s3c_Endpoint a \<noteq> [] \<and> url_Parse ul (s3c_Endpoint a) = Inl m)"
  (is "?l \<longleftrightarrow> ?r")
proof
  assume l: ?l
  then obtain a m where a: "ns_Type ns = NSStoreTypeS3Compatible" "nss_S3Compatible (ns_Spec ns) = Some a"
      "s3c_Endpoint a \<noteq> []" "url_Parse ul (s3c_Endpoint a) = Inl m"
    by (rule ValidateNamespaceStore_Panic)
  let ?pre = "first_err [ValidateNSInValidSpec ns, ValidateNSEmptySecretName ns, ValidateNSEmptyTargetBucket ns,
     ValidateNSArchiveSpec ns]"
  have "?pre \<noteq> Panic" using ns_prechecks_vcheck [of ns] by (simp add: vcheck_def)
  with l a have "?pre = pass" "ValidateNsStoreS3Compatible ul ns = Panic"
    by (auto simp: ValidateNamespaceStore_def bind_r_eq_Panic)
  with a show ?r
    by (auto simp: first_err_eq_pass ns_checks ValidateNsStoreS3Compatible_def bind_r_eq_Panic
        ValidateSignatureVersion_Panic ValidateEndPoint_vcheck)
next
  assume ?r
  then show ?l
    by (auto simp: ValidateNamespaceStore_def bind_r_eq_Panic ns_prechecks ns_checks first_err_eq_pass
        ValidateNsStoreS3Compatible_def ValidateSignatureVersion_Panic)
qed

end
