(* ===== verification/Quota.thy ===== *)
theory Quota
  imports Nb_Types
begin

text \<open>
  Quotas: the admissible range (\<open>ValidateQuotaConfig\<close> of
  \<^verbatim>\<open>pkg/util/util.go\<close>), the conversion between bytes and units
  (\<^verbatim>\<open>pkg/nb/types.go\<close>), the quota a bucket gets from its class and its claim
  (\<open>GetQuotaConfig\<close> of \<^verbatim>\<open>pkg/obc/provisioner.go\<close>) and the comparison of a
  quota with the usage of a bucket (\<^verbatim>\<open>pkg/nb/quota.go\<close>).
  \<open>resource.ParseQuantity\<close> is an argument.
\<close>

section \<open>Floating-point numbers\<close>

text \<open>
  A finite \<open>float64\<close> is the rational number it denotes.  \<open>rnd53\<close> is rounding to nearest,
  ties to even, to 53 significant bits; all the numbers that occur here lie between one hundredth and
  \<open>2 ^ 144\<close>, far from the limits of the exponent.
\<close>

definition round_even :: "rat \<Rightarrow> int" where
  "round_even x =
     (let n = \<lfloor>x\<rfloor>; d = x - of_int n in
      if d < 1 / 2 then n else if 1 / 2 < d then n + 1 else if even n then n else n + 1)"

function scale_down :: "rat \<Rightarrow> nat" where
  "scale_down x = (if 2 ^ 53 \<le> x then Suc (scale_down (x / 2)) else 0)"
  by auto
termination
proof (relation "measure (\<lambda>x. nat \<lfloor>x\<rfloor>)", goal_cases)
  case (2 x)
  then have x: "2 \<le> x" by (rule order_trans [rotated]) simp
  then have "x / 2 \<le> x - 1" by simp
  then have "\<lfloor>x / 2\<rfloor> \<le> \<lfloor>x - 1\<rfloor>" by (rule floor_mono)
  also have "\<dots> < \<lfloor>x\<rfloor>" by simp
  finally show ?case using x by (simp add: nat_less_eq_zless le_floor_iff)
qed simp

lemma floor_half_less: "1 \<le> y \<Longrightarrow> \<lfloor>y / 2\<rfloor> < \<lfloor>y\<rfloor>" for y :: rat
proof (cases "y < 2")
  case True
  assume "1 \<le> y"
  then have "\<lfloor>y / 2\<rfloor> \<le> 0" "1 \<le> \<lfloor>y\<rfloor>" using True by (simp_all add: floor_le_iff le_floor_iff)
  then show ?thesis by linarith
next
  case False
  then have "\<lfloor>y / 2\<rfloor> \<le> \<lfloor>y - 1\<rfloor>" by (intro floor_mono) simp
  then show ?thesis by simp
qed

function scale_up :: "rat \<Rightarrow> nat" where
  "scale_up x = (if 0 < x \<and> x < 2 ^ 52 then Suc (scale_up (2 * x)) else 0)"
  by auto
termination
proof (relation "measure (\<lambda>x. nat \<lfloor>2 ^ 52 / x\<rfloor>)", goal_cases)
  case (2 x)
  then have "1 \<le> 2 ^ 52 / x" by (simp add: field_simps)
  then have "\<lfloor>(2 ^ 52 / x) / 2\<rfloor> < \<lfloor>2 ^ 52 / x\<rfloor>" by (rule floor_half_less)
  moreover have "0 < \<lfloor>2 ^ 52 / x\<rfloor>" using \<open>1 \<le> 2 ^ 52 / x\<close> by (simp add: le_floor_iff)
  ultimately show ?case by (simp add: field_simps)
qed simp

declare scale_down.simps [simp del] scale_up.simps [simp del]

definition rnd53_pos :: "rat \<Rightarrow> rat" where
  "rnd53_pos x =
     (if 2 ^ 53 \<le> x then (let k = scale_down x in of_int (round_even (x / 2 ^ k)) * 2 ^ k)
      else (let k = scale_up x in of_int (round_even (x * 2 ^ k)) / 2 ^ k))"

definition rnd53 :: "rat \<Rightarrow> rat" where
  "rnd53 x = (if x < 0 then - rnd53_pos (- x) else if x = 0 then 0 else rnd53_pos x)"

section \<open>Bytes and units\<close>

text \<open>The loop that divides by 1024 (exactly, in binary) until the number is below 1024.\<close>

function to_units :: "rat \<Rightarrow> nat \<Rightarrow> rat \<times> nat" where
  "to_units f u = (if 1024 \<le> f \<or> f \<le> - 1024 then to_units (f / 1024) (Suc u) else (f, u))"
  by auto
termination
proof (relation "measure (\<lambda>(f, u). nat \<lfloor>\<bar>f\<bar>\<rfloor>)", goal_cases)
  case (2 f u)
  then have f: "1024 \<le> \<bar>f\<bar>" by auto
  have "\<lfloor>\<bar>f / 1024\<bar>\<rfloor> \<le> \<lfloor>\<bar>f\<bar> / 2\<rfloor>" by (intro floor_mono) simp
  also have "\<dots> < \<lfloor>\<bar>f\<bar>\<rfloor>" using f by (intro floor_half_less) simp
  finally show ?case using f by (simp add: nat_less_eq_zless le_floor_iff)
qed simp

declare to_units.simps [simp del]

definition units :: "string list" where
  "units = ['''', ''K'', ''M'', ''G'', ''T'', ''P'', ''E'', ''Z'', ''Y'']"

text \<open>\<open>prec\<close> is negative for no rounding; an index beyond the table panics.\<close>

definition GetBytesAndUnits :: "int64 \<Rightarrow> int \<Rightarrow> (rat \<times> string) result" where
  "GetBytesAndUnits bi prec =
     (if bi = 0 then Ok (0, '''')
      else
        (let (f, u) = to_units (rnd53 (of_int (sint bi))) 0;
             g = (if 0 \<le> prec
                  then (let p = 10 ^ nat prec in rnd53 (of_int \<lfloor>rnd53 (f * p)\<rfloor> / p))
                  else f)
         in if u < length units then Ok (g, units ! u) else Panic))"

text \<open>\<^verbatim>\<open>strconv.FormatFloat(f, 'f', 3, 64)\<close> of a non-negative number.\<close>

definition format3 :: "rat \<Rightarrow> string" where
  "format3 f =
     (let n = nat (round_even (f * 1000)) in
      show_nat (n div 1000) @ ''.'' @ [byte (48 + n div 100 mod 10), byte (48 + n div 10 mod 10), byte (48 + n mod 10)])"

definition IntToHumanBytes :: "int64 \<Rightarrow> string result" where
  "IntToHumanBytes bi = bind_r (GetBytesAndUnits bi (- 1)) (\<lambda>(f, u).
     Ok ((if f < 0 then ''-'' @ format3 (- f) else format3 f) @ '' '' @ u @ ''B''))"

definition BigIntToHumanBytes :: "BigInt option \<Rightarrow> string result" where
  "BigIntToHumanBytes p = bind_r (deref p) (\<lambda>n. IntToHumanBytes (bi_N n + bi_Peta n * petaInBytes))"

definition BigIntToNonNegativeHumanBytes :: "BigInt option \<Rightarrow> string result" where
  "BigIntToNonNegativeHumanBytes p =
     (if p = None then IntToHumanBytes 0
      else if ToBig p < 0 then IntToHumanBytes 0
      else BigIntToHumanBytes p)"

definition BigIntToNonNegativeString :: "BigInt option \<Rightarrow> string" where
  "BigIntToNonNegativeString p = (case p of
     None \<Rightarrow> ''0''
   | Some n \<Rightarrow> if ToBig p < 0 then ''0'' else BigInt_ToString n)"

definition unit_power :: "string \<Rightarrow> nat option" where
  "unit_power u =
     (if u = '''' then Some 0 else if u = ''K'' then Some 1 else if u = ''M'' then Some 2
      else if u = ''G'' then Some 3 else if u = ''T'' then Some 4 else if u = ''P'' then Some 5
      else if u = ''E'' then Some 6 else if u = ''Z'' then Some 7 else if u = ''Y'' then Some 8 else None)"

text \<open>
  The product by a power of 1024 is exact.  The limit \<open>math.MaxInt64\<close> is \<open>2 ^ 63\<close> as a
  floating-point number, so \<open>2 ^ 63\<close> itself passes the test and its conversion to
  \<open>int64\<close> overflows; \<open>word_of_int\<close> is what the conversion gives on amd64.
\<close>

definition QuotaSizeToBytes :: "(rat \<times> string) option \<Rightarrow> int64 option" where
  "QuotaSizeToBytes q = (case q of
     None \<Rightarrow> None
   | Some (value, unit) \<Rightarrow>
       if value \<le> 0 then None
       else (case unit_power unit of
          None \<Rightarrow> None
        | Some pow \<Rightarrow>
            (let f = value * 1024 ^ pow in
             if 2 ^ 63 < f then None else Some (word_of_int \<lfloor>f + 1 / 2\<rfloor>))))"

section \<open>Admissible quotas\<close>

abbreviation gigabyte :: int where "gigabyte \<equiv> 1024 * 1024 * 1024"
abbreviation petabyte :: int where "petabyte \<equiv> gigabyte * 1024 * 1024"
abbreviation obcMaxSizeUpperLimit :: int where "obcMaxSizeUpperLimit \<equiv> petabyte * 1023"

text \<open>The text of the error of \<open>strconv.ParseInt\<close>.\<close>

definition ParseInt_error :: "string \<Rightarrow> string" where
  "ParseInt_error s = ''strconv.ParseInt: parsing '' @ go_quote s @ '': ''
     @ (if ParseInt_syntax s then ''value out of range'' else ''invalid syntax'')"

text \<open>\<open>ParseQuantity\<close> returns the quantity or the text of its error.\<close>

type_synonym parse_quantity = "string \<Rightarrow> string + quantity"

definition ValidateQuotaConfig :: "parse_quantity \<Rightarrow> string \<Rightarrow> string \<Rightarrow> string \<Rightarrow> check" where
  "ValidateQuotaConfig ParseQuantity name maxSize maxObjects = first_err [
     (if maxObjects \<noteq> '''' then
        (case ParseInt 32 maxObjects of
           None \<Rightarrow> Err (ValidationError (''ob '' @ go_quote name @ '' validation error: failed to parse maxObjects ''
             @ maxObjects @ '', '' @ ParseInt_error maxObjects))
         | Some n \<Rightarrow> require (\<not> n < 0) (''ob '' @ go_quote name
             @ '' validation error: invalid maxObjects value. O or any positive number ''))
      else pass),
     (if maxSize \<noteq> '''' then
        (case ParseQuantity maxSize of
           Inl err \<Rightarrow> Err (PlainError err)
         | Inr q \<Rightarrow>
             (let v = q_Value q in
              require (\<not> (v \<noteq> 0 \<and> (v < gigabyte \<or> obcMaxSizeUpperLimit < v))) (''ob '' @ go_quote name
                @ '' validation error: invalid obcMaxSizeValue value: min 1Gi, max 1023Pi, 0 to remove quota'')))
      else pass)]"

section \<open>Quotas of buckets\<close>

definition QuotaConfig_IsEqual :: "QuotaConfig option \<Rightarrow> QuotaConfig option \<Rightarrow> bool" where
  "QuotaConfig_IsEqual q q2 = (case (q, q2) of
     (None, None) \<Rightarrow> True
   | (None, Some c) \<Rightarrow> qc_Size c = None \<and> qc_Quantity c = None
   | (Some c, None) \<Rightarrow> qc_Size c = None \<and> qc_Quantity c = None
   | (Some c, Some d) \<Rightarrow> c = d)"

definition ValidateQuotaAgainstBucketUsage :: "BucketInfo option \<Rightarrow> QuotaConfig option \<Rightarrow> check" where
  "ValidateQuotaAgainstBucketUsage bucket quota = (case (bucket, quota) of
     (Some b, Some q) \<Rightarrow>
       (let sizeBytes = (case QuotaSizeToBytes (qc_Size q) of Some n \<Rightarrow> n | None \<Rightarrow> 0);
            objects = (case qc_Quantity q of Some n \<Rightarrow> if 0 < n then n else 0 | None \<Rightarrow> 0);
            currentNumObjects = (case bi_NumObjects b of Some n \<Rightarrow> n | None \<Rightarrow> 0)
        in if sizeBytes = 0 \<and> objects = 0 then pass
           else if bi_BucketType b = ''NAMESPACE'' then pass
           else if 0 < objects \<and> objects < currentNumObjects then
             Err (ValidationError (''bucket '' @ go_quote (bi_Name b) @ '' validation error: maxObjects quota ''
               @ show_int objects @ '' is below current usage of '' @ show_int currentNumObjects @ '' objects''))
           else if 0 < sint sizeBytes then
             (let used = (case bi_DataCapacity b of Some c \<Rightarrow> ToBig (dc_Size c) | None \<Rightarrow> 0) in
              if sint sizeBytes < used then
                bind_r (IntToHumanBytes sizeBytes) (\<lambda>m.
                bind_r (bind_r (deref (bi_DataCapacity b)) (\<lambda>c. BigIntToHumanBytes (dc_Size c))) (\<lambda>u.
                  Err (ValidationError (''bucket '' @ go_quote (bi_Name b) @ '' validation error: maxSize quota ''
                    @ m @ '' is below current usage of '' @ u))))
              else pass)
           else pass)
   | _ \<Rightarrow> pass)"

text \<open>
  The warning that a quota cannot be used up: the arguments of the message, when there is one.
  \<open>read_bucket\<close> is the client's \<open>ReadBucketAPI\<close> for the bucket, when there is a client.
\<close>

definition WarnIfQuotaCappedByFree ::
    "BucketInfo option \<Rightarrow> BucketInfo result option \<Rightarrow> QuotaConfig option \<Rightarrow> (string \<times> string) option result" where
  "WarnIfQuotaCappedByFree bucket read_bucket quota = (case quota of
     None \<Rightarrow> Ok None
   | Some q \<Rightarrow> (case QuotaSizeToBytes (qc_Size q) of
       None \<Rightarrow> Ok None
     | Some requested \<Rightarrow>
         (let b = (case bucket of Some x \<Rightarrow> Some x
                   | None \<Rightarrow> (case read_bucket of Some (Ok x) \<Rightarrow> Some x | _ \<Rightarrow> None))
          in case b of
            None \<Rightarrow> Ok None
          | Some x \<Rightarrow>
              if bi_BucketType x = ''NAMESPACE'' then Ok None
              else (case bi_DataCapacity x of
                None \<Rightarrow> Ok None
              | Some cap \<Rightarrow>
                  if dc_Free cap = None \<or> dc_Size cap = None then Ok None
                  else if ToBig (dc_Free cap) < sint requested - ToBig (dc_Size cap) then
                    bind_r (IntToHumanBytes requested) (\<lambda>r.
                    bind_r (BigIntToHumanBytes (dc_Free cap)) (\<lambda>f. Ok (Some (r, f))))
                  else Ok None))))"

text \<open>
  \<open>GetQuotaConfig\<close>: the smaller of the limits of the bucket class (\<open>bc\<close>) and of the claim (\<open>ob\<close>,
  its additional configuration).
\<close>

definition quota_err :: "string \<Rightarrow> string \<Rightarrow> string \<Rightarrow> string \<Rightarrow> string \<Rightarrow> go_error" where
  "quota_err bucketName source field text err =
     PlainError (''bucket '' @ go_quote bucketName @ '' GetQuotaConfig: parse '' @ source @ '' '' @ field @ '' ''
       @ go_quote text @ '': '' @ err)"

definition parse_size :: "parse_quantity \<Rightarrow> string \<Rightarrow> string \<Rightarrow> string \<Rightarrow> int result" where
  "parse_size ParseQuantity bucketName source s =
     (if s = '''' then Ok 0
      else case ParseQuantity s of
        Inl err \<Rightarrow> Err (quota_err bucketName source ''maxSize'' s err)
      | Inr q \<Rightarrow> Ok (q_Value q))"

definition parse_objects :: "string \<Rightarrow> string \<Rightarrow> string \<Rightarrow> int result" where
  "parse_objects bucketName source s =
     (if s = '''' then Ok 0
      else case ParseInt 32 s of
        None \<Rightarrow> Err (quota_err bucketName source ''maxObjects'' s (ParseInt_error s))
      | Some n \<Rightarrow> Ok n)"

definition min_quota :: "int \<Rightarrow> string \<Rightarrow> int \<Rightarrow> int" where
  "min_quota bc text ob = (if text \<noteq> '''' \<and> (bc = 0 \<or> ob < bc) then ob else bc)"

definition GetQuotaConfig ::
    "parse_quantity \<Rightarrow> string \<Rightarrow> BucketClassSpec \<Rightarrow> (string \<rightharpoonup> string) option \<Rightarrow> QuotaConfig result" where
  "GetQuotaConfig ParseQuantity bucketName bcSpec ob =
     (let obMaxSize = map_get ob ''maxSize''; obMaxObjects = map_get ob ''maxObjects'';
          bcMaxSize = (case bcs_Quota bcSpec of Some q \<Rightarrow> quota_MaxSize q | None \<Rightarrow> '''');
          bcMaxObjects = (case bcs_Quota bcSpec of Some q \<Rightarrow> quota_MaxObjects q | None \<Rightarrow> '''')
      in if bcMaxSize = '''' \<and> bcMaxObjects = '''' \<and> obMaxSize = '''' \<and> obMaxObjects = ''''
         then Ok \<lparr>qc_Size = None, qc_Quantity = None\<rparr>
         else
           bind_r (parse_size ParseQuantity bucketName ''bucketClass'' bcMaxSize) (\<lambda>bcSize.
           bind_r (parse_objects bucketName ''bucketClass'' bcMaxObjects) (\<lambda>bcObjects.
           bind_r (parse_size ParseQuantity bucketName ''OBC'' obMaxSize) (\<lambda>obSize.
           bind_r (parse_objects bucketName ''OBC'' obMaxObjects) (\<lambda>obObjects.
             (let size = min_quota bcSize obMaxSize obSize;
                  objects = min_quota bcObjects obMaxObjects obObjects
              in bind_r (if 0 < size
                         then bind_r (GetBytesAndUnits (word_of_int size) 2) (\<lambda>fu. Ok (Some fu))
                         else Ok None) (\<lambda>sz.
                 Ok \<lparr>qc_Size = sz, qc_Quantity = (if 0 < objects then Some objects else None)\<rparr>)))))))"

section \<open>Correctness\<close>

lemma ValidateQuotaConfig_pass:
  "ValidateQuotaConfig pq name maxSize maxObjects = pass \<longleftrightarrow>
     (maxObjects = [] \<or> (\<exists>n. ParseInt 32 maxObjects = Some n \<and> 0 \<le> n \<and> n < 2 ^ 31)) \<and>
     (maxSize = [] \<or> (\<exists>q. pq maxSize = Inr q \<and>
        (q_Value q = 0 \<or> 2 ^ 30 \<le> q_Value q \<and> q_Value q \<le> 1023 * 2 ^ 50)))"
proof -
  have "ParseInt 32 maxObjects = Some n \<Longrightarrow> n < 2147483648" for n
    using ParseInt_range [of 32 maxObjects n] by simp
  then show ?thesis
    by (auto simp: ValidateQuotaConfig_def first_err_eq_pass Let_def split: option.splits sum.splits)
qed

lemma to_units_spec:
  "to_units f u = (g, v) \<Longrightarrow> \<bar>g\<bar> < 1024 \<and> u \<le> v \<and> f = g * 1024 ^ (v - u) \<and> (u < v \<longrightarrow> 1 \<le> \<bar>g\<bar>)"
proof (induction f u arbitrary: g v rule: to_units.induct)
  case (1 f u)
  show ?case
  proof (cases "1024 \<le> f \<or> f \<le> - 1024")
    case False
    with 1 show ?thesis by (auto simp: to_units.simps [of f u])
  next
    case True
    with 1 have rec: "to_units (f / 1024) (Suc u) = (g, v)" by (simp add: to_units.simps [of f u])
    from "1.IH" [OF True rec] have ih: "\<bar>g\<bar> < 1024" "Suc u \<le> v" "f / 1024 = g * 1024 ^ (v - Suc u)"
        "Suc u < v \<Longrightarrow> 1 \<le> \<bar>g\<bar>" by auto
    have "v - u = Suc (v - Suc u)" using ih(2) by simp
    then have f: "f = g * 1024 ^ (v - u)" using ih(3) by (simp add: field_simps)
    have "1 \<le> \<bar>g\<bar>" if "Suc u = v" using True f that by auto
    with ih f show ?thesis by (metis Suc_leD le_eq_less_or_eq)
  qed
qed

lemma to_units_index:
  assumes "to_units f 0 = (g, v)" "\<bar>f\<bar> \<le> 2 ^ 63"
  shows "v \<le> 6"
proof (rule ccontr)
  assume "\<not> v \<le> 6"
  then have v: "7 \<le> v" by simp
  have "(2::rat) ^ 63 < 1024 ^ 7" by simp
  also have "\<dots> \<le> 1024 ^ v" using v by (intro power_increasing) simp_all
  also have "\<dots> \<le> \<bar>g\<bar> * 1024 ^ v" using to_units_spec [OF assms(1)] v by simp
  also have "\<dots> = \<bar>f\<bar>" using to_units_spec [OF assms(1)] by (simp add: abs_mult)
  finally show False using assms(2) by simp
qed

lemma round_even_int [simp]: "round_even (of_int n) = n"
  by (simp add: round_even_def)

lemma round_even_le: "x \<le> of_int n \<Longrightarrow> round_even x \<le> n"
proof -
  assume x: "x \<le> of_int n"
  show ?thesis
  proof (cases "\<lfloor>x\<rfloor> < n")
    case True
    then show ?thesis by (auto simp: round_even_def Let_def)
  next
    case False
    with x have "x = of_int n" by (metis antisym linorder_not_less floor_le_iff le_floor_iff not_less order_refl of_int_floor_le of_int_le_iff order_trans)
    then show ?thesis by simp
  qed
qed

lemma scale_down_ge: "0 < scale_down x \<Longrightarrow> 2 ^ (52 + scale_down x) \<le> x"
proof (induction x rule: scale_down.induct)
  case (1 x)
  from "1.prems" have ge: "2 ^ 53 \<le> x" by (subst (asm) scale_down.simps) (simp split: if_splits)
  then have step: "scale_down x = Suc (scale_down (x / 2))" by (simp add: scale_down.simps [of x])
  show ?case
  proof (cases "scale_down (x / 2) = 0")
    case True
    with step ge show ?thesis by simp
  next
    case False
    with "1.IH" [OF ge] have "2 ^ (52 + scale_down (x / 2)) \<le> x / 2" by simp
    with step show ?thesis by (simp add: field_simps power_add)
  qed
qed

lemma rnd53_pos_int_le:
  assumes "0 < n" "n \<le> 2 ^ 63"
  shows "rnd53_pos (of_int n) \<le> 2 ^ 63"
proof (cases "2 ^ 53 \<le> (of_int n :: rat)")
  case True
  let ?k = "scale_down (of_int n)"
  have "0 < ?k" using True by (simp add: scale_down.simps [of "of_int n"])
  then have "2 ^ (52 + ?k) \<le> (of_int n :: rat)" by (rule scale_down_ge)
  also have "\<dots> \<le> 2 ^ 63" using assms(2) by (metis of_int_le_iff of_int_numeral of_int_power)
  finally have "52 + ?k \<le> 63" by (rule power_le_imp_le_exp [rotated]) simp
  then obtain j where j: "63 = j + ?k" by (metis add.commute add_leD2 le_Suc_ex)
  then have two: "(2::rat) ^ 63 = 2 ^ j * 2 ^ ?k" by (metis power_add)
  have "of_int n / 2 ^ ?k \<le> (of_int (2 ^ j) :: rat)"
    using assms(2) two by (simp add: field_simps)
  then have "round_even (of_int n / 2 ^ ?k) \<le> 2 ^ j" by (rule round_even_le)
  then have "(of_int (round_even (of_int n / 2 ^ ?k)) :: rat) \<le> 2 ^ j"
    by (metis of_int_le_iff of_int_numeral of_int_power)
  then show ?thesis using True by (simp add: rnd53_pos_def Let_def two del: power_numeral)
next
  case False
  have "round_even (of_int n * 2 ^ k) = n * 2 ^ k" for k
    using round_even_int [of "n * 2 ^ k"] by simp
  then have "rnd53_pos (of_int n) = of_int n"
    using False by (simp add: rnd53_pos_def Let_def)
  then show ?thesis using False by simp
qed

lemma rnd53_int_le:
  assumes "- (2 ^ 63) \<le> n" "n \<le> 2 ^ 63"
  shows "\<bar>rnd53 (of_int n)\<bar> \<le> 2 ^ 63"
proof -
  have nonneg: "0 \<le> rnd53_pos x" if "0 < x" for x
  proof -
    have "0 \<le> round_even y" if "0 \<le> y" for y
      using that by (auto simp: round_even_def Let_def)
    then show ?thesis using that by (auto simp: rnd53_pos_def Let_def)
  qed
  consider "n < 0" | "n = 0" | "0 < n" by linarith
  then show ?thesis
  proof cases
    case 1
    then have "rnd53_pos (of_int (- n)) \<le> 2 ^ 63" using assms by (intro rnd53_pos_int_le) simp_all
    with 1 nonneg [of "of_int (- n)"] show ?thesis by (simp add: rnd53_def)
  next
    case 3
    then have "rnd53_pos (of_int n) \<le> 2 ^ 63" using assms by (intro rnd53_pos_int_le) simp_all
    with 3 nonneg [of "of_int n"] show ?thesis by (simp add: rnd53_def)
  qed (simp add: rnd53_def)
qed

lemma rnd53_int64_le: "\<bar>rnd53 (of_int (sint (w :: int64)))\<bar> \<le> 2 ^ 63"
  by (rule rnd53_int_le) (use sint_ge [of w] sint_lt [of w] in simp_all)

text \<open>The table of units is long enough for every 64-bit number.\<close>

lemma GetBytesAndUnits_total: "\<exists>f u. GetBytesAndUnits bi prec = Ok (f, u)"
proof (cases "bi = 0")
  case False
  obtain f u where fu: "to_units (rnd53 (of_int (sint bi))) 0 = (f, u)" by (cases "to_units (rnd53 (of_int (sint bi))) 0")
  then have "u < length units" using to_units_index [OF fu rnd53_int64_le] by (simp add: units_def)
  with fu False show ?thesis by (auto simp: GetBytesAndUnits_def Let_def)
qed (simp add: GetBytesAndUnits_def)

lemma IntToHumanBytes_total: "\<exists>s. IntToHumanBytes bi = Ok s"
  using GetBytesAndUnits_total [of bi "- 1"] by (auto simp: IntToHumanBytes_def)

lemma BigIntToHumanBytes_total: "p \<noteq> None \<Longrightarrow> \<exists>s. BigIntToHumanBytes p = Ok s"
  using IntToHumanBytes_total by (auto simp: BigIntToHumanBytes_def)

text \<open>The size the display is based on is the rounded number itself.\<close>

lemma GetBytesAndUnits_value:
  assumes "GetBytesAndUnits bi (- 1) = Ok (f, u)"
  obtains p where "unit_power u = Some p" "f * 1024 ^ p = rnd53 (of_int (sint bi))" "\<bar>f\<bar> < 1024"
proof (cases "bi = 0")
  case True
  with assms that [of 0] show thesis by (simp add: GetBytesAndUnits_def unit_power_def rnd53_def)
next
  case False
  obtain g v where gv: "to_units (rnd53 (of_int (sint bi))) 0 = (g, v)" by (cases "to_units (rnd53 (of_int (sint bi))) 0")
  have v: "v \<le> 6" by (rule to_units_index [OF gv rnd53_int64_le])
  from assms gv False have "f = g" "u = units ! v" by (auto simp: GetBytesAndUnits_def Let_def split: if_splits)
  moreover from v have "unit_power (units ! v) = Some v"
    by (auto simp: units_def unit_power_def nth_Cons numeral_eq_Suc le_Suc_eq)
  ultimately show thesis using that [of v] to_units_spec [OF gv] by simp
qed

lemma ValidateQuotaAgainstBucketUsage_vcheck: "vcheck (ValidateQuotaAgainstBucketUsage b q)"
proof (cases "\<exists>b' q'. b = Some b' \<and> q = Some q'")
  case True
  then obtain b' q' where bq: "b = Some b'" "q = Some q'" by blast
  show ?thesis
  proof (cases "bi_DataCapacity b'")
    case None
    with bq show ?thesis by (simp add: ValidateQuotaAgainstBucketUsage_def Let_def)
  next
    case (Some c)
    obtain m where m: "IntToHumanBytes (case QuotaSizeToBytes (qc_Size q') of Some n \<Rightarrow> n | None \<Rightarrow> 0) = Ok m"
      using IntToHumanBytes_total by blast
    show ?thesis
    proof (cases "dc_Size c")
      case None
      with bq Some show ?thesis by (simp add: ValidateQuotaAgainstBucketUsage_def Let_def ToBig_def)
    next
      case (Some n)
      then obtain s where "BigIntToHumanBytes (dc_Size c) = Ok s" using BigIntToHumanBytes_total by blast
      with bq m \<open>bi_DataCapacity b' = Some c\<close> show ?thesis
        by (simp add: ValidateQuotaAgainstBucketUsage_def Let_def)
    qed
  qed
qed (auto simp: ValidateQuotaAgainstBucketUsage_def split: option.splits)

section \<open>Properties\<close>

text \<open>
  A quota is admissible exactly when the number of objects is absent or a 32-bit non-negative decimal
  number and the size is absent, zero, or between 1 GiB and 1023 PiB.
\<close>

theorem quota_range:
  "ValidateQuotaConfig pq name maxSize maxObjects = pass \<longleftrightarrow>
     (maxObjects = [] \<or> (\<exists>n. ParseInt 32 maxObjects = Some n \<and> 0 \<le> n \<and> n < 2 ^ 31)) \<and>
     (maxSize = [] \<or> (\<exists>q. pq maxSize = Inr q \<and>
        (q_Value q = 0 \<or> 2 ^ 30 \<le> q_Value q \<and> q_Value q \<le> 1023 * 2 ^ 50)))"
  by (rule ValidateQuotaConfig_pass)

text \<open>
  Rendering a number of bytes returns for every 64-bit number: the loop ends, its unit is in the table, and
  the printed value times the power of its unit is the number as a floating-point number, below 1024 units.
\<close>

theorem human_bytes_total:
  "\<exists>f u p. GetBytesAndUnits bi (- 1) = Ok (f, u) \<and> unit_power u = Some p \<and>
     f * 1024 ^ p = rnd53 (of_int (sint bi)) \<and> \<bar>f\<bar> < 1024 \<and> is_ok (IntToHumanBytes bi)"
proof -
  obtain f u where fu: "GetBytesAndUnits bi (- 1) = Ok (f, u)" using GetBytesAndUnits_total by blast
  obtain p where "unit_power u = Some p" "f * 1024 ^ p = rnd53 (of_int (sint bi))" "\<bar>f\<bar> < 1024"
    by (rule GetBytesAndUnits_value [OF fu])
  moreover have "is_ok (IntToHumanBytes bi)" using IntToHumanBytes_total [of bi] by auto
  ultimately show ?thesis using fu by blast
qed

text \<open>
  The conversion of an unsigned capacity to the API's pair of numbers loses nothing: reading the pair back
  in unbounded arithmetic gives the capacity, while the 64-bit rendering is its signed reading, which is
  negative from 8 EiB on.
\<close>

theorem bigint_roundtrip:
  "ToBig (Some (UInt64ToBigInt v)) = uint v \<and> BigInt_ToString (UInt64ToBigInt v) = show_int (sint v)"
  using ToBig_UInt64ToBigInt BigInt_ToString_UInt64 by blast

text \<open>
  The quota of a bucket is the smaller of the limits of its class and of its claim when both are positive,
  the only one given otherwise; a zero in the claim removes the limit of the class.
\<close>

theorem quota_objects_minimum:
  assumes "GetQuotaConfig pq b sp ob = Ok q"
    and "bcs_Quota sp = Some bq" "ParseInt 32 (quota_MaxObjects bq) = Some m" "quota_MaxObjects bq \<noteq> []"
    and "map_get ob ''maxObjects'' \<noteq> []" "ParseInt 32 (map_get ob ''maxObjects'') = Some n" "0 < m"
  shows "qc_Quantity q = (if 0 < min m n then Some (min m n) else None)"
  using assms
  by (auto simp: GetQuotaConfig_def Let_def bind_r_eq_Ok parse_objects_def min_quota_def min_def split: if_splits)

definition ex_parse_quantity :: parse_quantity where
  "ex_parse_quantity s = (case ParseInt 64 s of Some n \<Rightarrow> Inr (of_units n) | None \<Rightarrow> Inl ''quantities must match the regular expression'')"

theorem quota_objects_minimum_witness:
  "\<exists>q. GetQuotaConfig ex_parse_quantity ''b''
      \<lparr>bcs_PlacementPolicy = None, bcs_NamespacePolicy = None, bcs_Quota = Some \<lparr>quota_MaxSize = '''', quota_MaxObjects = ''10''\<rparr>,
       bcs_ReplicationPolicy = '''', bcs_VectorPolicy = None, bcs_ArchivePolicy = None\<rparr>
      (Some [''maxObjects'' \<mapsto> ''7'']) = Ok q \<and> qc_Quantity q = Some 7"
proof -
  let ?sp = "\<lparr>bcs_PlacementPolicy = None, bcs_NamespacePolicy = None,
     bcs_Quota = Some \<lparr>quota_MaxSize = '''', quota_MaxObjects = ''10''\<rparr>,
     bcs_ReplicationPolicy = '''', bcs_VectorPolicy = None, bcs_ArchivePolicy = None\<rparr>"
  let ?ob = "Some [''maxObjects'' \<mapsto> ''7'']"
  have p: "ParseInt 32 ''10'' = Some 10" "ParseInt 32 ''7'' = Some 7" by code_simp+
  have g: "map_get ?ob ''maxObjects'' = ''7''" "map_get ?ob ''maxSize'' = ''''"
    by (simp_all add: map_get_def)
  obtain q where q: "GetQuotaConfig ex_parse_quantity ''b'' ?sp ?ob = Ok q"
    using p by (simp add: GetQuotaConfig_def g parse_size_def parse_objects_def min_quota_def)
  have "qc_Quantity q = (if 0 < min (10::int) 7 then Some (min 10 7) else None)"
    by (rule quota_objects_minimum [OF q, where bq = "\<lparr>quota_MaxSize = [], quota_MaxObjects = ''10''\<rparr>"])
      (simp_all add: g p)
  with q show ?thesis by auto
qed

end
