(* ===== verification/BC_Validation.thy ===== *)
theory BC_Validation
  imports NS_Validation Quota
begin

text \<open>
  \<^verbatim>\<open>pkg/validations/bucketclass_validation.go\<close>: the rules for bucket classes and
  for the stores their policies refer to.  The cluster is read through
  \<open>lookups\<close>, the results of the client's \<open>Get\<close> by name and namespace.
\<close>

record lookups =
  get_BackingStore :: "string \<Rightarrow> string \<Rightarrow> kube_error + BackingStore"
  get_NamespaceStore :: "string \<Rightarrow> string \<Rightarrow> kube_error + NamespaceStore"

abbreviation check_bs :: "lookups \<Rightarrow> string \<Rightarrow> string \<Rightarrow> BackingStore option result" where
  "check_bs k name nspace \<equiv> check_get (get_BackingStore k name nspace)"

abbreviation check_ns :: "lookups \<Rightarrow> string \<Rightarrow> string \<Rightarrow> NamespaceStore option result" where
  "check_ns k name nspace \<equiv> check_get (get_NamespaceStore k name nspace)"

section \<open>The checks\<close>

definition ValidateTiersNumber :: "Tier list \<Rightarrow> check" where
  "ValidateTiersNumber tiers =
     require (\<not> (length tiers \<noteq> 1 \<and> length tiers \<noteq> 2))
       ''unsupported number of tiers, bucketclass supports only 1 or 2 tiers''"

definition GetBucketclassNamespaceStoreArray :: "NamespacePolicy \<Rightarrow> string list result" where
  "GetBucketclassNamespaceStoreArray np = (case np_Type np of
     NSBucketClassTypeCache \<Rightarrow> bind_r (deref (np_Cache np)) (\<lambda>c. Ok [cache_HubResource c])
   | NSBucketClassTypeMulti \<Rightarrow> bind_r (deref (np_Multi np)) (\<lambda>m.
       Ok (if multi_WriteResource m = '''' then multi_ReadResources m
           else multi_ReadResources m @ [multi_WriteResource m]))
   | NSBucketClassTypeSingle \<Rightarrow> bind_r (deref (np_Single np)) (\<lambda>r. Ok [r])
   | NSBucketClassTypeOther _ \<Rightarrow> Ok [])"

definition ns_ready :: "string \<Rightarrow> NamespaceStore \<Rightarrow> check" where
  "ns_ready name ns =
     (if nst_Phase (ns_Status ns) = NamespaceStorePhaseRejected then
        Err (PersistentError ''RejectedNamespaceStore'' (''NooBaa NamespaceStore '' @ go_quote name @ '' is in rejected phase''))
      else if nst_Phase (ns_Status ns) \<noteq> NamespaceStorePhaseReady then
        Err (PlainError (''NooBaa NamespaceStore '' @ go_quote name @ '' is not yet ready''))
      else pass)"

definition missing_ns :: "string \<Rightarrow> check" where
  "missing_ns name = Err (PersistentError ''MissingNamespaceStore''
     (''NooBaa NamespaceStore '' @ go_quote name @ '' not found or deleted''))"

definition ValidateVectorPolicy ::
    "lookups \<Rightarrow> VectorPolicy option \<Rightarrow> PlacementPolicy option \<Rightarrow> NamespacePolicy option \<Rightarrow> string \<Rightarrow> check" where
  "ValidateVectorPolicy k vectorPolicy placementPolicy namespacePolicy nspace = (case vectorPolicy of
     None \<Rightarrow> pass
   | Some vp \<Rightarrow>
       if placementPolicy \<noteq> None \<or> namespacePolicy \<noteq> None then
         Err (ValidationError ''VectorPolicy cannot be used together with PlacementPolicy or NamespacePolicy'')
       else if vp_Resource vp = '''' then
         Err (PersistentError ''InvalidVectorPolicy'' ''VectorPolicy resource must not be empty'')
       else bind_r (check_ns k (vp_Resource vp) nspace) (\<lambda>p. case p of
         None \<Rightarrow> missing_ns (vp_Resource vp)
       | Some ns \<Rightarrow> first_err [
           ns_ready (vp_Resource vp) ns,
           (if ns_Type ns \<noteq> NSStoreTypeNSFS then
              Err (PersistentError ''InvalidNamespaceStoreType'' (''NooBaa NamespaceStore '' @ go_quote (vp_Resource vp)
                @ '' must be of type NSFS for vector policy, got '' @ go_quote (ns_type_string (ns_Type ns))))
            else pass)]))"

text \<open>\<open>bc.Spec.NamespacePolicy\<close> is dereferenced: the caller has checked that it is there.\<close>

definition ValidateNSFSSingleBC :: "lookups \<Rightarrow> BucketClass \<Rightarrow> check" where
  "ValidateNSFSSingleBC k bc = bind_r (deref (bcs_NamespacePolicy (bc_Spec bc))) (\<lambda>np.
     if np_Type np = NSBucketClassTypeSingle then pass
     else bind_r (GetBucketclassNamespaceStoreArray np) (for_all_r (\<lambda>name.
       bind_r (check_ns k name (bc_Namespace bc)) (\<lambda>p. case p of
         None \<Rightarrow> Err (PlainError ''failed to KubeCheck namespacestore in NSFS single bucketclass type validation'')
       | Some ns \<Rightarrow> require (ns_Type ns \<noteq> NSStoreTypeNSFS)
           (''invalid namespaceStore types, nsfs namespacestore '' @ go_quote name
             @ '' is allowed on bucketclass of type single'')))))"

definition ValidateArchivePolicyNS :: "lookups \<Rightarrow> BucketClass \<Rightarrow> check" where
  "ValidateArchivePolicyNS k bc = (case bcs_ArchivePolicy (bc_Spec bc) of
     None \<Rightarrow> pass
   | Some ap \<Rightarrow>
       (let nsName = ap_DeepArchiveResource ap; who = ''BucketClass '' @ go_quote (bc_Name bc) in
        if nsName = '''' then Err (ValidationError (who
          @ '' has archivePolicy but empty DeepArchiveResource; DeepArchiveResource must reference an ''
          @ ''s3-compatible NamespaceStore with spec.archive=true''))
        else bind_r (check_ns k nsName (bc_Namespace bc)) (\<lambda>p. case p of
          None \<Rightarrow> Err (PersistentError ''InvalidArchivePolicy'' (who @ '' archivePolicy references NamespaceStore ''
            @ go_quote nsName @ '' which does not exist in namespace '' @ go_quote (bc_Namespace bc)))
        | Some ns \<Rightarrow>
            if ns_Type ns \<noteq> NSStoreTypeS3Compatible \<or> \<not> nss_Archive (ns_Spec ns) then
              Err (PersistentError ''InvalidArchivePolicy'' (who @ '' archivePolicy references NamespaceStore ''
                @ go_quote nsName @ '' of type '' @ go_quote (ns_type_string (ns_Type ns)) @ ''; must be ''
                @ go_quote (ns_type_string NSStoreTypeS3Compatible) @ '' with archive=true''))
            else if nst_Phase (ns_Status ns) \<noteq> NamespaceStorePhaseReady then
              Err (PlainError (who @ '' archivePolicy NamespaceStore '' @ go_quote nsName @ '' is not Ready (phase: ''
                @ go_quote (ns_phase_string (nst_Phase (ns_Status ns))) @ ''); will retry''))
            else pass)))"

definition ValidateArchivePolicy :: "lookups \<Rightarrow> BucketClass \<Rightarrow> check" where
  "ValidateArchivePolicy k bc =
     (if bcs_ArchivePolicy (bc_Spec bc) = None then pass
      else if bcs_PlacementPolicy (bc_Spec bc) = None then
        Err (ValidationError (''BucketClass '' @ go_quote (bc_Name bc)
          @ '' has archivePolicy but no placementPolicy; placementPolicy is required when archivePolicy is set''))
      else ValidateArchivePolicyNS k bc)"

definition bc_ValidateQuotaConfig :: "parse_quantity \<Rightarrow> string \<Rightarrow> Quota option \<Rightarrow> check" where
  "bc_ValidateQuotaConfig pq bcName quota = (case quota of
     None \<Rightarrow> pass
   | Some q \<Rightarrow> ValidateQuotaConfig pq bcName (quota_MaxSize q) (quota_MaxObjects q))"

definition ValidateBucketClass :: "lookups \<Rightarrow> parse_quantity \<Rightarrow> BucketClass option \<Rightarrow> check" where
  "ValidateBucketClass k pq p = (case p of
     None \<Rightarrow> pass
   | Some bc \<Rightarrow>
       (let sp = bc_Spec bc in first_err [
          ValidateVectorPolicy k (bcs_VectorPolicy sp) (bcs_PlacementPolicy sp) (bcs_NamespacePolicy sp) (bc_Namespace bc),
          (if bcs_NamespacePolicy sp \<noteq> None then ValidateNSFSSingleBC k bc else pass),
          (case bcs_PlacementPolicy sp of Some pp \<Rightarrow> ValidateTiersNumber (pp_Tiers pp) | None \<Rightarrow> pass),
          ValidateArchivePolicy k bc,
          bc_ValidateQuotaConfig pq (bc_Name bc) (bcs_Quota sp)]))"

text \<open>Go ranges over the set of immutable labels in an arbitrary order; here it is the order of a list.\<close>

definition ValidateImmutLabelChange :: "BucketClass option \<Rightarrow> BucketClass option \<Rightarrow> string list \<Rightarrow> check" where
  "ValidateImmutLabelChange bc oldBC immuts = (case (bc, oldBC) of
     (Some new, Some old) \<Rightarrow> for_all_r (\<lambda>l.
       require (map_get (om_Labels (bc_Meta old)) l = map_get (om_Labels (bc_Meta new)) l)
         (''immutable label '' @ go_quote l @ '' cannot be changed'')) immuts
   | _ \<Rightarrow> pass)"

section \<open>Policies checked by the reconciler\<close>

definition backing_store_ready :: "lookups \<Rightarrow> string \<Rightarrow> string \<Rightarrow> check" where
  "backing_store_ready k nspace name = bind_r (check_bs k name nspace) (\<lambda>p. case p of
     None \<Rightarrow> Err (PersistentError ''MissingBackingStore''
       (''NooBaa BackingStore '' @ go_quote name @ '' not found or deleted''))
   | Some bs \<Rightarrow>
       if bst_Phase (bs_Status bs) = BackingStorePhaseRejected then
         Err (PersistentError ''RejectedBackingStore'' (''NooBaa BackingStore '' @ go_quote name @ '' is in rejected phase''))
       else if bst_Phase (bs_Status bs) \<noteq> BackingStorePhaseReady then
         Err (PlainError (''NooBaa BackingStore '' @ go_quote name @ '' is not yet ready''))
       else pass)"

definition ValidatePlacementPolicy :: "lookups \<Rightarrow> PlacementPolicy option \<Rightarrow> string \<Rightarrow> check" where
  "ValidatePlacementPolicy k p nspace = (case p of
     None \<Rightarrow> pass
   | Some pp \<Rightarrow> for_all_r (\<lambda>tier. for_all_r (backing_store_ready k nspace) (tier_BackingStores tier)) (pp_Tiers pp))"

definition namespace_store_ready :: "lookups \<Rightarrow> string \<Rightarrow> string \<Rightarrow> check" where
  "namespace_store_ready k nspace name = bind_r (check_ns k name nspace) (\<lambda>p. case p of
     None \<Rightarrow> missing_ns name
   | Some ns \<Rightarrow>
       if IsArchiveNamespaceStore (Some ns) then
         Err (PersistentError ''InvalidNamespaceStore'' (''NamespaceStore '' @ go_quote name
           @ '' is an archive store and cannot be referenced in a namespacePolicy; use archivePolicy instead''))
       else ns_ready name ns)"

definition ValidateNamespacePolicy :: "lookups \<Rightarrow> NamespacePolicy option \<Rightarrow> string \<Rightarrow> check" where
  "ValidateNamespacePolicy k p nspace = (case p of
     None \<Rightarrow> pass
   | Some np \<Rightarrow> bind_r (GetBucketclassNamespaceStoreArray np) (for_all_r (namespace_store_ready k nspace)))"

section \<open>Correctness\<close>

text \<open>A bucket class that mixes policies as it may.\<close>

definition valid_vector :: "lookups \<Rightarrow> string \<Rightarrow> BucketClassSpec \<Rightarrow> bool" where
  "valid_vector k nspace sp \<longleftrightarrow> (\<forall>vp. bcs_VectorPolicy sp = Some vp \<longrightarrow>
     bcs_PlacementPolicy sp = None \<and> bcs_NamespacePolicy sp = None \<and> vp_Resource vp \<noteq> [] \<and>
     (\<exists>ns. get_NamespaceStore k (vp_Resource vp) nspace = Inr ns \<and> ns_Type ns = NSStoreTypeNSFS \<and>
       nst_Phase (ns_Status ns) = NamespaceStorePhaseReady))"

definition valid_archive :: "lookups \<Rightarrow> string \<Rightarrow> BucketClassSpec \<Rightarrow> bool" where
  "valid_archive k nspace sp \<longleftrightarrow> (\<forall>ap. bcs_ArchivePolicy sp = Some ap \<longrightarrow>
     bcs_PlacementPolicy sp \<noteq> None \<and> ap_DeepArchiveResource ap \<noteq> [] \<and>
     (\<exists>ns. get_NamespaceStore k (ap_DeepArchiveResource ap) nspace = Inr ns \<and> IsArchiveNamespaceStore (Some ns) \<and>
       nst_Phase (ns_Status ns) = NamespaceStorePhaseReady))"

definition valid_namespace_policy :: "lookups \<Rightarrow> string \<Rightarrow> NamespacePolicy \<Rightarrow> bool" where
  "valid_namespace_policy k nspace np \<longleftrightarrow> np_Type np = NSBucketClassTypeSingle \<or>
     (\<exists>names. GetBucketclassNamespaceStoreArray np = Ok names \<and>
       (\<forall>n \<in> set names. \<exists>ns. get_NamespaceStore k n nspace = Inr ns \<and> ns_Type ns \<noteq> NSStoreTypeNSFS))"

lemma ns_ready_pass [simp]: "ns_ready n ns = pass \<longleftrightarrow> nst_Phase (ns_Status ns) = NamespaceStorePhaseReady"
  by (auto simp: ns_ready_def)

lemma bind_check_get_pass:
  "c \<noteq> pass \<Longrightarrow>
     bind_r (check_get g) (\<lambda>p. case p of None \<Rightarrow> c | Some x \<Rightarrow> f x) = pass \<longleftrightarrow> (\<exists>x. g = Inr x \<and> f x = pass)"
  by (auto simp: bind_r_eq_Ok split: option.splits)

lemma missing_ns_not_pass [simp]: "missing_ns n \<noteq> pass"
  by (simp add: missing_ns_def)

lemma ValidateVectorPolicy_pass:
  "ValidateVectorPolicy k (bcs_VectorPolicy sp) (bcs_PlacementPolicy sp) (bcs_NamespacePolicy sp) nspace = pass \<longleftrightarrow>
     valid_vector k nspace sp"
  by (auto simp: ValidateVectorPolicy_def valid_vector_def bind_check_get_pass first_err_eq_pass
      split: option.splits)

lemma ValidateArchivePolicy_pass: "ValidateArchivePolicy k bc = pass \<longleftrightarrow> valid_archive k (bc_Namespace bc) (bc_Spec bc)"
  by (auto simp: ValidateArchivePolicy_def ValidateArchivePolicyNS_def valid_archive_def Let_def
      bind_check_get_pass IsArchiveNamespaceStore_def split: option.splits if_splits)

lemma ValidateNSFSSingleBC_pass:
  "bcs_NamespacePolicy (bc_Spec bc) = Some np \<Longrightarrow>
     ValidateNSFSSingleBC k bc = pass \<longleftrightarrow> valid_namespace_policy k (bc_Namespace bc) np"
  by (auto simp: ValidateNSFSSingleBC_def valid_namespace_policy_def bind_r_eq_Ok [of _ "for_all_r f" for f]
      for_all_r_pass bind_check_get_pass)

definition valid_bucket_class :: "lookups \<Rightarrow> parse_quantity \<Rightarrow> BucketClass \<Rightarrow> bool" where
  "valid_bucket_class k pq bc \<longleftrightarrow>
     valid_vector k (bc_Namespace bc) (bc_Spec bc) \<and> valid_archive k (bc_Namespace bc) (bc_Spec bc) \<and>
     (\<forall>np. bcs_NamespacePolicy (bc_Spec bc) = Some np \<longrightarrow> valid_namespace_policy k (bc_Namespace bc) np) \<and>
     (\<forall>pp. bcs_PlacementPolicy (bc_Spec bc) = Some pp \<longrightarrow> length (pp_Tiers pp) \<in> {1, 2}) \<and>
     (\<forall>q. bcs_Quota (bc_Spec bc) = Some q \<longrightarrow>
        ValidateQuotaConfig pq (bc_Name bc) (quota_MaxSize q) (quota_MaxObjects q) = pass)"

lemma ValidateBucketClass_iff: "ValidateBucketClass k pq (Some bc) = pass \<longleftrightarrow> valid_bucket_class k pq bc"
  by (auto simp: ValidateBucketClass_def Let_def first_err_eq_pass ValidateVectorPolicy_pass
      ValidateArchivePolicy_pass ValidateNSFSSingleBC_pass ValidateTiersNumber_def bc_ValidateQuotaConfig_def
      valid_bucket_class_def split: option.splits if_splits)

lemma backing_store_ready_pass:
  "backing_store_ready k nspace n = pass \<longleftrightarrow>
     (\<exists>bs. get_BackingStore k n nspace = Inr bs \<and> bst_Phase (bs_Status bs) = BackingStorePhaseReady)"
  by (auto simp: backing_store_ready_def bind_check_get_pass)

lemma backing_store_ready_Err:
  assumes "backing_store_ready k nspace n = Err e"
  shows "IsPersistentError e \<longleftrightarrow> check_bs k n nspace = Ok None \<or>
      (\<exists>bs. get_BackingStore k n nspace = Inr bs \<and> bst_Phase (bs_Status bs) = BackingStorePhaseRejected)"
proof (cases "check_bs k n nspace")
  case (Ok p)
  show ?thesis
  proof (cases p)
    case None
    with assms Ok have "IsPersistentError e" by (auto simp: backing_store_ready_def)
    with None Ok show ?thesis by simp
  next
    case (Some bs)
    then have g: "get_BackingStore k n nspace = Inr bs" using Ok by simp
    show ?thesis
      using assms by (cases "bst_Phase (bs_Status bs)") (auto simp: backing_store_ready_def g)
  qed
qed (use assms in \<open>simp_all add: backing_store_ready_def\<close>)

lemma namespace_store_ready_pass:
  "namespace_store_ready k nspace n = pass \<longleftrightarrow>
     (\<exists>ns. get_NamespaceStore k n nspace = Inr ns \<and> \<not> IsArchiveNamespaceStore (Some ns) \<and>
       nst_Phase (ns_Status ns) = NamespaceStorePhaseReady)"
  by (auto simp: namespace_store_ready_def bind_check_get_pass)

lemma ValidatePlacementPolicy_pass:
  "ValidatePlacementPolicy k (Some pp) nspace = pass \<longleftrightarrow>
     (\<forall>tier \<in> set (pp_Tiers pp). \<forall>n \<in> set (tier_BackingStores tier).
        \<exists>bs. get_BackingStore k n nspace = Inr bs \<and> bst_Phase (bs_Status bs) = BackingStorePhaseReady)"
  by (simp add: ValidatePlacementPolicy_def for_all_r_pass backing_store_ready_pass)

lemma ValidateImmutLabelChange_pass:
  "ValidateImmutLabelChange (Some new) (Some old) immuts = pass \<longleftrightarrow>
     (\<forall>l \<in> set immuts. map_get (om_Labels (bc_Meta new)) l = map_get (om_Labels (bc_Meta old)) l)"
  by (auto simp: ValidateImmutLabelChange_def for_all_r_pass)

section \<open>Properties\<close>


text \<open>
  A placement policy is accepted exactly when every backing store it names exists and is ready; a missing or
  rejected store is a persistent error, a store on its way is a temporary one.
\<close>

theorem placement_policy_ready:
  "(ValidatePlacementPolicy k (Some pp) nspace = pass \<longleftrightarrow>
     (\<forall>n \<in> (\<Union>tier \<in> set (pp_Tiers pp). set (tier_BackingStores tier)).
        \<exists>bs. get_BackingStore k n nspace = Inr bs \<and> bst_Phase (bs_Status bs) = BackingStorePhaseReady)) \<and>
   (\<forall>e. ValidatePlacementPolicy k (Some pp) nspace = Err e \<longrightarrow>
     (\<exists>n \<in> (\<Union>tier \<in> set (pp_Tiers pp). set (tier_BackingStores tier)).
        backing_store_ready k nspace n = Err e \<and>
        (IsPersistentError e \<longleftrightarrow> check_bs k n nspace = Ok None \<or>
           (\<exists>bs. get_BackingStore k n nspace = Inr bs \<and> bst_Phase (bs_Status bs) = BackingStorePhaseRejected))))"
proof (intro conjI allI impI)
  show "ValidatePlacementPolicy k (Some pp) nspace = pass \<longleftrightarrow>
     (\<forall>n \<in> (\<Union>tier \<in> set (pp_Tiers pp). set (tier_BackingStores tier)).
        \<exists>bs. get_BackingStore k n nspace = Inr bs \<and> bst_Phase (bs_Status bs) = BackingStorePhaseReady)"
    by (auto simp: ValidatePlacementPolicy_pass)
  fix e assume "ValidatePlacementPolicy k (Some pp) nspace = Err e"
  then obtain tier n where n: "tier \<in> set (pp_Tiers pp)" "n \<in> set (tier_BackingStores tier)"
      "backing_store_ready k nspace n = Err e"
    by (auto simp: ValidatePlacementPolicy_def dest!: for_all_r_Err_in)
  have "IsPersistentError e \<longleftrightarrow> check_bs k n nspace = Ok None \<or>
      (\<exists>bs. get_BackingStore k n nspace = Inr bs \<and> bst_Phase (bs_Status bs) = BackingStorePhaseRejected)"
    by (rule backing_store_ready_Err [OF n(3)])
  with n show "\<exists>n \<in> (\<Union>tier \<in> set (pp_Tiers pp). set (tier_BackingStores tier)). backing_store_ready k nspace n = Err e \<and>
        (IsPersistentError e \<longleftrightarrow> check_bs k n nspace = Ok None \<or>
           (\<exists>bs. get_BackingStore k n nspace = Inr bs \<and> bst_Phase (bs_Status bs) = BackingStorePhaseRejected))"
    by blast
qed

definition ex_lookups :: lookups where
  "ex_lookups = \<lparr>
     get_BackingStore = (\<lambda>n _. if n = ''store'' then Inr (ex_aws_bs ''data'') else Inl NotFoundError),
     get_NamespaceStore = (\<lambda>n _. if n = ''ns'' then Inr (ex_s3_ns ''https://h'')
       else if n = ''fs'' then Inr (ex_nsfs_ns '''') else Inl NotFoundError)\<rparr>"

theorem placement_policy_ready_witness:
  "ValidatePlacementPolicy ex_lookups (bcs_PlacementPolicy ex_bc_spec) ''noobaa'' = pass"
proof -
  have "ValidatePlacementPolicy ex_lookups (Some \<lparr>pp_Tiers = [\<lparr>tier_Placement = TierPlacementSpread,
       tier_BackingStores = [''store'']\<rparr>]\<rparr>) ''noobaa'' = pass"
    using placement_policy_ready [of ex_lookups "\<lparr>pp_Tiers = [\<lparr>tier_Placement = TierPlacementSpread,
       tier_BackingStores = [''store'']\<rparr>]\<rparr>" "''noobaa''"]
    by (simp add: ex_lookups_def ex_objects)
  then show ?thesis by (simp add: ex_bc_spec_def)
qed

end
