(* ===== verification/Slice_Util.thy ===== *)
theory Slice_Util
  imports Kube Examples
begin

text \<open>
  The slice and environment helpers of \<^verbatim>\<open>pkg/util/util.go\<close>: tolerations, environment
  variables, volume lists, annotations, unordered comparison, filtering, and the owner
  references a controller sets on the objects it creates.  A slice updated in place through a
  pointer is returned by the model.
\<close>

section \<open>Tolerations\<close>

definition IsTolerationSuperset :: "Toleration \<Rightarrow> Toleration \<Rightarrow> bool" where
  "IsTolerationSuperset ss t =
    (if ss = t then True
     else if tol_Key t \<noteq> tol_Key ss \<and> (tol_Key ss \<noteq> '''' \<or> tol_Operator ss \<noteq> TolerationOpExists) then False
     else if tol_Effect t \<noteq> tol_Effect ss \<and> tol_Effect ss \<noteq> TaintEffectEmpty then False
     else if tol_Effect ss = TaintEffectNoExecute \<and>
             (case tol_Seconds ss of
                None \<Rightarrow> False
              | Some (_, b) \<Rightarrow> (case tol_Seconds t of None \<Rightarrow> True | Some (_, a) \<Rightarrow> a > b)) then False
     else (case tol_Operator ss of
             TolerationOpEqual \<Rightarrow>
               (tol_Operator t = TolerationOpEqual \<or> tol_Operator t = TolerationOpEmpty) \<and> tol_Value t = tol_Value ss
           | TolerationOpEmpty \<Rightarrow>
               (tol_Operator t = TolerationOpEqual \<or> tol_Operator t = TolerationOpEmpty) \<and> tol_Value t = tol_Value ss
           | TolerationOpExists \<Rightarrow> True
           | TolerationOpOther _ \<Rightarrow> False))"

text \<open>
  The abstract meaning of a toleration: which taints it tolerates and for how long.  A taint has
  a key, a value and one of the three effects; \<open>None\<close> as a duration is forever.
\<close>

record Taint =
  taint_Key :: string
  taint_Value :: string
  taint_Effect :: TaintEffect

definition tolerates :: "Toleration \<Rightarrow> Taint \<Rightarrow> bool" where
  "tolerates tol tn \<longleftrightarrow>
     (tol_Effect tol = TaintEffectEmpty \<or> tol_Effect tol = taint_Effect tn) \<and>
     (case tol_Operator tol of
        TolerationOpExists \<Rightarrow> tol_Key tol = '''' \<or> tol_Key tol = taint_Key tn
      | TolerationOpEqual \<Rightarrow> tol_Key tol = taint_Key tn \<and> tol_Value tol = taint_Value tn
      | TolerationOpEmpty \<Rightarrow> tol_Key tol = taint_Key tn \<and> tol_Value tol = taint_Value tn
      | TolerationOpOther _ \<Rightarrow> False)"

text \<open>The API server only accepts an empty key together with the operator \<open>Exists\<close>.\<close>

definition valid_toleration :: "Toleration \<Rightarrow> bool" where
  "valid_toleration tol \<longleftrightarrow>
     (tol_Key tol = '''' \<longrightarrow> tol_Operator tol = TolerationOpExists) \<and>
     (\<forall>s. tol_Operator tol \<noteq> TolerationOpOther s)"

lemma superset_tolerates:
  assumes "IsTolerationSuperset ss t" "valid_toleration ss" "valid_toleration t" "tolerates t tn"
  shows "tolerates ss tn"
  using assms
  by (auto simp: IsTolerationSuperset_def tolerates_def valid_toleration_def
      split: TolerationOperator.splits if_splits)

section \<open>Environment variables, volumes and annotations\<close>

record EnvVar =
  env_Name :: string
  env_Value :: string

definition GetEnvVariable :: "EnvVar list \<Rightarrow> string \<Rightarrow> EnvVar option" where
  "GetEnvVariable env name = first_with env_Name name env"

text \<open>Setting the value through the pointer to the first variable of that name.\<close>

fun set_first_env :: "string \<Rightarrow> string \<Rightarrow> EnvVar list \<Rightarrow> EnvVar list" where
  "set_first_env name val [] = []"
| "set_first_env name val (e # es) =
     (if env_Name e = name then e\<lparr>env_Value := val\<rparr> # es else e # set_first_env name val es)"

fun remove_first_env :: "string \<Rightarrow> EnvVar list \<Rightarrow> EnvVar list" where
  "remove_first_env name [] = []"
| "remove_first_env name (e # es) = (if env_Name e = name then es else e # remove_first_env name es)"

text \<open>\<open>osenv\<close> is the environment of the process (\<^verbatim>\<open>os.LookupEnv\<close>).\<close>

definition ReflectEnvVariable :: "(string \<rightharpoonup> string) \<Rightarrow> EnvVar list \<Rightarrow> string \<Rightarrow> EnvVar list" where
  "ReflectEnvVariable osenv env name = (case osenv name of
     Some val \<Rightarrow>
       (case GetEnvVariable env name of
          Some _ \<Rightarrow> set_first_env name val env
        | None \<Rightarrow> env @ [\<lparr>env_Name = name, env_Value = val\<rparr>])
   | None \<Rightarrow> remove_first_env name env)"

text \<open>
  The three merge functions share one loop: the names of the first slice are collected, and the
  items of the second slice whose name is not among them are appended.
\<close>

definition merge_by :: "('a \<Rightarrow> string) \<Rightarrow> 'a list \<Rightarrow> 'a list \<Rightarrow> 'a list" where
  "merge_by key existing template =
     existing @ filter (\<lambda>item. \<not> (key item \<in> key ` set existing)) template"

definition MergeEnvArrays :: "EnvVar list \<Rightarrow> EnvVar list \<Rightarrow> EnvVar list" where
  "MergeEnvArrays envA envB = merge_by env_Name envA envB"

record Volume =
  vol_Name :: string
  vol_Source :: string

definition MergeVolumeList :: "Volume list \<Rightarrow> Volume list \<Rightarrow> Volume list" where
  "MergeVolumeList existing template = merge_by vol_Name existing template"

record VolumeMount =
  vm_Name :: string
  vm_MountPath :: string

definition MergeVolumeMountList :: "VolumeMount list \<Rightarrow> VolumeMount list \<Rightarrow> VolumeMount list" where
  "MergeVolumeMountList existing template = merge_by vm_Name existing template"

definition GetAnnotationValue :: "(string \<rightharpoonup> string) option \<Rightarrow> string \<Rightarrow> string \<times> bool" where
  "GetAnnotationValue annotations name = (case annotations of
     None \<Rightarrow> ('''', False)
   | Some m \<Rightarrow> (case m name of None \<Rightarrow> ('''', False) | Some v \<Rightarrow> (v, True)))"

text \<open>\<^verbatim>\<open>strings.ToLower\<close> on the ASCII letters.\<close>

definition to_lower :: "char \<Rightarrow> char" where
  "to_lower c = (let n = of_char c :: nat in if 65 \<le> n \<and> n \<le> 90 then char_of (n + 32) else c)"

definition IsRemoteObcAnnotation :: "(string \<rightharpoonup> string) option \<Rightarrow> bool" where
  "IsRemoteObcAnnotation annotations =
     (case GetAnnotationValue annotations ''remote-obc-creation'' of
        (v, exists) \<Rightarrow> exists \<and> map to_lower v = ''true'')"

text \<open>An interface: merging a template into an existing slice keyed by name.\<close>

locale keyed_merge =
  fixes key :: "'a \<Rightarrow> string"
    and merge :: "'a list \<Rightarrow> 'a list \<Rightarrow> 'a list"
  assumes merge_eq: "merge xs ys = xs @ filter (\<lambda>y. key y \<notin> key ` set xs) ys"
begin

lemma merge_keeps_existing: "first_with key n xs = Some x \<Longrightarrow> first_with key n (merge xs ys) = Some x"
  by (simp add: merge_eq first_with_append)

lemma merge_adds_missing:
  "first_with key n xs = None \<Longrightarrow> first_with key n (merge xs ys) = first_with key n ys"
  by (simp add: merge_eq first_with_append)
    (simp add: first_with_None [THEN iffD1] first_with_filter first_with_None)

lemma merge_lookup:
  "first_with key n (merge xs ys) =
     (case first_with key n xs of Some x \<Rightarrow> Some x | None \<Rightarrow> first_with key n ys)"
  by (simp add: merge_keeps_existing merge_adds_missing split: option.splits)

lemma merge_names: "key ` set (merge xs ys) = key ` set xs \<union> key ` set ys"
  by (auto simp: merge_eq)

lemma merge_idem: "merge (merge xs ys) ys = merge xs ys"
  by (auto simp: merge_eq filter_empty_conv)

end

interpretation env_merge: keyed_merge env_Name MergeEnvArrays
  by unfold_locales (simp add: MergeEnvArrays_def merge_by_def)

interpretation volume_merge: keyed_merge vol_Name MergeVolumeList
  by unfold_locales (simp add: MergeVolumeList_def merge_by_def)

interpretation mount_merge: keyed_merge vm_Name MergeVolumeMountList
  by unfold_locales (simp add: MergeVolumeMountList_def merge_by_def)

lemma first_with_set_first_env:
  "first_with env_Name n (set_first_env m v env) =
     (if n = m then map_option (\<lambda>e. e\<lparr>env_Value := v\<rparr>) (first_with env_Name n env)
      else first_with env_Name n env)"
  by (induction env) auto

lemma first_with_remove_first_env_other:
  "n \<noteq> m \<Longrightarrow> first_with env_Name n (remove_first_env m env) = first_with env_Name n env"
  by (induction env) auto

lemma remove_first_env_distinct:
  "distinct (map env_Name env) \<Longrightarrow> first_with env_Name m (remove_first_env m env) = None"
  by (induction env) (auto simp: first_with_None)

section \<open>Slices\<close>

definition IsStringArrayUnorderedEqual :: "string list \<Rightarrow> string list \<Rightarrow> bool" where
  "IsStringArrayUnorderedEqual a b =
     (if length a \<noteq> length b then False
      else list_all (\<lambda>item. item \<in> set a) b)"

fun FilterSlice :: "'a list \<Rightarrow> ('a \<Rightarrow> bool) \<Rightarrow> 'a list" where
  "FilterSlice [] f = []"
| "FilterSlice (v # vs) f = (if f v then v # FilterSlice vs f else FilterSlice vs f)"

lemma FilterSlice_eq: "FilterSlice xs f = filter f xs"
  by (induction xs) auto

lemma unordered_equal_distinct:
  assumes "distinct a" "distinct b"
  shows "IsStringArrayUnorderedEqual a b \<longleftrightarrow> set a = set b"
proof
  assume "IsStringArrayUnorderedEqual a b"
  then have len: "length a = length b" and sub: "set b \<subseteq> set a"
    by (auto simp: IsStringArrayUnorderedEqual_def list_all_iff split: if_splits)
  have "card (set b) = card (set a)"
    using len assms by (simp add: distinct_card)
  with sub show "set a = set b"
    by (metis card_subset_eq finite_set)
next
  assume eq: "set a = set b"
  then have "length a = length b"
    using assms by (metis distinct_card)
  with eq show "IsStringArrayUnorderedEqual a b"
    by (simp add: IsStringArrayUnorderedEqual_def list_all_iff)
qed

section \<open>Owner references\<close>

text \<open>
  \<open>schema.ParseGroupVersion\<close> of the API machinery is an argument (\<open>parse_gv\<close>): the group of
  an API version, or an error.
\<close>

definition referSameObject :: "(string \<Rightarrow> string option) \<Rightarrow> OwnerReference \<Rightarrow> OwnerReference \<Rightarrow> bool" where
  "referSameObject parse_gv a b = (case parse_gv (or_APIVersion a) of
     None \<Rightarrow> False
   | Some ag \<Rightarrow>
       (case parse_gv (or_APIVersion b) of
          None \<Rightarrow> False
        | Some bg \<Rightarrow> ag = bg \<and> or_Kind a = or_Kind b \<and> or_Name a = or_Name b))"

fun indexOwnerRef :: "(string \<Rightarrow> string option) \<Rightarrow> OwnerReference list \<Rightarrow> OwnerReference \<Rightarrow> nat option" where
  "indexOwnerRef gv [] ref = None"
| "indexOwnerRef gv (r # rs) ref =
     (if referSameObject gv r ref then Some 0 else map_option Suc (indexOwnerRef gv rs ref))"

definition validateOwner :: "ObjectMeta \<Rightarrow> ObjectMeta \<Rightarrow> check" where
  "validateOwner owner obj =
     (let ownerNs = om_Namespace owner in
      if ownerNs \<noteq> '''' then
        (let objNs = om_Namespace obj in
         if objNs = '''' then
           Err (PlainError (''cluster-scoped resource must not have a namespace-scoped owner, owner''
             @ [CHR 0x27] @ ''s namespace '' @ ownerNs))
         else if ownerNs \<noteq> objNs then
           Err (PlainError (''cross-namespace owner references are disallowed, owner'' @ [CHR 0x27]
             @ ''s namespace '' @ ownerNs @ '', object'' @ [CHR 0x27] @ ''s namespace '' @ objNs))
         else pass)
      else pass)"

text \<open>
  \<open>SetOwnerReference\<close>: \<open>gvk\<close> is what \<open>apiutil.GVKForObject\<close> returns for the owner (API
  version and kind).  The error of the already-owned branch is \<open>AlreadyOwnedError\<close> of the
  controller runtime, which the callers recognise.
\<close>

definition AlreadyOwnedError :: go_error where
  "AlreadyOwnedError = LibraryError ''AlreadyOwnedError''"

definition SetOwnerReference ::
    "(string \<Rightarrow> string option) \<Rightarrow> (string \<times> string) result \<Rightarrow> ObjectMeta \<Rightarrow> ObjectMeta \<Rightarrow> ObjectMeta result" where
  "SetOwnerReference parse_gv gvk owner dependent =
     bind_r (validateOwner owner dependent) (\<lambda>_.
     bind_r gvk (\<lambda>(apiVersion, kind).
       let ref = \<lparr>or_APIVersion = apiVersion, or_Kind = kind, or_Name = om_Name owner,
                  or_UID = om_UID owner, or_BlockOwnerDeletion = True\<rparr>
       in case indexOwnerRef parse_gv (om_OwnerReferences dependent) ref of
            None \<Rightarrow> Ok (dependent\<lparr>om_OwnerReferences := om_OwnerReferences dependent @ [ref]\<rparr>)
          | Some _ \<Rightarrow> Err AlreadyOwnedError))"

fun IsOwnedByNoobaa :: "OwnerReference list \<Rightarrow> bool" where
  "IsOwnedByNoobaa [] = False"
| "IsOwnedByNoobaa (r # rs) = (if Contains_str (or_APIVersion r) ''noobaa'' then True else IsOwnedByNoobaa rs)"

lemma indexOwnerRef_None:
  "indexOwnerRef gv rs ref = None \<longleftrightarrow> (\<forall>r \<in> set rs. \<not> referSameObject gv r ref)"
  by (induction rs) auto

lemma indexOwnerRef_append:
  "indexOwnerRef gv rs ref = None \<Longrightarrow> referSameObject gv ref' ref \<Longrightarrow>
   indexOwnerRef gv (rs @ [ref']) ref = Some (length rs)"
  by (induction rs) (auto split: if_splits)

lemma validateOwner_pass:
  "validateOwner owner obj = pass \<longleftrightarrow> om_Namespace owner = '''' \<or> om_Namespace owner = om_Namespace obj"
  by (auto simp: validateOwner_def Let_def)

lemma SetOwnerReference_twice:
  assumes "SetOwnerReference gv (Ok (av, kind)) owner dep = Ok dep'" and "gv av \<noteq> None"
  shows "SetOwnerReference gv (Ok (av, kind)) owner dep' = Err AlreadyOwnedError"
proof -
  define ref where "ref = \<lparr>or_APIVersion = av, or_Kind = kind, or_Name = om_Name owner,
    or_UID = om_UID owner, or_BlockOwnerDeletion = True\<rparr>"
  from assms(1) have v: "validateOwner owner dep = pass"
    and none: "indexOwnerRef gv (om_OwnerReferences dep) ref = None"
    and dep': "dep' = dep\<lparr>om_OwnerReferences := om_OwnerReferences dep @ [ref]\<rparr>"
    by (auto simp: SetOwnerReference_def Let_def ref_def bind_r_eq_Ok split: option.splits)
  have "referSameObject gv ref ref"
    using assms(2) by (auto simp: referSameObject_def ref_def)
  with none have "indexOwnerRef gv (om_OwnerReferences dep') ref \<noteq> None"
    by (simp add: dep' indexOwnerRef_append)
  moreover have "validateOwner owner dep' = pass"
    using v by (simp add: dep' validateOwner_pass)
  ultimately show ?thesis
    by (auto simp: SetOwnerReference_def ref_def [symmetric])
qed

section \<open>Properties\<close>

text \<open>
  The superset test is sound for the meaning of tolerations: whatever taint the smaller toleration
  tolerates, the larger one tolerates too.
\<close>

theorem toleration_superset_sound:
  assumes "IsTolerationSuperset ss t" "valid_toleration ss" "valid_toleration t" "tolerates t tn"
  shows "tolerates ss tn"
  using assms by (rule superset_tolerates)

definition ex_tol :: "string \<Rightarrow> TolerationOperator \<Rightarrow> Toleration" where
  "ex_tol k op' = \<lparr>tol_Key = k, tol_Operator = op', tol_Value = ''v'', tol_Effect = TaintEffectEmpty, tol_Seconds = None\<rparr>"

theorem toleration_superset_sound_witness:
  "tolerates (ex_tol '''' TolerationOpExists) \<lparr>taint_Key = ''k'', taint_Value = ''v'', taint_Effect = TaintEffectNoSchedule\<rparr>"
  by (rule toleration_superset_sound [where t = "ex_tol ''k'' TolerationOpEqual"])
    (simp_all add: ex_tol_def IsTolerationSuperset_def valid_toleration_def tolerates_def)

text \<open>
  Merging a template into the environment of a container: every variable of the container keeps its value,
  the missing ones come from the template, and merging again changes nothing.
\<close>

theorem env_merge_lookup:
  "GetEnvVariable (MergeEnvArrays a b) n = (case GetEnvVariable a n of Some e \<Rightarrow> Some e | None \<Rightarrow> GetEnvVariable b n) \<and>
   MergeEnvArrays (MergeEnvArrays a b) b = MergeEnvArrays a b"
  unfolding GetEnvVariable_def using env_merge.merge_lookup env_merge.merge_idem by blast

text \<open>
  After reflecting a variable of the process environment the container has the same value for it, and
  for an unset variable the first occurrence is gone; other variables are untouched.
\<close>

theorem reflect_env_variable:
  "(case osenv name of
      Some v \<Rightarrow> map_option env_Value (GetEnvVariable (ReflectEnvVariable osenv env name) name) = Some v
    | None \<Rightarrow> length (filter (\<lambda>e. env_Name e = name) (ReflectEnvVariable osenv env name)) =
                length (filter (\<lambda>e. env_Name e = name) env) - 1) \<and>
   filter (\<lambda>e. env_Name e \<noteq> name) (ReflectEnvVariable osenv env name) = filter (\<lambda>e. env_Name e \<noteq> name) env"
proof -
  have set: "filter (\<lambda>e. env_Name e \<noteq> name) (set_first_env name v env) = filter (\<lambda>e. env_Name e \<noteq> name) env" for v
    by (induction env) auto
  have rem: "filter (\<lambda>e. env_Name e \<noteq> name) (remove_first_env name env) = filter (\<lambda>e. env_Name e \<noteq> name) env"
    "length (filter (\<lambda>e. env_Name e = name) (remove_first_env name env)) = length (filter (\<lambda>e. env_Name e = name) env) - 1"
    by (induction env) auto
  show ?thesis
    by (auto simp: ReflectEnvVariable_def GetEnvVariable_def first_with_set_first_env first_with_append
        set rem split: option.splits)
qed

text \<open>
  On slices without repetitions the unordered comparison is equality of the sets of members.
\<close>

theorem unordered_equal_on_distinct:
  assumes "distinct a" "distinct b"
  shows "IsStringArrayUnorderedEqual a b \<longleftrightarrow> set a = set b"
  using assms by (rule unordered_equal_distinct)

theorem unordered_equal_on_distinct_witness:
  "IsStringArrayUnorderedEqual [''a'', ''b''] [''b'', ''a'']"
  by (subst unordered_equal_on_distinct) auto

text \<open>
  An object gets an owner once: the reference that is set names the owner, the namespaces agree, and a second
  attempt reports that the object is owned already.
\<close>

theorem owner_reference_once:
  assumes "SetOwnerReference gv (Ok (av, kind)) owner dep = Ok dep'" and "gv av \<noteq> None"
  shows "or_Name (last (om_OwnerReferences dep')) = om_Name owner \<and> or_UID (last (om_OwnerReferences dep')) = om_UID owner
       \<and> butlast (om_OwnerReferences dep') = om_OwnerReferences dep
       \<and> (om_Namespace owner = '''' \<or> om_Namespace owner = om_Namespace dep)
       \<and> SetOwnerReference gv (Ok (av, kind)) owner dep' = Err AlreadyOwnedError"
  using SetOwnerReference_twice [OF assms] assms(1)
  by (auto simp: SetOwnerReference_def Let_def bind_r_eq_Ok validateOwner_pass split: option.splits)

theorem owner_reference_once_witness:
  "\<exists>dep'. SetOwnerReference (\<lambda>v. Some v) (Ok (''v1'', ''NooBaa'')) (ex_meta ''noobaa'') (ex_meta ''dep'') = Ok dep' \<and>
     or_Name (last (om_OwnerReferences dep')) = ''noobaa''"
proof -
  obtain dep' where d: "SetOwnerReference (\<lambda>v. Some v) (Ok (''v1'', ''NooBaa'')) (ex_meta ''noobaa'') (ex_meta ''dep'') = Ok dep'"
    by (simp add: SetOwnerReference_def validateOwner_def ex_meta_def)
  have "or_Name (last (om_OwnerReferences dep')) = om_Name (ex_meta ''noobaa'')"
    using owner_reference_once [OF d] by simp
  with d show ?thesis by (auto simp: ex_meta_def)
qed

end
