(* ===== verification/Tls.thy ===== *)
theory Tls
  imports Slice_Util Nb_Types
begin

text \<open>
  The TLS settings of the system: \<^verbatim>\<open>pkg/util/tls.go\<close> (cipher and group tables,
  validation, translation to the formats of OpenSSL and of Go) and
  \<open>applyAPIServerTLS\<close> of \<^verbatim>\<open>pkg/admission/server.go\<close>.
  The environment variable that switches the feature off is a Boolean argument.
\<close>

section \<open>Tables\<close>

type_synonym uint16 = "16 word"

record IanaCipherEntry =
  CipherGoID :: uint16
  CipherOpenSSLName :: string

definition iana_table :: "(string \<times> IanaCipherEntry) list" where
  "iana_table = map (\<lambda>(n, i, o'). (n, \<lparr>CipherGoID = i, CipherOpenSSLName = o'\<rparr>)) [
     (''TLS_AES_128_GCM_SHA256'', 4865, ''TLS_AES_128_GCM_SHA256''),
     (''TLS_AES_256_GCM_SHA384'', 4866, ''TLS_AES_256_GCM_SHA384''),
     (''TLS_CHACHA20_POLY1305_SHA256'', 4867, ''TLS_CHACHA20_POLY1305_SHA256''),
     (''TLS_ECDHE_ECDSA_WITH_AES_128_GCM_SHA256'', 49195, ''ECDHE-ECDSA-AES128-GCM-SHA256''),
     (''TLS_ECDHE_ECDSA_WITH_AES_256_GCM_SHA384'', 49196, ''ECDHE-ECDSA-AES256-GCM-SHA384''),
     (''TLS_ECDHE_ECDSA_WITH_CHACHA20_POLY1305_SHA256'', 52393, ''ECDHE-ECDSA-CHACHA20-POLY1305''),
     (''TLS_ECDHE_RSA_WITH_AES_128_GCM_SHA256'', 49199, ''ECDHE-RSA-AES128-GCM-SHA256''),
     (''TLS_ECDHE_RSA_WITH_AES_256_GCM_SHA384'', 49200, ''ECDHE-RSA-AES256-GCM-SHA384''),
     (''TLS_ECDHE_RSA_WITH_CHACHA20_POLY1305_SHA256'', 52392, ''ECDHE-RSA-CHACHA20-POLY1305'')]"

definition IanaCipherMap :: "string \<Rightarrow> IanaCipherEntry option" where
  "IanaCipherMap = map_of iana_table"

record TLSGroupEntry =
  CurveID :: uint16
  InDefaultClients :: bool

fun TLSGroupMap :: "TLSGroup \<Rightarrow> TLSGroupEntry option" where
  "TLSGroupMap TLSGroupX25519 = Some \<lparr>CurveID = 29, InDefaultClients = True\<rparr>"
| "TLSGroupMap TLSGroupSecp256r1 = Some \<lparr>CurveID = 23, InDefaultClients = True\<rparr>"
| "TLSGroupMap TLSGroupSecp384r1 = Some \<lparr>CurveID = 24, InDefaultClients = True\<rparr>"
| "TLSGroupMap TLSGroupSecp521r1 = Some \<lparr>CurveID = 25, InDefaultClients = True\<rparr>"
| "TLSGroupMap TLSGroupX25519MLKEM768 = Some \<lparr>CurveID = 4588, InDefaultClients = True\<rparr>"
| "TLSGroupMap TLSGroupSecP256r1MLKEM768 = Some \<lparr>CurveID = 4587, InDefaultClients = False\<rparr>"
| "TLSGroupMap TLSGroupSecP384r1MLKEM1024 = Some \<lparr>CurveID = 4589, InDefaultClients = False\<rparr>"
| "TLSGroupMap (TLSGroupOther _) = None"

section \<open>Translation\<close>

definition openssl_names :: "string list \<Rightarrow> string list" where
  "openssl_names names = List.map_filter (\<lambda>n. map_option CipherOpenSSLName (IanaCipherMap n)) names"

definition MapCiphersToOpenSSL :: "string list \<Rightarrow> string" where
  "MapCiphersToOpenSSL names = Join (openssl_names names) '':''"

definition MapCipherSuites :: "string list \<Rightarrow> uint16 list" where
  "MapCipherSuites names = List.map_filter (\<lambda>n. map_option CipherGoID (IanaCipherMap n)) names"

definition MapGroupPreferences :: "TLSGroup list \<Rightarrow> uint16 list" where
  "MapGroupPreferences groups = List.map_filter (\<lambda>g. map_option CurveID (TLSGroupMap g)) groups"

definition no_tls :: TLSSecuritySpec where
  "no_tls = \<lparr>tls_TLSMinVersion = None, tls_TLSCiphers = [], tls_TLSGroups = []\<rparr>"

text \<open>The environment variables that carry the settings, updated in place.\<close>

definition tls_env_value :: "TLSSecuritySpec \<Rightarrow> EnvVar \<Rightarrow> EnvVar" where
  "tls_env_value s e =
     (if env_Name e = ''TLS_MIN_VERSION'' then
        e\<lparr>env_Value := (case tls_TLSMinVersion s of Some v \<Rightarrow> tls_version_string v | None \<Rightarrow> '''')\<rparr>
      else if env_Name e = ''TLS_CIPHERS'' then e\<lparr>env_Value := MapCiphersToOpenSSL (tls_TLSCiphers s)\<rparr>
      else if env_Name e = ''TLS_GROUPS'' then
        e\<lparr>env_Value := Join (map tls_group_string (tls_TLSGroups s)) '':''\<rparr>
      else e)"

definition ApplyTLSEnvVars :: "bool \<Rightarrow> EnvVar list \<Rightarrow> TLSSecuritySpec option \<Rightarrow> EnvVar list" where
  "ApplyTLSEnvVars disabled env tlsSec =
     (let s = (if disabled then no_tls else (case tlsSec of Some s \<Rightarrow> s | None \<Rightarrow> no_tls))
      in map (tls_env_value s) env)"

section \<open>Validation\<close>

definition version_errs :: "TLSProtocolVersion option \<Rightarrow> string list" where
  "version_errs v = (case v of
     Some (VersionTLSOther s) \<Rightarrow> [''tlsMinVersion '' @ go_quote s @ '' is not valid; allowed values: ''
       @ go_quote (tls_version_string VersionTLS12) @ '', '' @ go_quote (tls_version_string VersionTLS13)]
   | _ \<Rightarrow> [])"

definition cipher_errs :: "string list \<Rightarrow> string list" where
  "cipher_errs cs =
     map (\<lambda>c. ''tlsCiphers: '' @ go_quote c @ '' is not a recognized cipher suite'')
       (filter (\<lambda>c. IanaCipherMap c = None) cs)"

fun group_errs :: "TLSGroup list \<Rightarrow> string list \<times> bool \<Rightarrow> string list \<times> bool" where
  "group_errs [] st = st"
| "group_errs (g # gs) (errs, found) = (case TLSGroupMap g of
     None \<Rightarrow> group_errs gs (errs @ [''tlsGroups: '' @ go_quote (tls_group_string g) @ '' is not a recognized group''], found)
   | Some entry \<Rightarrow> group_errs gs (errs, if InDefaultClients entry then True else found))"

definition no_default_group_msg :: string where
  "no_default_group_msg =
     ''tlsGroups must include at least one group with InDefaultClients=true (e.g. ''
       @ Join (map (go_quote \<circ> tls_group_string)
           [TLSGroupX25519, TLSGroupSecp256r1, TLSGroupSecp384r1, TLSGroupSecp521r1, TLSGroupX25519MLKEM768]) '', ''
       @ '') '' @ [byte 226, byte 128, byte 148] @ '' SecP256r1MLKEM768 and SecP384r1MLKEM1024 ''
       @ ''are absent from the Node.js and Go current default group lists, so ''
       @ ''using them exclusively breaks all TLS connections''"

definition ValidateTLSSpec :: "bool \<Rightarrow> TLSSecuritySpec option \<Rightarrow> check" where
  "ValidateTLSSpec disabled p = (case p of
     None \<Rightarrow> pass
   | Some spec \<Rightarrow>
       if disabled then pass
       else
         (let (errs, found) =
                group_errs (tls_TLSGroups spec)
                  (version_errs (tls_TLSMinVersion spec) @ cipher_errs (tls_TLSCiphers spec), False);
              errs = (if 0 < length (tls_TLSGroups spec) \<and> \<not> found then errs @ [no_default_group_msg] else errs)
          in if length errs = 0 then pass else Err (PlainError (Join errs ''; ''))))"

section \<open>The admission server\<close>

record tls_Config =
  tc_MinVersion :: uint16
  tc_CipherSuites :: "uint16 list"
  tc_CurvePreferences :: "uint16 list"

text \<open>\<open>noobaa\<close> is the system resource when \<open>KubeCheckQuiet\<close> finds it.\<close>

definition applyAPIServerTLS :: "bool \<Rightarrow> NooBaa option \<Rightarrow> tls_Config \<Rightarrow> tls_Config" where
  "applyAPIServerTLS disabled noobaa cfg =
     (if disabled then cfg
      else case noobaa of
        None \<Rightarrow> cfg
      | Some nb \<Rightarrow>
          (case nbs_APIServerSecurity (nb_Spec nb) of
             None \<Rightarrow> cfg
           | Some spec \<Rightarrow>
               if ValidateTLSSpec disabled (Some spec) \<noteq> pass then cfg
               else
                 (let c1 = (case tls_TLSMinVersion spec of
                        Some VersionTLS12 \<Rightarrow> cfg\<lparr>tc_MinVersion := 0x0303\<rparr>
                      | Some VersionTLS13 \<Rightarrow> cfg\<lparr>tc_MinVersion := 0x0304\<rparr>
                      | _ \<Rightarrow> cfg);
                      c2 = (if 0 < length (tls_TLSCiphers spec)
                        then c1\<lparr>tc_CipherSuites := MapCipherSuites (tls_TLSCiphers spec)\<rparr> else c1)
                  in if 0 < length (tls_TLSGroups spec)
                     then c2\<lparr>tc_CurvePreferences := MapGroupPreferences (tls_TLSGroups spec)\<rparr> else c2)))"

section \<open>Correctness\<close>

lemma group_errs_eq:
  "group_errs gs (errs, found) =
     (errs @ map (\<lambda>g. ''tlsGroups: '' @ go_quote (tls_group_string g) @ '' is not a recognized group'')
        (filter (\<lambda>g. TLSGroupMap g = None) gs),
      found \<or> (\<exists>g \<in> set gs. \<exists>e. TLSGroupMap g = Some e \<and> InDefaultClients e))"
  by (induction gs arbitrary: errs found) (auto split: option.splits)

definition valid_tls :: "TLSSecuritySpec \<Rightarrow> bool" where
  "valid_tls s \<longleftrightarrow>
     (\<forall>v. tls_TLSMinVersion s = Some v \<longrightarrow> v = VersionTLS12 \<or> v = VersionTLS13) \<and>
     set (tls_TLSCiphers s) \<subseteq> dom IanaCipherMap \<and> set (tls_TLSGroups s) \<subseteq> dom TLSGroupMap \<and>
     (tls_TLSGroups s \<noteq> [] \<longrightarrow> (\<exists>g \<in> set (tls_TLSGroups s). \<exists>e. TLSGroupMap g = Some e \<and> InDefaultClients e))"

lemma version_errs_Nil: "version_errs v = [] \<longleftrightarrow> (\<forall>w. v = Some w \<longrightarrow> w = VersionTLS12 \<or> w = VersionTLS13)"
  by (auto simp: version_errs_def split: option.splits TLSProtocolVersion.splits)

lemma cipher_errs_Nil: "cipher_errs cs = [] \<longleftrightarrow> set cs \<subseteq> dom IanaCipherMap"
  by (auto simp: cipher_errs_def filter_empty_conv)

lemma group_filter_Nil: "filter (\<lambda>g. TLSGroupMap g = None) gs = [] \<longleftrightarrow> set gs \<subseteq> dom TLSGroupMap"
  by (auto simp: filter_empty_conv)

lemma ValidateTLSSpec_iff: "ValidateTLSSpec False (Some s) = pass \<longleftrightarrow> valid_tls s"
  by (auto simp: ValidateTLSSpec_def Let_def group_errs_eq version_errs_Nil cipher_errs_Nil group_filter_Nil
      valid_tls_def)

lemma map_filter_total:
  "(\<And>x. x \<in> set xs \<Longrightarrow> f x \<noteq> None) \<Longrightarrow> List.map_filter f xs = map (the \<circ> f) xs"
  by (induction xs) (auto simp: List.map_filter_def)

lemma MapCipherSuites_total:
  "set cs \<subseteq> dom IanaCipherMap \<Longrightarrow> MapCipherSuites cs = map (\<lambda>c. CipherGoID (the (IanaCipherMap c))) cs"
  unfolding MapCipherSuites_def by (subst map_filter_total) (auto simp: option.map_sel)

lemma openssl_names_total:
  "set cs \<subseteq> dom IanaCipherMap \<Longrightarrow> openssl_names cs = map (\<lambda>c. CipherOpenSSLName (the (IanaCipherMap c))) cs"
  unfolding openssl_names_def by (subst map_filter_total) (auto simp: option.map_sel)

lemma MapGroupPreferences_total:
  "set gs \<subseteq> dom TLSGroupMap \<Longrightarrow> MapGroupPreferences gs = map (\<lambda>g. CurveID (the (TLSGroupMap g))) gs"
  unfolding MapGroupPreferences_def by (subst map_filter_total) (auto simp: option.map_sel)

text \<open>The table is a one-to-one translation, and no OpenSSL name contains the separator of the cipher list.\<close>

lemma iana_table_distinct:
  "distinct (map (CipherGoID \<circ> snd) iana_table)" "distinct (map (CipherOpenSSLName \<circ> snd) iana_table)"
  "distinct (map fst iana_table)"
  by (simp_all add: iana_table_def)

lemma iana_table_no_colon: "(n, e) \<in> set iana_table \<Longrightarrow> CHR '':'' \<notin> set (CipherOpenSSLName e)"
  by (auto simp: iana_table_def)

lemma IanaCipherMap_in: "IanaCipherMap n = Some e \<longleftrightarrow> (n, e) \<in> set iana_table"
  unfolding IanaCipherMap_def using iana_table_distinct(3) by simp

lemma IanaCipherMap_inj:
  assumes "IanaCipherMap m = Some d" "IanaCipherMap n = Some e"
    and "CipherGoID d = CipherGoID e \<or> CipherOpenSSLName d = CipherOpenSSLName e"
  shows "m = n"
proof -
  have "inj_on (CipherGoID \<circ> snd) (set iana_table)" "inj_on (CipherOpenSSLName \<circ> snd) (set iana_table)"
    using iana_table_distinct(1,2) by (simp_all only: distinct_map)
  moreover have "(m, d) \<in> set iana_table" "(n, e) \<in> set iana_table"
    using assms(1,2) by (simp_all add: IanaCipherMap_in)
  ultimately have "(m, d) = (n, e)"
    using assms(3) by (metis comp_apply inj_onD snd_conv)
  then show ?thesis by simp
qed

lemma openssl_names_no_colon: "x \<in> set (openssl_names cs) \<Longrightarrow> CHR '':'' \<notin> set x"
  by (induction cs)
    (auto simp: openssl_names_def List.map_filter_simps IanaCipherMap_in dest: iana_table_no_colon
      split: option.splits)

lemma Split_MapCiphersToOpenSSL:
  assumes "set cs \<subseteq> dom IanaCipherMap" "cs \<noteq> []"
  shows "Split (MapCiphersToOpenSSL cs) (CHR '':'') = map (\<lambda>c. CipherOpenSSLName (the (IanaCipherMap c))) cs"
proof -
  have "openssl_names cs \<noteq> []" using assms by (simp add: openssl_names_total)
  then show ?thesis
    unfolding MapCiphersToOpenSSL_def openssl_names_total [OF assms(1), symmetric]
    by (intro Split_Join openssl_names_no_colon)
qed

text \<open>
  Applying the settings touches the three variables only, is idempotent, and clears them when there is no
  specification or the feature is off.
\<close>

lemma tls_env_value_Name [simp]: "env_Name (tls_env_value s e) = env_Name e"
  by (simp add: tls_env_value_def)

lemma tls_env_value_idem [simp]: "tls_env_value s (tls_env_value t e) = tls_env_value s e"
  by (auto simp: tls_env_value_def)

lemma ApplyTLSEnvVars_overwrites: "ApplyTLSEnvVars d (ApplyTLSEnvVars d' env q) p = ApplyTLSEnvVars d env p"
  by (simp add: ApplyTLSEnvVars_def Let_def)

lemma first_with_map_same_key:
  "(\<And>x. key (f x) = key x) \<Longrightarrow> first_with key n (map f xs) = map_option f (first_with key n xs)"
  by (induction xs) auto

lemma GetEnvVariable_ApplyTLSEnvVars:
  "GetEnvVariable (ApplyTLSEnvVars d env p) n =
     map_option (tls_env_value (if d then no_tls else case p of Some s \<Rightarrow> s | None \<Rightarrow> no_tls)) (GetEnvVariable env n)"
  unfolding ApplyTLSEnvVars_def GetEnvVariable_def Let_def by (rule first_with_map_same_key) simp

section \<open>Properties\<close>

text \<open>
  With the feature on, a TLS specification is accepted exactly when its minimum version is TLS 1.2 or 1.3,
  every cipher and every group is known, and a non-empty group list has a group that default clients offer.
\<close>

theorem tls_validation: "ValidateTLSSpec False (Some s) = pass \<longleftrightarrow> valid_tls s"
  by (rule ValidateTLSSpec_iff)

text \<open>
  For an accepted specification the translations lose nothing: the admission server gets one suite
  and one curve per entry, in order; splitting the cipher variable of the endpoints at its separator
  gives the OpenSSL name of every cipher, in order; and different ciphers have different names and numbers.
\<close>

theorem tls_translation_lossless:
  assumes "ValidateTLSSpec False (Some s) = pass" and "tls_TLSCiphers s \<noteq> []"
  shows "Split (MapCiphersToOpenSSL (tls_TLSCiphers s)) (CHR '':'') =
           map (\<lambda>c. CipherOpenSSLName (the (IanaCipherMap c))) (tls_TLSCiphers s)
       \<and> MapCipherSuites (tls_TLSCiphers s) = map (\<lambda>c. CipherGoID (the (IanaCipherMap c))) (tls_TLSCiphers s)
       \<and> MapGroupPreferences (tls_TLSGroups s) = map (\<lambda>g. CurveID (the (TLSGroupMap g))) (tls_TLSGroups s)
       \<and> inj_on (\<lambda>c. CipherOpenSSLName (the (IanaCipherMap c))) (set (tls_TLSCiphers s))
       \<and> inj_on (\<lambda>c. CipherGoID (the (IanaCipherMap c))) (set (tls_TLSCiphers s))"
proof -
  have v: "set (tls_TLSCiphers s) \<subseteq> dom IanaCipherMap" "set (tls_TLSGroups s) \<subseteq> dom TLSGroupMap"
    using assms(1) by (auto simp: ValidateTLSSpec_iff valid_tls_def)
  have "inj_on (\<lambda>c. CipherOpenSSLName (the (IanaCipherMap c))) (dom IanaCipherMap)"
    "inj_on (\<lambda>c. CipherGoID (the (IanaCipherMap c))) (dom IanaCipherMap)"
    by (auto simp: inj_on_def dest: IanaCipherMap_inj)
  with v assms(2) show ?thesis
    by (auto simp: Split_MapCiphersToOpenSSL MapCipherSuites_total MapGroupPreferences_total intro: inj_on_subset)
qed

definition ex_tls :: TLSSecuritySpec where
  "ex_tls = \<lparr>tls_TLSMinVersion = Some VersionTLS12,
     tls_TLSCiphers = [''TLS_AES_128_GCM_SHA256'', ''TLS_ECDHE_RSA_WITH_AES_128_GCM_SHA256''],
     tls_TLSGroups = [TLSGroupSecP256r1MLKEM768, TLSGroupX25519]\<rparr>"

theorem tls_translation_lossless_witness:
  "Split (MapCiphersToOpenSSL (tls_TLSCiphers ex_tls)) (CHR '':'') =
     [''TLS_AES_128_GCM_SHA256'', ''ECDHE-RSA-AES128-GCM-SHA256'']"
proof -
  have "ValidateTLSSpec False (Some ex_tls) = pass" "tls_TLSCiphers ex_tls \<noteq> []" by code_simp+
  from tls_translation_lossless [OF this] show ?thesis
    by (simp add: ex_tls_def IanaCipherMap_def iana_table_def)
qed

text \<open>
  The admission server keeps its configuration when the feature is off, when there is no system resource
  or no specification, and when the specification is not acceptable; otherwise exactly the fields that the
  specification sets are replaced.
\<close>

theorem admission_server_tls:
  "applyAPIServerTLS True noobaa cfg = cfg \<and> applyAPIServerTLS False None cfg = cfg \<and>
   applyAPIServerTLS False (Some nb) cfg =
     (case nbs_APIServerSecurity (nb_Spec nb) of
        None \<Rightarrow> cfg
      | Some s \<Rightarrow> if \<not> valid_tls s then cfg else
          \<lparr>tc_MinVersion = (case tls_TLSMinVersion s of None \<Rightarrow> tc_MinVersion cfg
             | Some v \<Rightarrow> if v = VersionTLS12 then 0x0303 else 0x0304),
           tc_CipherSuites = (if tls_TLSCiphers s = [] then tc_CipherSuites cfg
             else map (\<lambda>c. CipherGoID (the (IanaCipherMap c))) (tls_TLSCiphers s)),
           tc_CurvePreferences = (if tls_TLSGroups s = [] then tc_CurvePreferences cfg
             else map (\<lambda>g. CurveID (the (TLSGroupMap g))) (tls_TLSGroups s))\<rparr>)"
proof -
  have "applyAPIServerTLS False (Some nb) cfg =
      \<lparr>tc_MinVersion = (case tls_TLSMinVersion s of None \<Rightarrow> tc_MinVersion cfg
             | Some v \<Rightarrow> if v = VersionTLS12 then 0x0303 else 0x0304),
           tc_CipherSuites = (if tls_TLSCiphers s = [] then tc_CipherSuites cfg
             else map (\<lambda>c. CipherGoID (the (IanaCipherMap c))) (tls_TLSCiphers s)),
           tc_CurvePreferences = (if tls_TLSGroups s = [] then tc_CurvePreferences cfg
             else map (\<lambda>g. CurveID (the (TLSGroupMap g))) (tls_TLSGroups s))\<rparr>"
    if s: "nbs_APIServerSecurity (nb_Spec nb) = Some s" "valid_tls s" for s
  proof -
    have v: "set (tls_TLSCiphers s) \<subseteq> dom IanaCipherMap" "set (tls_TLSGroups s) \<subseteq> dom TLSGroupMap"
      "tls_TLSMinVersion s = Some w \<Longrightarrow> w = VersionTLS12 \<or> w = VersionTLS13" for w
      using s(2) by (auto simp: valid_tls_def)
    then show ?thesis
      using s by (cases cfg; cases "tls_TLSMinVersion s")
        (auto simp: applyAPIServerTLS_def ValidateTLSSpec_iff Let_def MapCipherSuites_total MapGroupPreferences_total)
  qed
  then show ?thesis
    by (auto simp: applyAPIServerTLS_def ValidateTLSSpec_iff split: option.splits)
qed

text \<open>
  Applying the TLS settings to the environment of a container depends on the last specification only, and
  leaves every variable but the three TLS ones as it was.
\<close>

theorem tls_env_vars_applied:
  "ApplyTLSEnvVars d (ApplyTLSEnvVars d' env q) p = ApplyTLSEnvVars d env p \<and>
   map env_Name (ApplyTLSEnvVars d env p) = map env_Name env \<and>
   filter (\<lambda>e. env_Name e \<notin> {''TLS_MIN_VERSION'', ''TLS_CIPHERS'', ''TLS_GROUPS''}) (ApplyTLSEnvVars d env p) =
     filter (\<lambda>e. env_Name e \<notin> {''TLS_MIN_VERSION'', ''TLS_CIPHERS'', ''TLS_GROUPS''}) env"
proof -
  have "filter (\<lambda>e. env_Name e \<notin> {''TLS_MIN_VERSION'', ''TLS_CIPHERS'', ''TLS_GROUPS''}) (map (tls_env_value s) env) =
      filter (\<lambda>e. env_Name e \<notin> {''TLS_MIN_VERSION'', ''TLS_CIPHERS'', ''TLS_GROUPS''}) env" for s
    by (induction env) (simp_all add: tls_env_value_def)
  then show ?thesis
    by (simp add: ApplyTLSEnvVars_overwrites) (simp add: ApplyTLSEnvVars_def Let_def)
qed

end
