(* ===== verification/Account_Validation.thy ===== *)
theory Account_Validation
  imports BC_Validation Tls
begin

text \<open>
  The remaining files of \<^verbatim>\<open>pkg/validations\<close>: accounts
  (\<^verbatim>\<open>noobaaaccount_validation.go\<close>), the system resource
  (\<^verbatim>\<open>noobaa_validation.go\<close>) and the checks shared by claims and buckets
  (\<^verbatim>\<open>common_bucket_validations.go\<close>).  JSON decoding, \<open>net.ParseCIDR\<close> and
  the calls to the core are arguments.
\<close>

section \<open>Linux user names\<close>

text \<open>The runes of a UTF-8 string: each byte that is not a continuation byte starts one.\<close>

definition continuation :: "char \<Rightarrow> bool" where
  "continuation c \<longleftrightarrow> (let n = of_char c :: nat in 128 \<le> n \<and> n < 192)"

function runes :: "string \<Rightarrow> string list" where
  "runes [] = []"
| "runes (c # cs) = (c # takeWhile continuation cs) # runes (dropWhile continuation cs)"
  by pat_completeness auto
termination
  by (relation "measure length") (simp_all add: le_imp_less_Suc length_dropWhile_le)

definition regex_space :: "string list" where
  "regex_space = map (\<lambda>n. [byte n]) [9, 10, 12, 13, 32]"

text \<open>
  The regular expression
  \<^verbatim>\<open>^[^-:\s][^\s:]{0,30}[^-:\s]$\<close>: 2 to 32 runes, none of them a colon or white
  space, the first and the last not a dash.
\<close>

definition edge_rune :: "string \<Rightarrow> bool" where
  "edge_rune r \<longleftrightarrow> r \<noteq> ''-'' \<and> r \<noteq> '':'' \<and> r \<notin> set regex_space"

definition middle_rune :: "string \<Rightarrow> bool" where
  "middle_rune r \<longleftrightarrow> r \<noteq> '':'' \<and> r \<notin> set regex_space"

definition linuxUsernameRegex :: "string \<Rightarrow> bool" where
  "linuxUsernameRegex s =
     (let rs = runes s in
      2 \<le> length rs \<and> length rs \<le> 32 \<and> edge_rune (hd rs) \<and> edge_rune (last rs) \<and>
      list_all middle_rune (butlast (tl rs)))"

section \<open>Checks shared by buckets and claims\<close>

type_synonym decode_nsfs = "string \<Rightarrow> string + AccountNsfsConfig"

definition ValidateNSFSAccountConfig :: "decode_nsfs \<Rightarrow> string \<Rightarrow> string \<Rightarrow> check" where
  "ValidateNSFSAccountConfig decode NSFSConfig bucketclass =
     (if NSFSConfig = '''' then pass
      else case decode NSFSConfig of
        Inl err \<Rightarrow> Err (PlainError (''failed to parse NSFS account config '' @ go_quote NSFSConfig @ '': '' @ err))
      | Inr c \<Rightarrow>
          if bucketclass = '''' then
            Err (PlainError ''a bucketclass backed by an NSFS namespacestore is required for NSFS account config usage'')
          else if nsfs_UID c = None \<and> nsfs_GID c = None \<and> nsfs_DistinguishedName c = '''' then
            Err (PlainError ''UID and GID, or DistinguishedName must be provided'')
          else if nsfs_UID c \<noteq> None \<or> nsfs_GID c \<noteq> None then
            bind_r (deref (nsfs_UID c)) (\<lambda>uid.
              if uid < 0 then Err (PlainError ''UID and GID must be positive integers'')
              else bind_r (deref (nsfs_GID c)) (\<lambda>gid.
                if gid < 0 then Err (PlainError ''UID and GID must be positive integers'')
                else if nsfs_DistinguishedName c \<noteq> '''' \<and> (- 1 < gid \<or> - 1 < uid) then
                  Err (PlainError ''NSFS account config cannot include both distinguished name and UID/GID'')
                else pass))
          else if nsfs_DistinguishedName c \<noteq> '''' then
            (if \<not> linuxUsernameRegex (nsfs_DistinguishedName c)
             then Err (PlainError ''DistinguishedName must be a valid username by Linux standards'')
             else pass)
          else pass)"

text \<open>
  The environment of \<open>ValidateReplicationPolicy\<close>: the JSON decoder (which leaves a partial value
  next to its error), the number of rules, the printed form, the connection to the core (by
  command line or not) and the core's own check.
\<close>

record 'r repl_env =
  re_decode :: "string \<Rightarrow> 'r \<times> string option"
  re_rules :: "'r \<Rightarrow> nat"
  re_print :: "'r \<Rightarrow> string"
  re_connect :: "bool \<Rightarrow> check"
  re_validate :: "string \<Rightarrow> 'r \<Rightarrow> check"

definition ValidateReplicationPolicy :: "'r repl_env \<Rightarrow> string \<Rightarrow> string \<Rightarrow> bool \<Rightarrow> bool \<Rightarrow> check" where
  "ValidateReplicationPolicy env bucketName replicationPolicy update isCLI =
     (if replicationPolicy = '''' then pass
      else case re_decode env replicationPolicy of
        (rules, Some err) \<Rightarrow>
          Err (PlainError (''Failed to parse replication json '' @ re_print env rules @ '': '' @ err))
      | (rules, None) \<Rightarrow>
          if re_rules env rules = 0 then
            (if update then pass
             else Err (PlainError (''replication rules array of bucket '' @ go_quote bucketName @ '' is empty ''
               @ re_print env rules)))
          else
            (let failed = (\<lambda>e. Err (PlainError (''Provisioner Failed to validate replication of bucket ''
                   @ go_quote bucketName @ '' with error: '' @ Error e)))
             in case re_connect env isCLI of
               Panic \<Rightarrow> Panic
             | Err e \<Rightarrow> failed e
             | Ok _ \<Rightarrow>
                 (case re_validate env bucketName rules of
                    Panic \<Rightarrow> Panic
                  | Ok _ \<Rightarrow> pass
                  | Err e \<Rightarrow>
                      (case e of
                         RPCError code msg \<Rightarrow>
                           if code = ''INVALID_REPLICATION_POLICY''
                           then Err (PlainError ''Bucket replication configuration is invalid'')
                           else if code = ''INVALID_LOG_REPLICATION_INFO''
                           then Err (PlainError ''Bucket log replication info configuration is invalid'')
                           else failed e
                       | _ \<Rightarrow> failed e))))"

section \<open>Accounts\<close>

text \<open>\<open>nspace\<close> is \<open>options.Namespace\<close>; the lookups go through \<open>KubeCheckQuiet\<close>.\<close>

definition checkResourceBackingStore :: "lookups \<Rightarrow> string \<Rightarrow> string \<Rightarrow> (bool \<times> BackingStore option) result" where
  "checkResourceBackingStore k nspace resourceName =
     (let g = get_BackingStore k resourceName nspace in
      bind_r (KubeCheckQuiet g) (\<lambda>res. Ok (res, case g of Inr bs \<Rightarrow> Some bs | Inl _ \<Rightarrow> None)))"

definition checkResourceNamespaceStore :: "lookups \<Rightarrow> string \<Rightarrow> string \<Rightarrow> (bool \<times> NamespaceStore option) result" where
  "checkResourceNamespaceStore k nspace resourceName =
     (let g = get_NamespaceStore k resourceName nspace in
      bind_r (KubeCheckQuiet g) (\<lambda>res. Ok (res, case g of Inr ns \<Rightarrow> Some ns | Inl _ \<Rightarrow> None)))"

definition ValidateAccountDefaultResource :: "lookups \<Rightarrow> string \<Rightarrow> NooBaaAccount \<Rightarrow> check" where
  "ValidateAccountDefaultResource k nspace na =
     (let r = nas_DefaultResource (na_Spec na) in
      if r = '''' then pass
      else
        bind_r (checkResourceBackingStore k nspace r) (\<lambda>(isBackingStore, _).
        bind_r (checkResourceNamespaceStore k nspace r) (\<lambda>(isNamespaceStore, obj).
          if \<not> isBackingStore \<and> \<not> isNamespaceStore then
            Err (PersistentError ''MissingDefaultResource'' (''Account '' @ go_quote (om_Name (na_Meta na))
              @ '' default resource '' @ go_quote r @ '' was not found''))
          else if isBackingStore \<and> isNamespaceStore then
            Err (PersistentError ''MissingDefaultResource''
              (''BackingStore and NamespaceStore should not have the same name: '' @ go_quote r))
          else if IsArchiveNamespaceStore obj then
            Err (PersistentError ''InvalidDefaultResource'' (''NamespaceStore ''
              @ go_quote (case obj of Some ns \<Rightarrow> ns_Name ns | None \<Rightarrow> '''')
              @ '' is an archive store and cannot be used as a default resource''))
          else pass)))"

definition ValidateRemoveNSFSConfig :: "NooBaaAccount \<Rightarrow> NooBaaAccount \<Rightarrow> check" where
  "ValidateRemoveNSFSConfig na oldNa =
     require (\<not> (nas_NsfsAccountConfig (na_Spec oldNa) \<noteq> None \<and> nas_NsfsAccountConfig (na_Spec na) = None))
       ''Removing the NsfsAccountConfig is unsupported''"

definition ValidateNSFSConfig :: "NooBaaAccount \<Rightarrow> check" where
  "ValidateNSFSConfig na = (case nas_NsfsAccountConfig (na_Spec na) of
     None \<Rightarrow> pass
   | Some c \<Rightarrow>
       bind_r (deref (nsfs_UID c)) (\<lambda>uid.
       bind_r (require (\<not> uid < 0) ''UID must be a whole positive number'') (\<lambda>_.
       bind_r (deref (nsfs_GID c)) (\<lambda>gid.
         require (\<not> gid < 0) ''GID must be a whole positive number''))))"

section \<open>The system resource\<close>

definition ValidateNoobaaDeletion :: "NooBaa \<Rightarrow> check" where
  "ValidateNoobaaDeletion nb = require (nbs_AllowNoobaaDeletion (nb_Spec nb))
     ''Noobaa cleanup policy is not set, blocking Noobaa deletion''"

text \<open>\<open>parse_cidr\<close> is \<open>net.ParseCIDR\<close>: the text of its error, if it fails.\<close>

type_synonym parse_cidr = "string \<Rightarrow> string option"

definition validateCIDR :: "parse_cidr \<Rightarrow> string \<Rightarrow> string option" where
  "validateCIDR ParseCIDR cidr = ParseCIDR cidr"

definition check_subnets :: "parse_cidr \<Rightarrow> string \<Rightarrow> string list \<Rightarrow> check" where
  "check_subnets ParseCIDR what subnets = for_all_r (\<lambda>subnet. case validateCIDR ParseCIDR subnet of
     None \<Rightarrow> pass
   | Some err \<Rightarrow> Err (ValidationError (''Invalid '' @ what @ '' loadbalancer source subnet '' @ subnet @ '': '' @ err))) subnets"

definition validateNoobaaLoadbalancerSourceSubnets :: "parse_cidr \<Rightarrow> NooBaa \<Rightarrow> check" where
  "validateNoobaaLoadbalancerSourceSubnets ParseCIDR nb =
     (let lb = nbs_LoadBalancerSourceSubnets (nb_Spec nb) in first_err [
        check_subnets ParseCIDR ''S3'' (lb_S3 lb),
        check_subnets ParseCIDR ''STS'' (lb_STS lb),
        check_subnets ParseCIDR ''Vectors'' (lb_Vectors lb)])"

definition validateNoobaaAutoscalerConfig :: "NooBaa \<Rightarrow> check" where
  "validateNoobaaAutoscalerConfig nb =
     (let a = nbs_Autoscaler (nb_Spec nb) in
      require (\<not> ((as_AutoscalerType a = AutoscalerTypeKeda \<or> as_AutoscalerType a = AutoscalerTypeHPAV2)
                  \<and> as_PrometheusNamespace a = ''''))
        (''Autoscaler '' @ autoscaler_string (as_AutoscalerType a) @ '' missing prometheusNamespace property''))"

definition validateTLSSecurity :: "bool \<Rightarrow> NooBaa \<Rightarrow> check" where
  "validateTLSSecurity disabled nb =
     (case nbs_APIServerSecurity (nb_Spec nb) of
        None \<Rightarrow> pass
      | Some spec \<Rightarrow> (case ValidateTLSSpec disabled (Some spec) of
          Err e \<Rightarrow> Err (ValidationError (Error e))
        | c \<Rightarrow> c))"

definition ValidateNoobaaUpdate :: "parse_cidr \<Rightarrow> bool \<Rightarrow> NooBaa \<Rightarrow> check" where
  "ValidateNoobaaUpdate ParseCIDR disabled nb = first_err [
     validateNoobaaAutoscalerConfig nb,
     validateNoobaaLoadbalancerSourceSubnets ParseCIDR nb,
     validateTLSSecurity disabled nb]"

definition ValidateNoobaaCreation :: "parse_cidr \<Rightarrow> bool \<Rightarrow> NooBaa \<Rightarrow> check" where
  "ValidateNoobaaCreation ParseCIDR disabled nb = first_err [
     validateNoobaaAutoscalerConfig nb,
     validateNoobaaLoadbalancerSourceSubnets ParseCIDR nb,
     validateTLSSecurity disabled nb]"

section \<open>Correctness\<close>

lemma ValidateTLSSpec_no_Panic: "ValidateTLSSpec d p \<noteq> Panic"
  by (auto simp: ValidateTLSSpec_def Let_def split: option.splits prod.splits)

lemma check_subnets_pass: "check_subnets pc what s = pass \<longleftrightarrow> (\<forall>x \<in> set s. pc x = None)"
  by (auto simp: check_subnets_def for_all_r_pass validateCIDR_def split: option.splits)

lemma check_subnets_vcheck: "vcheck (check_subnets pc what s)"
  unfolding check_subnets_def by (rule vcheck_for_all_r) (simp split: option.splits)

lemma validateTLSSecurity_vcheck: "vcheck (validateTLSSecurity d nb)"
  using ValidateTLSSpec_no_Panic by (auto simp: validateTLSSecurity_def split: option.splits result.splits)

lemma validateTLSSecurity_pass:
  "validateTLSSecurity False nb = pass \<longleftrightarrow> (\<forall>s. nbs_APIServerSecurity (nb_Spec nb) = Some s \<longrightarrow> valid_tls s)"
  by (auto simp: validateTLSSecurity_def ValidateTLSSpec_iff [symmetric] split: option.splits result.splits)

definition valid_noobaa :: "parse_cidr \<Rightarrow> NooBaa \<Rightarrow> bool" where
  "valid_noobaa pc nb \<longleftrightarrow>
     (as_AutoscalerType (nbs_Autoscaler (nb_Spec nb)) \<in> {AutoscalerTypeKeda, AutoscalerTypeHPAV2} \<longrightarrow>
        as_PrometheusNamespace (nbs_Autoscaler (nb_Spec nb)) \<noteq> []) \<and>
     (\<forall>x \<in> set (lb_S3 (nbs_LoadBalancerSourceSubnets (nb_Spec nb))) \<union> set (lb_STS (nbs_LoadBalancerSourceSubnets (nb_Spec nb)))
        \<union> set (lb_Vectors (nbs_LoadBalancerSourceSubnets (nb_Spec nb))). pc x = None) \<and>
     (\<forall>s. nbs_APIServerSecurity (nb_Spec nb) = Some s \<longrightarrow> valid_tls s)"

lemma ValidateNoobaaUpdate_iff: "ValidateNoobaaUpdate pc False nb = pass \<longleftrightarrow> valid_noobaa pc nb"
  by (auto simp: ValidateNoobaaUpdate_def first_err_eq_pass validateNoobaaAutoscalerConfig_def
      validateNoobaaLoadbalancerSourceSubnets_def Let_def check_subnets_pass validateTLSSecurity_pass valid_noobaa_def)

lemma ValidateNoobaaUpdate_vcheck: "vcheck (ValidateNoobaaUpdate pc d nb)"
  unfolding ValidateNoobaaUpdate_def validateNoobaaLoadbalancerSourceSubnets_def Let_def
  by (intro vcheck_first_err)
    (auto simp: validateNoobaaAutoscalerConfig_def Let_def
      intro!: vcheck_first_err check_subnets_vcheck validateTLSSecurity_vcheck)

lemma ValidateNoobaaCreation_eq: "ValidateNoobaaCreation pc d nb = ValidateNoobaaUpdate pc d nb"
  by (simp add: ValidateNoobaaCreation_def ValidateNoobaaUpdate_def)

text \<open>The account checks are defined on configurations with both ids; the others crash them.\<close>

lemma ValidateNSFSConfig_Panic:
  "ValidateNSFSConfig na = Panic \<longleftrightarrow>
     (\<exists>c. nas_NsfsAccountConfig (na_Spec na) = Some c \<and>
        (nsfs_UID c = None \<or> (\<exists>u. nsfs_UID c = Some u \<and> 0 \<le> u) \<and> nsfs_GID c = None))"
proof (cases "nas_NsfsAccountConfig (na_Spec na)")
  case (Some c)
  then show ?thesis
    by (cases "nsfs_UID c"; cases "nsfs_GID c") (auto simp: ValidateNSFSConfig_def bind_r_eq_Panic bind_r_eq_Ok)
qed (simp add: ValidateNSFSConfig_def)

lemma ValidateNSFSConfig_pass:
  "ValidateNSFSConfig na = pass \<longleftrightarrow>
     (\<forall>c. nas_NsfsAccountConfig (na_Spec na) = Some c \<longrightarrow>
        (\<exists>u g. nsfs_UID c = Some u \<and> nsfs_GID c = Some g \<and> 0 \<le> u \<and> 0 \<le> g))"
  by (auto simp: ValidateNSFSConfig_def bind_r_eq_Ok split: option.splits)

end
