(* ===== verification/Admission.thy ===== *)
theory Admission
  imports Account_Validation
begin

text \<open>
  The admission webhook, \<^verbatim>\<open>pkg/admission\<close>: the dispatcher \<open>serve\<close> and the
  validators of the five resources.  JSON decoding, the cluster, the core and the
  environment are the arguments collected in \<open>adm_env\<close>.  A panic in a handler is the outcome
  \<open>Panic\<close>: the HTTP server drops the connection and the API server gets no verdict.
\<close>

section \<open>Requests and responses\<close>

datatype Operation = OpCreate | OpUpdate | OpDelete | OpOther string

record AdmissionRequest =
  req_UID :: string
  req_Resource :: string
  req_Operation :: Operation
  req_Object :: string
  req_OldObject :: string

record AdmissionResponse =
  resp_UID :: string
  resp_Allowed :: bool
  resp_Message :: string

text \<open>
  The decoders leave a zero or partial object behind when the JSON is malformed, so they are total.
  \<open>env_ReadSystem\<close> is \<open>system.Connect(false)\<close> followed by \<open>ReadSystemAPI\<close>.
\<close>

record adm_env =
  DeserializeBS :: "string \<Rightarrow> BackingStore"
  DeserializeNS :: "string \<Rightarrow> NamespaceStore"
  DeserializeBC :: "string \<Rightarrow> BucketClass"
  DeserializeNA :: "string \<Rightarrow> NooBaaAccount"
  DeserializeNB :: "string \<Rightarrow> NooBaa"
  env_Lookups :: lookups
  env_ParseQuantity :: parse_quantity
  env_PrintQuantity :: "quantity \<Rightarrow> string"
  env_Url :: url_lib
  env_ParseCIDR :: parse_cidr
  env_TLSDisabled :: bool
  env_Namespace :: string
  env_ReadSystem :: "SystemInfo result"

text \<open>The response every validator starts from.\<close>

definition NewValidator :: "AdmissionRequest \<Rightarrow> AdmissionResponse" where
  "NewValidator r = \<lparr>resp_UID = req_UID r, resp_Allowed = True, resp_Message = ''allowed''\<rparr>"

definition SetValidationResult :: "bool \<Rightarrow> string \<Rightarrow> AdmissionResponse \<Rightarrow> AdmissionResponse" where
  "SetValidationResult isAllowed message a = a\<lparr>resp_Allowed := isAllowed, resp_Message := message\<rparr>"

text \<open>
  The handlers are sequences of checks.  After a failed check the handler sets the result and returns;
  most call sites do so only for validation errors and go on after any other error
  (\<^verbatim>\<open>err != nil && util.IsValidationError(err)\<close>), some do it for every error.
\<close>

datatype site = IfValidationError check | IfError check

fun run_checks :: "site list \<Rightarrow> AdmissionResponse \<Rightarrow> AdmissionResponse result" where
  "run_checks [] a = Ok a"
| "run_checks (IfValidationError c # ss) a = (case c of
     Panic \<Rightarrow> Panic
   | Ok _ \<Rightarrow> run_checks ss a
   | Err e \<Rightarrow> if IsValidationError e then Ok (SetValidationResult False (Error e) a) else run_checks ss a)"
| "run_checks (IfError c # ss) a = (case c of
     Panic \<Rightarrow> Panic
   | Ok _ \<Rightarrow> run_checks ss a
   | Err e \<Rightarrow> Ok (SetValidationResult False (Error e) a))"

section \<open>Backing stores\<close>

definition ValidateCreateBS :: "adm_env \<Rightarrow> AdmissionRequest \<Rightarrow> AdmissionResponse \<Rightarrow> AdmissionResponse result" where
  "ValidateCreateBS env r =
     run_checks [IfValidationError (ValidateBackingStore (env_PrintQuantity env) (DeserializeBS env (req_Object r)))]"

definition ValidateUpdateBS :: "adm_env \<Rightarrow> AdmissionRequest \<Rightarrow> AdmissionResponse \<Rightarrow> AdmissionResponse result" where
  "ValidateUpdateBS env r =
     (let bs = DeserializeBS env (req_Object r); oldBS = DeserializeBS env (req_OldObject r) in
      run_checks ([IfValidationError (ValidateBackingStore (env_PrintQuantity env) bs)] @
        (case bs_Type bs of
           StoreTypePVPool \<Rightarrow> [IfValidationError (ValidatePvpoolScaleDown bs oldBS)]
         | StoreTypeAWSS3 \<Rightarrow> [IfValidationError (ValidateTargetBSBucketChange bs oldBS)]
         | StoreTypeIBMCos \<Rightarrow> [IfValidationError (ValidateTargetBSBucketChange bs oldBS)]
         | StoreTypeAzureBlob \<Rightarrow> [IfValidationError (ValidateTargetBSBucketChange bs oldBS)]
         | StoreTypeGoogleCloudStorage \<Rightarrow> [IfValidationError (ValidateTargetBSBucketChange bs oldBS)]
         | _ \<Rightarrow> [])))"

definition ValidateDeleteBS :: "adm_env \<Rightarrow> AdmissionRequest \<Rightarrow> AdmissionResponse \<Rightarrow> AdmissionResponse result" where
  "ValidateDeleteBS env r a =
     (let bs = DeserializeBS env (req_OldObject r) in
      case env_ReadSystem env of
        Panic \<Rightarrow> Panic
      | Err _ \<Rightarrow> Ok a
      | Ok systemInfo \<Rightarrow> run_checks [IfValidationError (ValidateBackingstoreDeletion bs systemInfo)] a)"

definition ValidateBackingstore :: "adm_env \<Rightarrow> AdmissionRequest \<Rightarrow> AdmissionResponse result" where
  "ValidateBackingstore env r = (case req_Operation r of
     OpCreate \<Rightarrow> ValidateCreateBS env r (NewValidator r)
   | OpUpdate \<Rightarrow> ValidateUpdateBS env r (NewValidator r)
   | OpDelete \<Rightarrow> ValidateDeleteBS env r (NewValidator r)
   | OpOther _ \<Rightarrow> Ok (NewValidator r))"

section \<open>Namespace stores\<close>

text \<open>The check part of a validation that also rewrites the object.\<close>

definition outcome :: "'a result \<Rightarrow> check" where
  "outcome x = bind_r x (\<lambda>_. pass)"

definition ValidateCreateNS :: "adm_env \<Rightarrow> AdmissionRequest \<Rightarrow> AdmissionResponse \<Rightarrow> AdmissionResponse result" where
  "ValidateCreateNS env r =
     run_checks [IfValidationError (outcome (ValidateNamespaceStore (env_Url env) (DeserializeNS env (req_Object r))))]"

text \<open>The bucket comparison sees the store as validation left it (on an error, as it was).\<close>

definition ValidateUpdateNS :: "adm_env \<Rightarrow> AdmissionRequest \<Rightarrow> AdmissionResponse \<Rightarrow> AdmissionResponse result" where
  "ValidateUpdateNS env r =
     (let ns = DeserializeNS env (req_Object r); oldNS = DeserializeNS env (req_OldObject r);
          v = ValidateNamespaceStore (env_Url env) ns;
          ns' = (case v of Ok n \<Rightarrow> n | _ \<Rightarrow> ns)
      in run_checks ([
        IfValidationError (ValidateNSEndpointChange (env_Url env) ns oldNS),
        IfValidationError (outcome v)] @
        (case ns_Type ns' of
           NSStoreTypeNSFS \<Rightarrow> []
         | NSStoreTypeOther _ \<Rightarrow> []
         | _ \<Rightarrow> [IfValidationError (ValidateTargetNSBucketChange ns' oldNS)])))"

definition ValidateDeleteNS :: "adm_env \<Rightarrow> AdmissionRequest \<Rightarrow> AdmissionResponse \<Rightarrow> AdmissionResponse result" where
  "ValidateDeleteNS env r a =
     (let ns = DeserializeNS env (req_OldObject r) in
      case env_ReadSystem env of
        Panic \<Rightarrow> Panic
      | Err _ \<Rightarrow> Ok a
      | Ok systemInfo \<Rightarrow> run_checks [IfValidationError (ValidateNamespacestoreDeletion ns systemInfo)] a)"

definition adm_ValidateNamespaceStore :: "adm_env \<Rightarrow> AdmissionRequest \<Rightarrow> AdmissionResponse result" where
  "adm_ValidateNamespaceStore env r = (case req_Operation r of
     OpCreate \<Rightarrow> ValidateCreateNS env r (NewValidator r)
   | OpUpdate \<Rightarrow> ValidateUpdateNS env r (NewValidator r)
   | OpDelete \<Rightarrow> ValidateDeleteNS env r (NewValidator r)
   | OpOther _ \<Rightarrow> Ok (NewValidator r))"

section \<open>Bucket classes\<close>

definition ValidateCreateBC :: "adm_env \<Rightarrow> AdmissionRequest \<Rightarrow> AdmissionResponse \<Rightarrow> AdmissionResponse result" where
  "ValidateCreateBC env r =
     (let bc = DeserializeBC env (req_Object r); sp = bc_Spec bc; k = env_Lookups env in
      run_checks (
        [IfValidationError (bc_ValidateQuotaConfig (env_ParseQuantity env) (bc_Name bc) (bcs_Quota sp))] @
        (if bcs_VectorPolicy sp \<noteq> None
         then [IfError (ValidateVectorPolicy k (bcs_VectorPolicy sp) (bcs_PlacementPolicy sp)
                 (bcs_NamespacePolicy sp) (bc_Namespace bc))]
         else []) @
        (if bcs_NamespacePolicy sp \<noteq> None
         then [IfError (ValidateNamespacePolicy k (bcs_NamespacePolicy sp) (bc_Namespace bc)),
               IfValidationError (ValidateNSFSSingleBC k bc)]
         else []) @
        (case bcs_PlacementPolicy sp of Some pp \<Rightarrow> [IfError (ValidateTiersNumber (pp_Tiers pp))] | None \<Rightarrow> []) @
        [IfError (ValidateArchivePolicy k bc)]))"

definition ValidateUpdateBC :: "adm_env \<Rightarrow> AdmissionRequest \<Rightarrow> AdmissionResponse \<Rightarrow> AdmissionResponse result" where
  "ValidateUpdateBC env r a =
     (let oldBC = DeserializeBC env (req_OldObject r); newBC = DeserializeBC env (req_Object r) in
      run_checks [
        IfError (ValidateImmutLabelChange (Some newBC) (Some oldBC) [''noobaa-operator'']),
        IfError (require (bcs_VectorPolicy (bc_Spec newBC) = None)
          ''Updating a vector bucket class is not yet supported''),
        IfError (ValidateArchivePolicy (env_Lookups env) newBC)] a)"

definition adm_ValidateBucketClass :: "adm_env \<Rightarrow> AdmissionRequest \<Rightarrow> AdmissionResponse result" where
  "adm_ValidateBucketClass env r = (case req_Operation r of
     OpCreate \<Rightarrow> ValidateCreateBC env r (NewValidator r)
   | OpUpdate \<Rightarrow> ValidateUpdateBC env r (NewValidator r)
   | _ \<Rightarrow> Ok (NewValidator r))"

section \<open>Accounts\<close>

definition ValidateCreateNA :: "adm_env \<Rightarrow> AdmissionRequest \<Rightarrow> AdmissionResponse \<Rightarrow> AdmissionResponse result" where
  "ValidateCreateNA env r =
     (let na = DeserializeNA env (req_Object r) in
      run_checks [
        IfValidationError (ValidateNSFSConfig na),
        IfError (ValidateAccountDefaultResource (env_Lookups env) (env_Namespace env) na)])"

definition ValidateUpdateNA :: "adm_env \<Rightarrow> AdmissionRequest \<Rightarrow> AdmissionResponse \<Rightarrow> AdmissionResponse result" where
  "ValidateUpdateNA env r =
     (let na = DeserializeNA env (req_Object r); oldNA = DeserializeNA env (req_OldObject r) in
      run_checks ([IfValidationError (ValidateRemoveNSFSConfig na oldNA)] @
        (if nas_NsfsAccountConfig (na_Spec oldNA) \<noteq> nas_NsfsAccountConfig (na_Spec na)
         then [IfValidationError (ValidateNSFSConfig na)] else [])))"

definition ValidateNoobaAaccount :: "adm_env \<Rightarrow> AdmissionRequest \<Rightarrow> AdmissionResponse result" where
  "ValidateNoobaAaccount env r = (case req_Operation r of
     OpCreate \<Rightarrow> ValidateCreateNA env r (NewValidator r)
   | OpUpdate \<Rightarrow> ValidateUpdateNA env r (NewValidator r)
   | _ \<Rightarrow> Ok (NewValidator r))"

section \<open>The system resource\<close>

definition ValidateDeleteNoobaa :: "adm_env \<Rightarrow> AdmissionRequest \<Rightarrow> AdmissionResponse \<Rightarrow> AdmissionResponse result" where
  "ValidateDeleteNoobaa env r =
     run_checks [IfValidationError (ValidateNoobaaDeletion (DeserializeNB env (req_OldObject r)))]"

definition adm_ValidateNoobaaUpdate :: "adm_env \<Rightarrow> AdmissionRequest \<Rightarrow> AdmissionResponse \<Rightarrow> AdmissionResponse result" where
  "adm_ValidateNoobaaUpdate env r =
     run_checks [IfValidationError
       (ValidateNoobaaUpdate (env_ParseCIDR env) (env_TLSDisabled env) (DeserializeNB env (req_Object r)))]"

definition ValidateNoobaaCreate :: "adm_env \<Rightarrow> AdmissionRequest \<Rightarrow> AdmissionResponse \<Rightarrow> AdmissionResponse result" where
  "ValidateNoobaaCreate env r =
     run_checks [IfValidationError
       (ValidateNoobaaCreation (env_ParseCIDR env) (env_TLSDisabled env) (DeserializeNB env (req_Object r)))]"

definition ValidateNoobaa :: "adm_env \<Rightarrow> AdmissionRequest \<Rightarrow> AdmissionResponse result" where
  "ValidateNoobaa env r = (case req_Operation r of
     OpCreate \<Rightarrow> ValidateNoobaaCreate env r (NewValidator r)
   | OpUpdate \<Rightarrow> adm_ValidateNoobaaUpdate env r (NewValidator r)
   | OpDelete \<Rightarrow> ValidateDeleteNoobaa env r (NewValidator r)
   | OpOther _ \<Rightarrow> Ok (NewValidator r))"

section \<open>The dispatcher\<close>

datatype http_reply = HttpError nat string | HttpReview AdmissionResponse

text \<open>
  \<open>decode\<close> is the decoding of an \<open>AdmissionReview\<close>: \<open>None\<close> on malformed JSON,
  otherwise its request, which may be absent.
\<close>

definition serve ::
    "adm_env \<Rightarrow> (string \<Rightarrow> AdmissionRequest option option) \<Rightarrow> string \<Rightarrow> string \<Rightarrow> http_reply result" where
  "serve env decode body path =
     (if length body = 0 then Ok (HttpError 400 ''empty body'')
      else if path \<noteq> ''/validate'' then Ok (HttpError 400 ''no validate'')
      else case decode body of
        None \<Rightarrow> Ok (HttpError 400 ''incorrect body'')
      | Some request \<Rightarrow> bind_r (deref request) (\<lambda>r.
          let reply = (\<lambda>v. bind_r v (\<lambda>a. Ok (HttpReview a))) in
          if req_Resource r = ''backingstores'' then reply (ValidateBackingstore env r)
          else if req_Resource r = ''namespacestores'' then reply (adm_ValidateNamespaceStore env r)
          else if req_Resource r = ''bucketclasses'' then reply (adm_ValidateBucketClass env r)
          else if req_Resource r = ''noobaaaccounts'' then reply (ValidateNoobaAaccount env r)
          else if req_Resource r = ''noobaas'' then reply (ValidateNoobaa env r)
          else Ok (HttpError 400 ''incorrect resource'')))"

section \<open>The contract of a validator\<close>

fun admits :: "site \<Rightarrow> bool" where
  "admits (IfValidationError c) \<longleftrightarrow> c \<noteq> Panic \<and> (\<forall>e. c = Err e \<longrightarrow> \<not> IsValidationError e)"
| "admits (IfError c) \<longleftrightarrow> c = pass"

lemma run_checks_no_Err [simp]: "run_checks ss a \<noteq> Err e"
  by (induction ss a rule: run_checks.induct) (auto split: result.splits)

lemma run_checks_cases:
  "run_checks ss a = Ok b \<Longrightarrow> b = a \<or> (\<exists>m. b = SetValidationResult False m a)"
  by (induction ss a rule: run_checks.induct) (auto split: result.splits if_splits)

lemma run_checks_Panic: "run_checks ss a = Panic \<Longrightarrow> IfValidationError Panic \<in> set ss \<or> IfError Panic \<in> set ss"
  by (induction ss a rule: run_checks.induct) (auto split: result.splits if_splits)

lemma run_checks_admits: "list_all admits ss \<longleftrightarrow> run_checks ss (NewValidator r) = Ok (NewValidator r)"
proof (induction ss)
  case (Cons s ss)
  have "SetValidationResult False m (NewValidator r) \<noteq> NewValidator r" for m
    by (simp add: SetValidationResult_def NewValidator_def)
  then show ?case
    using Cons by (cases s) (auto split: result.splits if_splits)
qed simp

text \<open>
  The contract: the answer carries the identifier of the request, it is either the initial
  permission or a refusal with a message, and an operation the webhook is not registered for is
  permitted.
\<close>

locale admission_validator =
  fixes handle :: "AdmissionRequest \<Rightarrow> AdmissionResponse result"
  assumes verdict: "handle r = Ok a \<Longrightarrow> a = NewValidator r \<or> (\<exists>m. a = SetValidationResult False m (NewValidator r))"
    and no_error: "handle r \<noteq> Err e"
    and other_operation: "req_Operation r = OpOther op \<Longrightarrow> handle r = Ok (NewValidator r)"
begin

lemma uid: "handle r = Ok a \<Longrightarrow> resp_UID a = req_UID r"
  using verdict [of r a] by (auto simp: NewValidator_def SetValidationResult_def)

lemma allowed_iff: "handle r = Ok a \<Longrightarrow> resp_Allowed a \<longleftrightarrow> a = NewValidator r"
  using verdict [of r a] by (auto simp: NewValidator_def SetValidationResult_def)

lemma total_or_panic: "handle r = Panic \<or> (\<exists>a. handle r = Ok a \<and> resp_UID a = req_UID r)"
  using no_error uid by (cases "handle r") auto

end

lemmas bs_handlers = ValidateBackingstore_def ValidateCreateBS_def ValidateUpdateBS_def ValidateDeleteBS_def
lemmas ns_handlers = adm_ValidateNamespaceStore_def ValidateCreateNS_def ValidateUpdateNS_def ValidateDeleteNS_def
lemmas bc_handlers = adm_ValidateBucketClass_def ValidateCreateBC_def ValidateUpdateBC_def
lemmas na_handlers = ValidateNoobaAaccount_def ValidateCreateNA_def ValidateUpdateNA_def
lemmas nb_handlers = ValidateNoobaa_def ValidateNoobaaCreate_def adm_ValidateNoobaaUpdate_def ValidateDeleteNoobaa_def

interpretation bs_adm: admission_validator "ValidateBackingstore env" for env
  by unfold_locales
    (auto simp: bs_handlers Let_def simp del: run_checks.simps split: Operation.splits result.splits
      dest!: run_checks_cases)

interpretation ns_adm: admission_validator "adm_ValidateNamespaceStore env" for env
  by unfold_locales
    (auto simp: ns_handlers Let_def simp del: run_checks.simps split: Operation.splits result.splits
      dest!: run_checks_cases)

interpretation bc_adm: admission_validator "adm_ValidateBucketClass env" for env
  by unfold_locales
    (auto simp: bc_handlers Let_def simp del: run_checks.simps split: Operation.splits dest!: run_checks_cases)

interpretation na_adm: admission_validator "ValidateNoobaAaccount env" for env
  by unfold_locales
    (auto simp: na_handlers Let_def simp del: run_checks.simps split: Operation.splits dest!: run_checks_cases)

interpretation nb_adm: admission_validator "ValidateNoobaa env" for env
  by unfold_locales
    (auto simp: nb_handlers Let_def simp del: run_checks.simps split: Operation.splits dest!: run_checks_cases)

section \<open>What an admitted request guarantees\<close>

lemma run_checks_allowed:
  assumes "run_checks ss (NewValidator r) = Ok a" "resp_Allowed a"
  shows "list_all admits ss"
proof -
  have "a = NewValidator r"
    using run_checks_cases [OF assms(1)] assms(2) by (auto simp: SetValidationResult_def)
  with assms(1) show ?thesis by (simp add: run_checks_admits [of ss r])
qed

lemma admits_vcheck: "vcheck c \<Longrightarrow> admits (IfValidationError c) \<longleftrightarrow> c = pass"
  by (cases c) (auto simp: vcheck_def)

lemma allowed_update_BS:
  assumes "ValidateBackingstore env r = Ok a" "resp_Allowed a" "req_Operation r = OpUpdate"
    and "DeserializeBS env (req_Object r) = bs" "DeserializeBS env (req_OldObject r) = old"
  shows "valid_backing_spec (bs_Name bs) (bs_Type bs) (bs_Spec bs)"
    and "bs_Type bs = StoreTypePVPool \<Longrightarrow> ValidatePvpoolScaleDown bs old = pass"
    and "bs_Type bs \<in> {StoreTypeAWSS3, StoreTypeIBMCos, StoreTypeAzureBlob, StoreTypeGoogleCloudStorage} \<Longrightarrow>
      ValidateTargetBSBucketChange bs old = pass"
proof -
  let ?p = "env_PrintQuantity env"
  have adm: "list_all admits ([IfValidationError (ValidateBackingStore ?p bs)] @
        (case bs_Type bs of
           StoreTypePVPool \<Rightarrow> [IfValidationError (ValidatePvpoolScaleDown bs old)]
         | StoreTypeAWSS3 \<Rightarrow> [IfValidationError (ValidateTargetBSBucketChange bs old)]
         | StoreTypeIBMCos \<Rightarrow> [IfValidationError (ValidateTargetBSBucketChange bs old)]
         | StoreTypeAzureBlob \<Rightarrow> [IfValidationError (ValidateTargetBSBucketChange bs old)]
         | StoreTypeGoogleCloudStorage \<Rightarrow> [IfValidationError (ValidateTargetBSBucketChange bs old)]
         | _ \<Rightarrow> []))"
    using assms by (intro run_checks_allowed) (simp_all add: ValidateBackingstore_def ValidateUpdateBS_def Let_def)
  have err: "ValidateTargetBSBucketChange bs old = Err e \<Longrightarrow> IsValidationError e"
    "ValidatePvpoolScaleDown bs old = Err e \<Longrightarrow> IsValidationError e" for e
    by (auto simp: ValidateTargetBSBucketChange_def ValidatePvpoolScaleDown_def unchanged_def Let_def bind_r_eq_Err
        deref_def split: StoreType.splits option.splits)
  show valid: "valid_backing_spec (bs_Name bs) (bs_Type bs) (bs_Spec bs)"
    using adm admits_vcheck [OF ValidateBackingStore_vcheck, of ?p bs] ValidateBackingStore_iff [of ?p bs]
    by auto
  show "bs_Type bs = StoreTypePVPool \<Longrightarrow> ValidatePvpoolScaleDown bs old = pass"
    using adm err(2) by (cases "ValidatePvpoolScaleDown bs old") auto
  show "bs_Type bs \<in> {StoreTypeAWSS3, StoreTypeIBMCos, StoreTypeAzureBlob, StoreTypeGoogleCloudStorage} \<Longrightarrow>
      ValidateTargetBSBucketChange bs old = pass"
    using adm err(1) by (cases "ValidateTargetBSBucketChange bs old") auto
qed

lemma scale_down_pass:
  "ValidatePvpoolScaleDown bs old = pass \<longleftrightarrow>
     (\<exists>o' n. bss_PVPool (bs_Spec old) = Some o' \<and> bss_PVPool (bs_Spec bs) = Some n \<and> pv_NumVolumes o' \<le> pv_NumVolumes n)"
  by (auto simp: ValidatePvpoolScaleDown_def bind_r_eq_Ok)

lemma outcome_pass [simp]: "outcome v = pass \<longleftrightarrow> is_ok v" "outcome v = Panic \<longleftrightarrow> v = Panic"
    "outcome v = Err e \<longleftrightarrow> v = Err e"
  by (cases v; simp add: outcome_def)+

lemma ValidateNamespaceStore_Err: "ValidateNamespaceStore ul ns = Err e \<Longrightarrow> IsValidationError e"
proof -
  assume e: "ValidateNamespaceStore ul ns = Err e"
  let ?pre = "first_err [ValidateNSInValidSpec ns, ValidateNSEmptySecretName ns, ValidateNSEmptyTargetBucket ns,
     ValidateNSArchiveSpec ns]"
  have pre: "?pre = Err e \<Longrightarrow> IsValidationError e"
    using ns_prechecks_vcheck [of ns] by (simp add: vcheck_def)
  have nsfs: "vcheck (ValidateNsStoreNSFS ns)"
    by (auto simp: ValidateNsStoreNSFS_def Let_def split: option.splits intro!: vcheck_first_err vcheck_for_all_r)
  have az: "ValidateNsStoreAzureBlob ns = Err e \<Longrightarrow> IsValidationError e" for e
    by (auto simp: ValidateNsStoreAzureBlob_def bind_r_eq_Err dest!: first_err_in_set split: if_splits)
      (auto simp: deref_def split: option.splits)
  have sig: "ValidateSignatureVersion ul v ep n = Err e \<Longrightarrow> IsValidationError e" for v ep n e
    by (auto simp: ValidateSignatureVersion_def split: if_splits sum.splits)
  show ?thesis
    using e pre nsfs az sig
    by (auto simp: ValidateNamespaceStore_def bind_r_eq_Err keep_def ValidateNsStoreS3Compatible_def
        ValidateNsStoreIBMCos_def vcheck_def ValidateEndPoint_vcheck(2) split: NSType.splits option.splits)
qed

lemma allowed_update_NS:
  assumes "adm_ValidateNamespaceStore env r = Ok a" "resp_Allowed a" "req_Operation r = OpUpdate"
    and "DeserializeNS env (req_Object r) = ns" "DeserializeNS env (req_OldObject r) = old"
  obtains ns' where "ValidateNamespaceStore (env_Url env) ns = Ok ns'"
    "ValidateNSEndpointChange (env_Url env) ns old = pass"
    "ns_Type ns \<noteq> NSStoreTypeNSFS \<Longrightarrow> ValidateTargetNSBucketChange ns' old = pass"
proof -
  let ?u = "env_Url env"
  let ?v = "ValidateNamespaceStore ?u ns"
  let ?ns = "case ?v of Ok n \<Rightarrow> n | _ \<Rightarrow> ns"
  have adm: "list_all admits ([IfValidationError (ValidateNSEndpointChange ?u ns old), IfValidationError (outcome ?v)] @
        (case ns_Type ?ns of NSStoreTypeNSFS \<Rightarrow> [] | NSStoreTypeOther _ \<Rightarrow> []
         | _ \<Rightarrow> [IfValidationError (ValidateTargetNSBucketChange ?ns old)]))"
    using assms by (intro run_checks_allowed) (simp_all add: adm_ValidateNamespaceStore_def ValidateUpdateNS_def Let_def)
  then obtain ns' where ns': "?v = Ok ns'" using ValidateNamespaceStore_Err by (cases ?v) auto
  have ty: "ns_Type ns' = ns_Type ns"
    using ValidateNamespaceStore_result [OF ns'] by (simp add: same_but_endpoint_def)
  have known: "ns_Type ns \<noteq> NSStoreTypeOther t" for t
    using ns' ValidateNamespaceStore_iff [of ?u ns] by auto
  have err: "ValidateTargetNSBucketChange ns' old = Err e \<Longrightarrow> IsValidationError e" for e
    by (auto simp: ValidateTargetNSBucketChange_def unchanged_def Let_def bind_r_eq_Err deref_def
        split: NSType.splits option.splits)
  have "ValidateNSEndpointChange ?u ns old = Err e \<Longrightarrow> IsValidationError e" for e
    by (auto simp: ValidateNSEndpointChange_def endpoint_unchanged_def EndpointsEquivalent_def bind_r_eq_Err
        ValidateEndPoint_vcheck(2) split: NSType.splits option.splits)
  then have ep: "ValidateNSEndpointChange ?u ns old = pass"
    using adm by (cases "ValidateNSEndpointChange ?u ns old") auto
  have "ValidateTargetNSBucketChange ns' old = pass" if "ns_Type ns \<noteq> NSStoreTypeNSFS"
    using adm ns' ty known that err by (cases "ValidateTargetNSBucketChange ns' old"; cases "ns_Type ns") auto
  with that ns' ep show thesis by blast
qed

lemma IfError_admits_pass: "list_all admits ss \<Longrightarrow> IfError c \<in> set ss \<Longrightarrow> c = pass"
  by (induction ss) auto

lemma allowed_create_BC:
  assumes "adm_ValidateBucketClass env r = Ok a" "resp_Allowed a" "req_Operation r = OpCreate"
    and "DeserializeBC env (req_Object r) = bc"
  shows "valid_vector (env_Lookups env) (bc_Namespace bc) (bc_Spec bc)"
    and "valid_archive (env_Lookups env) (bc_Namespace bc) (bc_Spec bc)"
    and "bcs_PlacementPolicy (bc_Spec bc) = Some pp \<Longrightarrow> ValidateTiersNumber (pp_Tiers pp) = pass"
    and "ValidateNamespacePolicy (env_Lookups env) (bcs_NamespacePolicy (bc_Spec bc)) (bc_Namespace bc) = pass"
proof -
  let ?sp = "bc_Spec bc" and ?k = "env_Lookups env"
  let ?ss = "[IfValidationError (bc_ValidateQuotaConfig (env_ParseQuantity env) (bc_Name bc) (bcs_Quota ?sp))] @
        (if bcs_VectorPolicy ?sp \<noteq> None
         then [IfError (ValidateVectorPolicy ?k (bcs_VectorPolicy ?sp) (bcs_PlacementPolicy ?sp)
                 (bcs_NamespacePolicy ?sp) (bc_Namespace bc))]
         else []) @
        (if bcs_NamespacePolicy ?sp \<noteq> None
         then [IfError (ValidateNamespacePolicy ?k (bcs_NamespacePolicy ?sp) (bc_Namespace bc)),
               IfValidationError (ValidateNSFSSingleBC ?k bc)]
         else []) @
        (case bcs_PlacementPolicy ?sp of Some pp \<Rightarrow> [IfError (ValidateTiersNumber (pp_Tiers pp))] | None \<Rightarrow> []) @
        [IfError (ValidateArchivePolicy ?k bc)]"
  have adm: "list_all admits ?ss"
    using assms by (intro run_checks_allowed) (simp_all add: adm_ValidateBucketClass_def ValidateCreateBC_def Let_def)
  show "valid_archive ?k (bc_Namespace bc) ?sp"
    using IfError_admits_pass [OF adm] by (simp add: ValidateArchivePolicy_pass [symmetric])
  show "bcs_PlacementPolicy ?sp = Some pp \<Longrightarrow> ValidateTiersNumber (pp_Tiers pp) = pass"
    using IfError_admits_pass [OF adm] by simp
  show "valid_vector ?k (bc_Namespace bc) ?sp"
    using IfError_admits_pass [OF adm]
    by (cases "bcs_VectorPolicy ?sp = None") (simp_all add: ValidateVectorPolicy_pass [symmetric] ValidateVectorPolicy_def)
  show "ValidateNamespacePolicy ?k (bcs_NamespacePolicy ?sp) (bc_Namespace bc) = pass"
    using IfError_admits_pass [OF adm]
    by (cases "bcs_NamespacePolicy ?sp = None") (simp_all add: ValidateNamespacePolicy_def)
qed

lemma ValidateNoobaaDeletion_pass [simp]: "ValidateNoobaaDeletion nb = pass \<longleftrightarrow> nbs_AllowNoobaaDeletion (nb_Spec nb)"
  by (simp add: ValidateNoobaaDeletion_def)

lemma single_check_verdict:
  "vcheck c \<Longrightarrow> run_checks [IfValidationError c] (NewValidator r) = Ok a \<Longrightarrow> resp_Allowed a \<longleftrightarrow> c = pass"
  by (cases c) (auto simp: vcheck_def SetValidationResult_def NewValidator_def)

section \<open>Properties\<close>

definition validators :: "adm_env \<Rightarrow> AdmissionRequest \<Rightarrow> AdmissionResponse result set" where
  "validators env r = {ValidateBackingstore env r, adm_ValidateNamespaceStore env r, adm_ValidateBucketClass env r,
     ValidateNoobaAaccount env r, ValidateNoobaa env r}"

lemma serve_cases:
  obtains (client_error) m where "serve env decode body path = Ok (HttpError 400 m)"
  | (crash) "serve env decode body path = Panic"
  | (review) r v where "decode body = Some (Some r)" "v \<in> validators env r"
      "serve env decode body path = bind_r v (\<lambda>a. Ok (HttpReview a))"
proof (cases "body = [] \<or> path \<noteq> ''/validate'' \<or> decode body = None")
  case True
  then obtain m where "serve env decode body path = Ok (HttpError 400 m)"
    by (cases "body = []"; cases "path = ''/validate''") (auto simp: serve_def)
  then show thesis by (rule client_error)
next
  case False
  then obtain request where request: "decode body = Some request" "body \<noteq> []" "path = ''/validate''" by auto
  show thesis
  proof (cases request)
    case None
    with request crash show thesis by (simp add: serve_def)
  next
    case (Some r)
    let ?res = "req_Resource r"
    consider "?res \<in> {''backingstores'', ''namespacestores'', ''bucketclasses'', ''noobaaaccounts'', ''noobaas''}"
      | "?res \<notin> {''backingstores'', ''namespacestores'', ''bucketclasses'', ''noobaaaccounts'', ''noobaas''}"
      by blast
    then show thesis
    proof cases
      case 1
      with request Some have "\<exists>v \<in> validators env r. serve env decode body path = bind_r v (\<lambda>a. Ok (HttpReview a))"
        by (elim insertE emptyE) (simp_all add: serve_def validators_def)
      with request Some show thesis using review [of r] by auto
    next
      case 2
      with request Some client_error show thesis by (simp add: serve_def)
    qed
  qed
qed

lemma validators_verdict:
  assumes "v \<in> validators env r"
  shows "v \<noteq> Err e" and "v = Ok b \<Longrightarrow> b = NewValidator r \<or> (\<exists>m. b = SetValidationResult False m (NewValidator r))"
  using assms unfolding validators_def
  by (elim insertE emptyE; auto simp: bs_adm.no_error ns_adm.no_error bc_adm.no_error na_adm.no_error nb_adm.no_error
      dest: bs_adm.verdict ns_adm.verdict bc_adm.verdict na_adm.verdict nb_adm.verdict)+


definition ex_request :: "string \<Rightarrow> Operation \<Rightarrow> AdmissionRequest" where
  "ex_request res op' = \<lparr>req_UID = ''uid'', req_Resource = res, req_Operation = op', req_Object = ''new'',
     req_OldObject = ''old''\<rparr>"

definition ex_env :: adm_env where
  "ex_env = \<lparr>DeserializeBS = (\<lambda>s. ex_aws_bs ''data''), DeserializeNS = (\<lambda>s. ex_s3_ns (if s = ''new'' then ''https://h'' else ''h'')),
     DeserializeBC = (\<lambda>_. ex_bc), DeserializeNA = (\<lambda>_. ex_na), DeserializeNB = (\<lambda>_. ex_nb), env_Lookups = ex_lookups,
     env_ParseQuantity = ex_parse_quantity, env_PrintQuantity = show_int, env_Url = ex_url, env_ParseCIDR = (\<lambda>_. None),
     env_TLSDisabled = False, env_Namespace = ''noobaa'',
     env_ReadSystem = Ok \<lparr>si_Accounts = [], si_Buckets = [], si_Pools = [], si_NamespaceResources = []\<rparr>\<rparr>"

lemma ex_update_BS: "ValidateBackingstore ex_env (ex_request ''backingstores'' OpUpdate)
    = Ok (NewValidator (ex_request ''backingstores'' OpUpdate))"
  by (simp add: ValidateBackingstore_def ValidateUpdateBS_def ex_env_def ex_request_def ex_objects ValidateBackingStore_def
      bs_checks ValidateTargetBSBucketChange_def unchanged_def require_def)




text \<open>
  The bucket of an s3-compatible backing store is not protected: every update to a valid s3-compatible
  store is admitted, whatever the old target bucket was.
\<close>

theorem s3_compatible_bucket_update_admitted:
  assumes "req_Operation r = OpUpdate" "DeserializeBS env (req_Object r) = bs" "bs_Type bs = StoreTypeS3Compatible"
    and "valid_backing_spec (bs_Name bs) StoreTypeS3Compatible (bs_Spec bs)"
  shows "ValidateBackingstore env r = Ok (NewValidator r)"
proof -
  have "ValidateBackingStore (env_PrintQuantity env) bs = pass"
    using ValidateBackingStore_iff [of _ bs] assms(3,4) by simp
  with assms show ?thesis by (simp add: ValidateBackingstore_def ValidateUpdateBS_def)
qed

theorem s3_compatible_bucket_update_admitted_witness:
  "let env = ex_env\<lparr>DeserializeBS := (\<lambda>s. ex_s3_bs s)\<rparr>; r = ex_request ''backingstores'' OpUpdate in
   ValidateBackingstore env r = Ok (NewValidator r) \<and>
   GetBackingStoreTargetBucket (DeserializeBS env (req_Object r)) \<noteq> GetBackingStoreTargetBucket (DeserializeBS env (req_OldObject r))"
proof -
  let ?env = "ex_env\<lparr>DeserializeBS := (\<lambda>s. ex_s3_bs s)\<rparr>"
  have "ValidateBackingstore ?env (ex_request ''backingstores'' OpUpdate) = Ok (NewValidator (ex_request ''backingstores'' OpUpdate))"
    by (rule s3_compatible_bucket_update_admitted [where bs = "ex_s3_bs ''new''"])
      (simp_all add: ex_request_def ex_objects valid_sig_def)
  then show ?thesis
    by (simp add: Let_def ex_request_def GetBackingStoreTargetBucket_def ex_objects)
qed

text \<open>
  An admitted update of a namespace store leaves a valid specification at an equivalent endpoint, and, the
  type being the same, the target bucket is the old one.
\<close>

theorem namespace_store_update_admitted:
  assumes "adm_ValidateNamespaceStore env r = Ok a" "resp_Allowed a" "req_Operation r = OpUpdate"
    and "DeserializeNS env (req_Object r) = ns" "DeserializeNS env (req_OldObject r) = old"
  shows "valid_namespace_spec (env_Url env) (ns_Name ns) (ns_Type ns) (ns_Spec ns) \<and>
     (ns_Type old = ns_Type ns \<longrightarrow> GetNamespaceStoreTargetBucket ns = GetNamespaceStoreTargetBucket old) \<and>
     (\<forall>o' n. ns_Type ns = NSStoreTypeS3Compatible \<longrightarrow> nss_S3Compatible (ns_Spec old) = Some o' \<longrightarrow>
        nss_S3Compatible (ns_Spec ns) = Some n \<longrightarrow>
        EndpointsEquivalent (env_Url env) (s3c_Endpoint o') (s3c_Endpoint n) = Ok True)"
proof -
  obtain ns' where v: "ValidateNamespaceStore (env_Url env) ns = Ok ns'"
      "ValidateNSEndpointChange (env_Url env) ns old = pass"
      "ns_Type ns \<noteq> NSStoreTypeNSFS \<Longrightarrow> ValidateTargetNSBucketChange ns' old = pass"
    using allowed_update_NS [OF assms] by blast
  have same: "ns_Type ns' = ns_Type ns" "GetNamespaceStoreTargetBucket ns' = GetNamespaceStoreTargetBucket ns"
    using ValidateNamespaceStore_result [OF v(1)] by (simp_all add: same_but_endpoint_def)
  have "GetNamespaceStoreTargetBucket ns = GetNamespaceStoreTargetBucket old" if "ns_Type old = ns_Type ns"
    using that v(3) same ValidateTargetNSBucketChange_pass [of ns' old]
    by (cases "ns_Type ns = NSStoreTypeNSFS") (simp_all add: GetNamespaceStoreTargetBucket_def)
  moreover have "valid_namespace_spec (env_Url env) (ns_Name ns) (ns_Type ns) (ns_Spec ns)"
    using v(1) ValidateNamespaceStore_iff [of "env_Url env" ns] by simp
  ultimately show ?thesis
    using v(2) by (auto simp: ValidateNSEndpointChange_def endpoint_unchanged_pass)
qed

lemma ex_update_NS: "adm_ValidateNamespaceStore ex_env (ex_request ''namespacestores'' OpUpdate)
    = Ok (NewValidator (ex_request ''namespacestores'' OpUpdate))"
proof -
  have e: "EndpointsEquivalent ex_url ''h'' ''https://h'' = Ok True" by code_simp
  have n: "ValidateNamespaceStore ex_url (ex_s3_ns ''https://h'') = Ok (ex_s3_ns ''https://h'')"
    by (rule ex_s3_ns_validates)
  have c: "ValidateNSEndpointChange ex_url (ex_s3_ns ''https://h'') (ex_s3_ns ''h'') = pass"
    using e by (simp add: ValidateNSEndpointChange_def endpoint_unchanged_pass ex_objects)
  have "ValidateTargetNSBucketChange (ex_s3_ns ''https://h'') (ex_s3_ns ''h'') = pass"
    "ns_Type (ex_s3_ns ''https://h'') = NSStoreTypeS3Compatible"
    by (simp_all add: ValidateTargetNSBucketChange_def ex_objects)
  with n c show ?thesis
    by (simp add: adm_ValidateNamespaceStore_def ValidateUpdateNS_def ex_env_def ex_request_def outcome_def)
qed

theorem namespace_store_update_admitted_witness:
  "EndpointsEquivalent ex_url ''h'' ''https://h'' = Ok True"
proof -
  have "EndpointsEquivalent (env_Url ex_env) (s3c_Endpoint (ex_s3 ''data'' ''h'')) (s3c_Endpoint (ex_s3 ''data'' ''https://h'')) = Ok True"
    using namespace_store_update_admitted [OF ex_update_NS, of "ex_s3_ns ''https://h''" "ex_s3_ns ''h''"]
    by (simp add: NewValidator_def ex_request_def) (simp add: ex_env_def ex_s3_ns_def ex_ns_of_def)
  then show ?thesis by (simp add: ex_env_def ex_s3_def)
qed

text \<open>
  An admitted creation of a bucket class has sound policies: the vector and archive rules hold, there are
  one or two tiers, and every namespace store of its namespace policy exists, is ready and is not an archive.
\<close>

theorem bucket_class_creation_admitted:
  assumes "adm_ValidateBucketClass env r = Ok a" "resp_Allowed a" "req_Operation r = OpCreate"
    and "DeserializeBC env (req_Object r) = bc"
  shows "valid_vector (env_Lookups env) (bc_Namespace bc) (bc_Spec bc) \<and>
     valid_archive (env_Lookups env) (bc_Namespace bc) (bc_Spec bc) \<and>
     (\<forall>pp. bcs_PlacementPolicy (bc_Spec bc) = Some pp \<longrightarrow> length (pp_Tiers pp) \<in> {1, 2}) \<and>
     (\<forall>np. bcs_NamespacePolicy (bc_Spec bc) = Some np \<longrightarrow>
        (\<exists>names. GetBucketclassNamespaceStoreArray np = Ok names \<and>
          (\<forall>n \<in> set names. \<exists>ns. get_NamespaceStore (env_Lookups env) n (bc_Namespace bc) = Inr ns \<and>
             \<not> IsArchiveNamespaceStore (Some ns) \<and> nst_Phase (ns_Status ns) = NamespaceStorePhaseReady)))"
  using allowed_create_BC [OF assms]
  by (auto simp: ValidateTiersNumber_def ValidateNamespacePolicy_def bind_r_eq_Ok for_all_r_pass namespace_store_ready_pass)

theorem bucket_class_creation_admitted_witness:
  "length (pp_Tiers (the (bcs_PlacementPolicy ex_bc_spec))) \<in> {1, 2}"
proof -
  have "adm_ValidateBucketClass ex_env (ex_request ''bucketclasses'' OpCreate)
      = Ok (NewValidator (ex_request ''bucketclasses'' OpCreate))"
    by (simp add: adm_ValidateBucketClass_def ValidateCreateBC_def ex_env_def ex_request_def ex_objects
        bc_ValidateQuotaConfig_def ValidateTiersNumber_def ValidateArchivePolicy_def require_def)
  from bucket_class_creation_admitted [OF this, of ex_bc] show ?thesis
    by (simp add: NewValidator_def ex_request_def) (simp add: ex_env_def ex_bc_def ex_bc_spec_def)
qed

text \<open>
  With TLS checking on, creation and update of the system resource are admitted exactly when the autoscaler
  has its Prometheus namespace, the S3, STS and vectors subnets parse and the TLS specification is acceptable;
  deletion exactly when the cleanup policy allows it.
\<close>

theorem system_resource_admission:
  assumes "ValidateNoobaa env r = Ok a" "env_TLSDisabled env = False"
  shows "resp_Allowed a \<longleftrightarrow> (case req_Operation r of
       OpCreate \<Rightarrow> valid_noobaa (env_ParseCIDR env) (DeserializeNB env (req_Object r))
     | OpUpdate \<Rightarrow> valid_noobaa (env_ParseCIDR env) (DeserializeNB env (req_Object r))
     | OpDelete \<Rightarrow> nbs_AllowNoobaaDeletion (nb_Spec (DeserializeNB env (req_OldObject r)))
     | OpOther _ \<Rightarrow> True)"
proof -
  have v: "vcheck (ValidateNoobaaDeletion nb)" for nb by (simp add: ValidateNoobaaDeletion_def)
  show ?thesis
    using assms single_check_verdict [OF ValidateNoobaaUpdate_vcheck] single_check_verdict [OF v]
    by (auto simp: nb_handlers ValidateNoobaaCreation_eq ValidateNoobaaUpdate_iff simp del: run_checks.simps
        split: Operation.splits) (auto simp: NewValidator_def)
qed

theorem system_resource_admission_witness:
  "\<exists>a. ValidateNoobaa ex_env (ex_request ''noobaas'' OpDelete) = Ok a \<and> \<not> resp_Allowed a"
proof -
  obtain a where a: "ValidateNoobaa ex_env (ex_request ''noobaas'' OpDelete) = Ok a"
    by (simp add: ValidateNoobaa_def ValidateDeleteNoobaa_def ValidateNoobaaDeletion_def require_def ex_request_def
        ex_env_def ex_nb_def)
  have "\<not> resp_Allowed a"
    using system_resource_admission [OF a] by (simp add: ex_env_def ex_request_def ex_nb_def)
  with a show ?thesis by blast
qed

end
