(* ===== verification/Profiles.thy ===== *)
theory Profiles
  imports Quota BS_Validation
begin

text \<open>
  The performance profiles of \<^verbatim>\<open>pkg/system/performance_profiles.go\<close>: the table, its
  adjustment on IBM Z, and the effective resources and counts of a system.  A quantity literal such
  as \<^verbatim>\<open>500m\<close> or \<^verbatim>\<open>4Gi\<close> is written as the quantity it denotes.
\<close>

section \<open>The table\<close>

record performanceProfile =
  coreResources :: ResourceRequirements
  logResources :: ResourceRequirements
  dbResources :: ResourceRequirements
  endpointResources :: ResourceRequirements
  pvPoolResources :: ResourceRequirements
  endpointMinCount :: int
  endpointMaxCount :: int
  dbInstances :: int
  pvPoolNumVolumes :: int

definition Mi :: "int \<Rightarrow> quantity" where
  "Mi n = of_units (n * 1024 ^ 2)"

definition Gi :: "int \<Rightarrow> quantity" where
  "Gi n = of_units (n * 1024 ^ 3)"

definition profileResources :: "quantity \<Rightarrow> quantity \<Rightarrow> quantity \<Rightarrow> quantity \<Rightarrow> ResourceRequirements" where
  "profileResources cpuReq cpuLim memReq memLim =
     \<lparr>rr_Requests = [ResourceCPU \<mapsto> cpuReq, ResourceMemory \<mapsto> memReq],
      rr_Limits = [ResourceCPU \<mapsto> cpuLim, ResourceMemory \<mapsto> memLim]\<rparr>"

definition default_profile :: performanceProfile where
  "default_profile =
     \<lparr>coreResources = profileResources (of_milli 500) (of_units 1) (Gi 1) (Gi 4),
      logResources = profileResources (of_milli 200) (of_milli 200) (Mi 500) (Mi 500),
      dbResources = profileResources (of_units 1) (of_units 1) (Gi 2) (Gi 2),
      endpointResources = profileResources (of_milli 500) (of_units 2) (Gi 1) (Gi 3),
      pvPoolResources = profileResources (of_milli 400) (of_milli 400) (Mi 800) (Mi 800),
      endpointMinCount = 1, endpointMaxCount = 2, dbInstances = 2, pvPoolNumVolumes = 3\<rparr>"

definition profile_table :: "PerformanceProfileType \<rightharpoonup> performanceProfile" where
  "profile_table t = (case t of
     PerformanceProfileDefault \<Rightarrow> Some default_profile
   | PerformanceProfileMixedWorkload \<Rightarrow> Some
     \<lparr>coreResources = profileResources (of_units 1) (of_units 2) (Gi 2) (Gi 4),
      logResources = profileResources (of_milli 200) (of_milli 200) (Mi 500) (Mi 500),
      dbResources = profileResources (of_units 4) (of_units 4) (Gi 8) (Gi 8),
      endpointResources = profileResources (of_units 2) (of_units 4) (Gi 2) (Gi 4),
      pvPoolResources = profileResources (of_units 1) (of_units 1) (Gi 2) (Gi 2),
      endpointMinCount = 2, endpointMaxCount = 4, dbInstances = 2, pvPoolNumVolumes = 3\<rparr>
   | PerformanceProfileSmallObjects \<Rightarrow> Some
     \<lparr>coreResources = profileResources (of_units 1) (of_units 2) (Gi 2) (Gi 6),
      logResources = profileResources (of_milli 200) (of_milli 200) (Mi 500) (Mi 500),
      dbResources = profileResources (of_units 6) (of_units 6) (Gi 16) (Gi 16),
      endpointResources = profileResources (of_units 1) (of_units 4) (Gi 2) (Gi 4),
      pvPoolResources = profileResources (of_units 1) (of_units 1) (Gi 2) (Gi 2),
      endpointMinCount = 2, endpointMaxCount = 4, dbInstances = 2, pvPoolNumVolumes = 3\<rparr>
   | PerformanceProfileDevEnv \<Rightarrow> Some
     \<lparr>coreResources = profileResources (of_milli 500) (of_milli 500) (Gi 1) (Gi 1),
      logResources = profileResources (of_milli 200) (of_milli 200) (Mi 500) (Mi 500),
      dbResources = profileResources (of_units 1) (of_units 1) (Gi 2) (Gi 2),
      endpointResources = profileResources (of_milli 500) (of_milli 500) (Mi 500) (Mi 500),
      pvPoolResources = profileResources (of_milli 500) (of_milli 500) (Mi 500) (Mi 500),
      endpointMinCount = 1, endpointMaxCount = 1, dbInstances = 1, pvPoolNumVolumes = 1\<rparr>
   | PerformanceProfileMiniEnv \<Rightarrow> Some
     \<lparr>coreResources = profileResources (of_milli 100) (of_milli 100) (Gi 1) (Gi 1),
      logResources = profileResources (of_milli 50) (of_milli 50) (Mi 200) (Mi 200),
      dbResources = profileResources (of_milli 100) (of_milli 100) (Mi 500) (Mi 500),
      endpointResources = profileResources (of_milli 100) (of_milli 100) (Mi 500) (Mi 500),
      pvPoolResources = profileResources (of_milli 100) (of_milli 100) (Mi 400) (Mi 400),
      endpointMinCount = 1, endpointMaxCount = 1, dbInstances = 1, pvPoolNumVolumes = 1\<rparr>
   | _ \<Rightarrow> None)"

section \<open>IBM Z\<close>

definition ibmZCpuArch :: string where
  "ibmZCpuArch = ''s390x''"

text \<open>The constant 0.2 as a \<open>float64\<close>.\<close>

definition ibmZCpuAdjustFactor :: rat where
  "ibmZCpuAdjustFactor = rnd53 (1 / 5)"

text \<open>The conversion to \<open>int64\<close> truncates.\<close>

definition trunc_rat :: "rat \<Rightarrow> int" where
  "trunc_rat x = (if 0 \<le> x then \<lfloor>x\<rfloor> else \<lceil>x\<rceil>)"

definition adjustCpu :: "quantity \<Rightarrow> rat \<Rightarrow> quantity" where
  "adjustCpu cpuQty adjustFactor =
     of_milli (trunc_rat (rnd53 (rnd53 (of_int (q_MilliValue cpuQty)) * adjustFactor)))"

definition adjustCpuResourcesForIbmZ :: "ResourceRequirements \<Rightarrow> rat \<Rightarrow> ResourceRequirements" where
  "adjustCpuResourcesForIbmZ rr adjustFactor = (case rr_Requests rr ResourceCPU of
     Some cpuRequest \<Rightarrow> rr\<lparr>rr_Requests := (rr_Requests rr)(ResourceCPU \<mapsto> adjustCpu cpuRequest adjustFactor)\<rparr>
   | None \<Rightarrow> rr)"

definition adjust_profile :: "performanceProfile \<Rightarrow> performanceProfile" where
  "adjust_profile p =
     (let adj = (\<lambda>rr. adjustCpuResourcesForIbmZ rr ibmZCpuAdjustFactor) in
      p\<lparr>coreResources := adj (coreResources p), logResources := adj (logResources p),
        dbResources := adj (dbResources p), endpointResources := adj (endpointResources p),
        pvPoolResources := adj (pvPoolResources p)\<rparr>)"

text \<open>The table after \<open>init\<close> on an architecture.\<close>

definition performanceProfiles :: "string \<Rightarrow> PerformanceProfileType \<rightharpoonup> performanceProfile" where
  "performanceProfiles goarch t =
     (if goarch \<noteq> ibmZCpuArch then profile_table t else map_option adjust_profile (profile_table t))"

section \<open>Effective settings\<close>

definition lookupProfile :: "string \<Rightarrow> NooBaa \<Rightarrow> performanceProfile" where
  "lookupProfile goarch nb =
     (case performanceProfiles goarch (nbs_PerformanceProfile (nb_Spec nb)) of
        Some p \<Rightarrow> p
      | None \<Rightarrow> the (performanceProfiles goarch PerformanceProfileDefault))"

definition getCoreResources :: "string \<Rightarrow> NooBaa \<Rightarrow> ResourceRequirements" where
  "getCoreResources goarch nb = (case nbs_CoreResources (nb_Spec nb) of
     Some r \<Rightarrow> r | None \<Rightarrow> coreResources (lookupProfile goarch nb))"

definition getLogResources :: "string \<Rightarrow> NooBaa \<Rightarrow> ResourceRequirements" where
  "getLogResources goarch nb = (case nbs_LogResources (nb_Spec nb) of
     Some r \<Rightarrow> r | None \<Rightarrow> logResources (lookupProfile goarch nb))"

definition getDBResources :: "string \<Rightarrow> NooBaa \<Rightarrow> ResourceRequirements" where
  "getDBResources goarch nb = (case nbs_DBSpec (nb_Spec nb) of
     Some db \<Rightarrow> (case db_DBResources db of Some r \<Rightarrow> r | None \<Rightarrow> dbResources (lookupProfile goarch nb))
   | None \<Rightarrow> dbResources (lookupProfile goarch nb))"

definition getEndpointResources :: "string \<Rightarrow> NooBaa \<Rightarrow> ResourceRequirements" where
  "getEndpointResources goarch nb = (case nbs_Endpoints (nb_Spec nb) of
     Some ep \<Rightarrow> (case ep_Resources ep of Some r \<Rightarrow> r | None \<Rightarrow> endpointResources (lookupProfile goarch nb))
   | None \<Rightarrow> endpointResources (lookupProfile goarch nb))"

definition getDBInstances :: "string \<Rightarrow> NooBaa \<Rightarrow> int" where
  "getDBInstances goarch nb = (case nbs_DBSpec (nb_Spec nb) of
     Some db \<Rightarrow> (case db_Instances db of Some n \<Rightarrow> n | None \<Rightarrow> dbInstances (lookupProfile goarch nb))
   | None \<Rightarrow> dbInstances (lookupProfile goarch nb))"

definition getPVPoolNumVolumes :: "string \<Rightarrow> NooBaa \<Rightarrow> int \<Rightarrow> int" where
  "getPVPoolNumVolumes goarch nb existingVolumes =
     (let profile = lookupProfile goarch nb;
          profileType = nbs_PerformanceProfile (nb_Spec nb) in
      if existingVolumes \<le> 0 then pvPoolNumVolumes profile
      else if profileType = PerformanceProfileNone \<or> profileType = PerformanceProfileDefault then existingVolumes
      else if existingVolumes < pvPoolNumVolumes profile then pvPoolNumVolumes profile
      else existingVolumes)"

definition getEndpointMinMax :: "string \<Rightarrow> NooBaa \<Rightarrow> int \<times> int" where
  "getEndpointMinMax goarch nb =
     (let profile = lookupProfile goarch nb;
          minCount = endpointMinCount profile;
          maxCount = endpointMaxCount profile
      in case nbs_Endpoints (nb_Spec nb) of
           None \<Rightarrow> (minCount, maxCount)
         | Some ep \<Rightarrow> (if 0 < ep_MinCount ep then ep_MinCount ep else minCount,
                       if 0 < ep_MaxCount ep then ep_MaxCount ep else maxCount))"

definition GetPVPoolResources :: "bool \<Rightarrow> string \<Rightarrow> NooBaa \<Rightarrow> ResourceRequirements" where
  "GetPVPoolResources isTestEnv goarch nb =
     (if isTestEnv then profileResources (of_milli 50) (of_milli 50) (Mi 200) (Mi 200)
      else pvPoolResources (lookupProfile goarch nb))"

section \<open>The adjusted requests\<close>

text \<open>Rounding a number whose scaled value is close to an integer.\<close>

lemma scaled_pos: "2 ^ 52 \<le> x * 2 ^ k \<Longrightarrow> 0 < x" for x :: rat
proof (rule ccontr)
  assume a: "2 ^ 52 \<le> x * 2 ^ k" and "\<not> 0 < x"
  then have "x * 2 ^ k \<le> 0" by (intro mult_nonpos_nonneg) simp_all
  then show False using a by simp
qed

lemma scale_up_eq: "2 ^ 52 \<le> x * 2 ^ k \<Longrightarrow> x * 2 ^ k < 2 ^ 53 \<Longrightarrow> scale_up x = k"
proof (induction k arbitrary: x)
  case 0
  then show ?case by (subst scale_up.simps) simp
next
  case (Suc k)
  have pos: "0 < x" by (rule scaled_pos [OF Suc.prems(1)])
  have "x * 2 \<le> x * 2 ^ Suc k" using pos by simp
  then have "x < 2 ^ 52" using Suc.prems(2) by simp
  moreover have "scale_up (2 * x) = k" using Suc.prems by (intro Suc.IH) (simp_all add: mult.assoc mult.left_commute)
  ultimately show ?case using pos by (subst scale_up.simps) simp
qed

lemma round_even_near: "\<bar>y - of_int m\<bar> < 1 / 2 \<Longrightarrow> round_even y = m"
proof -
  assume a: "\<bar>y - of_int m\<bar> < 1 / 2"
  show ?thesis
  proof (cases "of_int m \<le> y")
    case True
    then have "\<lfloor>y\<rfloor> = m" using a by (intro floor_unique) (simp_all add: abs_if split: if_splits)
    then show ?thesis using a True by (simp add: round_even_def Let_def)
  next
    case False
    then have "\<lfloor>y\<rfloor> = m - 1" using a by (intro floor_unique) (simp_all add: abs_if split: if_splits)
    then show ?thesis using a False by (simp add: round_even_def Let_def abs_if split: if_splits)
  qed
qed

lemma rnd53_near:
  assumes "2 ^ 52 \<le> x * 2 ^ k" "x * 2 ^ k < 2 ^ 53" "\<bar>x * 2 ^ k - of_int m\<bar> < 1 / 2"
  shows "rnd53 x = of_int m / 2 ^ k"
proof -
  have pos: "0 < x" by (rule scaled_pos [OF assms(1)])
  have "x \<le> x * 2 ^ k" using pos by simp
  then have "x < 2 ^ 53" using assms(2) by linarith
  then show ?thesis
    using pos scale_up_eq [OF assms(1,2)] round_even_near [OF assms(3)] by (simp add: rnd53_def rnd53_pos_def Let_def)
qed

text \<open>Every positive integer below \<open>2 ^ 52\<close> has a binary scale.\<close>

lemma binary_scale:
  fixes c :: int
  assumes "0 < c" "c < 2 ^ 52"
  obtains k where "2 ^ 52 \<le> c * 2 ^ k" "c * 2 ^ k < 2 ^ 53"
proof -
  have "\<exists>k. 2 ^ 52 \<le> c * 2 ^ k \<and> c * 2 ^ k < 2 ^ 53"
    using assms
  proof (induction "nat (2 ^ 52 - c)" arbitrary: c rule: less_induct)
    case less
    show ?case
    proof (cases "2 ^ 51 \<le> c")
      case True
      then show ?thesis using less.prems by (intro exI [of _ 1]) simp
    next
      case False
      then obtain k where "2 ^ 52 \<le> 2 * c * 2 ^ k" "2 * c * 2 ^ k < 2 ^ 53"
        using less.hyps [of "2 * c"] less.prems by auto
      then show ?thesis by (intro exI [of _ "Suc k"]) simp
    qed
  qed
  then show ?thesis using that by blast
qed

lemma rnd53_integer: "0 < c \<Longrightarrow> c < 2 ^ 52 \<Longrightarrow> rnd53 (of_int c) = of_int c"
proof (rule binary_scale [of c])
  fix k assume k: "2 ^ 52 \<le> c * 2 ^ k" "c * 2 ^ k < 2 ^ 53"
  then have "(of_int (2 ^ 52) :: rat) \<le> of_int (c * 2 ^ k)" "(of_int (c * 2 ^ k) :: rat) < of_int (2 ^ 53)"
    by (simp_all only: of_int_le_iff of_int_less_iff)
  then show "rnd53 (of_int c) = of_int c"
    by (subst rnd53_near [where k = k and m = "c * 2 ^ k"]) simp_all
qed simp_all

text \<open>
  The constant is slightly above one fifth, by less than a unit in the last place of any product, so the
  product of a multiple of five is exact.
\<close>

lemma factor_value: "ibmZCpuAdjustFactor = (2 ^ 54 + 1) / (5 * 2 ^ 54)"
  unfolding ibmZCpuAdjustFactor_def
  by (subst rnd53_near [where k = 55 and m = 7205759403792794]) simp_all

lemma rnd53_fifth:
  assumes "0 < c" "c < 2 ^ 52"
  shows "rnd53 (of_int (5 * c) * ibmZCpuAdjustFactor) = of_int c"
proof (rule binary_scale [OF assms])
  fix k assume k: "2 ^ 52 \<le> c * 2 ^ k" "c * 2 ^ k < 2 ^ 53"
  let ?x = "of_int (5 * c) * ibmZCpuAdjustFactor"
  let ?y = "of_int (c * 2 ^ k) :: rat"
  have y: "2 ^ 52 \<le> ?y" "?y \<le> 2 ^ 53 - 1"
  proof -
    have "(of_int (2 ^ 52) :: rat) \<le> ?y" using k(1) by (simp only: of_int_le_iff)
    then show "2 ^ 52 \<le> ?y" by simp
    have "?y \<le> (of_int (2 ^ 53 - 1) :: rat)" using k(2) by (simp only: of_int_le_iff)
    then show "?y \<le> 2 ^ 53 - 1" by simp
  qed
  have x: "?x * 2 ^ k = ?y + ?y / 2 ^ 54"
    by (simp add: factor_value field_simps)
  have "rnd53 ?x = of_int (c * 2 ^ k) / 2 ^ k"
  proof (rule rnd53_near)
    show "2 ^ 52 \<le> ?x * 2 ^ k" unfolding x using y(1) by simp
    show "?x * 2 ^ k < 2 ^ 53" unfolding x using y(2) by (simp add: field_simps)
    show "\<bar>?x * 2 ^ k - of_int (c * 2 ^ k)\<bar> < 1 / 2" unfolding x using y by (simp add: field_simps)
  qed
  then show ?thesis by simp
qed

lemma adjustCpu_fifth:
  "0 < c \<Longrightarrow> c < 2 ^ 49 \<Longrightarrow> adjustCpu (of_milli (5 * c)) ibmZCpuAdjustFactor = of_milli c"
  by (simp add: adjustCpu_def rnd53_integer rnd53_fifth trunc_rat_def del: of_int_mult of_int_numeral)

section \<open>Invariants of the table\<close>

definition requests_within :: "ResourceRequirements \<Rightarrow> bool" where
  "requests_within rr \<longleftrightarrow> list_all (\<lambda>r. case (rr_Requests rr r, rr_Limits rr r) of
     (Some q, Some l) \<Rightarrow> 0 < q \<and> q \<le> l | _ \<Rightarrow> False) [ResourceCPU, ResourceMemory]"

definition resource_groups :: "performanceProfile \<Rightarrow> ResourceRequirements list" where
  "resource_groups p = [coreResources p, logResources p, dbResources p, endpointResources p, pvPoolResources p]"

definition profile_ok :: "performanceProfile \<Rightarrow> bool" where
  "profile_ok p \<longleftrightarrow> list_all requests_within (resource_groups p) \<and>
     1 \<le> endpointMinCount p \<and> endpointMinCount p \<le> endpointMaxCount p \<and> 1 \<le> dbInstances p \<and> 1 \<le> pvPoolNumVolumes p"

text \<open>A group whose CPU request is divided by five and that is otherwise the same.\<close>

definition fifth_of :: "ResourceRequirements \<Rightarrow> ResourceRequirements \<Rightarrow> bool" where
  "fifth_of rr' rr \<longleftrightarrow> rr_Limits rr' = rr_Limits rr \<and>
     (\<exists>q. rr_Requests rr ResourceCPU = Some (5 * q) \<and> rr_Requests rr' = (rr_Requests rr)(ResourceCPU \<mapsto> q))"

lemma of_units_milli: "of_units n = of_milli (1000 * n)"
  by (simp add: of_units_def of_milli_def)

lemma fifth_of_profileResources:
  "fifth_of (adjustCpuResourcesForIbmZ (profileResources (of_milli (5 * c)) l m m') ibmZCpuAdjustFactor)
     (profileResources (of_milli (5 * c)) l m m')"
  if "0 < c" "c < 2 ^ 49"
  using adjustCpu_fifth [OF that]
  by (simp add: fifth_of_def adjustCpuResourcesForIbmZ_def profileResources_def)
    (auto simp: of_milli_def fun_eq_iff)

lemma fifth_of_within: "fifth_of rr' rr \<Longrightarrow> requests_within rr \<Longrightarrow> requests_within rr'"
  by (auto simp: fifth_of_def requests_within_def split: option.splits)

lemma adjust_profile_groups:
  "resource_groups (adjust_profile p) =
     map (\<lambda>rr. adjustCpuResourcesForIbmZ rr ibmZCpuAdjustFactor) (resource_groups p)"
  by (simp add: resource_groups_def adjust_profile_def Let_def)

lemma adjust_profile_counts [simp]:
  "endpointMinCount (adjust_profile p) = endpointMinCount p" "endpointMaxCount (adjust_profile p) = endpointMaxCount p"
  "dbInstances (adjust_profile p) = dbInstances p" "pvPoolNumVolumes (adjust_profile p) = pvPoolNumVolumes p"
  by (simp_all add: adjust_profile_def Let_def)

lemma fifths_of_table:
  assumes "profile_table t = Some p"
  shows "list_all2 fifth_of (resource_groups (adjust_profile p)) (resource_groups p)"
proof -
  have f: "fifth_of (adjustCpuResourcesForIbmZ (profileResources (of_milli n) l m m') ibmZCpuAdjustFactor)
      (profileResources (of_milli n) l m m')" if "n \<in> {50, 100, 200, 400, 500, 1000, 2000, 4000, 6000}" for n l m m'
  proof -
    have "n = 5 * (n div 5)" "0 < n div 5" "n div 5 < 2 ^ 49" using that by auto
    then show ?thesis using fifth_of_profileResources by metis
  qed
  show ?thesis
    using assms unfolding adjust_profile_groups
    by (auto simp: profile_table_def default_profile_def resource_groups_def of_units_milli f
        split: PerformanceProfileType.splits)
qed

lemma profile_ok_table: "profile_table t = Some p \<Longrightarrow> profile_ok p"
  by (auto simp: profile_table_def default_profile_def profile_ok_def resource_groups_def requests_within_def
      profileResources_def of_units_def of_milli_def Mi_def Gi_def split: PerformanceProfileType.splits)

lemma list_all_fifth: "list_all2 fifth_of xs ys \<Longrightarrow> list_all requests_within ys \<Longrightarrow> list_all requests_within xs"
  by (induction rule: list_all2_induct) (auto intro: fifth_of_within)

lemma profile_ok_adjusted: "profile_table t = Some p \<Longrightarrow> profile_ok (adjust_profile p)"
  using profile_ok_table [of t p] list_all_fifth [OF fifths_of_table, of t p] by (auto simp: profile_ok_def)

lemma profile_table_default: "profile_table PerformanceProfileDefault = Some default_profile"
  by (simp add: profile_table_def)

text \<open>The profile a system gets is one of the table, adjusted on IBM Z.\<close>

lemma lookupProfile_table:
  obtains t p where "profile_table t = Some p"
    "lookupProfile goarch nb = (if goarch = ibmZCpuArch then adjust_profile p else p)"
    "lookupProfile other nb = (if other = ibmZCpuArch then adjust_profile p else p)"
proof (cases "profile_table (nbs_PerformanceProfile (nb_Spec nb))")
  case None
  then show ?thesis
    using that [OF profile_table_default] by (auto simp: lookupProfile_def performanceProfiles_def profile_table_default)
next
  case (Some p)
  then show ?thesis using that [OF Some] by (auto simp: lookupProfile_def performanceProfiles_def)
qed

section \<open>Properties\<close>

text \<open>
  Whatever profile a system names, also one that does not exist, and on every architecture, the profile it
  gets asks for no more CPU or memory than the limit of each component, has at least one endpoint, database
  instance and volume, and a minimum number of endpoints that does not exceed the maximum; and on IBM Z every CPU
  request is exactly one fifth of the one elsewhere, in spite of the binary rounding of 0.2, the rest being equal.
\<close>

theorem effective_profile:
  "profile_ok (lookupProfile goarch nb) \<and>
   list_all2 fifth_of (resource_groups (lookupProfile ''s390x'' nb)) (resource_groups (lookupProfile ''amd64'' nb))"
proof
  show "profile_ok (lookupProfile goarch nb)"
    by (rule lookupProfile_table [of goarch nb]) (auto intro: profile_ok_table profile_ok_adjusted)
  obtain t p where p: "profile_table t = Some p"
    "lookupProfile ''s390x'' nb = adjust_profile p" "lookupProfile ''amd64'' nb = p"
    using lookupProfile_table [of "''s390x''" nb "''amd64''"] by (auto simp: ibmZCpuArch_def)
  show "list_all2 fifth_of (resource_groups (lookupProfile ''s390x'' nb)) (resource_groups (lookupProfile ''amd64'' nb))"
    unfolding p(2,3) by (rule fifths_of_table [OF p(1)])
qed

text \<open>
  Choosing another profile never shrinks the default pool: the number of volumes computed for an existing pool
  is at least the present one, is what the admission check on scaling down accepts, and is the present one unless a
  non-default profile asks for more; a new pool gets the number of its profile.
\<close>

theorem pool_volumes_never_shrink:
  assumes "bss_PVPool (bs_Spec bs) = Some pv" and "0 < pv_NumVolumes pv"
  shows "pv_NumVolumes pv \<le> getPVPoolNumVolumes goarch nb (pv_NumVolumes pv) \<and>
     ValidatePvpoolScaleDown (bs\<lparr>bs_Spec := (bs_Spec bs)\<lparr>bss_PVPool :=
       Some (pv\<lparr>pv_NumVolumes := getPVPoolNumVolumes goarch nb (pv_NumVolumes pv)\<rparr>)\<rparr>\<rparr>) bs = pass \<and>
     (nbs_PerformanceProfile (nb_Spec nb) \<in> {PerformanceProfileNone, PerformanceProfileDefault} \<longrightarrow>
        getPVPoolNumVolumes goarch nb (pv_NumVolumes pv) = pv_NumVolumes pv) \<and>
     getPVPoolNumVolumes goarch nb 0 = pvPoolNumVolumes (lookupProfile goarch nb)"
  using assms by (auto simp: getPVPoolNumVolumes_def ValidatePvpoolScaleDown_def Let_def require_def)

theorem pool_volumes_never_shrink_witness:
  "3 \<le> getPVPoolNumVolumes ''amd64'' ex_nb 3"
  using pool_volumes_never_shrink [of "ex_pool_bs 3" "ex_pool 3" "''amd64''" ex_nb] by (simp add: ex_objects)

end
