(* ===== verification/Leader_Elect.thy ===== *)
theory Leader_Elect
  imports Profiles
begin

text \<open>
  The leader-election wrapper of \<^verbatim>\<open>pkg/leaderelect\<close>: its configuration, and the goroutines
  of a running wrapper (the signal handler, the callback that runs the child, the reaper and the main
  goroutine) as an interleaving step relation over the fields of \<open>runner\<close>.
\<close>

section \<open>Durations\<close>

text \<open>
  A \<open>time.Duration\<close> is a number of nanoseconds.  The durations of a configuration come from
  \<open>durationFromEnv\<close>, which only returns positive ones (its fallbacks are positive), so the differences
  and sums below stay in the range of \<open>int64\<close>.
\<close>

type_synonym duration = int

abbreviation Second :: duration where "Second \<equiv> 10 ^ 9"

text \<open>\<open>time.ParseDuration\<close>: an optional sign and a non-empty sequence of decimal numbers with units.\<close>

fun leading_int :: "nat \<Rightarrow> string \<Rightarrow> (nat \<times> string) option" where
  "leading_int x [] = Some (x, [])"
| "leading_int x (c # cs) = (case digit c of
     None \<Rightarrow> Some (x, c # cs)
   | Some d \<Rightarrow> if 2 ^ 63 div 10 < x then None
               else if 2 ^ 63 < 10 * x + d then None else leading_int (10 * x + d) cs)"

fun leading_fraction :: "nat \<Rightarrow> nat \<Rightarrow> bool \<Rightarrow> string \<Rightarrow> nat \<times> nat \<times> string" where
  "leading_fraction x digits overflow [] = (x, digits, [])"
| "leading_fraction x digits overflow (c # cs) = (case digit c of
     None \<Rightarrow> (x, digits, c # cs)
   | Some d \<Rightarrow> if overflow \<or> (2 ^ 63 - 1) div 10 < x \<or> 2 ^ 63 < 10 * x + d then leading_fraction x digits True cs
               else leading_fraction (10 * x + d) (Suc digits) False cs)"

definition unit_char :: "char \<Rightarrow> bool" where
  "unit_char c \<longleftrightarrow> c \<noteq> CHR ''.'' \<and> digit c = None"

definition duration_unit :: "string \<Rightarrow> nat option" where
  "duration_unit u = map_of
     [(''ns'', 1), (''us'', 10 ^ 3), ([byte 194, byte 181, CHR ''s''], 10 ^ 3), ([byte 206, byte 188, CHR ''s''], 10 ^ 3),
      (''ms'', 10 ^ 6), (''s'', 10 ^ 9), (''m'', 60 * 10 ^ 9), (''h'', 3600 * 10 ^ 9)] u"

text \<open>One number with its unit: the nanoseconds it stands for and the rest of the text.\<close>

definition duration_item :: "string \<Rightarrow> (nat \<times> string) option" where
  "duration_item s =
     (if s = [] \<or> \<not> (hd s = CHR ''.'' \<or> digit (hd s) \<noteq> None) then None
      else case leading_int 0 s of
        None \<Rightarrow> None
      | Some (v, s1) \<Rightarrow>
          (let pre = length s1 < length s;
               (f, digits, s2, post) =
                 (case s1 of
                    c # cs \<Rightarrow>
                      if c = CHR ''.''
                      then (case leading_fraction 0 0 False cs of (f, n, s2) \<Rightarrow> (f, n, s2, length s2 < length cs))
                      else (0, 0, s1, False)
                  | [] \<Rightarrow> (0, 0, s1, False))
           in if \<not> pre \<and> \<not> post then None
              else (let u = takeWhile unit_char s2 in
                    if u = [] then None
                    else case duration_unit u of
                      None \<Rightarrow> None
                    | Some unit \<Rightarrow>
                        if 2 ^ 63 div unit < v then None
                        else (let v1 = v * unit;
                                  v2 = (if 0 < f
                                        then v1 + nat (trunc_rat (rnd53 (rnd53 (of_nat f) *
                                               rnd53 (of_nat unit / 10 ^ digits))))
                                        else v1)
                              in if 2 ^ 63 < v2 then None else Some (v2, drop (length u) s2)))))"

lemma leading_int_length: "leading_int x s = Some (v, r) \<Longrightarrow> length r \<le> length s"
  by (induction x s arbitrary: v r rule: leading_int.induct) (auto split: option.splits if_splits intro: le_SucI)

lemma leading_fraction_length: "leading_fraction x n b s = (f, m, r) \<Longrightarrow> length r \<le> length s"
  by (induction x n b s arbitrary: f m r rule: leading_fraction.induct)
    (auto split: option.splits if_splits intro: le_SucI)

lemma duration_item_length: "duration_item s = Some (v, r) \<Longrightarrow> length r < length s"
proof -
  assume item: "duration_item s = Some (v, r)"
  then obtain w s1 where s1: "leading_int 0 s = Some (w, s1)"
    by (auto simp: duration_item_def split: if_splits option.splits)
  have "length s1 \<le> length s" by (rule leading_int_length [OF s1])
  with item s1 show ?thesis
    by (auto simp: duration_item_def Let_def split: if_splits option.splits list.splits prod.splits
        dest!: leading_fraction_length)
qed

function duration_sum :: "nat \<Rightarrow> string \<Rightarrow> nat option" where
  "duration_sum d s =
     (if s = [] then Some d
      else case duration_item s of
        None \<Rightarrow> None
      | Some (v, r) \<Rightarrow> if 2 ^ 63 < d + v then None else duration_sum (d + v) r)"
  by auto
termination
  by (relation "measure (\<lambda>(d, s). length s)") (auto dest: duration_item_length)

declare duration_sum.simps [simp del]

definition ParseDuration :: "string \<Rightarrow> duration option" where
  "ParseDuration s =
     (let (neg, t) = split_sign s in
      if t = ''0'' then Some 0
      else if t = [] then None
      else case duration_sum 0 t of
        None \<Rightarrow> None
      | Some d \<Rightarrow> if neg then Some (- int d) else if 2 ^ 63 - 1 < d then None else Some (int d))"

section \<open>Configuration\<close>

record Config =
  LeaseName :: string
  LeaseDuration :: duration
  RenewDeadline :: duration
  RetryPeriod :: duration
  ShutdownGrace :: duration
  LostGrace :: duration
  Command :: "string list"

abbreviation "defaultLeaseDuration \<equiv> 20 * Second"
abbreviation "defaultRenewDeadline \<equiv> 10 * Second"
abbreviation "defaultRetryPeriod \<equiv> 3 * Second"
abbreviation "defaultShutdownGrace \<equiv> 25 * Second"
abbreviation "defaultLostGrace \<equiv> 8 * Second"
abbreviation "childSigkillWait \<equiv> 5 * Second"
abbreviation "leaseReleaseMargin \<equiv> 10 * Second"

abbreviation exitOK :: int where "exitOK \<equiv> 0"
abbreviation exitConfig :: int where "exitConfig \<equiv> 1"
abbreviation exitLost :: int where "exitLost \<equiv> 2"

definition RecommendedTerminationGracePeriod :: "duration \<Rightarrow> int" where
  "RecommendedTerminationGracePeriod shutdownGrace =
     (let g = (if shutdownGrace \<le> 0 then defaultShutdownGrace else shutdownGrace)
      in quot64 (wrap64 (g + childSigkillWait + leaseReleaseMargin)) Second)"

text \<open>\<open>os.Getenv\<close> of an unset variable is the empty string.\<close>

type_synonym environ = "string \<Rightarrow> string"

definition durationFromEnv :: "environ \<Rightarrow> string \<Rightarrow> duration \<Rightarrow> duration" where
  "durationFromEnv env key fallback =
     (let raw = TrimSpace (env key) in
      if raw = [] then fallback
      else case ParseDuration raw of
        None \<Rightarrow> fallback
      | Some d \<Rightarrow> if d \<le> 0 then fallback else d)"

definition commandFromArgs :: "string list \<Rightarrow> string list" where
  "commandFromArgs args = (case args of
     [] \<Rightarrow> []
   | a # as \<Rightarrow> if a = ''--'' then as else args)"

definition defaultConfig :: "environ \<Rightarrow> Config" where
  "defaultConfig env =
     \<lparr>LeaseName = env ''NOOBAA_CORE_LEASE_NAME'',
      LeaseDuration = durationFromEnv env ''NOOBAA_CORE_LEASE_DURATION'' defaultLeaseDuration,
      RenewDeadline = durationFromEnv env ''NOOBAA_CORE_RENEW_DEADLINE'' defaultRenewDeadline,
      RetryPeriod = durationFromEnv env ''NOOBAA_CORE_RETRY_PERIOD'' defaultRetryPeriod,
      ShutdownGrace = durationFromEnv env ''NOOBAA_CORE_SHUTDOWN_GRACE'' defaultShutdownGrace,
      LostGrace = durationFromEnv env ''NOOBAA_CORE_LOST_GRACE'' defaultLostGrace,
      Command = []\<rparr>"

text \<open>The errors of \<open>Validate\<close>, with the values they print.\<close>

datatype config_error =
    NilConfig | MissingLeaseName | MissingCommand
  | LeaseNotAboveRenew duration duration
  | LostGraceTooLong duration duration
  | RetryNotPositive duration
  | RenewNotAboveRetry duration duration

text \<open>The jitter factor 1.2 of the leader-election package, as a \<open>float64\<close>.\<close>

definition JitterFactor :: rat where
  "JitterFactor = rnd53 (6 / 5)"

definition minRenew :: "duration \<Rightarrow> duration" where
  "minRenew retry = trunc_rat (rnd53 (JitterFactor * rnd53 (of_int retry)))"

definition Validate :: "Config option \<Rightarrow> config_error option" where
  "Validate c = (case c of
     None \<Rightarrow> Some NilConfig
   | Some c \<Rightarrow>
       (let maxLost = LeaseDuration c - RenewDeadline c in
        if LeaseName c = [] then Some MissingLeaseName
        else if Command c = [] then Some MissingCommand
        else if maxLost \<le> 0 then Some (LeaseNotAboveRenew (LeaseDuration c) (RenewDeadline c))
        else if maxLost \<le> LostGrace c then Some (LostGraceTooLong (LostGrace c) maxLost)
        else if RetryPeriod c \<le> 0 then Some (RetryNotPositive (RetryPeriod c))
        else if RenewDeadline c \<le> minRenew (RetryPeriod c)
             then Some (RenewNotAboveRetry (RenewDeadline c) (minRenew (RetryPeriod c)))
        else None))"

definition ParseArgs :: "environ \<Rightarrow> string list \<Rightarrow> config_error + Config" where
  "ParseArgs env args =
     (let cfg = (defaultConfig env)\<lparr>Command := commandFromArgs args\<rparr>
      in case Validate (Some cfg) of Some e \<Rightarrow> Inl e | None \<Rightarrow> Inr cfg)"

text \<open>The namespace and the identity of the lease.\<close>

definition resolveNamespace :: "environ \<Rightarrow> string option \<Rightarrow> string \<Rightarrow> string" where
  "resolveNamespace env saFile defaultNamespace =
     (if env ''POD_NAMESPACE'' \<noteq> [] then env ''POD_NAMESPACE''
      else case saFile of
        Some text \<Rightarrow> if TrimSpace text \<noteq> [] then TrimSpace text else defaultNamespace
      | None \<Rightarrow> defaultNamespace)"

definition leaderIdentity :: "string option \<Rightarrow> string \<Rightarrow> string" where
  "leaderIdentity hostname uid =
     (case hostname of None \<Rightarrow> ''unknown'' | Some h \<Rightarrow> if h = [] then ''unknown'' else h) @ ''_'' @ uid"

lemma durationFromEnv_pos: "0 < fallback \<Longrightarrow> 0 < durationFromEnv env key fallback"
  by (auto simp: durationFromEnv_def Let_def split: option.splits)

lemma ParseArgs_durations:
  "ParseArgs env args = Inr cfg \<Longrightarrow>
     list_all (\<lambda>d. 0 < d) [LeaseDuration cfg, RenewDeadline cfg, RetryPeriod cfg, ShutdownGrace cfg, LostGrace cfg]"
  by (auto simp: ParseArgs_def defaultConfig_def Let_def durationFromEnv_pos split: option.splits)


text \<open>An environment that sets only the lease name, and the default retry period with its jitter.\<close>

definition ex_environ :: environ where
  "ex_environ k = (if k = ''NOOBAA_CORE_LEASE_NAME'' then ''core'' else [])"

lemma JitterFactor_value: "JitterFactor = 5404319552844595 / 2 ^ 52"
  unfolding JitterFactor_def by (subst rnd53_near [where k = 52 and m = 5404319552844595]) simp_all

lemma minRenew_default: "minRenew 3000000000 = 3600000000"
proof -
  have "rnd53 (of_int 3000000000) = 3000000000"
    by (subst rnd53_integer) simp_all
  moreover have "rnd53 (5404319552844595 / 2 ^ 52 * 3000000000) = of_int 7549747200000000 / 2 ^ 21"
    by (rule rnd53_near) simp_all
  ultimately show ?thesis
    by (simp add: minRenew_def JitterFactor_value trunc_rat_def)
qed

lemma ex_config:
  "ParseArgs ex_environ [''--'', ''node''] = Inr ((defaultConfig ex_environ)\<lparr>Command := [''node'']\<rparr>)"
  by (simp add: ParseArgs_def Validate_def defaultConfig_def durationFromEnv_def ex_environ_def commandFromArgs_def
      minRenew_default)


section \<open>A running wrapper\<close>

text \<open>
  The child process: its state as the kernel sees it, and the signals the wrapper has sent to its group.
\<close>

datatype wait_status = WExited int | WSignaled int | WOther

definition waitStatusExitCode :: "wait_status \<Rightarrow> int" where
  "waitStatusExitCode status = (case status of
     WExited c \<Rightarrow> c | WSignaled s \<Rightarrow> 128 + s | WOther \<Rightarrow> exitConfig)"

datatype child = NotStarted | Running | Terminated wait_status

text \<open>
  The elector of the client library: waiting for the lease, holding it, or stopped.  Its documented behaviour is
  that \<open>Run\<close> returns once its context is cancelled or the lease is lost, that the callback
  \<open>OnStartedLeading\<close> runs asynchronously, and that the context of the callback is done when the election
  loop has stopped.
\<close>

datatype elector = Electing | Leading | Stopped

text \<open>Where a call of \<open>stopChild\<close> is.\<close>

datatype stop_pc = StopMark | StopTerm | StopWait | StopKill | StopKilled | StopReturn

datatype sig_pc = SigIdle | SigStop stop_pc | SigCancel | SigEnd

datatype lead_pc =
    LeadNone | LeadStart | LeadSpawnFailed | LeadSpawnCancel | LeadPublish | LeadCheck bool | LeadStopEarly stop_pc
  | LeadSelect | LeadChildDone | LeadChildExit | LeadChildCancel | LeadCtxDone | LeadWaitTerm
  | LeadLostStop stop_pc | LeadLostWait | LeadEnd

datatype reap_pc = ReapNone | ReapWait | ReapClose | ReapEnd

text \<open>
  The fields of \<open>runner\<close>: \<open>published\<close> is \<^verbatim>\<open>childPID > 0\<close>, which is set under the
  lock together with \<open>childExited\<close>; \<open>done\<close> is the closing of that channel.
  \<open>spawnFailed\<close>, \<open>reapFailed\<close> and \<open>lost\<close> record history.
\<close>

record wrapper =
  w_published :: bool
  w_done :: bool
  w_childCode :: int
  w_exitCode :: int
  w_exitSet :: bool
  w_termRequested :: bool
  w_cancelled :: bool
  w_child :: child
  w_termSent :: bool
  w_killSent :: bool
  w_elector :: elector
  w_sig :: sig_pc
  w_lead :: lead_pc
  w_reap :: reap_pc
  w_result :: "int option"
  w_spawnFailed :: bool
  w_reapFailed :: bool
  w_lost :: bool

definition initial :: wrapper where
  "initial = \<lparr>w_published = False, w_done = False, w_childCode = 0, w_exitCode = 0, w_exitSet = False,
     w_termRequested = False, w_cancelled = False, w_child = NotStarted, w_termSent = False, w_killSent = False,
     w_elector = Electing, w_sig = SigIdle, w_lead = LeadNone, w_reap = ReapNone, w_result = None,
     w_spawnFailed = False, w_reapFailed = False, w_lost = False\<rparr>"

definition setExit :: "int \<Rightarrow> wrapper \<Rightarrow> wrapper" where
  "setExit code w = (if \<not> w_exitSet w then w\<lparr>w_exitCode := code, w_exitSet := True\<rparr> else w)"

definition forceExit :: "int \<Rightarrow> wrapper \<Rightarrow> wrapper" where
  "forceExit code w = w\<lparr>w_exitCode := code, w_exitSet := True\<rparr>"

definition getExit :: "wrapper \<Rightarrow> int" where
  "getExit w = (if \<not> w_exitSet w then exitOK else w_exitCode w)"

text \<open>\<open>leadCtx.Done()\<close>.\<close>

definition lead_ctx_done :: "wrapper \<Rightarrow> bool" where
  "lead_ctx_done w \<longleftrightarrow> w_cancelled w \<or> w_elector w = Stopped"

text \<open>
  A call of \<open>stopChild\<close>: it marks the request and reads the pid under the lock, returns when there is no
  child yet, sends SIGTERM to the group, waits for the reaper or the grace timer, and after the timer sends SIGKILL
  and waits once more, at most \<open>childSigkillWait\<close>.
\<close>

inductive stop_step :: "stop_pc \<Rightarrow> wrapper \<Rightarrow> stop_pc \<Rightarrow> wrapper \<Rightarrow> bool" where
  stop_no_child: "\<not> w_published w \<Longrightarrow> stop_step StopMark w StopReturn (w\<lparr>w_termRequested := True\<rparr>)"
| stop_child: "w_published w \<Longrightarrow> stop_step StopMark w StopTerm (w\<lparr>w_termRequested := True\<rparr>)"
| stop_term: "stop_step StopTerm w StopWait (w\<lparr>w_termSent := True\<rparr>)"
| stop_done: "w_done w \<Longrightarrow> stop_step StopWait w StopReturn w"
| stop_timer: "stop_step StopWait w StopKill w"
| stop_kill: "stop_step StopKill w StopKilled (w\<lparr>w_killSent := True\<rparr>)"
| stop_killed: "stop_step StopKilled w StopReturn w"

inductive_cases stop_stepE: "stop_step pc w pc' w'"

inductive_simps stop_step_simps [simp]:
  "stop_step StopMark w pc' w'" "stop_step StopTerm w pc' w'" "stop_step StopWait w pc' w'"
  "stop_step StopKill w pc' w'" "stop_step StopKilled w pc' w'" "stop_step StopReturn w pc' w'"

text \<open>
  The steps of the goroutines.  The timers of \<open>select\<close> may fire at any moment, the kernel may end the
  child at any moment, and a signal may arrive once at any moment.
\<close>

inductive act :: "wrapper \<Rightarrow> wrapper \<Rightarrow> bool" where
  sig_recv: "w_sig w = SigIdle \<Longrightarrow> act w (w\<lparr>w_sig := SigStop StopMark\<rparr>)"
| sig_stop: "w_sig w = SigStop pc \<Longrightarrow> stop_step pc w pc' w' \<Longrightarrow> act w (w'\<lparr>w_sig := SigStop pc'\<rparr>)"
| sig_force: "w_sig w = SigStop StopReturn \<Longrightarrow> act w ((forceExit exitOK w)\<lparr>w_sig := SigCancel\<rparr>)"
| sig_cancel: "w_sig w = SigCancel \<Longrightarrow> act w (w\<lparr>w_cancelled := True, w_sig := SigEnd\<rparr>)"
| le_acquire: "w_elector w = Electing \<Longrightarrow> act w (w\<lparr>w_elector := Leading, w_lead := LeadStart\<rparr>)"
| le_lose: "w_elector w = Leading \<Longrightarrow> act w (w\<lparr>w_elector := Stopped, w_lost := True\<rparr>)"
| le_stop: "w_cancelled w \<Longrightarrow> act w (w\<lparr>w_elector := Stopped\<rparr>)"
| main_return: "w_elector w = Stopped \<Longrightarrow> act w (w\<lparr>w_result := Some (getExit w)\<rparr>)"
| lead_spawn_fails: "w_lead w = LeadStart \<Longrightarrow> act w (w\<lparr>w_spawnFailed := True, w_lead := LeadSpawnFailed\<rparr>)"
| lead_spawn_exit: "w_lead w = LeadSpawnFailed \<Longrightarrow> act w ((setExit exitConfig w)\<lparr>w_lead := LeadSpawnCancel\<rparr>)"
| lead_spawn_cancel: "w_lead w = LeadSpawnCancel \<Longrightarrow> act w (w\<lparr>w_cancelled := True, w_lead := LeadEnd\<rparr>)"
| lead_spawn: "w_lead w = LeadStart \<Longrightarrow> act w (w\<lparr>w_child := Running, w_lead := LeadPublish\<rparr>)"
| lead_publish: "w_lead w = LeadPublish \<Longrightarrow>
    act w (w\<lparr>w_published := True, w_lead := LeadCheck (w_termRequested w)\<rparr>)"
| lead_check: "w_lead w = LeadCheck alreadyTerm \<Longrightarrow>
    act w (w\<lparr>w_reap := ReapWait, w_lead := (if alreadyTerm then LeadStopEarly StopMark else LeadSelect)\<rparr>)"
| lead_stop_early: "w_lead w = LeadStopEarly pc \<Longrightarrow> stop_step pc w pc' w' \<Longrightarrow>
    act w (w'\<lparr>w_lead := LeadStopEarly pc'\<rparr>)"
| lead_stopped_early: "w_lead w = LeadStopEarly StopReturn \<Longrightarrow> act w (w\<lparr>w_lead := LeadEnd\<rparr>)"
| lead_select_child: "w_lead w = LeadSelect \<Longrightarrow> w_done w \<Longrightarrow> act w (w\<lparr>w_lead := LeadChildDone\<rparr>)"
| lead_select_ctx: "w_lead w = LeadSelect \<Longrightarrow> lead_ctx_done w \<Longrightarrow> act w (w\<lparr>w_lead := LeadCtxDone\<rparr>)"
| lead_child_done: "w_lead w = LeadChildDone \<Longrightarrow>
    act w (w\<lparr>w_lead := (if w_termRequested w then LeadEnd else LeadChildExit)\<rparr>)"
| lead_child_exit: "w_lead w = LeadChildExit \<Longrightarrow>
    act w ((setExit (w_childCode w) w)\<lparr>w_lead := LeadChildCancel\<rparr>)"
| lead_child_cancel: "w_lead w = LeadChildCancel \<Longrightarrow> act w (w\<lparr>w_cancelled := True, w_lead := LeadEnd\<rparr>)"
| lead_ctx: "w_lead w = LeadCtxDone \<Longrightarrow>
    act w (w\<lparr>w_lead := (if w_termRequested w then LeadWaitTerm else LeadLostStop StopMark)\<rparr>)"
| lead_wait_term: "w_lead w = LeadWaitTerm \<Longrightarrow> act w (w\<lparr>w_lead := LeadEnd\<rparr>)"
| lead_lost_stop: "w_lead w = LeadLostStop pc \<Longrightarrow> stop_step pc w pc' w' \<Longrightarrow>
    act w (w'\<lparr>w_lead := LeadLostStop pc'\<rparr>)"
| lead_lost_exit: "w_lead w = LeadLostStop StopReturn \<Longrightarrow> act w ((forceExit exitLost w)\<lparr>w_lead := LeadLostWait\<rparr>)"
| lead_lost_wait: "w_lead w = LeadLostWait \<Longrightarrow> act w (w\<lparr>w_lead := LeadEnd\<rparr>)"
| child_ends: "w_child w = Running \<Longrightarrow> act w (w\<lparr>w_child := Terminated status\<rparr>)"
| reap_child: "w_reap w = ReapWait \<Longrightarrow> w_child w = Terminated status \<Longrightarrow>
    act w (w\<lparr>w_childCode := waitStatusExitCode status, w_reap := ReapClose\<rparr>)"
| reap_error: "w_reap w = ReapWait \<Longrightarrow> w_child w = Terminated status \<Longrightarrow>
    act w (w\<lparr>w_childCode := exitConfig, w_reapFailed := True, w_reap := ReapClose\<rparr>)"
| reap_close: "w_reap w = ReapClose \<Longrightarrow> act w (w\<lparr>w_done := True, w_reap := ReapEnd\<rparr>)"

text \<open>When the main goroutine returns, the process exits and nothing else runs.\<close>

definition step :: "wrapper \<Rightarrow> wrapper \<Rightarrow> bool" where
  "step w w' \<longleftrightarrow> w_result w = None \<and> act w w'"

inductive reachable :: "wrapper \<Rightarrow> bool" where
  reach_init: "reachable initial"
| reach_step: "reachable w \<Longrightarrow> step w w' \<Longrightarrow> reachable w'"

lemma reachable_invariant [consumes 1, case_names init act]:
  assumes "reachable w" and "P initial" and "\<And>w w'. reachable w \<Longrightarrow> w_result w = None \<Longrightarrow> P w \<Longrightarrow> act w w' \<Longrightarrow> P w'"
  shows "P w"
  using assms(1)
proof (induction rule: reachable.induct)
  case reach_init
  show ?case by (rule assms(2))
next
  case (reach_step w w')
  then show ?case unfolding step_def using assms(3) by blast
qed

lemma stop_step_keeps:
  assumes "stop_step pc w pc' w'"
  shows "w_published w' = w_published w" "w_done w' = w_done w" "w_childCode w' = w_childCode w"
    "w_exitCode w' = w_exitCode w" "w_exitSet w' = w_exitSet w" "w_cancelled w' = w_cancelled w"
    "w_child w' = w_child w" "w_elector w' = w_elector w" "w_sig w' = w_sig w" "w_lead w' = w_lead w"
    "w_reap w' = w_reap w" "w_result w' = w_result w" "w_spawnFailed w' = w_spawnFailed w"
    "w_reapFailed w' = w_reapFailed w" "w_lost w' = w_lost w"
    "w_termRequested w \<longrightarrow> w_termRequested w'" "w_killSent w \<longrightarrow> w_killSent w'"
  using assms by (cases; simp)+

lemmas exit_defs = setExit_def forceExit_def getExit_def lead_ctx_done_def

text \<open>
  The first invariant ties the child, the reaper and the callback together: before the callback has spawned
  there is no child, the pid is published exactly once it has, and the channel is closed only for a child that has
  ended and whose code is recorded.
\<close>

definition before_spawn :: "lead_pc set" where
  "before_spawn = {LeadNone, LeadStart, LeadSpawnFailed, LeadSpawnCancel}"

definition child_inv :: "wrapper \<Rightarrow> bool" where
  "child_inv w \<longleftrightarrow>
     (w_elector w = Electing \<longrightarrow> w_lead w = LeadNone) \<and>
     (w_lead w \<in> before_spawn \<longrightarrow> w_child w = NotStarted) \<and>
     (w_lead w \<in> {LeadSpawnFailed, LeadSpawnCancel} \<longrightarrow> w_spawnFailed w) \<and>
     (w_spawnFailed w \<longrightarrow> w_child w = NotStarted \<and> w_lead w \<in> {LeadSpawnFailed, LeadSpawnCancel, LeadEnd}) \<and>
     (w_published w \<longleftrightarrow> w_lead w \<notin> insert LeadPublish before_spawn \<and> \<not> w_spawnFailed w) \<and>
     (w_child w = NotStarted \<longleftrightarrow> w_lead w \<in> before_spawn \<or> w_spawnFailed w)"

lemma child_inv: "reachable w \<Longrightarrow> child_inv w"
proof (induction rule: reachable_invariant)
  case init
  show ?case by (simp add: child_inv_def before_spawn_def initial_def)
next
  case (act w w')
  from act(3) act(4) show ?case
    by (cases rule: act.cases)
      (simp_all add: child_inv_def before_spawn_def exit_defs stop_step_keeps, clarsimp)
qed

text \<open>The second one is about the reaper.\<close>

definition reap_inv :: "wrapper \<Rightarrow> bool" where
  "reap_inv w \<longleftrightarrow>
     (w_reap w \<noteq> ReapNone \<longrightarrow> w_published w \<and> (\<forall>b. w_lead w \<noteq> LeadCheck b)) \<and>
     (w_done w \<longleftrightarrow> w_reap w = ReapEnd) \<and>
     (w_reap w \<in> {ReapClose, ReapEnd} \<longrightarrow>
        (case w_child w of
           Terminated status \<Rightarrow> w_childCode w = (if w_reapFailed w then exitConfig else waitStatusExitCode status)
         | _ \<Rightarrow> False)) \<and>
     (w_reapFailed w \<longrightarrow> w_reap w \<in> {ReapClose, ReapEnd})"

lemma reap_inv: "reachable w \<Longrightarrow> reap_inv w"
proof (induction rule: reachable_invariant)
  case init
  show ?case by (simp add: reap_inv_def initial_def)
next
  case (act w w')
  from act(3) act(4) child_inv [OF act(1)] show ?case
    by (cases rule: act.cases)
      (auto simp: reap_inv_def child_inv_def before_spawn_def exit_defs stop_step_keeps split: child.splits)
qed

text \<open>
  The third one is about giving up the lease.  A call of \<open>stopChild\<close> that has returned has found no
  child, or a reaped one, or has killed it; and a callback that starts its child after the request stops it itself.
\<close>

definition early :: "lead_pc \<Rightarrow> bool" where
  "early pc = (case pc of
     LeadNone \<Rightarrow> True | LeadStart \<Rightarrow> True | LeadPublish \<Rightarrow> True | LeadCheck b \<Rightarrow> b | LeadStopEarly _ \<Rightarrow> True | _ \<Rightarrow> False)"

definition stopped_child :: "wrapper \<Rightarrow> bool" where
  "stopped_child w \<longleftrightarrow> w_child w \<noteq> Running \<or> w_killSent w \<or> early (w_lead w)"

definition cancel_inv :: "wrapper \<Rightarrow> bool" where
  "cancel_inv w \<longleftrightarrow>
     (w_sig w \<notin> {SigIdle, SigStop StopMark} \<longrightarrow> w_termRequested w) \<and>
     (w_sig w \<in> {SigStop StopReturn, SigCancel, SigEnd} \<longrightarrow> stopped_child w) \<and>
     (w_sig w = SigStop StopKilled \<longrightarrow> w_killSent w) \<and>
     (w_lead w = LeadStopEarly StopReturn \<longrightarrow> w_done w \<or> w_killSent w) \<and>
     (w_lead w = LeadStopEarly StopKilled \<longrightarrow> w_killSent w) \<and>
     (w_lead w \<in> {LeadChildDone, LeadChildExit, LeadChildCancel} \<longrightarrow> w_done w) \<and>
     (\<forall>pc. w_lead w = LeadStopEarly pc \<longrightarrow> w_termRequested w) \<and>
     (w_lead w = LeadCheck True \<longrightarrow> w_termRequested w) \<and>
     (w_cancelled w \<longrightarrow> (w_termRequested w \<or> w_lead w = LeadEnd) \<and> stopped_child w)"

lemma done_not_running: "reap_inv w \<Longrightarrow> w_done w \<Longrightarrow> w_child w \<noteq> Running"
  by (auto simp: reap_inv_def)

lemma early_simps [simp]:
  "early LeadNone" "early LeadStart" "early LeadPublish" "early (LeadCheck b) \<longleftrightarrow> b" "early (LeadStopEarly pc)"
  "\<not> early LeadSpawnFailed" "\<not> early LeadSpawnCancel" "\<not> early LeadSelect" "\<not> early LeadChildDone"
  "\<not> early LeadChildExit" "\<not> early LeadChildCancel" "\<not> early LeadCtxDone" "\<not> early LeadWaitTerm"
  "\<not> early (LeadLostStop pc)" "\<not> early LeadLostWait" "\<not> early LeadEnd"
  by (simp_all add: early_def)

lemma stop_step_facts:
  assumes "stop_step pc w pc' w'"
  shows "pc' \<noteq> StopMark" "pc' = StopReturn \<longrightarrow> \<not> w_published w \<or> w_done w \<or> pc = StopKilled"
    "pc' = StopKilled \<longrightarrow> w_killSent w'" "w_termRequested w' \<longleftrightarrow> w_termRequested w \<or> pc = StopMark"
    "pc \<noteq> StopReturn"
  using assms by (cases; simp)+

text \<open>Without a child there is nothing to stop: it was never started, or it is not published yet.\<close>

lemma unpublished_child: "child_inv w \<Longrightarrow> \<not> w_published w \<Longrightarrow> w_child w = NotStarted \<or> w_lead w = LeadPublish"
  unfolding child_inv_def by blast

lemma unpublished_stopped: "child_inv w \<Longrightarrow> \<not> w_published w \<Longrightarrow> stopped_child w"
  by (drule (1) unpublished_child) (auto simp: stopped_child_def)

lemma stopping_published:
  "child_inv w \<Longrightarrow> w_lead w = LeadStopEarly pc \<or> w_lead w = LeadLostStop pc \<Longrightarrow> w_published w"
  by (elim disjE) (simp_all add: child_inv_def before_spawn_def)

lemma done_stopped: "reap_inv w \<Longrightarrow> w_done w \<Longrightarrow> stopped_child w"
  using done_not_running by (auto simp: stopped_child_def)

lemma stopped_child_stop:
  assumes "stop_step pc w pc' w'" "stopped_child w"
  shows "stopped_child (w'\<lparr>w_sig := s\<rparr>)"
  using assms(2) stop_step_keeps(17) [OF assms(1)] by (auto simp: stopped_child_def stop_step_keeps [OF assms(1)])

lemma cancel_inv_sig:
  assumes "w_sig w = SigStop pc" "stop_step pc w pc' w'" "cancel_inv w" "child_inv w" "reap_inv w"
  shows "cancel_inv (w'\<lparr>w_sig := SigStop pc'\<rparr>)"
proof -
  have "pc' = StopReturn \<Longrightarrow> stopped_child w \<or> w_killSent w"
    using assms stop_step_facts(2) [OF assms(2)] unpublished_stopped done_stopped by (auto simp: cancel_inv_def)
  then have r: "pc' = StopReturn \<Longrightarrow> stopped_child (w'\<lparr>w_sig := SigStop pc'\<rparr>)"
    using stopped_child_stop [OF assms(2)] stop_step_keeps(17) [OF assms(2)] by (auto simp: stopped_child_def)
  show ?thesis
    using assms(3) r stop_step_facts [OF assms(2)] stopped_child_stop [OF assms(2)] assms(1)
    unfolding cancel_inv_def by (simp add: stop_step_keeps [OF assms(2)]) (use stop_step_keeps(16,17) [OF assms(2)] in \<open>clarsimp; blast\<close>)
qed

lemma cancel_inv_lead:
  assumes "w_lead w = f pc" "stop_step pc w pc' w'" "cancel_inv w" "child_inv w"
    "f = LeadStopEarly \<or> f = LeadLostStop"
  shows "cancel_inv (w'\<lparr>w_lead := f pc'\<rparr>)"
proof -
  have p: "w_published w" using stopping_published [OF assms(4)] assms(1,5) by blast
  have s: "stopped_child w \<Longrightarrow> stopped_child (w'\<lparr>w_lead := f pc'\<rparr>)"
    using assms(1,5) stop_step_keeps(17) [OF assms(2)]
    by (auto simp: stopped_child_def stop_step_keeps(7,10) [OF assms(2)])
  show ?thesis
    using assms(3) s stop_step_facts [OF assms(2)] assms(1,5) p
    unfolding cancel_inv_def
    by (simp add: stop_step_keeps [OF assms(2)]) (use stop_step_keeps(16,17) [OF assms(2)] in \<open>elim disjE; clarsimp; blast?\<close>)
qed

lemma cancel_inv: "reachable w \<Longrightarrow> cancel_inv w"
proof (induction rule: reachable_invariant)
  case init
  show ?case by (simp add: cancel_inv_def initial_def)
next
  case (act w w')
  note inv = child_inv [OF act(1)] reap_inv [OF act(1)] done_not_running [OF reap_inv [OF act(1)]]
  from act(3) show ?case
  proof (cases rule: act.cases)
    case (sig_stop pc pc' w1)
    then show ?thesis using cancel_inv_sig act(4) inv by blast
  next
    case (lead_stop_early pc pc' w1)
    then show ?thesis using cancel_inv_lead [of w LeadStopEarly] act(4) inv by blast
  next
    case (lead_lost_stop pc pc' w1)
    then show ?thesis using cancel_inv_lead [of w LeadLostStop] act(4) inv by blast
  qed (use act(4) inv in \<open>simp_all add: cancel_inv_def stopped_child_def child_inv_def before_spawn_def exit_defs\<close>, blast+)
qed

text \<open>
  The last one is about a run without a signal and without a loss of the lease: nothing but the callback ends it,
  and the callback records the exit code before it cancels.
\<close>

definition quiet :: "wrapper \<Rightarrow> bool" where
  "quiet w \<longleftrightarrow> w_sig w = SigIdle \<and> \<not> w_lost w"

definition exit_recorded :: "wrapper \<Rightarrow> bool" where
  "exit_recorded w \<longleftrightarrow>
     w_exitSet w \<and> (w_spawnFailed w \<and> w_exitCode w = exitConfig \<or> w_done w \<and> w_exitCode w = w_childCode w)"

fun quiet_pc :: "lead_pc \<Rightarrow> wrapper \<Rightarrow> bool" where
  "quiet_pc LeadSpawnCancel w = exit_recorded w"
| "quiet_pc LeadChildCancel w = exit_recorded w"
| "quiet_pc LeadEnd w = (w_cancelled w \<and> exit_recorded w)"
| "quiet_pc (LeadCheck b) w = (\<not> b \<and> \<not> w_exitSet w)"
| "quiet_pc LeadChildExit w = (w_done w \<and> \<not> w_exitSet w)"
| "quiet_pc LeadChildDone w = (w_done w \<and> \<not> w_exitSet w)"
| "quiet_pc LeadNone w = (\<not> w_exitSet w)"
| "quiet_pc LeadStart w = (\<not> w_exitSet w)"
| "quiet_pc LeadSpawnFailed w = (\<not> w_exitSet w)"
| "quiet_pc LeadPublish w = (\<not> w_exitSet w)"
| "quiet_pc LeadSelect w = (\<not> w_exitSet w)"
| "quiet_pc _ w = False"

definition quiet_inv :: "wrapper \<Rightarrow> bool" where
  "quiet_inv w \<longleftrightarrow> (quiet w \<longrightarrow>
     \<not> w_termRequested w \<and> (w_elector w = Stopped \<longrightarrow> w_cancelled w) \<and>
     (w_cancelled w \<longrightarrow> w_lead w = LeadEnd) \<and> quiet_pc (w_lead w) w)"

lemma quiet_back: "act w w' \<Longrightarrow> quiet w' \<Longrightarrow> quiet w"
  by (erule act.cases; clarsimp simp: quiet_def exit_defs stop_step_keeps split: if_splits)

lemma quiet_inv: "reachable w \<Longrightarrow> quiet_inv w"
proof (induction rule: reachable_invariant)
  case init
  show ?case by (simp add: quiet_inv_def initial_def)
next
  case (act w w')
  show ?case unfolding quiet_inv_def
  proof
    assume q: "quiet w'"
    with act(3,4) have ih: "\<not> w_termRequested w" "w_elector w = Stopped \<longrightarrow> w_cancelled w"
      "w_cancelled w \<longrightarrow> w_lead w = LeadEnd" "quiet_pc (w_lead w) w" "w_sig w = SigIdle"
      using quiet_back [of w w'] by (simp_all add: quiet_inv_def quiet_def)
    have f: "w_lead w = LeadSpawnFailed \<longrightarrow> w_spawnFailed w" "w_elector w = Electing \<longrightarrow> w_lead w = LeadNone"
      "w_done w \<longrightarrow> w_reap w = ReapEnd"
      using child_inv [OF act(1)] reap_inv [OF act(1)] by (simp_all add: child_inv_def reap_inv_def)
    from act(3) q ih f show "\<not> w_termRequested w' \<and> (w_elector w' = Stopped \<longrightarrow> w_cancelled w') \<and>
        (w_cancelled w' \<longrightarrow> w_lead w' = LeadEnd) \<and> quiet_pc (w_lead w') w'"
      by (cases rule: act.cases; simp add: quiet_def exit_recorded_def exit_defs;
          (cases "w_lead w"; simp add: exit_recorded_def)?)
  qed
qed

lemma result_code: "reachable w \<Longrightarrow> w_result w = Some c \<longrightarrow> w_elector w = Stopped \<and> c = getExit w"
proof (induction rule: reachable_invariant)
  case init
  show ?case by (simp add: initial_def)
next
  case (act w w')
  from act(3) act(2) show ?case
    by (cases rule: act.cases) (simp_all add: exit_defs stop_step_keeps)
qed

text \<open>
  A state from which the wrapper can exit.  The signal handler alone gets there: each of its steps is possible
  whatever the other goroutines have done.
\<close>

definition can_exit :: "wrapper \<Rightarrow> bool" where
  "can_exit w \<longleftrightarrow> (\<exists>w' c. step\<^sup>*\<^sup>* w w' \<and> w_result w' = Some c)"

lemma can_exit_act: "w_result w = None \<Longrightarrow> act w w' \<Longrightarrow> can_exit w' \<Longrightarrow> can_exit w"
  unfolding can_exit_def by (metis converse_rtranclp_into_rtranclp step_def)

lemma can_exit_stopped: "w_result w = None \<Longrightarrow> w_elector w = Stopped \<Longrightarrow> can_exit w"
proof (rule can_exit_act [OF _ main_return])
  show "can_exit (w\<lparr>w_result := Some (getExit w)\<rparr>)"
    unfolding can_exit_def by (intro exI conjI) (rule rtranclp.rtrancl_refl, simp)
qed

lemma can_exit_cancelled: "w_result w = None \<Longrightarrow> w_cancelled w \<Longrightarrow> can_exit w"
  by (rule can_exit_act [OF _ le_stop can_exit_stopped]) simp_all

lemma can_exit_cancel: "w_result w = None \<Longrightarrow> w_sig w = SigCancel \<Longrightarrow> can_exit w"
  by (rule can_exit_act [OF _ sig_cancel can_exit_cancelled]) simp_all

lemma can_exit_return: "w_result w = None \<Longrightarrow> w_sig w = SigStop StopReturn \<Longrightarrow> can_exit w"
  by (rule can_exit_act [OF _ sig_force can_exit_cancel]) (simp_all add: forceExit_def)

lemma can_exit_killed: "w_result w = None \<Longrightarrow> w_sig w = SigStop StopKilled \<Longrightarrow> can_exit w"
  by (rule can_exit_act [OF _ sig_stop [OF _ stop_killed] can_exit_return]) simp_all

lemma can_exit_kill: "w_result w = None \<Longrightarrow> w_sig w = SigStop StopKill \<Longrightarrow> can_exit w"
  by (rule can_exit_act [OF _ sig_stop [OF _ stop_kill] can_exit_killed]) simp_all

lemma can_exit_wait: "w_result w = None \<Longrightarrow> w_sig w = SigStop StopWait \<Longrightarrow> can_exit w"
  by (rule can_exit_act [OF _ sig_stop [OF _ stop_timer] can_exit_kill]) simp_all

lemma can_exit_term: "w_result w = None \<Longrightarrow> w_sig w = SigStop StopTerm \<Longrightarrow> can_exit w"
  by (rule can_exit_act [OF _ sig_stop [OF _ stop_term] can_exit_wait]) simp_all

lemma can_exit_mark: "w_result w = None \<Longrightarrow> w_sig w = SigStop StopMark \<Longrightarrow> can_exit w"
  by (cases "w_published w")
    (simp_all add: can_exit_act [OF _ sig_stop [OF _ stop_child] can_exit_term]
      can_exit_act [OF _ sig_stop [OF _ stop_no_child] can_exit_return])

lemma sig_end_cancelled: "reachable w \<Longrightarrow> w_sig w = SigEnd \<longrightarrow> w_cancelled w"
proof (induction rule: reachable_invariant)
  case init
  show ?case by (simp add: initial_def)
next
  case (act w w')
  from act(3) act(4) show ?case
    by (cases rule: act.cases) (simp_all add: exit_defs stop_step_keeps)
qed

section \<open>Properties\<close>

text \<open>
  C31. The exit code of the child is the exit code of the wrapper: in every interleaving in which no signal arrives
  and the lease is not lost, when the wrapper returns, its child could not be started and the code says so, or its
  child has ended and the code is the one the kernel reported (128 plus the signal for a killed child), unless
  waiting for it failed.
\<close>

theorem child_exit_propagated:
  assumes "reachable w" and "w_result w = Some c" and "w_sig w = SigIdle" and "\<not> w_lost w"
  shows "(w_spawnFailed w \<and> w_child w = NotStarted \<and> c = exitConfig) \<or>
     (\<exists>status. w_child w = Terminated status \<and> c = (if w_reapFailed w then exitConfig else waitStatusExitCode status))"
proof -
  have c: "w_elector w = Stopped" "c = getExit w" using result_code [OF assms(1)] assms(2) by simp_all
  have q: "quiet_inv w" "quiet w" using quiet_inv [OF assms(1)] assms(3,4) by (simp_all add: quiet_def)
  then have l: "w_lead w = LeadEnd" using c(1) by (simp add: quiet_inv_def)
  with q have e: "exit_recorded w" by (simp add: quiet_inv_def)
  moreover have "w_spawnFailed w \<longrightarrow> w_child w = NotStarted" using child_inv [OF assms(1)] by (simp add: child_inv_def)
  ultimately show ?thesis
    using reap_inv [OF assms(1)] c(2) by (auto simp: exit_recorded_def getExit_def reap_inv_def split: child.splits)
qed

text \<open>
  C30. The lease is given up only once the child is down: in every interleaving, when the wrapper has cancelled its
  election and the child is still running, the group has been killed, or the request to stop came before the child
  was known and the callback is on its way to stop it.
\<close>

theorem lease_released_after_child:
  assumes "reachable w" and "w_cancelled w" and "w_child w = Running"
  shows "w_killSent w \<or> (w_termRequested w \<and> early (w_lead w))"
proof -
  have "stopped_child w" "w_termRequested w \<or> w_lead w = LeadEnd"
    using cancel_inv [OF assms(1)] assms(2) unfolding cancel_inv_def by blast+
  then show ?thesis using assms(3) by (auto simp: stopped_child_def)
qed

text \<open>A run without incident: the child is started, ends with code 3, is reaped, and the wrapper returns 3.\<close>

definition ex_after_child :: wrapper where
  "ex_after_child = initial\<lparr>w_published := True, w_done := True, w_childCode := 3, w_exitCode := 3, w_exitSet := True,
     w_cancelled := True, w_child := Terminated (WExited 3), w_elector := Stopped, w_lead := LeadEnd,
     w_reap := ReapEnd, w_result := Some 3\<rparr>"

lemma reach_act: "reachable w \<Longrightarrow> w_result w = None \<Longrightarrow> act w w' \<Longrightarrow> reachable w'"
  by (rule reach_step) (simp_all add: step_def)

lemma reach_select: "reachable (initial\<lparr>w_elector := Leading, w_child := Running, w_published := True, w_reap := ReapWait,
    w_lead := LeadSelect\<rparr>)"
proof -
  have "reachable (initial\<lparr>w_elector := Leading, w_lead := LeadStart\<rparr>)"
    by (rule reach_act [OF reach_init _ le_acquire]) (simp_all add: initial_def)
  then have "reachable (initial\<lparr>w_elector := Leading, w_child := Running, w_lead := LeadPublish\<rparr>)"
    by (rule reach_act [OF _ _ lead_spawn [THEN back_subst [of "act _"]]]) (simp_all add: initial_def)
  then have "reachable (initial\<lparr>w_elector := Leading, w_child := Running, w_published := True, w_lead := LeadCheck False\<rparr>)"
    by (rule reach_act [OF _ _ lead_publish [THEN back_subst [of "act _"]]]) (simp_all add: initial_def)
  then show ?thesis
    by (rule reach_act [OF _ _ lead_check [where alreadyTerm = False, THEN back_subst [of "act _"]]]) (simp_all add: initial_def)
qed

lemma reach_after_child: "reachable ex_after_child"
proof -
  let ?w = "\<lambda>lead. initial\<lparr>w_elector := Leading, w_child := Terminated (WExited 3), w_published := True, w_done := True,
      w_childCode := 3, w_reap := ReapEnd, w_lead := lead\<rparr>"
  have "reachable (initial\<lparr>w_elector := Leading, w_child := Terminated (WExited 3), w_published := True,
      w_reap := ReapWait, w_lead := LeadSelect\<rparr>)"
    by (rule reach_act [OF reach_select _ child_ends [THEN back_subst [of "act _"]]]) (simp_all add: initial_def)
  then have "reachable (initial\<lparr>w_elector := Leading, w_child := Terminated (WExited 3), w_published := True,
      w_childCode := 3, w_reap := ReapClose, w_lead := LeadSelect\<rparr>)"
    by (rule reach_act [OF _ _ reap_child [where status = "WExited 3", THEN back_subst [of "act _"]]]) (simp_all add: initial_def waitStatusExitCode_def)
  then have "reachable (?w LeadSelect)"
    by (rule reach_act [OF _ _ reap_close [THEN back_subst [of "act _"]]]) (simp_all add: initial_def)
  then have "reachable (?w LeadChildDone)"
    by (rule reach_act [OF _ _ lead_select_child [THEN back_subst [of "act _"]]]) (simp_all add: initial_def)
  then have "reachable (?w LeadChildExit)"
    by (rule reach_act [OF _ _ lead_child_done [THEN back_subst [of "act _"]]]) (simp_all add: initial_def)
  then have "reachable ((?w LeadChildCancel)\<lparr>w_exitCode := 3, w_exitSet := True\<rparr>)"
    by (rule reach_act [OF _ _ lead_child_exit [THEN back_subst [of "act _"]]]) (simp_all add: initial_def setExit_def)
  then have "reachable ((?w LeadEnd)\<lparr>w_exitCode := 3, w_exitSet := True, w_cancelled := True\<rparr>)"
    by (rule reach_act [OF _ _ lead_child_cancel [THEN back_subst [of "act _"]]]) (simp_all add: initial_def)
  then have "reachable ((?w LeadEnd)\<lparr>w_exitCode := 3, w_exitSet := True, w_cancelled := True, w_elector := Stopped\<rparr>)"
    by (rule reach_act [OF _ _ le_stop [THEN back_subst [of "act _"]]]) (simp_all add: initial_def)
  then show ?thesis
    by (rule reach_act [OF _ _ main_return [THEN back_subst [of "act _"]]])
      (simp_all add: initial_def getExit_def ex_after_child_def)
qed

theorem child_exit_propagated_witness:
  "w_result ex_after_child = Some 3 \<and> w_child ex_after_child = Terminated (WExited 3)"
  using child_exit_propagated [OF reach_after_child, of 3]
  by (simp add: ex_after_child_def initial_def)

text \<open>A signal that arrives after the lease was acquired and before the child is known.\<close>

definition ex_early_signal :: wrapper where
  "ex_early_signal = initial\<lparr>w_elector := Leading, w_termRequested := True, w_exitSet := True, w_cancelled := True,
     w_sig := SigEnd, w_child := Running, w_lead := LeadPublish\<rparr>"

lemma reach_early_signal: "reachable ex_early_signal"
proof -
  let ?w = "\<lambda>sig. initial\<lparr>w_elector := Leading, w_lead := LeadStart, w_sig := sig\<rparr>"
  have "reachable (initial\<lparr>w_elector := Leading, w_lead := LeadStart\<rparr>)"
    by (rule reach_act [OF reach_init _ le_acquire]) (simp_all add: initial_def)
  then have "reachable (?w (SigStop StopMark))"
    by (rule reach_act [OF _ _ sig_recv [THEN back_subst [of "act _"]]]) (simp_all add: initial_def)
  then have "reachable ((?w (SigStop StopReturn))\<lparr>w_termRequested := True\<rparr>)"
    by (rule reach_act [OF _ _ sig_stop [where pc = StopMark, OF _ stop_no_child, THEN back_subst [of "act _"]]])
      (simp_all add: initial_def)
  then have "reachable ((?w SigCancel)\<lparr>w_termRequested := True, w_exitSet := True\<rparr>)"
    by (rule reach_act [OF _ _ sig_force [THEN back_subst [of "act _"]]]) (simp_all add: initial_def forceExit_def)
  then have "reachable ((?w SigEnd)\<lparr>w_termRequested := True, w_exitSet := True, w_cancelled := True\<rparr>)"
    by (rule reach_act [OF _ _ sig_cancel [THEN back_subst [of "act _"]]]) (simp_all add: initial_def)
  then show ?thesis
    by (rule reach_act [OF _ _ lead_spawn [THEN back_subst [of "act _"]]]) (simp_all add: initial_def ex_early_signal_def)
qed

theorem lease_released_after_child_witness:
  "w_cancelled ex_early_signal \<and> w_termRequested ex_early_signal \<and> early (w_lead ex_early_signal)"
  using lease_released_after_child [OF reach_early_signal] by (simp add: ex_early_signal_def initial_def)

text \<open>
  C33. What happens when the lease is lost is a race: the election loop of the main goroutine returns as soon as the
  lease is lost and does not wait for the callback, so there is a run in which the wrapper exits with the code of
  a clean shutdown although the lease was lost, while its child runs and was never asked to stop.
\<close>

theorem lost_lease_exit_race:
  "\<exists>w. reachable w \<and> w_lost w \<and> w_result w = Some exitOK \<and> w_child w = Running \<and> \<not> w_termSent w \<and> \<not> w_killSent w"
proof -
  let ?w = "initial\<lparr>w_elector := Stopped, w_child := Running, w_published := True, w_reap := ReapWait,
    w_lead := LeadSelect, w_lost := True\<rparr>"
  have "reachable ?w"
    by (rule reach_act [OF reach_select _ le_lose [THEN back_subst [of "act _"]]]) (simp_all add: initial_def)
  then have "reachable (?w\<lparr>w_result := Some exitOK\<rparr>)"
    by (rule reach_act [OF _ _ main_return [THEN back_subst [of "act _"]]]) (simp_all add: initial_def getExit_def)
  then show ?thesis by (rule exI [where x = "?w\<lparr>w_result := Some exitOK\<rparr>", OF conjI]) (simp add: initial_def)
qed



end
