(* ===== verification/Proc.thy ===== *)
theory Proc
  imports Prelude
begin

text \<open>
  Procedures of the reconcilers: a procedure takes the state of a reconciler and returns a result (a value, an
  error or a crash) and the new state.  An error leaves the changes made so far, as an early return does in Go.
  Every state carries the history of the calls that reached the cluster or the core; the answers of the
  outside world are functions of that history, so that nothing is assumed about how they change over time.
\<close>

section \<open>Procedures\<close>

type_synonym ('s, 'a) proc = "'s \<Rightarrow> 'a result \<times> 's"

definition ret :: "'a \<Rightarrow> ('s, 'a) proc" where
  "ret x s = (Ok x, s)"

definition raise :: "go_error \<Rightarrow> ('s, 'a) proc" where
  "raise e s = (Err e, s)"

definition lift :: "'a result \<Rightarrow> ('s, 'a) proc" where
  "lift r s = (r, s)"

definition bindp :: "('s, 'a) proc \<Rightarrow> ('a \<Rightarrow> ('s, 'b) proc) \<Rightarrow> ('s, 'b) proc" where
  "bindp m f s = (case m s of
     (Ok x, s1) \<Rightarrow> f x s1
   | (Err e, s1) \<Rightarrow> (Err e, s1)
   | (Panic, s1) \<Rightarrow> (Panic, s1))"

definition seqp :: "('s, 'a) proc \<Rightarrow> ('s, 'b) proc \<Rightarrow> ('s, 'b) proc" where
  "seqp m k = bindp m (\<lambda>_. k)"

definition gets :: "('s \<Rightarrow> 'a) \<Rightarrow> ('s, 'a) proc" where
  "gets f s = (Ok (f s), s)"

definition modify :: "('s \<Rightarrow> 's) \<Rightarrow> ('s, unit) proc" where
  "modify f s = (Ok (), f s)"

definition whenp :: "bool \<Rightarrow> ('s, unit) proc \<Rightarrow> ('s, unit) proc" where
  "whenp b m = (if b then m else ret ())"

text \<open>A statement whose error the code inspects; a crash is not caught.\<close>

definition tryp :: "('s, 'a) proc \<Rightarrow> ('s, go_error + 'a) proc" where
  "tryp m s = (case m s of
     (Ok x, s1) \<Rightarrow> (Ok (Inr x), s1)
   | (Err e, s1) \<Rightarrow> (Ok (Inl e), s1)
   | (Panic, s1) \<Rightarrow> (Panic, s1))"

text \<open>A loop that stops at the first error.\<close>

fun forp :: "('a \<Rightarrow> ('s, unit) proc) \<Rightarrow> 'a list \<Rightarrow> ('s, unit) proc" where
  "forp f [] = ret ()"
| "forp f (x # xs) = seqp (f x) (forp f xs)"

lemma run_simps [simp]:
  "ret x s = (Ok x, s)" "raise e s = (Err e, s)" "lift r s = (r, s)" "gets g s = (Ok (g s), s)"
  "modify h s = (Ok (), h s)"
  by (simp_all add: ret_def raise_def lift_def gets_def modify_def)

lemma bindp_simps [simp]:
  "m s = (Ok x, s1) \<Longrightarrow> bindp m f s = f x s1"
  "m s = (Err e, s1) \<Longrightarrow> bindp m f s = (Err e, s1)"
  "m s = (Panic, s1) \<Longrightarrow> bindp m f s = (Panic, s1)"
  by (simp_all add: bindp_def)

lemma seqp_simps [simp]:
  "m s = (Ok x, s1) \<Longrightarrow> seqp m k s = k s1"
  "m s = (Err e, s1) \<Longrightarrow> seqp m k s = (Err e, s1)"
  "m s = (Panic, s1) \<Longrightarrow> seqp m k s = (Panic, s1)"
  by (simp_all add: seqp_def)

lemma tryp_simps [simp]:
  "m s = (Ok x, s1) \<Longrightarrow> tryp m s = (Ok (Inr x), s1)"
  "m s = (Err e, s1) \<Longrightarrow> tryp m s = (Ok (Inl e), s1)"
  "m s = (Panic, s1) \<Longrightarrow> tryp m s = (Panic, s1)"
  by (simp_all add: tryp_def)

lemma whenp_simps [simp]: "whenp True m = m" "whenp False m = ret ()"
  by (simp_all add: whenp_def)

text \<open>
  The conditional rules suit runs with hypotheses; to evaluate a concrete run, the definitions look at each step once.
\<close>

lemmas run_rules = bindp_simps seqp_simps tryp_simps
lemmas run_defs = bindp_def seqp_def tryp_def

lemma bindp_OkE:
  assumes "bindp m f s = (Ok y, s2)"
  obtains x s1 where "m s = (Ok x, s1)" "f x s1 = (Ok y, s2)"
  using assms by (auto simp: bindp_def split: prod.splits result.splits)

lemma seqp_OkE:
  assumes "seqp m k s = (Ok y, s2)"
  obtains x s1 where "m s = (Ok x, s1)" "k s1 = (Ok y, s2)"
  using assms by (auto simp: seqp_def elim: bindp_OkE)

text \<open>The laws of sequencing.\<close>

lemma bindp_assoc: "bindp (bindp m f) g = bindp m (\<lambda>x. bindp (f x) g)"
  by (rule ext) (simp add: bindp_def split: prod.splits result.splits)

lemma bindp_ret [simp]: "bindp (ret x) f = f x"
  by (rule ext) (simp add: bindp_def ret_def)

lemma ret_bindp [simp]: "bindp m ret = m"
  by (rule ext) (simp add: bindp_def ret_def split: prod.splits result.splits)

lemmas proc_assoc = bindp_assoc seqp_def

section \<open>What a procedure keeps\<close>

named_theorems keep_rules \<open>rules for what a procedure keeps\<close>

definition keeps :: "('s \<Rightarrow> bool) \<Rightarrow> ('s, 'a) proc \<Rightarrow> bool" where
  "keeps P m \<longleftrightarrow> (\<forall>s. P s \<longrightarrow> P (snd (m s)))"

lemma keepsD: "keeps P m \<Longrightarrow> P s \<Longrightarrow> m s = (r, s') \<Longrightarrow> P s'"
  unfolding keeps_def by (metis snd_conv)

lemma keeps_basic [keep_rules]: "keeps P (ret x)" "keeps P (raise e)" "keeps P (lift r)" "keeps P (gets g)"
  by (simp_all add: keeps_def)

lemma keeps_modify [keep_rules]: "(\<And>s. P s \<Longrightarrow> P (f s)) \<Longrightarrow> keeps P (modify f)"
  by (simp add: keeps_def)

lemma keeps_bindp [keep_rules]: "keeps P m \<Longrightarrow> (\<And>x. keeps P (f x)) \<Longrightarrow> keeps P (bindp m f)"
  unfolding keeps_def bindp_def by (auto split: prod.splits result.splits)

lemma keeps_seqp [keep_rules]: "keeps P m \<Longrightarrow> keeps P k \<Longrightarrow> keeps P (seqp m k)"
  unfolding seqp_def by (rule keeps_bindp)

lemma keeps_tryp [keep_rules]: "keeps P m \<Longrightarrow> keeps P (tryp m)"
  unfolding keeps_def tryp_def by (auto split: prod.splits result.splits)

lemma keeps_whenp [keep_rules]: "(b \<Longrightarrow> keeps P m) \<Longrightarrow> keeps P (whenp b m)"
  by (simp add: whenp_def keeps_basic)

lemma keeps_if [keep_rules]: "(b \<Longrightarrow> keeps P m) \<Longrightarrow> (\<not> b \<Longrightarrow> keeps P k) \<Longrightarrow> keeps P (if b then m else k)"
  by simp

lemma keeps_option [keep_rules]:
  "(p = None \<Longrightarrow> keeps P m) \<Longrightarrow> (\<And>x. p = Some x \<Longrightarrow> keeps P (f x)) \<Longrightarrow> keeps P (case p of None \<Rightarrow> m | Some x \<Rightarrow> f x)"
  by (cases p) simp_all

lemma keeps_sum [keep_rules]:
  "(\<And>e. v = Inl e \<Longrightarrow> keeps P (f e)) \<Longrightarrow> (\<And>x. v = Inr x \<Longrightarrow> keeps P (g x)) \<Longrightarrow>
     keeps P (case v of Inl e \<Rightarrow> f e | Inr x \<Rightarrow> g x)"
  by (cases v) simp_all

lemma keeps_prod [keep_rules]: "(\<And>a b. v = (a, b) \<Longrightarrow> keeps P (f a b)) \<Longrightarrow> keeps P (case v of (a, b) \<Rightarrow> f a b)"
  by (cases v) simp_all

lemma keeps_list [keep_rules]:
  "(xs = [] \<Longrightarrow> keeps P m) \<Longrightarrow> (\<And>y ys. xs = y # ys \<Longrightarrow> keeps P (f y ys)) \<Longrightarrow>
     keeps P (case xs of [] \<Rightarrow> m | y # ys \<Rightarrow> f y ys)"
  by (cases xs) simp_all

lemma keeps_result [keep_rules]:
  "(\<And>x. v = Ok x \<Longrightarrow> keeps P (f x)) \<Longrightarrow> (\<And>e. v = Err e \<Longrightarrow> keeps P (g e)) \<Longrightarrow> (v = Panic \<Longrightarrow> keeps P m) \<Longrightarrow>
     keeps P (case v of Ok x \<Rightarrow> f x | Err e \<Rightarrow> g e | Panic \<Rightarrow> m)"
  by (cases v) simp_all

lemma keeps_Let [keep_rules]: "(\<And>x. x = t \<Longrightarrow> keeps P (f x)) \<Longrightarrow> keeps P (let x = t in f x)"
  by simp

lemma keeps_forp [keep_rules]: "(\<And>x. x \<in> set xs \<Longrightarrow> keeps P (f x)) \<Longrightarrow> keeps P (forp f xs)"
  by (induction xs) (auto intro: keep_rules)

section \<open>Histories\<close>

record 'e logged =
  hist :: "'e list"

definition emit :: "'e \<Rightarrow> (('e, 'r) logged_scheme, unit) proc" where
  "emit e = modify (\<lambda>s. s\<lparr>hist := hist s @ [e]\<rparr>)"

text \<open>Running a helper that works on the history alone.\<close>

definition on_hist :: "('e list \<Rightarrow> 'a result \<times> 'e list) \<Rightarrow> (('e, 'r) logged_scheme, 'a) proc" where
  "on_hist f s = (case f (hist s) of (r, h) \<Rightarrow> (r, s\<lparr>hist := h\<rparr>))"

definition asks :: "('e list \<Rightarrow> 'a) \<Rightarrow> (('e, 'r) logged_scheme, 'a) proc" where
  "asks f = gets (\<lambda>s. f (hist s))"

text \<open>A procedure that only appends events of a kind to the history.\<close>

named_theorems emit_rules \<open>rules for the events a procedure can emit\<close>

definition emits :: "('e \<Rightarrow> bool) \<Rightarrow> (('e, 'r) logged_scheme, 'a) proc \<Rightarrow> bool" where
  "emits E m \<longleftrightarrow> (\<forall>s. \<exists>es. hist (snd (m s)) = hist s @ es \<and> list_all E es)"

lemma emitsD:
  assumes "emits E m" "m s = (r, s')"
  obtains es where "hist s' = hist s @ es" "list_all E es"
  using assms unfolding emits_def by (metis snd_conv)

lemma emits_basic [emit_rules]: "emits E (ret x)" "emits E (raise e)" "emits E (lift r)" "emits E (gets g)" "emits E (asks q)"
  by (simp_all add: emits_def asks_def)

lemma emits_modify [emit_rules]: "(\<And>s. hist (f s) = hist s) \<Longrightarrow> emits E (modify f)"
  by (simp add: emits_def)

lemma emits_emit [emit_rules]: "E e \<Longrightarrow> emits E (emit e)"
  by (simp add: emits_def emit_def)

lemma emits_on_hist [emit_rules]:
  "(\<And>h. \<exists>es. snd (f h) = h @ es \<and> list_all E es) \<Longrightarrow> emits E (on_hist f)"
  unfolding emits_def on_hist_def by (auto split: prod.splits) (metis snd_conv)

lemma emits_bindp [emit_rules]: "emits E m \<Longrightarrow> (\<And>x. emits E (f x)) \<Longrightarrow> emits E (bindp m f)"
proof -
  assume m: "emits E m" and f: "\<And>x. emits E (f x)"
  show ?thesis unfolding emits_def
  proof
    fix s
    obtain r s1 where r: "m s = (r, s1)" by (cases "m s")
    obtain es where es: "hist s1 = hist s @ es" "list_all E es" using emitsD [OF m r] .
    show "\<exists>es. hist (snd (bindp m f s)) = hist s @ es \<and> list_all E es"
    proof (cases r)
      case (Ok x)
      obtain es' where "hist (snd (f x s1)) = hist s1 @ es'" "list_all E es'" using f [of x] unfolding emits_def by blast
      then show ?thesis using Ok r es by (intro exI [of _ "es @ es'"]) simp
    qed (use r es in auto)
  qed
qed

lemma emits_seqp [emit_rules]: "emits E m \<Longrightarrow> emits E k \<Longrightarrow> emits E (seqp m k)"
  unfolding seqp_def by (rule emits_bindp)

lemma emits_tryp [emit_rules]: "emits E m \<Longrightarrow> emits E (tryp m)"
  unfolding emits_def tryp_def by (auto split: prod.splits result.splits) (metis snd_conv)+

lemma emits_whenp [emit_rules]: "(b \<Longrightarrow> emits E m) \<Longrightarrow> emits E (whenp b m)"
  by (simp add: whenp_def emits_basic)

lemma emits_if [emit_rules]: "(b \<Longrightarrow> emits E m) \<Longrightarrow> (\<not> b \<Longrightarrow> emits E k) \<Longrightarrow> emits E (if b then m else k)"
  by simp

lemma emits_option [emit_rules]:
  "(p = None \<Longrightarrow> emits E m) \<Longrightarrow> (\<And>x. p = Some x \<Longrightarrow> emits E (f x)) \<Longrightarrow> emits E (case p of None \<Rightarrow> m | Some x \<Rightarrow> f x)"
  by (cases p) simp_all

lemma emits_sum [emit_rules]:
  "(\<And>e. v = Inl e \<Longrightarrow> emits E (f e)) \<Longrightarrow> (\<And>x. v = Inr x \<Longrightarrow> emits E (g x)) \<Longrightarrow>
     emits E (case v of Inl e \<Rightarrow> f e | Inr x \<Rightarrow> g x)"
  by (cases v) simp_all

lemma emits_prod [emit_rules]: "(\<And>a b. v = (a, b) \<Longrightarrow> emits E (f a b)) \<Longrightarrow> emits E (case v of (a, b) \<Rightarrow> f a b)"
  by (cases v) simp_all

lemma emits_list [emit_rules]:
  "(xs = [] \<Longrightarrow> emits E m) \<Longrightarrow> (\<And>y ys. xs = y # ys \<Longrightarrow> emits E (f y ys)) \<Longrightarrow>
     emits E (case xs of [] \<Rightarrow> m | y # ys \<Rightarrow> f y ys)"
  by (cases xs) simp_all

lemma emits_result [emit_rules]:
  "(\<And>x. v = Ok x \<Longrightarrow> emits E (f x)) \<Longrightarrow> (\<And>e. v = Err e \<Longrightarrow> emits E (g e)) \<Longrightarrow> (v = Panic \<Longrightarrow> emits E m) \<Longrightarrow>
     emits E (case v of Ok x \<Rightarrow> f x | Err e \<Rightarrow> g e | Panic \<Rightarrow> m)"
  by (cases v) simp_all

lemma emits_Let [emit_rules]: "(\<And>x. x = t \<Longrightarrow> emits E (f x)) \<Longrightarrow> emits E (let x = t in f x)"
  by simp

lemma emits_forp [emit_rules]: "(\<And>x. x \<in> set xs \<Longrightarrow> emits E (f x)) \<Longrightarrow> emits E (forp f xs)"
  by (induction xs) (auto intro: emit_rules)

lemma emits_mono: "emits E m \<Longrightarrow> (\<And>e. E e \<Longrightarrow> F e) \<Longrightarrow> emits F m"
  unfolding emits_def by (metis (mono_tags, lifting) list_all_iff)

section \<open>Procedures that only work on the history\<close>

definition hist_free :: "(('e, 'r) logged_scheme \<Rightarrow> bool) \<Rightarrow> bool" where
  "hist_free P \<longleftrightarrow> (\<forall>s h. P s \<longrightarrow> P (s\<lparr>hist := h\<rparr>))"

lemma hist_freeI [intro]: "(\<And>s h. P s \<Longrightarrow> P (s\<lparr>hist := h\<rparr>)) \<Longrightarrow> hist_free P"
  by (simp add: hist_free_def)

lemma keeps_emit [keep_rules]: "hist_free P \<Longrightarrow> keeps P (emit e)"
  by (simp add: emit_def keeps_def hist_free_def)

lemma keeps_asks [keep_rules]: "keeps P (asks q)"
  by (simp add: asks_def keeps_basic)

lemma keeps_on_hist [keep_rules]: "hist_free P \<Longrightarrow> keeps P (on_hist f)"
  by (auto simp: on_hist_def keeps_def hist_free_def split: prod.splits)

lemma emit_run [simp]: "emit e s = (Ok (), s\<lparr>hist := hist s @ [e]\<rparr>)"
  by (simp add: emit_def)

lemma asks_run [simp]: "asks f s = (Ok (f (hist s)), s)"
  by (simp add: asks_def)

text \<open>Every procedure built from these only appends to the history.\<close>

lemma emits_grows:
  assumes "emits E m" "m s = (r, s')"
  shows "prefix (hist s) (hist s')"
  using emitsD [OF assms] by (metis prefixI)

section \<open>The errors a procedure can return\<close>

named_theorems raise_rules \<open>rules for the errors a procedure can return\<close>

definition raises :: "(go_error \<Rightarrow> bool) \<Rightarrow> ('s, 'a) proc \<Rightarrow> bool" where
  "raises Q m \<longleftrightarrow> (\<forall>s e s'. m s = (Err e, s') \<longrightarrow> Q e)"

lemma raisesD: "raises Q m \<Longrightarrow> m s = (Err e, s') \<Longrightarrow> Q e"
  by (auto simp: raises_def)

lemma raises_basic [raise_rules]: "raises Q (ret x)" "raises Q (gets g)" "raises Q (modify f)" "Q e \<Longrightarrow> raises Q (raise e)"
  by (simp_all add: raises_def)

lemma raises_logged [raise_rules]: "raises Q (emit ev)" "raises Q (asks q)"
  by (simp_all add: raises_def)

lemma raises_lift [raise_rules]: "(\<And>e. r = Err e \<Longrightarrow> Q e) \<Longrightarrow> raises Q (lift r)"
  by (simp add: raises_def)

lemma raises_bindp [raise_rules]: "raises Q m \<Longrightarrow> (\<And>x. raises Q (f x)) \<Longrightarrow> raises Q (bindp m f)"
  unfolding raises_def bindp_def by (auto split: prod.splits result.splits)

lemma raises_seqp [raise_rules]: "raises Q m \<Longrightarrow> raises Q k \<Longrightarrow> raises Q (seqp m k)"
  unfolding seqp_def by (rule raises_bindp)

lemma raises_tryp [raise_rules]: "raises Q (tryp m)"
  unfolding raises_def tryp_def by (auto split: prod.splits result.splits)

lemma raises_whenp [raise_rules]: "(b \<Longrightarrow> raises Q m) \<Longrightarrow> raises Q (whenp b m)"
  by (simp add: whenp_def raises_basic)

lemma raises_if [raise_rules]: "(b \<Longrightarrow> raises Q m) \<Longrightarrow> (\<not> b \<Longrightarrow> raises Q k) \<Longrightarrow> raises Q (if b then m else k)"
  by simp

lemma raises_option [raise_rules]:
  "(p = None \<Longrightarrow> raises Q m) \<Longrightarrow> (\<And>x. p = Some x \<Longrightarrow> raises Q (f x)) \<Longrightarrow> raises Q (case p of None \<Rightarrow> m | Some x \<Rightarrow> f x)"
  by (cases p) simp_all

lemma raises_sum [raise_rules]:
  "(\<And>e. v = Inl e \<Longrightarrow> raises Q (f e)) \<Longrightarrow> (\<And>x. v = Inr x \<Longrightarrow> raises Q (g x)) \<Longrightarrow>
     raises Q (case v of Inl e \<Rightarrow> f e | Inr x \<Rightarrow> g x)"
  by (cases v) simp_all

lemma raises_prod [raise_rules]: "(\<And>a b. v = (a, b) \<Longrightarrow> raises Q (f a b)) \<Longrightarrow> raises Q (case v of (a, b) \<Rightarrow> f a b)"
  by (cases v) simp_all

lemma raises_list [raise_rules]:
  "(xs = [] \<Longrightarrow> raises Q m) \<Longrightarrow> (\<And>y ys. xs = y # ys \<Longrightarrow> raises Q (f y ys)) \<Longrightarrow>
     raises Q (case xs of [] \<Rightarrow> m | y # ys \<Rightarrow> f y ys)"
  by (cases xs) simp_all

lemma raises_Let [raise_rules]: "(\<And>x. x = t \<Longrightarrow> raises Q (f x)) \<Longrightarrow> raises Q (let x = t in f x)"
  by simp

lemma raises_forp [raise_rules]: "(\<And>x. x \<in> set xs \<Longrightarrow> raises Q (f x)) \<Longrightarrow> raises Q (forp f xs)"
  by (induction xs) (auto intro: raise_rules)

end
