(* ===== verification/Rpc_Types.thy ===== *)
theory Rpc_Types
  imports Nb_Types
begin

text \<open>
  The calls the reconcilers make on the NooBaa core: the parameter structures of
  \<^verbatim>\<open>pkg/nb/types.go\<close> and one constructor of \<open>rpc\<close> per method of
  \<open>nb.Client\<close> that a modelled reconciler calls.  An enumeration that the operator only passes on is its string.
\<close>

section \<open>Parameters\<close>

abbreviation EndpointTypeAws :: string where "EndpointTypeAws \<equiv> ''AWS''"
abbreviation EndpointTypeAwsSTS :: string where "EndpointTypeAwsSTS \<equiv> ''AWSSTS''"
abbreviation EndpointTypeAzure :: string where "EndpointTypeAzure \<equiv> ''AZURE''"
abbreviation EndpointTypeAzureSTS :: string where "EndpointTypeAzureSTS \<equiv> ''AZURESTS''"
abbreviation EndpointTypeGoogle :: string where "EndpointTypeGoogle \<equiv> ''GOOGLE''"
abbreviation EndpointTypeGoogleSTS :: string where "EndpointTypeGoogleSTS \<equiv> ''GOOGLE_STS''"
abbreviation EndpointTypeS3Compat :: string where "EndpointTypeS3Compat \<equiv> ''S3_COMPATIBLE''"
abbreviation EndpointTypeIBMCos :: string where "EndpointTypeIBMCos \<equiv> ''IBM_COS''"

record AzureLogAccessKeysParams =
  alk_AzureTenantID :: string
  alk_AzureClientID :: string
  alk_AzureClientSecret :: string
  alk_AzureLogsAnalyticsWorkspaceID :: string

record AzureSTSCredentials =
  asc_ClientID :: string
  asc_TenantID :: string

record AddExternalConnectionParams =
  aec_Name :: string
  aec_EndpointType :: string
  aec_Endpoint :: string
  aec_Identity :: string
  aec_Secret :: string
  aec_AuthMethod :: string
  aec_AWSSTSARN :: string
  aec_AzureSTSCredentials :: "AzureSTSCredentials option"
  aec_Region :: string
  aec_AzureLogAccessKeys :: "AzureLogAccessKeysParams option"

record CheckExternalConnectionParams =
  cec_Connection :: AddExternalConnectionParams
  cec_IgnoreNameAlreadyExist :: bool

record UpdateExternalConnectionParams =
  uec_Name :: string
  uec_Identity :: string
  uec_Secret :: string
  uec_AzureLogAccessKeys :: "AzureLogAccessKeysParams option"
  uec_Region :: string

record StoreInfo =
  sti_Name :: string
  sti_Namespace :: string

record CreateHostsPoolParams =
  chp_Name :: string
  chp_IsManaged :: bool
  chp_HostCount :: int
  chp_VolumeSize :: int
  chp_Backingstore :: StoreInfo

record CreateCloudPoolParams =
  ccp_Name :: string
  ccp_Connection :: string
  ccp_TargetBucket :: string
  ccp_Backingstore :: StoreInfo
  ccp_AvailableCapacity :: "BigInt option"

record NSFSConfig =
  nfc_FsBackend :: string
  nfc_FsRootPath :: string

record CreateNamespaceResourceParams =
  cnr_Name :: string
  cnr_Connection :: string
  cnr_TargetBucket :: string
  cnr_AccessMode :: string
  cnr_NSFSConfig :: "NSFSConfig option"
  cnr_NamespaceStore :: StoreInfo
  cnr_Archive :: bool

record UpdateAccountS3AccessParams =
  uas_Email :: string
  uas_S3Access :: bool
  uas_DefaultResource :: "string option"
  uas_ForceMd5Etag :: "bool option"
  uas_AllowBucketCreation :: "bool option"
  uas_NsfsAccountConfig :: "AccountNsfsConfig option"

record CreateAccountParams =
  cap_Name :: string
  cap_Email :: string
  cap_HasLogin :: bool
  cap_S3Access :: bool
  cap_AllowBucketCreate :: bool
  cap_DefaultResource :: string
  cap_ForceMd5Etag :: "bool option"
  cap_BucketClaimOwner :: string
  cap_NsfsAccountConfig :: "AccountNsfsConfig option"

record TierInfo =
  ti_Name :: string
  ti_DataPlacement :: string
  ti_AttachedPools :: "string list"

record UpdateBucketClassParams =
  ubc_Name :: string
  ubc_PolicyName :: string
  ubc_PolicyTiers :: "(int \<times> string) list"
  ubc_Tiers :: "TierInfo list"

record NamespaceResourceFullConfig =
  nrc_Resource :: string
  nrc_Path :: string

record NamespaceBucketInfo =
  nbi_WriteResource :: NamespaceResourceFullConfig
  nbi_ReadResources :: "NamespaceResourceFullConfig list"
  nbi_CachingTTLMs :: "int option"

record CreateBucketParams =
  cbp_Name :: string
  cbp_Tiering :: string
  cbp_BucketClaim :: "BucketClaimInfo option"
  cbp_Quota :: "QuotaConfig option"
  cbp_Namespace :: "NamespaceBucketInfo option"
  cbp_ArchivePolicy :: "NamespaceResourceFullConfig option"

record CreateVectorBucketParams =
  cvb_VectorBucketName :: string
  cvb_VectorDBType :: string
  cvb_NamespaceResource :: NamespaceResourceFullConfig
  cvb_BucketClaim :: BucketClaimInfo

text \<open>A replication policy is only passed on; it is its JSON text.\<close>

record BucketReplicationParams =
  brp_Name :: string
  brp_ReplicationPolicy :: string

section \<open>Calls and replies\<close>

datatype rpc =
    ReadSystemAPI
  | ListHostsAPI string
  | CheckExternalConnectionAPI CheckExternalConnectionParams
  | AddExternalConnectionAPI AddExternalConnectionParams
  | UpdateExternalConnectionAPI UpdateExternalConnectionParams
  | DeleteExternalConnectionAPI string
  | CreateHostsPoolAPI CreateHostsPoolParams
  | UpdateHostsPoolAPI string
  | GetHostsPoolAgentConfigAPI string
  | CreateCloudPoolAPI CreateCloudPoolParams
  | UpdateAllBucketsDefaultPool string
  | DeletePoolAPI string
  | CreateNamespaceResourceAPI CreateNamespaceResourceParams
  | DeleteNamespaceResourceAPI string
  | UpdateAccountS3Access UpdateAccountS3AccessParams
  | CreateAccountAPI CreateAccountParams
  | ReadAccountAPI string
  | DeleteAccountAPI string
  | UpdateBucketClassAPI UpdateBucketClassParams
  | UpdateBucketAPI CreateBucketParams
  | ReadBucketAPI string
  | CreateBucketAPI CreateBucketParams
  | DeleteBucketAPI string
  | DeleteBucketAndObjectsAPI string
  | GetVectorBucketAPI string
  | CreateVectorBucketAPI CreateVectorBucketParams
  | DeleteVectorBucketAPI string
  | PutBucketReplicationAPI BucketReplicationParams
  | DeleteBucketReplicationAPI string
  | CreateTierAPI TierInfo
  | ReadAuthAPI
  | ReadSystemStatusAPI
  | CreateSystemAPI string string string
  | UpdateEndpointGroupAPI string bool string int int
  | RegisterToClusterAPI
  | ReadNamespaceResourceOperatorInfoAPI string
  | SetNamespaceStoreInfoAPI string string
  | CreateTieringPolicyAPI string "(int \<times> string) list"

text \<open>
  The client returns an \<open>*nb.RPCError\<close> when the core answers with an error, and some other error when the
  transport fails; it never returns a \<open>PersistentError\<close>.
\<close>

datatype rpc_error = RemoteError string string | TransportError string

fun rpc_go :: "rpc_error \<Rightarrow> go_error" where
  "rpc_go (RemoteError code msg) = RPCError code msg"
| "rpc_go (TransportError msg) = PlainError msg"

fun rpc_code :: "rpc_error \<Rightarrow> string option" where
  "rpc_code (RemoteError code _) = Some code"
| "rpc_code (TransportError _) = None"

lemma rpc_go_not_persistent [simp]: "\<not> IsPersistentError (rpc_go e)" "rpc_go e \<noteq> PersistentError a b"
  by (cases e; simp)+

datatype ExternalConnectionStatus =
    ExternalConnectionSuccess | ExternalConnectionTimeout | ExternalConnectionInvalidEndpoint
  | ExternalConnectionInvalidCredentials | ExternalConnectionNotSupported | ExternalConnectionTimeSkew
  | ExternalConnectionUnknownFailure | ExternalConnectionInvalidArchiveTarget | ExternalConnectionOther string

fun connection_status_string :: "ExternalConnectionStatus \<Rightarrow> string" where
  "connection_status_string ExternalConnectionSuccess = ''SUCCESS''"
| "connection_status_string ExternalConnectionTimeout = ''TIMEOUT''"
| "connection_status_string ExternalConnectionInvalidEndpoint = ''INVALID_ENDPOINT''"
| "connection_status_string ExternalConnectionInvalidCredentials = ''INVALID_CREDENTIALS''"
| "connection_status_string ExternalConnectionNotSupported = ''NOT_SUPPORTED''"
| "connection_status_string ExternalConnectionTimeSkew = ''TIME_SKEW''"
| "connection_status_string ExternalConnectionUnknownFailure = ''UNKNOWN_FAILURE''"
| "connection_status_string ExternalConnectionInvalidArchiveTarget = ''INVALID_ARCHIVE_TARGET''"
| "connection_status_string (ExternalConnectionOther s) = s"

record CheckExternalConnectionReply =
  cer_Status :: ExternalConnectionStatus
  cer_Code :: string
  cer_Message :: string

record S3AccessKeys =
  ak_AccessKey :: string
  ak_SecretKey :: string

record AccountKeysReply =
  akr_ARN :: string
  akr_AccessKeys :: "S3AccessKeys list"

record BucketClassInfo =
  bcinfo_ErrorMessage :: string
  bcinfo_ShouldRevert :: bool
  bcinfo_RevertTiers :: "TierInfo list"

end
