(* ===== verification/Gcp.thy ===== *)
theory Gcp
  imports Store_Util
begin

text \<open>
  Google credentials (\<^verbatim>\<open>pkg/util/util.go\<close>): service accounts and workload identity
  federation, the identity of a credential, the credential a store's secret holds, and the parameters from
  which a federated credential is built.  JSON encoding and decoding are arguments.
\<close>

section \<open>Credentials\<close>

record googleCredentialsJSON =
  g_Type :: string
  g_PrivateKeyID :: string
  g_ServiceAccountImpersonationURL :: string

record googleCredentialsJSONFullSTS =
  sts_Type :: string
  sts_Audience :: string
  sts_SubjectTokenType :: string
  sts_TokenURL :: string
  sts_ServiceAccountImpersonationURL :: string
  sts_CredentialSourceFile :: string
  sts_CredentialSourceFormat :: "string \<rightharpoonup> string"

record json_lib =
  j_unmarshal :: "string \<Rightarrow> string + googleCredentialsJSON"
  j_marshal :: "googleCredentialsJSONFullSTS \<Rightarrow> string + string"

abbreviation GoogleImpersonationURLPrefix :: string where
  "GoogleImpersonationURLPrefix \<equiv> ''https://iamcredentials.googleapis.com/v1/projects/-/serviceAccounts/''"
abbreviation GoogleImpersonationURLSuffix :: string where
  "GoogleImpersonationURLSuffix \<equiv> '':generateAccessToken''"
abbreviation gcpServiceAccountEmailSuffix :: string where
  "gcpServiceAccountEmailSuffix \<equiv> ''.iam.gserviceaccount.com''"
abbreviation WebIdentityTokenPath :: string where
  "WebIdentityTokenPath \<equiv> ''/var/run/secrets/openshift/serviceaccount/token''"

definition googleIdentityFromImpersonationURL :: "string \<Rightarrow> string result" where
  "googleIdentityFromImpersonationURL url =
     (if \<not> HasPrefix url GoogleImpersonationURLPrefix \<or> \<not> HasSuffix url GoogleImpersonationURLSuffix
      then Err (PlainError (''invalid service_account_impersonation_url: '' @ go_quote url))
      else (let email = TrimSuffix (TrimPrefix url GoogleImpersonationURLPrefix) GoogleImpersonationURLSuffix in
            if email = [] then
              Err (PlainError (''invalid service_account_impersonation_url: empty service account email in '' @ go_quote url))
            else if \<not> Contains_str email ''@'' then
              Err (PlainError (''invalid service_account_impersonation_url: malformed service account email ''
                @ go_quote email @ '' in '' @ go_quote url))
            else Ok email))"

definition googleIdentityFromCredentials :: "googleCredentialsJSON \<Rightarrow> string result" where
  "googleIdentityFromCredentials creds =
     (if g_Type creds = ''external_account'' then
        googleIdentityFromImpersonationURL (g_ServiceAccountImpersonationURL creds)
      else if g_Type creds = ''service_account'' then
        (if g_PrivateKeyID creds = [] then
           Err (PlainError ''invalid google service account json: missing private_key_id'')
         else Ok (g_PrivateKeyID creds))
      else if g_Type creds = [] then Err (PlainError ''invalid google credentials json: missing type'')
      else Err (PlainError (''invalid google credentials json: unsupported type '' @ go_quote (g_Type creds))))"

definition ParseGoogleCredentials :: "json_lib \<Rightarrow> string \<Rightarrow> (bool \<times> string) result" where
  "ParseGoogleCredentials jl json = (case j_unmarshal jl json of
     Inl err \<Rightarrow> Err (PlainError (''invalid google credentials json: '' @ err))
   | Inr creds \<Rightarrow>
       bind_r (googleIdentityFromCredentials creds) (\<lambda>identity. Ok (g_Type creds = ''external_account'', identity)))"

definition GoogleCredentialsFromStoreSecret :: "Secret option \<Rightarrow> string result" where
  "GoogleCredentialsFromStoreSecret p = (case p of
     None \<Rightarrow> Err (ValidationError ''invalid google secret: secret is nil'')
   | Some secret \<Rightarrow>
       (let wifJSON = secretDataString p ''GoogleCredentialsJson'';
            serviceAccountJSON = secretDataString p ''GoogleServiceAccountPrivateKeyJson''
        in if wifJSON \<noteq> [] \<and> serviceAccountJSON \<noteq> [] then
             Err (ValidationError (''secret '' @ go_quote (sec_Name secret) @ '' in namespace ''
               @ go_quote (sec_Namespace secret) @ '' must not contain both ''
               @ go_quote ''GoogleCredentialsJson'' @ '' and '' @ go_quote ''GoogleServiceAccountPrivateKeyJson''
               @ ''; use '' @ go_quote ''GoogleCredentialsJson'' @ '' for GCP WIF (STS) external_account or ''
               @ go_quote ''GoogleServiceAccountPrivateKeyJson'' @ '' for service_account''))
           else if wifJSON \<noteq> [] then Ok wifJSON
           else if serviceAccountJSON \<noteq> [] then Ok serviceAccountJSON
           else Err (ValidationError (''Invalid secret for google type '' @ go_quote (sec_Name secret)
               @ '' in namespace '' @ go_quote (sec_Namespace secret)
               @ '' expected JSON in data.GoogleCredentialsJson or data.GoogleServiceAccountPrivateKeyJson''))))"

text \<open>An error of the parser counts as a credential that is not federated.\<close>

definition is_external :: "json_lib \<Rightarrow> string \<Rightarrow> bool" where
  "is_external jl json \<longleftrightarrow> (case ParseGoogleCredentials jl json of Ok (b, _) \<Rightarrow> b | _ \<Rightarrow> False)"

definition isGoogleSTSSecret :: "json_lib \<Rightarrow> Secret option \<Rightarrow> bool" where
  "isGoogleSTSSecret jl p = (case p of
     None \<Rightarrow> False
   | Some secret \<Rightarrow>
       (let wifJSON = secretDataString p ''GoogleCredentialsJson'' in
        if wifJSON \<noteq> [] \<and> is_external jl wifJSON then True
        else (let keyJSON = secretDataString p ''GoogleServiceAccountPrivateKeyJson'' in
              keyJSON \<noteq> [] \<and> is_external jl keyJSON)))"

definition isGoogleSTSClusterStore ::
    "json_lib \<Rightarrow> get_secret \<Rightarrow> bool \<Rightarrow> SecretReference option result \<Rightarrow> bool result" where
  "isGoogleSTSClusterStore jl get isGoogleCloudStorage ref =
     (if \<not> isGoogleCloudStorage then Ok False
      else case ref of
        Panic \<Rightarrow> Panic
      | Err _ \<Rightarrow> Ok False
      | Ok None \<Rightarrow> Ok False
      | Ok (Some r) \<Rightarrow>
          if sr_Name r = [] then Ok False
          else (case GetSecretFromSecretReference get (Some r) of
                  Panic \<Rightarrow> Panic
                | Err _ \<Rightarrow> Ok False
                | Ok secret \<Rightarrow> Ok (isGoogleSTSSecret jl secret)))"

text \<open>The accessor of the reference is called first in the source; when it crashes, so does the test.\<close>

definition IsGoogleSTSClusterBS :: "json_lib \<Rightarrow> get_secret \<Rightarrow> BackingStore \<Rightarrow> bool result" where
  "IsGoogleSTSClusterBS jl get bs = (case GetBackingStoreSecret bs of
     Panic \<Rightarrow> Panic
   | ref \<Rightarrow> isGoogleSTSClusterStore jl get
       (bs_Type bs = StoreTypeGoogleCloudStorage \<and> bss_GoogleCloudStorage (bs_Spec bs) \<noteq> None) ref)"

definition IsGoogleSTSClusterNS :: "json_lib \<Rightarrow> get_secret \<Rightarrow> NamespaceStore \<Rightarrow> bool result" where
  "IsGoogleSTSClusterNS jl get ns = (case GetNamespaceStoreSecret ns of
     Panic \<Rightarrow> Panic
   | ref \<Rightarrow> isGoogleSTSClusterStore jl get
       (ns_Type ns = NSStoreTypeGoogleCloudStorage \<and> nss_GoogleCloudStorage (ns_Spec ns) \<noteq> None) ref)"

definition ValidateGoogleCredentialsJSONType :: "json_lib \<Rightarrow> string \<Rightarrow> bool \<Rightarrow> check" where
  "ValidateGoogleCredentialsJSONType jl json expectedSTS =
     bind_r (ParseGoogleCredentials jl json) (\<lambda>(isSTS, _).
       if expectedSTS \<and> \<not> isSTS then
         Err (ValidationError (''GCP credentials JSON type must be '' @ go_quote ''external_account'' @ '' for WIF (STS)''))
       else if \<not> expectedSTS \<and> isSTS then
         Err (ValidationError (''GCP credentials JSON type must be '' @ go_quote ''service_account'' @ '' for long-lived credentials''))
       else pass)"

section \<open>Building a federated credential\<close>

definition lower :: "char \<Rightarrow> bool" where
  "lower c \<longleftrightarrow> (let n = of_char c :: nat in 97 \<le> n \<and> n \<le> 122)"

definition alnum :: "char \<Rightarrow> bool" where
  "alnum c \<longleftrightarrow> lower c \<or> digit c \<noteq> None"

definition alnum_hyphen :: "char \<Rightarrow> bool" where
  "alnum_hyphen c \<longleftrightarrow> alnum c \<or> c = CHR ''-''"

text \<open>
  The regular expressions \<^verbatim>\<open>^[0-9]+$\<close>,
  \<^verbatim>\<open>^[a-z0-9](?:[a-z0-9-]{2,30}[a-z0-9])?$\<close> and
  \<^verbatim>\<open>^[a-z]([-a-z0-9]*[a-z0-9])$\<close>.
\<close>

definition gcpProjectNumberRegexp :: "string \<Rightarrow> bool" where
  "gcpProjectNumberRegexp s \<longleftrightarrow> s \<noteq> [] \<and> list_all (\<lambda>c. digit c \<noteq> None) s"

definition gcpWIFPoolOrProviderIDRegexp :: "string \<Rightarrow> bool" where
  "gcpWIFPoolOrProviderIDRegexp s \<longleftrightarrow> s \<noteq> [] \<and> alnum (hd s) \<and>
     (length s = 1 \<or> 4 \<le> length s \<and> length s \<le> 32 \<and> alnum (last s) \<and> list_all alnum_hyphen s)"

definition gcpServiceAccountIDRegexp :: "string \<Rightarrow> bool" where
  "gcpServiceAccountIDRegexp s \<longleftrightarrow> 2 \<le> length s \<and> lower (hd s) \<and> alnum (last s) \<and> list_all alnum_hyphen (tl s)"

definition ValidateGCPProjectNumber :: "string \<Rightarrow> string \<Rightarrow> check" where
  "ValidateGCPProjectNumber n fieldName = (let n = TrimSpace n in
     if n = [] then Err (ValidationError (fieldName @ '' is required and must be non-empty''))
     else if \<not> gcpProjectNumberRegexp n then
       Err (ValidationError (fieldName @ '' must be a numeric GCP project number (digits only), not a project ID''))
     else pass)"

definition ValidateGCPWIFPoolOrProviderID :: "string \<Rightarrow> string \<Rightarrow> check" where
  "ValidateGCPWIFPoolOrProviderID s fieldName = (let s = TrimSpace s in
     if s = [] then Err (ValidationError (fieldName @ '' is required and must be non-empty''))
     else if length s < 4 \<or> 32 < length s then Err (ValidationError (fieldName @ '' must be 4-32 characters''))
     else if HasPrefix s ''gcp-'' then
       Err (ValidationError (fieldName @ '' must not start with '' @ go_quote ''gcp-'' @ '' (reserved by Google)''))
     else if \<not> gcpWIFPoolOrProviderIDRegexp s then
       Err (ValidationError (fieldName @ '' must contain only lowercase letters, digits, and hyphens [a-z0-9-]''))
     else pass)"

definition ValidateGCPServiceAccountEmail :: "string \<Rightarrow> string \<Rightarrow> check" where
  "ValidateGCPServiceAccountEmail email fieldName = (let email = TrimSpace email in
     if email = [] then Err (ValidationError (fieldName @ '' is required and must be non-empty''))
     else if \<not> HasSuffix email gcpServiceAccountEmailSuffix then
       Err (ValidationError (fieldName @ '' must end with '' @ go_quote gcpServiceAccountEmailSuffix))
     else if count_list email CHR ''@'' \<noteq> 1 then
       Err (ValidationError (fieldName @ '' must be a valid GCP service account email (exactly one @)''))
     else (case Cut email CHR ''@'' of (serviceAccountID, domain, ok) \<Rightarrow>
       if \<not> ok \<or> serviceAccountID = [] then
         Err (ValidationError (fieldName @ '' must be a valid GCP service account email (missing service account ID)''))
       else if TrimSuffix domain gcpServiceAccountEmailSuffix = [] then
         Err (ValidationError (fieldName @ '' must be a valid GCP service account email (missing project ID)''))
       else if length serviceAccountID < 6 \<or> 30 < length serviceAccountID then
         Err (ValidationError (fieldName @ '' account ID must be 6-30 characters''))
       else if \<not> gcpServiceAccountIDRegexp serviceAccountID then
         Err (ValidationError (fieldName
           @ '' must be a valid GCP service account email (account ID: lowercase letters, digits, hyphens)''))
       else pass))"

definition ValidateGCPWIFParamFormats :: "string \<Rightarrow> string \<Rightarrow> string \<Rightarrow> string \<Rightarrow> check" where
  "ValidateGCPWIFParamFormats projectNumber poolID providerID email = first_err [
     ValidateGCPProjectNumber projectNumber ''project-number'',
     ValidateGCPWIFPoolOrProviderID poolID ''pool-id'',
     ValidateGCPWIFPoolOrProviderID providerID ''provider-id'',
     ValidateGCPServiceAccountEmail email ''service-account-email'']"

definition ValidateGCPWIFParams :: "string \<Rightarrow> string \<Rightarrow> string \<Rightarrow> string \<Rightarrow> check" where
  "ValidateGCPWIFParams projectNumber poolID providerID email =
     (let count = length (filter (\<lambda>s. s \<noteq> []) [projectNumber, poolID, providerID, email]) in
      if count = 0 then pass
      else if count \<noteq> 4 then
        Err (ValidationError (''when any GCP WIF (STS) parameter is set, all four are required: ''
          @ ''project-number, pool-id, provider-id, service-account-email''))
      else ValidateGCPWIFParamFormats projectNumber poolID providerID email)"

definition GoogleWIFAudience :: "string \<Rightarrow> string \<Rightarrow> string \<Rightarrow> string" where
  "GoogleWIFAudience projectNumber poolID providerID =
     ''//iam.googleapis.com/projects/'' @ projectNumber @ ''/locations/global/workloadIdentityPools/'' @ poolID
     @ ''/providers/'' @ providerID"

definition BuildGoogleWIFCredentialsJSON :: "json_lib \<Rightarrow> string \<Rightarrow> string \<Rightarrow> string \<Rightarrow> string \<Rightarrow> string result" where
  "BuildGoogleWIFCredentialsJSON jl projectNumber poolID providerID email =
     (let projectNumber = TrimSpace projectNumber; poolID = TrimSpace poolID;
          providerID = TrimSpace providerID; email = TrimSpace email
      in bind_r (ValidateGCPWIFParamFormats projectNumber poolID providerID email) (\<lambda>_.
           case j_marshal jl \<lparr>sts_Type = ''external_account'',
                  sts_Audience = GoogleWIFAudience projectNumber poolID providerID,
                  sts_SubjectTokenType = ''urn:ietf:params:oauth:token-type:jwt'',
                  sts_TokenURL = ''https://sts.googleapis.com/v1/token'',
                  sts_ServiceAccountImpersonationURL =
                    GoogleImpersonationURLPrefix @ email @ GoogleImpersonationURLSuffix,
                  sts_CredentialSourceFile = WebIdentityTokenPath,
                  sts_CredentialSourceFormat = [''type'' \<mapsto> ''text'']\<rparr> of
             Inl err \<Rightarrow> Err (PlainError (''failed to marshal credentials: '' @ err))
           | Inr json \<Rightarrow> Ok json))"

definition GcpProjectIDFromServiceAccountEmail :: "string \<Rightarrow> string result" where
  "GcpProjectIDFromServiceAccountEmail email = (case LastIndex email CHR ''@'' of
     None \<Rightarrow> Err (PlainError (''invalid GCP service account email '' @ go_quote email))
   | Some i \<Rightarrow>
       (let projectID = TrimSuffix (drop (Suc i) email) gcpServiceAccountEmailSuffix in
        if projectID = [] then Err (PlainError (''invalid GCP service account email '' @ go_quote email))
        else Ok projectID))"

section \<open>Reading back what was built\<close>

lemma trim_left_of_clean: "p \<in> set rs \<Longrightarrow> p \<noteq> [] \<Longrightarrow> \<not> prefix p (trim_left_of rs s)"
proof (induction rs s rule: trim_left_of.induct)
  case (1 rs s)
  show ?case
  proof (cases "find (\<lambda>p. p \<noteq> [] \<and> prefix p s) rs")
    case None
    then have "trim_left_of rs s = s" by (simp add: trim_left_of.simps [of rs s])
    then show ?thesis using "1.prems" None by (auto simp: find_None_iff)
  next
    case (Some q)
    then show ?thesis using "1.IH" "1.prems" by (simp add: trim_left_of.simps [of rs s])
  qed
qed

text \<open>Trimming is idempotent: what is left starts and ends with no space, and trimming one end keeps the other clean.\<close>

lemma TrimSpace_idem: "TrimSpace (TrimSpace s) = TrimSpace s"
proof -
  define l where "l = trim_left_of space_runes s"
  define r where "r = trim_left_of (map rev space_runes) (rev l)"
  have ts: "TrimSpace s = rev r" by (simp add: TrimSpace_def l_def r_def)
  have "prefix (rev r) l"
    using trim_left_of_suffix [of "map rev space_runes" "rev l"] by (simp add: r_def suffix_to_prefix)
  then have "trim_left_of space_runes (rev r) = rev r"
    using trim_left_of_clean [of _ space_runes s] by (intro trim_left_of_no_space) (auto simp: l_def dest: prefix_order.trans)
  moreover have "trim_left_of (map rev space_runes) r = r"
    using trim_left_of_clean [of _ "map rev space_runes" "rev l"] by (intro trim_left_of_no_space) (auto simp: r_def)
  ultimately show ?thesis unfolding ts by (simp add: TrimSpace_def)
qed

lemma identity_of_impersonation:
  "email \<noteq> [] \<Longrightarrow> CHR ''@'' \<in> set email \<Longrightarrow>
     googleIdentityFromImpersonationURL (GoogleImpersonationURLPrefix @ email @ GoogleImpersonationURLSuffix) = Ok email"
proof -
  assume e: "email \<noteq> []" "CHR ''@'' \<in> set email"
  have "HasSuffix (GoogleImpersonationURLPrefix @ email @ GoogleImpersonationURLSuffix) GoogleImpersonationURLSuffix"
    unfolding HasSuffix_def suffix_def by (intro exI [of _ "GoogleImpersonationURLPrefix @ email"]) simp
  moreover have "Contains_str email ''@''"
    using e(2) unfolding Contains_str_def by (auto dest: split_list simp: sublist_def)
  ultimately show ?thesis
    using e(1) unfolding googleIdentityFromImpersonationURL_def
    by (simp add: HasPrefix_def Let_def del: append.simps) 
qed

text \<open>A valid e-mail is an account and a project with the suffix, separated by the only at-sign.\<close>

lemma valid_email_parts:
  assumes "ValidateGCPServiceAccountEmail email f = pass"
  obtains account project where
    "TrimSpace email = account @ CHR ''@'' # project @ gcpServiceAccountEmailSuffix"
    "CHR ''@'' \<notin> set account" "CHR ''@'' \<notin> set project" "account \<noteq> []" "project \<noteq> []"
proof -
  obtain a d ok where cut: "Cut (TrimSpace email) CHR ''@'' = (a, d, ok)" by (cases "Cut (TrimSpace email) CHR ''@''")
  have v: "suffix gcpServiceAccountEmailSuffix (TrimSpace email)" "count_list (TrimSpace email) CHR ''@'' = 1" "ok" "a \<noteq> []"
    "TrimSuffix d gcpServiceAccountEmailSuffix \<noteq> []"
    using assms cut by (auto simp: ValidateGCPServiceAccountEmail_def HasSuffix_def Let_def split: if_splits)
  have e: "TrimSpace email = a @ CHR ''@'' # d" "CHR ''@'' \<notin> set a" using Cut_eq [OF cut] v(3) by auto
  have d: "CHR ''@'' \<notin> set d" using v(2) e by (simp add: count_list_0_iff)
  have "suffix gcpServiceAccountEmailSuffix d"
  proof (cases "length gcpServiceAccountEmailSuffix \<le> length d")
    case True
    have "suffix d (TrimSpace email)" unfolding e(1) suffix_def by (intro exI [of _ "a @ [CHR ''@'']"]) simp
    then show ?thesis by (rule suffix_length_suffix [OF v(1) _ True])
  next
    case False
    then have l: "length (CHR ''@'' # d) \<le> length gcpServiceAccountEmailSuffix" by simp
    have "suffix (CHR ''@'' # d) (TrimSpace email)" unfolding e(1) suffix_def by blast
    then have "suffix (CHR ''@'' # d) gcpServiceAccountEmailSuffix" by (rule suffix_length_suffix [OF _ v(1) l])
    then have "CHR ''@'' \<in> set gcpServiceAccountEmailSuffix" by (meson list.set_intros(1) set_mono_suffix subsetD)
    then show ?thesis by simp
  qed
  then obtain p where p: "d = p @ gcpServiceAccountEmailSuffix" by (auto simp: suffix_def)
  show thesis
    by (rule that [of a p]) (use e d v(4,5) in \<open>simp_all add: p\<close>)
qed

definition ascii :: "string \<Rightarrow> bool" where
  "ascii s \<longleftrightarrow> list_all (\<lambda>c. of_char c < (128 :: nat)) s"

text \<open>
  What is assumed of JSON: on ASCII text, decoding an encoded credential gives back the fields that the decoder
  knows; the private key id, which the encoder does not write, is empty.
\<close>

definition json_roundtrip :: "json_lib \<Rightarrow> bool" where
  "json_roundtrip jl \<longleftrightarrow> (\<forall>c. ascii (sts_Audience c) \<longrightarrow> ascii (sts_ServiceAccountImpersonationURL c) \<longrightarrow>
     (\<exists>json. j_marshal jl c = Inr json \<and> j_unmarshal jl json = Inr \<lparr>g_Type = sts_Type c, g_PrivateKeyID = '''',
        g_ServiceAccountImpersonationURL = sts_ServiceAccountImpersonationURL c\<rparr>))"

lemma ascii_append [simp]: "ascii (a @ b) \<longleftrightarrow> ascii a \<and> ascii b"
  by (simp add: ascii_def)

lemma ascii_digits: "gcpProjectNumberRegexp s \<Longrightarrow> ascii s"
  by (auto simp: gcpProjectNumberRegexp_def ascii_def digit_def list_all_iff Let_def split: if_splits)

lemma alnum_hyphen_ascii: "alnum_hyphen c \<Longrightarrow> of_char c < (128 :: nat)"
  by (auto simp: alnum_hyphen_def alnum_def lower_def digit_def Let_def split: if_splits)

lemma ascii_resource_id: "gcpWIFPoolOrProviderIDRegexp s \<Longrightarrow> ascii s"
  by (cases s) (auto simp: gcpWIFPoolOrProviderIDRegexp_def ascii_def list_all_iff alnum_hyphen_def intro!: alnum_hyphen_ascii)

text \<open>
  A federated Google credential built from valid parameters reads back: for every set of parameters the four
  checks accept, surrounding white space included, the credential is built, it parses as a federated credential whose
  identity is the service account, it has the type expected of such a credential and not of a long-lived one,
  and the project of the account can be read off its address.
\<close>

theorem google_wif_roundtrip:
  assumes "json_roundtrip jl" and "ascii (TrimSpace email)"
    and "ValidateGCPWIFParamFormats (TrimSpace n) (TrimSpace pool) (TrimSpace provider) (TrimSpace email) = pass"
  shows "\<exists>json project. BuildGoogleWIFCredentialsJSON jl n pool provider email = Ok json \<and>
     ParseGoogleCredentials jl json = Ok (True, TrimSpace email) \<and>
     ValidateGoogleCredentialsJSONType jl json True = pass \<and>
     \<not> is_ok (ValidateGoogleCredentialsJSONType jl json False) \<and>
     GcpProjectIDFromServiceAccountEmail (TrimSpace email) = Ok project \<and> project \<noteq> []"
proof -
  have v: "ValidateGCPProjectNumber (TrimSpace n) ''project-number'' = pass"
    "ValidateGCPWIFPoolOrProviderID (TrimSpace pool) ''pool-id'' = pass"
    "ValidateGCPWIFPoolOrProviderID (TrimSpace provider) ''provider-id'' = pass"
    "ValidateGCPServiceAccountEmail (TrimSpace email) ''service-account-email'' = pass"
    using assms(3) by (simp_all add: ValidateGCPWIFParamFormats_def first_err_eq_pass)
  have a: "ascii (TrimSpace n)" "ascii (TrimSpace pool)" "ascii (TrimSpace provider)"
    using v(1-3) by (auto simp: ValidateGCPProjectNumber_def ValidateGCPWIFPoolOrProviderID_def TrimSpace_idem Let_def
        intro: ascii_digits ascii_resource_id split: if_splits)
  obtain account project where e: "TrimSpace email = account @ CHR ''@'' # project @ gcpServiceAccountEmailSuffix"
    "CHR ''@'' \<notin> set project" "project \<noteq> []"
    using valid_email_parts [OF v(4)] by (metis TrimSpace_idem)
  let ?url = "GoogleImpersonationURLPrefix @ TrimSpace email @ GoogleImpersonationURLSuffix"
  let ?aud = "GoogleWIFAudience (TrimSpace n) (TrimSpace pool) (TrimSpace provider)"
  have asc: "ascii ?url" "ascii ?aud" using assms(2) a by (simp_all add: GoogleWIFAudience_def del: append.simps) (simp_all add: ascii_def)
  let ?c = "\<lparr>sts_Type = ''external_account'', sts_Audience = ?aud,
    sts_SubjectTokenType = ''urn:ietf:params:oauth:token-type:jwt'', sts_TokenURL = ''https://sts.googleapis.com/v1/token'',
    sts_ServiceAccountImpersonationURL = ?url, sts_CredentialSourceFile = WebIdentityTokenPath,
    sts_CredentialSourceFormat = [''type'' \<mapsto> ''text'']\<rparr>"
  obtain json where json: "j_marshal jl ?c = Inr json" "j_unmarshal jl json = Inr \<lparr>g_Type = ''external_account'',
      g_PrivateKeyID = '''', g_ServiceAccountImpersonationURL = ?url\<rparr>"
    using assms(1) [unfolded json_roundtrip_def, rule_format, of ?c]
    by (auto simp only: googleCredentialsJSONFullSTS.select_convs asc simp_thms)
  have id: "googleIdentityFromImpersonationURL ?url = Ok (TrimSpace email)"
    by (rule identity_of_impersonation) (simp_all add: e(1))
  have parse: "ParseGoogleCredentials jl json = Ok (True, TrimSpace email)"
    unfolding ParseGoogleCredentials_def json(2) by (simp add: googleIdentityFromCredentials_def id del: append.simps)
  have "GcpProjectIDFromServiceAccountEmail (TrimSpace email) = Ok project"
    using e(2,3) unfolding e(1) GcpProjectIDFromServiceAccountEmail_def
    by (subst LastIndex_append) (simp_all add: Let_def)
  moreover have "BuildGoogleWIFCredentialsJSON jl n pool provider email = Ok json"
    using assms(3) json(1) by (simp add: BuildGoogleWIFCredentialsJSON_def Let_def del: append.simps)
  ultimately show ?thesis
    using parse e(3) by (auto simp: ValidateGoogleCredentialsJSONType_def)
qed

text \<open>An encoding with this law: the length of the type in unary, the type and the URL.\<close>

definition ex_json :: json_lib where
  "ex_json = \<lparr>j_unmarshal = (\<lambda>s. let n = length (takeWhile (\<lambda>c. c = CHR ''a'') s); t = drop (Suc n) s in
       Inr \<lparr>g_Type = take n t, g_PrivateKeyID = '''', g_ServiceAccountImpersonationURL = drop n t\<rparr>),
     j_marshal = (\<lambda>c. Inr (replicate (length (sts_Type c)) CHR ''a'' @ CHR ''b'' # sts_Type c
       @ sts_ServiceAccountImpersonationURL c))\<rparr>"

lemma ex_json_roundtrip: "json_roundtrip ex_json"
  by (simp add: json_roundtrip_def ex_json_def takeWhile_append takeWhile_replicate Let_def)

text \<open>Printable ASCII text has nothing to trim.\<close>

definition printable :: "char \<Rightarrow> bool" where
  "printable c \<longleftrightarrow> (let n = of_char c :: nat in 33 \<le> n \<and> n \<le> 126)"

lemma space_runes_ends: "list_all (\<lambda>p. \<not> printable (hd p) \<and> \<not> printable (last p)) space_runes"
  by code_simp

lemma TrimSpace_printable: "list_all printable s \<Longrightarrow> TrimSpace s = s"
proof -
  assume s: "list_all printable s"
  have hd: "\<not> printable (hd p)" "\<not> printable (last p)" if "p \<in> set space_runes" for p
    using space_runes_ends that by (auto simp: list_all_iff)
  have aux: "\<not> prefix p t" if "\<not> printable (hd p)" "p \<noteq> []" "list_all printable t" for p t
    using that by (cases p) (auto simp: prefix_def list_all_iff)
  have "trim_left_of space_runes s = s"
    by (rule trim_left_of_no_space) (rule aux [OF hd(1) _ s])
  moreover have "trim_left_of (map rev space_runes) (rev s) = rev s"
    by (rule trim_left_of_no_space, rule aux) (use hd(2) s in \<open>auto simp: hd_rev\<close>)
  ultimately show ?thesis by (simp add: TrimSpace_def)
qed

theorem google_wif_roundtrip_witness:
  "\<exists>json. BuildGoogleWIFCredentialsJSON ex_json ''123'' ''pool-1'' ''prov-1'' ''worker@proj.iam.gserviceaccount.com'' = Ok json"
proof -
  have p: "list_all printable ''123''" "list_all printable ''pool-1''" "list_all printable ''prov-1''"
    "list_all printable ''worker@proj.iam.gserviceaccount.com''"
    by code_simp+
  note t = p [THEN TrimSpace_printable]
  have r: "gcpProjectNumberRegexp ''123''" "gcpWIFPoolOrProviderIDRegexp ''pool-1''"
    "gcpWIFPoolOrProviderIDRegexp ''prov-1''" "gcpServiceAccountIDRegexp ''worker''"
    "ascii ''worker@proj.iam.gserviceaccount.com''"
    by code_simp+
  have "ValidateGCPWIFParamFormats ''123'' ''pool-1'' ''prov-1'' ''worker@proj.iam.gserviceaccount.com'' = pass"
    unfolding ValidateGCPWIFParamFormats_def ValidateGCPProjectNumber_def ValidateGCPWIFPoolOrProviderID_def
      ValidateGCPServiceAccountEmail_def t Let_def
    by (simp add: r HasPrefix_def HasSuffix_def suffix_def TrimSuffix_def)
  then show ?thesis
    using google_wif_roundtrip [OF ex_json_roundtrip, of "''worker@proj.iam.gserviceaccount.com''" "''123''" "''pool-1''" "''prov-1''"]
      r(5) unfolding t by blast
qed

end
