(* ===== verification/Cluster.thy ===== *)
theory Cluster
  imports Proc Rpc_Types Slice_Util Gcp Profiles NS_Validation BC_Validation
begin

text \<open>
  What the reconcilers share.  A reconciler acts on two outside worlds, the Kubernetes API server and the NooBaa core.
  Every access is an event of the history; the record \<open>cluster\<close> holds, for every kind of access, the answer as a
  function of the history before it.  Nothing is assumed of the answers, so a theorem about a reconciler
  holds whatever the cluster, the core and their other users do between two accesses.

  Kubernetes writes go through the helpers of \<open>Kube\<close>, instantiated with clients over the history.  A write leaves
  the object in memory as it was sent (the resource version, which the server changes, is not modelled), except for
  secrets: \<open>c_Written\<close> is the secret as the reply of an accepted write leaves it, and whether its
  string data is nil afterwards.

  \<open>Panic\<close> stands for a reconcile that does not return: a crash, or a deletion that is still polling.
\<close>

section \<open>Objects and events\<close>

text \<open>The volumes and containers of an agent pod.  An affinity is only compared and copied, so it is its text.\<close>

datatype VolumeSource = EmptyDir | ClaimVolume string | SecretVolume string | OtherVolume

record PodVolume =
  pvol_Name :: string
  pvol_Source :: VolumeSource

record Container =
  ct_Image :: string
  ct_Env :: "EnvVar list"
  ct_Resources :: ResourceRequirements

record Pod =
  pod_Meta :: ObjectMeta
  pod_Containers :: "Container list"
  pod_Volumes :: "PodVolume list"
  pod_AutomountServiceAccountToken :: "bool option"
  pod_ImagePullSecrets :: "string list"
  pod_ServiceAccountName :: string
  pod_Tolerations :: "Toleration list"
  pod_Affinity :: "string option"
  pod_PriorityClassName :: string
  pod_SpreadLabels :: "string list"

record PVC =
  pvc_Meta :: ObjectMeta
  pvc_StorageClassName :: "string option"
  pvc_Requests :: ResourceList

datatype kobj =
    ONooBaa NooBaa | OBackingStore BackingStore | ONamespaceStore NamespaceStore | OBucketClass BucketClass
  | OAccount NooBaaAccount | OSecret Secret | OPod Pod | OPVC PVC | OStorageClass string | OCorePod string
  | OCredentialsRequest string "(string \<times> string) list" | OCephUser string string

datatype event =
    Looked
  | Created kobj | Updated kobj | StatusUpdated kobj | Deleted kobj
  | DeletedAllPods string | DeletedAllPVCs string
  | TaggedBucket string "(string \<times> string) list"
  | Reconciled string | CoreReconciled string int | CloudCreated string string
  | Called rpc

type_synonym history = "event list"

text \<open>
  The outside of a reconciler.  \<open>c_write\<close> answers every Kubernetes write, \<open>c_call\<close> every call of the
  core whose reply carries no value.  Times are in nanoseconds.
  \<open>c_NodeInclusionPolicy\<close> is the answer to whether the cluster version supports the policy, \<open>None\<close> when
  asking panics.  \<open>c_Polls\<close> bounds the polls of one deletion.
\<close>

record cluster =
  c_Namespace :: string
  c_SystemName :: string
  c_SubDomain :: string
  c_goarch :: string
  c_TestEnv :: bool
  c_Env :: "string \<rightharpoonup> string"
  c_Polls :: nat
  c_SetStatusCondition :: set_condition
  c_Url :: url_lib
  c_Json :: json_lib
  c_QuantityString :: "quantity \<Rightarrow> string"
  c_ParseQuantity :: parse_quantity
  c_IsGraphic :: "nat \<Rightarrow> bool"
  c_ParseGroupVersion :: "string \<Rightarrow> string option"
  c_SetControllerReference :: "ObjectMeta \<Rightarrow> ObjectMeta \<Rightarrow> ObjectMeta option"
  c_NodeInclusionPolicy :: "bool option"
  c_NooBaaTemplate :: NooBaa
  c_ErrorText :: "kube_error \<Rightarrow> string"
  c_Now :: "history \<Rightarrow> int"
  c_RandomHex :: "history \<Rightarrow> string"
  c_write :: "history \<Rightarrow> event \<Rightarrow> kube_error option"
  c_Written :: "history \<Rightarrow> Secret \<Rightarrow> Secret \<times> bool"
  c_NooBaa :: "history \<Rightarrow> string \<Rightarrow> string \<Rightarrow> kube_error + NooBaa"
  c_BackingStore :: "history \<Rightarrow> string \<Rightarrow> string \<Rightarrow> kube_error + BackingStore"
  c_NamespaceStore :: "history \<Rightarrow> string \<Rightarrow> string \<Rightarrow> kube_error + NamespaceStore"
  c_BucketClass :: "history \<Rightarrow> string \<Rightarrow> string \<Rightarrow> kube_error + BucketClass"
  c_Account :: "history \<Rightarrow> string \<Rightarrow> string \<Rightarrow> kube_error + NooBaaAccount"
  c_Secret :: "history \<Rightarrow> string \<Rightarrow> string \<Rightarrow> kube_error + Secret"
  c_Pod :: "history \<Rightarrow> string \<Rightarrow> string \<Rightarrow> kube_error + Pod"
  c_PVC :: "history \<Rightarrow> string \<Rightarrow> string \<Rightarrow> kube_error + PVC"
  c_Service :: "history \<Rightarrow> string \<Rightarrow> string \<Rightarrow> kube_error + unit"
  c_ServiceAccount :: "history \<Rightarrow> string \<Rightarrow> string \<Rightarrow> kube_error + string list"
  c_ConfigMap :: "history \<Rightarrow> string \<Rightarrow> string \<Rightarrow> kube_error + (string \<rightharpoonup> string)"
  c_CephCapacity :: "history \<Rightarrow> string \<Rightarrow> string \<Rightarrow> kube_error + uint64 option"
  c_ListStores :: "history \<Rightarrow> string \<Rightarrow> BackingStore list \<times> NamespaceStore list"
  c_ListPods :: "history \<Rightarrow> string \<Rightarrow> kube_error + Pod list"
  c_ListPVCs :: "history \<Rightarrow> string \<Rightarrow> kube_error + PVC list"
  c_ListObjectBuckets :: "history \<Rightarrow> kube_error + (string \<times> (string \<rightharpoonup> string)) list"
  c_call :: "history \<Rightarrow> rpc \<Rightarrow> rpc_error option"
  c_ReadSystem :: "history \<Rightarrow> rpc_error + SystemInfo"
  c_ListHosts :: "history \<Rightarrow> string \<Rightarrow> rpc_error + string list"
  c_CheckConnection :: "history \<Rightarrow> CheckExternalConnectionParams \<Rightarrow> rpc_error + CheckExternalConnectionReply"
  c_CreateHostsPool :: "history \<Rightarrow> CreateHostsPoolParams \<Rightarrow> rpc_error + string"
  c_AgentConfig :: "history \<Rightarrow> string \<Rightarrow> rpc_error + string"
  c_CreateAccount :: "history \<Rightarrow> CreateAccountParams \<Rightarrow> rpc_error + AccountKeysReply"
  c_ReadAccount :: "history \<Rightarrow> string \<Rightarrow> rpc_error + AccountKeysReply"
  c_UpdateBucketClass :: "history \<Rightarrow> UpdateBucketClassParams \<Rightarrow> rpc_error + BucketClassInfo"
  c_ReadBucket :: "history \<Rightarrow> string \<Rightarrow> rpc_error + NamespaceResourceFullConfig option"

end
