(* ===== verification/Reconcile_Base.thy ===== *)
theory Reconcile_Base
  imports Cluster
begin

text \<open>
  Accesses to the cluster and to the core as procedures, the checks of \<^verbatim>\<open>pkg/system/system.go\<close> that every
  reconciler starts with (\<open>CheckSystem\<close>, \<open>Connect\<close>), and the interface of a resource with phases.
\<close>

abbreviation Finalizer :: string where "Finalizer \<equiv> ''noobaa.io/finalizer''"
abbreviation GracefulFinalizer :: string where "GracefulFinalizer \<equiv> ''noobaa.io/graceful_finalizer''"
abbreviation PauseReconcile :: string where "PauseReconcile \<equiv> ''noobaa.io/pause-reconcile''"

type_synonym ('r, 'a) reconcile_proc = "((event, 'r) logged_scheme, 'a) proc"

section \<open>Accesses\<close>

text \<open>\<open>KubeCheck\<close> of an object: what the server has, if it has it.\<close>

definition look :: "(history \<Rightarrow> kube_error + 'o) \<Rightarrow> ('r, 'o option) reconcile_proc" where
  "look f = bindp (asks f) (\<lambda>g. seqp (emit Looked) (lift (check_get g)))"

text \<open>\<open>KubeList\<close> into a list variable, which keeps its old value when the call fails.\<close>

definition look_list :: "(history \<Rightarrow> kube_error + 'o list) \<Rightarrow> 'o list \<Rightarrow> ('r, 'o list) reconcile_proc" where
  "look_list f old = bindp (asks f) (\<lambda>g. seqp (emit Looked)
     (case g of
        Inr xs \<Rightarrow> ret xs
      | Inl e \<Rightarrow> bindp (lift (KubeList (Some e))) (\<lambda>_. ret old)))"

text \<open>Calls of the core: with a value, without one, and with the error handed to the caller.\<close>

definition query :: "rpc \<Rightarrow> (history \<Rightarrow> rpc_error + 'a) \<Rightarrow> ('r, rpc_error + 'a) reconcile_proc" where
  "query r f = bindp (asks f) (\<lambda>a. seqp (emit (Called r)) (ret a))"

definition reply :: "rpc_error + 'a \<Rightarrow> ('r, 'a) reconcile_proc" where
  "reply a = (case a of Inl e \<Rightarrow> raise (rpc_go e) | Inr x \<Rightarrow> ret x)"

definition attempt :: "cluster \<Rightarrow> rpc \<Rightarrow> ('r, rpc_error option) reconcile_proc" where
  "attempt c r = bindp (asks (\<lambda>h. c_call c h r)) (\<lambda>e. seqp (emit (Called r)) (ret e))"

definition call :: "cluster \<Rightarrow> rpc \<Rightarrow> ('r, unit) reconcile_proc" where
  "call c r = bindp (attempt c r) (\<lambda>e. case e of None \<Rightarrow> ret () | Some e' \<Rightarrow> raise (rpc_go e'))"

text \<open>Clients of the Kubernetes helpers over the history.\<close>

definition kclient :: "cluster \<Rightarrow> (history \<Rightarrow> 'o \<Rightarrow> kube_error + 'o) \<Rightarrow> ('o \<Rightarrow> kobj) \<Rightarrow> (history, 'o) klient" where
  "kclient c get wrap = \<lparr>
     k_Get = (\<lambda>obj h. get h obj),
     k_Create = (\<lambda>obj h. (c_write c h (Created (wrap obj)), h @ [Created (wrap obj)])),
     k_Update = (\<lambda>obj h. (c_write c h (Updated (wrap obj)), h @ [Updated (wrap obj)])),
     k_Delete = (\<lambda>obj h. (c_write c h (Deleted (wrap obj)), h @ [Deleted (wrap obj)])),
     k_SetResourceVersion = (\<lambda>obj clone. obj)\<rparr>"

definition noobaa_client :: "cluster \<Rightarrow> (history, NooBaa) klient" where
  "noobaa_client c = kclient c (\<lambda>h x. c_NooBaa c h (om_Namespace (nb_Meta x)) (om_Name (nb_Meta x))) ONooBaa"

definition bs_client :: "cluster \<Rightarrow> (history, BackingStore) klient" where
  "bs_client c = kclient c (\<lambda>h x. c_BackingStore c h (bs_Namespace x) (bs_Name x)) OBackingStore"

definition ns_client :: "cluster \<Rightarrow> (history, NamespaceStore) klient" where
  "ns_client c = kclient c (\<lambda>h x. c_NamespaceStore c h (ns_Namespace x) (ns_Name x)) ONamespaceStore"

definition bc_client :: "cluster \<Rightarrow> (history, BucketClass) klient" where
  "bc_client c = kclient c (\<lambda>h x. c_BucketClass c h (bc_Namespace x) (bc_Name x)) OBucketClass"

definition na_client :: "cluster \<Rightarrow> (history, NooBaaAccount) klient" where
  "na_client c = kclient c (\<lambda>h x. c_Account c h (om_Namespace (na_Meta x)) (om_Name (na_Meta x))) OAccount"

definition secret_client :: "cluster \<Rightarrow> (history, Secret) klient" where
  "secret_client c = kclient c (\<lambda>h x. c_Secret c h (sec_Namespace x) (sec_Name x)) OSecret"

definition pod_client :: "cluster \<Rightarrow> (history, Pod) klient" where
  "pod_client c = kclient c (\<lambda>h x. c_Pod c h (om_Namespace (pod_Meta x)) (om_Name (pod_Meta x))) OPod"

definition pvc_client :: "cluster \<Rightarrow> (history, PVC) klient" where
  "pvc_client c = kclient c (\<lambda>h x. c_PVC c h (om_Namespace (pvc_Meta x)) (om_Name (pvc_Meta x))) OPVC"

lemmas client_defs = noobaa_client_def bs_client_def ns_client_def bc_client_def na_client_def secret_client_def
  pod_client_def pvc_client_def

definition update :: "(history, 'o) klient \<Rightarrow> 'o \<Rightarrow> ('r, bool) reconcile_proc" where
  "update cl obj = on_hist (KubeUpdate cl obj)"

text \<open>\<open>Status().Update\<close>: any error is returned.\<close>

definition update_status :: "cluster \<Rightarrow> kobj \<Rightarrow> ('r, unit) reconcile_proc" where
  "update_status c obj = bindp (asks (\<lambda>h. c_write c h (StatusUpdated obj))) (\<lambda>e.
     seqp (emit (StatusUpdated obj))
       (case e of None \<Rightarrow> ret () | Some err \<Rightarrow> raise (PlainError (c_ErrorText c err))))"

text \<open>\<open>KubeDelete\<close>, with at most \<open>c_Polls\<close> polls.\<close>

definition delete :: "cluster \<Rightarrow> (history, 'o) klient \<Rightarrow> 'o \<Rightarrow> ('r, bool) reconcile_proc" where
  "delete c cl obj s = (case KubeDelete cl obj (c_Polls c) (hist s) of
     None \<Rightarrow> (Panic, s)
   | Some (r, h) \<Rightarrow> (r, s\<lparr>hist := h\<rparr>))"

definition KubeDeleteAllOf :: "cluster \<Rightarrow> event \<Rightarrow> ('r, bool) reconcile_proc" where
  "KubeDeleteAllOf c ev = bindp (asks (\<lambda>h. c_write c h ev)) (\<lambda>e. seqp (emit ev)
     (case e of
        None \<Rightarrow> ret True
      | Some err \<Rightarrow> if err = NotFoundError then ret True else lift Panic))"

text \<open>\<open>Own\<close>: \<open>SetControllerReference\<close>, whose error is a panic.\<close>

definition own :: "cluster \<Rightarrow> ObjectMeta \<Rightarrow> ObjectMeta \<Rightarrow> ('r, ObjectMeta) reconcile_proc" where
  "own c owner obj = (case c_SetControllerReference c owner obj of None \<Rightarrow> lift Panic | Some m \<Rightarrow> ret m)"

abbreviation minutes :: "int \<Rightarrow> int" where "minutes n \<equiv> n * 60000000000"

definition since :: "cluster \<Rightarrow> ObjectMeta \<Rightarrow> ('r, int) reconcile_proc" where
  "since c m = asks (\<lambda>h. c_Now c h - om_CreationTimestamp m)"

section \<open>Graphic strings\<close>

text \<open>
  Ranging over a string decodes UTF-8: a byte that starts no valid encoding is the replacement character.  The tables
  of \<^verbatim>\<open>unicode.IsGraphic\<close> beyond ASCII are an argument.
\<close>

definition cont :: "nat \<Rightarrow> bool" where
  "cont b \<longleftrightarrow> 128 \<le> b \<and> b \<le> 191"

definition lead3 :: "nat \<Rightarrow> nat \<Rightarrow> bool" where
  "lead3 a b \<longleftrightarrow> cont b \<and> (a = 224 \<and> 160 \<le> b \<or> a = 237 \<and> b \<le> 159 \<or> 225 \<le> a \<and> a \<le> 239 \<and> a \<noteq> 237)"

definition lead4 :: "nat \<Rightarrow> nat \<Rightarrow> bool" where
  "lead4 a b \<longleftrightarrow> cont b \<and> (a = 240 \<and> 144 \<le> b \<or> a = 244 \<and> b \<le> 143 \<or> 241 \<le> a \<and> a \<le> 243)"

fun utf8_runes :: "nat list \<Rightarrow> nat list" where
  "utf8_runes [] = []"
| "utf8_runes (a # as) =
     (if a < 128 then a # utf8_runes as
      else (case as of
        [] \<Rightarrow> [65533]
      | b # bs \<Rightarrow>
          if 194 \<le> a \<and> a \<le> 223 \<and> cont b then (a mod 32 * 64 + b mod 64) # utf8_runes bs
          else (case bs of
            [] \<Rightarrow> 65533 # utf8_runes as
          | d # ds \<Rightarrow>
              if lead3 a b \<and> cont d then (a mod 16 * 4096 + b mod 64 * 64 + d mod 64) # utf8_runes ds
              else (case ds of
                [] \<Rightarrow> 65533 # utf8_runes as
              | e # es \<Rightarrow>
                  if lead4 a b \<and> cont d \<and> cont e
                  then (a mod 8 * 262144 + b mod 64 * 4096 + d mod 64 * 64 + e mod 64) # utf8_runes es
                  else 65533 # utf8_runes as))))"

definition unicode_IsSpace :: "nat \<Rightarrow> bool" where
  "unicode_IsSpace r \<longleftrightarrow> r \<in> {9, 10, 11, 12, 13, 32, 133, 160, 5760, 8232, 8233, 8239, 8287, 12288} \<or> 8192 \<le> r \<and> r \<le> 8202"

definition unicode_IsGraphic :: "cluster \<Rightarrow> nat \<Rightarrow> bool" where
  "unicode_IsGraphic c r = (if r < 128 then 32 \<le> r \<and> r \<le> 126 else c_IsGraphic c r)"

definition IsStringGraphicOrSpacesCharsOnly :: "cluster \<Rightarrow> string \<Rightarrow> bool" where
  "IsStringGraphicOrSpacesCharsOnly c s = list_all (\<lambda>r. unicode_IsGraphic c r \<or> unicode_IsSpace r) (utf8_runes (map of_char s))"

section \<open>The system\<close>

text \<open>
  \<open>CheckSystem\<close> takes the system resource by reference: the result carries the resource as it leaves it.  The
  initialisation of nil status fields is part of the representation of a status.
\<close>

definition CheckSystem :: "cluster \<Rightarrow> NooBaa \<Rightarrow> ('r, bool \<times> NooBaa) reconcile_proc" where
  "CheckSystem c sys0 =
     bindp (look (\<lambda>h. c_NooBaa c h (om_Namespace (nb_Meta sys0)) (om_Name (nb_Meta sys0)))) (\<lambda>g.
     let found = (g \<noteq> None); sys = (case g of Some x \<Rightarrow> x | None \<Rightarrow> sys0) in
     if om_DeletionTimestamp (nb_Meta sys) \<noteq> None then ret (False, sys)
     else (case EnsureCommonMetaFields (nb_Meta sys) GracefulFinalizer of (changed, m) \<Rightarrow>
       let sys1 = sys\<lparr>nb_Meta := m\<rparr> in
       bindp (if changed then update (noobaa_client c) sys1 else ret True) (\<lambda>ok.
       if \<not> ok then ret (False, sys1)
       else ret (found \<and> om_UID m \<noteq> [], sys1))))"

text \<open>
  \<open>Connect(false)\<close>, the connection from inside the cluster: the client exists afterwards, with the token of the
  operator's secret.  It carries the system resource, the addresses of the S3 and vector services and the secret of the
  administrator; most callers only use the connection.
\<close>

record Client =
  cl_NooBaa :: NooBaa
  cl_S3URL :: string
  cl_VectorsURL :: string
  cl_SecretAdmin :: Secret

definition url_ok :: "cluster \<Rightarrow> string \<Rightarrow> string \<Rightarrow> check" where
  "url_ok c what e = (case url_Parse (c_Url c) e of
     Inl err \<Rightarrow> Err (PlainError (''Connect(): Failed to parse '' @ what @ '' url '' @ go_quote e @ ''. got error: '' @ err))
   | Inr _ \<Rightarrow> pass)"

definition ConnectClient :: "cluster \<Rightarrow> ('r, Client) reconcile_proc" where
  "ConnectClient c =
    (let t = c_NooBaaTemplate c; ns = c_Namespace c; n = c_SystemName c;
         nb0 = t\<lparr>nb_Meta := (nb_Meta t)\<lparr>om_Namespace := ns, om_Name := n\<rparr>\<rparr>
     in bindp (CheckSystem c nb0) (\<lambda>(found, nb).
        if \<not> found then raise (PlainError ''Connect(): System not found'')
        else bindp (look (\<lambda>h. c_Service c h ns (n @ ''-mgmt''))) (\<lambda>svc.
        if svc = None then raise (PlainError ''Connect(): ServiceMgmt not found'')
        else bindp (look (\<lambda>h. c_Secret c h ns (n @ ''-operator''))) (\<lambda>op.
        case op of None \<Rightarrow> raise (PlainError ''Connect(): SecretOp not found'')
        | Some secretOp \<Rightarrow> bindp (look (\<lambda>h. c_Secret c h ns (n @ ''-admin''))) (\<lambda>adm.
        case adm of None \<Rightarrow> raise (PlainError ''Connect(): SecretAdmin not found'')
        | Some secretAdmin \<Rightarrow> if map_get (Some (sec_StringData (SecretResetStringDataFromData secretOp))) ''auth_token'' = ''''
        then raise (PlainError ''Connect(): Operator secret with auth token is not ready'')
        else (case (nb_MgmtNodePorts nb, nb_S3InternalDNS nb, nb_VectorsInternalDNS nb) of
          ([], _, _) \<Rightarrow> raise (PlainError ''Connect(): System mgmt service (NodePorts) is not ready'')
        | (_, [], _) \<Rightarrow> raise (PlainError ''Connect(): System s3 service (InternalDNS) is not ready'')
        | (_, _, []) \<Rightarrow> raise (PlainError ''Connect(): System vectors service (InternalDNS) is not ready'')
        | (m # _, s3 # _, v # _) \<Rightarrow>
            bindp (lift (first_err [url_ok c ''mgmt'' m, url_ok c ''s3'' s3, url_ok c ''vectors'' v])) (\<lambda>_.
            ret \<lparr>cl_NooBaa = nb, cl_S3URL = s3, cl_VectorsURL = v,
              cl_SecretAdmin = SecretResetStringDataFromData secretAdmin\<rparr>)))))))"

definition Connect :: "cluster \<Rightarrow> ('r, unit) reconcile_proc" where
  "Connect c = seqp (ConnectClient c) (ret ())"

section \<open>Steps of a deletion\<close>

definition internal_pool_name :: "SystemInfo \<Rightarrow> string" where
  "internal_pool_name si = (case first_with pi_Name ''backingstores'' (si_Pools si) of Some p \<Rightarrow> pi_Name p | None \<Rightarrow> '''')"

definition rehome :: "string \<Rightarrow> AccountInfo \<Rightarrow> rpc" where
  "rehome pool account = UpdateAccountS3Access \<lparr>uas_Email = ai_Email account, uas_S3Access = ai_HasS3Access account,
     uas_DefaultResource = Some pool, uas_ForceMd5Etag = None, uas_AllowBucketCreation = None, uas_NsfsAccountConfig = None\<rparr>"

text \<open>The loop that gives the accounts of a resource another default resource.\<close>

definition rehome_accounts :: "cluster \<Rightarrow> SystemInfo \<Rightarrow> string \<Rightarrow> ('r, unit) reconcile_proc" where
  "rehome_accounts c si resource = forp (\<lambda>a. whenp (ai_DefaultResource a = resource) (call c (rehome (internal_pool_name si) a)))
     (si_Accounts si)"

text \<open>A connection that is still in use is left behind.\<close>

definition delete_connection :: "cluster \<Rightarrow> string \<Rightarrow> ('r, unit) reconcile_proc" where
  "delete_connection c n = bindp (attempt c (DeleteExternalConnectionAPI n)) (\<lambda>e. case e of
     None \<Rightarrow> ret ()
   | Some err \<Rightarrow> if rpc_code err = Some ''IN_USE'' then ret () else raise (rpc_go err))"

section \<open>What the accesses emit\<close>

lemma emits_accesses [emit_rules]:
  "E Looked \<Longrightarrow> emits E (look f)"
  "E (Called r) \<Longrightarrow> emits E (query r q)"
  "emits E (reply a)"
  "E (Called r) \<Longrightarrow> emits E (attempt c r)"
  "E (Called r) \<Longrightarrow> emits E (call c r)"
  "E (StatusUpdated obj) \<Longrightarrow> emits E (update_status c obj)"
  "E ev \<Longrightarrow> emits E (KubeDeleteAllOf c ev)"
  "emits E (own c m1 m2)"
  "emits E (since c m1)"
  unfolding look_def query_def reply_def attempt_def call_def update_status_def KubeDeleteAllOf_def own_def since_def
  by (intro emit_rules; assumption?)+

lemma emits_look_list [emit_rules]: "E Looked \<Longrightarrow> emits E (look_list f old)"
  unfolding look_list_def by (intro emit_rules; assumption?)+

lemma kclient_simps [simp]:
  "k_Get (kclient c get wrap) obj h = get h obj"
  "k_Create (kclient c get wrap) obj h = (c_write c h (Created (wrap obj)), h @ [Created (wrap obj)])"
  "k_Update (kclient c get wrap) obj h = (c_write c h (Updated (wrap obj)), h @ [Updated (wrap obj)])"
  "k_Delete (kclient c get wrap) obj h = (c_write c h (Deleted (wrap obj)), h @ [Deleted (wrap obj)])"
  by (simp_all add: kclient_def)

text \<open>An update is one event; it is accepted exactly when the server has no error.\<close>

lemma update_run:
  "update (kclient c get wrap) obj s =
     (fst (KubeUpdate (kclient c get wrap) obj (hist s)), s\<lparr>hist := hist s @ [Updated (wrap obj)]\<rparr>)"
  by (auto simp: update_def on_hist_def KubeUpdate_def split: prod.splits option.splits)

lemma update_accepted:
  "update (kclient c get wrap) obj s = (Ok True, s') \<longleftrightarrow>
     c_write c (hist s) (Updated (wrap obj)) = None \<and> s' = s\<lparr>hist := hist s @ [Updated (wrap obj)]\<rparr>"
  by (auto simp: update_run KubeUpdate_def split: option.splits)

lemma update_no_Err: "update (kclient c get wrap) obj s \<noteq> (Err e, s')"
  by (auto simp: update_run KubeUpdate_def split: option.splits if_splits)

lemma emits_update [emit_rules]:
  "E (Updated (wrap obj)) \<Longrightarrow> emits E (update (kclient c get wrap) obj)"
  by (simp add: emits_def update_run)

lemma emits_create [emit_rules]:
  "E (Created (wrap obj)) \<Longrightarrow> emits E (on_hist (kubeCreateSkipOrFailExisting (kclient c get wrap) obj b))"
  by (rule emits_on_hist)
    (auto simp: kubeCreateSkipOrFailExisting_def Let_def split: prod.splits option.splits sum.splits)

lemma emits_create_skip [emit_rules]:
  "E (Created (wrap obj)) \<Longrightarrow> emits E (on_hist (KubeCreateSkipExisting (kclient c get wrap) obj))"
  "E (Created (wrap obj)) \<Longrightarrow> emits E (on_hist (KubeCreateFailExisting (kclient c get wrap) obj))"
  unfolding KubeCreateSkipExisting_def [abs_def] KubeCreateFailExisting_def [abs_def] by (rule emits_create; assumption)+

lemma replicate_grow:
  "\<exists>n. h' = (h @ [x]) @ replicate n x \<Longrightarrow> \<exists>n. h' = h @ replicate n x"
  "\<exists>n. h @ [x] = h @ replicate n x"
proof -
  assume "\<exists>n. h' = (h @ [x]) @ replicate n x"
  then obtain n where "h' = h @ replicate (Suc n) x" by auto
  then show "\<exists>n. h' = h @ replicate n x" by blast
next
  show "\<exists>n. h @ [x] = h @ replicate n x" by (rule exI [of _ 1]) simp
qed

lemma delete_poll_hist:
  "delete_poll (kclient c get wrap) obj fuel d h = Some (r, h') \<Longrightarrow> \<exists>n. h' = h @ replicate n (Deleted (wrap obj))"
proof (induction fuel arbitrary: d h)
  case (Suc fuel)
  have more: "delete_poll (kclient c get wrap) obj fuel d' (h @ [Deleted (wrap obj)]) = Some (r, h') \<Longrightarrow>
      \<exists>n. h' = h @ replicate n (Deleted (wrap obj))" for d'
    by (rule replicate_grow(1) [OF Suc.IH])
  from Suc.prems have "h' = h @ [Deleted (wrap obj)] \<or>
      (\<exists>d'. delete_poll (kclient c get wrap) obj fuel d' (h @ [Deleted (wrap obj)]) = Some (r, h'))"
    by (cases "c_write c h (Deleted (wrap obj))") (auto split: if_splits)
  then show ?case using more replicate_grow(2) [of h "Deleted (wrap obj)"] by blast
qed simp

lemma KubeDelete_hist:
  assumes "KubeDelete (kclient c get wrap) obj fuel h = Some (r, h')"
  shows "\<exists>n. h' = h @ replicate n (Deleted (wrap obj))"
proof -
  have more: "delete_poll (kclient c get wrap) obj fuel d (h @ [Deleted (wrap obj)]) = Some (r, h') \<Longrightarrow>
      \<exists>n. h' = h @ replicate n (Deleted (wrap obj))" for d
    by (rule replicate_grow(1) [OF delete_poll_hist])
  from assms have "h' = h @ [Deleted (wrap obj)] \<or>
      (\<exists>d. delete_poll (kclient c get wrap) obj fuel d (h @ [Deleted (wrap obj)]) = Some (r, h'))"
    by (cases "c_write c h (Deleted (wrap obj))") (auto simp: KubeDelete_def split: if_splits)
  then show ?thesis using more replicate_grow(2) [of h "Deleted (wrap obj)"] by blast
qed

lemma emits_delete [emit_rules]:
  assumes "E (Deleted (wrap obj))"
  shows "emits E (delete c (kclient c' get wrap) obj)"
proof -
  have all: "list_all E (replicate n (Deleted (wrap obj)))" for n
    using assms by (induction n) simp_all
  show ?thesis
    unfolding emits_def delete_def
    by (auto split: option.splits prod.splits dest!: KubeDelete_hist intro: all)
qed

text \<open>The same rules for the clients of each kind of object.\<close>

lemma emits_client [emit_rules]:
  "E (Updated (ONooBaa nb)) \<Longrightarrow> emits E (update (noobaa_client c) nb)"
  "E (Updated (OBackingStore bs)) \<Longrightarrow> emits E (update (bs_client c) bs)"
  "E (Updated (ONamespaceStore ns)) \<Longrightarrow> emits E (update (ns_client c) ns)"
  "E (Updated (OBucketClass bc)) \<Longrightarrow> emits E (update (bc_client c) bc)"
  "E (Updated (OAccount na)) \<Longrightarrow> emits E (update (na_client c) na)"
  "E (Updated (OSecret sec)) \<Longrightarrow> emits E (update (secret_client c) sec)"
  "E (Created (OSecret sec)) \<Longrightarrow> emits E (on_hist (KubeCreateSkipExisting (secret_client c) sec))"
  "E (Created (OSecret sec)) \<Longrightarrow> emits E (on_hist (KubeCreateFailExisting (secret_client c) sec))"
  "E (Created (OPod pod)) \<Longrightarrow> emits E (on_hist (KubeCreateSkipExisting (pod_client c) pod))"
  "E (Created (OPVC pvc)) \<Longrightarrow> emits E (on_hist (KubeCreateSkipExisting (pvc_client c) pvc))"
  "E (Deleted (OPod pod)) \<Longrightarrow> emits E (delete c (pod_client c) pod)"
  unfolding client_defs by (rule emit_rules; assumption)+

lemma emits_CheckSystem [emit_rules]:
  "E Looked \<Longrightarrow> (\<And>nb. E (Updated (ONooBaa nb))) \<Longrightarrow> emits E (CheckSystem c sys)"
  unfolding CheckSystem_def by (intro emit_rules; assumption?)+

lemma emits_ConnectClient [emit_rules]:
  assumes "E Looked" "\<And>nb. E (Updated (ONooBaa nb))"
  shows "emits E (ConnectClient c)"
  unfolding ConnectClient_def Let_def
  using assms by (intro emit_rules; assumption?)+

lemma emits_Connect [emit_rules]:
  assumes "E Looked" "\<And>nb. E (Updated (ONooBaa nb))"
  shows "emits E (Connect c)"
  unfolding Connect_def by (intro emit_rules assms)

lemma emits_deletion_steps [emit_rules]:
  "(\<And>p a. E (Called (rehome p a))) \<Longrightarrow> emits E (rehome_accounts c si resource)"
  "E (Called (DeleteExternalConnectionAPI n)) \<Longrightarrow> emits E (delete_connection c n)"
  unfolding rehome_accounts_def delete_connection_def by (intro emit_rules; assumption?)+

section \<open>What the accesses keep\<close>

lemma keeps_accesses [keep_rules]:
  assumes "hist_free P"
  shows "keeps P (look f)" "keeps P (look_list g old)" "keeps P (query r q)" "keeps P (reply a)"
    "keeps P (attempt c r)" "keeps P (call c r)" "keeps P (update_status c obj)" "keeps P (KubeDeleteAllOf c ev)"
    "keeps P (own c m1 m2)" "keeps P (since c m1)" "keeps P (update cl obj')"
  unfolding look_def look_list_def query_def reply_def attempt_def call_def update_status_def KubeDeleteAllOf_def own_def
    since_def update_def
  by (intro keep_rules assms)+

lemma keeps_delete [keep_rules]: "hist_free P \<Longrightarrow> keeps P (delete c cl obj)"
  by (auto simp: keeps_def delete_def hist_free_def split: option.splits prod.splits)

lemma keeps_CheckSystem [keep_rules]: "hist_free P \<Longrightarrow> keeps P (CheckSystem c sys)"
  unfolding CheckSystem_def by (intro keep_rules; assumption?)+

lemma keeps_ConnectClient [keep_rules]: "hist_free P \<Longrightarrow> keeps P (ConnectClient c)"
  unfolding ConnectClient_def Let_def by (intro keep_rules; assumption?)+

lemma keeps_Connect [keep_rules]: "hist_free P \<Longrightarrow> keeps P (Connect c)"
  unfolding Connect_def by (intro keep_rules; assumption?)+

lemma keeps_deletion_steps [keep_rules]:
  "hist_free P \<Longrightarrow> keeps P (rehome_accounts c si resource)"
  "hist_free P \<Longrightarrow> keeps P (delete_connection c n)"
  unfolding rehome_accounts_def delete_connection_def by (intro keep_rules; assumption?)+

section \<open>Calls in a history\<close>

text \<open>A call was made, and the core accepted it.\<close>

definition made :: "cluster \<Rightarrow> history \<Rightarrow> rpc \<Rightarrow> bool" where
  "made c h r \<longleftrightarrow> (\<exists>h1 h2. h = h1 @ Called r # h2 \<and> c_call c h1 r = None)"

lemma made_append: "made c h r \<Longrightarrow> made c (h @ h') r"
  unfolding made_def by (metis append.assoc append_Cons)

lemma made_prefix: "made c h r \<Longrightarrow> prefix h h' \<Longrightarrow> made c h' r"
  by (auto simp: prefix_def intro: made_append)

lemma attempt_run [simp]: "attempt c r s = (Ok (c_call c (hist s) r), s\<lparr>hist := hist s @ [Called r]\<rparr>)"
  by (simp add: attempt_def)

lemma call_run: "call c r s = ((case c_call c (hist s) r of None \<Rightarrow> Ok () | Some e \<Rightarrow> Err (rpc_go e)), s\<lparr>hist := hist s @ [Called r]\<rparr>)"
  by (simp add: call_def split: option.splits)

lemma made_last: "c_call c h r = None \<Longrightarrow> made c (h @ [Called r]) r"
  unfolding made_def by blast

lemma call_made: "call c r s = (Ok (), s') \<Longrightarrow> made c (hist s') r \<and> hist s' = hist s @ [Called r]"
  by (auto simp: call_run made_last split: option.splits)

text \<open>A loop of calls that ends well made all of them.\<close>

lemma forp_calls_made:
  "forp (\<lambda>x. whenp (Q x) (call c (f x))) xs s = (Ok (), s') \<Longrightarrow>
     (\<forall>x \<in> set xs. Q x \<longrightarrow> made c (hist s') (f x)) \<and> prefix (hist s) (hist s')"
proof (induction xs arbitrary: s)
  case (Cons x xs)
  from Cons.prems obtain s1 where first: "whenp (Q x) (call c (f x)) s = (Ok (), s1)"
    and rest: "forp (\<lambda>x. whenp (Q x) (call c (f x))) xs s1 = (Ok (), s')"
    by (auto elim: seqp_OkE)
  from first have grow: "prefix (hist s) (hist s1)" "Q x \<longrightarrow> made c (hist s1) (f x)"
    by (cases "Q x"; auto dest: call_made)+
  from Cons.IH [OF rest] grow show ?case by (auto intro: made_prefix)
qed simp

lemma rehome_accounts_made:
  assumes "rehome_accounts c si n s = (Ok (), s')" "a \<in> set (si_Accounts si)" "ai_DefaultResource a = n"
  shows "made c (hist s') (rehome (internal_pool_name si) a)"
  using forp_calls_made [OF assms(1) [unfolded rehome_accounts_def]] assms(2,3) by blast

section \<open>Resources with phases\<close>

text \<open>
  The interface of a custom resource with a phase and status conditions: what \<open>SetPhase\<close> does.  The empty phase
  reports a temporary error and keeps the phase.
\<close>

locale phased_resource =
  fixes SetPhase :: "set_condition \<Rightarrow> 'p \<Rightarrow> string \<Rightarrow> string \<Rightarrow> 'o \<Rightarrow> 'o"
    and phase_of :: "'o \<Rightarrow> 'p" and conditions_of :: "'o \<Rightarrow> Condition list" and meta_of :: "'o \<Rightarrow> ObjectMeta"
    and none ready rejected :: 'p
  assumes distinct_phases: "distinct [none, ready, rejected]"
    and phase_SetPhase: "phase_of (SetPhase setc p r m x) = (if p = none then phase_of x else p)"
    and meta_SetPhase: "meta_of (SetPhase setc p r m x) = meta_of x"
    and conditions_SetPhase: "conditions_of (SetPhase setc p r m x) =
      (if p = ready then SetAvailableCondition else if p = rejected then SetErrorCondition else SetProgressingCondition)
        setc (conditions_of x) r m"
begin

text \<open>A resource shows as available exactly when it was made ready, and as degraded exactly when it was rejected.\<close>

lemma conditions_show_phase:
  assumes "status_condition_laws setc"
  shows "status_of ConditionAvailable (conditions_of (SetPhase setc p r m x)) = Some ConditionTrue \<longleftrightarrow> p = ready"
    "status_of ConditionDegraded (conditions_of (SetPhase setc p r m x)) = Some ConditionTrue \<longleftrightarrow> p = rejected"
    "status_of ConditionProgressing (conditions_of (SetPhase setc p r m x)) = Some ConditionTrue \<longleftrightarrow> p \<noteq> ready \<and> p \<noteq> rejected"
  using distinct_phases
  by (simp_all add: conditions_SetPhase condition_defs status_of_set4 [OF assms])

lemma temporary_keeps_phase: "phase_of (SetPhase setc none r m x) = phase_of x"
  by (simp add: phase_SetPhase)

lemma rejection:
  assumes "status_condition_laws setc"
  shows "phase_of (SetPhase setc rejected r m x) = rejected"
    "status_of ConditionDegraded (conditions_of (SetPhase setc rejected r m x)) = Some ConditionTrue"
  using distinct_phases conditions_show_phase(2) [OF assms] by (auto simp: phase_SetPhase)

end

section \<open>Errors of the accesses\<close>

lemma raises_accesses [raise_rules]:
  "raises Q (look f)" "raises Q (look_list g old)" "raises Q (query r q)" "raises Q (attempt c r)"
  "raises Q (own c m1 m2)" "raises Q (since c m1)"
  unfolding look_def look_list_def query_def attempt_def own_def since_def
  by (intro raise_rules; simp add: KubeList_def split: if_splits)+

lemma raises_rpc [raise_rules]:
  "(\<And>e. Q (rpc_go e)) \<Longrightarrow> raises Q (reply a)"
  "(\<And>e. Q (rpc_go e)) \<Longrightarrow> raises Q (call c r)"
  unfolding reply_def call_def by (intro raise_rules; simp)+

lemma raises_update [raise_rules]: "raises Q (update (kclient c get wrap) obj)"
  by (simp add: raises_def update_no_Err)

lemma raises_CheckSystem [raise_rules]: "raises Q (CheckSystem c sys)"
  unfolding CheckSystem_def noobaa_client_def by (intro raise_rules)

text \<open>A failure to connect is temporary.\<close>

lemma raises_Connect: "raises (\<lambda>e. \<not> IsPersistentError e) (Connect c)"
proof -
  have "\<not> IsPersistentError e" if "first_err [url_ok c a m, url_ok c b s3, url_ok c d v] = Err e" for a b d m s3 v e
    using first_err_in_set [OF that] by (auto simp: url_ok_def split: sum.splits)
  then show ?thesis
    unfolding Connect_def ConnectClient_def Let_def by (intro raise_rules; simp)
qed

lemma Connect_only_hist:
  assumes "Connect c s = (r, s')"
  shows "s' = s\<lparr>hist := hist s'\<rparr>" "prefix (hist s) (hist s')"
proof -
  have "hist_free (\<lambda>x. \<exists>h. x = s\<lparr>hist := h\<rparr>)" by (rule hist_freeI) auto
  then have k: "keeps (\<lambda>x. \<exists>h. x = s\<lparr>hist := h\<rparr>) (Connect c)" by (rule keeps_Connect)
  have e: "\<exists>h. s = s\<lparr>hist := h\<rparr>" by (rule exI [of _ "hist s"]) simp
  from keepsD [OF k e assms] obtain h where "s' = s\<lparr>hist := h\<rparr>" by (elim exE)
  then show "s' = s\<lparr>hist := hist s'\<rparr>" by simp
  have "emits (\<lambda>_. True) (Connect c)" by (rule emits_Connect) simp_all
  then show "prefix (hist s) (hist s')" using assms by (rule emits_grows)
qed

end
