(* ===== verification/Pv_Pool.thy ===== *)
theory Pv_Pool
  imports Reconcile_Base
begin

text \<open>
  The state of the backing store reconciler and the part of \<^verbatim>\<open>pkg/backingstore/reconciler.go\<close> that manages the
  agent pods and volumes of a pool: templates, resources, creation of what is missing and replacement of outdated pods.
\<close>

section \<open>The state of the backing store reconciler\<close>

text \<open>
  \<open>br_StringDataNil\<close> says that \<open>Secret.StringData\<close> is nil; it then reads as the empty map.
\<close>

record bs_state = "event logged" +
  br_BackingStore :: BackingStore
  br_NooBaa :: NooBaa
  br_Secret :: Secret
  br_StringDataNil :: bool
  br_PodAgentTemplate :: Pod
  br_PvcAgentTemplate :: PVC
  br_CoreAppConfig :: "string \<rightharpoonup> string"
  br_SystemInfo :: "SystemInfo option"
  br_ExternalConnectionInfo :: "ExternalConnectionInfo option"
  br_PoolInfo :: "PoolInfo option"
  br_HostsInfo :: "string list option"
  br_AddExternalConnectionParams :: "AddExternalConnectionParams option"
  br_CreateCloudPoolParams :: "CreateCloudPoolParams option"
  br_CreateHostsPoolParams :: "CreateHostsPoolParams option"
  br_UpdateHostsPoolParams :: "string option"
  br_UpdateExternalConnectionParams :: "UpdateExternalConnectionParams option"

type_synonym 'a bs_proc = "(bs_state, 'a) proc"

abbreviation defaultVolumeSize :: int where "defaultVolumeSize \<equiv> 20 * 1024 * 1024 * 1024"

abbreviation pool_spec :: "bs_state \<Rightarrow> PVPoolSpec option" where
  "pool_spec s \<equiv> bss_PVPool (bs_Spec (br_BackingStore s))"

abbreviation secret_data :: "bs_state \<Rightarrow> string \<Rightarrow> string" where
  "secret_data s key \<equiv> map_get (Some (sec_StringData (br_Secret s))) key"

section \<open>Resources\<close>

definition override_list :: "ResourceList \<Rightarrow> ResourceList \<Rightarrow> ResourceList" where
  "override_list dst src =
     (let dst1 = (case src ResourceCPU of Some q \<Rightarrow> dst(ResourceCPU \<mapsto> q) | None \<Rightarrow> dst)
      in case src ResourceMemory of Some q \<Rightarrow> dst1(ResourceMemory \<mapsto> q) | None \<Rightarrow> dst1)"

definition applyResourceOverrides :: "ResourceRequirements \<Rightarrow> ResourceRequirements \<Rightarrow> ResourceRequirements" where
  "applyResourceOverrides dst src = \<lparr>rr_Requests = override_list (rr_Requests dst) (rr_Requests src),
     rr_Limits = override_list (rr_Limits dst) (rr_Limits src)\<rparr>"

definition request_within :: "(quantity \<Rightarrow> string) \<Rightarrow> ResourceRequirements \<Rightarrow> ResourceName \<Rightarrow> check" where
  "request_within q_String res n = (case (rr_Requests res n, rr_Limits res n) of
     (Some req, Some limit) \<Rightarrow>
       if q_Cmp req limit > 0
       then Err (PlainError (''request '' @ resource_name n @ '' ('' @ q_String req @ '') exceeds limit (''
         @ q_String limit @ '')'')) else pass
   | _ \<Rightarrow> pass)"

definition validateResourceRequestsVsLimits :: "(quantity \<Rightarrow> string) \<Rightarrow> ResourceRequirements \<Rightarrow> check" where
  "validateResourceRequestsVsLimits q_String res = for_all_r (request_within q_String res) [ResourceCPU, ResourceMemory]"

text \<open>A resource the container lacks has the zero quantity.\<close>

definition quantity_of :: "ResourceList \<Rightarrow> ResourceName \<Rightarrow> quantity" where
  "quantity_of l n = (case l n of Some q \<Rightarrow> q | None \<Rightarrow> 0)"

definition compareResourceList :: "ResourceList \<Rightarrow> ResourceList \<Rightarrow> bool" where
  "compareResourceList template container =
     list_ex (\<lambda>n. case template n of Some q \<Rightarrow> q_Cmp q (quantity_of container n) \<noteq> 0 | None \<Rightarrow> False)
       [ResourceCPU, ResourceMemory]"

definition needUpdateResources :: "PVPoolSpec option \<Rightarrow> Container \<Rightarrow> bool" where
  "needUpdateResources pool ct = (case pool of
     None \<Rightarrow> False
   | Some p \<Rightarrow> (case pv_VolumeResources p of
       None \<Rightarrow> False
     | Some v \<Rightarrow> compareResourceList (rr_Requests v) (rr_Requests (ct_Resources ct)) \<or>
         compareResourceList (rr_Limits v) (rr_Limits (ct_Resources ct))))"

definition agent_resources :: "cluster \<Rightarrow> bs_state \<Rightarrow> ResourceRequirements" where
  "agent_resources c s =
     (let defaults = GetPVPoolResources (c_TestEnv c) (c_goarch c) (br_NooBaa s)
      in case pool_spec s of
           None \<Rightarrow> defaults
         | Some p \<Rightarrow> (case pv_VolumeResources p of
             None \<Rightarrow> defaults
           | Some v \<Rightarrow> applyResourceOverrides defaults v))"

definition set_resources :: "ResourceRequirements \<Rightarrow> Pod \<Rightarrow> Pod" where
  "set_resources res pod = pod\<lparr>pod_Containers := (case pod_Containers pod of
     ct # cts \<Rightarrow> ct\<lparr>ct_Resources := res\<rparr> # cts | [] \<Rightarrow> [])\<rparr>"

text \<open>The resources are written to the template before they are checked.\<close>

definition updatePodResourcesTemplate :: "cluster \<Rightarrow> unit bs_proc" where
  "updatePodResourcesTemplate c = bindp (gets (agent_resources c)) (\<lambda>res.
     seqp (modify (\<lambda>s. s\<lparr>br_PodAgentTemplate := set_resources res (br_PodAgentTemplate s)\<rparr>))
     (case validateResourceRequestsVsLimits (c_QuantityString c) res of
        Err e \<Rightarrow> bindp (gets (\<lambda>s. bs_Name (br_BackingStore s))) (\<lambda>n.
          raise (PersistentError ''InvalidResources'' (''BackingStore '' @ go_quote n @ '' has invalid resources: '' @ Error e)))
      | _ \<Rightarrow> ret ()))"

section \<open>Outdated pods\<close>

definition proxy_changed :: "cluster \<Rightarrow> Container \<Rightarrow> bool" where
  "proxy_changed c ct = list_ex (\<lambda>n. case (GetEnvVariable (ct_Env ct) n, c_Env c n) of
       (None, v) \<Rightarrow> v \<noteq> None
     | (Some e, v) \<Rightarrow> v \<noteq> Some (env_Value e)) [''HTTP_PROXY'', ''HTTPS_PROXY'', ''NO_PROXY'']"

definition log_changed :: "(string \<rightharpoonup> string) \<Rightarrow> Container \<Rightarrow> bool" where
  "log_changed conf ct = list_ex (\<lambda>n.
     let v = map_get (Some conf) n in
     case GetEnvVariable (ct_Env ct) n of
       None \<Rightarrow> v \<noteq> ''''
     | Some e \<Rightarrow> v \<noteq> env_Value e) [''NOOBAA_LOG_LEVEL'', ''NOOBAA_LOG_COLOR'']"

text \<open>
  The checks of \<open>needUpdate\<close> before and after the lookup of the pull secrets.  The affinities: the source copies
  \<open>podAffinities\<close> from the pointer of the system resource, so that the values compared are the same.
\<close>

definition changed_before :: "cluster \<Rightarrow> bs_state \<Rightarrow> Pod \<Rightarrow> Container \<Rightarrow> bool result" where
  "changed_before c s pod ct =
     (let podLabel = map_get (om_Labels (pod_Meta pod)) ''backingstore'';
          bsLabel = map_get (om_Labels (bs_Meta (br_BackingStore s))) ''backingstore''
      in if proxy_changed c ct then Ok True
         else if bsLabel \<noteq> '''' \<and> podLabel \<noteq> bsLabel then Ok True
         else if log_changed (br_CoreAppConfig s) ct then Ok True
         else if ct_Image ct \<noteq> nb_ActualImage (br_NooBaa s) then Ok True
         else if needUpdateResources (pool_spec s) ct then Ok True
         else (case pod_AutomountServiceAccountToken pod of
             None \<Rightarrow> Ok True
           | Some a \<Rightarrow> bind_r (deref (pod_AutomountServiceAccountToken (br_PodAgentTemplate s))) (\<lambda>t. Ok (a \<noteq> t))))"

definition changed_after :: "bs_state \<Rightarrow> Pod \<Rightarrow> bool" where
  "changed_after s pod =
     (if list_ex (\<lambda>t. \<not> ContainsAny (pod_Tolerations pod) t IsTolerationSuperset) (nbs_Tolerations (nb_Spec (br_NooBaa s)))
      then True
      else if (case nbs_Affinity (nb_Spec (br_NooBaa s)) of
            Some noobaaAffinities \<Rightarrow>
              if pod_Affinity pod = None then True
              else (let podAffinities = noobaaAffinities in podAffinities \<noteq> noobaaAffinities)
          | None \<Rightarrow> pod_Affinity pod \<noteq> None)
      then True
      else pod_PriorityClassName pod \<noteq> (case pool_spec s of Some p \<Rightarrow> pv_PriorityClassName p | None \<Rightarrow> ''''))"

definition needUpdate :: "cluster \<Rightarrow> Pod \<Rightarrow> bool bs_proc" where
  "needUpdate c pod = (case pod_Containers pod of
     [] \<Rightarrow> lift Panic
   | ct # _ \<Rightarrow> bindp (bindp (gets (\<lambda>s. changed_before c s pod ct)) lift) (\<lambda>b.
       if b then ret True
       else bindp (gets (\<lambda>s. nbs_ImagePullSecret (nb_Spec (br_NooBaa s)))) (\<lambda>secret.
       bindp (case secret of
           None \<Rightarrow> bindp (look (\<lambda>h. c_ServiceAccount c h (c_Namespace c) (pod_ServiceAccountName pod)))
             (\<lambda>sa. ret (case sa of Some secrets \<Rightarrow> secrets \<noteq> pod_ImagePullSecrets pod | None \<Rightarrow> False))
         | Some n \<Rightarrow> ret (case pod_ImagePullSecrets pod of [] \<Rightarrow> True | x # _ \<Rightarrow> n \<noteq> x)) (\<lambda>b2.
       if b2 then ret True else gets (\<lambda>s. changed_after s pod)))))"

definition isPodinNoobaa :: "bs_state \<Rightarrow> Pod \<Rightarrow> bool result" where
  "isPodinNoobaa s pod = bind_r (deref (br_HostsInfo s)) (\<lambda>hosts.
     Ok (list_ex (\<lambda>host. HasPrefix host (om_Name (pod_Meta pod))) hosts))"

section \<open>Templates\<close>

definition set_log_env :: "(string \<rightharpoonup> string) \<Rightarrow> EnvVar \<Rightarrow> EnvVar" where
  "set_log_env conf e =
     (if env_Name e = ''NOOBAA_LOG_LEVEL'' then e\<lparr>env_Value := map_get (Some conf) ''NOOBAA_LOG_LEVEL''\<rparr>
      else if env_Name e = ''NOOBAA_LOG_COLOR'' then e\<lparr>env_Value := map_get (Some conf) ''NOOBAA_LOG_COLOR''\<rparr>
      else e)"

definition agent_env :: "cluster \<Rightarrow> (string \<rightharpoonup> string) \<Rightarrow> EnvVar list \<Rightarrow> EnvVar list" where
  "agent_env c conf env =
     foldl (ReflectEnvVariable (c_Env c)) (map (set_log_env conf) env) [''HTTP_PROXY'', ''HTTPS_PROXY'', ''NO_PROXY'']"

definition agent_label :: "BackingStore \<Rightarrow> string" where
  "agent_label bs = (let l = map_get (om_Labels (bs_Meta bs)) ''backingstore'' in if l = '''' then ''noobaa'' else l)"

definition set_secret_volume :: "string \<Rightarrow> PodVolume \<Rightarrow> PodVolume" where
  "set_secret_volume n v =
     (if pvol_Source v = SecretVolume ''AGENT_CONFIG_SECRET_NAME'' then v\<lparr>pvol_Source := SecretVolume n\<rparr> else v)"

text \<open>
  \<open>updatePodTemplate\<close> changes the template in place; the resources come last.
  The constraint on topology spread is represented by the label it selects.
\<close>

definition pod_template :: "cluster \<Rightarrow> bs_state \<Rightarrow> bool \<Rightarrow> Container \<Rightarrow> Container list \<Rightarrow> Pod" where
  "pod_template c s spread ct cts =
     (let bs = br_BackingStore s; nb = br_NooBaa s; t = br_PodAgentTemplate s
      in t\<lparr>pod_Containers := ct\<lparr>ct_Env := agent_env c (br_CoreAppConfig s) (ct_Env ct), ct_Image := nb_ActualImage nb\<rparr> # cts,
           pod_ImagePullSecrets := (case nbs_ImagePullSecret (nb_Spec nb) of None \<Rightarrow> [] | Some x \<Rightarrow> [x]),
           pod_Meta := (pod_Meta t)\<lparr>om_Labels := Some [''app'' \<mapsto> ''noobaa'', ''pool'' \<mapsto> bs_Name bs,
             ''backingstore'' \<mapsto> agent_label bs]\<rparr>,
           pod_Tolerations := (if nbs_Tolerations (nb_Spec nb) \<noteq> [] then nbs_Tolerations (nb_Spec nb) else pod_Tolerations t),
           pod_Affinity := (case nbs_Affinity (nb_Spec nb) of Some a \<Rightarrow> Some a | None \<Rightarrow> pod_Affinity t),
           pod_PriorityClassName := (case pool_spec s of Some p \<Rightarrow> pv_PriorityClassName p | None \<Rightarrow> pod_PriorityClassName t),
           pod_SpreadLabels := (if spread then [agent_label bs] else pod_SpreadLabels t),
           pod_Volumes := map (set_secret_volume (sec_Name (br_Secret s))) (pod_Volumes t)\<rparr>)"

definition updatePodTemplate :: "cluster \<Rightarrow> unit bs_proc" where
  "updatePodTemplate c = bindp (gets (\<lambda>s. pod_Containers (br_PodAgentTemplate s))) (\<lambda>cts0. case cts0 of
     [] \<Rightarrow> lift Panic
   | ct # cts \<Rightarrow> bindp (lift (deref (c_NodeInclusionPolicy c))) (\<lambda>spread.
       seqp (modify (\<lambda>s. s\<lparr>br_PodAgentTemplate := pod_template c s spread ct cts\<rparr>))
       (updatePodResourcesTemplate c)))"

definition volume_size :: "PVPoolSpec \<Rightarrow> quantity" where
  "volume_size p = (case pv_VolumeResources p of
     Some v \<Rightarrow> quantity_of (rr_Requests v) ResourceStorage
   | None \<Rightarrow> of_units defaultVolumeSize)"

definition updatePvcTemplate :: "unit bs_proc" where
  "updatePvcTemplate = bindp (bindp (gets (\<lambda>s. deref (pool_spec s))) lift) (\<lambda>p. modify (\<lambda>s.
     let t = br_PvcAgentTemplate s in
     s\<lparr>br_PvcAgentTemplate := t\<lparr>
       pvc_StorageClassName := (if pv_StorageClass p \<noteq> '''' then Some (pv_StorageClass p)
         else (case nbs_PVPoolDefaultStorageClass (nb_Spec (br_NooBaa s)) of Some sc \<Rightarrow> Some sc | None \<Rightarrow> pvc_StorageClassName t)),
       pvc_Requests := (pvc_Requests t)(ResourceStorage \<mapsto> volume_size p),
       pvc_Meta := (pvc_Meta t)\<lparr>om_Labels := Some [''app'' \<mapsto> ''noobaa'', ''pool'' \<mapsto> bs_Name (br_BackingStore s)]\<rparr>\<rparr>\<rparr>))"

section \<open>Missing volumes and pods\<close>

definition Own :: "cluster \<Rightarrow> ObjectMeta \<Rightarrow> ObjectMeta bs_proc" where
  "Own c obj = bindp (gets (\<lambda>s. bs_Meta (br_BackingStore s))) (\<lambda>o'. own c o' obj)"

definition create_pvc :: "cluster \<Rightarrow> unit bs_proc" where
  "create_pvc c = bindp (asks (c_RandomHex c)) (\<lambda>postfix.
     bindp (gets br_PvcAgentTemplate) (\<lambda>t.
     bindp (gets (\<lambda>s. bs_Name (br_BackingStore s))) (\<lambda>n.
     bindp (Own c ((pvc_Meta t)\<lparr>om_Name := n @ ''-'' @ c_SystemName c @ ''-pvc-'' @ postfix, om_Namespace := c_Namespace c\<rparr>)) (\<lambda>m.
     bindp (on_hist (KubeCreateSkipExisting (pvc_client c) (t\<lparr>pvc_Meta := m\<rparr>))) (\<lambda>_. ret ())))))"

definition reconcileMissingPvcs :: "cluster \<Rightarrow> PVC list \<Rightarrow> unit bs_proc" where
  "reconcileMissingPvcs c pvcs = seqp updatePvcTemplate
     (bindp (bindp (gets (\<lambda>s. deref (pool_spec s))) lift) (\<lambda>p.
       forp (\<lambda>_. create_pvc c) [0 ..< nat (pv_NumVolumes p - int (length pvcs))]))"

text \<open>\<^verbatim>\<open>pod.Spec.Volumes[1].PersistentVolumeClaim.ClaimName\<close>, read and written.\<close>

definition claim_name :: "Pod \<Rightarrow> string result" where
  "claim_name pod = (case pod_Volumes pod of
     _ # v # _ \<Rightarrow> (case pvol_Source v of ClaimVolume n \<Rightarrow> Ok n | _ \<Rightarrow> Panic)
   | _ \<Rightarrow> Panic)"

definition set_claim_name :: "string \<Rightarrow> Pod \<Rightarrow> Pod result" where
  "set_claim_name n pod = (case pod_Volumes pod of
     u # v # vs \<Rightarrow> (case pvol_Source v of
         ClaimVolume _ \<Rightarrow> Ok (pod\<lparr>pod_Volumes := u # v\<lparr>pvol_Source := ClaimVolume n\<rparr> # vs\<rparr>)
       | _ \<Rightarrow> Panic)
   | _ \<Rightarrow> Panic)"

fun claim_names :: "Pod list \<Rightarrow> string list result" where
  "claim_names [] = Ok []"
| "claim_names (p # ps) = bind_r (claim_name p) (\<lambda>n. bind_r (claim_names ps) (\<lambda>ns. Ok (n # ns)))"

definition after_last_dash :: "string \<Rightarrow> string" where
  "after_last_dash n = (case LastIndex n (CHR ''-'') of Some i \<Rightarrow> drop (i + 1) n | None \<Rightarrow> n)"

definition create_pod :: "cluster \<Rightarrow> PVC \<Rightarrow> unit bs_proc" where
  "create_pod c pvc =
     bindp (gets br_PodAgentTemplate) (\<lambda>t.
     bindp (gets (\<lambda>s. bs_Name (br_BackingStore s))) (\<lambda>n.
     let pvcName = om_Name (pvc_Meta pvc);
         m = (pod_Meta t)\<lparr>om_Name := n @ ''-'' @ c_SystemName c @ ''-pod-'' @ after_last_dash pvcName,
                om_Namespace := c_Namespace c\<rparr>
     in bindp (lift (set_claim_name pvcName (t\<lparr>pod_Meta := m\<rparr>))) (\<lambda>pod.
        bindp (Own c (pod_Meta pod)) (\<lambda>m'.
        bindp (on_hist (KubeCreateSkipExisting (pod_client c) (pod\<lparr>pod_Meta := m'\<rparr>))) (\<lambda>_. ret ())))))"

definition reconcileMissingPods :: "cluster \<Rightarrow> Pod list \<Rightarrow> PVC list \<Rightarrow> unit bs_proc" where
  "reconcileMissingPods c pods pvcs = bindp (lift (claim_names pods)) (\<lambda>claimNames.
     seqp (updatePodTemplate c)
       (forp (\<lambda>pvc. whenp (\<not> Contains claimNames (om_Name (pvc_Meta pvc))) (create_pod c pvc)) pvcs))"

section \<open>The pool\<close>

text \<open>The two counters: pods that are not attached, and those among them that are older than ten minutes.\<close>

fun existing_pods :: "cluster \<Rightarrow> Pod list \<Rightarrow> nat \<Rightarrow> nat \<Rightarrow> (nat \<times> nat) bs_proc" where
  "existing_pods c [] none failed = ret (none, failed)"
| "existing_pods c (pod # pods) none failed =
     bindp (needUpdate c pod) (\<lambda>upd.
     if upd then bindp (delete c (pod_client c) pod) (\<lambda>_. existing_pods c pods none failed)
     else bindp (bindp (gets (\<lambda>s. isPodinNoobaa s pod)) lift) (\<lambda>attached.
       if attached then existing_pods c pods none failed
       else bindp (since c (pod_Meta pod)) (\<lambda>age.
         existing_pods c pods (none + 1) (if minutes 10 < age then failed + 1 else failed))))"

definition reconcileExistingPods :: "cluster \<Rightarrow> Pod list \<Rightarrow> unit bs_proc" where
  "reconcileExistingPods c pods =
     bindp (existing_pods c pods 0 0) (\<lambda>(none, failed).
     bindp (bindp (gets (\<lambda>s. deref (pool_spec s))) lift) (\<lambda>p.
     let n = pv_NumVolumes p; attached = int (length pods) - int none in
     if int (length pods) < n
     then raise (PlainError (''BackingStore Still didn't start all the pods. '' @ show_nat (length pods) @ '' from ''
       @ show_int n @ '' has started''))
     else if attached < n then
       if failed = none
       then raise (PersistentError ''Failed connecting all pods in backingstore for more than 10 minutes''
         (''Current failing: '' @ show_nat failed @ '' from requested: '' @ show_int n))
       else raise (PlainError (''BackingStore Still didn't connect all requested pods. '' @ show_nat none @ '' from ''
         @ show_int n @ '' are pending''))
     else ret ()))"

text \<open>\<^verbatim>\<open>util.KubeUpdate(r.Secret)\<close>, whose result the callers ignore.\<close>

definition store_secret :: "cluster \<Rightarrow> unit bs_proc" where
  "store_secret c = bindp (gets br_Secret) (\<lambda>sec.
     bindp (update (secret_client c) sec) (\<lambda>ok.
     bindp (asks (\<lambda>h. c_Written c h sec)) (\<lambda>(sec', nil).
     whenp ok (modify (\<lambda>s. s\<lparr>br_Secret := sec', br_StringDataNil := nil\<rparr>)))))"

definition set_secret_data :: "string \<Rightarrow> string \<Rightarrow> unit bs_proc" where
  "set_secret_data key v = bindp (gets br_StringDataNil) (\<lambda>nil.
     if nil then lift Panic
     else modify (\<lambda>s. s\<lparr>br_Secret := (br_Secret s)\<lparr>sec_StringData := (sec_StringData (br_Secret s))(key \<mapsto> v)\<rparr>\<rparr>))"

definition reconcilePvPool :: "cluster \<Rightarrow> unit bs_proc" where
  "reconcilePvPool c =
     bindp (gets br_StringDataNil) (\<lambda>nil.
     if nil then raise (PlainError ''reconcilePvPool: r.Secret.StringData is not initialized yet'')
     else bindp (gets (\<lambda>s. bs_Name (br_BackingStore s))) (\<lambda>n.
     bindp (gets (\<lambda>s. secret_data s ''agent_config'')) (\<lambda>conf.
     seqp (whenp (conf = '''')
       (bindp (bindp (query (GetHostsPoolAgentConfigAPI n) (\<lambda>h. c_AgentConfig c h n)) reply) (\<lambda>res.
        seqp (set_secret_data ''agent_config'' res) (store_secret c))))
     (bindp (look_list (\<lambda>h. c_ListPods c h n) []) (\<lambda>pods.
      bindp (look_list (\<lambda>h. c_ListPVCs c h n) []) (\<lambda>pvcs0.
      bindp (bindp (gets (\<lambda>s. deref (pool_spec s))) lift) (\<lambda>p.
      bindp (if int (length pvcs0) < pv_NumVolumes p
             then seqp (reconcileMissingPvcs c pvcs0) (look_list (\<lambda>h. c_ListPVCs c h n) pvcs0)
             else ret pvcs0) (\<lambda>pvcs.
      seqp (whenp (length pods < length pvcs) (reconcileMissingPods c pods pvcs))
        (reconcileExistingPods c pods)))))))))"

definition deletePvPool :: "cluster \<Rightarrow> unit bs_proc" where
  "deletePvPool c = bindp (gets (\<lambda>s. bs_Name (br_BackingStore s))) (\<lambda>n.
     bindp (look_list (\<lambda>h. c_ListPods c h n) []) (\<lambda>_.
     bindp (KubeDeleteAllOf c (DeletedAllPods n)) (\<lambda>_.
     bindp (KubeDeleteAllOf c (DeletedAllPVCs n)) (\<lambda>_. ret ()))))"

end
