(* ===== verification/Cluster_Example.thy ===== *)
theory Cluster_Example
  imports Reconcile_Base Examples
begin

text \<open>
  A concrete outside world for the theorems about reconcilers: a server that has the system, its services and its
  secrets and accepts every write, and a core without resources that accepts every call.
\<close>

definition ex_secret_of :: "string \<Rightarrow> string \<Rightarrow> Secret" where
  "ex_secret_of nspace n = \<lparr>sec_Meta = (ex_meta n)\<lparr>om_Namespace := nspace\<rparr>, sec_StringData = Map.empty,
     sec_Data = [''auth_token'' \<mapsto> ''token'', ''AWS_ACCESS_KEY_ID'' \<mapsto> ''key'', ''AWS_SECRET_ACCESS_KEY'' \<mapsto> ''pw'']\<rparr>"

definition ex_system :: NooBaa where
  "ex_system = ex_nb\<lparr>nb_Meta := (ex_meta ''noobaa'')\<lparr>om_Labels := Some [''app'' \<mapsto> ''noobaa''],
     om_Finalizers := [GracefulFinalizer]\<rparr>\<rparr>"

definition ex_info :: SystemInfo where
  "ex_info = \<lparr>si_Accounts = [], si_Buckets = [], si_Pools = [], si_NamespaceResources = []\<rparr>"

definition ex_cluster :: cluster where
  "ex_cluster = \<lparr>c_Namespace = ''noobaa'', c_SystemName = ''noobaa'', c_SubDomain = ''noobaa'', c_goarch = ''amd64'', c_TestEnv = False,
     c_Env = Map.empty, c_Polls = 3, c_SetStatusCondition = list_set_condition,
     c_Url = \<lparr>url_Parse = (\<lambda>s. Inr \<lparr>u_Scheme = ''https'', u_Rest = s\<rparr>), url_String = u_Rest\<rparr>,
     c_Json = ex_json, c_QuantityString = show_int, c_ParseQuantity = ex_parse_quantity, c_IsGraphic = (\<lambda>_. True),
     c_ParseGroupVersion = Some, c_SetControllerReference = (\<lambda>_ m. Some m), c_NodeInclusionPolicy = Some True,
     c_NooBaaTemplate = ex_nb, c_ErrorText = (\<lambda>_. ''refused''), c_Now = (\<lambda>_. 0), c_RandomHex = (\<lambda>h. show_nat (length h)),
     c_write = (\<lambda>_ _. None), c_Written = (\<lambda>_ sec. (sec, False)),
     c_NooBaa = (\<lambda>_ _ _. Inr ex_system), c_BackingStore = (\<lambda>_ _ _. Inl NotFoundError),
     c_NamespaceStore = (\<lambda>_ _ _. Inl NotFoundError), c_BucketClass = (\<lambda>_ _ _. Inl NotFoundError),
     c_Account = (\<lambda>_ _ _. Inl NotFoundError), c_Secret = (\<lambda>_ ns n. Inr (ex_secret_of ns n)),
     c_Pod = (\<lambda>_ _ _. Inl NotFoundError), c_PVC = (\<lambda>_ _ _. Inl NotFoundError), c_Service = (\<lambda>_ _ _. Inr ()),
     c_ServiceAccount = (\<lambda>_ _ _. Inr []), c_ConfigMap = (\<lambda>_ _ _. Inl NotFoundError),
     c_CephCapacity = (\<lambda>_ _ _. Inl NotFoundError), c_ListStores = (\<lambda>_ _. ([], [])), c_ListPods = (\<lambda>_ _. Inr []),
     c_ListPVCs = (\<lambda>_ _. Inr []), c_ListObjectBuckets = (\<lambda>_. Inr []), c_call = (\<lambda>_ _. None),
     c_ReadSystem = (\<lambda>_. Inr ex_info), c_ListHosts = (\<lambda>_ _. Inr []),
     c_CheckConnection = (\<lambda>_ _. Inr \<lparr>cer_Status = ExternalConnectionSuccess, cer_Code = '''', cer_Message = ''''\<rparr>),
     c_CreateHostsPool = (\<lambda>_ _. Inr ''config''), c_AgentConfig = (\<lambda>_ _. Inr ''config''),
     c_CreateAccount = (\<lambda>_ _. Inr \<lparr>akr_ARN = ''arn'', akr_AccessKeys = []\<rparr>),
     c_ReadAccount = (\<lambda>_ _. Inr \<lparr>akr_ARN = ''arn'', akr_AccessKeys = [\<lparr>ak_AccessKey = ''key'', ak_SecretKey = ''pw''\<rparr>]\<rparr>),
     c_UpdateBucketClass = (\<lambda>_ _. Inr \<lparr>bcinfo_ErrorMessage = '''', bcinfo_ShouldRevert = False, bcinfo_RevertTiers = []\<rparr>),
     c_ReadBucket = (\<lambda>_ _. Inr None)\<rparr>"

lemma ex_cluster_simps [simp]:
  "c_SetStatusCondition ex_cluster = list_set_condition" "c_write ex_cluster h ev = None" "c_call ex_cluster h r = None"
  "c_ReadSystem ex_cluster h = Inr ex_info" "c_Now ex_cluster h = 0"
  by (simp_all add: ex_cluster_def)

lemma ex_cluster_laws [simp]: "status_condition_laws (c_SetStatusCondition ex_cluster)"
  by (simp add: list_set_condition_laws)

lemma Connect_ex: "Connect (ex_cluster\<lparr>c_ReadSystem := f\<rparr>) s = (Ok (), s\<lparr>hist := hist s @ [Looked, Looked, Looked, Looked]\<rparr>)"
  by (simp add: Connect_def ConnectClient_def CheckSystem_def look_def ex_cluster_def ex_system_def ex_nb_def ex_meta_def Let_def
      EnsureCommonMetaFields_def AddFinalizer_def map_get_def ex_secret_of_def SecretResetStringDataFromData_def url_ok_def)

end
