(* ===== verification/BS_Reconciler.thy ===== *)
theory BS_Reconciler
  imports Pv_Pool BS_Validation Cluster_Example
begin

text \<open>
  The backing store reconciler, \<^verbatim>\<open>pkg/backingstore/reconciler.go\<close>: from the request to the status update, with
  the phases, the connection to the core, the external connection, the pool and the deletion.  Log lines and recorded
  Kubernetes events are left out.
\<close>

section \<open>Phases\<close>

datatype severity = EventTypeNormal | EventTypeWarning

definition bs_modeInfoMap :: "string \<rightharpoonup> BackingStorePhase \<times> severity" where
  "bs_modeInfoMap = map_of [
     (''INITIALIZING'', (BackingStorePhaseCreating, EventTypeNormal)),
     (''DELETING'', (BackingStorePhaseReady, EventTypeNormal)),
     (''SCALING'', (BackingStorePhaseReady, EventTypeNormal)),
     (''MOST_NODES_ISSUES'', (BackingStorePhaseReady, EventTypeWarning)),
     (''MANY_NODES_ISSUES'', (BackingStorePhaseReady, EventTypeWarning)),
     (''MOST_STORAGE_ISSUES'', (BackingStorePhaseReady, EventTypeWarning)),
     (''MANY_STORAGE_ISSUES'', (BackingStorePhaseReady, EventTypeWarning)),
     (''MANY_NODES_OFFLINE'', (BackingStorePhaseReady, EventTypeWarning)),
     (''LOW_CAPACITY'', (BackingStorePhaseReady, EventTypeWarning)),
     (''OPTIMAL'', (BackingStorePhaseReady, EventTypeNormal)),
     (''HAS_NO_NODES'', (BackingStorePhaseRejected, EventTypeWarning)),
     (''ALL_NODES_OFFLINE'', (BackingStorePhaseRejected, EventTypeWarning)),
     (''NO_CAPACITY'', (BackingStorePhaseRejected, EventTypeWarning)),
     (''IO_ERRORS'', (BackingStorePhaseRejected, EventTypeWarning)),
     (''STORAGE_NOT_EXIST'', (BackingStorePhaseRejected, EventTypeWarning)),
     (''AUTH_FAILED'', (BackingStorePhaseRejected, EventTypeWarning))]"

definition bs_SetPhase :: "set_condition \<Rightarrow> BackingStorePhase \<Rightarrow> string \<Rightarrow> string \<Rightarrow> BackingStore \<Rightarrow> BackingStore" where
  "bs_SetPhase setc phase reason message bs =
     (let st = bs_Status bs in
      if phase = BackingStorePhaseNone
      then bs\<lparr>bs_Status := st\<lparr>bst_Conditions := SetProgressingCondition setc (bst_Conditions st) reason message\<rparr>\<rparr>
      else bs\<lparr>bs_Status := st\<lparr>bst_Phase := phase, bst_Conditions :=
        (case phase of
           BackingStorePhaseReady \<Rightarrow> SetAvailableCondition setc (bst_Conditions st) reason message
         | BackingStorePhaseRejected \<Rightarrow> SetErrorCondition setc (bst_Conditions st) reason message
         | _ \<Rightarrow> SetProgressingCondition setc (bst_Conditions st) reason message)\<rparr>\<rparr>)"

definition set_phase :: "cluster \<Rightarrow> BackingStorePhase \<Rightarrow> string \<Rightarrow> string \<Rightarrow> unit bs_proc" where
  "set_phase c phase reason message =
     modify (\<lambda>s. s\<lparr>br_BackingStore := bs_SetPhase (c_SetStatusCondition c) phase reason message (br_BackingStore s)\<rparr>)"

definition bs_UpdateStatus :: "cluster \<Rightarrow> unit bs_proc" where
  "bs_UpdateStatus c = bindp (gets (\<lambda>s. OBackingStore (br_BackingStore s))) (update_status c)"

text \<open>The status that \<open>completeReconcile\<close> sets, by the outcome of the reconcile.\<close>

definition bs_complete_phase :: "cluster \<Rightarrow> go_error option \<Rightarrow> unit bs_proc" where
  "bs_complete_phase c err = (case err of
     Some (PersistentError reason message) \<Rightarrow> set_phase c BackingStorePhaseRejected reason message
   | Some e \<Rightarrow> set_phase c BackingStorePhaseNone ''TemporaryError'' (Error e)
   | None \<Rightarrow> bindp (gets (\<lambda>s. bs_Status (br_BackingStore s))) (\<lambda>st.
       let mode = mode_ModeCode (bst_Mode st) in
       case bs_modeInfoMap mode of
         Some (phase, _) \<Rightarrow> whenp (phase \<noteq> bst_Phase st)
           (set_phase c phase (''Backing store mode: '' @ mode) (''BackingStorePhase'' @ bs_phase_string phase))
       | None \<Rightarrow> set_phase c BackingStorePhaseReady ''BackingStorePhaseReady''
           ''noobaa operator completed reconcile - backing store is ready''))"

text \<open>The result is the delay in seconds before the next reconcile, zero when there is none; there is never an error.\<close>

definition bs_completeReconcile :: "cluster \<Rightarrow> go_error option \<Rightarrow> nat bs_proc" where
  "bs_completeReconcile c err = seqp (bs_complete_phase c err)
     (bindp (tryp (bs_UpdateStatus c)) (\<lambda>r.
       ret (case r of
              Inl _ \<Rightarrow> 3
            | Inr _ \<Rightarrow> (case err of None \<Rightarrow> 0 | Some e \<Rightarrow> if IsPersistentError e then 0 else 3))))"

section \<open>The secret\<close>

definition check_secret :: "cluster \<Rightarrow> bool bs_proc" where
  "check_secret c = bindp (gets br_Secret) (\<lambda>sec.
     bindp (look (\<lambda>h. c_Secret c h (sec_Namespace sec) (sec_Name sec))) (\<lambda>p. case p of
       Some x \<Rightarrow> seqp (modify (\<lambda>s. s\<lparr>br_Secret := SecretResetStringDataFromData x, br_StringDataNil := False\<rparr>)) (ret True)
     | None \<Rightarrow> ret False))"

definition load_pool_secret :: "cluster \<Rightarrow> unit bs_proc" where
  "load_pool_secret c = bindp (gets br_BackingStore) (\<lambda>bs.
     if bs_Type bs \<noteq> StoreTypePVPool
     then raise (PersistentError ''EmptySecretName'' ''BackingStore Secret reference has an empty name'')
     else
       seqp (modify (\<lambda>s. let m = sec_Meta (br_Secret s) in
         s\<lparr>br_Secret := \<lparr>sec_Meta = m\<lparr>om_Name := ''backing-store-pv-pool-'' @ bs_Name bs, om_Namespace := bs_Namespace bs\<rparr>,
             sec_StringData = Map.empty, sec_Data = Map.empty\<rparr>, br_StringDataNil := False\<rparr>))
       (bindp (check_secret c) (\<lambda>found. whenp (\<not> found)
         (bindp (gets br_Secret) (\<lambda>sec.
          bindp (Own c (sec_Meta sec)) (\<lambda>m.
          let sec1 = sec\<lparr>sec_Meta := m\<rparr> in
          seqp (modify (\<lambda>s. s\<lparr>br_Secret := sec1\<rparr>))
          (bindp (on_hist (KubeCreateFailExisting (secret_client c) sec1)) (\<lambda>ok.
           if ok then bindp (asks (\<lambda>h. c_Written c h sec1)) (\<lambda>(sec2, nil).
             modify (\<lambda>s. s\<lparr>br_Secret := sec2, br_StringDataNil := nil\<rparr>))
           else raise (PersistentError ''EmptySecretName'' (''Could not create Secret '' @ go_quote (sec_Name sec1)
             @ '' in Namespace '' @ go_quote (sec_Namespace sec1) @ '' (conflict)''))))))))))"

text \<open>
  The search for another secret with the same credentials reads a snapshot of the stores.  The secret that the rest of
  the reconcile uses stays the one the store named.
\<close>

definition own_shared_secret :: "cluster \<Rightarrow> Secret \<Rightarrow> unit bs_proc" where
  "own_shared_secret c secret = whenp (IsOwnedByNoobaa (om_OwnerReferences (sec_Meta secret)))
     (bindp (gets br_BackingStore) (\<lambda>bs.
      case SetOwnerReference (c_ParseGroupVersion c) (Ok (''noobaa.io/v1alpha1'', ''BackingStore'')) (bs_Meta bs) (sec_Meta secret) of
        Ok m \<Rightarrow> bindp (update (secret_client c) (secret\<lparr>sec_Meta := m\<rparr>)) (\<lambda>ok.
          if ok then ret ()
          else raise (PlainError (''failed to update secret: '' @ go_quote (bs_Name bs) @ '' owner reference'')))
      | Err e \<Rightarrow> if e = AlreadyOwnedError then ret () else raise e
      | Panic \<Rightarrow> lift Panic))"

definition share_secret :: "cluster \<Rightarrow> SecretReference \<Rightarrow> Secret \<Rightarrow> unit bs_proc" where
  "share_secret c ref secret =
     bindp (gets br_BackingStore) (\<lambda>bs.
     bindp (bindp (asks (\<lambda>h. case c_ListStores c h (sec_Namespace secret) of (bss, nss) \<Rightarrow>
         CheckForIdenticalSecretsCreds (\<lambda>n ns. c_Secret c h ns n) bss nss (Some secret) (store_type_string (bs_Type bs)))) lift)
       (\<lambda>suggested. seqp (emit Looked)
     (case suggested of
        None \<Rightarrow> own_shared_secret c secret
      | Some other \<Rightarrow>
          bindp (lift (SetBackingStoreSecretRef bs (ref\<lparr>sr_Name := sec_Name other, sr_Namespace := sec_Namespace other\<rparr>))) (\<lambda>bs1.
          seqp (modify (\<lambda>s. s\<lparr>br_BackingStore := bs1\<rparr>))
          (bindp (update (bs_client c) bs1) (\<lambda>ok.
           if ok then own_shared_secret c other
           else raise (PlainError (''failed to update Backingstore: '' @ go_quote (bs_Name bs1) @ '' secret reference''))))))))"

definition LoadBackingStoreSecret :: "cluster \<Rightarrow> unit bs_proc" where
  "LoadBackingStoreSecret c =
     bindp (bindp (gets (\<lambda>s. IsAWSSTSClusterBS (br_BackingStore s))) lift) (\<lambda>sts.
     if sts then ret ()
     else bindp (bindp (gets (\<lambda>s. GetBackingStoreSecret (br_BackingStore s))) lift) (\<lambda>p. case p of
       None \<Rightarrow> bindp (check_secret c) (\<lambda>_. ret ())
     | Some ref \<Rightarrow>
         seqp (modify (\<lambda>s. let sec = br_Secret s in s\<lparr>br_Secret := sec\<lparr>sec_Meta :=
           (sec_Meta sec)\<lparr>om_Name := sr_Name ref, om_Namespace := sr_Namespace ref\<rparr>\<rparr>\<rparr>))
         (if sr_Name ref = '''' then seqp (load_pool_secret c) (bindp (check_secret c) (\<lambda>_. ret ()))
          else bindp (tryp (seqp (emit Looked) (bindp (asks (\<lambda>h. GetSecretFromSecretReference (\<lambda>n ns. c_Secret c h ns n) (Some ref))) lift))) (\<lambda>r.
            case r of
              Inl _ \<Rightarrow> ret ()
            | Inr None \<Rightarrow> bindp (check_secret c) (\<lambda>_. ret ())
            | Inr (Some secret) \<Rightarrow> seqp (share_secret c ref secret) (bindp (check_secret c) (\<lambda>_. ret ()))))))"

section \<open>Verifying and connecting\<close>

definition bs_ReconcilePhaseVerifying :: "cluster \<Rightarrow> unit bs_proc" where
  "bs_ReconcilePhaseVerifying c =
     seqp (set_phase c BackingStorePhaseVerifying ''BackingStorePhaseVerifying''
       ''noobaa operator started phase 1/3 - \"Verifying\"'')
     (bindp (gets br_BackingStore) (\<lambda>bs.
      case ValidateBackingStore (c_QuantityString c) bs of
        Panic \<Rightarrow> lift Panic
      | Err e \<Rightarrow> raise (PersistentError ''BackingStoreValidationError'' (Error e))
      | Ok _ \<Rightarrow> bindp (gets (\<lambda>s. nb_Meta (br_NooBaa s))) (\<lambda>nb.
          if om_UID nb = '''' then raise (PersistentError ''MissingSystem'' (''NooBaa system '' @ go_quote (om_Name nb) @ '' not found or deleted''))
          else bindp (gets br_Secret) (\<lambda>sec.
          if sec_Name sec \<noteq> '''' \<and> om_UID (sec_Meta sec) = '''' then
            bindp (since c (bs_Meta bs)) (\<lambda>age.
            if age < minutes 5
            then raise (PlainError (''BackingStore Secret '' @ go_quote (sec_Name sec)
              @ '' not found, but not rejecting the young as it might be in process''))
            else raise (PersistentError ''MissingSecret'' (''BackingStore Secret '' @ go_quote (sec_Name sec) @ '' not found or deleted'')))
          else ret ()))))"

definition fix_key :: "string \<Rightarrow> unit bs_proc" where
  "fix_key key = bindp (gets (\<lambda>s. secret_data s key)) (\<lambda>v. whenp (v = '''')
     (bindp (gets (\<lambda>s. MapAlternateKeysValue (sec_StringData (br_Secret s)) key)) (set_secret_data key)))"

definition bs_fixAlternateKeysNames :: "unit bs_proc" where
  "bs_fixAlternateKeysNames = forp fix_key [''AWS_ACCESS_KEY_ID'', ''AWS_SECRET_ACCESS_KEY'']"

fun auth_method :: "S3SignatureVersion \<Rightarrow> string" where
  "auth_method S3SignatureVersionV4 = ''AWS_V4''"
| "auth_method S3SignatureVersionV2 = ''AWS_V2''"
| "auth_method _ = ''''"

text \<open>
  The endpoint of a store with an endpoint field: the field as it is rewritten, and what is sent to the core.
\<close>

definition with_scheme :: "string \<Rightarrow> string" where
  "with_scheme e = (if e = '''' then '''' else if has_scheme e then e else ''https://'' @ e)"

definition conn_endpoint :: "cluster \<Rightarrow> string \<Rightarrow> string result" where
  "conn_endpoint c e =
     (if e = '''' then Ok (url_string ''https'' ''127.0.0.1:6443'')
      else (case url_Parse (c_Url c) (with_scheme e) of
        Inl err \<Rightarrow> Err (PersistentError ''InvalidEndpoint''
          (''Invalid endpoint url '' @ go_quote (with_scheme e) @ '': '' @ err))
      | Inr u \<Rightarrow> Ok (url_String (c_Url c) (if u_Scheme u = '''' then u\<lparr>u_Scheme := ''https''\<rparr> else u))))"

definition new_connection :: "string \<Rightarrow> AddExternalConnectionParams" where
  "new_connection n = \<lparr>aec_Name = n, aec_EndpointType = '''', aec_Endpoint = '''', aec_Identity = '''', aec_Secret = '''',
     aec_AuthMethod = '''', aec_AWSSTSARN = '''', aec_AzureSTSCredentials = None, aec_Region = '''',
     aec_AzureLogAccessKeys = None\<rparr>"

definition log_access_keys :: "(string \<Rightarrow> string) \<Rightarrow> AzureLogAccessKeysParams option" where
  "log_access_keys sd =
     (if sd ''TenantID'' \<noteq> '''' \<and> sd ''ApplicationID'' \<noteq> '''' \<and> sd ''ApplicationSecret'' \<noteq> ''''
        \<and> sd ''LogsAnalyticsWorkspaceID'' \<noteq> ''''
      then Some \<lparr>alk_AzureTenantID = sd ''TenantID'', alk_AzureClientID = sd ''ApplicationID'',
        alk_AzureClientSecret = sd ''ApplicationSecret'', alk_AzureLogsAnalyticsWorkspaceID = sd ''LogsAnalyticsWorkspaceID''\<rparr>
      else None)"

text \<open>The parameters by the type of the store; \<open>sd\<close> reads the string data of the secret.\<close>

definition aws_connection :: "(string \<Rightarrow> string) \<Rightarrow> AWSS3Spec \<Rightarrow> AddExternalConnectionParams \<Rightarrow> AddExternalConnectionParams" where
  "aws_connection sd a conn =
     (let conn1 = (case aws_AWSSTSRoleARN a of
          Some arn \<Rightarrow> conn\<lparr>aec_EndpointType := EndpointTypeAwsSTS, aec_AWSSTSARN := arn\<rparr>
        | None \<Rightarrow> conn\<lparr>aec_EndpointType := EndpointTypeAws, aec_Identity := sd ''AWS_ACCESS_KEY_ID'',
            aec_Secret := sd ''AWS_SECRET_ACCESS_KEY''\<rparr>)
      in conn1\<lparr>aec_Region := aws_Region a, aec_Endpoint := aws_endpoint a\<rparr>)"

definition google_connection ::
    "json_lib \<Rightarrow> Secret \<Rightarrow> AddExternalConnectionParams \<Rightarrow> AddExternalConnectionParams result" where
  "google_connection jl sec conn = (case GoogleCredentialsFromStoreSecret (Some sec) of
     Panic \<Rightarrow> Panic
   | Err e \<Rightarrow> Err (PersistentError ''InvalidGoogleSecret'' (''Invalid google credentials secret: '' @ Error e))
   | Ok json \<Rightarrow> (case ParseGoogleCredentials jl json of
       Panic \<Rightarrow> Panic
     | Err e \<Rightarrow> Err (PersistentError ''InvalidGoogleSecret'' (''Invalid secret for google type '' @ go_quote (sec_Name sec)
         @ '': invalid GCP credentials JSON: '' @ Error e))
     | Ok (external, identity) \<Rightarrow> Ok (conn\<lparr>aec_Endpoint := ''https://www.googleapis.com'',
         aec_EndpointType := (if external then EndpointTypeGoogleSTS else EndpointTypeGoogle),
         aec_Identity := identity, aec_Secret := json\<rparr>)))"

definition bs_connection :: "cluster \<Rightarrow> bs_state \<Rightarrow> AddExternalConnectionParams result" where
  "bs_connection c s =
     (let bs = br_BackingStore s; sp = bs_Spec bs; sd = secret_data s; conn = new_connection (bs_Name bs) in
      case bss_Type sp of
        StoreTypeAWSS3 \<Rightarrow> bind_r (deref (bss_AWSS3 sp)) (\<lambda>a. Ok (aws_connection sd a conn))
      | StoreTypeS3Compatible \<Rightarrow> bind_r (deref (bss_S3Compatible sp)) (\<lambda>a. bind_r (conn_endpoint c (s3c_Endpoint a)) (\<lambda>e.
          Ok (conn\<lparr>aec_EndpointType := EndpointTypeS3Compat, aec_Identity := sd ''AWS_ACCESS_KEY_ID'',
            aec_Secret := sd ''AWS_SECRET_ACCESS_KEY'', aec_AuthMethod := auth_method (s3c_SignatureVersion a), aec_Endpoint := e\<rparr>)))
      | StoreTypeIBMCos \<Rightarrow> bind_r (deref (bss_IBMCos sp)) (\<lambda>a. bind_r (conn_endpoint c (ibm_Endpoint a)) (\<lambda>e.
          Ok (conn\<lparr>aec_EndpointType := EndpointTypeIBMCos, aec_Identity := sd ''IBM_COS_ACCESS_KEY_ID'',
            aec_Secret := sd ''IBM_COS_SECRET_ACCESS_KEY'', aec_AuthMethod := auth_method (ibm_SignatureVersion a), aec_Endpoint := e\<rparr>)))
      | StoreTypeAzureBlob \<Rightarrow>
          (let conn1 = conn\<lparr>aec_Endpoint := ''https://blob.core.windows.net'', aec_Identity := sd ''AccountName'',
             aec_AzureLogAccessKeys := log_access_keys sd\<rparr>
           in Ok (if IsAzureSTSClusterBS bs
             then conn1\<lparr>aec_EndpointType := EndpointTypeAzureSTS, aec_AzureSTSCredentials :=
               Some \<lparr>asc_ClientID = sd ''azure_client_id'', asc_TenantID = sd ''azure_tenant_id''\<rparr>\<rparr>
             else conn1\<lparr>aec_EndpointType := EndpointTypeAzure, aec_Secret := sd ''AccountKey''\<rparr>))
      | StoreTypeGoogleCloudStorage \<Rightarrow> google_connection (c_Json c) (br_Secret s) conn
      | StoreTypePVPool \<Rightarrow> Err (PersistentError ''InvalidType'' (go_quote ''pv-pool'' @ '' type does not have external connection params''))
      | StoreTypeOther t \<Rightarrow> Err (PersistentError ''InvalidType'' (''Invalid backing store type '' @ go_quote t)))"

text \<open>The endpoint written back into the specification.\<close>

definition rewrite_endpoint :: "BackingStore \<Rightarrow> BackingStore" where
  "rewrite_endpoint bs = (let sp = bs_Spec bs in case bss_Type sp of
     StoreTypeS3Compatible \<Rightarrow> bs\<lparr>bs_Spec := sp\<lparr>bss_S3Compatible :=
       map_option (\<lambda>a. a\<lparr>s3c_Endpoint := with_scheme (s3c_Endpoint a)\<rparr>) (bss_S3Compatible sp)\<rparr>\<rparr>
   | StoreTypeIBMCos \<Rightarrow> bs\<lparr>bs_Spec := sp\<lparr>bss_IBMCos :=
       map_option (\<lambda>a. a\<lparr>ibm_Endpoint := with_scheme (ibm_Endpoint a)\<rparr>) (bss_IBMCos sp)\<rparr>\<rparr>
   | _ \<Rightarrow> bs)"

definition bs_MakeExternalConnectionParams :: "cluster \<Rightarrow> AddExternalConnectionParams bs_proc" where
  "bs_MakeExternalConnectionParams c = seqp bs_fixAlternateKeysNames
     (bindp (gets (bs_connection c)) (\<lambda>r.
      seqp (modify (\<lambda>s. s\<lparr>br_BackingStore := rewrite_endpoint (br_BackingStore s)\<rparr>))
      (bindp (lift r) (\<lambda>conn.
       bindp (bindp (gets (\<lambda>s. IsAWSSTSClusterBS (br_BackingStore s))) lift) (\<lambda>sts.
       if \<not> sts \<and> (\<not> IsStringGraphicOrSpacesCharsOnly c (aec_Identity conn) \<or> \<not> IsStringGraphicOrSpacesCharsOnly c (aec_Secret conn))
       then bindp (gets (\<lambda>s. sec_Name (br_Secret s))) (\<lambda>n. raise (PersistentError ''InvalidSecret''
         (''Invalid secret containing non graphic characters (perhaps not base64 encoded?) '' @ go_quote n)))
       else ret conn)))))"

section \<open>The state of the core\<close>

definition unexpected_pool :: "BackingStore \<Rightarrow> PoolInfo \<Rightarrow> go_error" where
  "unexpected_pool bs pool = PersistentError ''InvalidBackingStore'' (''BackingStore '' @ go_quote (bs_Name bs)
     @ '' w/existing pool has unexpected resource type '' @ pi_ResourceType pool)"

definition read_hosts_pool :: "cluster \<Rightarrow> PoolInfo option \<Rightarrow> unit bs_proc" where
  "read_hosts_pool c pool = bindp (gets br_BackingStore) (\<lambda>bs.
     bindp (gets (\<lambda>s. om_Namespace (nb_Meta (br_NooBaa s)))) (\<lambda>nspace.
     let n = bs_Name bs in
     case pool of
       None \<Rightarrow> bindp (lift (deref (bss_PVPool (bs_Spec bs)))) (\<lambda>p.
         modify (\<lambda>s. s\<lparr>br_CreateHostsPoolParams := Some \<lparr>chp_Name = n, chp_IsManaged = True, chp_HostCount = pv_NumVolumes p,
             chp_VolumeSize = q_Value (volume_size p), chp_Backingstore = \<lparr>sti_Name = n, sti_Namespace = nspace\<rparr>\<rparr>,
           br_HostsInfo := Some []\<rparr>))
     | Some pinfo \<Rightarrow>
         if pi_ResourceType pinfo \<noteq> ''HOSTS'' then raise (unexpected_pool bs pinfo)
         else bindp (lift (deref (bss_PVPool (bs_Spec bs)))) (\<lambda>p.
         bindp (bindp (query (ListHostsAPI n) (\<lambda>h. c_ListHosts c h n)) reply) (\<lambda>hosts.
         if pv_NumVolumes p < int (length hosts)
         then raise (PersistentError ''InvalidBackingStore'' ''Scaling down the number of nodes is not currently supported'')
         else bindp (lift (deref (pi_ConfiguredCount pinfo))) (\<lambda>count.
           seqp (whenp (pv_NumVolumes p \<noteq> count) (modify (\<lambda>s. s\<lparr>br_UpdateHostsPoolParams := Some n\<rparr>)))
           (modify (\<lambda>s. s\<lparr>br_HostsInfo := Some hosts\<rparr>)))))))"

definition same_connection :: "AddExternalConnectionParams \<Rightarrow> ExternalConnectionInfo \<Rightarrow> bool" where
  "same_connection conn i \<longleftrightarrow> eci_EndpointType i = aec_EndpointType conn \<and> eci_Endpoint i = aec_Endpoint conn
     \<and> eci_Identity i = aec_Identity conn"

text \<open>The loop over all connections of all accounts keeps the last match.\<close>

definition all_connections :: "SystemInfo \<Rightarrow> ExternalConnectionInfo list" where
  "all_connections si = concat (map ai_Connections (si_Accounts si))"

definition last_match :: "('a \<Rightarrow> bool) \<Rightarrow> 'a list \<Rightarrow> 'a option" where
  "last_match P xs = (case filter P xs of [] \<Rightarrow> None | ys \<Rightarrow> Some (last ys))"

definition pool_mismatch :: "AddExternalConnectionParams \<Rightarrow> PoolInfo \<Rightarrow> bool" where
  "pool_mismatch conn pinfo = (case pi_CloudInfo pinfo of
     None \<Rightarrow> True
   | Some ci \<Rightarrow> ci_EndpointType ci \<noteq> aec_EndpointType conn \<or> ci_Endpoint ci \<noteq> aec_Endpoint conn
       \<or> ci_Identity ci \<noteq> aec_Identity conn)"

definition update_params :: "AddExternalConnectionParams \<Rightarrow> UpdateExternalConnectionParams" where
  "update_params conn = \<lparr>uec_Name = aec_Name conn, uec_Identity = aec_Identity conn, uec_Secret = aec_Secret conn,
     uec_AzureLogAccessKeys = aec_AzureLogAccessKeys conn, uec_Region = aec_Region conn\<rparr>"

definition read_cloud_pool :: "cluster \<Rightarrow> SystemInfo \<Rightarrow> PoolInfo option \<Rightarrow> unit bs_proc" where
  "read_cloud_pool c si pool = bindp (gets br_BackingStore) (\<lambda>bs.
     if (case pool of Some pinfo \<Rightarrow> pi_ResourceType pinfo \<noteq> ''CLOUD'' | None \<Rightarrow> False)
     then raise (unexpected_pool bs (the pool))
     else bindp (bs_MakeExternalConnectionParams c) (\<lambda>conn.
       seqp (whenp (case pool of Some pinfo \<Rightarrow> pool_mismatch conn pinfo | None \<Rightarrow> False)
         (modify (\<lambda>s. s\<lparr>br_UpdateExternalConnectionParams := Some (update_params conn)\<rparr>)))
       (let found = last_match (same_connection conn) (all_connections si);
            conn1 = (case found of Some i \<Rightarrow> conn\<lparr>aec_Name := eci_Name i\<rparr> | None \<Rightarrow> conn) in
        seqp (modify (\<lambda>s. s\<lparr>br_ExternalConnectionInfo := (case found of Some i \<Rightarrow> Some i | None \<Rightarrow> br_ExternalConnectionInfo s),
            br_AddExternalConnectionParams := Some conn1\<rparr>))
        (bindp (bindp (gets (\<lambda>s. GetBackingStoreTargetBucket (br_BackingStore s))) lift) (\<lambda>bucket.
         modify (\<lambda>s. s\<lparr>br_CreateCloudPoolParams := Some \<lparr>ccp_Name = bs_Name bs, ccp_Connection = aec_Name conn1,
           ccp_TargetBucket = bucket, ccp_Backingstore = \<lparr>sti_Name = bs_Name bs,
             sti_Namespace = om_Namespace (nb_Meta (br_NooBaa s))\<rparr>, ccp_AvailableCapacity = None\<rparr>\<rparr>))))))"

definition bs_ReadSystemInfo :: "cluster \<Rightarrow> unit bs_proc" where
  "bs_ReadSystemInfo c =
     seqp (Connect c)
     (bindp (bindp (query ReadSystemAPI (c_ReadSystem c)) reply) (\<lambda>si.
      seqp (modify (\<lambda>s. s\<lparr>br_SystemInfo := Some si,
        br_PoolInfo := (case first_with pi_Name (bs_Name (br_BackingStore s)) (si_Pools si) of
          Some pinfo \<Rightarrow> Some pinfo | None \<Rightarrow> br_PoolInfo s)\<rparr>))
      (bindp (gets br_PoolInfo) (\<lambda>pool.
       bindp (gets (\<lambda>s. bs_Type (br_BackingStore s))) (\<lambda>t.
       if t = StoreTypePVPool then read_hosts_pool c pool else read_cloud_pool c si pool)))))"

definition bs_ReconcilePhaseConnecting :: "cluster \<Rightarrow> unit bs_proc" where
  "bs_ReconcilePhaseConnecting c =
     seqp (set_phase c BackingStorePhaseConnecting ''BackingStorePhaseConnecting''
       ''noobaa operator started phase 2/3 - \"Connecting\"'')
     (bs_ReadSystemInfo c)"

section \<open>The external connection\<close>

definition bs_CheckExternalConnection :: "cluster \<Rightarrow> CheckExternalConnectionParams \<Rightarrow> unit bs_proc" where
  "bs_CheckExternalConnection c params =
     bindp (bindp (query (CheckExternalConnectionAPI params) (\<lambda>h. c_CheckConnection c h params)) reply) (\<lambda>res.
     bindp (gets br_BackingStore) (\<lambda>bs.
     let status = cer_Status res;
         rejected = raise (PersistentError (connection_status_string status) (''BackingStore '' @ go_quote (bs_Name bs)
           @ '' invalid external connection '' @ go_quote (connection_status_string status)));
         endpoint = bindp (since c (bs_Meta bs)) (\<lambda>age.
           if age < minutes 5 then raise (PlainError ''got invalid endpoint. requeue again'') else rejected)
     in case status of
          ExternalConnectionSuccess \<Rightarrow> ret ()
        | ExternalConnectionInvalidCredentials \<Rightarrow> bindp (since c (bs_Meta bs)) (\<lambda>age.
            if age < minutes 5 then raise (PlainError ''got InvalidCredentials. requeue again'') else endpoint)
        | ExternalConnectionInvalidEndpoint \<Rightarrow> endpoint
        | ExternalConnectionTimeSkew \<Rightarrow> rejected
        | ExternalConnectionNotSupported \<Rightarrow> rejected
        | _ \<Rightarrow> raise (PlainError (''CheckExternalConnection Status='' @ connection_status_string status @ '' Error=''
            @ cer_Code res @ '' Message='' @ cer_Message res))))"

definition bs_ReconcileExternalConnection :: "cluster \<Rightarrow> unit bs_proc" where
  "bs_ReconcileExternalConnection c =
     bindp (gets br_ExternalConnectionInfo) (\<lambda>info.
     if info \<noteq> None then ret ()
     else bindp (gets br_AddExternalConnectionParams) (\<lambda>add. case add of
       None \<Rightarrow> ret ()
     | Some conn \<Rightarrow> bindp (gets br_UpdateExternalConnectionParams) (\<lambda>upd. case upd of
         Some u \<Rightarrow> seqp (bs_CheckExternalConnection c \<lparr>cec_Connection = conn, cec_IgnoreNameAlreadyExist = True\<rparr>)
           (seqp (call c (UpdateExternalConnectionAPI u))
             (modify (\<lambda>s. s\<lparr>br_UpdateExternalConnectionParams := None\<rparr>)))
       | None \<Rightarrow> seqp (bs_CheckExternalConnection c \<lparr>cec_Connection = conn, cec_IgnoreNameAlreadyExist = False\<rparr>)
           (call c (AddExternalConnectionAPI conn)))))"

section \<open>The pool\<close>

definition create_hosts_pool :: "cluster \<Rightarrow> CreateHostsPoolParams \<Rightarrow> unit bs_proc" where
  "create_hosts_pool c params =
     bindp (query (CreateHostsPoolAPI params) (\<lambda>h. c_CreateHostsPool c h params)) (\<lambda>a. case a of
       Inl e \<Rightarrow> (if rpc_code e = Some ''BAD_REQUEST''
         then raise (PersistentError ''SmallVolumeSize'' (''NooBaa BackingStore is in rejected phase due to '' @ Error (rpc_go e)))
         else raise (rpc_go e))
     | Inr res \<Rightarrow> bindp (gets (\<lambda>s. secret_data s ''agent_config'')) (\<lambda>conf.
         seqp (whenp (conf = '''') (seqp (set_secret_data ''agent_config'' res) (store_secret c)))
         (seqp (call c (UpdateAllBucketsDefaultPool (chp_Name params)))
          (reconcilePvPool c))))"

definition rgw_capacity :: "cluster \<Rightarrow> CreateCloudPoolParams \<Rightarrow> CreateCloudPoolParams bs_proc" where
  "rgw_capacity c params = bindp (gets (\<lambda>s. om_Annotations (bs_Meta (br_BackingStore s)))) (\<lambda>ann.
     if (case ann of Some f \<Rightarrow> f ''rgw'' \<noteq> None | None \<Rightarrow> False)
     then bindp (look (\<lambda>h. c_CephCapacity c h (c_Namespace c) ''ocs-storagecluster'')) (\<lambda>p. case p of
         None \<Rightarrow> ret params
       | Some status \<Rightarrow> bindp (lift (deref status)) (\<lambda>bytes. ret (params\<lparr>ccp_AvailableCapacity := Some (UInt64ToBigInt bytes)\<rparr>)))
     else ret params)"

definition bs_ReconcilePool :: "cluster \<Rightarrow> unit bs_proc" where
  "bs_ReconcilePool c =
     bindp (gets (\<lambda>s. bs_Namespace (br_BackingStore s))) (\<lambda>nspace.
     bindp (look (\<lambda>h. c_ConfigMap c h nspace ''noobaa-config'')) (\<lambda>conf.
     seqp (case conf of Some d \<Rightarrow> modify (\<lambda>s. s\<lparr>br_CoreAppConfig := d\<rparr>) | None \<Rightarrow> ret ())
     (bindp (gets br_PoolInfo) (\<lambda>pool.
      bindp (gets (\<lambda>s. bs_Type (br_BackingStore s))) (\<lambda>t.
      if pool \<noteq> None then
        if t = StoreTypePVPool then
          bindp (gets br_UpdateHostsPoolParams) (\<lambda>upd.
          seqp (case upd of Some n \<Rightarrow> call c (UpdateHostsPoolAPI n) | None \<Rightarrow> ret ()) (reconcilePvPool c))
        else ret ()
      else bindp (gets br_CreateHostsPoolParams) (\<lambda>hosts. case hosts of
        Some params \<Rightarrow> create_hosts_pool c params
      | None \<Rightarrow> bindp (gets br_CreateCloudPoolParams) (\<lambda>cloud. case cloud of
          None \<Rightarrow> ret ()
        | Some params0 \<Rightarrow> bindp (rgw_capacity c params0) (\<lambda>params.
            seqp (call c (CreateCloudPoolAPI params))
            (whenp (ccp_Name params \<noteq> '''') (call c (UpdateAllBucketsDefaultPool (ccp_Name params))))))))))))"

definition bs_ReconcilePhaseCreating :: "cluster \<Rightarrow> unit bs_proc" where
  "bs_ReconcilePhaseCreating c =
     seqp (set_phase c BackingStorePhaseCreating ''BackingStorePhaseCreating''
       ''noobaa operator started phase 3/3 - \"Creating\"'')
     (seqp (bs_ReconcileExternalConnection c) (bs_ReconcilePool c))"

definition bs_ReconcilePhases :: "cluster \<Rightarrow> unit bs_proc" where
  "bs_ReconcilePhases c = seqp (bs_ReconcilePhaseVerifying c)
     (seqp (bs_ReconcilePhaseConnecting c) (bs_ReconcilePhaseCreating c))"

section \<open>Deletion\<close>

definition delete_pool :: "cluster \<Rightarrow> string \<Rightarrow> unit bs_proc" where
  "delete_pool c n = bindp (attempt c (DeletePoolAPI n)) (\<lambda>e. case e of
     None \<Rightarrow> ret ()
   | Some err \<Rightarrow>
       if rpc_code err = Some ''DEFAULT_RESOURCE'' then raise (PersistentError ''DefaultResource''
         (''DeletePoolAPI cannot complete because pool '' @ go_quote n @ '' is an account default resource''))
       else if rpc_code err = Some ''IN_USE''
       then raise (PlainError (''DeletePoolAPI cannot complete because pool '' @ go_quote n @ '' has buckets attached''))
       else raise (rpc_go err))"

definition read_for_deletion :: "cluster \<Rightarrow> unit bs_proc" where
  "read_for_deletion c = bindp (tryp (bs_ReadSystemInfo c)) (\<lambda>r. case r of
     Inl e \<Rightarrow> if \<not> IsPersistentError e then raise e else ret ()
   | Inr _ \<Rightarrow> ret ())"

definition release_pool :: "cluster \<Rightarrow> unit bs_proc" where
  "release_pool c = bindp (gets br_PoolInfo) (\<lambda>pool. case pool of
     None \<Rightarrow> ret ()
   | Some pinfo \<Rightarrow> bindp (bindp (gets (\<lambda>s. deref (br_SystemInfo s))) lift) (\<lambda>si.
       seqp (rehome_accounts c si (pi_Name pinfo)) (delete_pool c (pi_Name pinfo))))"

definition release_connection :: "cluster \<Rightarrow> unit bs_proc" where
  "release_connection c = bindp (gets br_ExternalConnectionInfo) (\<lambda>conn. case conn of
     None \<Rightarrow> ret ()
   | Some i \<Rightarrow> delete_connection c (eci_Name i))"

definition finalizeCore :: "cluster \<Rightarrow> unit bs_proc" where
  "finalizeCore c = seqp (read_for_deletion c) (seqp (release_pool c) (release_connection c))"

definition bs_FinalizeDeletion :: "cluster \<Rightarrow> unit bs_proc" where
  "bs_FinalizeDeletion c =
     seqp (modify (\<lambda>s. let bs = br_BackingStore s in
       s\<lparr>br_BackingStore := bs\<lparr>bs_Meta := snd (RemoveFinalizer (bs_Meta bs) Finalizer)\<rparr>\<rparr>))
     (bindp (gets br_BackingStore) (\<lambda>bs.
      bindp (update (bs_client c) bs) (\<lambda>ok.
      if ok then ret ()
      else raise (PlainError (''BackingStore '' @ go_quote (bs_Name bs) @ '' failed to remove finalizer '' @ go_quote Finalizer)))))"

definition bs_mark_deleting :: "cluster \<Rightarrow> unit bs_proc" where
  "bs_mark_deleting c = bindp (gets (\<lambda>s. bst_Phase (bs_Status (br_BackingStore s)))) (\<lambda>phase.
     whenp (phase \<noteq> BackingStorePhaseDeleting)
       (seqp (set_phase c BackingStorePhaseDeleting ''BackingStorePhaseDeleting'' ''noobaa operator started deletion'')
         (bs_UpdateStatus c)))"

definition release_volumes :: "cluster \<Rightarrow> unit bs_proc" where
  "release_volumes c = bindp (gets (\<lambda>s. bs_Type (br_BackingStore s))) (\<lambda>t. whenp (t = StoreTypePVPool) (deletePvPool c))"

definition bs_ReconcileDeletion :: "cluster \<Rightarrow> bool \<Rightarrow> unit bs_proc" where
  "bs_ReconcileDeletion c systemFound = seqp (bs_mark_deleting c)
     (seqp (whenp systemFound (finalizeCore c)) (seqp (release_volumes c) (bs_FinalizeDeletion c)))"

section \<open>Reconcile\<close>

text \<open>A phase of the reconcile whose error decides how it completes.\<close>

definition then_complete :: "cluster \<Rightarrow> unit bs_proc \<Rightarrow> nat bs_proc" where
  "then_complete c m = bindp (tryp m) (\<lambda>r. bs_completeReconcile c (case r of Inl e \<Rightarrow> Some e | Inr _ \<Rightarrow> None))"

definition paused :: "ObjectMeta \<Rightarrow> bool" where
  "paused m = (om_Annotations m \<noteq> None \<and> map_get (om_Annotations m) PauseReconcile = ''true'')"

text \<open>\<open>EnsureCommonMetaFields\<close>, then the update it asks for and the phases.\<close>

definition bs_phases :: "cluster \<Rightarrow> nat bs_proc" where
  "bs_phases c = bindp (gets br_BackingStore) (\<lambda>bs.
     case EnsureCommonMetaFields (bs_Meta bs) Finalizer of (changed, m) \<Rightarrow>
       let bs1 = bs\<lparr>bs_Meta := m\<rparr> in
       seqp (modify (\<lambda>s. s\<lparr>br_BackingStore := bs1\<rparr>))
       (bindp (if changed then update (bs_client c) bs1 else ret True) (\<lambda>ok.
        if ok then then_complete c (bs_ReconcilePhases c)
        else bs_completeReconcile c (Some (PlainError (''BackingStore '' @ go_quote (bs_Name bs1)
          @ '' failed to add mandatory meta fields''))))))"

definition bs_Reconcile :: "cluster \<Rightarrow> nat bs_proc" where
  "bs_Reconcile c =
     bindp (bindp (gets br_NooBaa) (CheckSystem c)) (\<lambda>(systemFound, nb).
     seqp (modify (\<lambda>s. s\<lparr>br_NooBaa := nb\<rparr>))
     (bindp (gets br_BackingStore) (\<lambda>bs0.
      bindp (look (\<lambda>h. c_BackingStore c h (bs_Namespace bs0) (bs_Name bs0))) (\<lambda>p. case p of
        None \<Rightarrow> ret 0
      | Some bs \<Rightarrow> seqp (modify (\<lambda>s. s\<lparr>br_BackingStore := bs\<rparr>))
          (bindp (tryp (LoadBackingStoreSecret c)) (\<lambda>r. case r of
             Inl e \<Rightarrow> bs_completeReconcile c (Some e)
           | Inr _ \<Rightarrow> bindp (gets br_BackingStore) (\<lambda>bs1.
               if om_DeletionTimestamp (bs_Meta bs1) \<noteq> None then then_complete c (bs_ReconcileDeletion c systemFound)
               else if \<not> systemFound then bs_completeReconcile c None
               else if paused (bs_Meta bs1) then ret 5
               else bs_phases c)))))))"

section \<open>How a reconcile completes\<close>

interpretation bs_phased: phased_resource bs_SetPhase "\<lambda>bs. bst_Phase (bs_Status bs)" "\<lambda>bs. bst_Conditions (bs_Status bs)"
  bs_Meta BackingStorePhaseNone BackingStorePhaseReady BackingStorePhaseRejected
  by unfold_locales (auto simp: bs_SetPhase_def Let_def split: BackingStorePhase.splits)

abbreviation bs_phase_of :: "bs_state \<Rightarrow> BackingStorePhase" where
  "bs_phase_of s \<equiv> bst_Phase (bs_Status (br_BackingStore s))"

abbreviation bs_conditions_of :: "bs_state \<Rightarrow> Condition list" where
  "bs_conditions_of s \<equiv> bst_Conditions (bs_Status (br_BackingStore s))"

definition bs_mode_phase :: "BackingStore \<Rightarrow> BackingStorePhase" where
  "bs_mode_phase bs = (case bs_modeInfoMap (mode_ModeCode (bst_Mode (bs_Status bs))) of
     Some (p, _) \<Rightarrow> p | None \<Rightarrow> BackingStorePhaseReady)"

lemma set_phase_run: "set_phase c p r m s =
    (Ok (), s\<lparr>br_BackingStore := bs_SetPhase (c_SetStatusCondition c) p r m (br_BackingStore s)\<rparr>)"
  by (simp add: set_phase_def)

lemma bs_UpdateStatus_run: "bs_UpdateStatus c s =
    ((case c_write c (hist s) (StatusUpdated (OBackingStore (br_BackingStore s))) of
        None \<Rightarrow> Ok () | Some e \<Rightarrow> Err (PlainError (c_ErrorText c e))),
     s\<lparr>hist := hist s @ [StatusUpdated (OBackingStore (br_BackingStore s))]\<rparr>)"
  by (simp add: bs_UpdateStatus_def update_status_def split: option.splits)

text \<open>The store as the completion leaves it: a status by the outcome, nothing else changed.\<close>

definition bs_completed :: "cluster \<Rightarrow> go_error option \<Rightarrow> BackingStore \<Rightarrow> BackingStore \<Rightarrow> bool" where
  "bs_completed c err bs bs' \<longleftrightarrow> (case err of
     Some (PersistentError reason msg) \<Rightarrow> bs' = bs_SetPhase (c_SetStatusCondition c) BackingStorePhaseRejected reason msg bs
   | Some e \<Rightarrow> bs' = bs_SetPhase (c_SetStatusCondition c) BackingStorePhaseNone ''TemporaryError'' (Error e) bs
   | None \<Rightarrow> bs' = bs \<and> bst_Phase (bs_Status bs) = bs_mode_phase bs \<or>
       (\<exists>reason msg. bs' = bs_SetPhase (c_SetStatusCondition c) (bs_mode_phase bs) reason msg bs))"

lemma bs_complete_phase_run:
  "\<exists>bs'. bs_complete_phase c err s = (Ok (), s\<lparr>br_BackingStore := bs'\<rparr>) \<and> bs_completed c err (br_BackingStore s) bs'"
proof (intro exI [of _ "br_BackingStore (snd (bs_complete_phase c err s))"] conjI)
  show "bs_complete_phase c err s = (Ok (), s\<lparr>br_BackingStore := br_BackingStore (snd (bs_complete_phase c err s))\<rparr>)"
    by (auto simp: bs_complete_phase_def Let_def set_phase_run whenp_def split: option.splits go_error.splits)
  show "bs_completed c err (br_BackingStore s) (br_BackingStore (snd (bs_complete_phase c err s)))"
    by (auto simp: bs_complete_phase_def Let_def set_phase_run whenp_def bs_completed_def bs_mode_phase_def
        split: option.splits go_error.splits)
qed

lemma bs_completed_phase:
  assumes "bs_completed c err bs bs'"
  shows "bst_Phase (bs_Status bs') = (case err of
       Some (PersistentError _ _) \<Rightarrow> BackingStorePhaseRejected | Some _ \<Rightarrow> bst_Phase (bs_Status bs) | None \<Rightarrow> bs_mode_phase bs)"
    "bs_Meta bs' = bs_Meta bs"
proof -
  have "bs_mode_phase bs \<noteq> BackingStorePhaseNone"
    by (auto simp: bs_mode_phase_def bs_modeInfoMap_def split: option.splits if_splits)
  then show "bst_Phase (bs_Status bs') = (case err of
       Some (PersistentError _ _) \<Rightarrow> BackingStorePhaseRejected | Some _ \<Rightarrow> bst_Phase (bs_Status bs) | None \<Rightarrow> bs_mode_phase bs)"
    using assms by (auto simp: bs_completed_def bs_phased.phase_SetPhase split: option.splits go_error.splits)
  show "bs_Meta bs' = bs_Meta bs"
    using assms by (auto simp: bs_completed_def bs_phased.meta_SetPhase split: option.splits go_error.splits)
qed

lemma bs_completeReconcile_run:
  obtains d bs' where
    "bs_completeReconcile c err s = (Ok d, s\<lparr>br_BackingStore := bs', hist := hist s @ [StatusUpdated (OBackingStore bs')]\<rparr>)"
    "bs_completed c err (br_BackingStore s) bs'"
    "d = (if c_write c (hist s) (StatusUpdated (OBackingStore bs')) \<noteq> None then 3
          else case err of None \<Rightarrow> 0 | Some e \<Rightarrow> if IsPersistentError e then 0 else 3)"
proof -
  obtain bs' where "bs_complete_phase c err s = (Ok (), s\<lparr>br_BackingStore := bs'\<rparr>)"
    and completed: "bs_completed c err (br_BackingStore s) bs'"
    using bs_complete_phase_run by blast
  then have "\<exists>d. bs_completeReconcile c err s = (Ok d, s\<lparr>br_BackingStore := bs', hist := hist s @ [StatusUpdated (OBackingStore bs')]\<rparr>) \<and>
     d = (if c_write c (hist s) (StatusUpdated (OBackingStore bs')) \<noteq> None then 3
          else case err of None \<Rightarrow> 0 | Some e \<Rightarrow> if IsPersistentError e then 0 else 3)"
    by (cases "c_write c (hist s) (StatusUpdated (OBackingStore bs'))")
      (auto simp: bs_completeReconcile_def bs_UpdateStatus_run tryp_def bindp_def split: option.splits)
  then show ?thesis using completed that by blast
qed


definition ex_pod :: Pod where
  "ex_pod = \<lparr>pod_Meta = ex_meta ''agent'', pod_Containers = [\<lparr>ct_Image = ''core'', ct_Env = [],
       ct_Resources = \<lparr>rr_Requests = Map.empty, rr_Limits = Map.empty\<rparr>\<rparr>],
     pod_Volumes = [\<lparr>pvol_Name = ''logs'', pvol_Source = EmptyDir\<rparr>, \<lparr>pvol_Name = ''storage'', pvol_Source = ClaimVolume ''claim''\<rparr>],
     pod_AutomountServiceAccountToken = Some False, pod_ImagePullSecrets = [], pod_ServiceAccountName = ''noobaa-core'',
     pod_Tolerations = [], pod_Affinity = None, pod_PriorityClassName = '''', pod_SpreadLabels = []\<rparr>"

definition ex_pvc :: PVC where
  "ex_pvc = \<lparr>pvc_Meta = ex_meta ''claim'', pvc_StorageClassName = None, pvc_Requests = Map.empty\<rparr>"

definition ex_bs_state :: "BackingStore \<Rightarrow> bs_state" where
  "ex_bs_state bs = \<lparr>hist = [], br_BackingStore = bs, br_NooBaa = ex_system, br_Secret = ex_secret_of ''noobaa'' ''creds'',
     br_StringDataNil = False, br_PodAgentTemplate = ex_pod, br_PvcAgentTemplate = ex_pvc, br_CoreAppConfig = Map.empty,
     br_SystemInfo = None, br_ExternalConnectionInfo = None, br_PoolInfo = None, br_HostsInfo = None,
     br_AddExternalConnectionParams = None, br_CreateCloudPoolParams = None, br_CreateHostsPoolParams = None,
     br_UpdateHostsPoolParams = None, br_UpdateExternalConnectionParams = None\<rparr>"


section \<open>Nothing is done for an invalid store\<close>

text \<open>Validation reads the metadata and the specification only.\<close>

lemma ValidateBackingStore_status: "ValidateBackingStore q (bs\<lparr>bs_Status := st\<rparr>) = ValidateBackingStore q bs"
  by (simp add: ValidateBackingStore_def bs_checks pvpool_checks ValidatePvpoolResources_def ValidateAWSSTSARN_def
      ValidateAzureSTSCredentials_def IsAWSSTSClusterBS_def IsAzureSTSClusterBS_def Let_def
      cong: StoreType.case_cong option.case_cong if_cong)

lemma bs_SetPhase_status: "\<exists>st. bs_SetPhase setc p r m bs = bs\<lparr>bs_Status := st\<rparr>"
  by (auto simp: bs_SetPhase_def Let_def)

lemma bs_SetPhase_validation:
  "ValidateBackingStore q (bs_SetPhase setc p r m bs) = ValidateBackingStore q bs"
  using bs_SetPhase_status [of setc p r m bs] by (auto simp: ValidateBackingStore_status)

lemma verifying_invalid:
  assumes "ValidateBackingStore (c_QuantityString c) (br_BackingStore s) \<noteq> pass"
  obtains a b bs' where "bs_ReconcilePhases c s = (Err (PersistentError a b), s\<lparr>br_BackingStore := bs'\<rparr>)"
proof -
  let ?bs = "bs_SetPhase (c_SetStatusCondition c) BackingStorePhaseVerifying ''BackingStorePhaseVerifying''
    ''noobaa operator started phase 1/3 - \"Verifying\"'' (br_BackingStore s)"
  obtain e where e: "ValidateBackingStore (c_QuantityString c) ?bs = Err e"
    using assms ValidateBackingStore_vcheck [of "c_QuantityString c" "br_BackingStore s"]
    by (cases "ValidateBackingStore (c_QuantityString c) (br_BackingStore s)") (auto simp: bs_SetPhase_validation)
  then have "bs_ReconcilePhaseVerifying c s = (Err (PersistentError ''BackingStoreValidationError'' (Error e)), s\<lparr>br_BackingStore := ?bs\<rparr>)"
    by (simp add: bs_ReconcilePhaseVerifying_def set_phase_run)
  then have "bs_ReconcilePhases c s = (Err (PersistentError ''BackingStoreValidationError'' (Error e)), s\<lparr>br_BackingStore := ?bs\<rparr>)"
    by (simp add: bs_ReconcilePhases_def)
  then show ?thesis by (rule that)
qed

text \<open>
  A backing store that fails validation never reaches the core: the phases stop before any access, and the reconcile
  that started them completes with one status update that rejects the store and shows it as degraded.
\<close>

theorem invalid_backing_store_rejected:
  assumes "status_condition_laws (c_SetStatusCondition c)"
    and "ValidateBackingStore (c_QuantityString c) (br_BackingStore s) \<noteq> pass"
  shows "\<exists>d s'. then_complete c (bs_ReconcilePhases c) s = (Ok d, s') \<and>
     hist s' = hist s @ [StatusUpdated (OBackingStore (br_BackingStore s'))] \<and>
     bs_phase_of s' = BackingStorePhaseRejected \<and> status_of ConditionDegraded (bs_conditions_of s') = Some ConditionTrue"
proof -
  obtain a b bs1 where run: "bs_ReconcilePhases c s = (Err (PersistentError a b), s\<lparr>br_BackingStore := bs1\<rparr>)"
    using assms(2) by (rule verifying_invalid)
  obtain d bs' where complete: "bs_completeReconcile c (Some (PersistentError a b)) (s\<lparr>br_BackingStore := bs1\<rparr>) =
      (Ok d, s\<lparr>br_BackingStore := bs1, br_BackingStore := bs', hist := hist s @ [StatusUpdated (OBackingStore bs')]\<rparr>)"
    "bs_completed c (Some (PersistentError a b)) bs1 bs'"
    by (rule bs_completeReconcile_run [where s = "s\<lparr>br_BackingStore := bs1\<rparr>" and c = c and err = "Some (PersistentError a b)"]) simp
  from complete(2) have "bst_Phase (bs_Status bs') = BackingStorePhaseRejected"
    "status_of ConditionDegraded (bst_Conditions (bs_Status bs')) = Some ConditionTrue"
    using bs_phased.rejection [OF assms(1)] by (auto simp: bs_completed_def)
  with run complete(1) show ?thesis by (simp add: then_complete_def)
qed

theorem invalid_backing_store_rejected_witness:
  "\<exists>d s'. then_complete ex_cluster (bs_ReconcilePhases ex_cluster) (ex_bs_state (ex_aws_bs '''')) = (Ok d, s') \<and>
     bs_phase_of s' = BackingStorePhaseRejected"
proof -
  have "ValidateBackingStore (c_QuantityString ex_cluster) (br_BackingStore (ex_bs_state (ex_aws_bs ''''))) \<noteq> pass"
    by (simp add: ex_bs_state_def ex_objects ValidateBackingStore_def ValidateBSEmptyTargetBucket_def first_err_eq_pass)
  from invalid_backing_store_rejected [OF ex_cluster_laws this] show ?thesis by blast
qed

section \<open>Deletion\<close>

text \<open>What reading the system leaves alone once the answer of the core is stored.\<close>

definition bs_read_frame :: "SystemInfo option \<Rightarrow> PoolInfo option \<Rightarrow> ObjectMeta \<Rightarrow> StoreType \<Rightarrow> bs_state \<Rightarrow> bool" where
  "bs_read_frame si pool m t s \<longleftrightarrow> br_SystemInfo s = si \<and> br_PoolInfo s = pool \<and>
     bs_Meta (br_BackingStore s) = m \<and> bs_Type (br_BackingStore s) = t"

lemma hist_free_read_frame [simp, intro]: "hist_free (bs_read_frame si pool m t)"
  by (rule hist_freeI) (simp add: bs_read_frame_def)

lemma rewrite_endpoint_frame [simp]:
  "bs_Meta (rewrite_endpoint bs) = bs_Meta bs" "bs_Type (rewrite_endpoint bs) = bs_Type bs"
  by (auto simp: rewrite_endpoint_def Let_def split: StoreType.splits)

lemma keeps_read_frame_modify:
  "(\<And>s. bs_read_frame si pool m t s \<Longrightarrow> bs_read_frame si pool m t (f s)) \<Longrightarrow> keeps (bs_read_frame si pool m t) (modify f)"
  by (rule keeps_modify)

lemma keeps_set_secret_data: "keeps (bs_read_frame si pool m t) (set_secret_data k v)"
  unfolding set_secret_data_def by (intro keep_rules) (simp add: bs_read_frame_def)

lemma keeps_read_pools:
  "keeps (bs_read_frame si pool m t) (read_hosts_pool c p)"
  "keeps (bs_read_frame si pool m t) (read_cloud_pool c si' p)"
  unfolding read_hosts_pool_def read_cloud_pool_def Let_def bs_MakeExternalConnectionParams_def bs_fixAlternateKeysNames_def
    fix_key_def
  by (intro keep_rules keeps_set_secret_data hist_free_read_frame; simp add: bs_read_frame_def)+

lemma emits_set_secret_data [emit_rules]: "emits E (set_secret_data k v)"
  unfolding set_secret_data_def by (intro emit_rules) simp

lemma emits_read_pools [emit_rules]:
  "(\<And>n. E (Called (ListHostsAPI n))) \<Longrightarrow> emits E (read_hosts_pool c p)"
  "emits E (read_cloud_pool c si' p)"
  unfolding read_hosts_pool_def read_cloud_pool_def Let_def bs_MakeExternalConnectionParams_def bs_fixAlternateKeysNames_def
    fix_key_def
  by (intro emit_rules; simp)+

lemma bs_ReadSystemInfo_run:
  assumes run: "bs_ReadSystemInfo c s = (r, s')" and ok: "r = Ok () \<or> (\<exists>e. r = Err e \<and> IsPersistentError e)"
  obtains h1 si where "prefix (hist s) h1" "prefix (h1 @ [Called ReadSystemAPI]) (hist s')" "c_ReadSystem c h1 = Inr si"
    "bs_read_frame (Some si) (case first_with pi_Name (bs_Name (br_BackingStore s)) (si_Pools si) of
        Some p \<Rightarrow> Some p | None \<Rightarrow> br_PoolInfo s) (bs_Meta (br_BackingStore s)) (bs_Type (br_BackingStore s)) s'"
proof -
  obtain rc s1 where conn0: "Connect c s = (rc, s1)" by (cases "Connect c s")
  define h where "h = hist s1"
  from Connect_only_hist [OF conn0] have conn: "Connect c s = (rc, s\<lparr>hist := h\<rparr>)" and h: "prefix (hist s) h"
    using conn0 by (simp_all add: h_def)
  have rc: "rc = Ok ()"
  proof (cases rc)
    case (Err e)
    with conn run have "r = Err e" by (simp add: bs_ReadSystemInfo_def)
    with ok raisesD [OF raises_Connect, of c s e] conn Err show ?thesis by simp
  next
    case Panic
    with conn run ok show ?thesis by (simp add: bs_ReadSystemInfo_def)
  qed simp
  obtain si where si: "c_ReadSystem c h = Inr si"
  proof (cases "c_ReadSystem c h")
    case (Inl e)
    with run ok conn rc show ?thesis by (auto simp: query_def reply_def bs_ReadSystemInfo_def)
  qed
  let ?pool = "case first_with pi_Name (bs_Name (br_BackingStore s)) (si_Pools si) of Some p \<Rightarrow> Some p | None \<Rightarrow> br_PoolInfo s"
  let ?s2 = "s\<lparr>hist := h @ [Called ReadSystemAPI], br_SystemInfo := Some si, br_PoolInfo := ?pool\<rparr>"
  let ?frame = "bs_read_frame (Some si) ?pool (bs_Meta (br_BackingStore s)) (bs_Type (br_BackingStore s))"
  let ?m = "if bs_Type (br_BackingStore s) = StoreTypePVPool then read_hosts_pool c ?pool else read_cloud_pool c si ?pool"
  have last: "?m ?s2 = (r, s')"
    using run conn rc si by (simp add: bs_ReadSystemInfo_def query_def reply_def cong: option.case_cong)
  have "keeps ?frame ?m" by (intro keeps_if keeps_read_pools)
  moreover have "?frame ?s2" by (simp add: bs_read_frame_def)
  ultimately have frame: "?frame s'" using last by (rule keepsD)
  have "emits (\<lambda>_. True) ?m" by (intro emits_if emits_read_pools) simp
  from emits_grows [OF this last] have "prefix (h @ [Called ReadSystemAPI]) (hist s')" by simp
  then show ?thesis using that h si frame by blast
qed

lemma delete_pool_made: "delete_pool c n s = (Ok (), s') \<Longrightarrow>
    c_call c (hist s) (DeletePoolAPI n) = None \<and> s' = s\<lparr>hist := hist s @ [Called (DeletePoolAPI n)]\<rparr>"
  by (auto simp: delete_pool_def split: option.splits if_splits)

lemma rehome_accounts_grows:
  assumes "rehome_accounts c si n s = (r, s')"
  shows "prefix (hist s) (hist s')"
  using emits_grows [OF emits_deletion_steps(1) [of "\<lambda>_. True"] assms] by simp

text \<open>
  What the core has done before a store is let go: it has told which pools and accounts it has, and if it has the pool of
  the store, it has accepted another default resource for every account of the pool and then the deletion of the pool.
\<close>

definition core_released :: "cluster \<Rightarrow> string \<Rightarrow> history \<Rightarrow> bool" where
  "core_released c n h \<longleftrightarrow> (\<exists>h1 si. prefix (h1 @ [Called ReadSystemAPI]) h \<and> c_ReadSystem c h1 = Inr si \<and>
     (n \<in> pi_Name ` set (si_Pools si) \<longrightarrow>
       (\<exists>h2. prefix (h1 @ [Called ReadSystemAPI]) h2 \<and> prefix (h2 @ [Called (DeletePoolAPI n)]) h \<and>
          c_call c h2 (DeletePoolAPI n) = None \<and>
          (\<forall>a \<in> set (si_Accounts si). ai_DefaultResource a = n \<longrightarrow> made c h2 (rehome (internal_pool_name si) a)))))"

lemma core_released_prefix: "core_released c n h \<Longrightarrow> prefix h h' \<Longrightarrow> core_released c n h'"
  unfolding core_released_def by (meson prefix_order.trans)

lemma read_for_deletion_run:
  assumes "read_for_deletion c s = (Ok (), s')"
  obtains r where "bs_ReadSystemInfo c s = (r, s')" "r = Ok () \<or> (\<exists>e. r = Err e \<and> IsPersistentError e)"
  using assms unfolding read_for_deletion_def
  by (cases "bs_ReadSystemInfo c s"; cases "fst (bs_ReadSystemInfo c s)") (auto split: if_splits)

lemma release_frame:
  assumes "release_pool c s = (Ok (), s1)" "release_connection c s1 = (Ok (), s')"
  shows "bs_Meta (br_BackingStore s') = bs_Meta (br_BackingStore s)" "prefix (hist s) (hist s1)" "prefix (hist s1) (hist s')"
proof -
  have "keeps (\<lambda>x. bs_Meta (br_BackingStore x) = m) (release_pool c)"
    "keeps (\<lambda>x. bs_Meta (br_BackingStore x) = m) (release_connection c)" for m
    unfolding release_pool_def release_connection_def delete_pool_def by (intro keep_rules hist_freeI; simp)+
  from keepsD [OF this(1) refl assms(1)] keepsD [OF this(2) _ assms(2)]
  show "bs_Meta (br_BackingStore s') = bs_Meta (br_BackingStore s)" by simp
  have "emits (\<lambda>_. True) (release_pool c)" "emits (\<lambda>_. True) (release_connection c)"
    unfolding release_pool_def release_connection_def delete_pool_def by (intro emit_rules; simp)+
  then show "prefix (hist s) (hist s1)" "prefix (hist s1) (hist s')" using assms by (blast intro: emits_grows)+
qed

lemma release_pool_run:
  assumes "release_pool c s = (Ok (), s')" "br_SystemInfo s = Some si" "br_PoolInfo s = Some p"
  obtains h2 where "prefix (hist s) h2" "hist s' = h2 @ [Called (DeletePoolAPI (pi_Name p))]"
    "c_call c h2 (DeletePoolAPI (pi_Name p)) = None"
    "\<And>a. a \<in> set (si_Accounts si) \<Longrightarrow> ai_DefaultResource a = pi_Name p \<Longrightarrow> made c h2 (rehome (internal_pool_name si) a)"
proof -
  from assms have "seqp (rehome_accounts c si (pi_Name p)) (delete_pool c (pi_Name p)) s = (Ok (), s')"
    by (simp add: release_pool_def)
  then obtain s1 where re: "rehome_accounts c si (pi_Name p) s = (Ok (), s1)" and del: "delete_pool c (pi_Name p) s1 = (Ok (), s')"
    by (elim seqp_OkE) simp
  show ?thesis
    using that [of "hist s1"] rehome_accounts_grows [OF re] rehome_accounts_made [OF re] delete_pool_made [OF del] by simp
qed

lemma finalizeCore_released:
  assumes "finalizeCore c s = (Ok (), s')"
  shows "core_released c (bs_Name (br_BackingStore s)) (hist s')" "bs_Meta (br_BackingStore s') = bs_Meta (br_BackingStore s)"
proof -
  from assms [unfolded finalizeCore_def] obtain s1 s2
    where read: "read_for_deletion c s = (Ok (), s1)" and pool: "release_pool c s1 = (Ok (), s2)"
      and conn: "release_connection c s2 = (Ok (), s')"
    by (auto elim!: seqp_OkE)
  let ?n = "bs_Name (br_BackingStore s)"
  obtain h1 si where h1: "prefix (h1 @ [Called ReadSystemAPI]) (hist s1)" "c_ReadSystem c h1 = Inr si"
    and frame: "bs_read_frame (Some si) (case first_with pi_Name ?n (si_Pools si) of
        Some p \<Rightarrow> Some p | None \<Rightarrow> br_PoolInfo s) (bs_Meta (br_BackingStore s)) (bs_Type (br_BackingStore s)) s1"
    using read_for_deletion_run [OF read] bs_ReadSystemInfo_run by metis
  note release = release_frame [OF pool conn]
  show "bs_Meta (br_BackingStore s') = bs_Meta (br_BackingStore s)"
    using release(1) frame by (simp add: bs_read_frame_def)
  show "core_released c ?n (hist s')"
  proof (cases "first_with pi_Name ?n (si_Pools si)")
    case None
    then have "?n \<notin> pi_Name ` set (si_Pools si)" by (simp add: first_with_None)
    then show ?thesis using h1 release(2,3) unfolding core_released_def by (meson prefix_order.trans)
  next
    case (Some p)
    then have p: "br_SystemInfo s1 = Some si" "br_PoolInfo s1 = Some p" "pi_Name p = ?n"
      using frame first_with_SomeD [OF Some] by (simp_all add: bs_read_frame_def)
    obtain h2 where h2: "prefix (hist s1) h2" "hist s2 = h2 @ [Called (DeletePoolAPI ?n)]" "c_call c h2 (DeletePoolAPI ?n) = None"
      "\<forall>a \<in> set (si_Accounts si). ai_DefaultResource a = ?n \<longrightarrow> made c h2 (rehome (internal_pool_name si) a)"
      using release_pool_run [OF pool p(1,2)] p(3) by metis
    have "prefix (h1 @ [Called ReadSystemAPI]) h2" using h1(1) h2(1) by (rule prefix_order.trans)
    moreover have last: "prefix (h2 @ [Called (DeletePoolAPI ?n)]) (hist s')" using release(3) h2(2) by simp
    moreover have "prefix (h1 @ [Called ReadSystemAPI]) (hist s')"
      using calculation(1) last prefix_order.trans prefixI by blast
    ultimately show ?thesis unfolding core_released_def using h1(2) h2(3,4) by blast
  qed
qed

lemma emits_deletePvPool [emit_rules]:
  "E Looked \<Longrightarrow> (\<And>n. E (DeletedAllPods n)) \<Longrightarrow> (\<And>n. E (DeletedAllPVCs n)) \<Longrightarrow> emits E (deletePvPool c)"
  unfolding deletePvPool_def by (intro emit_rules; simp)+

lemma keeps_deletePvPool [keep_rules]: "hist_free P \<Longrightarrow> keeps P (deletePvPool c)"
  unfolding deletePvPool_def by (intro keep_rules; assumption?)+

lemma emits_finalizeCore: "emits (\<lambda>_. True) (finalizeCore c)"
  unfolding finalizeCore_def read_for_deletion_def release_pool_def release_connection_def delete_pool_def bs_ReadSystemInfo_def
  by (intro emit_rules; simp)

lemma bs_FinalizeDeletion_run:
  assumes "bs_FinalizeDeletion c s = (Ok (), s')"
  obtains bs where "hist s' = hist s @ [Updated (OBackingStore bs)]" "c_write c (hist s) (Updated (OBackingStore bs)) = None"
    "bs_Name bs = bs_Name (br_BackingStore s)" "Finalizer \<notin> set (om_Finalizers (bs_Meta bs))"
proof -
  let ?bs = "br_BackingStore s\<lparr>bs_Meta := snd (RemoveFinalizer (bs_Meta (br_BackingStore s)) Finalizer)\<rparr>"
  from assms obtain b where "update (bs_client c) ?bs (s\<lparr>br_BackingStore := ?bs\<rparr>) = (Ok b, s')" "b"
    by (auto simp: bs_FinalizeDeletion_def Let_def elim!: bindp_OkE split: if_splits)
  then have "update (bs_client c) ?bs (s\<lparr>br_BackingStore := ?bs\<rparr>) = (Ok True, s')" by simp
  then have "c_write c (hist s) (Updated (OBackingStore ?bs)) = None" "hist s' = hist s @ [Updated (OBackingStore ?bs)]"
    unfolding bs_client_def update_accepted by simp_all
  then show ?thesis by (intro that [of ?bs]) (simp_all add: RemoveFinalizer_eq)
qed

text \<open>
  C1. A backing store is let go only when nothing depends on it any more: when the deletion of a store ends well, the last
  event is the accepted update that removes the finalizer, and before it, if the system is running, the core has been
  read, and if it has a pool of that name, it has accepted a new default resource for every account whose default is
  the pool, and after that the deletion of the pool.
\<close>

theorem backing_store_released_in_order:
  assumes "bs_ReconcileDeletion c systemFound s = (Ok (), s')"
  shows "\<exists>h bs. hist s' = h @ [Updated (OBackingStore bs)] \<and> c_write c h (Updated (OBackingStore bs)) = None \<and>
     Finalizer \<notin> set (om_Finalizers (bs_Meta bs)) \<and> bs_Name bs = bs_Name (br_BackingStore s) \<and> prefix (hist s) h \<and>
     (systemFound \<longrightarrow> core_released c (bs_Name bs) h)"
proof -
  from assms [unfolded bs_ReconcileDeletion_def] obtain s1 s2 s3 where
    status: "bs_mark_deleting c s = (Ok (), s1)" and core: "whenp systemFound (finalizeCore c) s1 = (Ok (), s2)"
    and pool: "release_volumes c s2 = (Ok (), s3)" and fin: "bs_FinalizeDeletion c s3 = (Ok (), s')"
    by (elim seqp_OkE) simp
  have s1: "bs_Meta (br_BackingStore s1) = bs_Meta (br_BackingStore s)" "prefix (hist s) (hist s1)"
    using status unfolding bs_mark_deleting_def
    by (auto simp: whenp_def set_phase_run bs_UpdateStatus_run bs_phased.meta_SetPhase split: if_splits option.splits)
  have s2: "bs_Meta (br_BackingStore s2) = bs_Meta (br_BackingStore s1) \<and> prefix (hist s1) (hist s2) \<and>
    (systemFound \<longrightarrow> core_released c (bs_Name (br_BackingStore s1)) (hist s2))"
  proof (cases systemFound)
    case True
    then have run: "finalizeCore c s1 = (Ok (), s2)" using core by simp
    show ?thesis using finalizeCore_released [OF run] emits_grows [OF emits_finalizeCore run] by blast
  next
    case False
    then show ?thesis using core by simp
  qed
  have "keeps (\<lambda>x. bs_Meta (br_BackingStore x) = bs_Meta (br_BackingStore s2)) (release_volumes c)"
    "emits (\<lambda>_. True) (release_volumes c)"
    unfolding release_volumes_def by (intro keep_rules emit_rules hist_freeI; simp)+
  from keepsD [OF this(1) refl pool] emits_grows [OF this(2) pool]
  have s3: "bs_Meta (br_BackingStore s3) = bs_Meta (br_BackingStore s2)" and grow: "prefix (hist s2) (hist s3)" by simp_all
  obtain bs where bs: "hist s' = hist s3 @ [Updated (OBackingStore bs)]" "c_write c (hist s3) (Updated (OBackingStore bs)) = None"
    "bs_Name bs = bs_Name (br_BackingStore s3)" "Finalizer \<notin> set (om_Finalizers (bs_Meta bs))"
    using bs_FinalizeDeletion_run [OF fin] .
  have name: "bs_Name bs = bs_Name (br_BackingStore s)" using bs(3) s3 s2 s1(1) by simp
  have "prefix (hist s) (hist s3)" using s1(2) s2 grow by (meson prefix_order.trans)
  moreover have "systemFound \<longrightarrow> core_released c (bs_Name bs) (hist s3)"
    using s2 core_released_prefix [OF _ grow] name s1(1) by simp
  ultimately show ?thesis using bs(1,2,4) name by blast
qed

definition ex_pool_info :: PoolInfo where
  "ex_pool_info = \<lparr>pi_Name = ''store'', pi_ResourceType = ''HOSTS'', pi_Mode = ''OPTIMAL'', pi_Undeletable = '''', pi_CloudInfo = None,
     pi_VolumeSize = None, pi_ConfiguredCount = Some 3\<rparr>"

definition ex_account :: AccountInfo where
  "ex_account = \<lparr>ai_Name = ''user'', ai_Email = ''user'', ai_HasS3Access = True, ai_CanCreateBuckets = True,
     ai_DefaultResource = ''store'', ai_NsfsAccountConfig = None, ai_Connections = []\<rparr>"

definition ex_pool_cluster :: cluster where
  "ex_pool_cluster = ex_cluster\<lparr>c_ReadSystem := (\<lambda>_. Inr (ex_info\<lparr>si_Pools := [ex_pool_info], si_Accounts := [ex_account]\<rparr>))\<rparr>"

lemma ex_pool_cluster_fields:
  "c_write ex_pool_cluster h ev = None" "c_call ex_pool_cluster h r = None" "c_ListHosts ex_pool_cluster h n = Inr []"
  "c_ReadSystem ex_pool_cluster h = Inr (ex_info\<lparr>si_Pools := [ex_pool_info], si_Accounts := [ex_account]\<rparr>)"
  "c_ListPods ex_pool_cluster h n = Inr []" "c_SetStatusCondition ex_pool_cluster = list_set_condition"
  by (simp_all add: ex_pool_cluster_def ex_cluster_def)

theorem backing_store_released_in_order_witness:
  "\<exists>s' h bs. bs_ReconcileDeletion ex_pool_cluster True (ex_bs_state (ex_pool_bs 3)) = (Ok (), s') \<and>
     hist s' = h @ [Updated (OBackingStore bs)] \<and> core_released ex_pool_cluster ''store'' h"
proof -
  let ?s = "ex_bs_state (ex_pool_bs 3)"
  have "fst (bs_ReconcileDeletion ex_pool_cluster True ?s) = Ok ()"
    by (simp add: bs_ReconcileDeletion_def bs_mark_deleting_def bs_UpdateStatus_run set_phase_run ex_bs_state_def ex_objects
        ex_pool_cluster_fields finalizeCore_def read_for_deletion_def bs_ReadSystemInfo_def
        Connect_ex [of "\<lambda>_. Inr (ex_info\<lparr>si_Pools := [ex_pool_info], si_Accounts := [ex_account]\<rparr>)", folded ex_pool_cluster_def]
        query_def reply_def read_hosts_pool_def bs_SetPhase_def ex_pool_info_def ex_account_def ex_info_def release_pool_def
        rehome_accounts_def call_run delete_pool_def release_connection_def release_volumes_def deletePvPool_def look_list_def
        KubeDeleteAllOf_def bs_FinalizeDeletion_def update_run bs_client_def KubeUpdate_def Let_def run_defs del: run_rules)
  then obtain s' where run: "bs_ReconcileDeletion ex_pool_cluster True ?s = (Ok (), s')"
    by (metis prod.collapse)
  have "bs_Name (br_BackingStore ?s) = ''store''" by (simp add: ex_bs_state_def ex_objects)
  with backing_store_released_in_order [OF run] run show ?thesis by metis
qed

section \<open>The external connection\<close>

abbreviation check_params :: "AddExternalConnectionParams \<Rightarrow> bool \<Rightarrow> CheckExternalConnectionParams" where
  "check_params conn ignore \<equiv> \<lparr>cec_Connection = conn, cec_IgnoreNameAlreadyExist = ignore\<rparr>"

text \<open>A check is one call and changes nothing else; it passes exactly when the core reports success.\<close>

lemma bs_CheckExternalConnection_run:
  "snd (bs_CheckExternalConnection c params s) = s\<lparr>hist := hist s @ [Called (CheckExternalConnectionAPI params)]\<rparr>"
  by (auto simp: bs_CheckExternalConnection_def query_def reply_def Let_def since_def bindp_def
      split: sum.splits ExternalConnectionStatus.splits)

lemma bs_CheckExternalConnection_ok:
  "fst (bs_CheckExternalConnection c params s) = Ok () \<longleftrightarrow>
     (\<exists>rep. c_CheckConnection c (hist s) params = Inr rep \<and> cer_Status rep = ExternalConnectionSuccess)"
  by (auto simp: bs_CheckExternalConnection_def query_def reply_def Let_def since_def bindp_def
      split: sum.splits ExternalConnectionStatus.splits if_splits)

text \<open>
  A failed connection check rejects a backing store for good only in the cases that cannot heal: the core reports a
  skewed clock or an unsupported service, or it reports invalid credentials or an invalid endpoint for a store that is
  at least five minutes old.  Every other failure, of the call or of the check, is temporary.
\<close>

theorem connection_rejected_only_when_final:
  "(\<exists>reason msg. fst (bs_CheckExternalConnection c params s) = Err (PersistentError reason msg)) \<longleftrightarrow>
     (\<exists>rep. c_CheckConnection c (hist s) params = Inr rep \<and>
        (cer_Status rep = ExternalConnectionTimeSkew \<or> cer_Status rep = ExternalConnectionNotSupported \<or>
         (cer_Status rep = ExternalConnectionInvalidCredentials \<or> cer_Status rep = ExternalConnectionInvalidEndpoint) \<and>
         minutes 5 \<le> c_Now c (hist s @ [Called (CheckExternalConnectionAPI params)])
           - om_CreationTimestamp (bs_Meta (br_BackingStore s))))"
  by (cases "c_CheckConnection c (hist s) params"; cases "cer_Status (projr (c_CheckConnection c (hist s) params))")
    (auto simp: bs_CheckExternalConnection_def query_def reply_def Let_def since_def bindp_def rpc_go_not_persistent)

lemma bs_ReconcileExternalConnection_events:
  fixes c s
  defines "s' \<equiv> snd (bs_ReconcileExternalConnection c s)"
  shows "hist s' = hist s \<or>
    (\<exists>conn ignore. br_ExternalConnectionInfo s = None \<and> br_AddExternalConnectionParams s = Some conn \<and>
       ignore = (br_UpdateExternalConnectionParams s \<noteq> None) \<and>
       (hist s' = hist s @ [Called (CheckExternalConnectionAPI (check_params conn ignore))] \<or>
        fst (bs_CheckExternalConnection c (check_params conn ignore) s) = Ok () \<and>
        hist s' = hist s @ [Called (CheckExternalConnectionAPI (check_params conn ignore)),
          Called (case br_UpdateExternalConnectionParams s of None \<Rightarrow> AddExternalConnectionAPI conn | Some u \<Rightarrow> UpdateExternalConnectionAPI u)]))"
proof (cases "br_ExternalConnectionInfo s = None \<and> br_AddExternalConnectionParams s \<noteq> None")
  case False
  then show ?thesis by (auto simp: s'_def bs_ReconcileExternalConnection_def)
next
  case True
  then obtain conn where conn: "br_AddExternalConnectionParams s = Some conn" by blast
  let ?ignore = "br_UpdateExternalConnectionParams s \<noteq> None"
  let ?check = "bs_CheckExternalConnection c (check_params conn ?ignore)"
  obtain r s1 where run: "?check s = (r, s1)" by (cases "?check s")
  have s1: "s1 = s\<lparr>hist := hist s @ [Called (CheckExternalConnectionAPI (check_params conn ?ignore))]\<rparr>"
    using bs_CheckExternalConnection_run [of c "check_params conn ?ignore" s] run by simp
  let ?final = "case br_UpdateExternalConnectionParams s of
      None \<Rightarrow> call c (AddExternalConnectionAPI conn)
    | Some u \<Rightarrow> seqp (call c (UpdateExternalConnectionAPI u)) (modify (\<lambda>s. s\<lparr>br_UpdateExternalConnectionParams := None\<rparr>))"
  have whole: "bs_ReconcileExternalConnection c s = seqp ?check ?final s"
    using True conn by (simp add: bs_ReconcileExternalConnection_def split: option.split)
  have final: "hist (snd (?final s1)) = hist s1 @ [Called (case br_UpdateExternalConnectionParams s of
      None \<Rightarrow> AddExternalConnectionAPI conn | Some u \<Rightarrow> UpdateExternalConnectionAPI u)]"
    by (cases "br_UpdateExternalConnectionParams s") (simp_all add: call_run seqp_def bindp_def split: option.split)
  show ?thesis
  proof (cases r)
    case (Ok x)
    then have "s' = snd (?final s1)" using whole run by (simp add: s'_def)
    then show ?thesis using True conn final s1 run Ok by simp
  qed (use whole run s1 True conn in \<open>simp_all add: s'_def\<close>)
qed

text \<open>
  A connection is added or changed in the core only after it was checked: a reconcile that adds a connection has, in
  the call just before, had exactly the same parameters checked with success, and it adds nothing when the core already
  has a matching connection.
\<close>

theorem connection_added_after_check:
  assumes "hist (snd (bs_ReconcileExternalConnection c s)) = hist s @ es"
    and "Called (AddExternalConnectionAPI conn) \<in> set es \<or> Called (UpdateExternalConnectionAPI u) \<in> set es"
  shows "\<exists>conn0 ignore rep. es = [Called (CheckExternalConnectionAPI (check_params conn0 ignore)),
       Called (if ignore then UpdateExternalConnectionAPI (the (br_UpdateExternalConnectionParams s)) else AddExternalConnectionAPI conn0)] \<and>
     c_CheckConnection c (hist s) (check_params conn0 ignore) = Inr rep \<and> cer_Status rep = ExternalConnectionSuccess \<and>
     br_ExternalConnectionInfo s = None \<and> br_AddExternalConnectionParams s = Some conn0"
proof -
  from bs_ReconcileExternalConnection_events [of c s] assms obtain conn0
    where info: "br_ExternalConnectionInfo s = None" "br_AddExternalConnectionParams s = Some conn0"
      and ok: "fst (bs_CheckExternalConnection c (check_params conn0 (br_UpdateExternalConnectionParams s \<noteq> None)) s) = Ok ()"
      and es: "es = [Called (CheckExternalConnectionAPI (check_params conn0 (br_UpdateExternalConnectionParams s \<noteq> None))),
          Called (case br_UpdateExternalConnectionParams s of None \<Rightarrow> AddExternalConnectionAPI conn0 | Some u \<Rightarrow> UpdateExternalConnectionAPI u)]"
    by (elim disjE exE conjE) auto
  from ok [unfolded bs_CheckExternalConnection_ok] info es show ?thesis
    by (cases "br_UpdateExternalConnectionParams s") (simp_all, blast+)
qed

theorem connection_added_after_check_witness:
  "let s = (ex_bs_state (ex_aws_bs ''b''))\<lparr>br_AddExternalConnectionParams := Some (new_connection ''store'')\<rparr>;
       es = [Called (CheckExternalConnectionAPI (check_params (new_connection ''store'') False)),
             Called (AddExternalConnectionAPI (new_connection ''store''))]
   in hist (snd (bs_ReconcileExternalConnection ex_cluster s)) = hist s @ es \<and>
      (\<exists>rep. c_CheckConnection ex_cluster (hist s) (check_params (new_connection ''store'') False) = Inr rep \<and>
         cer_Status rep = ExternalConnectionSuccess)"
proof -
  let ?s = "(ex_bs_state (ex_aws_bs ''b''))\<lparr>br_AddExternalConnectionParams := Some (new_connection ''store'')\<rparr>"
  let ?es = "[Called (CheckExternalConnectionAPI (check_params (new_connection ''store'') False)),
    Called (AddExternalConnectionAPI (new_connection ''store''))]"
  have run: "hist (snd (bs_ReconcileExternalConnection ex_cluster ?s)) = hist ?s @ ?es"
    by (simp add: bs_ReconcileExternalConnection_def ex_bs_state_def bs_CheckExternalConnection_def query_def reply_def
        ex_cluster_def Let_def call_run run_defs del: run_rules)
  from connection_added_after_check [OF run] run show ?thesis by (fastforce simp: Let_def)
qed

end
