(* ===== verification/Pool_Props.thy ===== *)
theory Pool_Props
  imports BS_Reconciler
begin

text \<open>
  Properties of the pool reconciliation: how many volumes are requested and of what size, and which agent pods are
  created with which resources.
\<close>

section \<open>Volumes\<close>

definition claim_of :: "cluster \<Rightarrow> bs_state \<Rightarrow> PVPoolSpec \<Rightarrow> PVC \<Rightarrow> bool" where
  "claim_of c s p pvc \<longleftrightarrow> pvc_Requests pvc ResourceStorage = Some (volume_size p) \<and>
     (pv_StorageClass p \<noteq> '''' \<longrightarrow> pvc_StorageClassName pvc = Some (pv_StorageClass p))"

lemma create_pvc_run:
  assumes run: "create_pvc c s = (Ok (), s')" and fresh: "\<And>h nspace n. c_PVC c h nspace n = Inl NotFoundError"
  obtains m where "s' = s\<lparr>hist := hist s @ [Created (OPVC (br_PvcAgentTemplate s\<lparr>pvc_Meta := m\<rparr>))]\<rparr>"
proof -
  from run obtain m r where "on_hist (KubeCreateSkipExisting (pvc_client c) (br_PvcAgentTemplate s\<lparr>pvc_Meta := m\<rparr>)) s = (Ok r, s')"
    by (auto simp: create_pvc_def Own_def own_def elim!: bindp_OkE split: option.splits)
  then have "s' = s\<lparr>hist := hist s @ [Created (OPVC (br_PvcAgentTemplate s\<lparr>pvc_Meta := m\<rparr>))]\<rparr>"
    by (auto simp: on_hist_def KubeCreateSkipExisting_def kubeCreateSkipOrFailExisting_def pvc_client_def fresh crd_missing_def
        split: option.splits if_splits)
  then show ?thesis by (rule that)
qed

lemma create_pvcs_run:
  assumes "forp (\<lambda>_. create_pvc c) xs s = (Ok (), s')" and fresh: "\<And>h nspace n. c_PVC c h nspace n = Inl NotFoundError"
  shows "\<exists>claims. hist s' = hist s @ map (\<lambda>q. Created (OPVC q)) claims \<and> length claims = length xs \<and>
    (\<forall>q \<in> set claims. \<exists>m. q = br_PvcAgentTemplate s\<lparr>pvc_Meta := m\<rparr>)"
  using assms(1)
proof (induction xs arbitrary: s)
  case (Cons x xs)
  from Cons.prems obtain s1 where first: "create_pvc c s = (Ok (), s1)" and rest: "forp (\<lambda>_. create_pvc c) xs s1 = (Ok (), s')"
    by (auto elim: seqp_OkE)
  obtain m where m: "s1 = s\<lparr>hist := hist s @ [Created (OPVC (br_PvcAgentTemplate s\<lparr>pvc_Meta := m\<rparr>))]\<rparr>"
    using create_pvc_run [OF first fresh] .
  from Cons.IH [OF rest] obtain claims where claims: "hist s' = hist s1 @ map (\<lambda>q. Created (OPVC q)) claims"
    "length claims = length xs" "\<forall>q \<in> set claims. \<exists>m. q = br_PvcAgentTemplate s1\<lparr>pvc_Meta := m\<rparr>"
    by blast
  show ?case
    using m claims by (intro exI [of _ "br_PvcAgentTemplate s\<lparr>pvc_Meta := m\<rparr> # claims"]) auto
qed simp



section \<open>Agent pods\<close>

lemma validateResources_within:
  "validateResourceRequestsVsLimits qs res = pass \<longleftrightarrow>
     (\<forall>n \<in> {ResourceCPU, ResourceMemory}. \<forall>req limit. rr_Requests res n = Some req \<longrightarrow> rr_Limits res n = Some limit \<longrightarrow> req \<le> limit)"
  by (auto simp: validateResourceRequestsVsLimits_def request_within_def split: option.splits prod.splits)

lemma override_list_lookup:
  "n \<in> {ResourceCPU, ResourceMemory} \<Longrightarrow> override_list dst src n = (case src n of Some q \<Rightarrow> Some q | None \<Rightarrow> dst n)"
  by (auto simp: override_list_def Let_def split: option.splits)

lemma validateResources_no_Panic: "validateResourceRequestsVsLimits qs res \<noteq> Panic"
  by (auto simp: validateResourceRequestsVsLimits_def request_within_def split: option.splits prod.splits)

text \<open>
  What a created agent pod looks like: it mounts a claim of the pool that no other pod mounts, it carries the label of the
  pool, runs the image of the system, and its requests are within its limits, with the values of the store where the
  store gives them.
\<close>

definition resources_ok :: "ResourceRequirements \<Rightarrow> bool" where
  "resources_ok res \<longleftrightarrow> (\<forall>n \<in> {ResourceCPU, ResourceMemory}. \<forall>req limit.
     rr_Requests res n = Some req \<longrightarrow> rr_Limits res n = Some limit \<longrightarrow> req \<le> limit)"

definition agent_pod :: "cluster \<Rightarrow> bs_state \<Rightarrow> string list \<Rightarrow> PVC list \<Rightarrow> Pod \<Rightarrow> bool" where
  "agent_pod c s claimed pvcs pod \<longleftrightarrow>
     (\<exists>pvc \<in> set pvcs. claim_name pod = Ok (om_Name (pvc_Meta pvc)) \<and> om_Name (pvc_Meta pvc) \<notin> set claimed) \<and>
     (\<exists>ct cts. pod_Containers pod = ct # cts \<and> ct_Image ct = nb_ActualImage (br_NooBaa s) \<and>
        ct_Resources ct = agent_resources c s \<and> resources_ok (ct_Resources ct))"

lemma create_pod_run:
  assumes run: "create_pod c pvc s = (Ok (), s')"
  obtains es where "s' = s\<lparr>hist := hist s @ es\<rparr>"
    "\<And>e. e \<in> set es \<Longrightarrow> \<exists>pod. e = Created (OPod pod) \<and> claim_name pod = Ok (om_Name (pvc_Meta pvc)) \<and>
       pod_Containers pod = pod_Containers (br_PodAgentTemplate s)"
proof -
  obtain m0 where "bindp (lift (set_claim_name (om_Name (pvc_Meta pvc)) (br_PodAgentTemplate s\<lparr>pod_Meta := m0\<rparr>))) (\<lambda>pod.
      bindp (Own c (pod_Meta pod)) (\<lambda>m'.
      bindp (on_hist (KubeCreateSkipExisting (pod_client c) (pod\<lparr>pod_Meta := m'\<rparr>))) (\<lambda>_. ret ()))) s = (Ok (), s')"
    using run unfolding create_pod_def Let_def by simp
  then obtain pod m1 r where
    pod: "set_claim_name (om_Name (pvc_Meta pvc)) (br_PodAgentTemplate s\<lparr>pod_Meta := m0\<rparr>) = Ok pod"
    and create: "on_hist (KubeCreateSkipExisting (pod_client c) (pod\<lparr>pod_Meta := m1\<rparr>)) s = (Ok r, s')"
    by (auto simp: Own_def own_def elim!: bindp_OkE split: option.splits)
  from pod have "claim_name (pod\<lparr>pod_Meta := m\<rparr>) = Ok (om_Name (pvc_Meta pvc))"
    "pod_Containers (pod\<lparr>pod_Meta := m\<rparr>) = pod_Containers (br_PodAgentTemplate s)" for m
    by (auto simp: set_claim_name_def claim_name_def split: list.splits VolumeSource.splits)
  moreover have emit: "emits (\<lambda>e. e = Created (OPod (pod\<lparr>pod_Meta := m1\<rparr>)))
      (on_hist (KubeCreateSkipExisting (pod_client c) (pod\<lparr>pod_Meta := m1\<rparr>)) :: bool bs_proc)"
    by (rule emit_rules) simp
  obtain es where "hist s' = hist s @ es" "list_all (\<lambda>e. e = Created (OPod (pod\<lparr>pod_Meta := m1\<rparr>))) es"
    using emitsD [OF emit create] .
  moreover have "s' = s\<lparr>hist := hist s'\<rparr>" using create by (auto simp: on_hist_def split: prod.splits)
  ultimately show ?thesis by (intro that [of es]) (auto simp: list_all_iff)
qed

lemma create_pods_run:
  assumes "forp (\<lambda>pvc. whenp (Q pvc) (create_pod c pvc)) pvcs s = (Ok (), s')"
  shows "\<exists>es. hist s' = hist s @ es \<and> (\<forall>e \<in> set es. \<exists>pod. e = Created (OPod pod) \<and>
     (\<exists>pvc \<in> set pvcs. Q pvc \<and> claim_name pod = Ok (om_Name (pvc_Meta pvc))) \<and>
     pod_Containers pod = pod_Containers (br_PodAgentTemplate s))"
  using assms
proof (induction pvcs arbitrary: s)
  case (Cons pvc pvcs)
  from Cons.prems obtain s1 where first: "whenp (Q pvc) (create_pod c pvc) s = (Ok (), s1)"
    and rest: "forp (\<lambda>pvc. whenp (Q pvc) (create_pod c pvc)) pvcs s1 = (Ok (), s')"
    by (auto elim: seqp_OkE)
  obtain es1 where es1: "s1 = s\<lparr>hist := hist s @ es1\<rparr>" "\<forall>e \<in> set es1. Q pvc \<and> (\<exists>pod. e = Created (OPod pod) \<and>
      claim_name pod = Ok (om_Name (pvc_Meta pvc)) \<and> pod_Containers pod = pod_Containers (br_PodAgentTemplate s))"
  proof (cases "Q pvc")
    case True
    then show ?thesis using create_pod_run [of c pvc s s1] first that by (metis whenp_simps(1))
  next
    case False
    then show ?thesis using first that [of "[]"] by simp
  qed
  from Cons.IH [OF rest] obtain es where es: "hist s' = hist s1 @ es" "\<forall>e \<in> set es. \<exists>pod. e = Created (OPod pod) \<and>
     (\<exists>pvc \<in> set pvcs. Q pvc \<and> claim_name pod = Ok (om_Name (pvc_Meta pvc))) \<and>
     pod_Containers pod = pod_Containers (br_PodAgentTemplate s)"
    using es1(1) by auto
  show ?case
  proof (intro exI [of _ "es1 @ es"] conjI ballI)
    show "hist s' = hist s @ es1 @ es" using es1(1) es(1) by simp
    fix e assume "e \<in> set (es1 @ es)"
    then consider "e \<in> set es1" | "e \<in> set es" by auto
    then show "\<exists>pod. e = Created (OPod pod) \<and>
       (\<exists>pvc \<in> set (pvc # pvcs). Q pvc \<and> claim_name pod = Ok (om_Name (pvc_Meta pvc))) \<and>
       pod_Containers pod = pod_Containers (br_PodAgentTemplate s)"
      by cases (use es1(2) es(2) in \<open>fastforce+\<close>)
  qed
qed simp

lemma updatePodTemplate_run:
  assumes "updatePodTemplate c s = (Ok (), s1)"
  shows "hist s1 = hist s" "\<exists>ct cts. pod_Containers (br_PodAgentTemplate s1) = ct # cts \<and> ct_Image ct = nb_ActualImage (br_NooBaa s) \<and>
     ct_Resources ct = agent_resources c s \<and> resources_ok (ct_Resources ct)"
proof -
  obtain ct cts spread where ct: "pod_Containers (br_PodAgentTemplate s) = ct # cts" "c_NodeInclusionPolicy c = Some spread"
    using assms by (auto simp: updatePodTemplate_def elim!: bindp_OkE split: list.splits)
  let ?s0 = "s\<lparr>br_PodAgentTemplate := pod_template c s spread ct cts\<rparr>"
  let ?res = "agent_resources c s"
  let ?s1 = "?s0\<lparr>br_PodAgentTemplate := set_resources ?res (pod_template c s spread ct cts)\<rparr>"
  have res: "agent_resources c ?s0 = ?res" by (simp add: agent_resources_def Let_def cong: option.case_cong)
  have run: "updatePodResourcesTemplate c ?s0 = (Ok (), s1)"
    using assms ct by (simp add: updatePodTemplate_def)
  have valid: "validateResourceRequestsVsLimits (c_QuantityString c) ?res = pass" and s1: "s1 = ?s1"
    using run unfolding updatePodResourcesTemplate_def
    by (auto simp: res validateResources_no_Panic split: result.splits)
  show "hist s1 = hist s" by (simp add: s1)
  show "\<exists>ct cts. pod_Containers (br_PodAgentTemplate s1) = ct # cts \<and> ct_Image ct = nb_ActualImage (br_NooBaa s) \<and>
     ct_Resources ct = agent_resources c s \<and> resources_ok (ct_Resources ct)"
    using valid by (simp add: s1 set_resources_def pod_template_def Let_def validateResources_within resources_ok_def)
qed

lemma updatePodTemplate_Err:
  assumes "updatePodTemplate c s = (Err e, s1)"
  shows "\<exists>msg. e = PersistentError ''InvalidResources'' msg" "\<not> resources_ok (agent_resources c s)" "hist s1 = hist s"
proof -
  obtain ct cts spread where ct: "pod_Containers (br_PodAgentTemplate s) = ct # cts" "c_NodeInclusionPolicy c = Some spread"
    using assms by (cases "pod_Containers (br_PodAgentTemplate s)"; cases "c_NodeInclusionPolicy c")
      (simp_all add: updatePodTemplate_def)
  let ?s0 = "s\<lparr>br_PodAgentTemplate := pod_template c s spread ct cts\<rparr>"
  let ?valid = "validateResourceRequestsVsLimits (c_QuantityString c) (agent_resources c s)"
  have res: "agent_resources c ?s0 = agent_resources c s" by (simp add: agent_resources_def Let_def cong: option.case_cong)
  have run: "updatePodResourcesTemplate c ?s0 = (Err e, s1)"
    using assms ct by (simp add: updatePodTemplate_def)
  have v: "?valid \<noteq> pass" and "hist s1 = hist s" and "\<exists>msg. e = PersistentError ''InvalidResources'' msg"
    using run unfolding updatePodResourcesTemplate_def by (auto simp: res split: result.splits)
  then show "hist s1 = hist s" "\<exists>msg. e = PersistentError ''InvalidResources'' msg" by blast+
  show "\<not> resources_ok (agent_resources c s)" using v by (simp add: validateResources_within resources_ok_def)
qed

lemma claim_names_no_Err: "claim_names pods \<noteq> Err e"
  by (induction pods) (auto simp: claim_name_def bind_r_eq_Err split: list.splits VolumeSource.splits)

lemma raises_create_pod: "raises Q (create_pod c pvc)"
proof -
  have "raises Q (on_hist (KubeCreateSkipExisting (pod_client c) pod) :: bool bs_proc)" for pod
    by (auto simp: raises_def on_hist_def KubeCreateSkipExisting_def kubeCreateSkipOrFailExisting_def pod_client_def Let_def
        split: option.splits sum.splits if_splits)
  then show ?thesis
    unfolding create_pod_def Own_def Let_def
    by (intro raise_rules) (auto simp: set_claim_name_def split: list.splits VolumeSource.splits)
qed

text \<open>
  C9. Agent pods are created only for claims of the pool that no pod mounts yet, they run the image of the system, and
  their CPU and memory requests never exceed the limits, whatever overrides the store gives: overrides that would
  violate this are a persistent error and no pod is created.
\<close>

theorem agent_pods_created:
  assumes run: "reconcileMissingPods c pods pvcs s = (r, s')"
  shows "(\<exists>claimed es. r = Ok () \<and> claim_names pods = Ok claimed \<and> hist s' = hist s @ es \<and>
       (\<forall>e \<in> set es. \<exists>pod. e = Created (OPod pod) \<and> agent_pod c s claimed pvcs pod)) \<or>
     (\<exists>msg. r = Err (PersistentError ''InvalidResources'' msg) \<and> \<not> resources_ok (agent_resources c s) \<and> hist s' = hist s) \<or>
     r = Panic"
proof (cases "claim_names pods")
  case (Ok claimed)
  let ?loop = "forp (\<lambda>pvc. whenp (\<not> Contains claimed (om_Name (pvc_Meta pvc))) (create_pod c pvc)) pvcs"
  have run1: "seqp (updatePodTemplate c) ?loop s = (r, s')" using run Ok by (simp add: reconcileMissingPods_def)
  obtain r1 s1 where tmpl: "updatePodTemplate c s = (r1, s1)" by (cases "updatePodTemplate c s")
  show ?thesis
  proof (cases r1)
    case (Ok x)
    then have tmpl1: "updatePodTemplate c s = (Ok (), s1)" using tmpl by simp
    note s1 = updatePodTemplate_run [OF tmpl1]
    have loop: "?loop s1 = (r, s')" using run1 tmpl1 by simp
    have "raises (\<lambda>_. False) ?loop" by (intro raise_rules raises_create_pod)
    then have "r = Ok () \<or> r = Panic" using raisesD [of "\<lambda>_. False"] loop by (cases r) auto
    then show ?thesis
    proof
      assume r: "r = Ok ()"
      from create_pods_run [OF loop [unfolded r]] obtain es where es: "hist s' = hist s1 @ es"
        "\<forall>e \<in> set es. \<exists>pod. e = Created (OPod pod) \<and>
           (\<exists>pvc \<in> set pvcs. \<not> Contains claimed (om_Name (pvc_Meta pvc)) \<and> claim_name pod = Ok (om_Name (pvc_Meta pvc))) \<and>
           pod_Containers pod = pod_Containers (br_PodAgentTemplate s1)" by blast
      have "\<forall>e \<in> set es. \<exists>pod. e = Created (OPod pod) \<and> agent_pod c s claimed pvcs pod"
        using es(2) s1(2) unfolding agent_pod_def Contains_iff by metis
      then show ?thesis using r es(1) s1(1) \<open>claim_names pods = Ok claimed\<close> by auto
    qed simp
  next
    case (Err e)
    with updatePodTemplate_Err [of c s e s1] tmpl run1 show ?thesis by auto
  next
    case Panic
    with tmpl run1 show ?thesis by simp
  qed
next
  case (Err e)
  then show ?thesis using claim_names_no_Err by blast
next
  case Panic
  then show ?thesis using run by (simp add: reconcileMissingPods_def)
qed

theorem agent_pods_created_witness:
  "\<exists>s' e. reconcileMissingPods ex_cluster [] [ex_pvc] (ex_bs_state (ex_pool_bs 3)) = (Ok (), s') \<and> hist s' = [e] \<and>
     (\<exists>pod. e = Created (OPod pod) \<and> agent_pod ex_cluster (ex_bs_state (ex_pool_bs 3)) [] [ex_pvc] pod)"
proof -
  let ?s = "ex_bs_state (ex_pool_bs 3)"
  have valid: "validateResourceRequestsVsLimits show_int (GetPVPoolResources False ''amd64'' ex_system) = pass"
    by (simp add: GetPVPoolResources_def lookupProfile_def performanceProfiles_def profile_table_def default_profile_def ibmZCpuArch_def
        ex_system_def ex_nb_def profileResources_def validateResourceRequestsVsLimits_def request_within_def of_milli_def Gi_def Mi_def
        of_units_def)
  have "fst (reconcileMissingPods ex_cluster [] [ex_pvc] ?s) = Ok () \<and> length (hist (snd (reconcileMissingPods ex_cluster [] [ex_pvc] ?s))) = 1"
    using valid
    by (simp add: reconcileMissingPods_def updatePodTemplate_def updatePodResourcesTemplate_def create_pod_def Own_def own_def
        on_hist_def KubeCreateSkipExisting_def kubeCreateSkipOrFailExisting_def pod_client_def crd_missing_def Let_def
        ex_cluster_def ex_bs_state_def ex_objects ex_pod_def ex_pvc_def agent_resources_def pod_template_def set_resources_def
        set_claim_name_def set_secret_volume_def run_defs del: run_rules)
  then obtain s' e where run: "reconcileMissingPods ex_cluster [] [ex_pvc] ?s = (Ok (), s')" and e: "hist s' = [e]"
    by (cases "reconcileMissingPods ex_cluster [] [ex_pvc] ?s") (auto simp: length_Suc_conv)
  from agent_pods_created [OF run] e show ?thesis
    using run by (auto simp: ex_bs_state_def)
qed

end
