(* ===== verification/NS_Reconciler.thy ===== *)
theory NS_Reconciler
  imports BS_Reconciler
begin

text \<open>
  The namespace store reconciler, \<^verbatim>\<open>pkg/namespacestore/reconciler.go\<close>.  It has the phases of the backing store
  reconciler but creates namespace resources instead of pools; it differs in how it completes, in what it
  deletes and in which connections it updates.
\<close>

section \<open>State and phases\<close>

record ns_state = "event logged" +
  nr_NamespaceStore :: NamespaceStore
  nr_NooBaa :: NooBaa
  nr_Secret :: Secret
  nr_Connected :: bool
  nr_SystemInfo :: "SystemInfo option"
  nr_ExternalConnectionInfo :: "ExternalConnectionInfo option"
  nr_NamespaceResourceinfo :: "NamespaceResourceInfo option"
  nr_AddExternalConnectionParams :: "AddExternalConnectionParams option"
  nr_CreateNamespaceResourceParams :: "CreateNamespaceResourceParams option"
  nr_UpdateExternalConnectionParams :: "UpdateExternalConnectionParams option"

type_synonym 'a ns_proc = "(ns_state, 'a) proc"

definition ns_modeInfoMap :: "string \<rightharpoonup> NamespaceStorePhase \<times> severity" where
  "ns_modeInfoMap = map_of [
     (''OPTIMAL'', (NamespaceStorePhaseReady, EventTypeNormal)),
     (''IO_ERRORS'', (NamespaceStorePhaseRejected, EventTypeWarning)),
     (''STORAGE_NOT_EXIST'', (NamespaceStorePhaseRejected, EventTypeWarning)),
     (''AUTH_FAILED'', (NamespaceStorePhaseRejected, EventTypeWarning))]"

definition ns_SetPhase :: "set_condition \<Rightarrow> NamespaceStorePhase \<Rightarrow> string \<Rightarrow> string \<Rightarrow> NamespaceStore \<Rightarrow> NamespaceStore" where
  "ns_SetPhase setc phase reason message ns =
     (let st = ns_Status ns in
      if phase = NamespaceStorePhaseNone
      then ns\<lparr>ns_Status := st\<lparr>nst_Conditions := SetProgressingCondition setc (nst_Conditions st) reason message\<rparr>\<rparr>
      else ns\<lparr>ns_Status := st\<lparr>nst_Phase := phase, nst_Conditions :=
        (case phase of
           NamespaceStorePhaseReady \<Rightarrow> SetAvailableCondition setc (nst_Conditions st) reason message
         | NamespaceStorePhaseRejected \<Rightarrow> SetErrorCondition setc (nst_Conditions st) reason message
         | _ \<Rightarrow> SetProgressingCondition setc (nst_Conditions st) reason message)\<rparr>\<rparr>)"

definition ns_set_phase :: "cluster \<Rightarrow> NamespaceStorePhase \<Rightarrow> string \<Rightarrow> string \<Rightarrow> unit ns_proc" where
  "ns_set_phase c phase reason message =
     modify (\<lambda>s. s\<lparr>nr_NamespaceStore := ns_SetPhase (c_SetStatusCondition c) phase reason message (nr_NamespaceStore s)\<rparr>)"

definition ns_UpdateStatus :: "cluster \<Rightarrow> unit ns_proc" where
  "ns_UpdateStatus c = bindp (gets (\<lambda>s. ONamespaceStore (nr_NamespaceStore s))) (update_status c)"

text \<open>
  A success: the phase of the mode when it is known and differs from the current phase, the ready phase in every other
  case.
\<close>

definition ns_complete_phase :: "cluster \<Rightarrow> go_error option \<Rightarrow> unit ns_proc" where
  "ns_complete_phase c err = (case err of
     Some (PersistentError reason message) \<Rightarrow> ns_set_phase c NamespaceStorePhaseRejected reason message
   | Some e \<Rightarrow> ns_set_phase c NamespaceStorePhaseNone ''TemporaryError'' (Error e)
   | None \<Rightarrow> bindp (gets (\<lambda>s. ns_Status (nr_NamespaceStore s))) (\<lambda>st.
       let mode = nst_ModeCode st;
           done = ns_set_phase c NamespaceStorePhaseReady ''NamespaceStorePhaseReady''
             ''noobaa operator completed reconcile - namespace store is ready''
       in case ns_modeInfoMap mode of
            Some (phase, _) \<Rightarrow> if phase \<noteq> nst_Phase st
              then ns_set_phase c phase (''Namespace store mode: '' @ mode) (''NamespaceStorePhase'' @ ns_phase_string phase)
              else done
          | None \<Rightarrow> done))"

definition ns_completeReconcile :: "cluster \<Rightarrow> go_error option \<Rightarrow> nat ns_proc" where
  "ns_completeReconcile c err = seqp (ns_complete_phase c err)
     (bindp (tryp (ns_UpdateStatus c)) (\<lambda>r.
       ret (case r of
              Inl _ \<Rightarrow> 3
            | Inr _ \<Rightarrow> (case err of None \<Rightarrow> 0 | Some e \<Rightarrow> if IsPersistentError e then 0 else 3))))"

section \<open>The secret\<close>

definition ns_check_secret :: "cluster \<Rightarrow> unit ns_proc" where
  "ns_check_secret c = bindp (gets nr_Secret) (\<lambda>sec.
     bindp (look (\<lambda>h. c_Secret c h (sec_Namespace sec) (sec_Name sec))) (\<lambda>p. case p of
       Some x \<Rightarrow> modify (\<lambda>s. s\<lparr>nr_Secret := SecretResetStringDataFromData x\<rparr>)
     | None \<Rightarrow> ret ()))"

definition ns_own_shared_secret :: "cluster \<Rightarrow> Secret \<Rightarrow> unit ns_proc" where
  "ns_own_shared_secret c secret = whenp (IsOwnedByNoobaa (om_OwnerReferences (sec_Meta secret)))
     (bindp (gets nr_NamespaceStore) (\<lambda>ns.
      case SetOwnerReference (c_ParseGroupVersion c) (Ok (''noobaa.io/v1alpha1'', ''NamespaceStore'')) (ns_Meta ns) (sec_Meta secret) of
        Ok m \<Rightarrow> bindp (update (secret_client c) (secret\<lparr>sec_Meta := m\<rparr>)) (\<lambda>ok.
          if ok then ret ()
          else raise (PlainError (''failed to update secret: '' @ go_quote (ns_Name ns) @ '' owner reference'')))
      | Err e \<Rightarrow> if e = AlreadyOwnedError then ret () else raise e
      | Panic \<Rightarrow> lift Panic))"

text \<open>The result is the reference to use from then on.\<close>

definition ns_share_secret :: "cluster \<Rightarrow> SecretReference \<Rightarrow> Secret \<Rightarrow> SecretReference ns_proc" where
  "ns_share_secret c ref secret =
     bindp (gets nr_NamespaceStore) (\<lambda>ns.
     bindp (bindp (asks (\<lambda>h. case c_ListStores c h (sec_Namespace secret) of (bss, nss) \<Rightarrow>
         CheckForIdenticalSecretsCreds (\<lambda>n nsp. c_Secret c h nsp n) bss nss (Some secret) (ns_type_string (ns_Type ns)))) lift)
       (\<lambda>suggested. seqp (emit Looked)
     (case suggested of
        None \<Rightarrow> seqp (ns_own_shared_secret c secret) (ret ref)
      | Some other \<Rightarrow>
          let ref1 = ref\<lparr>sr_Name := sec_Name other, sr_Namespace := sec_Namespace other\<rparr> in
          bindp (lift (SetNamespaceStoreSecretRef ns ref1)) (\<lambda>ns1.
          seqp (modify (\<lambda>s. s\<lparr>nr_NamespaceStore := ns1\<rparr>))
          (bindp (update (ns_client c) ns1) (\<lambda>ok.
           if ok then seqp (ns_own_shared_secret c other) (ret ref1)
           else raise (PlainError (''failed to update NamespaceStore: '' @ go_quote (ns_Name ns1) @ '' secret reference''))))))))"

definition ns_use_secret :: "cluster \<Rightarrow> SecretReference \<Rightarrow> unit ns_proc" where
  "ns_use_secret c ref =
     seqp (modify (\<lambda>s. let sec = nr_Secret s in s\<lparr>nr_Secret := sec\<lparr>sec_Meta := (sec_Meta sec)\<lparr>om_Name := sr_Name ref,
       om_Namespace := (if sr_Namespace ref = '''' then ns_Namespace (nr_NamespaceStore s) else sr_Namespace ref)\<rparr>\<rparr>\<rparr>))
     (ns_check_secret c)"

definition LoadNamespaceStoreSecret :: "cluster \<Rightarrow> unit ns_proc" where
  "LoadNamespaceStoreSecret c =
     bindp (bindp (gets (\<lambda>s. IsAWSSTSClusterNS (nr_NamespaceStore s))) lift) (\<lambda>sts.
     bindp (gets nr_NamespaceStore) (\<lambda>ns.
     if sts then ret ()
     else if IsAzureSTSClusterNS ns \<and> (case nss_AzureBlob (ns_Spec ns) of None \<Rightarrow> True | Some a \<Rightarrow> sr_Name (az_Secret a) = '''')
     then ret ()
     else bindp (lift (GetNamespaceStoreSecret ns)) (\<lambda>p. case p of
       None \<Rightarrow> ret ()
     | Some ref \<Rightarrow>
         bindp (bindp (asks (\<lambda>h. GetSecretFromSecretReference (\<lambda>n nsp. c_Secret c h nsp n) (Some ref))) (\<lambda>r. seqp (emit Looked) (lift r)))
           (\<lambda>secret.
         bindp (case secret of None \<Rightarrow> ret ref | Some sec \<Rightarrow> ns_share_secret c ref sec) (ns_use_secret c)))))"

section \<open>Connection parameters\<close>

text \<open>The first of the alternate names that has a value.\<close>

definition ns_fix_key :: "string \<Rightarrow> string list \<Rightarrow> unit ns_proc" where
  "ns_fix_key key alternates = bindp (gets (\<lambda>s. map_get (Some (sec_StringData (nr_Secret s))))) (\<lambda>sd.
     whenp (sd key = '''') (case find (\<lambda>k. sd k \<noteq> '''') alternates of
       None \<Rightarrow> ret ()
     | Some k \<Rightarrow> modify (\<lambda>s. s\<lparr>nr_Secret := (nr_Secret s)\<lparr>sec_StringData := (sec_StringData (nr_Secret s))(key \<mapsto> sd k)\<rparr>\<rparr>)))"

definition ns_fixAlternateKeysNames :: "unit ns_proc" where
  "ns_fixAlternateKeysNames = seqp (ns_fix_key ''AWS_ACCESS_KEY_ID'' [''aws_access_key_id'', ''AccessKey''])
     (ns_fix_key ''AWS_SECRET_ACCESS_KEY'' [''aws_secret_access_key'', ''SecretKey''])"

definition getAuthMethod :: "S3SignatureVersion \<Rightarrow> string" where
  "getAuthMethod signature =
     (if signature = S3SignatureVersionV4 then ''AWS_V4''
      else if signature = S3SignatureVersionV2 then ''AWS_V2''
      else '''')"

definition ns_azure_connection :: "bool \<Rightarrow> Secret \<Rightarrow> AddExternalConnectionParams \<Rightarrow> AddExternalConnectionParams result" where
  "ns_azure_connection sts sec conn =
     (let sd = map_get (Some (sec_StringData sec));
          conn1 = conn\<lparr>aec_Endpoint := ''https://blob.core.windows.net'', aec_Identity := sd ''AccountName'',
            aec_AzureLogAccessKeys := log_access_keys sd\<rparr>
      in if sts then
           if TrimSpace (sd ''azure_tenant_id'') = ''''
           then Err (PersistentError ''InvalidAzureSTSSecret''
             (''Azure STS requires non-empty azure_tenant_id in secret '' @ go_quote (sec_Name sec)))
           else Ok (conn1\<lparr>aec_EndpointType := EndpointTypeAzureSTS, aec_AzureSTSCredentials :=
             Some \<lparr>asc_ClientID = sd ''azure_client_id'', asc_TenantID = sd ''azure_tenant_id''\<rparr>\<rparr>)
         else Ok (conn1\<lparr>aec_EndpointType := EndpointTypeAzure, aec_Secret := sd ''AccountKey''\<rparr>))"

definition ns_connection :: "cluster \<Rightarrow> ns_state \<Rightarrow> AddExternalConnectionParams result" where
  "ns_connection c s =
     (let ns = nr_NamespaceStore s; sp = ns_Spec ns; sd = map_get (Some (sec_StringData (nr_Secret s)));
          conn = new_connection (ns_Name ns) in
      case nss_Type sp of
        NSStoreTypeAWSS3 \<Rightarrow> bind_r (deref (nss_AWSS3 sp)) (\<lambda>a. Ok (aws_connection sd a conn))
      | NSStoreTypeS3Compatible \<Rightarrow> bind_r (deref (nss_S3Compatible sp)) (\<lambda>a.
          Ok (conn\<lparr>aec_EndpointType := EndpointTypeS3Compat, aec_Identity := sd ''AWS_ACCESS_KEY_ID'',
            aec_Secret := sd ''AWS_SECRET_ACCESS_KEY'', aec_AuthMethod := getAuthMethod (s3c_SignatureVersion a),
            aec_Endpoint := s3c_Endpoint a\<rparr>))
      | NSStoreTypeIBMCos \<Rightarrow> bind_r (deref (nss_IBMCos sp)) (\<lambda>a.
          Ok (conn\<lparr>aec_EndpointType := EndpointTypeIBMCos, aec_Identity := sd ''IBM_COS_ACCESS_KEY_ID'',
            aec_Secret := sd ''IBM_COS_SECRET_ACCESS_KEY'', aec_AuthMethod := getAuthMethod (ibm_SignatureVersion a),
            aec_Endpoint := ibm_Endpoint a\<rparr>))
      | NSStoreTypeAzureBlob \<Rightarrow> ns_azure_connection (IsAzureSTSClusterNS ns) (nr_Secret s) conn
      | NSStoreTypeGoogleCloudStorage \<Rightarrow> google_connection (c_Json c) (nr_Secret s) conn
      | _ \<Rightarrow> Err (PersistentError ''InvalidType'' (''Invalid namespace store type '' @ go_quote (ns_type_string (nss_Type sp)))))"

definition ns_MakeExternalConnectionParams :: "cluster \<Rightarrow> AddExternalConnectionParams ns_proc" where
  "ns_MakeExternalConnectionParams c = seqp ns_fixAlternateKeysNames
     (bindp (bindp (gets (ns_connection c)) lift) (\<lambda>conn.
      bindp (bindp (gets (\<lambda>s. IsAWSSTSClusterNS (nr_NamespaceStore s))) lift) (\<lambda>sts.
      bindp (gets (\<lambda>s. IsAzureSTSClusterNS (nr_NamespaceStore s))) (\<lambda>azsts.
      if (sts \<or> azsts) \<and>
         (\<not> IsStringGraphicOrSpacesCharsOnly c (aec_Identity conn) \<or> \<not> IsStringGraphicOrSpacesCharsOnly c (aec_Secret conn))
      then bindp (gets (\<lambda>s. sec_Name (nr_Secret s))) (\<lambda>n. raise (PersistentError ''InvalidSecret''
        (''Invalid secret containing non graphic characters (perhaps not base64 encoded?) '' @ go_quote n)))
      else ret conn))))"

section \<open>Phases\<close>

definition ns_ReconcilePhaseVerifying :: "cluster \<Rightarrow> unit ns_proc" where
  "ns_ReconcilePhaseVerifying c =
     seqp (ns_set_phase c NamespaceStorePhaseVerifying ''NamespaceStorePhaseVerifying''
       ''noobaa operator started phase 1/3 - \"Verifying\"'')
     (bindp (gets nr_NamespaceStore) (\<lambda>ns.
      case ValidateNamespaceStore (c_Url c) ns of
        Panic \<Rightarrow> lift Panic
      | Err e \<Rightarrow> raise (PersistentError ''NamespaceStoreValidationError'' (Error e))
      | Ok ns1 \<Rightarrow> seqp (modify (\<lambda>s. s\<lparr>nr_NamespaceStore := ns1\<rparr>))
          (bindp (gets (\<lambda>s. nb_Meta (nr_NooBaa s))) (\<lambda>nb.
          if om_UID nb = '''' then raise (PersistentError ''MissingSystem'' (''NooBaa system '' @ go_quote (om_Name nb) @ '' not found or deleted''))
          else bindp (gets nr_Secret) (\<lambda>sec.
          if sec_Name sec \<noteq> '''' \<and> om_UID (sec_Meta sec) = '''' then
            bindp (since c (ns_Meta ns)) (\<lambda>age.
            if age < minutes 5
            then raise (PlainError (''NamespaceStore Secret '' @ go_quote (sec_Name sec)
              @ '' not found, but not rejecting the young as it might be in process''))
            else raise (PersistentError ''MissingSecret'' (''NamespaceStore Secret '' @ go_quote (sec_Name sec) @ '' not found or deleted'')))
          else ret ())))))"

definition api_access_mode :: "NamespaceStore \<Rightarrow> string" where
  "api_access_mode ns = (if nss_AccessMode (ns_Spec ns) = AccessModeReadOnly then ''READ_ONLY'' else ''READ_WRITE'')"

definition nsfs_params :: "cluster \<Rightarrow> NamespaceStore \<Rightarrow> CreateNamespaceResourceParams result" where
  "nsfs_params c ns = bind_r (deref (nss_NSFS (ns_Spec ns))) (\<lambda>fs.
     Ok \<lparr>cnr_Name = ns_Name ns, cnr_Connection = '''', cnr_TargetBucket = '''', cnr_AccessMode = api_access_mode ns,
       cnr_NSFSConfig = Some \<lparr>nfc_FsBackend = nsfs_FsBackend fs, nfc_FsRootPath = ''/nsfs/'' @ ns_Name ns\<rparr>,
       cnr_NamespaceStore = \<lparr>sti_Name = ns_Name ns, sti_Namespace = c_Namespace c\<rparr>, cnr_Archive = False\<rparr>)"

text \<open>The loop over the connections: an endpoint that does not parse ends it, the last match wins.\<close>

fun ns_match :: "url_lib \<Rightarrow> AddExternalConnectionParams \<Rightarrow> ExternalConnectionInfo list \<Rightarrow> ExternalConnectionInfo option \<Rightarrow>
    ExternalConnectionInfo option result" where
  "ns_match ul conn [] found = Ok found"
| "ns_match ul conn (i # is) found = bind_r (EndpointsEquivalent ul (eci_Endpoint i) (aec_Endpoint conn)) (\<lambda>eq.
     ns_match ul conn is (if eci_EndpointType i = aec_EndpointType conn \<and> eq \<and> eci_Identity i = aec_Identity conn
       then Some i else found))"

definition resource_mismatch :: "AddExternalConnectionParams \<Rightarrow> NamespaceResourceInfo \<Rightarrow> bool" where
  "resource_mismatch conn nsr \<longleftrightarrow> nri_EndpointType nsr \<noteq> aec_EndpointType conn \<or> nri_Endpoint nsr \<noteq> aec_Endpoint conn
     \<or> nri_Identity nsr \<noteq> aec_Identity conn"

definition read_cloud_resource :: "cluster \<Rightarrow> SystemInfo \<Rightarrow> unit ns_proc" where
  "read_cloud_resource c si =
     bindp (ns_MakeExternalConnectionParams c) (\<lambda>conn.
     bindp (gets nr_NamespaceResourceinfo) (\<lambda>nsr.
     seqp (whenp (case nsr of Some r \<Rightarrow> resource_mismatch conn r | None \<Rightarrow> False)
       (modify (\<lambda>s. s\<lparr>nr_UpdateExternalConnectionParams := Some (update_params conn)\<rparr>)))
     (bindp (lift (ns_match (c_Url c) conn (all_connections si) None)) (\<lambda>found.
      let conn1 = (case found of Some i \<Rightarrow> conn\<lparr>aec_Name := eci_Name i\<rparr> | None \<Rightarrow> conn) in
      seqp (modify (\<lambda>s. s\<lparr>nr_ExternalConnectionInfo := (case found of Some i \<Rightarrow> Some i | None \<Rightarrow> nr_ExternalConnectionInfo s),
          nr_AddExternalConnectionParams := Some conn1\<rparr>))
      (bindp (gets nr_NamespaceStore) (\<lambda>ns.
       bindp (lift (GetNamespaceStoreTargetBucket ns)) (\<lambda>bucket.
       modify (\<lambda>s. s\<lparr>nr_CreateNamespaceResourceParams := Some \<lparr>cnr_Name = ns_Name ns, cnr_Connection = aec_Name conn1,
         cnr_TargetBucket = bucket, cnr_AccessMode = api_access_mode ns, cnr_NSFSConfig = None,
         cnr_NamespaceStore = \<lparr>sti_Name = ns_Name ns, sti_Namespace = c_Namespace c\<rparr>, cnr_Archive = nss_Archive (ns_Spec ns)\<rparr>\<rparr>))))))))"

definition ns_ReadSystemInfo :: "cluster \<Rightarrow> unit ns_proc" where
  "ns_ReadSystemInfo c =
     seqp (Connect c)
     (seqp (modify (\<lambda>s. s\<lparr>nr_Connected := True\<rparr>))
     (bindp (bindp (query ReadSystemAPI (c_ReadSystem c)) reply) (\<lambda>si.
      seqp (modify (\<lambda>s. s\<lparr>nr_SystemInfo := Some si,
        nr_NamespaceResourceinfo := (case first_with nri_Name (ns_Name (nr_NamespaceStore s)) (si_NamespaceResources si) of
          Some r \<Rightarrow> Some r | None \<Rightarrow> nr_NamespaceResourceinfo s)\<rparr>))
      (bindp (gets nr_NamespaceStore) (\<lambda>ns.
       if om_DeletionTimestamp (ns_Meta ns) \<noteq> None then ret ()
       else if ns_Type ns = NSStoreTypeNSFS
       then bindp (lift (nsfs_params c ns)) (\<lambda>p. modify (\<lambda>s. s\<lparr>nr_CreateNamespaceResourceParams := Some p\<rparr>))
       else read_cloud_resource c si)))))"

definition ns_ReconcilePhaseConnecting :: "cluster \<Rightarrow> unit ns_proc" where
  "ns_ReconcilePhaseConnecting c =
     seqp (ns_set_phase c NamespaceStorePhaseConnecting ''NamespaceStorePhaseConnecting''
       ''noobaa operator started phase 2/3 - \"Connecting\"'')
     (ns_ReadSystemInfo c)"

definition ns_CheckExternalConnection :: "cluster \<Rightarrow> CheckExternalConnectionParams \<Rightarrow> unit ns_proc" where
  "ns_CheckExternalConnection c params =
     bindp (bindp (query (CheckExternalConnectionAPI params) (\<lambda>h. c_CheckConnection c h params)) reply) (\<lambda>res.
     bindp (gets nr_NamespaceStore) (\<lambda>ns.
     let status = cer_Status res;
         rejected = raise (PersistentError (connection_status_string status) (''NamespaceStore '' @ go_quote (ns_Name ns)
           @ '' invalid external connection '' @ go_quote (connection_status_string status)));
         endpoint = bindp (since c (ns_Meta ns)) (\<lambda>age.
           if age < minutes 5 then raise (PlainError ''got invalid endpoint. requeue again'') else rejected)
     in case status of
          ExternalConnectionSuccess \<Rightarrow> ret ()
        | ExternalConnectionInvalidCredentials \<Rightarrow> bindp (since c (ns_Meta ns)) (\<lambda>age.
            if age < minutes 5 then raise (PlainError ''Got InvalidCredentials. requeue again'') else endpoint)
        | ExternalConnectionInvalidEndpoint \<Rightarrow> endpoint
        | ExternalConnectionTimeSkew \<Rightarrow> rejected
        | ExternalConnectionNotSupported \<Rightarrow> rejected
        | _ \<Rightarrow> raise (PlainError (''CheckExternalConnection Status='' @ connection_status_string status @ '' Error=''
            @ cer_Code res @ '' Message='' @ cer_Message res))))"

definition ns_ReconcileExternalConnection :: "cluster \<Rightarrow> unit ns_proc" where
  "ns_ReconcileExternalConnection c =
     bindp (gets nr_ExternalConnectionInfo) (\<lambda>info.
     bindp (gets nr_UpdateExternalConnectionParams) (\<lambda>upd.
     if info \<noteq> None \<and> upd = None then ret ()
     else bindp (gets nr_AddExternalConnectionParams) (\<lambda>add. case add of
       None \<Rightarrow> ret ()
     | Some conn \<Rightarrow> (case upd of
         Some u \<Rightarrow> seqp (ns_CheckExternalConnection c \<lparr>cec_Connection = conn, cec_IgnoreNameAlreadyExist = True\<rparr>)
           (seqp (call c (UpdateExternalConnectionAPI u))
             (modify (\<lambda>s. s\<lparr>nr_UpdateExternalConnectionParams := None\<rparr>)))
       | None \<Rightarrow> seqp (ns_CheckExternalConnection c \<lparr>cec_Connection = conn, cec_IgnoreNameAlreadyExist = False\<rparr>)
           (call c (AddExternalConnectionAPI conn))))))"

definition ReconcileNamespaceStore :: "cluster \<Rightarrow> unit ns_proc" where
  "ReconcileNamespaceStore c =
     bindp (gets nr_NamespaceResourceinfo) (\<lambda>info.
     if info \<noteq> None then ret ()
     else bindp (gets nr_CreateNamespaceResourceParams) (\<lambda>create. case create of
       None \<Rightarrow> ret ()
     | Some p \<Rightarrow> bindp (attempt c (CreateNamespaceResourceAPI p)) (\<lambda>e. case e of
         None \<Rightarrow> ret ()
       | Some err \<Rightarrow>
           if rpc_code err = Some ''INVALID_ARCHIVE_TARGET''
           then bindp (gets (\<lambda>s. ns_Name (nr_NamespaceStore s))) (\<lambda>n. raise (PersistentError ''INVALID_ARCHIVE_TARGET''
             (''NamespaceStore '' @ go_quote n @ '' invalid archive target '' @ go_quote (cnr_TargetBucket p))))
           else raise (rpc_go err))))"

definition ns_ReconcilePhaseCreating :: "cluster \<Rightarrow> unit ns_proc" where
  "ns_ReconcilePhaseCreating c =
     seqp (ns_set_phase c NamespaceStorePhaseCreating ''NamespaceStorePhaseCreating''
       ''noobaa operator started phase 3/3 - \"Creating\"'')
     (seqp (ns_ReconcileExternalConnection c) (ReconcileNamespaceStore c))"

definition ns_ReconcilePhases :: "cluster \<Rightarrow> unit ns_proc" where
  "ns_ReconcilePhases c = seqp (ns_ReconcilePhaseVerifying c)
     (seqp (ns_ReconcilePhaseConnecting c) (ns_ReconcilePhaseCreating c))"

section \<open>Deletion\<close>

definition hasOwnedExternalConnection :: "ns_state \<Rightarrow> bool" where
  "hasOwnedExternalConnection s = (case nr_SystemInfo s of
     None \<Rightarrow> False
   | Some si \<Rightarrow> list_ex (\<lambda>i. eci_Name i = ns_Name (nr_NamespaceStore s)) (all_connections si))"

definition delete_resource :: "cluster \<Rightarrow> string \<Rightarrow> unit ns_proc" where
  "delete_resource c n = bindp (attempt c (DeleteNamespaceResourceAPI n)) (\<lambda>e. case e of
     None \<Rightarrow> ret ()
   | Some err \<Rightarrow>
       if rpc_code err = Some ''IN_USE''
       then raise (PlainError (''DeleteNamespaceResourceAPI cannot complete because namespace store '' @ go_quote n
         @ '' has buckets attached''))
       else raise (rpc_go err))"

definition ns_read_for_deletion :: "cluster \<Rightarrow> unit ns_proc" where
  "ns_read_for_deletion c = bindp (tryp (ns_ReadSystemInfo c)) (\<lambda>r. case r of
     Inl e \<Rightarrow> if \<not> IsPersistentError e then raise e else ret ()
   | Inr _ \<Rightarrow> ret ())"

definition release_resource :: "cluster \<Rightarrow> unit ns_proc" where
  "release_resource c = bindp (gets nr_NamespaceResourceinfo) (\<lambda>info. case info of
     None \<Rightarrow> ret ()
   | Some nsr \<Rightarrow> bindp (bindp (gets (\<lambda>s. deref (nr_SystemInfo s))) lift) (\<lambda>si.
       seqp (rehome_accounts c si (nri_Name nsr)) (delete_resource c (nri_Name nsr))))"

definition release_owned_connection :: "cluster \<Rightarrow> unit ns_proc" where
  "release_owned_connection c = bindp (gets nr_Connected) (\<lambda>connected.
     bindp (gets nr_NamespaceStore) (\<lambda>ns.
     whenp (connected \<and> ns_Type ns \<noteq> NSStoreTypeNSFS)
       (bindp (gets hasOwnedExternalConnection) (\<lambda>owned. whenp owned (delete_connection c (ns_Name ns))))))"

definition ns_mark_deleting :: "cluster \<Rightarrow> unit ns_proc" where
  "ns_mark_deleting c = bindp (gets (\<lambda>s. nst_Phase (ns_Status (nr_NamespaceStore s)))) (\<lambda>phase.
     whenp (phase \<noteq> NamespaceStorePhaseDeleting)
       (seqp (ns_set_phase c NamespaceStorePhaseDeleting ''NamespaceStorePhaseDeleting'' ''noobaa operator started deletion'')
         (ns_UpdateStatus c)))"

definition ns_FinalizeDeletion :: "cluster \<Rightarrow> unit ns_proc" where
  "ns_FinalizeDeletion c =
     seqp (modify (\<lambda>s. let ns = nr_NamespaceStore s in
       s\<lparr>nr_NamespaceStore := ns\<lparr>ns_Meta := snd (RemoveFinalizer (ns_Meta ns) Finalizer)\<rparr>\<rparr>))
     (bindp (gets nr_NamespaceStore) (\<lambda>ns.
      bindp (update (ns_client c) ns) (\<lambda>ok.
      if ok then ret ()
      else raise (PlainError (''NamespaceStore '' @ go_quote (ns_Name ns) @ '' failed to remove finalizer '' @ go_quote Finalizer)))))"

definition ns_release :: "cluster \<Rightarrow> unit ns_proc" where
  "ns_release c = seqp (ns_read_for_deletion c) (seqp (release_resource c) (release_owned_connection c))"

definition ns_ReconcileDeletion :: "cluster \<Rightarrow> bool \<Rightarrow> unit ns_proc" where
  "ns_ReconcileDeletion c systemFound = seqp (ns_mark_deleting c)
     (seqp (whenp systemFound (ns_release c)) (ns_FinalizeDeletion c))"

section \<open>Reconcile\<close>

definition ns_then_complete :: "cluster \<Rightarrow> unit ns_proc \<Rightarrow> nat ns_proc" where
  "ns_then_complete c m = bindp (tryp m) (\<lambda>r. ns_completeReconcile c (case r of Inl e \<Rightarrow> Some e | Inr _ \<Rightarrow> None))"

definition ns_phases :: "cluster \<Rightarrow> nat ns_proc" where
  "ns_phases c = bindp (gets nr_NamespaceStore) (\<lambda>ns.
     case EnsureCommonMetaFields (ns_Meta ns) Finalizer of (changed, m) \<Rightarrow>
       let ns1 = ns\<lparr>ns_Meta := m\<rparr> in
       seqp (modify (\<lambda>s. s\<lparr>nr_NamespaceStore := ns1\<rparr>))
       (bindp (if changed then update (ns_client c) ns1 else ret True) (\<lambda>ok.
        if ok then ns_then_complete c (ns_ReconcilePhases c)
        else ns_completeReconcile c (Some (PlainError (''NamespaceStore '' @ go_quote (ns_Name ns1)
          @ '' failed to add mandatory meta fields''))))))"

definition ns_Reconcile :: "cluster \<Rightarrow> nat ns_proc" where
  "ns_Reconcile c =
     bindp (bindp (gets nr_NooBaa) (CheckSystem c)) (\<lambda>(systemFound, nb).
     seqp (modify (\<lambda>s. s\<lparr>nr_NooBaa := nb\<rparr>))
     (bindp (gets nr_NamespaceStore) (\<lambda>ns0.
      bindp (look (\<lambda>h. c_NamespaceStore c h (ns_Namespace ns0) (ns_Name ns0))) (\<lambda>p. case p of
        None \<Rightarrow> ret 0
      | Some ns \<Rightarrow> seqp (modify (\<lambda>s. s\<lparr>nr_NamespaceStore := ns\<rparr>))
          (bindp (tryp (LoadNamespaceStoreSecret c)) (\<lambda>r. case r of
             Inl e \<Rightarrow> ns_completeReconcile c (Some e)
           | Inr _ \<Rightarrow> bindp (gets nr_NamespaceStore) (\<lambda>ns1.
               if om_DeletionTimestamp (ns_Meta ns1) \<noteq> None then ns_then_complete c (ns_ReconcileDeletion c systemFound)
               else if \<not> systemFound then ns_completeReconcile c None
               else if paused (ns_Meta ns1) then ret 5
               else ns_phases c)))))))"

section \<open>Phases and conditions\<close>

interpretation ns_phased: phased_resource ns_SetPhase "\<lambda>ns. nst_Phase (ns_Status ns)" "\<lambda>ns. nst_Conditions (ns_Status ns)"
  ns_Meta NamespaceStorePhaseNone NamespaceStorePhaseReady NamespaceStorePhaseRejected
  by unfold_locales (auto simp: ns_SetPhase_def Let_def split: NamespaceStorePhase.splits)

abbreviation ns_phase_of :: "ns_state \<Rightarrow> NamespaceStorePhase" where
  "ns_phase_of s \<equiv> nst_Phase (ns_Status (nr_NamespaceStore s))"

abbreviation ns_conditions_of :: "ns_state \<Rightarrow> Condition list" where
  "ns_conditions_of s \<equiv> nst_Conditions (ns_Status (nr_NamespaceStore s))"

definition ns_mode_phase :: "NamespaceStore \<Rightarrow> NamespaceStorePhase" where
  "ns_mode_phase ns = (case ns_modeInfoMap (nst_ModeCode (ns_Status ns)) of
     Some (p, _) \<Rightarrow> p | None \<Rightarrow> NamespaceStorePhaseReady)"

lemma ns_mode_phase_cases: "ns_mode_phase ns = NamespaceStorePhaseReady \<or> ns_mode_phase ns = NamespaceStorePhaseRejected"
  by (auto simp: ns_mode_phase_def ns_modeInfoMap_def split: option.splits if_splits)

lemma ns_set_phase_run: "ns_set_phase c p r m s =
    (Ok (), s\<lparr>nr_NamespaceStore := ns_SetPhase (c_SetStatusCondition c) p r m (nr_NamespaceStore s)\<rparr>)"
  by (simp add: ns_set_phase_def)

lemma ns_UpdateStatus_run: "ns_UpdateStatus c s =
    ((case c_write c (hist s) (StatusUpdated (ONamespaceStore (nr_NamespaceStore s))) of
        None \<Rightarrow> Ok () | Some e \<Rightarrow> Err (PlainError (c_ErrorText c e))),
     s\<lparr>hist := hist s @ [StatusUpdated (ONamespaceStore (nr_NamespaceStore s))]\<rparr>)"
  by (simp add: ns_UpdateStatus_def update_status_def split: option.splits)

text \<open>The store as the completion leaves it.\<close>

definition ns_completed :: "cluster \<Rightarrow> go_error option \<Rightarrow> NamespaceStore \<Rightarrow> NamespaceStore \<Rightarrow> bool" where
  "ns_completed c err ns ns' \<longleftrightarrow> (\<exists>reason msg. ns' = ns_SetPhase (c_SetStatusCondition c)
     (case err of
        Some (PersistentError _ _) \<Rightarrow> NamespaceStorePhaseRejected
      | Some _ \<Rightarrow> NamespaceStorePhaseNone
      | None \<Rightarrow> if ns_mode_phase ns = nst_Phase (ns_Status ns) then NamespaceStorePhaseReady else ns_mode_phase ns) reason msg ns)"

lemma ns_complete_phase_run:
  "\<exists>ns'. ns_complete_phase c err s = (Ok (), s\<lparr>nr_NamespaceStore := ns'\<rparr>) \<and> ns_completed c err (nr_NamespaceStore s) ns'"
proof (intro exI [of _ "nr_NamespaceStore (snd (ns_complete_phase c err s))"] conjI)
  show "ns_complete_phase c err s = (Ok (), s\<lparr>nr_NamespaceStore := nr_NamespaceStore (snd (ns_complete_phase c err s))\<rparr>)"
    by (auto simp: ns_complete_phase_def Let_def ns_set_phase_run split: option.splits go_error.splits)
  show "ns_completed c err (nr_NamespaceStore s) (nr_NamespaceStore (snd (ns_complete_phase c err s)))"
    by (auto simp: ns_complete_phase_def Let_def ns_set_phase_run ns_completed_def ns_mode_phase_def
        split: option.splits go_error.splits)
qed

lemma ns_completeReconcile_run:
  obtains d ns' where
    "ns_completeReconcile c err s = (Ok d, s\<lparr>nr_NamespaceStore := ns', hist := hist s @ [StatusUpdated (ONamespaceStore ns')]\<rparr>)"
    "ns_completed c err (nr_NamespaceStore s) ns'"
    "d = (if c_write c (hist s) (StatusUpdated (ONamespaceStore ns')) \<noteq> None then 3
          else case err of None \<Rightarrow> 0 | Some e \<Rightarrow> if IsPersistentError e then 0 else 3)"
proof -
  obtain ns' where "ns_complete_phase c err s = (Ok (), s\<lparr>nr_NamespaceStore := ns'\<rparr>)"
    and completed: "ns_completed c err (nr_NamespaceStore s) ns'"
    using ns_complete_phase_run by blast
  then have "\<exists>d. ns_completeReconcile c err s = (Ok d, s\<lparr>nr_NamespaceStore := ns', hist := hist s @ [StatusUpdated (ONamespaceStore ns')]\<rparr>) \<and>
     d = (if c_write c (hist s) (StatusUpdated (ONamespaceStore ns')) \<noteq> None then 3
          else case err of None \<Rightarrow> 0 | Some e \<Rightarrow> if IsPersistentError e then 0 else 3)"
    by (cases "c_write c (hist s) (StatusUpdated (ONamespaceStore ns'))")
      (auto simp: ns_completeReconcile_def ns_UpdateStatus_run tryp_def bindp_def split: option.splits)
  then show ?thesis using completed that by blast
qed

text \<open>Once the phases have started, the store is in a phase that no mode has, so its mode decides.\<close>

definition ns_in_phases :: "string \<Rightarrow> ns_state \<Rightarrow> bool" where
  "ns_in_phases mode s \<longleftrightarrow> nst_ModeCode (ns_Status (nr_NamespaceStore s)) = mode \<and>
     ns_phase_of s \<in> {NamespaceStorePhaseVerifying, NamespaceStorePhaseConnecting, NamespaceStorePhaseCreating}"

lemma hist_free_ns_in_phases [simp, intro]: "hist_free (ns_in_phases mode)"
  by (rule hist_freeI) (simp add: ns_in_phases_def)

lemma keeps_ns_phase [keep_rules]:
  assumes "p \<in> {NamespaceStorePhaseVerifying, NamespaceStorePhaseConnecting, NamespaceStorePhaseCreating}"
  shows "keeps (ns_in_phases mode) (ns_set_phase c p r m)"
  unfolding ns_set_phase_def using assms
  by (intro keeps_modify) (auto simp: ns_in_phases_def ns_SetPhase_def Let_def)

lemma keeps_ns_connection_params:
  "keeps (ns_in_phases mode) (ns_MakeExternalConnectionParams c)"
  unfolding ns_MakeExternalConnectionParams_def ns_fixAlternateKeysNames_def ns_fix_key_def
  by (intro keep_rules; simp add: ns_in_phases_def)

lemma keeps_ns_ReadSystemInfo: "keeps (ns_in_phases mode) (ns_ReadSystemInfo c)"
  unfolding ns_ReadSystemInfo_def read_cloud_resource_def Let_def
  by (intro keep_rules keeps_ns_connection_params hist_free_ns_in_phases; simp add: ns_in_phases_def)

lemma ns_CheckExternalConnection_run:
  "snd (ns_CheckExternalConnection c params s) = s\<lparr>hist := hist s @ [Called (CheckExternalConnectionAPI params)]\<rparr>"
  by (auto simp: ns_CheckExternalConnection_def query_def reply_def Let_def since_def bindp_def
      split: sum.splits ExternalConnectionStatus.splits)

lemma keeps_ns_CheckExternalConnection [keep_rules]: "hist_free P \<Longrightarrow> keeps P (ns_CheckExternalConnection c params)"
  by (simp add: keeps_def hist_free_def ns_CheckExternalConnection_run)

lemma keeps_ns_phases:
  "keeps (ns_in_phases mode) (ns_ReconcilePhaseConnecting c)"
  "keeps (ns_in_phases mode) (ns_ReconcilePhaseCreating c)"
  unfolding ns_ReconcilePhaseConnecting_def ns_ReconcilePhaseCreating_def ns_ReconcileExternalConnection_def
    ReconcileNamespaceStore_def
  by (intro keep_rules keeps_ns_ReadSystemInfo hist_free_ns_in_phases; simp add: ns_in_phases_def)+

lemma ns_verifying_in_phases:
  "ns_in_phases (nst_ModeCode (ns_Status (nr_NamespaceStore s))) (snd (ns_ReconcilePhaseVerifying c s))"
proof -
  let ?P = "ns_in_phases (nst_ModeCode (ns_Status (nr_NamespaceStore s)))"
  let ?ns = "ns_SetPhase (c_SetStatusCondition c) NamespaceStorePhaseVerifying ''NamespaceStorePhaseVerifying''
    ''noobaa operator started phase 1/3 - \"Verifying\"'' (nr_NamespaceStore s)"
  have start: "?P (s\<lparr>nr_NamespaceStore := ?ns\<rparr>)" by (simp add: ns_in_phases_def ns_SetPhase_def Let_def)
  have "?P (s\<lparr>nr_NamespaceStore := ns1\<rparr>)" if "ValidateNamespaceStore (c_Url c) ?ns = Ok ns1" for ns1
    using ValidateNamespaceStore_result [OF that] start by (simp add: ns_in_phases_def same_but_endpoint_def)
  then show ?thesis
    using start
    by (cases "ValidateNamespaceStore (c_Url c) ?ns")
      (auto simp: ns_ReconcilePhaseVerifying_def ns_set_phase_run since_def Let_def)
qed

lemma ns_phases_in_phases:
  "ns_in_phases (nst_ModeCode (ns_Status (nr_NamespaceStore s))) (snd (ns_ReconcilePhases c s))"
proof -
  obtain r s1 where run: "ns_ReconcilePhaseVerifying c s = (r, s1)" by (cases "ns_ReconcilePhaseVerifying c s")
  have "keeps (ns_in_phases m) (seqp (ns_ReconcilePhaseConnecting c) (ns_ReconcilePhaseCreating c))" for m
    by (intro keep_rules keeps_ns_phases)
  then show ?thesis
    using ns_verifying_in_phases [of s c] run by (cases r) (simp_all add: ns_ReconcilePhases_def keeps_def)
qed

text \<open>
  C5. A reconcile that runs the phases of a namespace store never ends without a decision about it (a crash apart): when
  the phases end well the store gets the phase of the mode that the core reports, so it is available exactly when that mode
  is good or unknown; a persistent error rejects it and shows it as degraded; any other error leaves it in the phase it
  was in, shown as progressing, and asks for another reconcile after three seconds.
\<close>

theorem namespace_store_reconciled:
  assumes "status_condition_laws (c_SetStatusCondition c)" and "ns_ReconcilePhases c s = (r, s1)" and "r \<noteq> Panic"
  shows "\<exists>d s'. ns_then_complete c (ns_ReconcilePhases c) s = (Ok d, s') \<and>
     hist s' = hist s1 @ [StatusUpdated (ONamespaceStore (nr_NamespaceStore s'))] \<and>
     (case r of
        Ok _ \<Rightarrow> ns_phase_of s' = ns_mode_phase (nr_NamespaceStore s) \<and>
          (status_of ConditionAvailable (ns_conditions_of s') = Some ConditionTrue \<longleftrightarrow>
             ns_mode_phase (nr_NamespaceStore s) = NamespaceStorePhaseReady)
      | Err e \<Rightarrow> if IsPersistentError e
          then ns_phase_of s' = NamespaceStorePhaseRejected \<and> status_of ConditionDegraded (ns_conditions_of s') = Some ConditionTrue
          else ns_phase_of s' = ns_phase_of s1 \<and> ns_phase_of s1 \<noteq> NamespaceStorePhaseReady \<and>
            status_of ConditionProgressing (ns_conditions_of s') = Some ConditionTrue \<and> d = 3)"
proof -
  let ?err = "case r of Err e \<Rightarrow> Some e | _ \<Rightarrow> None"
  obtain d ns' where complete:
      "ns_completeReconcile c ?err s1 = (Ok d, s1\<lparr>nr_NamespaceStore := ns', hist := hist s1 @ [StatusUpdated (ONamespaceStore ns')]\<rparr>)"
      "ns_completed c ?err (nr_NamespaceStore s1) ns'"
      "d = (if c_write c (hist s1) (StatusUpdated (ONamespaceStore ns')) \<noteq> None then 3
          else case ?err of None \<Rightarrow> 0 | Some e \<Rightarrow> if IsPersistentError e then 0 else 3)"
    by (rule ns_completeReconcile_run)
  have "ns_then_complete c (ns_ReconcilePhases c) s = ns_completeReconcile c ?err s1"
    using assms(2,3) by (cases r) (simp_all add: ns_then_complete_def)
  moreover have mode: "ns_mode_phase (nr_NamespaceStore s1) = ns_mode_phase (nr_NamespaceStore s)"
    and phase: "ns_phase_of s1 \<notin> {NamespaceStorePhaseReady, NamespaceStorePhaseRejected}"
    using ns_phases_in_phases [of s c] assms(2) by (auto simp: ns_in_phases_def ns_mode_phase_def)
  moreover have "ns_mode_phase (nr_NamespaceStore s1) \<noteq> ns_phase_of s1"
    using ns_mode_phase_cases [of "nr_NamespaceStore s1"] phase by auto
  ultimately show ?thesis
    using complete ns_phased.conditions_show_phase [OF assms(1)] ns_mode_phase_cases [of "nr_NamespaceStore s"] assms(3)
    by (cases r; cases "projl (case r of Err e \<Rightarrow> Inl e | _ \<Rightarrow> Inr ())")
      (auto simp: ns_completed_def ns_phased.phase_SetPhase)
qed

definition ex_ns_state :: "NamespaceStore \<Rightarrow> ns_state" where
  "ex_ns_state ns = \<lparr>hist = [], nr_NamespaceStore = ns, nr_NooBaa = ex_system, nr_Secret = ex_secret_of ''noobaa'' ''creds'',
     nr_Connected = False, nr_SystemInfo = None, nr_ExternalConnectionInfo = None, nr_NamespaceResourceinfo = None,
     nr_AddExternalConnectionParams = None, nr_CreateNamespaceResourceParams = None, nr_UpdateExternalConnectionParams = None\<rparr>"

lemma Connect_ex_cluster: "Connect ex_cluster s = (Ok (), s\<lparr>hist := hist s @ [Looked, Looked, Looked, Looked]\<rparr>)"
  using Connect_ex [of "\<lambda>_. Inr ex_info" s] by (simp add: ex_cluster_def)

theorem namespace_store_reconciled_witness:
  "\<exists>d s'. ns_then_complete ex_cluster (ns_ReconcilePhases ex_cluster) (ex_ns_state (ex_nsfs_ns ''data'')) = (Ok d, s') \<and>
     ns_phase_of s' = NamespaceStorePhaseReady"
proof -
  let ?s = "ex_ns_state (ex_nsfs_ns ''data'')"
  obtain r s1 where run: "ns_ReconcilePhases ex_cluster ?s = (r, s1)" by (cases "ns_ReconcilePhases ex_cluster ?s")
  have valid: "ValidateNamespaceStore (c_Url ex_cluster) (ex_nsfs_ns ''data''\<lparr>ns_Status := st\<rparr>) = Ok (ex_nsfs_ns ''data''\<lparr>ns_Status := st\<rparr>)" for st
    by (simp add: ValidateNamespaceStore_def ns_checks ValidateNsStoreNSFS_def ex_objects require_def)
  note valid = valid [unfolded ex_objects, simplified]
  have "fst (ns_ReconcilePhases ex_cluster ?s) = Ok ()"
    by (simp add: ns_ReconcilePhases_def ns_ReconcilePhaseVerifying_def ns_set_phase_run ex_ns_state_def ex_objects
        ns_SetPhase_def ex_system_def valid ns_ReconcilePhaseConnecting_def ns_ReadSystemInfo_def Connect_ex_cluster query_def reply_def
        ex_info_def nsfs_params_def ns_ReconcilePhaseCreating_def ns_ReconcileExternalConnection_def ReconcileNamespaceStore_def
        ex_secret_of_def Let_def run_defs del: run_rules)
  with run have r: "r = Ok ()" by simp
  have "ns_mode_phase (nr_NamespaceStore ?s) = NamespaceStorePhaseReady"
    by (simp add: ns_mode_phase_def ex_ns_state_def ex_objects ns_modeInfoMap_def)
  with namespace_store_reconciled [OF ex_cluster_laws run] r show ?thesis by auto
qed

text \<open>
  A namespace store whose reconcile ends well without running the phases (the system is not found) is made ready when its mode
  says rejected and it already is rejected: the stored mode and the reported phase then contradict each other.
\<close>

theorem rejected_store_reported_ready:
  assumes "ns_mode_phase (nr_NamespaceStore s) = NamespaceStorePhaseRejected" and "ns_phase_of s = NamespaceStorePhaseRejected"
  shows "\<exists>d s'. ns_completeReconcile c None s = (Ok d, s') \<and> ns_phase_of s' = NamespaceStorePhaseReady \<and>
     ns_mode_phase (nr_NamespaceStore s') = NamespaceStorePhaseRejected"
proof -
  obtain d ns' where run:
    "ns_completeReconcile c None s = (Ok d, s\<lparr>nr_NamespaceStore := ns', hist := hist s @ [StatusUpdated (ONamespaceStore ns')]\<rparr>)"
    "ns_completed c None (nr_NamespaceStore s) ns'"
    by (rule ns_completeReconcile_run)
  from run(2) assms have "nst_Phase (ns_Status ns') = NamespaceStorePhaseReady"
    "nst_ModeCode (ns_Status ns') = nst_ModeCode (ns_Status (nr_NamespaceStore s))"
    by (auto simp: ns_completed_def ns_SetPhase_def Let_def)
  with run(1) assms(1) show ?thesis by (simp add: ns_mode_phase_def)
qed

theorem rejected_store_reported_ready_witness:
  "\<exists>d s'. ns_completeReconcile ex_cluster None (ex_ns_state ((ex_nsfs_ns ''data'')\<lparr>ns_Status :=
       \<lparr>nst_Phase = NamespaceStorePhaseRejected, nst_Conditions = [], nst_ModeCode = ''AUTH_FAILED''\<rparr>\<rparr>)) = (Ok d, s') \<and>
     ns_phase_of s' = NamespaceStorePhaseReady"
proof -
  let ?s = "ex_ns_state ((ex_nsfs_ns ''data'')\<lparr>ns_Status :=
       \<lparr>nst_Phase = NamespaceStorePhaseRejected, nst_Conditions = [], nst_ModeCode = ''AUTH_FAILED''\<rparr>\<rparr>)"
  have "ns_mode_phase (nr_NamespaceStore ?s) = NamespaceStorePhaseRejected" "ns_phase_of ?s = NamespaceStorePhaseRejected"
    by (simp_all add: ex_ns_state_def ns_mode_phase_def ns_modeInfoMap_def)
  from rejected_store_reported_ready [OF this, of ex_cluster] show ?thesis by blast
qed

section \<open>Deletion\<close>

definition ns_read_frame :: "SystemInfo option \<Rightarrow> NamespaceResourceInfo option \<Rightarrow> NamespaceStore \<Rightarrow> ns_state \<Rightarrow> bool" where
  "ns_read_frame si info ns s \<longleftrightarrow> nr_SystemInfo s = si \<and> nr_NamespaceResourceinfo s = info \<and> nr_NamespaceStore s = ns \<and> nr_Connected s"

lemma ns_ReadSystemInfo_deleting:
  assumes run: "ns_ReadSystemInfo c s = (r, s')" and ok: "r = Ok () \<or> (\<exists>e. r = Err e \<and> IsPersistentError e)"
    and del: "om_DeletionTimestamp (ns_Meta (nr_NamespaceStore s)) \<noteq> None"
  obtains h1 si where "prefix (hist s) h1" "hist s' = h1 @ [Called ReadSystemAPI]" "c_ReadSystem c h1 = Inr si"
    "ns_read_frame (Some si) (case first_with nri_Name (ns_Name (nr_NamespaceStore s)) (si_NamespaceResources si) of
        Some p \<Rightarrow> Some p | None \<Rightarrow> nr_NamespaceResourceinfo s) (nr_NamespaceStore s) s'"
proof -
  obtain rc s1 where conn0: "Connect c s = (rc, s1)" by (cases "Connect c s")
  define h where "h = hist s1"
  from Connect_only_hist [OF conn0] have conn: "Connect c s = (rc, s\<lparr>hist := h\<rparr>)" and h: "prefix (hist s) h"
    using conn0 by (simp_all add: h_def)
  have rc: "rc = Ok ()"
  proof (cases rc)
    case (Err e)
    with conn run have "r = Err e" by (simp add: ns_ReadSystemInfo_def)
    with ok raisesD [OF raises_Connect, of c s e] conn Err show ?thesis by simp
  next
    case Panic
    with conn run ok show ?thesis by (simp add: ns_ReadSystemInfo_def)
  qed simp
  obtain si where si: "c_ReadSystem c h = Inr si"
  proof (cases "c_ReadSystem c h")
    case (Inl e)
    with run ok conn rc show ?thesis by (auto simp: query_def reply_def ns_ReadSystemInfo_def)
  qed
  from run conn rc si del show ?thesis
    by (intro that [OF h _ si]) (auto simp: ns_ReadSystemInfo_def query_def reply_def ns_read_frame_def cong: option.case_cong)
qed

lemma delete_resource_made: "delete_resource c n s = (Ok (), s') \<Longrightarrow>
    c_call c (hist s) (DeleteNamespaceResourceAPI n) = None \<and> s' = s\<lparr>hist := hist s @ [Called (DeleteNamespaceResourceAPI n)]\<rparr>"
  by (auto simp: delete_resource_def split: option.splits if_splits)

text \<open>
  What the core has done before a namespace store is let go: as for a pool, and the only connection it was asked to
  delete is one that carries the name of the store.
\<close>

definition resource_released :: "cluster \<Rightarrow> string \<Rightarrow> history \<Rightarrow> history \<Rightarrow> bool" where
  "resource_released c n h0 h \<longleftrightarrow> (\<exists>h1 si es. prefix h0 h1 \<and> h = h1 @ [Called ReadSystemAPI] @ es \<and> c_ReadSystem c h1 = Inr si \<and>
     (n \<in> nri_Name ` set (si_NamespaceResources si) \<longrightarrow>
       (\<exists>h2. prefix (h1 @ [Called ReadSystemAPI]) h2 \<and> prefix (h2 @ [Called (DeleteNamespaceResourceAPI n)]) h \<and>
          c_call c h2 (DeleteNamespaceResourceAPI n) = None \<and>
          (\<forall>a \<in> set (si_Accounts si). ai_DefaultResource a = n \<longrightarrow> made c h2 (rehome (internal_pool_name si) a)))) \<and>
     (\<forall>m. Called (DeleteExternalConnectionAPI m) \<in> set es \<longrightarrow> m = n \<and> n \<in> eci_Name ` set (all_connections si)))"

abbreviation no_connection_deleted :: "event \<Rightarrow> bool" where
  "no_connection_deleted e \<equiv> (\<forall>m. e \<noteq> Called (DeleteExternalConnectionAPI m))"

lemma release_resource_run:
  assumes "release_resource c s = (Ok (), s')"
  obtains es where "s' = s\<lparr>hist := hist s @ es\<rparr>" "list_all no_connection_deleted es"
proof -
  have "emits no_connection_deleted (release_resource c)"
    unfolding release_resource_def delete_resource_def by (intro emit_rules; simp add: rehome_def)
  from emitsD [OF this assms] obtain es where es: "hist s' = hist s @ es" "list_all no_connection_deleted es" .
  have "keeps (\<lambda>x. \<exists>h. x = s\<lparr>hist := h\<rparr>) (release_resource c)"
    unfolding release_resource_def delete_resource_def by (intro keep_rules hist_freeI) auto
  from keepsD [OF this _ assms] obtain h where "s' = s\<lparr>hist := h\<rparr>" using exI [of "\<lambda>h. s = s\<lparr>hist := h\<rparr>" "hist s"] by auto
  with es that show ?thesis by simp
qed

lemma release_resource_released:
  assumes "release_resource c s = (Ok (), s')" "nr_SystemInfo s = Some si" "nr_NamespaceResourceinfo s = Some p"
  obtains h2 where "prefix (hist s) h2" "hist s' = h2 @ [Called (DeleteNamespaceResourceAPI (nri_Name p))]"
    "c_call c h2 (DeleteNamespaceResourceAPI (nri_Name p)) = None"
    "\<And>a. a \<in> set (si_Accounts si) \<Longrightarrow> ai_DefaultResource a = nri_Name p \<Longrightarrow> made c h2 (rehome (internal_pool_name si) a)"
proof -
  from assms have "seqp (rehome_accounts c si (nri_Name p)) (delete_resource c (nri_Name p)) s = (Ok (), s')"
    by (simp add: release_resource_def)
  then obtain s1 where re: "rehome_accounts c si (nri_Name p) s = (Ok (), s1)" and del: "delete_resource c (nri_Name p) s1 = (Ok (), s')"
    by (elim seqp_OkE) simp
  show ?thesis
    using that [of "hist s1"] rehome_accounts_grows [OF re] rehome_accounts_made [OF re] delete_resource_made [OF del] by simp
qed

lemma release_owned_connection_run:
  assumes "release_owned_connection c s = (Ok (), s')" "nr_SystemInfo s = Some si"
  obtains es where "s' = s\<lparr>hist := hist s @ es\<rparr>"
    "\<And>m. Called (DeleteExternalConnectionAPI m) \<in> set es \<Longrightarrow>
       m = ns_Name (nr_NamespaceStore s) \<and> m \<in> eci_Name ` set (all_connections si)"
proof (cases "nr_Connected s \<and> ns_Type (nr_NamespaceStore s) \<noteq> NSStoreTypeNSFS \<and> hasOwnedExternalConnection s")
  case True
  then have "s' = s\<lparr>hist := hist s @ [Called (DeleteExternalConnectionAPI (ns_Name (nr_NamespaceStore s)))]\<rparr>"
    using assms(1)
    by (auto simp: release_owned_connection_def delete_connection_def whenp_def split: option.splits if_splits)
  moreover have "ns_Name (nr_NamespaceStore s) \<in> eci_Name ` set (all_connections si)"
    using True assms(2) by (force simp: hasOwnedExternalConnection_def list_ex_iff)
  ultimately show ?thesis by (intro that) auto
next
  case False
  then have "s' = s\<lparr>hist := hist s @ []\<rparr>"
    using assms(1) by (auto simp: release_owned_connection_def whenp_def split: if_splits)
  then show ?thesis by (intro that [of "[]"]) auto
qed

lemma ns_release_released:
  assumes run: "ns_release c s = (Ok (), s')" and del: "om_DeletionTimestamp (ns_Meta (nr_NamespaceStore s)) \<noteq> None"
  shows "resource_released c (ns_Name (nr_NamespaceStore s)) (hist s) (hist s') \<and> nr_NamespaceStore s' = nr_NamespaceStore s"
proof -
  let ?n = "ns_Name (nr_NamespaceStore s)"
  from run [unfolded ns_release_def] obtain s1 s2 where read: "ns_read_for_deletion c s = (Ok (), s1)"
    and res: "release_resource c s1 = (Ok (), s2)" and conn: "release_owned_connection c s2 = (Ok (), s')"
    by (elim seqp_OkE) simp
  from read obtain r where r: "ns_ReadSystemInfo c s = (r, s1)" "r = Ok () \<or> (\<exists>e. r = Err e \<and> IsPersistentError e)"
    unfolding ns_read_for_deletion_def
    by (cases "ns_ReadSystemInfo c s"; cases "fst (ns_ReadSystemInfo c s)") (auto split: if_splits)
  obtain h1 si where h1: "prefix (hist s) h1" "hist s1 = h1 @ [Called ReadSystemAPI]" "c_ReadSystem c h1 = Inr si"
    and frame: "ns_read_frame (Some si) (case first_with nri_Name ?n (si_NamespaceResources si) of
        Some p \<Rightarrow> Some p | None \<Rightarrow> nr_NamespaceResourceinfo s) (nr_NamespaceStore s) s1"
    using ns_ReadSystemInfo_deleting [OF r del] .
  obtain es1 where s2: "s2 = s1\<lparr>hist := hist s1 @ es1\<rparr>" "list_all no_connection_deleted es1"
    using release_resource_run [OF res] .
  obtain es2 where s': "s' = s2\<lparr>hist := hist s2 @ es2\<rparr>"
    and owned: "\<And>m. Called (DeleteExternalConnectionAPI m) \<in> set es2 \<Longrightarrow>
       m = ns_Name (nr_NamespaceStore s2) \<and> m \<in> eci_Name ` set (all_connections si)"
    using release_owned_connection_run [OF conn] frame s2(1) by (auto simp: ns_read_frame_def)
  have deleted: "\<exists>h2. prefix (h1 @ [Called ReadSystemAPI]) h2 \<and> prefix (h2 @ [Called (DeleteNamespaceResourceAPI ?n)]) (hist s') \<and>
          c_call c h2 (DeleteNamespaceResourceAPI ?n) = None \<and>
          (\<forall>a \<in> set (si_Accounts si). ai_DefaultResource a = ?n \<longrightarrow> made c h2 (rehome (internal_pool_name si) a))"
    if "?n \<in> nri_Name ` set (si_NamespaceResources si)"
  proof -
    from that obtain p where p: "first_with nri_Name ?n (si_NamespaceResources si) = Some p"
      by (cases "first_with nri_Name ?n (si_NamespaceResources si)") (auto simp: first_with_None)
    then have info: "nr_SystemInfo s1 = Some si" "nr_NamespaceResourceinfo s1 = Some p" "nri_Name p = ?n"
      using frame first_with_SomeD [OF p] by (simp_all add: ns_read_frame_def)
    from release_resource_released [OF res info(1,2)] obtain h2 where
      "prefix (hist s1) h2" "hist s2 = h2 @ [Called (DeleteNamespaceResourceAPI ?n)]" "c_call c h2 (DeleteNamespaceResourceAPI ?n) = None"
      "\<And>a. a \<in> set (si_Accounts si) \<Longrightarrow> ai_DefaultResource a = ?n \<Longrightarrow> made c h2 (rehome (internal_pool_name si) a)"
      using info(3) by metis
    then show ?thesis using h1(2) s' by (intro exI [of _ h2]) simp
  qed
  have ns: "nr_NamespaceStore s2 = nr_NamespaceStore s" using s2(1) frame by (simp add: ns_read_frame_def)
  have "resource_released c ?n (hist s) (hist s')"
    unfolding resource_released_def
  proof (intro exI conjI)
    show "hist s' = h1 @ [Called ReadSystemAPI] @ (es1 @ es2)" using s' s2(1) h1(2) by simp
    show "\<forall>m. Called (DeleteExternalConnectionAPI m) \<in> set (es1 @ es2) \<longrightarrow> m = ?n \<and> ?n \<in> eci_Name ` set (all_connections si)"
      using s2(2) owned ns by (fastforce simp: list_all_iff)
  qed (use h1 deleted in blast)+
  then show ?thesis using ns s' by simp
qed

lemma ns_FinalizeDeletion_run:
  assumes "ns_FinalizeDeletion c s = (Ok (), s')"
  obtains ns where "hist s' = hist s @ [Updated (ONamespaceStore ns)]" "c_write c (hist s) (Updated (ONamespaceStore ns)) = None"
    "ns_Name ns = ns_Name (nr_NamespaceStore s)" "Finalizer \<notin> set (om_Finalizers (ns_Meta ns))"
proof -
  let ?ns = "nr_NamespaceStore s\<lparr>ns_Meta := snd (RemoveFinalizer (ns_Meta (nr_NamespaceStore s)) Finalizer)\<rparr>"
  from assms obtain b where "update (ns_client c) ?ns (s\<lparr>nr_NamespaceStore := ?ns\<rparr>) = (Ok b, s')" "b"
    by (auto simp: ns_FinalizeDeletion_def Let_def elim!: bindp_OkE split: if_splits)
  then have "update (ns_client c) ?ns (s\<lparr>nr_NamespaceStore := ?ns\<rparr>) = (Ok True, s')" by simp
  then have "c_write c (hist s) (Updated (ONamespaceStore ?ns)) = None" "hist s' = hist s @ [Updated (ONamespaceStore ?ns)]"
    unfolding ns_client_def update_accepted by simp_all
  then show ?thesis by (intro that [of ?ns]) (simp_all add: RemoveFinalizer_eq)
qed

text \<open>
  C2. A namespace store is let go only when nothing depends on it any more: when its deletion ends well, the last event is
  the accepted update that removes the finalizer, and before it, if the system is running, the core was read, and if it
  has a resource of that name it accepted a new default for every account of the resource and then the deletion of the
  resource.  The only external connection that is deleted on the way is one with the name of the store: a connection that
  the store shares with the store that made it stays.
\<close>

theorem namespace_store_released_in_order:
  assumes "ns_ReconcileDeletion c systemFound s = (Ok (), s')" and "om_DeletionTimestamp (ns_Meta (nr_NamespaceStore s)) \<noteq> None"
  shows "\<exists>h h0 ns. hist s' = h @ [Updated (ONamespaceStore ns)] \<and> c_write c h (Updated (ONamespaceStore ns)) = None \<and>
     Finalizer \<notin> set (om_Finalizers (ns_Meta ns)) \<and> ns_Name ns = ns_Name (nr_NamespaceStore s) \<and> prefix (hist s) h0 \<and>
     (if systemFound then resource_released c (ns_Name ns) h0 h else h = h0)"
proof -
  from assms(1) [unfolded ns_ReconcileDeletion_def] obtain s1 s2 where
    status: "ns_mark_deleting c s = (Ok (), s1)" and core: "whenp systemFound (ns_release c) s1 = (Ok (), s2)"
    and fin: "ns_FinalizeDeletion c s2 = (Ok (), s')"
    by (elim seqp_OkE) simp
  have s1: "ns_Meta (nr_NamespaceStore s1) = ns_Meta (nr_NamespaceStore s)" "prefix (hist s) (hist s1)"
    using status unfolding ns_mark_deleting_def
    by (auto simp: whenp_def ns_set_phase_run ns_UpdateStatus_run ns_phased.meta_SetPhase split: if_splits option.splits)
  have s2: "ns_Name (nr_NamespaceStore s2) = ns_Name (nr_NamespaceStore s)"
    "if systemFound then resource_released c (ns_Name (nr_NamespaceStore s)) (hist s1) (hist s2) else hist s2 = hist s1"
    using core ns_release_released [of c s1 s2] s1(1) assms(2) by (auto simp: whenp_def split: if_splits)
  obtain ns where ns: "hist s' = hist s2 @ [Updated (ONamespaceStore ns)]" "c_write c (hist s2) (Updated (ONamespaceStore ns)) = None"
    "ns_Name ns = ns_Name (nr_NamespaceStore s2)" "Finalizer \<notin> set (om_Finalizers (ns_Meta ns))"
    using ns_FinalizeDeletion_run [OF fin] .
  show ?thesis
    by (intro exI [of _ "hist s2"] exI [of _ "hist s1"] exI [of _ ns]) (use ns s1 s2 in simp)
qed

definition ex_deleted_ns :: NamespaceStore where
  "ex_deleted_ns = (let ns = ex_s3_ns ''https://h'' in ns\<lparr>ns_Meta := (ns_Meta ns)\<lparr>om_DeletionTimestamp := Some 1, om_Finalizers := [Finalizer]\<rparr>\<rparr>)"

definition ex_ns_info :: SystemInfo where
  "ex_ns_info = ex_info\<lparr>si_NamespaceResources := [\<lparr>nri_Name = ''ns'', nri_Mode = ''OPTIMAL'', nri_Undeletable = '''',
     nri_EndpointType = EndpointTypeS3Compat, nri_Endpoint = ''https://h'', nri_TargetBucket = ''data'', nri_Identity = '''', nri_AuthMethod = ''''\<rparr>],
     si_Accounts := [ex_account\<lparr>ai_DefaultResource := ''ns''\<rparr>]\<rparr>"

definition ex_ns_cluster :: cluster where
  "ex_ns_cluster = ex_cluster\<lparr>c_ReadSystem := (\<lambda>_. Inr ex_ns_info)\<rparr>"

theorem namespace_store_released_in_order_witness:
  "\<exists>s' h h0 ns. ns_ReconcileDeletion ex_ns_cluster True (ex_ns_state ex_deleted_ns) = (Ok (), s') \<and>
     hist s' = h @ [Updated (ONamespaceStore ns)] \<and> resource_released ex_ns_cluster ''ns'' h0 h"
proof -
  let ?s = "ex_ns_state ex_deleted_ns"
  have fields: "c_write ex_ns_cluster h ev = None" "c_call ex_ns_cluster h r = None" "c_ReadSystem ex_ns_cluster h = Inr ex_ns_info"
    "c_SetStatusCondition ex_ns_cluster = list_set_condition" for h ev r
    by (simp_all add: ex_ns_cluster_def)
  have "fst (ns_ReconcileDeletion ex_ns_cluster True ?s) = Ok ()"
    by (simp add: ns_ReconcileDeletion_def ns_mark_deleting_def ns_UpdateStatus_run ns_set_phase_run ex_ns_state_def ex_deleted_ns_def
        ex_objects fields ns_release_def ns_read_for_deletion_def ns_ReadSystemInfo_def
        Connect_ex [of "\<lambda>_. Inr ex_ns_info", folded ex_ns_cluster_def] query_def reply_def ns_SetPhase_def ex_ns_info_def
        ex_account_def ex_info_def release_resource_def rehome_accounts_def call_run delete_resource_def
        release_owned_connection_def hasOwnedExternalConnection_def all_connections_def delete_connection_def
        ns_FinalizeDeletion_def update_run ns_client_def KubeUpdate_def Let_def run_defs del: run_rules)
  then obtain s' where run: "ns_ReconcileDeletion ex_ns_cluster True ?s = (Ok (), s')" by (metis prod.collapse)
  have "ns_Name (nr_NamespaceStore ?s) = ''ns''" "om_DeletionTimestamp (ns_Meta (nr_NamespaceStore ?s)) \<noteq> None"
    by (simp_all add: ex_ns_state_def ex_deleted_ns_def ex_objects Let_def)
  with namespace_store_released_in_order [OF run] run show ?thesis by metis
qed

end
