(* ===== verification/BC_Reconciler.thy ===== *)
theory BC_Reconciler
  imports BS_Reconciler
begin

text \<open>
  The bucket class reconciler, \<^verbatim>\<open>pkg/bucketclass/reconciler.go\<close>: a bucket class is verified against the
  stores it names, then the buckets made from an older generation of it are brought up to date.  The look-ups of one
  validation see one state of the cluster.
\<close>

section \<open>State and phases\<close>

record bc_state = "event logged" +
  cr_BucketClass :: BucketClass
  cr_NooBaa :: NooBaa

type_synonym 'a bc_proc = "(bc_state, 'a) proc"

definition bc_SetPhase :: "set_condition \<Rightarrow> BucketClassPhase \<Rightarrow> string \<Rightarrow> string \<Rightarrow> BucketClass \<Rightarrow> BucketClass" where
  "bc_SetPhase setc phase reason message bc =
     (let st = bc_Status bc in
      if phase = BucketClassPhaseNone
      then bc\<lparr>bc_Status := st\<lparr>bct_Conditions := SetProgressingCondition setc (bct_Conditions st) reason message\<rparr>\<rparr>
      else bc\<lparr>bc_Status := st\<lparr>bct_Phase := phase, bct_Conditions :=
        (case phase of
           BucketClassPhaseReady \<Rightarrow> SetAvailableCondition setc (bct_Conditions st) reason message
         | BucketClassPhaseRejected \<Rightarrow> SetErrorCondition setc (bct_Conditions st) reason message
         | _ \<Rightarrow> SetProgressingCondition setc (bct_Conditions st) reason message)\<rparr>\<rparr>)"

definition bc_set_phase :: "cluster \<Rightarrow> BucketClassPhase \<Rightarrow> string \<Rightarrow> string \<Rightarrow> unit bc_proc" where
  "bc_set_phase c phase reason message =
     modify (\<lambda>s. s\<lparr>cr_BucketClass := bc_SetPhase (c_SetStatusCondition c) phase reason message (cr_BucketClass s)\<rparr>)"

definition bc_UpdateStatus :: "cluster \<Rightarrow> unit bc_proc" where
  "bc_UpdateStatus c = bindp (gets (\<lambda>s. OBucketClass (cr_BucketClass s))) (update_status c)"

section \<open>Verifying\<close>

definition lookups_at :: "cluster \<Rightarrow> history \<Rightarrow> lookups" where
  "lookups_at c h = \<lparr>get_BackingStore = (\<lambda>n nsp. c_BackingStore c h nsp n), get_NamespaceStore = (\<lambda>n nsp. c_NamespaceStore c h nsp n)\<rparr>"

definition looked_up :: "cluster \<Rightarrow> (lookups \<Rightarrow> check) \<Rightarrow> check bc_proc" where
  "looked_up c f = bindp (asks (\<lambda>h. f (lookups_at c h))) (\<lambda>r. seqp (emit Looked) (ret r))"

definition validate_class :: "cluster \<Rightarrow> BucketClass \<Rightarrow> unit bc_proc" where
  "validate_class c bc = bindp (looked_up c (\<lambda>k. ValidateBucketClass k (c_ParseQuantity c) (Some bc))) (\<lambda>r. case r of
     Panic \<Rightarrow> lift Panic
   | Err e \<Rightarrow> raise (PersistentError ''ValidationError'' (Error e))
   | Ok _ \<Rightarrow> ret ())"

definition bc_ReconcilePhaseVerifying :: "cluster \<Rightarrow> unit bc_proc" where
  "bc_ReconcilePhaseVerifying c =
     seqp (bc_set_phase c BucketClassPhaseVerifying ''BucketClassPhaseVerifying'' ''noobaa operator started phase 1/2 - \"Verifying\"'')
     (bindp (gets cr_BucketClass) (\<lambda>bc.
      bindp (gets (\<lambda>s. nb_Meta (cr_NooBaa s))) (\<lambda>nb.
      let sp = bc_Spec bc; nsp = om_Namespace nb in
      seqp (validate_class c bc)
      (seqp (whenp (om_UID nb = '''')
        (raise (PersistentError ''MissingSystem'' (''NooBaa system '' @ go_quote (om_Name nb) @ '' not found or deleted''))))
      (seqp (whenp (bcs_PlacementPolicy sp \<noteq> None)
        (bindp (looked_up c (\<lambda>k. ValidatePlacementPolicy k (bcs_PlacementPolicy sp) nsp)) lift))
      (seqp (whenp (bcs_NamespacePolicy sp \<noteq> None)
        (bindp (looked_up c (\<lambda>k. ValidateNamespacePolicy k (bcs_NamespacePolicy sp) nsp)) lift))
      (whenp (bcs_VectorPolicy sp \<noteq> None)
        (bindp (looked_up c (\<lambda>k. ValidateVectorPolicy k (bcs_VectorPolicy sp) (bcs_PlacementPolicy sp)
           (bcs_NamespacePolicy sp) nsp)) lift))))))))"

section \<open>Buckets of an older generation\<close>

text \<open>An object bucket is its bucket name and its additional state.\<close>

definition outdated :: "BucketClass \<Rightarrow> (string \<times> (string \<rightharpoonup> string)) \<Rightarrow> bool" where
  "outdated bc ob \<longleftrightarrow> map_get (Some (snd ob)) ''bucketclass'' = bc_Name bc \<and>
     map_get (Some (snd ob)) ''bucketclassgeneration'' \<noteq> show_int (om_Generation (bc_Meta bc))"

definition CreateNamespaceBucketInfoStructure :: "NamespacePolicy \<Rightarrow> string \<Rightarrow> NamespaceBucketInfo result" where
  "CreateNamespaceBucketInfoStructure np path =
     (let res = (\<lambda>r p. \<lparr>nrc_Resource = r, nrc_Path = p\<rparr>) in case np_Type np of
        NSBucketClassTypeSingle \<Rightarrow> bind_r (deref (np_Single np)) (\<lambda>r.
          Ok \<lparr>nbi_WriteResource = res r path, nbi_ReadResources = [res r ''''], nbi_CachingTTLMs = None\<rparr>)
      | NSBucketClassTypeMulti \<Rightarrow> bind_r (deref (np_Multi np)) (\<lambda>m.
          Ok \<lparr>nbi_WriteResource = (if multi_WriteResource m \<noteq> '''' then res (multi_WriteResource m) path else res '''' ''''),
            nbi_ReadResources = map (\<lambda>r. res r '''') (multi_ReadResources m), nbi_CachingTTLMs = None\<rparr>)
      | NSBucketClassTypeCache \<Rightarrow> bind_r (deref (np_Cache np)) (\<lambda>ca. bind_r (deref (cache_Caching ca)) (\<lambda>caching.
          Ok \<lparr>nbi_WriteResource = res (cache_HubResource ca) '''', nbi_ReadResources = [res (cache_HubResource ca) ''''],
            nbi_CachingTTLMs = Some (cache_TTL caching)\<rparr>))
      | NSBucketClassTypeOther _ \<Rightarrow> Ok \<lparr>nbi_WriteResource = res '''' '''', nbi_ReadResources = [], nbi_CachingTTLMs = None\<rparr>)"

definition update_bucket :: "cluster \<Rightarrow> NamespaceBucketInfo \<Rightarrow> string \<Rightarrow> unit bc_proc" where
  "update_bucket c info n = bindp (attempt c (UpdateBucketAPI \<lparr>cbp_Name = n, cbp_Tiering = '''', cbp_BucketClaim = None, cbp_Quota = None, cbp_Namespace = Some info, cbp_ArchivePolicy = None\<rparr>)) (\<lambda>e.
     case e of None \<Rightarrow> ret ()
     | Some err \<Rightarrow> raise (PlainError (''Failed to update obcs '' @ go_quote n @ '' with error: '' @ Error (rpc_go err))))"

definition updateNamespaceBucketClass :: "cluster \<Rightarrow> string list \<Rightarrow> unit bc_proc" where
  "updateNamespaceBucketClass c bucketNames =
     bindp (gets (\<lambda>s. bcs_NamespacePolicy (bc_Spec (cr_BucketClass s)))) (\<lambda>p. case p of
       None \<Rightarrow> ret ()
     | Some np \<Rightarrow> bindp (lift (CreateNamespaceBucketInfoStructure np '''')) (\<lambda>info. forp (update_bucket c info) bucketNames))"

definition archive_params :: "string \<Rightarrow> string \<Rightarrow> CreateBucketParams" where
  "archive_params resource n = \<lparr>cbp_Name = n, cbp_Tiering = '''', cbp_BucketClaim = None, cbp_Quota = None, cbp_Namespace = None,
     cbp_ArchivePolicy = Some \<lparr>nrc_Resource = resource, nrc_Path = ''''\<rparr>\<rparr>"

text \<open>One bucket of the archive loop: the error that is collected, if any.\<close>

definition archive_bucket :: "cluster \<Rightarrow> string \<Rightarrow> string \<Rightarrow> string option bc_proc" where
  "archive_bucket c resource n =
     bindp (query (ReadBucketAPI n) (\<lambda>h. c_ReadBucket c h n)) (\<lambda>r. case r of
       Inl err \<Rightarrow> ret (Some (''failed to read bucket '' @ go_quote n @ '' for archive policy update: '' @ Error (rpc_go err)))
     | Inr (Some _) \<Rightarrow> ret None
     | Inr None \<Rightarrow> bindp (attempt c (UpdateBucketAPI (archive_params resource n))) (\<lambda>e. ret (case e of
         None \<Rightarrow> None
       | Some err \<Rightarrow> if rpc_code err = Some ''BUCKET_HAS_ARCHIVED_OBJECTS'' then None
           else Some (''failed to apply archive policy to bucket '' @ go_quote n @ '': '' @ Error (rpc_go err)))))"

fun archive_buckets :: "cluster \<Rightarrow> string \<Rightarrow> string list \<Rightarrow> string list bc_proc" where
  "archive_buckets c resource [] = ret []"
| "archive_buckets c resource (n # ns) = bindp (archive_bucket c resource n) (\<lambda>e.
     bindp (archive_buckets c resource ns) (\<lambda>errs. ret (case e of None \<Rightarrow> errs | Some m \<Rightarrow> m # errs)))"

text \<open>\<open>errors.Join\<close>: no error when there is nothing to join.\<close>

definition errors_Join :: "string list \<Rightarrow> check" where
  "errors_Join errs = (if errs = [] then pass else Err (PlainError (concat (tl (concat (map (\<lambda>e. [[CHR 0x0A], e]) errs))))))"

definition updateArchivePolicyForExistingBuckets :: "cluster \<Rightarrow> string list \<Rightarrow> unit bc_proc" where
  "updateArchivePolicyForExistingBuckets c bucketNames =
     bindp (gets (\<lambda>s. bcs_ArchivePolicy (bc_Spec (cr_BucketClass s)))) (\<lambda>p. case p of
       None \<Rightarrow> ret ()
     | Some ap \<Rightarrow>
         if ap_DeepArchiveResource ap = '''' then ret ()
         else bindp (archive_buckets c (ap_DeepArchiveResource ap) bucketNames) (\<lambda>errs. lift (errors_Join errs)))"

section \<open>Updating a bucket class\<close>

definition tier_info :: "Tier \<Rightarrow> TierInfo" where
  "tier_info t = \<lparr>ti_Name = ''TEMP'', ti_DataPlacement = (if tier_Placement t = TierPlacementMirror then ''MIRROR'' else ''SPREAD''),
     ti_AttachedPools = tier_BackingStores t\<rparr>"

definition class_params :: "string \<Rightarrow> Tier list \<Rightarrow> UpdateBucketClassParams" where
  "class_params n tiers = \<lparr>ubc_Name = n, ubc_PolicyName = ''TEMP'',
     ubc_PolicyTiers = map (\<lambda>i. (int i, ''TEMP'')) [0..<length tiers], ubc_Tiers = map tier_info tiers\<rparr>"

definition revert_tier :: "TierInfo \<Rightarrow> Tier" where
  "revert_tier t = \<lparr>tier_Placement = (if ti_DataPlacement t = ''MIRROR'' then TierPlacementMirror else TierPlacementSpread),
     tier_BackingStores = ti_AttachedPools t\<rparr>"

definition revert_class :: "cluster \<Rightarrow> BucketClassInfo \<Rightarrow> unit bc_proc" where
  "revert_class c result =
     seqp (modify (\<lambda>s. let bc = cr_BucketClass s; sp = bc_Spec bc in
       s\<lparr>cr_BucketClass := bc\<lparr>bc_Spec := sp\<lparr>bcs_PlacementPolicy := Some \<lparr>pp_Tiers = map revert_tier (bcinfo_RevertTiers result)\<rparr>\<rparr>\<rparr>\<rparr>))
     (bindp (gets cr_BucketClass) (\<lambda>bc. bindp (update (bc_client c) bc) (\<lambda>_.
        raise (PersistentError ''InvalidConfReverting'' (''Unable to change bucketclass due to error: '' @ bcinfo_ErrorMessage result)))))"

definition update_placement :: "cluster \<Rightarrow> string list \<Rightarrow> PlacementPolicy \<Rightarrow> unit bc_proc" where
  "update_placement c bucketNames pp =
     bindp (gets (\<lambda>s. bc_Name (cr_BucketClass s))) (\<lambda>n. let params = class_params n (pp_Tiers pp) in
     bindp (query (UpdateBucketClassAPI params) (\<lambda>h. c_UpdateBucketClass c h params)) (\<lambda>r. case r of
       Inl err \<Rightarrow> raise (PlainError (''Failed to update bucket class '' @ go_quote n @ '' with error: '' @ Error (rpc_go err)
         @ '' - Can't revert changes''))
     | Inr result \<Rightarrow> if bcinfo_ShouldRevert result then revert_class c result
         else updateArchivePolicyForExistingBuckets c bucketNames))"

definition UpdateBucketClass :: "cluster \<Rightarrow> string list \<Rightarrow> unit bc_proc" where
  "UpdateBucketClass c bucketNames =
     bindp (gets cr_BucketClass) (\<lambda>bc. let sp = bc_Spec bc in
     if bcs_VectorPolicy sp \<noteq> None
     then raise (PlainError (''updating vector bucket class '' @ go_quote (bc_Name bc) @ '' is not yet supported''))
     else if bcs_PlacementPolicy sp = None \<and> bcs_NamespacePolicy sp \<noteq> None then updateNamespaceBucketClass c bucketNames
     else bindp (lift (deref (bcs_PlacementPolicy sp))) (update_placement c bucketNames))"

definition bc_ReconcilePhaseConfiguring :: "cluster \<Rightarrow> unit bc_proc" where
  "bc_ReconcilePhaseConfiguring c =
     seqp (bc_set_phase c BucketClassPhaseConfiguring ''BucketClassPhaseConfiguring'' ''noobaa operator started phase 2/2 - \"Configuring\"'')
     (bindp (look_list (c_ListObjectBuckets c) []) (\<lambda>obs.
      bindp (gets cr_BucketClass) (\<lambda>bc.
      let bucketNames = map fst (filter (outdated bc) obs) in
      if bucketNames = [] then ret ()
      else seqp (Connect c) (UpdateBucketClass c bucketNames))))"

definition bc_ReconcilePhases :: "cluster \<Rightarrow> unit bc_proc" where
  "bc_ReconcilePhases c = seqp (bc_ReconcilePhaseVerifying c) (bc_ReconcilePhaseConfiguring c)"

section \<open>Deletion and Reconcile\<close>

definition bc_mark_deleting :: "cluster \<Rightarrow> unit bc_proc" where
  "bc_mark_deleting c = bindp (gets (\<lambda>s. bct_Phase (bc_Status (cr_BucketClass s)))) (\<lambda>phase.
     whenp (phase \<noteq> BucketClassPhaseDeleting)
       (seqp (bc_set_phase c BucketClassPhaseDeleting ''BucketClassPhaseDeleting'' ''noobaa operator started deletion'')
         (bc_UpdateStatus c)))"

definition bc_FinalizeDeletion :: "cluster \<Rightarrow> unit bc_proc" where
  "bc_FinalizeDeletion c =
     seqp (modify (\<lambda>s. let bc = cr_BucketClass s in
       s\<lparr>cr_BucketClass := bc\<lparr>bc_Meta := snd (RemoveFinalizer (bc_Meta bc) Finalizer)\<rparr>\<rparr>))
     (bindp (gets cr_BucketClass) (\<lambda>bc.
      bindp (update (bc_client c) bc) (\<lambda>ok.
      if ok then ret ()
      else raise (PlainError (''BucketClass '' @ go_quote (bc_Name bc) @ '' failed to remove finalizer '' @ go_quote Finalizer)))))"

definition bc_ReconcileDeletion :: "cluster \<Rightarrow> unit bc_proc" where
  "bc_ReconcileDeletion c = seqp (bc_mark_deleting c) (bc_FinalizeDeletion c)"

definition bc_complete_phase :: "cluster \<Rightarrow> go_error option \<Rightarrow> unit bc_proc" where
  "bc_complete_phase c err = (case err of
     Some (PersistentError reason message) \<Rightarrow> bc_set_phase c BucketClassPhaseRejected reason message
   | Some e \<Rightarrow> bc_set_phase c BucketClassPhaseNone ''TemporaryError'' (Error e)
   | None \<Rightarrow> bc_set_phase c BucketClassPhaseReady ''BucketClassPhaseReady''
       ''noobaa operator completed reconcile - bucket class is ready'')"

text \<open>The end of \<open>Reconcile\<close>: the phases, the status by their outcome, and the seconds until the next reconcile.\<close>

definition bc_complete :: "cluster \<Rightarrow> nat bc_proc" where
  "bc_complete c = bindp (tryp (bc_ReconcilePhases c)) (\<lambda>r. let err = (case r of Inl e \<Rightarrow> Some e | Inr _ \<Rightarrow> None) in
     seqp (bc_complete_phase c err)
     (bindp (tryp (bc_UpdateStatus c)) (\<lambda>r1. ret (case r1 of
        Inl _ \<Rightarrow> 3
      | Inr _ \<Rightarrow> (case err of None \<Rightarrow> 0 | Some e \<Rightarrow> if IsPersistentError e then 0 else 3)))))"

definition bc_Reconcile :: "cluster \<Rightarrow> nat bc_proc" where
  "bc_Reconcile c =
     bindp (bindp (gets cr_NooBaa) (CheckSystem c)) (\<lambda>(systemFound, nb).
     seqp (modify (\<lambda>s. s\<lparr>cr_NooBaa := nb\<rparr>))
     (bindp (gets cr_BucketClass) (\<lambda>bc0.
      bindp (look (\<lambda>h. c_BucketClass c h (bc_Namespace bc0) (bc_Name bc0))) (\<lambda>p. case p of
        None \<Rightarrow> ret 0
      | Some bc \<Rightarrow> seqp (modify (\<lambda>s. s\<lparr>cr_BucketClass := bc\<rparr>))
          (if om_DeletionTimestamp (bc_Meta bc) \<noteq> None then seqp (bc_ReconcileDeletion c) (ret 0)
           else if \<not> systemFound then ret 0
           else (case EnsureCommonMetaFields (bc_Meta bc) Finalizer of (changed, m) \<Rightarrow>
             let bc1 = bc\<lparr>bc_Meta := m\<rparr> in
             seqp (modify (\<lambda>s. s\<lparr>cr_BucketClass := bc1\<rparr>))
             (bindp (if changed then update (bc_client c) bc1 else ret True) (\<lambda>ok.
              if ok then bc_complete c else ret 3))))))))"

section \<open>Phases and conditions\<close>

interpretation bc_phased: phased_resource bc_SetPhase "\<lambda>bc. bct_Phase (bc_Status bc)" "\<lambda>bc. bct_Conditions (bc_Status bc)"
  bc_Meta BucketClassPhaseNone BucketClassPhaseReady BucketClassPhaseRejected
  by unfold_locales (auto simp: bc_SetPhase_def Let_def split: BucketClassPhase.splits)

lemma bc_set_phase_run: "bc_set_phase c p r m s =
    (Ok (), s\<lparr>cr_BucketClass := bc_SetPhase (c_SetStatusCondition c) p r m (cr_BucketClass s)\<rparr>)"
  by (simp add: bc_set_phase_def)

lemma bc_SetPhase_Spec [simp]: "bc_Spec (bc_SetPhase setc p r m bc) = bc_Spec bc"
  by (simp add: bc_SetPhase_def Let_def)

section \<open>The archive policy of existing buckets\<close>

lemma archive_bucket_run:
  "\<exists>e. archive_bucket c res n s = (Ok e, s\<lparr>hist := hist s @ Called (ReadBucketAPI n) #
     (if c_ReadBucket c (hist s) n = Inr None then [Called (UpdateBucketAPI (archive_params res n))] else [])\<rparr>)"
  by (auto simp: archive_bucket_def query_def split: sum.splits option.splits)

text \<open>
  A log of the loop over the buckets: a bucket is updated right after it was read and found without an archive policy,
  and in no other case.
\<close>

definition archive_log :: "cluster \<Rightarrow> string \<Rightarrow> history \<Rightarrow> event list \<Rightarrow> bool" where
  "archive_log c res h es \<longleftrightarrow>
     (\<forall>xs p ys. es = xs @ Called (UpdateBucketAPI p) # ys \<longrightarrow>
        (\<exists>zs n. xs = zs @ [Called (ReadBucketAPI n)] \<and> p = archive_params res n \<and> c_ReadBucket c (h @ zs) n = Inr None)) \<and>
     (\<forall>xs n ys. es = xs @ Called (ReadBucketAPI n) # ys \<longrightarrow> c_ReadBucket c (h @ xs) n = Inr None \<longrightarrow>
        (\<exists>zs. ys = Called (UpdateBucketAPI (archive_params res n)) # zs))"

lemma archive_log_Nil: "archive_log c res h []"
  by (simp add: archive_log_def)

text \<open>Extending a log at the front by the events of one bucket.\<close>

lemma archive_log_front:
  assumes log: "archive_log c res (h @ pre) es"
    and pre: "pre = Called (ReadBucketAPI n) # (if c_ReadBucket c h n = Inr None then [Called (UpdateBucketAPI (archive_params res n))] else [])"
  shows "archive_log c res h (pre @ es)"
  unfolding archive_log_def
proof (intro conjI allI impI)
  fix xs p ys assume eq: "pre @ es = xs @ Called (UpdateBucketAPI p) # ys"
  then consider "c_ReadBucket c h n = Inr None" "xs = [Called (ReadBucketAPI n)]" "p = archive_params res n"
    | xs' where "xs = pre @ xs'" "es = xs' @ Called (UpdateBucketAPI p) # ys"
    using pre by (auto simp: Cons_eq_append_conv split: if_splits)
  then show "\<exists>zs n. xs = zs @ [Called (ReadBucketAPI n)] \<and> p = archive_params res n \<and> c_ReadBucket c (h @ zs) n = Inr None"
  proof cases
    case 1
    then show ?thesis by (intro exI [of _ "[]"] exI [of _ n]) simp
  next
    case (2 xs')
    then obtain zs m where "xs' = zs @ [Called (ReadBucketAPI m)]" "p = archive_params res m" "c_ReadBucket c ((h @ pre) @ zs) m = Inr None"
      using log unfolding archive_log_def by metis
    then show ?thesis using 2 by (intro exI [of _ "pre @ zs"] exI [of _ m]) simp
  qed
next
  fix xs m ys assume eq: "pre @ es = xs @ Called (ReadBucketAPI m) # ys" and none: "c_ReadBucket c (h @ xs) m = Inr None"
  then consider "m = n" "xs = []" | xs' where "xs = pre @ xs'" "es = xs' @ Called (ReadBucketAPI m) # ys"
    using pre by (auto simp: Cons_eq_append_conv split: if_splits)
  then show "\<exists>zs. ys = Called (UpdateBucketAPI (archive_params res m)) # zs"
  proof cases
    case 1
    then show ?thesis using eq none pre by auto
  next
    case (2 xs')
    then show ?thesis using log none unfolding archive_log_def by (metis append.assoc)
  qed
qed

definition buckets_read :: "event list \<Rightarrow> string list" where
  "buckets_read es = concat (map (\<lambda>e. case e of Called (ReadBucketAPI n) \<Rightarrow> [n] | _ \<Rightarrow> []) es)"

lemma archive_buckets_run:
  "\<exists>errs es. archive_buckets c res ns s = (Ok errs, s\<lparr>hist := hist s @ es\<rparr>) \<and> archive_log c res (hist s) es \<and> buckets_read es = ns"
proof (induction ns arbitrary: s)
  case Nil
  show ?case by (intro exI [of _ "[]"]) (simp add: archive_log_Nil buckets_read_def)
next
  case (Cons n ns)
  let ?es1 = "Called (ReadBucketAPI n) # (if c_ReadBucket c (hist s) n = Inr None then [Called (UpdateBucketAPI (archive_params res n))] else [])"
  let ?s1 = "s\<lparr>hist := hist s @ ?es1\<rparr>"
  obtain e where e: "archive_bucket c res n s = (Ok e, ?s1)" using archive_bucket_run by blast
  obtain errs es where rest: "archive_buckets c res ns ?s1 = (Ok errs, ?s1\<lparr>hist := hist ?s1 @ es\<rparr>)"
    "archive_log c res (hist ?s1) es" "buckets_read es = ns"
    using Cons.IH [of ?s1] by blast
  have "archive_log c res (hist s) (?es1 @ es)"
    using archive_log_front [OF _ refl, of c res "hist s" n es] rest(2) by simp
  moreover have "buckets_read (?es1 @ es) = n # ns" using rest(3) by (simp add: buckets_read_def)
  moreover have "archive_buckets c res (n # ns) s =
      (Ok (case e of None \<Rightarrow> errs | Some m \<Rightarrow> m # errs), s\<lparr>hist := hist s @ (?es1 @ es)\<rparr>)"
    using e rest(1) by simp
  ultimately show ?case by blast
qed

text \<open>
  Adding an archive policy to a bucket class reaches exactly the buckets that have none.  Every outdated bucket is read,
  in order and whatever happens to the ones before it; it is updated, right after it was read, exactly when the core
  reports that it has no archive policy yet; a failure is reported after the loop as a temporary error, so the
  reconcile is repeated.
\<close>

theorem archive_policy_for_new_buckets_only:
  assumes "bcs_ArchivePolicy (bc_Spec (cr_BucketClass s)) = Some ap" and "ap_DeepArchiveResource ap \<noteq> ''''"
  shows "\<exists>r es. updateArchivePolicyForExistingBuckets c names s = (r, s\<lparr>hist := hist s @ es\<rparr>) \<and>
     buckets_read es = names \<and> archive_log c (ap_DeepArchiveResource ap) (hist s) es \<and>
     (r = Ok () \<or> (\<exists>m. r = Err (PlainError m)))"
proof -
  obtain errs es where "archive_buckets c (ap_DeepArchiveResource ap) names s = (Ok errs, s\<lparr>hist := hist s @ es\<rparr>)"
    "archive_log c (ap_DeepArchiveResource ap) (hist s) es" "buckets_read es = names"
    using archive_buckets_run by blast
  with assms show ?thesis
    by (intro exI [of _ "errors_Join errs"] exI [of _ es]) (auto simp: updateArchivePolicyForExistingBuckets_def errors_Join_def)
qed

definition ex_bc_state :: "BucketClass \<Rightarrow> bc_state" where
  "ex_bc_state bc = \<lparr>hist = [], cr_BucketClass = bc, cr_NooBaa = ex_system\<rparr>"

theorem archive_policy_for_new_buckets_only_witness:
  "let s = ex_bc_state (ex_bc\<lparr>bc_Spec := ex_bc_spec\<lparr>bcs_ArchivePolicy := Some \<lparr>ap_DeepArchiveResource = ''tape''\<rparr>\<rparr>\<rparr>);
       run = updateArchivePolicyForExistingBuckets ex_cluster [''one'', ''two''] s
   in buckets_read (hist (snd run)) = [''one'', ''two''] \<and> archive_log ex_cluster ''tape'' [] (hist (snd run))"
  using archive_policy_for_new_buckets_only
    [of "ex_bc_state (ex_bc\<lparr>bc_Spec := ex_bc_spec\<lparr>bcs_ArchivePolicy := Some \<lparr>ap_DeepArchiveResource = ''tape''\<rparr>\<rparr>\<rparr>)"
      "\<lparr>ap_DeepArchiveResource = ''tape''\<rparr>" ex_cluster "[''one'', ''two'']"]
  by (auto simp: ex_bc_state_def Let_def)

section \<open>Reverting a bucket class\<close>

lemma revert_tier_info: "tier_Placement t \<in> {TierPlacementMirror, TierPlacementSpread} \<Longrightarrow> revert_tier (tier_info t) = t"
  by (auto simp: revert_tier_def tier_info_def)

lemma revert_class_run:
  "\<exists>r. revert_class c result s = (r,
     s\<lparr>cr_BucketClass := bc', hist := hist s @ [Updated (OBucketClass bc')]\<rparr>) \<and>
     (r = Panic \<or> r = Err (PersistentError ''InvalidConfReverting'' (''Unable to change bucketclass due to error: '' @ bcinfo_ErrorMessage result)))"
  if "bc' = (cr_BucketClass s)\<lparr>bc_Spec := (bc_Spec (cr_BucketClass s))\<lparr>bcs_PlacementPolicy := Some \<lparr>pp_Tiers = map revert_tier (bcinfo_RevertTiers result)\<rparr>\<rparr>\<rparr>"
  using that
  by (cases "fst (KubeUpdate (bc_client c) bc' (hist s))")
    (auto simp: revert_class_def Let_def bc_client_def update_run bindp_def seqp_def KubeUpdate_def split: option.splits if_splits)

text \<open>
  C6. When the core refuses a change of the tiers of a bucket class, the class goes back to the tiers the core has.  If
  the core answers with the tiers of an earlier accepted class, the class written to the cluster has exactly the
  placement and the backing stores of that class and the rest of its specification as it was; the change is reported
  as a persistent error and no bucket is touched.
\<close>

theorem refused_tiers_reverted:
  assumes "bcs_VectorPolicy (bc_Spec (cr_BucketClass s)) = None" and "bcs_PlacementPolicy (bc_Spec (cr_BucketClass s)) = Some pp"
    and "c_UpdateBucketClass c (hist s) (class_params (bc_Name (cr_BucketClass s)) (pp_Tiers pp)) = Inr result"
    and "bcinfo_ShouldRevert result" and "bcinfo_RevertTiers result = map tier_info old"
    and "\<And>t. t \<in> set old \<Longrightarrow> tier_Placement t \<in> {TierPlacementMirror, TierPlacementSpread}"
  shows "let bc' = (cr_BucketClass s)\<lparr>bc_Spec := (bc_Spec (cr_BucketClass s))\<lparr>bcs_PlacementPolicy := Some \<lparr>pp_Tiers = old\<rparr>\<rparr>\<rparr>
     in \<exists>r m. UpdateBucketClass c names s = (r, s\<lparr>cr_BucketClass := bc',
          hist := hist s @ [Called (UpdateBucketClassAPI (class_params (bc_Name (cr_BucketClass s)) (pp_Tiers pp))), Updated (OBucketClass bc')]\<rparr>) \<and>
        (r = Panic \<or> r = Err (PersistentError ''InvalidConfReverting'' m))"
proof -
  let ?params = "class_params (bc_Name (cr_BucketClass s)) (pp_Tiers pp)"
  let ?s1 = "s\<lparr>hist := hist s @ [Called (UpdateBucketClassAPI ?params)]\<rparr>"
  let ?bc = "(cr_BucketClass s)\<lparr>bc_Spec := (bc_Spec (cr_BucketClass s))\<lparr>bcs_PlacementPolicy := Some \<lparr>pp_Tiers = old\<rparr>\<rparr>\<rparr>"
  have "map revert_tier (bcinfo_RevertTiers result) = old"
    using assms(5,6) by (auto simp: revert_tier_info intro: map_idI)
  then obtain r where r: "revert_class c result ?s1 = (r, ?s1\<lparr>cr_BucketClass := ?bc, hist := hist ?s1 @ [Updated (OBucketClass ?bc)]\<rparr>)"
    "r = Panic \<or> r = Err (PersistentError ''InvalidConfReverting'' (''Unable to change bucketclass due to error: '' @ bcinfo_ErrorMessage result))"
    using revert_class_run [where bc' = ?bc and s = ?s1 and result = result and c = c] by auto
  have "UpdateBucketClass c names s = revert_class c result ?s1"
    using assms(1-4) by (simp add: UpdateBucketClass_def update_placement_def query_def Let_def)
  with r show ?thesis unfolding Let_def by auto
qed

theorem refused_tiers_reverted_witness:
  "let old = [\<lparr>tier_Placement = TierPlacementMirror, tier_BackingStores = [''first'', ''second'']\<rparr>];
       c = ex_cluster\<lparr>c_UpdateBucketClass := (\<lambda>_ _. Inr \<lparr>bcinfo_ErrorMessage = ''no'', bcinfo_ShouldRevert = True,
         bcinfo_RevertTiers = map tier_info old\<rparr>)\<rparr>;
       run = UpdateBucketClass c [''bucket''] (ex_bc_state ex_bc)
   in bcs_PlacementPolicy (bc_Spec (cr_BucketClass (snd run))) = Some \<lparr>pp_Tiers = old\<rparr>"
proof -
  let ?old = "[\<lparr>tier_Placement = TierPlacementMirror, tier_BackingStores = [''first'', ''second'']\<rparr>]"
  let ?c = "ex_cluster\<lparr>c_UpdateBucketClass := (\<lambda>_ _. Inr \<lparr>bcinfo_ErrorMessage = ''no'', bcinfo_ShouldRevert = True,
         bcinfo_RevertTiers = map tier_info ?old\<rparr>)\<rparr>"
  have "bcs_VectorPolicy (bc_Spec (cr_BucketClass (ex_bc_state ex_bc))) = None"
    "bcs_PlacementPolicy (bc_Spec (cr_BucketClass (ex_bc_state ex_bc))) =
       Some \<lparr>pp_Tiers = [\<lparr>tier_Placement = TierPlacementSpread, tier_BackingStores = [''store'']\<rparr>]\<rparr>"
    by (simp_all add: ex_bc_state_def ex_objects)
  from refused_tiers_reverted [OF this, of ?c "\<lparr>bcinfo_ErrorMessage = ''no'', bcinfo_ShouldRevert = True,
      bcinfo_RevertTiers = map tier_info ?old\<rparr>" ?old "[''bucket'']"]
  show ?thesis by (auto simp: Let_def)
qed

section \<open>When a bucket class becomes ready\<close>

lemma looked_up_run [simp]: "looked_up c f s = (Ok (f (lookups_at c (hist s))), s\<lparr>hist := hist s @ [Looked]\<rparr>)"
  by (simp add: looked_up_def)

lemma when_looked_up:
  assumes "whenp b (bindp (looked_up c f) lift) s = (Ok (), s')"
  shows "b \<longrightarrow> f (lookups_at c (hist s)) = pass" "cr_BucketClass s' = cr_BucketClass s" "prefix (hist s) (hist s')"
  using assms by (auto simp: whenp_def split: if_splits)

lemma validate_class_ok:
  assumes "validate_class c bc s = (Ok (), s')"
  shows "ValidateBucketClass (lookups_at c (hist s)) (c_ParseQuantity c) (Some bc) = pass"
    "cr_BucketClass s' = cr_BucketClass s" "prefix (hist s) (hist s')"
  using assms by (auto simp: validate_class_def split: result.splits)

lemma valid_bucket_class_status: "valid_bucket_class k pq (bc_SetPhase setc p r m bc) = valid_bucket_class k pq bc"
  by (simp add: valid_bucket_class_def bc_phased.meta_SetPhase)

lemma bc_verifying_ok:
  assumes "bc_ReconcilePhaseVerifying c s = (Ok (), s')"
  obtains h1 h2 where "prefix (hist s) h1" "prefix h1 h2" "prefix h2 (hist s')"
    "valid_bucket_class (lookups_at c h1) (c_ParseQuantity c) (cr_BucketClass s)"
    "bcs_PlacementPolicy (bc_Spec (cr_BucketClass s)) \<noteq> None \<longrightarrow>
       ValidatePlacementPolicy (lookups_at c h2) (bcs_PlacementPolicy (bc_Spec (cr_BucketClass s))) (om_Namespace (nb_Meta (cr_NooBaa s))) = pass"
    "bc_Meta (cr_BucketClass s') = bc_Meta (cr_BucketClass s)" "bc_Spec (cr_BucketClass s') = bc_Spec (cr_BucketClass s)"
proof -
  let ?bc = "bc_SetPhase (c_SetStatusCondition c) BucketClassPhaseVerifying ''BucketClassPhaseVerifying''
    ''noobaa operator started phase 1/2 - \"Verifying\"'' (cr_BucketClass s)"
  let ?s0 = "s\<lparr>cr_BucketClass := ?bc\<rparr>"
  let ?sp = "bc_Spec (cr_BucketClass s)" and ?nb = "nb_Meta (cr_NooBaa s)"
  from assms obtain s1 s2 s3 s4 where
    v: "validate_class c ?bc ?s0 = (Ok (), s1)"
    and u: "whenp (om_UID ?nb = '''') (raise (PersistentError ''MissingSystem''
         (''NooBaa system '' @ go_quote (om_Name ?nb) @ '' not found or deleted''))) s1 = (Ok (), s2)"
    and p: "whenp (bcs_PlacementPolicy ?sp \<noteq> None)
         (bindp (looked_up c (\<lambda>k. ValidatePlacementPolicy k (bcs_PlacementPolicy ?sp) (om_Namespace ?nb))) lift) s2 = (Ok (), s3)"
    and n: "whenp (bcs_NamespacePolicy ?sp \<noteq> None)
         (bindp (looked_up c (\<lambda>k. ValidateNamespacePolicy k (bcs_NamespacePolicy ?sp) (om_Namespace ?nb))) lift) s3 = (Ok (), s4)"
    and w: "whenp (bcs_VectorPolicy ?sp \<noteq> None) (bindp (looked_up c (\<lambda>k. ValidateVectorPolicy k (bcs_VectorPolicy ?sp)
         (bcs_PlacementPolicy ?sp) (bcs_NamespacePolicy ?sp) (om_Namespace ?nb))) lift) s4 = (Ok (), s')"
    by (simp add: bc_ReconcilePhaseVerifying_def bc_set_phase_run Let_def) (elim seqp_OkE; simp)
  have s2: "s2 = s1" using u by (cases "om_UID ?nb = ''''") simp_all
  note v = validate_class_ok [OF v] and p = when_looked_up [OF p] and n = when_looked_up [OF n] and w = when_looked_up [OF w]
  show ?thesis
  proof (rule that [of "hist s" "hist s2"])
    show "prefix (hist s2) (hist s')" using p(3) n(3) w(3) by (meson prefix_order.trans)
    show "valid_bucket_class (lookups_at c (hist s)) (c_ParseQuantity c) (cr_BucketClass s)"
      using v(1) by (simp add: ValidateBucketClass_iff valid_bucket_class_status)
  qed (use v p n w s2 in \<open>simp_all add: bc_phased.meta_SetPhase\<close>)
qed

lemma forp_made:
  assumes step: "\<And>x s s'. f x s = (Ok (), s') \<Longrightarrow> made c (hist s') (g x) \<and> prefix (hist s) (hist s')"
    and "forp f xs s = (Ok (), s')"
  shows "(\<forall>x \<in> set xs. made c (hist s') (g x)) \<and> prefix (hist s) (hist s')"
  using assms(2)
proof (induction xs arbitrary: s)
  case (Cons x xs)
  then obtain s1 where "f x s = (Ok (), s1)" "forp f xs s1 = (Ok (), s')" by (auto elim: seqp_OkE)
  then show ?case using step [of x s s1] Cons.IH [of s1] made_prefix prefix_order.trans by fastforce
qed simp

abbreviation namespace_params :: "NamespaceBucketInfo \<Rightarrow> string \<Rightarrow> CreateBucketParams" where
  "namespace_params info n \<equiv> \<lparr>cbp_Name = n, cbp_Tiering = '''', cbp_BucketClaim = None, cbp_Quota = None, cbp_Namespace = Some info, cbp_ArchivePolicy = None\<rparr>"

lemma update_bucket_made:
  "update_bucket c info n s = (Ok (), s') \<Longrightarrow> made c (hist s') (UpdateBucketAPI (namespace_params info n)) \<and> prefix (hist s) (hist s')"
  by (auto simp: update_bucket_def made_last split: option.splits)

text \<open>What the core has accepted for a list of buckets of a class: the tiers, or a namespace for each bucket.\<close>

definition class_applied :: "cluster \<Rightarrow> BucketClass \<Rightarrow> string list \<Rightarrow> history \<Rightarrow> bool" where
  "class_applied c bc names h \<longleftrightarrow> (case bcs_PlacementPolicy (bc_Spec bc) of
     Some pp \<Rightarrow> (\<exists>h0 result. let params = class_params (bc_Name bc) (pp_Tiers pp) in
       prefix (h0 @ [Called (UpdateBucketClassAPI params)]) h \<and> c_UpdateBucketClass c h0 params = Inr result \<and> \<not> bcinfo_ShouldRevert result)
   | None \<Rightarrow> (\<exists>info. \<forall>n \<in> set names. made c h (UpdateBucketAPI (namespace_params info n))))"

lemma updateNamespaceBucketClass_applied:
  assumes "updateNamespaceBucketClass c names s = (Ok (), s')" "bcs_NamespacePolicy (bc_Spec (cr_BucketClass s)) \<noteq> None"
  shows "\<exists>info. \<forall>n \<in> set names. made c (hist s') (UpdateBucketAPI (namespace_params info n))"
proof -
  from assms obtain info where "forp (update_bucket c info) names s = (Ok (), s')"
    by (auto simp: updateNamespaceBucketClass_def elim!: bindp_OkE)
  from forp_made [where f = "update_bucket c info" and g = "\<lambda>n. UpdateBucketAPI (namespace_params info n)", OF update_bucket_made this]
  show ?thesis by blast
qed

lemma emits_archive_buckets [emit_rules]: "emits (\<lambda>_. True) (archive_buckets c res names)"
proof (induction names)
  case (Cons n ns)
  show ?case unfolding archive_buckets.simps archive_bucket_def by (intro emit_rules Cons.IH TrueI)
qed (simp only: archive_buckets.simps emit_rules)

lemma emits_UpdateBucketClass [emit_rules]:
  "emits (\<lambda>_. True) (updateArchivePolicyForExistingBuckets c names)"
  "emits (\<lambda>_. True) (UpdateBucketClass c names)"
  unfolding updateArchivePolicyForExistingBuckets_def UpdateBucketClass_def update_placement_def revert_class_def
    updateNamespaceBucketClass_def update_bucket_def Let_def
  by (intro emit_rules TrueI; simp)+

lemma UpdateBucketClass_applied:
  assumes "UpdateBucketClass c names s = (Ok (), s')"
  shows "class_applied c (cr_BucketClass s) names (hist s')"
proof (cases "bcs_PlacementPolicy (bc_Spec (cr_BucketClass s))")
  case None
  then show ?thesis
    using assms updateNamespaceBucketClass_applied [of c names s s']
    by (auto simp: UpdateBucketClass_def class_applied_def Let_def split: if_splits)
next
  case (Some pp)
  let ?params = "class_params (bc_Name (cr_BucketClass s)) (pp_Tiers pp)"
  let ?s1 = "s\<lparr>hist := hist s @ [Called (UpdateBucketClassAPI ?params)]\<rparr>"
  have up: "update_placement c names pp s = (Ok (), s')"
    using assms Some by (auto simp: UpdateBucketClass_def Let_def split: if_splits)
  then obtain result where result: "c_UpdateBucketClass c (hist s) ?params = Inr result"
    by (cases "c_UpdateBucketClass c (hist s) ?params") (auto simp: update_placement_def query_def Let_def)
  have "\<not> bcinfo_ShouldRevert result"
  proof
    assume "bcinfo_ShouldRevert result"
    then have "revert_class c result ?s1 = (Ok (), s')" using up result by (simp add: update_placement_def query_def Let_def)
    then show False using revert_class_run [OF refl, where s = ?s1 and result = result and c = c] by auto
  qed
  moreover from this have "updateArchivePolicyForExistingBuckets c names ?s1 = (Ok (), s')"
    using up result by (simp add: update_placement_def query_def Let_def)
  from emits_grows [OF emits_UpdateBucketClass(1) this] have "prefix (hist s @ [Called (UpdateBucketClassAPI ?params)]) (hist s')" by simp
  ultimately show ?thesis using result Some by (auto simp: class_applied_def Let_def)
qed

lemma outdated_cong: "bc_Meta bc' = bc_Meta bc \<Longrightarrow> outdated bc' = outdated bc"
  by (simp add: outdated_def fun_eq_iff)

lemma class_applied_cong:
  "bc_Meta bc' = bc_Meta bc \<Longrightarrow> bc_Spec bc' = bc_Spec bc \<Longrightarrow> class_applied c bc' = class_applied c bc"
  by (simp add: class_applied_def fun_eq_iff cong: option.case_cong)

lemma bc_configuring_applied:
  assumes run: "bc_ReconcilePhaseConfiguring c s = (Ok (), s')" and obs: "c_ListObjectBuckets c (hist s) = Inr obs"
    and some: "filter (outdated (cr_BucketClass s)) obs \<noteq> []"
  shows "class_applied c (cr_BucketClass s) (map fst (filter (outdated (cr_BucketClass s)) obs)) (hist s')"
proof -
  let ?bc = "bc_SetPhase (c_SetStatusCondition c) BucketClassPhaseConfiguring ''BucketClassPhaseConfiguring''
    ''noobaa operator started phase 2/2 - \"Configuring\"'' (cr_BucketClass s)"
  have same: "bc_Meta ?bc = bc_Meta (cr_BucketClass s)" by (rule bc_phased.meta_SetPhase)
  let ?names = "map fst (filter (outdated (cr_BucketClass s)) obs)"
  let ?s1 = "s\<lparr>cr_BucketClass := ?bc, hist := hist s @ [Looked]\<rparr>"
  have "seqp (Connect c) (UpdateBucketClass c ?names) ?s1 = (Ok (), s')"
    using run obs some by (simp add: bc_ReconcilePhaseConfiguring_def bc_set_phase_run look_list_def Let_def outdated_cong [OF same])
  then obtain s2 where conn: "Connect c ?s1 = (Ok (), s2)" and up: "UpdateBucketClass c ?names s2 = (Ok (), s')"
    by (elim seqp_OkE) simp
  have "keeps (\<lambda>x. cr_BucketClass x = ?bc) (Connect c)" by (intro keep_rules hist_freeI) simp
  from keepsD [OF this _ conn] have "cr_BucketClass s2 = ?bc" by simp
  with UpdateBucketClass_applied [OF up] show ?thesis by (simp add: class_applied_cong [OF same])
qed

text \<open>
  C3. A bucket class is ready only when it holds: when the phases of a reconcile end well, the class was valid, every backing
  store of every tier was seen to be ready, and if there are buckets of an older generation of the class, the core
  has accepted the tiers of the class without asking for a revert, or, for a class with a namespace policy, the update
  of every one of these buckets.
\<close>

theorem bucket_class_ready_when_applied:
  assumes "bc_ReconcilePhases c s = (Ok (), s')"
  shows "(\<exists>h. prefix h (hist s') \<and> valid_bucket_class (lookups_at c h) (c_ParseQuantity c) (cr_BucketClass s)) \<and>
     (\<forall>pp. bcs_PlacementPolicy (bc_Spec (cr_BucketClass s)) = Some pp \<longrightarrow> (\<exists>h. prefix h (hist s') \<and>
        (\<forall>tier \<in> set (pp_Tiers pp). \<forall>n \<in> set (tier_BackingStores tier).
           \<exists>bs. c_BackingStore c h (om_Namespace (nb_Meta (cr_NooBaa s))) n = Inr bs \<and> bst_Phase (bs_Status bs) = BackingStorePhaseReady))) \<and>
     (\<exists>h. prefix h (hist s') \<and> (\<forall>obs. c_ListObjectBuckets c h = Inr obs \<longrightarrow> filter (outdated (cr_BucketClass s)) obs \<noteq> [] \<longrightarrow>
        class_applied c (cr_BucketClass s) (map fst (filter (outdated (cr_BucketClass s)) obs)) (hist s')))"
proof -
  from assms [unfolded bc_ReconcilePhases_def] obtain s1 where ver: "bc_ReconcilePhaseVerifying c s = (Ok (), s1)"
    and conf: "bc_ReconcilePhaseConfiguring c s1 = (Ok (), s')" by (elim seqp_OkE) simp
  obtain h1 h2 where h: "prefix h1 h2" "prefix h2 (hist s1)"
    and valid: "valid_bucket_class (lookups_at c h1) (c_ParseQuantity c) (cr_BucketClass s)"
    and placed: "bcs_PlacementPolicy (bc_Spec (cr_BucketClass s)) \<noteq> None \<longrightarrow>
       ValidatePlacementPolicy (lookups_at c h2) (bcs_PlacementPolicy (bc_Spec (cr_BucketClass s))) (om_Namespace (nb_Meta (cr_NooBaa s))) = pass"
    and same: "bc_Meta (cr_BucketClass s1) = bc_Meta (cr_BucketClass s)" "bc_Spec (cr_BucketClass s1) = bc_Spec (cr_BucketClass s)"
    using bc_verifying_ok [OF ver] by metis
  have "emits (\<lambda>_. True) (bc_ReconcilePhaseConfiguring c)"
    unfolding bc_ReconcilePhaseConfiguring_def bc_set_phase_def Let_def by (intro emit_rules TrueI) simp
  then have grow: "prefix (hist s1) (hist s')" using conf by (rule emits_grows)
  have applied: "class_applied c (cr_BucketClass s) (map fst (filter (outdated (cr_BucketClass s)) obs)) (hist s')"
    if "c_ListObjectBuckets c (hist s1) = Inr obs" "filter (outdated (cr_BucketClass s)) obs \<noteq> []" for obs
    using bc_configuring_applied [OF conf that(1)] that(2) by (simp add: outdated_cong [OF same(1)] class_applied_cong [OF same])
  have h2: "prefix h2 (hist s')" using h(2) grow by (rule prefix_order.trans)
  then have h1: "prefix h1 (hist s')" using h(1) by (blast intro: prefix_order.trans)
  show ?thesis
  proof (intro conjI allI impI)
    show "\<exists>h. prefix h (hist s') \<and> valid_bucket_class (lookups_at c h) (c_ParseQuantity c) (cr_BucketClass s)"
      using h1 valid by blast
    show "\<exists>h. prefix h (hist s') \<and> (\<forall>tier \<in> set (pp_Tiers pp). \<forall>n \<in> set (tier_BackingStores tier).
           \<exists>bs. c_BackingStore c h (om_Namespace (nb_Meta (cr_NooBaa s))) n = Inr bs \<and> bst_Phase (bs_Status bs) = BackingStorePhaseReady)"
      if "bcs_PlacementPolicy (bc_Spec (cr_BucketClass s)) = Some pp" for pp
      using h2 placed that by (intro exI [of _ h2]) (simp add: ValidatePlacementPolicy_pass lookups_at_def)
    show "\<exists>h. prefix h (hist s') \<and> (\<forall>obs. c_ListObjectBuckets c h = Inr obs \<longrightarrow> filter (outdated (cr_BucketClass s)) obs \<noteq> [] \<longrightarrow>
        class_applied c (cr_BucketClass s) (map fst (filter (outdated (cr_BucketClass s)) obs)) (hist s'))"
      using grow applied by blast
  qed
qed

definition ex_bc_cluster :: cluster where
  "ex_bc_cluster = ex_cluster\<lparr>c_BackingStore := (\<lambda>_ _ _. Inr (ex_aws_bs ''data'')),
     c_ListObjectBuckets := (\<lambda>_. Inr [(''bucket'', [''bucketclass'' \<mapsto> ''class'', ''bucketclassgeneration'' \<mapsto> ''0''])])\<rparr>"

lemma Connect_ex_bc: "Connect ex_bc_cluster s = (Ok (), s\<lparr>hist := hist s @ [Looked, Looked, Looked, Looked]\<rparr>)"
  by (simp add: Connect_def ConnectClient_def CheckSystem_def look_def ex_bc_cluster_def ex_cluster_def ex_system_def ex_nb_def ex_meta_def Let_def
      EnsureCommonMetaFields_def AddFinalizer_def map_get_def ex_secret_of_def SecretResetStringDataFromData_def url_ok_def)

lemma ex_bc_cluster_fields:
  "c_ListObjectBuckets ex_bc_cluster h = Inr [(''bucket'', [''bucketclass'' \<mapsto> ''class'', ''bucketclassgeneration'' \<mapsto> ''0''])]"
  "c_BackingStore ex_bc_cluster h nsp n = Inr (ex_aws_bs ''data'')"
  "c_UpdateBucketClass ex_bc_cluster h params = Inr \<lparr>bcinfo_ErrorMessage = '''', bcinfo_ShouldRevert = False, bcinfo_RevertTiers = []\<rparr>"
  by (simp_all add: ex_bc_cluster_def ex_cluster_def)

theorem bucket_class_ready_when_applied_witness:
  "\<exists>s'. bc_ReconcilePhases ex_bc_cluster (ex_bc_state ex_bc) = (Ok (), s') \<and> class_applied ex_bc_cluster ex_bc [''bucket''] (hist s')"
proof -
  let ?s = "ex_bc_state ex_bc"
  have outdated: "outdated bc (''bucket'', [''bucketclass'' \<mapsto> ''class'', ''bucketclassgeneration'' \<mapsto> ''0''])"
    if "bc_Meta bc = ex_meta ''class''" for bc
  proof -
    have "show_int 1 = ''1''" by code_simp
    then show ?thesis using that by (simp add: outdated_def ex_meta_def map_get_def)
  qed
  have valid: "ValidateBucketClass k pq (Some (bc_SetPhase setc p r m ex_bc)) = pass" for k pq setc p r m
    by (simp add: ValidateBucketClass_def ex_objects ValidateVectorPolicy_def ValidateTiersNumber_def ValidateArchivePolicy_def
        bc_ValidateQuotaConfig_def bc_SetPhase_def Let_def require_def)
  have placed: "ValidatePlacementPolicy (lookups_at ex_bc_cluster h) (bcs_PlacementPolicy ex_bc_spec) nsp = pass" for h nsp
    by (simp add: ex_bc_spec_def ValidatePlacementPolicy_pass lookups_at_def ex_bc_cluster_fields ex_objects)
  have spec: "bc_Spec ex_bc = ex_bc_spec" "bcs_PlacementPolicy ex_bc_spec \<noteq> None" "bcs_NamespacePolicy ex_bc_spec = None"
    "bcs_VectorPolicy ex_bc_spec = None" "bcs_ArchivePolicy ex_bc_spec = None" "bc_Meta ex_bc = ex_meta ''class''"
    by (simp_all add: ex_objects)
  obtain pp where pp: "bcs_PlacementPolicy ex_bc_spec = Some pp" using spec(2) by blast
  have "fst (bc_ReconcilePhases ex_bc_cluster ?s) = Ok ()"
    by (simp add: bc_ReconcilePhases_def bc_ReconcilePhaseVerifying_def bc_set_phase_run validate_class_def valid placed [unfolded pp] pp
        ex_bc_state_def spec ex_system_def ex_meta_def bc_phased.meta_SetPhase outdated
        bc_ReconcilePhaseConfiguring_def look_list_def ex_bc_cluster_fields Connect_ex_bc UpdateBucketClass_def
        update_placement_def query_def updateArchivePolicyForExistingBuckets_def Let_def run_defs
        del: run_rules)
  then obtain s' where run: "bc_ReconcilePhases ex_bc_cluster ?s = (Ok (), s')" by (metis prod.collapse)
  have "filter (outdated ex_bc) [(''bucket'', [''bucketclass'' \<mapsto> ''class'', ''bucketclassgeneration'' \<mapsto> ''0''])] =
      [(''bucket'', [''bucketclass'' \<mapsto> ''class'', ''bucketclassgeneration'' \<mapsto> ''0''])]"
    using outdated [of ex_bc] by (simp add: spec)
  with bucket_class_ready_when_applied [OF run] run show ?thesis
    by (auto simp: ex_bc_cluster_fields ex_bc_state_def)
qed

end
