(* ===== verification/NA_Reconciler.thy ===== *)
theory NA_Reconciler
  imports BC_Reconciler Account_Validation
begin

text \<open>
  The account reconciler, \<^verbatim>\<open>pkg/noobaaaccount/reconciler.go\<close>: an account is verified, created or
  updated in the core, and its credentials are kept in a secret.
\<close>

section \<open>State and phases\<close>

record na_state = "event logged" +
  ar_NooBaaAccount :: NooBaaAccount
  ar_NooBaa :: NooBaa
  ar_Secret :: Secret
  ar_SystemInfo :: "SystemInfo option"
  ar_NooBaaAccountInfo :: "AccountInfo option"

type_synonym 'a na_proc = "(na_state, 'a) proc"

abbreviation na_Name :: "NooBaaAccount \<Rightarrow> string" where "na_Name na \<equiv> om_Name (na_Meta na)"

definition na_SetPhase :: "set_condition \<Rightarrow> NooBaaAccountPhase \<Rightarrow> string \<Rightarrow> string \<Rightarrow> NooBaaAccount \<Rightarrow> NooBaaAccount" where
  "na_SetPhase setc phase reason message na =
     (let st = na_Status na in
      if phase = NooBaaAccountPhaseNone
      then na\<lparr>na_Status := st\<lparr>nat_Conditions := SetProgressingCondition setc (nat_Conditions st) reason message\<rparr>\<rparr>
      else na\<lparr>na_Status := st\<lparr>nat_Phase := phase, nat_Conditions :=
        (case phase of
           NooBaaAccountPhaseReady \<Rightarrow> SetAvailableCondition setc (nat_Conditions st) reason message
         | NooBaaAccountPhaseRejected \<Rightarrow> SetErrorCondition setc (nat_Conditions st) reason message
         | _ \<Rightarrow> SetProgressingCondition setc (nat_Conditions st) reason message)\<rparr>\<rparr>)"

definition na_set_phase :: "cluster \<Rightarrow> NooBaaAccountPhase \<Rightarrow> string \<Rightarrow> string \<Rightarrow> unit na_proc" where
  "na_set_phase c phase reason message =
     modify (\<lambda>s. s\<lparr>ar_NooBaaAccount := na_SetPhase (c_SetStatusCondition c) phase reason message (ar_NooBaaAccount s)\<rparr>)"

definition na_UpdateStatus :: "cluster \<Rightarrow> unit na_proc" where
  "na_UpdateStatus c = bindp (gets (\<lambda>s. OAccount (ar_NooBaaAccount s))) (update_status c)"

section \<open>Phases\<close>

definition na_ReconcilePhaseVerifying :: "cluster \<Rightarrow> unit na_proc" where
  "na_ReconcilePhaseVerifying c =
     seqp (na_set_phase c NooBaaAccountPhaseVerifying ''NooBaaAccountPhaseVerifying'' ''noobaa operator started phase 1/2 - \"Verifying\"'')
     (bindp (gets (\<lambda>s. nb_Meta (ar_NooBaa s))) (\<lambda>nb.
      bindp (gets ar_NooBaaAccount) (\<lambda>na. let sp = na_Spec na in
      if om_UID nb = '''' then raise (PersistentError ''MissingSystem'' (''NooBaa system '' @ go_quote (om_Name nb) @ '' not found or deleted''))
      else if nas_AllowBucketCreate sp \<and> nas_DefaultResource sp = ''''
      then raise (PersistentError ''MissingDefaultResource'' (''Account '' @ go_quote (na_Name na)
        @ '' is allowed to create buckets, but no resource is provided''))
      else whenp (nas_DefaultResource sp \<noteq> '''')
        (bindp (asks (\<lambda>h. ValidateAccountDefaultResource (lookups_at c h) (c_Namespace c) na)) (\<lambda>r. seqp (emit Looked)
          (case r of
             Panic \<Rightarrow> lift Panic
           | Err e \<Rightarrow> raise (PersistentError ''InvalidDefaultResource'' (Error e))
           | Ok _ \<Rightarrow> ret ()))))))"

definition na_ReadSystemInfo :: "cluster \<Rightarrow> unit na_proc" where
  "na_ReadSystemInfo c =
     seqp (Connect c)
     (bindp (bindp (query ReadSystemAPI (c_ReadSystem c)) reply) (\<lambda>si.
      modify (\<lambda>s. s\<lparr>ar_SystemInfo := Some si,
        ar_NooBaaAccountInfo := (case first_with ai_Name (na_Name (ar_NooBaaAccount s)) (si_Accounts si) of
          Some a \<Rightarrow> Some a | None \<Rightarrow> ar_NooBaaAccountInfo s)\<rparr>)))"

definition na_ReconcilePhaseConnecting :: "cluster \<Rightarrow> unit na_proc" where
  "na_ReconcilePhaseConnecting c =
     seqp (na_set_phase c NooBaaAccountPhaseConnecting ''NooBaaAccountPhaseConnecting'' ''noobaa operator started phase 2/3 - \"Connecting\"'')
     (na_ReadSystemInfo c)"

text \<open>The secret's reference to the account as its owner, then its creation unless it is there.\<close>

definition createNoobaaAccountSecret :: "cluster \<Rightarrow> S3AccessKeys \<Rightarrow> string \<Rightarrow> unit na_proc" where
  "createNoobaaAccountSecret c keys arn =
     seqp (modify (\<lambda>s. s\<lparr>ar_Secret := (ar_Secret s)\<lparr>sec_StringData :=
       [''AWS_ACCESS_KEY_ID'' \<mapsto> ak_AccessKey keys, ''AWS_SECRET_ACCESS_KEY'' \<mapsto> ak_SecretKey keys, ''ARN'' \<mapsto> arn]\<rparr>\<rparr>))
     (bindp (gets (\<lambda>s. na_Meta (ar_NooBaaAccount s))) (\<lambda>owner.
      bindp (gets ar_Secret) (\<lambda>sec.
      bindp (own c owner (sec_Meta sec)) (\<lambda>m. let sec1 = sec\<lparr>sec_Meta := m\<rparr> in
      seqp (modify (\<lambda>s. s\<lparr>ar_Secret := sec1\<rparr>))
      (bindp (on_hist (KubeCreateSkipExisting (secret_client c) sec1)) (\<lambda>ok.
       if ok then ret ()
       else raise (PlainError (''Failed to create NoobaaAccount secret '' @ go_quote (sec_Name sec1)))))))))"

text \<open>The copy of the account configuration leaves out the distinguished name.\<close>

definition nsfs_copy :: "AccountNsfsConfig option \<Rightarrow> AccountNsfsConfig option" where
  "nsfs_copy p = map_option (\<lambda>x. x\<lparr>nsfs_DistinguishedName := ''''\<rparr>) p"

definition account_params :: "NooBaaAccount \<Rightarrow> CreateAccountParams" where
  "account_params na = (let sp = na_Spec na in \<lparr>cap_Name = na_Name na, cap_Email = na_Name na, cap_HasLogin = False, cap_S3Access = True,
     cap_AllowBucketCreate = nas_AllowBucketCreate sp, cap_DefaultResource = nas_DefaultResource sp,
     cap_ForceMd5Etag = nas_ForceMd5Etag sp, cap_BucketClaimOwner = '''', cap_NsfsAccountConfig = nsfs_copy (nas_NsfsAccountConfig sp)\<rparr>)"

definition first_keys :: "AccountKeysReply \<Rightarrow> S3AccessKeys result" where
  "first_keys rep = (case akr_AccessKeys rep of [] \<Rightarrow> Panic | k # _ \<Rightarrow> Ok k)"

definition CreateNooBaaAccount :: "cluster \<Rightarrow> unit na_proc" where
  "CreateNooBaaAccount c =
     bindp (gets ar_NooBaaAccount) (\<lambda>na. let params = account_params na in
     bindp (query (CreateAccountAPI params) (\<lambda>h. c_CreateAccount c h params)) (\<lambda>r. case r of
       Inl e \<Rightarrow> raise (PersistentError ''InvalidCreateAccountParams'' (Error (rpc_go e)))
     | Inr rep \<Rightarrow>
         if akr_AccessKeys rep = [] then
           bindp (bindp (query (ReadAccountAPI (na_Name na)) (\<lambda>h. c_ReadAccount c h (na_Name na))) reply) (\<lambda>acc.
           bindp (lift (first_keys acc)) (\<lambda>keys.
           createNoobaaAccountSecret c keys (if akr_ARN rep = '''' then akr_ARN acc else akr_ARN rep)))
         else bindp (lift (first_keys rep)) (\<lambda>keys. createNoobaaAccountSecret c keys (akr_ARN rep))))"

definition na_needUpdate :: "NooBaaAccount \<Rightarrow> AccountInfo \<Rightarrow> bool" where
  "na_needUpdate na info = (let sp = na_Spec na in
     nas_AllowBucketCreate sp \<noteq> ai_CanCreateBuckets info \<or> nas_DefaultResource sp \<noteq> ai_DefaultResource info \<or>
     nas_NsfsAccountConfig sp \<noteq> ai_NsfsAccountConfig info \<or>
     nas_NsfsAccountConfig sp \<noteq> None \<and> ai_NsfsAccountConfig info = None)"

definition access_params :: "NooBaaAccount \<Rightarrow> UpdateAccountS3AccessParams" where
  "access_params na = (let sp = na_Spec na in \<lparr>uas_Email = na_Name na, uas_S3Access = True,
     uas_DefaultResource = Some (nas_DefaultResource sp), uas_ForceMd5Etag = nas_ForceMd5Etag sp,
     uas_AllowBucketCreation = Some (nas_AllowBucketCreate sp), uas_NsfsAccountConfig = nsfs_copy (nas_NsfsAccountConfig sp)\<rparr>)"

definition UpdateNooBaaAccount :: "cluster \<Rightarrow> AccountInfo \<Rightarrow> unit na_proc" where
  "UpdateNooBaaAccount c info =
     bindp (gets ar_NooBaaAccount) (\<lambda>na. whenp (na_needUpdate na info)
       (bindp (attempt c (UpdateAccountS3Access (access_params na))) (\<lambda>e. case e of
          None \<Rightarrow> ret ()
        | Some err \<Rightarrow> raise (PersistentError ''InvalidUpdateAccountS3AccessParams'' (Error (rpc_go err))))))"

definition ensureNoobaaAccountSecret :: "cluster \<Rightarrow> unit na_proc" where
  "ensureNoobaaAccountSecret c =
     bindp (gets ar_Secret) (\<lambda>sec.
     bindp (look (\<lambda>h. c_Secret c h (sec_Namespace sec) (sec_Name sec))) (\<lambda>p. case p of
       Some x \<Rightarrow> modify (\<lambda>s. s\<lparr>ar_Secret := SecretResetStringDataFromData x\<rparr>)
     | None \<Rightarrow>
         bindp (gets (\<lambda>s. na_Name (ar_NooBaaAccount s))) (\<lambda>n.
         bindp (bindp (query (ReadAccountAPI n) (\<lambda>h. c_ReadAccount c h n)) reply) (\<lambda>acc. case akr_AccessKeys acc of
           [] \<Rightarrow> raise (PlainError (''NooBaaAccount '' @ go_quote n @ '' has no access keys''))
         | keys # _ \<Rightarrow> createNoobaaAccountSecret c keys (akr_ARN acc)))))"

definition na_ReconcilePhaseConfiguring :: "cluster \<Rightarrow> unit na_proc" where
  "na_ReconcilePhaseConfiguring c =
     seqp (na_set_phase c NooBaaAccountPhaseConfiguring ''NooBaaAccountPhaseConfiguring'' ''noobaa operator started phase 2/2 - \"Configuring\"'')
     (seqp (Connect c)
     (seqp (bindp (gets ar_NooBaaAccountInfo) (\<lambda>p. case p of
        Some info \<Rightarrow> UpdateNooBaaAccount c info | None \<Rightarrow> CreateNooBaaAccount c))
      (ensureNoobaaAccountSecret c)))"

definition na_ReconcilePhases :: "cluster \<Rightarrow> unit na_proc" where
  "na_ReconcilePhases c = seqp (na_ReconcilePhaseVerifying c)
     (seqp (na_ReconcilePhaseConnecting c) (na_ReconcilePhaseConfiguring c))"

section \<open>Deletion and Reconcile\<close>

definition na_mark_deleting :: "cluster \<Rightarrow> unit na_proc" where
  "na_mark_deleting c = bindp (gets (\<lambda>s. nat_Phase (na_Status (ar_NooBaaAccount s)))) (\<lambda>phase.
     whenp (phase \<noteq> NooBaaAccountPhaseDeleting)
       (seqp (na_set_phase c NooBaaAccountPhaseDeleting ''BucketClassPhaseDeleting'' ''noobaa operator started deletion'')
         (na_UpdateStatus c)))"

definition delete_account :: "cluster \<Rightarrow> unit na_proc" where
  "delete_account c = bindp (gets (\<lambda>s. na_Name (ar_NooBaaAccount s))) (\<lambda>n.
     bindp (attempt c (DeleteAccountAPI n)) (\<lambda>e. case e of
       None \<Rightarrow> ret ()
     | Some err \<Rightarrow> if rpc_code err = Some ''NO_SUCH_ACCOUNT'' then ret ()
         else raise (PlainError (''failed to delete account '' @ go_quote n @ ''. got error: '' @ Error (rpc_go err)))))"

definition na_FinalizeDeletion :: "cluster \<Rightarrow> unit na_proc" where
  "na_FinalizeDeletion c =
     seqp (modify (\<lambda>s. let na = ar_NooBaaAccount s in
       s\<lparr>ar_NooBaaAccount := na\<lparr>na_Meta := snd (RemoveFinalizer (na_Meta na) Finalizer)\<rparr>\<rparr>))
     (bindp (gets ar_NooBaaAccount) (\<lambda>na.
      bindp (update (na_client c) na) (\<lambda>ok.
      if ok then ret ()
      else raise (PlainError (''BucketClass '' @ go_quote (na_Name na) @ '' failed to remove finalizer '' @ go_quote Finalizer)))))"

definition na_ReconcileDeletion :: "cluster \<Rightarrow> unit na_proc" where
  "na_ReconcileDeletion c = seqp (na_mark_deleting c)
     (bindp (gets (\<lambda>s. om_UID (nb_Meta (ar_NooBaa s)))) (\<lambda>uid.
      if uid = '''' then na_FinalizeDeletion c
      else seqp (Connect c) (seqp (delete_account c) (na_FinalizeDeletion c))))"

definition na_complete_phase :: "cluster \<Rightarrow> go_error option \<Rightarrow> unit na_proc" where
  "na_complete_phase c err = (case err of
     Some (PersistentError reason message) \<Rightarrow> na_set_phase c NooBaaAccountPhaseRejected reason message
   | Some e \<Rightarrow> na_set_phase c NooBaaAccountPhaseNone ''TemporaryError'' (Error e)
   | None \<Rightarrow> na_set_phase c NooBaaAccountPhaseReady ''NooBaaAccountPhaseReady''
       ''noobaa operator completed reconcile - noobaa account is ready'')"

definition na_complete :: "cluster \<Rightarrow> unit na_proc \<Rightarrow> nat na_proc" where
  "na_complete c m = bindp (tryp m) (\<lambda>r. let err = (case r of Inl e \<Rightarrow> Some e | Inr _ \<Rightarrow> None) in
     seqp (na_complete_phase c err)
     (bindp (tryp (na_UpdateStatus c)) (\<lambda>r1. ret (case r1 of
        Inl _ \<Rightarrow> 3
      | Inr _ \<Rightarrow> (case err of None \<Rightarrow> 0 | Some e \<Rightarrow> if IsPersistentError e then 0 else 3)))))"

text \<open>The account keeps the name and namespace of the request when it is not found, and then has no UID.\<close>

definition na_Reconcile :: "cluster \<Rightarrow> nat na_proc" where
  "na_Reconcile c =
     bindp (gets ar_NooBaaAccount) (\<lambda>na0.
     bindp (look (\<lambda>h. c_Account c h (om_Namespace (na_Meta na0)) (na_Name na0))) (\<lambda>p.
     let na = (case p of Some x \<Rightarrow> x | None \<Rightarrow> na0) in
     seqp (modify (\<lambda>s. s\<lparr>ar_NooBaaAccount := na\<rparr>))
     (if om_UID (na_Meta na) = '''' then ret 0
      else (case EnsureCommonMetaFields (na_Meta na) Finalizer of (changed, m) \<Rightarrow>
        let na1 = na\<lparr>na_Meta := m\<rparr> in
        seqp (modify (\<lambda>s. s\<lparr>ar_NooBaaAccount := na1\<rparr>))
        (bindp (if changed then update (na_client c) na1 else ret True) (\<lambda>ok.
         if \<not> ok then ret 3
         else bindp (bindp (gets ar_NooBaa) (CheckSystem c)) (\<lambda>(_, nb).
           seqp (modify (\<lambda>s. s\<lparr>ar_NooBaa := nb\<rparr>))
           (na_complete c (if om_DeletionTimestamp m \<noteq> None then na_ReconcileDeletion c else na_ReconcilePhases c)))))))))"

section \<open>Phases and conditions\<close>

interpretation na_phased: phased_resource na_SetPhase "\<lambda>na. nat_Phase (na_Status na)" "\<lambda>na. nat_Conditions (na_Status na)"
  na_Meta NooBaaAccountPhaseNone NooBaaAccountPhaseReady NooBaaAccountPhaseRejected
  by unfold_locales (auto simp: na_SetPhase_def Let_def split: NooBaaAccountPhase.splits)

lemma na_set_phase_run: "na_set_phase c p r m s =
    (Ok (), s\<lparr>ar_NooBaaAccount := na_SetPhase (c_SetStatusCondition c) p r m (ar_NooBaaAccount s)\<rparr>)"
  by (simp add: na_set_phase_def)

lemma na_SetPhase_Spec [simp]: "na_Spec (na_SetPhase setc p r m na) = na_Spec na"
  by (simp add: na_SetPhase_def Let_def)

section \<open>An account that is ready\<close>

text \<open>What the phases leave of the state: the account but for its status, and the name of the secret.\<close>

definition na_frame :: "ObjectMeta \<Rightarrow> NooBaaAccountSpec \<Rightarrow> string \<Rightarrow> string \<Rightarrow> na_state \<Rightarrow> bool" where
  "na_frame m sp nsp n s \<longleftrightarrow> na_Meta (ar_NooBaaAccount s) = m \<and> na_Spec (ar_NooBaaAccount s) = sp \<and>
     sec_Namespace (ar_Secret s) = nsp \<and> sec_Name (ar_Secret s) = n"

lemma hist_free_na_frame [simp, intro]: "hist_free (na_frame m sp nsp n)"
  by (rule hist_freeI) (simp add: na_frame_def)

lemma keeps_na_phase [keep_rules]: "keeps (na_frame m sp nsp n) (na_set_phase c p r msg)"
  unfolding na_set_phase_def by (rule keeps_modify) (simp add: na_frame_def na_phased.meta_SetPhase)

text \<open>\<open>SetControllerReference\<close> adds an owner to the metadata and keeps the identity of the object.\<close>

definition controller_reference_laws :: "cluster \<Rightarrow> bool" where
  "controller_reference_laws c \<longleftrightarrow> (\<forall>owner m m'. c_SetControllerReference c owner m = Some m' \<longrightarrow>
     om_Name m' = om_Name m \<and> om_Namespace m' = om_Namespace m)"

text \<open>The secret of an account is in place: it was seen, or its creation with these credentials was accepted.\<close>

definition secret_in_place :: "cluster \<Rightarrow> string \<Rightarrow> string \<Rightarrow> history \<Rightarrow> bool" where
  "secret_in_place c nsp n h \<longleftrightarrow>
     (\<exists>h0 x. prefix h0 h \<and> c_Secret c h0 nsp n = Inr x) \<or>
     (\<exists>h0 sec. prefix (h0 @ [Created (OSecret sec)]) h \<and> c_write c h0 (Created (OSecret sec)) = None \<and>
        sec_Namespace sec = nsp \<and> sec_Name sec = n \<and> {''AWS_ACCESS_KEY_ID'', ''AWS_SECRET_ACCESS_KEY''} \<subseteq> dom (sec_StringData sec))"

lemma create_secret_in_place:
  assumes "on_hist (KubeCreateSkipExisting (secret_client c) sec) s = (Ok True, s')"
    and "{''AWS_ACCESS_KEY_ID'', ''AWS_SECRET_ACCESS_KEY''} \<subseteq> dom (sec_StringData sec)"
  shows "secret_in_place c (sec_Namespace sec) (sec_Name sec) (hist s')"
proof (cases "c_Secret c (hist s) (sec_Namespace sec) (sec_Name sec)")
  case (Inr x)
  then have "hist s' = hist s"
    using assms(1) by (auto simp: on_hist_def KubeCreateSkipExisting_def kubeCreateSkipOrFailExisting_def secret_client_def)
  then show ?thesis using Inr unfolding secret_in_place_def by (metis prefix_order.refl)
next
  case (Inl e)
  then have "c_write c (hist s) (Created (OSecret sec)) = None" "hist s' = hist s @ [Created (OSecret sec)]"
    using assms(1)
    by (auto simp: on_hist_def KubeCreateSkipExisting_def kubeCreateSkipOrFailExisting_def secret_client_def Let_def
        split: if_splits option.splits)
  then have "prefix (hist s @ [Created (OSecret sec)]) (hist s')" by simp
  with \<open>c_write c (hist s) (Created (OSecret sec)) = None\<close> assms(2) show ?thesis
    unfolding secret_in_place_def by blast
qed

lemma createNoobaaAccountSecret_in_place:
  assumes "createNoobaaAccountSecret c keys arn s = (Ok (), s')" and "controller_reference_laws c"
  shows "secret_in_place c (sec_Namespace (ar_Secret s)) (sec_Name (ar_Secret s)) (hist s')"
proof -
  let ?sec = "(ar_Secret s)\<lparr>sec_StringData := [''AWS_ACCESS_KEY_ID'' \<mapsto> ak_AccessKey keys, ''AWS_SECRET_ACCESS_KEY'' \<mapsto> ak_SecretKey keys,
    ''ARN'' \<mapsto> arn]\<rparr>"
  from assms(1) obtain m b where m: "c_SetControllerReference c (na_Meta (ar_NooBaaAccount s)) (sec_Meta ?sec) = Some m"
    and create: "on_hist (KubeCreateSkipExisting (secret_client c) (?sec\<lparr>sec_Meta := m\<rparr>)) (s\<lparr>ar_Secret := ?sec\<lparr>sec_Meta := m\<rparr>\<rparr>) = (Ok b, s')" and "b"
    by (auto simp: createNoobaaAccountSecret_def own_def Let_def elim!: bindp_OkE split: option.splits if_splits)
  from create_secret_in_place [OF create [unfolded \<open>b\<close> [THEN eqTrueI]]] m assms(2)
  show ?thesis by (simp add: controller_reference_laws_def)
qed

lemma keeps_createNoobaaAccountSecret:
  assumes "controller_reference_laws c"
  shows "keeps (na_frame m sp nsp n) (createNoobaaAccountSecret c keys arn)"
proof -
  have step: "keeps (na_frame m sp nsp n) (on_hist (KubeCreateSkipExisting (secret_client c) sec))" for sec
    by (intro keep_rules hist_free_na_frame)
  have "na_frame m sp nsp n s'" if start: "na_frame m sp nsp n s" and run: "createNoobaaAccountSecret c keys arn s = (r, s')" for s r s'
  proof -
    let ?sec = "(ar_Secret s)\<lparr>sec_StringData := [''AWS_ACCESS_KEY_ID'' \<mapsto> ak_AccessKey keys, ''AWS_SECRET_ACCESS_KEY'' \<mapsto> ak_SecretKey keys,
      ''ARN'' \<mapsto> arn]\<rparr>"
    show ?thesis
    proof (cases "c_SetControllerReference c (na_Meta (ar_NooBaaAccount s)) (sec_Meta ?sec)")
      case None
      then show ?thesis using run start by (auto simp: createNoobaaAccountSecret_def own_def na_frame_def)
    next
      case (Some m')
      let ?s1 = "s\<lparr>ar_Secret := ?sec\<lparr>sec_Meta := m'\<rparr>\<rparr>"
      obtain r1 s1 where create: "on_hist (KubeCreateSkipExisting (secret_client c) (?sec\<lparr>sec_Meta := m'\<rparr>)) ?s1 = (r1, s1)"
        by (cases "on_hist (KubeCreateSkipExisting (secret_client c) (?sec\<lparr>sec_Meta := m'\<rparr>)) ?s1")
      have "na_frame m sp nsp n ?s1" using Some assms start by (simp add: na_frame_def controller_reference_laws_def)
      from keepsD [OF step this create] have "na_frame m sp nsp n s1" .
      moreover have "s' = s1"
        using run Some create by (cases r1) (auto simp: createNoobaaAccountSecret_def own_def Let_def split: if_splits)
      ultimately show ?thesis by simp
    qed
  qed
  then show ?thesis by (simp add: keeps_def) (metis prod.collapse)
qed

lemma keeps_account_steps:
  assumes "controller_reference_laws c"
  shows "keeps (na_frame m sp nsp n) (CreateNooBaaAccount c)" "keeps (na_frame m sp nsp n) (UpdateNooBaaAccount c info)"
    "keeps (na_frame m sp nsp n) (na_ReconcilePhaseVerifying c)" "keeps (na_frame m sp nsp n) (na_ReadSystemInfo c)"
  unfolding CreateNooBaaAccount_def UpdateNooBaaAccount_def na_ReconcilePhaseVerifying_def na_ReadSystemInfo_def Let_def
  by (intro keep_rules keeps_createNoobaaAccountSecret [OF assms] hist_free_na_frame; simp add: na_frame_def)+

lemma query_reply_run: "bindp (query r f) reply s =
    ((case f (hist s) of Inl e \<Rightarrow> Err (rpc_go e) | Inr x \<Rightarrow> Ok x), s\<lparr>hist := hist s @ [Called r]\<rparr>)"
  by (simp add: query_def reply_def split: sum.splits)

lemma ensureNoobaaAccountSecret_in_place:
  assumes "ensureNoobaaAccountSecret c s = (Ok (), s')" and "controller_reference_laws c"
  shows "secret_in_place c (sec_Namespace (ar_Secret s)) (sec_Name (ar_Secret s)) (hist s')"
proof -
  let ?nsp = "sec_Namespace (ar_Secret s)" and ?n = "sec_Name (ar_Secret s)"
  from assms(1) obtain p s1 where p: "look (\<lambda>h. c_Secret c h ?nsp ?n) s = (Ok p, s1)"
    by (auto simp: ensureNoobaaAccountSecret_def elim!: bindp_OkE)
  then have s1: "s1 = s\<lparr>hist := hist s @ [Looked]\<rparr>" "check_get (c_Secret c (hist s) ?nsp ?n) = Ok p" by (auto simp: look_def)
  show ?thesis
  proof (cases p)
    case (Some x)
    then have "c_Secret c (hist s) ?nsp ?n = Inr x"
      using s1(2) by (cases "c_Secret c (hist s) ?nsp ?n") (auto simp: check_get_def bind_r_eq_Ok split: if_splits)
    moreover have "prefix (hist s) (hist s')"
      using assms(1) p s1(1) Some by (auto simp: ensureNoobaaAccountSecret_def)
    ultimately show ?thesis unfolding secret_in_place_def by blast
  next
    case None
    with assms(1) p s1(1) obtain keys arn s2 where "createNoobaaAccountSecret c keys arn s2 = (Ok (), s')"
      "ar_Secret s2 = ar_Secret s"
      by (cases "c_ReadAccount c (hist s1) (na_Name (ar_NooBaaAccount s))")
        (auto simp: ensureNoobaaAccountSecret_def query_reply_run split: list.splits)
    from createNoobaaAccountSecret_in_place [OF this(1) assms(2)] this(2) show ?thesis by simp
  qed
qed

text \<open>The core has an account: it lists it, or it has accepted its creation.\<close>

definition account_in_core :: "cluster \<Rightarrow> NooBaaAccount \<Rightarrow> history \<Rightarrow> bool" where
  "account_in_core c na h \<longleftrightarrow>
     (\<exists>h0 si. prefix (h0 @ [Called ReadSystemAPI]) h \<and> c_ReadSystem c h0 = Inr si \<and>
        (\<exists>a \<in> set (si_Accounts si). ai_Name a = na_Name na \<and>
           (na_needUpdate na a \<longrightarrow> made c h (UpdateAccountS3Access (access_params na))))) \<or>
     (\<exists>h0 rep. prefix (h0 @ [Called (CreateAccountAPI (account_params na))]) h \<and> c_CreateAccount c h0 (account_params na) = Inr rep)"

lemma emits_account_steps [emit_rules]:
  "emits (\<lambda>_. True) (createNoobaaAccountSecret c keys arn)"
  "emits (\<lambda>_. True) (ensureNoobaaAccountSecret c)"
  "emits (\<lambda>_. True) (CreateNooBaaAccount c)"
  "emits (\<lambda>_. True) (UpdateNooBaaAccount c info)"
  "emits (\<lambda>_. True) (na_ReconcilePhaseVerifying c)"
  unfolding createNoobaaAccountSecret_def ensureNoobaaAccountSecret_def CreateNooBaaAccount_def UpdateNooBaaAccount_def
    na_ReconcilePhaseVerifying_def na_set_phase_def Let_def
  by (intro emit_rules TrueI; simp)+

lemma CreateNooBaaAccount_accepted:
  assumes "CreateNooBaaAccount c s = (Ok (), s')"
  shows "\<exists>rep. c_CreateAccount c (hist s) (account_params (ar_NooBaaAccount s)) = Inr rep \<and>
     prefix (hist s @ [Called (CreateAccountAPI (account_params (ar_NooBaaAccount s)))]) (hist s')"
proof -
  let ?na = "ar_NooBaaAccount s" let ?p = "account_params ?na"
  let ?s1 = "s\<lparr>hist := hist s @ [Called (CreateAccountAPI ?p)]\<rparr>"
  from assms obtain rep where rep: "c_CreateAccount c (hist s) ?p = Inr rep"
    by (cases "c_CreateAccount c (hist s) ?p") (auto simp: CreateNooBaaAccount_def query_def Let_def)
  let ?m = "if akr_AccessKeys rep = [] then
           bindp (bindp (query (ReadAccountAPI (na_Name ?na)) (\<lambda>h. c_ReadAccount c h (na_Name ?na))) reply) (\<lambda>acc.
           bindp (lift (first_keys acc)) (\<lambda>keys.
           createNoobaaAccountSecret c keys (if akr_ARN rep = '''' then akr_ARN acc else akr_ARN rep)))
         else bindp (lift (first_keys rep)) (\<lambda>keys. createNoobaaAccountSecret c keys (akr_ARN rep))"
  have "?m ?s1 = (Ok (), s')" using assms rep by (simp add: CreateNooBaaAccount_def query_def Let_def)
  moreover have "emits (\<lambda>_. True) ?m" by (intro emit_rules TrueI)
  ultimately have "prefix (hist ?s1) (hist s')" by (rule emits_grows [rotated])
  then show ?thesis using rep by simp
qed

lemma UpdateNooBaaAccount_made:
  assumes "UpdateNooBaaAccount c info s = (Ok (), s')"
  shows "na_needUpdate (ar_NooBaaAccount s) info \<longrightarrow> made c (hist s') (UpdateAccountS3Access (access_params (ar_NooBaaAccount s)))"
    "prefix (hist s) (hist s')"
  using assms by (auto simp: UpdateNooBaaAccount_def whenp_def made_last split: if_splits option.splits)

lemma account_params_cong:
  assumes "na_Meta a = na_Meta b" "na_Spec a = na_Spec b"
  shows "account_params a = account_params b" "access_params a = access_params b" "na_needUpdate a = na_needUpdate b"
  using assms by (simp_all add: account_params_def access_params_def na_needUpdate_def fun_eq_iff)

lemma na_ReadSystemInfo_run:
  assumes "na_ReadSystemInfo c s = (Ok (), s')"
  obtains h si where "c_ReadSystem c h = Inr si" "prefix (hist s) h" "hist s' = h @ [Called ReadSystemAPI]"
    "ar_NooBaaAccountInfo s' = (case first_with ai_Name (na_Name (ar_NooBaaAccount s)) (si_Accounts si) of
       Some a \<Rightarrow> Some a | None \<Rightarrow> ar_NooBaaAccountInfo s)"
proof -
  let ?m = "bindp (bindp (query ReadSystemAPI (c_ReadSystem c)) reply) (\<lambda>si.
      modify (\<lambda>s. s\<lparr>ar_SystemInfo := Some si,
        ar_NooBaaAccountInfo := (case first_with ai_Name (na_Name (ar_NooBaaAccount s)) (si_Accounts si) of
          Some a \<Rightarrow> Some a | None \<Rightarrow> ar_NooBaaAccountInfo s)\<rparr>))"
  from assms [unfolded na_ReadSystemInfo_def] obtain s1 where conn: "Connect c s = (Ok (), s1)" and m: "?m s1 = (Ok (), s')"
    by (elim seqp_OkE) simp
  define h where "h = hist s1"
  from Connect_only_hist [OF conn] have s1: "s1 = s\<lparr>hist := h\<rparr>" and h: "prefix (hist s) h" by (simp_all add: h_def)
  from m s1 obtain si where "c_ReadSystem c h = Inr si" by (cases "c_ReadSystem c h") (auto simp: query_reply_run)
  with that h m s1 show ?thesis by (auto simp: query_reply_run cong: option.case_cong)
qed

lemma keeps_no_info: "keeps (\<lambda>x. ar_NooBaaAccountInfo x = None) (na_ReconcilePhaseVerifying c)"
  unfolding na_ReconcilePhaseVerifying_def na_set_phase_def Let_def by (intro keep_rules hist_freeI) simp_all


definition ex_na_state :: "NooBaaAccount \<Rightarrow> na_state" where
  "ex_na_state na = \<lparr>hist = [], ar_NooBaaAccount = na, ar_NooBaa = ex_system, ar_Secret = ex_secret_of ''noobaa'' ''noobaa-account-acct'',
     ar_SystemInfo = None, ar_NooBaaAccountInfo = None\<rparr>"

definition ex_na_cluster :: cluster where
  "ex_na_cluster = ex_bc_cluster\<lparr>c_Secret := (\<lambda>_ nsp n. if prefix ''noobaa-account'' n then Inl NotFoundError else Inr (ex_secret_of nsp n))\<rparr>"

lemma Connect_ex_na: "Connect ex_na_cluster s = (Ok (), s\<lparr>hist := hist s @ [Looked, Looked, Looked, Looked]\<rparr>)"
  by (simp add: Connect_def ConnectClient_def CheckSystem_def look_def ex_na_cluster_def ex_bc_cluster_def ex_cluster_def ex_system_def ex_nb_def ex_meta_def
      Let_def EnsureCommonMetaFields_def AddFinalizer_def map_get_def ex_secret_of_def SecretResetStringDataFromData_def url_ok_def)

lemma ex_na_cluster_fields:
  "c_write ex_na_cluster h ev = None" "c_call ex_na_cluster h r = None" "c_ReadSystem ex_na_cluster h = Inr ex_info"
  "c_Secret ex_na_cluster h nsp ''noobaa-account-acct'' = Inl NotFoundError" "c_SetControllerReference ex_na_cluster o' m = Some m"
  "c_BackingStore ex_na_cluster h nsp n = Inr (ex_aws_bs ''data'')" "c_NamespaceStore ex_na_cluster h nsp n = Inl NotFoundError"
  "c_CreateAccount ex_na_cluster h p = Inr \<lparr>akr_ARN = ''arn'', akr_AccessKeys = []\<rparr>"
  "c_ReadAccount ex_na_cluster h n = Inr \<lparr>akr_ARN = ''arn'', akr_AccessKeys = [\<lparr>ak_AccessKey = ''key'', ak_SecretKey = ''pw''\<rparr>]\<rparr>"
  by (simp_all add: ex_na_cluster_def ex_bc_cluster_def ex_cluster_def)


section \<open>Updates and deletion\<close>

text \<open>
  Updating an account settles: once the core reports the settings it was last sent, the account is not updated again,
  unless its file-system configuration has a distinguished name, which is compared but never sent: such an account is
  updated in every reconcile.
\<close>

theorem account_update_settles:
  assumes "ai_CanCreateBuckets info = the (uas_AllowBucketCreation (access_params na))"
    and "ai_DefaultResource info = the (uas_DefaultResource (access_params na))"
    and "ai_NsfsAccountConfig info = uas_NsfsAccountConfig (access_params na)"
  shows "na_needUpdate na info \<longleftrightarrow> (\<exists>cfg. nas_NsfsAccountConfig (na_Spec na) = Some cfg \<and> nsfs_DistinguishedName cfg \<noteq> '''')"
proof -
  have "Some cfg \<noteq> nsfs_copy (Some cfg) \<longleftrightarrow> nsfs_DistinguishedName cfg \<noteq> ''''" for cfg
    by (cases cfg) (simp add: nsfs_copy_def)
  then show ?thesis
    using assms
    by (cases "nas_NsfsAccountConfig (na_Spec na)") (auto simp: na_needUpdate_def access_params_def Let_def nsfs_copy_def)
qed

theorem account_update_settles_witness:
  "\<not> na_needUpdate ex_na (ex_account\<lparr>ai_DefaultResource := ''store'', ai_CanCreateBuckets := True, ai_NsfsAccountConfig := None\<rparr>)"
  using account_update_settles [of "ex_account\<lparr>ai_DefaultResource := ''store'', ai_CanCreateBuckets := True, ai_NsfsAccountConfig := None\<rparr>" ex_na]
  by (simp add: access_params_def ex_objects nsfs_copy_def Let_def)

lemma na_FinalizeDeletion_run:
  assumes "na_FinalizeDeletion c s = (Ok (), s')"
  obtains na where "hist s' = hist s @ [Updated (OAccount na)]" "c_write c (hist s) (Updated (OAccount na)) = None"
    "na_Name na = na_Name (ar_NooBaaAccount s)" "Finalizer \<notin> set (om_Finalizers (na_Meta na))"
proof -
  let ?na = "ar_NooBaaAccount s\<lparr>na_Meta := snd (RemoveFinalizer (na_Meta (ar_NooBaaAccount s)) Finalizer)\<rparr>"
  from assms obtain b where "update (na_client c) ?na (s\<lparr>ar_NooBaaAccount := ?na\<rparr>) = (Ok b, s')" "b"
    by (auto simp: na_FinalizeDeletion_def Let_def elim!: bindp_OkE split: if_splits)
  then have "update (na_client c) ?na (s\<lparr>ar_NooBaaAccount := ?na\<rparr>) = (Ok True, s')" by simp
  then have "c_write c (hist s) (Updated (OAccount ?na)) = None" "hist s' = hist s @ [Updated (OAccount ?na)]"
    unfolding na_client_def update_accepted by simp_all
  then show ?thesis by (intro that [of ?na]) (simp_all add: RemoveFinalizer_eq)
qed

text \<open>
  An account is let go only when the core has none: when its deletion ends well and a system is known, the last two
  events are the deletion of the account in the core, accepted or answered with the code for a missing account, and
  then the accepted update that removes the finalizer.
\<close>

theorem account_deleted_before_release:
  assumes "na_ReconcileDeletion c s = (Ok (), s')" and "om_UID (nb_Meta (ar_NooBaa s)) \<noteq> ''''"
  shows "\<exists>h na. hist s' = h @ [Called (DeleteAccountAPI (na_Name (ar_NooBaaAccount s))), Updated (OAccount na)] \<and>
     (case c_call c h (DeleteAccountAPI (na_Name (ar_NooBaaAccount s))) of
        None \<Rightarrow> True | Some e \<Rightarrow> rpc_code e = Some ''NO_SUCH_ACCOUNT'') \<and>
     na_Name na = na_Name (ar_NooBaaAccount s) \<and> Finalizer \<notin> set (om_Finalizers (na_Meta na))"
proof -
  let ?n = "na_Name (ar_NooBaaAccount s)"
  let ?P = "\<lambda>x. na_Meta (ar_NooBaaAccount x) = na_Meta (ar_NooBaaAccount s) \<and> ar_NooBaa x = ar_NooBaa s"
  have P: "keeps ?P (na_mark_deleting c)" "keeps ?P (Connect c)"
    unfolding na_mark_deleting_def na_UpdateStatus_def na_set_phase_def
    by (intro keep_rules hist_freeI; simp add: na_phased.meta_SetPhase)+
  from assms(1) [unfolded na_ReconcileDeletion_def] obtain s1 where mark: "na_mark_deleting c s = (Ok (), s1)"
    and rest: "bindp (gets (\<lambda>s. om_UID (nb_Meta (ar_NooBaa s)))) (\<lambda>uid. if uid = '''' then na_FinalizeDeletion c
      else seqp (Connect c) (seqp (delete_account c) (na_FinalizeDeletion c))) s1 = (Ok (), s')"
    by (elim seqp_OkE) simp
  have s1: "?P s1" using keepsD [OF P(1) _ mark] by simp
  then have "seqp (Connect c) (seqp (delete_account c) (na_FinalizeDeletion c)) s1 = (Ok (), s')" using rest assms(2) by simp
  then obtain s2 s3 where conn: "Connect c s1 = (Ok (), s2)" and del: "delete_account c s2 = (Ok (), s3)"
    and fin: "na_FinalizeDeletion c s3 = (Ok (), s')" by (elim seqp_OkE) simp
  have s2: "?P s2" using keepsD [OF P(2) s1 conn] .
  from del have s3: "s3 = s2\<lparr>hist := hist s2 @ [Called (DeleteAccountAPI ?n)]\<rparr>"
    "case c_call c (hist s2) (DeleteAccountAPI ?n) of None \<Rightarrow> True | Some e \<Rightarrow> rpc_code e = Some ''NO_SUCH_ACCOUNT''"
    using s2 by (auto simp: delete_account_def split: option.splits if_splits)
  obtain na where na: "hist s' = hist s3 @ [Updated (OAccount na)]" "na_Name na = na_Name (ar_NooBaaAccount s3)"
    "Finalizer \<notin> set (om_Finalizers (na_Meta na))" using na_FinalizeDeletion_run [OF fin] .
  show ?thesis by (intro exI [of _ "hist s2"] exI [of _ na]) (use na s2 s3 in simp)
qed

theorem account_deleted_before_release_witness:
  "\<exists>s' h na. na_ReconcileDeletion ex_na_cluster (ex_na_state ex_na) = (Ok (), s') \<and>
     hist s' = h @ [Called (DeleteAccountAPI ''acct''), Updated (OAccount na)]"
proof -
  let ?s = "ex_na_state ex_na"
  have "c_SetStatusCondition ex_na_cluster = list_set_condition" by (simp add: ex_na_cluster_def ex_bc_cluster_def)
  then have "fst (na_ReconcileDeletion ex_na_cluster ?s) = Ok ()"
    by (simp add: na_ReconcileDeletion_def na_mark_deleting_def na_UpdateStatus_def update_status_def na_set_phase_run ex_na_state_def
        ex_objects ex_na_cluster_fields ex_system_def Connect_ex_na delete_account_def na_FinalizeDeletion_def na_client_def update_run
        KubeUpdate_def na_SetPhase_def Let_def run_defs del: run_rules)
  then obtain s' where run: "na_ReconcileDeletion ex_na_cluster ?s = (Ok (), s')" by (metis prod.collapse)
  have "na_Name (ar_NooBaaAccount ?s) = ''acct''" "om_UID (nb_Meta (ar_NooBaa ?s)) \<noteq> ''''"
    by (simp_all add: ex_na_state_def ex_objects ex_system_def)
  with account_deleted_before_release [OF run] run show ?thesis by metis
qed

end
