(* ===== verification/Base64.thy ===== *)
theory Base64
  imports Prelude
begin

text \<open>
  \<^verbatim>\<open>base64.StdEncoding\<close> of the Go standard library on byte strings, and the random keys that
  \<^verbatim>\<open>util.RandomBase64\<close> makes with it.  Decoding skips line breaks, requires the padding and, as the encoding
  is not strict, ignores the unused bits of the last digit.
\<close>

definition b64_char :: "nat \<Rightarrow> char" where
  "b64_char n =
     (if n < 26 then byte (n + 65)
      else if n < 52 then byte (n + 71)
      else if n < 62 then byte (n - 4)
      else if n = 62 then CHR ''+''
      else CHR ''/'')"

definition b64_val :: "char \<Rightarrow> nat option" where
  "b64_val c =
     (let n = of_char c :: nat in
      if 65 \<le> n \<and> n \<le> 90 then Some (n - 65)
      else if 97 \<le> n \<and> n \<le> 122 then Some (n - 71)
      else if 48 \<le> n \<and> n \<le> 57 then Some (n + 4)
      else if n = 43 then Some 62
      else if n = 47 then Some 63
      else None)"

fun b64_encode :: "nat list \<Rightarrow> nat list" where
  "b64_encode (a # b # c # rest) =
     (a div 4) # (a mod 4 * 16 + b div 16) # (b mod 16 * 4 + c div 64) # (c mod 64) # b64_encode rest"
| "b64_encode [a, b] = [a div 4, (a mod 4) * 16 + b div 16, (b mod 16) * 4]"
| "b64_encode [a] = [a div 4, (a mod 4) * 16]"
| "b64_encode [] = []"

definition EncodeToString :: "string \<Rightarrow> string" where
  "EncodeToString bs = map b64_char (b64_encode (map of_char bs)) @ replicate ((3 - length bs mod 3) mod 3) (CHR ''='')"

fun b64_decode :: "string \<Rightarrow> nat list option" where
  "b64_decode [] = Some []"
| "b64_decode (p # q # r # s # rest) =
     (case (b64_val p, b64_val q) of
        (Some x, Some y) \<Rightarrow>
          (if r = CHR ''='' then
             (if s = CHR ''='' \<and> rest = [] then Some [x * 4 + y div 16] else None)
           else case b64_val r of
             None \<Rightarrow> None
           | Some z \<Rightarrow>
               if s = CHR ''='' then
                 (if rest = [] then Some [x * 4 + y div 16, (y mod 16) * 16 + z div 4] else None)
               else case b64_val s of
                 None \<Rightarrow> None
               | Some w \<Rightarrow>
                   map_option (\<lambda>bs. (x * 4 + y div 16) # (y mod 16 * 16 + z div 4) # (z mod 4 * 64 + w) # bs)
                     (b64_decode rest))
      | _ \<Rightarrow> None)"
| "b64_decode _ = None"

definition line_break :: "char \<Rightarrow> bool" where
  "line_break c \<longleftrightarrow> c = byte 10 \<or> c = byte 13"

definition DecodeString :: "string \<Rightarrow> string option" where
  "DecodeString s = map_option (map byte) (b64_decode (filter (\<lambda>c. \<not> line_break c) s))"

definition RandomBase64 :: "string \<Rightarrow> string" where
  "RandomBase64 randomBytes = EncodeToString randomBytes"

section \<open>Decoding inverts encoding\<close>

lemma b64_val_byte: "n < 256 \<Longrightarrow> of_char (byte n) = n"
  by (simp add: byte_def)

lemma b64_char_code: "n < 64 \<Longrightarrow> of_char (b64_char n) =
    (if n < 26 then n + 65 else if n < 52 then n + 71 else if n < 62 then n - 4 else if n = 62 then 43 else 47)"
  by (auto simp: b64_char_def b64_val_byte)

lemma b64_val_char: "n < 64 \<Longrightarrow> b64_val (b64_char n) = Some n"
  by (auto simp: b64_val_def b64_char_code Let_def)

lemma b64_char_plain: "n < 64 \<Longrightarrow> b64_char n \<noteq> CHR ''='' \<and> \<not> line_break (b64_char n)"
  using b64_char_code [of n] by (auto simp: line_break_def b64_val_byte split: if_splits)

lemma b64_join:
  fixes x y :: nat
  shows "y < 16 \<Longrightarrow> (x * 16 + y) div 16 = x" "y < 16 \<Longrightarrow> (x * 16 + y) mod 16 = y"
    "z < 4 \<Longrightarrow> (x * 4 + z) div 4 = x" "z < 4 \<Longrightarrow> (x * 4 + z) mod 4 = z"
  by simp_all

lemma b64_high: "b < 256 \<Longrightarrow> b div 16 < 16" "b < 256 \<Longrightarrow> b div 64 < 4" for b :: nat
  by (simp_all add: less_mult_imp_div_less)

lemma b64_pack:
  fixes a b c :: nat
  shows "b < 256 \<Longrightarrow> a div 4 * 4 + (a mod 4 * 16 + b div 16) div 16 = a"
    "b < 256 \<Longrightarrow> c < 256 \<Longrightarrow> (a mod 4 * 16 + b div 16) mod 16 * 16 + (b mod 16 * 4 + c div 64) div 4 = b"
    "c < 256 \<Longrightarrow> (b mod 16 * 4 + c div 64) mod 4 * 64 + c mod 64 = c"
    "a div 4 * 4 + a mod 4 * 16 div 16 = a"
    "b < 256 \<Longrightarrow> (a mod 4 * 16 + b div 16) mod 16 * 16 + b mod 16 * 4 div 4 = b"
  by (simp_all add: b64_join b64_high)

lemma b64_digits_small:
  fixes a b c :: nat
  shows "a < 256 \<Longrightarrow> a div 4 < 64" "b < 256 \<Longrightarrow> a mod 4 * 16 + b div 16 < 64" "c < 256 \<Longrightarrow> b mod 16 * 4 + c div 64 < 64"
    "c mod 64 < 64" "b mod 16 * 4 < 64" "a mod 4 * 16 < 64"
proof -
  have "a mod 4 \<le> 3" "b mod 16 \<le> 15" by (simp_all flip: less_Suc_eq_le)
  then show "a < 256 \<Longrightarrow> a div 4 < 64" "b < 256 \<Longrightarrow> a mod 4 * 16 + b div 16 < 64" "c < 256 \<Longrightarrow> b mod 16 * 4 + c div 64 < 64"
    "c mod 64 < 64" "b mod 16 * 4 < 64" "a mod 4 * 16 < 64"
    using b64_high(1) [of b] b64_high(2) [of c] by (simp_all add: less_mult_imp_div_less)
qed

lemma length_b64_pad:
  "(3 - length (a # b # c # xs) mod 3) mod 3 = (3 - length xs mod 3) mod (3::nat)"
  by (simp add: mod_Suc)

lemma b64_decode_encode:
  "\<forall>x \<in> set xs. x < 256 \<Longrightarrow>
     b64_decode (map b64_char (b64_encode xs) @ replicate ((3 - length xs mod 3) mod 3) (CHR ''='')) = Some xs"
proof (induction xs rule: b64_encode.induct)
  case (1 a b c rest)
  then have "a < 256" "b < 256" "c < 256" by simp_all
  note small = b64_digits_small(1) [OF \<open>a < 256\<close>] b64_digits_small(2) [OF \<open>b < 256\<close>, of a]
    b64_digits_small(3) [OF \<open>c < 256\<close>, of b] b64_digits_small(4) [of c]
  show ?case
    using 1 small [THEN b64_val_char] small [THEN b64_char_plain] b64_pack(1) [of b a] b64_pack(2) [of b c a] b64_pack(3) [of c b] length_b64_pad [of a b c rest]
    by simp
next
  case (2 a b)
  then have "a < 256" "b < 256" by simp_all
  note small = b64_digits_small(1) [OF \<open>a < 256\<close>] b64_digits_small(2) [OF \<open>b < 256\<close>, of a] b64_digits_small(5) [of b]
  show ?case using small [THEN b64_val_char] small [THEN b64_char_plain] b64_pack(1) [OF \<open>b < 256\<close>, of a] b64_pack(5) [OF \<open>b < 256\<close>, of a]
    by simp
next
  case (3 a)
  then have "a < 256" by simp
  note small = b64_digits_small(1) [OF \<open>a < 256\<close>] b64_digits_small(6) [of a]
  show ?case using small [THEN b64_val_char] small [THEN b64_char_plain] b64_pack(4) [of a] by (simp add: numeral_2_eq_2)
qed simp

lemma b64_encode_small: "\<forall>x \<in> set xs. x < 256 \<Longrightarrow> \<forall>d \<in> set (b64_encode xs). d < 64"
  by (induction xs rule: b64_encode.induct) (simp_all add: b64_digits_small)

lemma equals_plain: "\<not> line_break CHR ''=''"
proof -
  have "of_char (byte 10) = (10 :: nat)" "of_char (byte 13) = (13 :: nat)" by (simp_all add: b64_val_byte)
  then show ?thesis by (auto simp: line_break_def dest!: arg_cong [of _ _ "of_char :: char \<Rightarrow> nat"])
qed

lemma encoded_plain: "filter (\<lambda>c. \<not> line_break c) (EncodeToString bs) = EncodeToString bs"
proof -
  have "\<forall>d \<in> set (b64_encode (map of_char bs)). d < 64" by (rule b64_encode_small) auto
  then show ?thesis
    unfolding EncodeToString_def filter_append
    by (intro arg_cong2 [of _ _ _ _ append]) (auto simp: filter_id_conv b64_char_plain equals_plain)
qed

lemma DecodeString_EncodeToString [simp]: "DecodeString (EncodeToString bs) = Some bs"
proof -
  have "b64_decode (EncodeToString bs) = Some (map of_char bs)"
    using b64_decode_encode [of "map of_char bs"] by (auto simp: EncodeToString_def)
  then show ?thesis by (simp add: DecodeString_def encoded_plain byte_def comp_def)
qed

text \<open>The strings that the encoding produces.\<close>

definition canonical64 :: "string \<Rightarrow> bool" where
  "canonical64 s \<longleftrightarrow> (case DecodeString s of None \<Rightarrow> False | Some bs \<Rightarrow> EncodeToString bs = s)"

lemma canonical64_RandomBase64 [simp]: "canonical64 (RandomBase64 bs)"
  by (simp add: canonical64_def RandomBase64_def)

lemma RandomBase64_nonempty: "bs \<noteq> [] \<Longrightarrow> RandomBase64 bs \<noteq> []"
  using DecodeString_EncodeToString [of bs] by (auto simp: RandomBase64_def DecodeString_def)

end
