(* ===== verification/Kms.thy ===== *)
theory Kms
  imports Proc Store_Util Quota Base64 "HOL-Library.AList" "HOL-Library.List_Lexorder" "HOL-Library.Char_ord" "HOL-Library.Multiset"
begin

text \<open>
  Key management (\<^verbatim>\<open>pkg/util/kms\<close>): the drivers of the supported key management systems, their
  registry and configuration, the two versions of the secret storage (a single string and a rotating map of
  timestamped keys), the upgrade from the first to the second and the removal of old keys.

  The state of the outside (the cluster, the key management service, the environment of the process) is a type
  parameter; \<open>kms_env\<close> holds what the code asks of it, the constants of the libraries and the clock.  A Go map
  is a list of pairs with distinct keys, in the order in which a loop over the map happens to visit it.
\<close>

section \<open>The interfaces\<close>

type_synonym 'v bag = "(string \<times> 'v) list"
type_synonym key_context = "string bag"

text \<open>A value of type \<^verbatim>\<open>interface{}\<close>.\<close>

datatype iface = IStr string | IInt int | ISecret Secret | IOther

text \<open>\<^verbatim>\<open>v.(string)\<close> without the second result panics on another type.\<close>

fun as_string :: "iface \<Rightarrow> string result" where
  "as_string (IStr s) = Ok s"
| "as_string _ = Panic"

abbreviation ErrInvalidSecretId :: go_error where "ErrInvalidSecretId \<equiv> LibraryError ''secrets.ErrInvalidSecretId''"
abbreviation ErrNotSupported :: go_error where "ErrNotSupported \<equiv> LibraryError ''secrets.ErrNotSupported''"

text \<open>The interface \<^verbatim>\<open>secrets.Secrets\<close>, as far as it is called.\<close>

record 'w Secrets =
  GetSecret :: "string \<Rightarrow> key_context \<Rightarrow> ('w, iface bag) proc"
  PutSecret :: "string \<Rightarrow> iface bag \<Rightarrow> key_context \<Rightarrow> ('w, unit) proc"
  DeleteSecret :: "string \<Rightarrow> key_context \<Rightarrow> ('w, unit) proc"

text \<open>
  The outside: the names of the back ends and of the contexts in the libraries, the operating system, the
  Kubernetes client for secrets (with a bound on the polls of one deletion), the clock, and the constructor
  \<^verbatim>\<open>secrets.New\<close>.
\<close>

record 'w kms_env =
  ke_TypeK8s :: string
  ke_k8s_Name :: string
  ke_vault_Name :: string
  ke_azure_Name :: string
  ke_SecretNamespace :: string
  ke_DestroySecret :: string
  ke_AuthMethod :: string
  ke_AuthMethodKubernetes :: string
  ke_AzureClientCertPath :: string
  ke_Getenv :: "string \<Rightarrow> 'w \<Rightarrow> string option"
  ke_Setenv :: "string \<Rightarrow> string \<Rightarrow> ('w, unit) proc"
  ke_CreateTemp :: "('w, string) proc"
  ke_WriteFile :: "string \<Rightarrow> string \<Rightarrow> ('w, unit) proc"
  ke_client :: "('w, Secret) klient"
  ke_polls :: nat
  ke_UnixNano :: "'w \<Rightarrow> int"
  ke_New :: "string \<Rightarrow> iface bag \<Rightarrow> ('w, 'w Secrets) proc"

section \<open>Drivers\<close>

datatype Driver =
    K8S (d_name: string) (d_ns: string)
  | Vault (d_UID: string) (d_name: string) (d_ns: string)
  | AzureVault (d_UID: string) (d_name: string) (d_ns: string)
  | IBM (d_UID: string) (d_name: string) (d_ns: string)
  | KMIP (d_UID: string) (d_name: string) (d_ns: string)

type_synonym DriverCtor = "string \<Rightarrow> string \<Rightarrow> string \<Rightarrow> Driver"

definition NewK8S :: DriverCtor where "NewK8S name namespace uid = K8S name namespace"
definition NewVault :: DriverCtor where "NewVault name namespace uid = Vault uid name namespace"
definition NewAzureVault :: DriverCtor where "NewAzureVault name namespace uid = AzureVault uid name namespace"
definition NewIBM :: DriverCtor where "NewIBM name namespace uid = IBM uid name namespace"
definition NewKMIP :: DriverCtor where "NewKMIP name namespace uid = KMIP uid name namespace"

fun Path :: "Driver \<Rightarrow> string" where
  "Path (K8S name ns) = name @ ''-root-master-key''"
| "Path (Vault UID name ns) = ''NOOBAA_ROOT_SECRET_PATH'' @ ''/rootkeyb64-'' @ UID"
| "Path (AzureVault UID name ns) = ''/rootkeyb64-'' @ UID"
| "Path (IBM UID name ns) = ''rootkeyb64-'' @ UID"
| "Path (KMIP UID name ns) = ''KMIPSecret''"

fun Name :: "Driver \<Rightarrow> string" where
  "Name (K8S name ns) = ''cipher_key_b64''"
| "Name (Vault UID name ns) = ''rootkeyb64-'' @ UID"
| "Name (AzureVault UID name ns) = ''rootkeyb64-'' @ UID"
| "Name (IBM UID name ns) = Path (IBM UID name ns)"
| "Name (KMIP UID name ns) = ''KMIPSecret''"

definition k8sContext :: "'w kms_env \<Rightarrow> string \<Rightarrow> key_context" where
  "k8sContext e ns = [(ke_SecretNamespace e, ns)]"

fun GetContext :: "'w kms_env \<Rightarrow> Driver \<Rightarrow> key_context" where
  "GetContext e (K8S name ns) = k8sContext e ns"
| "GetContext e _ = []"

fun SetContext :: "'w kms_env \<Rightarrow> Driver \<Rightarrow> key_context" where
  "SetContext e (K8S name ns) = k8sContext e ns"
| "SetContext e _ = []"

fun DeleteContext :: "'w kms_env \<Rightarrow> Driver \<Rightarrow> key_context" where
  "DeleteContext e (K8S name ns) = k8sContext e ns"
| "DeleteContext e (Vault _ _ _) = [(ke_DestroySecret e, ''true'')]"
| "DeleteContext e (AzureVault _ _ _) = [(ke_DestroySecret e, ''true'')]"
| "DeleteContext e _ = []"

section \<open>The registry of drivers\<close>

definition RegisterDriver :: "string \<Rightarrow> DriverCtor \<Rightarrow> DriverCtor bag \<Rightarrow> DriverCtor bag result" where
  "RegisterDriver name ctor kmsDrivers =
     (case map_of kmsDrivers name of
        Some _ \<Rightarrow> Err (PlainError (''KMS driver '' @ name @ '' is already registered''))
      | None \<Rightarrow> Ok (kmsDrivers @ [(name, ctor)]))"

text \<open>The \<^verbatim>\<open>init\<close> functions of the drivers run in the order of their files and panic on an error.\<close>

definition register :: "string \<Rightarrow> DriverCtor \<Rightarrow> DriverCtor bag result \<Rightarrow> DriverCtor bag result" where
  "register name ctor reg = (case bind_r reg (RegisterDriver name ctor) of Err _ \<Rightarrow> Panic | r \<Rightarrow> r)"

definition init_drivers :: "'w kms_env \<Rightarrow> DriverCtor bag result" where
  "init_drivers e =
     register (ke_vault_Name e) NewVault (register ''kmip'' NewKMIP (register (ke_k8s_Name e) NewK8S
       (register ''ibmkeyprotect'' NewIBM (register (ke_azure_Name e) NewAzureVault (Ok [])))))"

definition NewDriver :: "DriverCtor bag \<Rightarrow> string \<Rightarrow> string \<Rightarrow> string \<Rightarrow> string \<Rightarrow> Driver option" where
  "NewDriver kmsDrivers dType name namespace uid =
     (case map_of kmsDrivers dType of Some dCtor \<Rightarrow> Some (dCtor name namespace uid) | None \<Rightarrow> None)"

definition kmsType :: "'w kms_env \<Rightarrow> string bag \<Rightarrow> string" where
  "kmsType e connectionDetails =
     (if connectionDetails \<noteq> [] then
        (case map_of connectionDetails ''KMS_PROVIDER'' of Some provider \<Rightarrow> provider | None \<Rightarrow> ke_TypeK8s e)
      else ke_TypeK8s e)"

text \<open>The states of the KMS condition of the system.\<close>

abbreviation ConditionKMSInit :: ConditionStatus where "ConditionKMSInit \<equiv> ConditionStatusOther ''Init''"
abbreviation ConditionKMSSync :: ConditionStatus where "ConditionKMSSync \<equiv> ConditionStatusOther ''Sync''"
abbreviation ConditionKMSKeyRotate :: ConditionStatus where "ConditionKMSKeyRotate \<equiv> ConditionStatusOther ''KeyRotate''"
abbreviation ConditionKMSInvalid :: ConditionStatus where "ConditionKMSInvalid \<equiv> ConditionStatusOther ''Invalid''"
abbreviation ConditionKMSErrorRead :: ConditionStatus where "ConditionKMSErrorRead \<equiv> ConditionStatusOther ''ErrorRead''"
abbreviation ConditionKMSErrorWrite :: ConditionStatus where "ConditionKMSErrorWrite \<equiv> ConditionStatusOther ''ErrorWrite''"
abbreviation ConditionKMSErrorSecretReconcile :: ConditionStatus where
  "ConditionKMSErrorSecretReconcile \<equiv> ConditionStatusOther ''ErrorSecretReconcile''"

definition StatusValid :: "ConditionStatus \<Rightarrow> bool" where
  "StatusValid st \<longleftrightarrow> st = ConditionKMSSync \<or> st = ConditionKMSInit \<or> st = ConditionKMSKeyRotate"

section \<open>Configuration of the drivers\<close>

definition empty_meta :: ObjectMeta where
  "empty_meta = \<lparr>om_Name = [], om_Namespace = [], om_UID = [], om_Generation = 0, om_Labels = None,
     om_Annotations = None, om_Finalizers = [], om_OwnerReferences = [], om_DeletionTimestamp = None, om_CreationTimestamp = 0\<rparr>"

text \<open>The mark in front of the messages.\<close>

abbreviation cross :: string where "cross \<equiv> [byte 226, byte 157, byte 140]"

definition new_secret :: "string \<Rightarrow> string \<Rightarrow> Secret" where
  "new_secret name ns =
     \<lparr>sec_Meta = empty_meta\<lparr>om_Name := name, om_Namespace := ns\<rparr>, sec_StringData = Map.empty, sec_Data = Map.empty\<rparr>"

definition secret_missing :: "string \<Rightarrow> string \<Rightarrow> go_error" where
  "secret_missing name ns = PlainError (cross @ '' Could not find secret '' @ go_quote name @ '' in namespace '' @ go_quote ns)"

text \<open>
  \<^verbatim>\<open>util.KubeCheck\<close> fills the secret and moves its data to its string data; the optional check leaves
  the data in place.
\<close>

definition kms_check_secret :: "'w kms_env \<Rightarrow> Secret \<Rightarrow> ('w, Secret option) proc" where
  "kms_check_secret e sec = bindp (gets (k_Get (ke_client e) sec)) (\<lambda>g. bindp (lift (check_get g)) (\<lambda>r.
     ret (map_option SecretResetStringDataFromData r)))"

definition kms_check_secret_optional :: "'w kms_env \<Rightarrow> Secret \<Rightarrow> ('w, Secret option) proc" where
  "kms_check_secret_optional e sec = bindp (gets (k_Get (ke_client e) sec)) (\<lambda>g. lift (check_get g))"

definition SafeSetEnv :: "'w kms_env \<Rightarrow> string \<Rightarrow> string \<Rightarrow> ('w, unit) proc" where
  "SafeSetEnv e name value = bindp (tryp (ke_Setenv e name value)) (\<lambda>_. ret ())"

text \<open>\<^verbatim>\<open>%q\<close> of a map prints its entries in the order of the keys.\<close>

definition quote_map :: "string bag \<Rightarrow> string" where
  "quote_map m = ''map['' @ Join (map (\<lambda>(k, v). go_quote k @ '':'' @ go_quote v) (sort_key fst m)) '' '' @ '']''"

definition type_correct_copy :: "string bag \<Rightarrow> iface bag" where
  "type_correct_copy config = map (\<lambda>(k, v). (k, IStr v)) config"

subsection \<open>Certificates in files\<close>

definition writeCrtsToFile :: "'w kms_env \<Rightarrow> string \<Rightarrow> string \<Rightarrow> string \<Rightarrow> ('w, string) proc" where
  "writeCrtsToFile e secretName secretValue envVarName = bindp (gets (ke_Getenv e envVarName)) (\<lambda>envVar.
     case envVar of
       Some (c # cs) \<Rightarrow> ret (c # cs)
     | _ \<Rightarrow>
         bindp (tryp (ke_CreateTemp e)) (\<lambda>f. case f of
           Inl err \<Rightarrow> raise (PlainError (''failed to generate temp file for k8s secret '' @ go_quote secretName
             @ '' content, '' @ Error err))
         | Inr file \<Rightarrow>
             bindp (tryp (ke_WriteFile e file secretValue)) (\<lambda>w. case w of
               Inl err \<Rightarrow> raise (PlainError (''failed to write k8s secret '' @ go_quote secretName
                 @ '' content to a file '' @ Error err))
             | Inr _ \<Rightarrow>
                 bindp (tryp (ke_Setenv e envVarName file)) (\<lambda>v. case v of
                   Inl err \<Rightarrow> raise (PlainError (''can not set env var '' @ envVarName @ '' '' @ file))
                 | Inr _ \<Rightarrow> ret file))))"

text \<open>The secret named by one configuration key becomes a file, whose path is stored under a configuration key.\<close>

definition cert_to_file ::
    "'w kms_env \<Rightarrow> string \<Rightarrow> string \<Rightarrow> string \<Rightarrow> string \<Rightarrow> iface bag \<Rightarrow> ('w, iface bag) proc" where
  "cert_to_file e namespace key entry target config = (case map_of config key of
     None \<Rightarrow> ret config
   | Some v \<Rightarrow> bindp (lift (as_string v)) (\<lambda>name.
       bindp (kms_check_secret_optional e (new_secret name namespace)) (\<lambda>found. case found of
         None \<Rightarrow> raise (secret_missing name namespace)
       | Some sec \<Rightarrow>
           bindp (tryp (writeCrtsToFile e name (map_get (Some (sec_Data sec)) entry) key)) (\<lambda>r. case r of
             Inl err \<Rightarrow> raise (PlainError (''can not write crt '' @ key @ '' to file '' @ Error err))
           | Inr addr \<Rightarrow> ret (AList.update target (IStr addr) config)))))"

definition tlsConfig :: "'w kms_env \<Rightarrow> iface bag \<Rightarrow> string \<Rightarrow> ('w, iface bag) proc" where
  "tlsConfig e config namespace =
     bindp (cert_to_file e namespace ''VAULT_CACERT'' ''cert'' ''VAULT_CACERT'' config) (\<lambda>config1.
     bindp (cert_to_file e namespace ''VAULT_CLIENT_CERT'' ''cert'' ''VAULT_CLIENT_CERT'' config1) (\<lambda>config2.
     cert_to_file e namespace ''VAULT_CLIENT_KEY'' ''key'' ''VAULT_CLIENT_KEY'' config2))"

definition createCertTempFile :: "'w kms_env \<Rightarrow> iface bag \<Rightarrow> string \<Rightarrow> ('w, iface bag) proc" where
  "createCertTempFile e config namespace =
     cert_to_file e namespace ''AZURE_CERT_SECRET_NAME'' ''CLIENT_CERT'' (ke_AzureClientCertPath e) config"

subsection \<open>One configuration function per driver\<close>

definition Vault_Config :: "'w kms_env \<Rightarrow> string bag \<Rightarrow> string \<Rightarrow> string \<Rightarrow> ('w, iface bag) proc" where
  "Vault_Config e config tokenSecretName namespace =
     bindp (tryp (tlsConfig e (type_correct_copy config) namespace)) (\<lambda>r. case r of
       Inl err \<Rightarrow> raise (PlainError (cross @ '' Could not init vault tls config '' @ quote_map config
         @ '' in namespace '' @ go_quote namespace))
     | Inr c \<Rightarrow>
         if map_get (Some (map_of config)) (ke_AuthMethod e) \<noteq> ke_AuthMethodKubernetes e then
           bindp (kms_check_secret e (new_secret tokenSecretName namespace)) (\<lambda>found. case found of
             None \<Rightarrow> raise (secret_missing tokenSecretName namespace)
           | Some sec \<Rightarrow> ret (AList.update ''VAULT_TOKEN'' (IStr (map_get (Some (sec_StringData sec)) ''token'')) c))
         else ret c)"

definition AzureVault_Config :: "'w kms_env \<Rightarrow> string bag \<Rightarrow> string \<Rightarrow> string \<Rightarrow> ('w, iface bag) proc" where
  "AzureVault_Config e config tokenSecretName namespace =
     bindp (tryp (createCertTempFile e (type_correct_copy config) namespace)) (\<lambda>r. case r of
       Inl err \<Rightarrow> raise (PlainError (cross @ '' Could not init azure vault config '' @ quote_map config
         @ '' in namespace '' @ go_quote namespace))
     | Inr c \<Rightarrow> ret c)"

definition keysFromSecret :: "'w kms_env \<Rightarrow> string \<Rightarrow> string \<Rightarrow> iface bag \<Rightarrow> ('w, iface bag) proc" where
  "keysFromSecret e tokenSecretName namespace c =
     bindp (kms_check_secret e (new_secret tokenSecretName namespace)) (\<lambda>found. case found of
       None \<Rightarrow> raise (secret_missing tokenSecretName namespace)
     | Some sec \<Rightarrow>
         (case sec_StringData sec ''IBM_KP_SERVICE_API_KEY'' of
            None \<Rightarrow> raise (PlainError (cross @ '' Could not find key IBM_KP_SERVICE_API_KEY in secret '' @ go_quote (sec_Name sec)
              @ '' in namespace '' @ go_quote (sec_Namespace sec)))
          | Some val \<Rightarrow> seqp (SafeSetEnv e ''IBM_KP_SERVICE_API_KEY'' val)
              (ret (AList.update ''IBM_KP_SERVICE_API_KEY'' (IStr val) c))))"

definition IBM_Config :: "'w kms_env \<Rightarrow> string bag \<Rightarrow> string \<Rightarrow> string \<Rightarrow> ('w, iface bag) proc" where
  "IBM_Config e config tokenSecretName namespace =
     (case map_of config ''IBM_KP_SERVICE_INSTANCE_ID'' of
        None \<Rightarrow> raise (PlainError (cross @ '' Unable to find IBM Key Protect instance ID in CR IBM_KP_SERVICE_INSTANCE_ID''))
      | Some instanceID \<Rightarrow>
          seqp (SafeSetEnv e ''IBM_KP_SERVICE_INSTANCE_ID'' instanceID)
          (bindp (gets (ke_Getenv e ''IBM_KP_SERVICE_API_KEY'')) (\<lambda>api.
           bindp (if api = None then keysFromSecret e tokenSecretName namespace (type_correct_copy config)
                  else ret (type_correct_copy config)) (\<lambda>c.
           ret (AList.update ''secret'' (ISecret (new_secret tokenSecretName namespace)) c)))))"

definition set_if_present :: "string \<Rightarrow> iface option \<Rightarrow> iface bag \<Rightarrow> iface bag" where
  "set_if_present k v c = (case v of None \<Rightarrow> c | Some x \<Rightarrow> AList.update k x c)"

text \<open>\<^verbatim>\<open>strconv.Atoi\<close> of an optional timeout; a timeout that is not a number is ignored.\<close>

definition timeout_of :: "string bag \<Rightarrow> string \<Rightarrow> iface option" where
  "timeout_of config k = Option.bind (map_of config k) (\<lambda>s. map_option IInt (ParseInt 64 s))"

definition KMIP_Config :: "'w kms_env \<Rightarrow> string bag \<Rightarrow> string \<Rightarrow> string \<Rightarrow> ('w, iface bag) proc" where
  "KMIP_Config e config tokenSecretName namespace =
     bindp (kms_check_secret e (new_secret tokenSecretName namespace)) (\<lambda>found. case found of
       None \<Rightarrow> raise (secret_missing tokenSecretName namespace)
     | Some sec \<Rightarrow>
         (let sd = (\<lambda>k. IStr (map_get (Some (sec_StringData sec)) k));
              c = [(''secret'', ISecret sec), (''CA_CERT'', sd ''CA_CERT''), (''CLIENT_CERT'', sd ''CLIENT_CERT''),
                   (''CLIENT_KEY'', sd ''CLIENT_KEY'')]
          in case map_of config ''KMIP_ENDPOINT'' of
               None \<Rightarrow> raise (PlainError (cross @ '' Could not find in config KMP Endpoint KMIP_ENDPOINT''))
             | Some endpoint \<Rightarrow>
                 ret (set_if_present ''WRITE_TIMEOUT'' (timeout_of config ''WRITE_TIMEOUT'')
                   (set_if_present ''READ_TIMEOUT'' (timeout_of config ''READ_TIMEOUT'')
                   (set_if_present ''TLS_SERVER_NAME'' (map_option IStr (map_of config ''TLS_SERVER_NAME''))
                   (AList.update ''KMIP_ENDPOINT'' (IStr endpoint) c))))))"

fun Driver_Config :: "'w kms_env \<Rightarrow> Driver \<Rightarrow> string bag \<Rightarrow> string \<Rightarrow> string \<Rightarrow> ('w, iface bag) proc" where
  "Driver_Config e (K8S _ _) config tokenSecretName namespace = ret []"
| "Driver_Config e (Vault _ _ _) config tokenSecretName namespace = Vault_Config e config tokenSecretName namespace"
| "Driver_Config e (AzureVault _ _ _) config tokenSecretName namespace = AzureVault_Config e config tokenSecretName namespace"
| "Driver_Config e (IBM _ _ _) config tokenSecretName namespace = IBM_Config e config tokenSecretName namespace"
| "Driver_Config e (KMIP _ _ _) config tokenSecretName namespace = KMIP_Config e config tokenSecretName namespace"

section \<open>A key management client\<close>

record 'w KMS =
  k_Secrets :: "'w Secrets"
  k_Type :: string
  k_driver :: Driver

text \<open>The two versions of the storage with the data they keep in memory.\<close>

record 'w VersionSingleSecret =
  s_world :: 'w
  s_data :: "string option"

record 'w VersionRotatingSecret =
  v_world :: 'w
  v_data :: "string bag option"

definition on_s_world :: "('w, 'a) proc \<Rightarrow> ('w VersionSingleSecret, 'a) proc" where
  "on_s_world m s = (case m (s_world s) of (r, w) \<Rightarrow> (r, s\<lparr>s_world := w\<rparr>))"

definition on_world :: "('w, 'a) proc \<Rightarrow> ('w VersionRotatingSecret, 'a) proc" where
  "on_world m s = (case m (v_world s) of (r, w) \<Rightarrow> (r, s\<lparr>v_world := w\<rparr>))"

text \<open>A secret that does not exist is reported as an invalid secret id.\<close>

definition get_error :: "go_error \<Rightarrow> go_error" where
  "get_error err = (if Contains_str (Error err) ''not found'' \<or> Contains_str (Error err) ''does not exist''
     then ErrInvalidSecretId else err)"

subsection \<open>A single string\<close>

definition Single_Get :: "'w kms_env \<Rightarrow> 'w KMS \<Rightarrow> ('w VersionSingleSecret, unit) proc" where
  "Single_Get e k =
     bindp (tryp (on_s_world (GetSecret (k_Secrets k) (Path (k_driver k)) (GetContext e (k_driver k))))) (\<lambda>r.
     case r of
       Inl err \<Rightarrow> raise (get_error err)
     | Inr s \<Rightarrow> (case map_of s (Name (k_driver k)) of
         Some (IStr value) \<Rightarrow> modify (\<lambda>v. v\<lparr>s_data := Some value\<rparr>)
       | _ \<Rightarrow> raise ErrInvalidSecretId))"

definition Single_Set :: "'w kms_env \<Rightarrow> 'w KMS \<Rightarrow> string \<Rightarrow> ('w VersionSingleSecret, unit) proc" where
  "Single_Set e k val =
     seqp (modify (\<lambda>v. v\<lparr>s_data := Some val\<rparr>))
       (on_s_world (PutSecret (k_Secrets k) (Path (k_driver k)) [(Name (k_driver k), IStr val)] (SetContext e (k_driver k))))"

definition Single_Delete :: "'w kms_env \<Rightarrow> 'w KMS \<Rightarrow> ('w VersionSingleSecret, unit) proc" where
  "Single_Delete e k = on_s_world (DeleteSecret (k_Secrets k) (Path (k_driver k)) (DeleteContext e (k_driver k)))"

definition Single_Upgrade :: "('w VersionSingleSecret, unit) proc" where
  "Single_Upgrade = ret ()"

subsection \<open>A rotating map of keys\<close>

abbreviation ActiveRootKey :: string where "ActiveRootKey \<equiv> ''active_root_key''"

definition BackendSecretName :: "string \<Rightarrow> string" where
  "BackendSecretName name = name @ ''-root-master-key-backend''"

fun strings_of :: "iface bag \<Rightarrow> string bag result" where
  "strings_of [] = Ok []"
| "strings_of ((k, v) # rest) = bind_r (as_string v) (\<lambda>x. bind_r (strings_of rest) (\<lambda>rc. Ok ((k, x) # rc)))"

definition toInterfaceMap :: "string bag \<Rightarrow> iface bag" where
  "toInterfaceMap s = map (\<lambda>(k, v). (k, IStr v)) s"

definition Rotating_Get :: "'w kms_env \<Rightarrow> 'w KMS \<Rightarrow> ('w VersionRotatingSecret, unit) proc" where
  "Rotating_Get e k =
     bindp (tryp (on_world (GetSecret (k_Secrets k) (BackendSecretName (d_name (k_driver k))) (GetContext e (k_driver k))))) (\<lambda>r.
     case r of
       Inl err \<Rightarrow> raise (get_error err)
     | Inr s \<Rightarrow> bindp (lift (strings_of s)) (\<lambda>rc. modify (\<lambda>v. v\<lparr>v_data := Some rc\<rparr>)))"

definition keyName :: "int \<Rightarrow> string" where
  "keyName now = ''key-'' @ show_int now"

definition Rotating_Set :: "'w kms_env \<Rightarrow> 'w KMS \<Rightarrow> string \<Rightarrow> ('w VersionRotatingSecret, unit) proc" where
  "Rotating_Set e k val =
     bindp (gets (\<lambda>v. keyName (ke_UnixNano e (v_world v)))) (\<lambda>key.
     bindp (gets v_data) (\<lambda>data.
     let s = AList.update key val (AList.update ActiveRootKey key (case data of None \<Rightarrow> [] | Some d \<Rightarrow> d)) in
     seqp (modify (\<lambda>v. v\<lparr>v_data := Some s\<rparr>))
       (on_world (PutSecret (k_Secrets k) (BackendSecretName (d_name (k_driver k))) (toInterfaceMap s) (SetContext e (k_driver k))))))"

definition kube_delete :: "'w kms_env \<Rightarrow> Secret \<Rightarrow> ('w, bool) proc" where
  "kube_delete e sec w = (case KubeDelete (ke_client e) sec (ke_polls e) w of
     None \<Rightarrow> (Panic, w)
   | Some (r, w1) \<Rightarrow> (r, w1))"

definition deleteSingleStringSecret :: "'w kms_env \<Rightarrow> 'w KMS \<Rightarrow> ('w VersionRotatingSecret, bool) proc" where
  "deleteSingleStringSecret e k = on_world (kube_delete e (new_secret (Path (k_driver k)) (d_ns (k_driver k))))"

definition Rotating_Delete :: "'w kms_env \<Rightarrow> 'w KMS \<Rightarrow> ('w VersionRotatingSecret, unit) proc" where
  "Rotating_Delete e k =
     (let backend = BackendSecretName (d_name (k_driver k)) in
      bindp (on_world (kube_delete e (new_secret backend (d_ns (k_driver k))))) (\<lambda>deleted.
        if \<not> deleted then raise (PlainError ''KMS Delete error for the rotating master root secret backend'')
        else on_world (DeleteSecret (k_Secrets k) backend (DeleteContext e (k_driver k)))))"

definition run_single :: "('w VersionSingleSecret, unit) proc \<Rightarrow> ('w VersionRotatingSecret, string option) proc" where
  "run_single m s = (case m \<lparr>s_world = v_world s, s_data = None\<rparr> of
     (Ok _, v1) \<Rightarrow> (Ok (s_data v1), s\<lparr>v_world := s_world v1\<rparr>)
   | (Err err, v1) \<Rightarrow> (Err err, s\<lparr>v_world := s_world v1\<rparr>)
   | (Panic, v1) \<Rightarrow> (Panic, s\<lparr>v_world := s_world v1\<rparr>))"

definition wrap_error :: "string \<Rightarrow> ('s, unit) proc \<Rightarrow> ('s, unit) proc" where
  "wrap_error msg m = bindp (tryp m) (\<lambda>r. case r of Inl err \<Rightarrow> raise (PlainError (msg @ Error err)) | Inr _ \<Rightarrow> ret ())"

definition Rotating_Upgrade :: "'w kms_env \<Rightarrow> 'w KMS \<Rightarrow> ('w VersionRotatingSecret, unit) proc" where
  "Rotating_Upgrade e k =
     bindp (tryp (run_single (Single_Get e k))) (\<lambda>r. case r of
       Inl err \<Rightarrow>
         if err = ErrInvalidSecretId then ret ()
         else raise (PlainError (''KMS Upgrade Get error '' @ Error err))
     | Inr None \<Rightarrow> lift Panic
     | Inr (Some val) \<Rightarrow>
         seqp (wrap_error ''KMS Upgrade Set error '' (Rotating_Set e k val))
         (seqp (wrap_error ''KMS Upgrade Delete error ''
            (on_world (DeleteSecret (k_Secrets k) (Path (k_driver k)) (DeleteContext e (k_driver k)))))
         (bindp (deleteSingleStringSecret e k) (\<lambda>deleted.
            if \<not> deleted then raise (PlainError ''KMS Delete error for single secret'') else ret ()))))"

text \<open>Every driver has the rotating version; a new client has no data in memory.\<close>

definition NewKMS ::
    "'w kms_env \<Rightarrow> string bag \<Rightarrow> string \<Rightarrow> string \<Rightarrow> string \<Rightarrow> string \<Rightarrow> 'w \<Rightarrow> ('w KMS \<times> string bag option) result \<times> 'w" where
  "NewKMS e connectionDetails tokenSecretName name namespace uid =
     (let t = kmsType e connectionDetails in
      bindp (lift (init_drivers e)) (\<lambda>kmsDrivers.
      case NewDriver kmsDrivers t name namespace uid of
        None \<Rightarrow> raise (PlainError (''Unsupported KMS driver type '' @ t))
      | Some driver \<Rightarrow>
          bindp (Driver_Config e driver connectionDetails tokenSecretName namespace) (\<lambda>c.
          bindp (ke_New e t c) (\<lambda>s w.
            let k = \<lparr>k_Secrets = s, k_Type = t, k_driver = driver\<rparr> in
            case Rotating_Upgrade e k \<lparr>v_world = w, v_data = None\<rparr> of
              (Ok _, v) \<Rightarrow> (Ok (k, v_data v), v_world v)
            | (Err err, v) \<Rightarrow> (Err err, v_world v)
            | (Panic, v) \<Rightarrow> (Panic, v_world v)))))"

section \<open>Removal of old keys\<close>

text \<open>The timestamp in the name of a key, for every entry but the pointer to the active key.\<close>

definition key_time :: "string \<Rightarrow> int result" where
  "key_time k =
     (let splitKey = Split k (CHR ''-'') in
      if length splitKey \<noteq> 2 then Err (PlainError ''KMS Key is not in the correct format'')
      else case ParseInt 64 (splitKey ! 1) of
        None \<Rightarrow> Err (PlainError (''KMS Key is not in the correct format '' @ ParseInt_error (splitKey ! 1)))
      | Some keyDate \<Rightarrow> Ok keyDate)"

fun key_entries :: "string bag \<Rightarrow> (string \<times> int) list result" where
  "key_entries [] = Ok []"
| "key_entries ((k, v) # rest) =
     (if k = ActiveRootKey then key_entries rest
      else bind_r (key_time k) (\<lambda>t. bind_r (key_entries rest) (\<lambda>es. Ok ((k, t) # es))))"

fun delete_old :: "int \<Rightarrow> int \<Rightarrow> (string \<times> int) list \<Rightarrow> int \<Rightarrow> int \<Rightarrow> string bag \<Rightarrow> int \<times> string bag" where
  "delete_old givenTime minKeys [] leftKeys deletedKeys data = (deletedKeys, data)"
| "delete_old givenTime minKeys ((k, t) # entries) leftKeys deletedKeys data =
     (if leftKeys \<le> minKeys then (deletedKeys, data)
      else if t < givenTime
      then delete_old givenTime minKeys entries (leftKeys - 1) (deletedKeys + 1) (AList.delete k data)
      else delete_old givenTime minKeys entries leftKeys deletedKeys data)"

definition RemoveOldKeysFromSecret :: "string bag \<Rightarrow> int \<Rightarrow> int \<Rightarrow> (int \<times> string bag) result" where
  "RemoveOldKeysFromSecret data givenTime minKeys =
     (if int (length data) \<le> minKeys then Ok (0, data)
      else bind_r (key_entries data) (\<lambda>entries.
        Ok (delete_old givenTime minKeys (sort_key snd entries) (int (length entries)) 0 data)))"

text \<open>The reference: the oldest of the outdated keys, as long as more than \<open>minKeys\<close> remain.\<close>

definition outdated_keys :: "int \<Rightarrow> int \<Rightarrow> (string \<times> int) list \<Rightarrow> string list" where
  "outdated_keys givenTime minKeys entries =
     map fst (take (nat (int (length entries) - minKeys)) (filter (\<lambda>(k, t). t < givenTime) (sort_key snd entries)))"

definition without_keys :: "string list \<Rightarrow> 'v bag \<Rightarrow> 'v bag" where
  "without_keys ks data = filter (\<lambda>(k, v). k \<notin> set ks) data"

lemma AList_delete_filter: "AList.delete k data = filter (\<lambda>(k', v). k' \<noteq> k) data"
  by (simp add: AList.delete_eq) (rule filter_cong, auto)

lemma delete_old_young: "\<forall>(k, t) \<in> set es. \<not> t < T \<Longrightarrow> delete_old T m es l d data = (d, data)"
  by (induction es) auto

lemma filter_all_false: "\<forall>x \<in> set xs. \<not> P x \<Longrightarrow> filter P xs = []"
  by (simp add: filter_empty_conv)

lemma delete_old_spec:
  assumes "sorted (map snd es)"
  shows "delete_old T m es l d data =
    (let x = map fst (take (nat (l - m)) (filter (\<lambda>(k, t). t < T) es)) in (d + int (length x), without_keys x data))"
  using assms
proof (induction es arbitrary: l d data)
  case Nil
  show ?case by (simp add: without_keys_def)
next
  case (Cons e es)
  obtain k t where e: "e = (k, t)" by (cases e)
  consider "l \<le> m" | "l > m" "t < T" | "l > m" "\<not> t < T" by linarith
  then show ?case
  proof cases
    case 1
    then show ?thesis by (simp add: e without_keys_def)
  next
    case 2
    then have "nat (l - m) = Suc (nat (l - 1 - m))" by simp
    then show ?thesis using 2 Cons
      by (simp add: e Let_def AList_delete_filter without_keys_def filter_filter del: nat_less_iff) (rule filter_cong, auto)
  next
    case 3
    then have young: "\<forall>(k, t) \<in> set es. \<not> t < T" using Cons.prems by (force simp: e)
    show ?thesis using 3 delete_old_young [OF young] filter_all_false [OF young [unfolded case_prod_unfold]]
      by (simp add: e without_keys_def case_prod_unfold)
  qed
qed

lemma length_key_entries: "key_entries data = Ok es \<Longrightarrow> length es \<le> length data"
proof (induction data arbitrary: es)
  case (Cons kv data)
  show ?case
  proof (cases "fst kv = ActiveRootKey")
    case True
    then show ?thesis using Cons by (cases kv) (fastforce simp: le_SucI)
  next
    case False
    with Cons.prems obtain es1 where "key_entries data = Ok es1" "length es = Suc (length es1)"
      by (cases kv; cases "key_time (fst kv)"; cases "key_entries data") auto
    then show ?thesis using Cons.IH [of es1] by simp
  qed
qed simp

lemma remove_old_keys_eq:
  assumes "key_entries data = Ok es"
  shows "RemoveOldKeysFromSecret data T m =
    Ok (int (length (outdated_keys T m es)), without_keys (outdated_keys T m es) data)"
proof (cases "int (length data) \<le> m")
  case True
  then have "outdated_keys T m es = []" using length_key_entries [OF assms] by (simp add: outdated_keys_def)
  then show ?thesis using True by (simp add: RemoveOldKeysFromSecret_def without_keys_def)
next
  case False
  then show ?thesis using assms by (simp add: RemoveOldKeysFromSecret_def delete_old_spec outdated_keys_def Let_def)
qed

lemma remove_old_keys_Ok:
  assumes "RemoveOldKeysFromSecret data T m = Ok r" "\<not> int (length data) \<le> m"
  obtains es where "key_entries data = Ok es"
  using assms by (cases "key_entries data") (auto simp: RemoveOldKeysFromSecret_def)

text \<open>The entries are the keys of the map but the pointer, with their timestamps.\<close>

lemma key_entries_map:
  "key_entries data = Ok es \<Longrightarrow>
     map fst es = filter (\<lambda>k. k \<noteq> ActiveRootKey) (map fst data) \<and> (\<forall>(k, t) \<in> set es. key_time k = Ok t)"
proof (induction data arbitrary: es)
  case (Cons kv data)
  show ?case
  proof (cases "fst kv = ActiveRootKey")
    case True
    then show ?thesis using Cons by (cases kv) simp
  next
    case False
    with Cons.prems obtain t es1 where "key_time (fst kv) = Ok t" "key_entries data = Ok es1" "es = (fst kv, t) # es1"
      by (cases kv; cases "key_time (fst kv)"; cases "key_entries data") auto
    then show ?thesis using Cons.IH [of es1] False by auto
  qed
qed simp

lemma set_outdated:
  "k \<in> set (outdated_keys T m es) \<Longrightarrow> \<exists>t. (k, t) \<in> set es \<and> t < T"
  unfolding outdated_keys_def by (auto dest!: in_set_takeD)

lemma distinct_outdated: "distinct (map fst es) \<Longrightarrow> distinct (outdated_keys T m es)"
proof -
  assume d: "distinct (map fst es)"
  have "mset (map fst (sort_key snd es)) = mset (map fst es)" by (metis mset_map mset_sort)
  then have "distinct (map fst (sort_key snd es))" using d by (metis mset_eq_imp_distinct_iff)
  then have "distinct (map fst (filter (\<lambda>(k, t). t < T) (sort_key snd es)))" by (rule distinct_map_filter)
  then show ?thesis unfolding outdated_keys_def take_map [symmetric] by (rule distinct_take)
qed

text \<open>What is removed is an initial part of the keys in the order of their age.\<close>

lemma filter_sorted_takeWhile:
  "sorted (map snd l) \<Longrightarrow> filter (\<lambda>(k, t). t < T) l = takeWhile (\<lambda>(k, t). t < T) l" for T :: "'a :: linorder"
proof (induction l)
  case (Cons e l)
  have "filter (\<lambda>(k, t). t < T) l = []" if "\<not> snd e < T"
    using that Cons.prems by (force simp: filter_empty_conv)
  then show ?case using Cons by (cases e) auto
qed simp

lemma outdated_prefix:
  "\<exists>n. n \<le> nat (int (length es) - m) \<and> outdated_keys T m es = map fst (take n (sort_key snd es))"
proof -
  let ?s = "sort_key snd es" and ?p = "\<lambda>(k :: string, t). t < T"
  have "filter ?p ?s = take (length (takeWhile ?p ?s)) ?s"
    by (subst filter_sorted_takeWhile) (simp_all flip: takeWhile_eq_take)
  then have "outdated_keys T m es = map fst (take (nat (int (length es) - m)) (take (length (takeWhile ?p ?s)) ?s))"
    unfolding outdated_keys_def by simp
  then show ?thesis by (intro exI [of _ "min (nat (int (length es) - m)) (length (takeWhile ?p ?s))"]) simp
qed

lemma map_of_without_keys: "map_of (without_keys ks data) k = (if k \<in> set ks then None else map_of data k)"
  by (induction data) (auto simp: without_keys_def)

lemma fst_without_keys: "map fst (without_keys ks data) = filter (\<lambda>k. k \<notin> set ks) (map fst data)"
  by (induction data) (auto simp: without_keys_def)

lemma length_without:
  assumes "distinct xs" "distinct ks" "set ks \<subseteq> set xs"
  shows "length (filter (\<lambda>k. k \<notin> set ks) xs) + length ks = length xs"
proof -
  have "length (filter (\<lambda>k. k \<in> set ks) xs) = card (set ks)"
    using assms distinct_card [OF distinct_filter [OF assms(1), of "\<lambda>k. k \<in> set ks"]]
    by (simp add: Collect_conj_eq Int_absorb1)
  also have "\<dots> = length ks" using assms(2) by (rule distinct_card)
  finally show ?thesis using sum_length_filter_compl [of "\<lambda>k. k \<in> set ks" xs] by simp
qed

definition key_names :: "'v bag \<Rightarrow> string list" where
  "key_names data = filter (\<lambda>k. k \<noteq> ActiveRootKey) (map fst data)"

text \<open>A secret whose keys are all well named.\<close>

definition well_named :: "string bag \<Rightarrow> (string \<times> int) list \<Rightarrow> bool" where
  "well_named data es \<longleftrightarrow> key_entries data = Ok es \<and> distinct (map fst data)"

lemma well_namedD: "well_named data es \<Longrightarrow> key_entries data = Ok es" "well_named data es \<Longrightarrow> distinct (map fst data)"
  by (simp_all add: well_named_def)

lemma well_named_keys: "well_named data es \<Longrightarrow> map fst es = key_names data"
  "well_named data es \<Longrightarrow> x \<in> set es \<Longrightarrow> key_time (fst x) = Ok (snd x)"
  using key_entries_map [of data es] by (auto simp: well_named_def key_names_def)


lemma removed_are_keys: "well_named data es \<Longrightarrow> set (outdated_keys T m es) \<subseteq> set (key_names data)"
  using well_named_keys(1) [of data es] set_outdated by (metis image_eqI list.set_map prod.sel(1) subsetI)

lemma distinct_removed: "well_named data es \<Longrightarrow> distinct (outdated_keys T m es)"
  using well_named_keys(1) [of data es] by (intro distinct_outdated) (simp add: key_names_def well_namedD)

lemma count_removed:
  assumes "well_named data es"
  shows "length (without_keys (outdated_keys T m es) data) + length (outdated_keys T m es) = length data"
proof -
  have "length (filter (\<lambda>k. k \<notin> set (outdated_keys T m es)) (map fst data)) + length (outdated_keys T m es) = length (map fst data)"
    using removed_are_keys [OF assms, of T m]
    by (intro length_without) (auto simp: well_namedD(2) [OF assms] distinct_removed [OF assms] key_names_def)
  then show ?thesis by (metis fst_without_keys length_map)
qed

lemma count_left:
  assumes "well_named data es"
  shows "length (key_names (without_keys (outdated_keys T m es) data)) + length (outdated_keys T m es) = length es"
proof -
  have "key_names (without_keys ks data) = filter (\<lambda>k. k \<notin> set ks) (key_names data)" for ks
    by (simp add: key_names_def fst_without_keys conj_commute)
  then show ?thesis
    using length_without [OF _ distinct_removed [OF assms] removed_are_keys [OF assms], of T m] well_named_keys(1) [OF assms]
      well_namedD(2) [OF assms] by (metis distinct_filter key_names_def length_map)
qed

lemma enough_left:
  assumes "well_named data es"
  shows "int (length (key_names (without_keys (outdated_keys T m es) data))) \<ge> min m (int (length es))"
proof -
  have "length (outdated_keys T m es) \<le> nat (int (length es) - m)" by (simp add: outdated_keys_def)
  then show ?thesis using count_left [OF assms, of T m] by linarith
qed

lemma removed_older:
  assumes "well_named data es" "k \<in> set (outdated_keys T m es)" "k' \<in> set (key_names data)" "k' \<notin> set (outdated_keys T m es)"
    "key_time k = Ok t" "key_time k' = Ok t'"
  shows "t \<le> t'"
proof -
  obtain n where n: "outdated_keys T m es = map fst (take n (sort_key snd es))" using outdated_prefix by metis
  let ?s = "sort_key snd es"
  note time = well_named_keys(2) [OF assms(1)]
  obtain x where x: "x \<in> set (take n ?s)" "fst x = k" using assms(2) n by auto
  have "k' \<in> fst ` set ?s" using assms(3) well_named_keys(1) [OF assms(1)] by (metis list.set_map set_sort)
  then obtain y where y: "y \<in> set ?s" "fst y = k'" by auto
  then have "y \<in> set (drop n ?s)" using assms(4) n by (metis Un_iff append_take_drop_id image_eqI list.set_map set_append)
  moreover have "sorted (map snd (take n ?s) @ map snd (drop n ?s))" by (metis append_take_drop_id map_append sorted_sort_key)
  ultimately have "snd x \<le> snd y" using x(1) by (auto simp: sorted_append)
  moreover have "snd x = t" "snd y = t'" using time [of x] time [of y] x y assms(5,6) by (auto dest: in_set_takeD)
  ultimately show ?thesis by simp
qed

section \<open>What a back end for rotating keys promises\<close>

lemma on_world_run: "m (v_world s) = (r, w) \<Longrightarrow> on_world m s = (r, s\<lparr>v_world := w\<rparr>)"
  by (simp add: on_world_def)

lemma strings_of_Ok: "\<forall>(k, u) \<in> set s. \<exists>x. u = IStr x \<Longrightarrow> \<exists>rc. strings_of s = Ok rc \<and> (\<forall>k x. map_of s k = Some (IStr x) \<longrightarrow> map_of rc k = Some x)"
proof (induction s)
  case (Cons kv s)
  obtain k x where kv: "kv = (k, IStr x)" using Cons.prems by (cases kv) auto
  obtain rc where "strings_of s = Ok rc" "\<forall>k x. map_of s k = Some (IStr x) \<longrightarrow> map_of rc k = Some x" using Cons by auto
  then show ?case by (auto simp: kv)
qed simp

text \<open>
  The contract between the rotating version and a back end: in a state that is ready for a new key, the active key
  and its value can be read back after they were stored.
\<close>

locale rotating_backend =
  fixes be :: "'p \<Rightarrow> 'w Secrets" and ready :: "'p \<Rightarrow> string \<Rightarrow> string \<Rightarrow> string \<Rightarrow> 'w \<Rightarrow> bool"
  assumes put_get: "ready x path key v w \<Longrightarrow> PutSecret (be x) path m c w = (Ok (), w1) \<Longrightarrow>
      map_of m ActiveRootKey = Some (IStr key) \<Longrightarrow> map_of m key = Some (IStr v) \<Longrightarrow>
      \<exists>r w2. GetSecret (be x) path c' w1 = (Ok r, w2) \<and> map_of r ActiveRootKey = Some (IStr key) \<and>
        map_of r key = Some (IStr v) \<and> (\<forall>(k, u) \<in> set r. \<exists>s. u = IStr s)"
begin

text \<open>A key that was set is the active key that a new client reads.\<close>

lemma set_get:
  assumes "k_Secrets k = be x" "key = keyName (ke_UnixNano e (v_world s))"
    and "ready x (BackendSecretName (d_name (k_driver k))) key val (v_world s)"
    and "Rotating_Set e k val s = (Ok (), s1)" "v_world s2 = v_world s1"
  shows "\<exists>s3 d. Rotating_Get e k s2 = (Ok (), s3) \<and> v_data s3 = Some d \<and> map_of d ActiveRootKey = Some key \<and> map_of d key = Some val"
proof -
  define m where "m = AList.update key val (AList.update ActiveRootKey key (case v_data s of None \<Rightarrow> [] | Some d \<Rightarrow> d))"
  have "key \<noteq> ActiveRootKey" by (simp add: assms(2) keyName_def)
  then have m: "map_of (toInterfaceMap m) ActiveRootKey = Some (IStr key)" "map_of (toInterfaceMap m) key = Some (IStr val)"
    by (simp_all add: m_def toInterfaceMap_def map_of_map update_conv' del: update.simps)
  obtain w1 where w1: "PutSecret (be x) (BackendSecretName (d_name (k_driver k))) (toInterfaceMap m) (SetContext e (k_driver k)) (v_world s) = (Ok (), w1)"
      "v_world s1 = w1"
    using assms(4) by (auto simp: Rotating_Set_def Let_def on_world_def assms(1) m_def assms(2) split: prod.splits)
  obtain r w2 where r: "GetSecret (be x) (BackendSecretName (d_name (k_driver k))) (GetContext e (k_driver k)) w1 = (Ok r, w2)"
      "map_of r ActiveRootKey = Some (IStr key)" "map_of r key = Some (IStr val)" "\<forall>(k, u) \<in> set r. \<exists>s. u = IStr s"
    using put_get [OF assms(3) w1(1) m] by blast
  obtain rc where rc: "strings_of r = Ok rc" "\<forall>k x. map_of r k = Some (IStr x) \<longrightarrow> map_of rc k = Some x"
    using strings_of_Ok [OF r(4)] by blast
  have "Rotating_Get e k s2 = (Ok (), s2\<lparr>v_world := w2, v_data := Some rc\<rparr>)"
    using r(1) rc(1) by (simp add: Rotating_Get_def on_world_run [of _ s2 "Ok r" w2] assms(1,5) w1(2))
  then show ?thesis using r(2,3) rc(2) by (intro exI [of _ "s2\<lparr>v_world := w2, v_data := Some rc\<rparr>"] exI [of _ rc]) simp
qed

end

section \<open>Properties of the removal\<close>

text \<open>The newest key is never among the outdated ones.\<close>

lemma newest_kept:
  assumes "well_named data es" "(key, t) \<in> set es" "\<And>k t'. (k, t') \<in> set es \<Longrightarrow> k \<noteq> key \<Longrightarrow> t' < t" "1 \<le> m"
  shows "key \<notin> set (outdated_keys T m es)"
proof
  assume removed: "key \<in> set (outdated_keys T m es)"
  have d: "distinct (key_names data)" using well_namedD(2) [OF assms(1)] by (simp add: key_names_def)
  have names: "set (key_names data) = fst ` set es" using well_named_keys(1) [OF assms(1)] by (metis list.set_map)
  have time: "key_time key = Ok t" using well_named_keys(2) [OF assms(1,2)] by simp
  have all: "set (key_names data) \<subseteq> set (outdated_keys T m es)"
  proof
    fix k assume "k \<in> set (key_names data)"
    then obtain t' where t': "(k, t') \<in> set es" using names by auto
    show "k \<in> set (outdated_keys T m es)"
    proof (rule ccontr)
      assume kept: "k \<notin> set (outdated_keys T m es)"
      have "key_time k = Ok t'" using well_named_keys(2) [OF assms(1) t'] by simp
      then have "t \<le> t'" using removed_older [OF assms(1) removed \<open>k \<in> set (key_names data)\<close> kept time] by simp
      then show False using assms(3) [OF t'] kept removed by force
    qed
  qed
  have "length es = card (set (key_names data))" using d well_named_keys(1) [OF assms(1)] by (metis distinct_card length_map)
  also have "\<dots> \<le> length (outdated_keys T m es)" using card_mono [OF _ all] card_length order_trans by blast
  also have "\<dots> \<le> nat (int (length es) - m)" by (simp add: outdated_keys_def)
  finally have "length es \<le> nat (int (length es) - m)" .
  moreover have "length es > 0" using assms(2) by (cases es) auto
  ultimately show False using assms(4) by linarith
qed

text \<open>
  C13. Removing old keys is the same as a reference definition: of the keys older than the given time, the oldest are
  removed, one after the other, while more than the minimal number of keys remain; everything else stays, in place.
\<close>

theorem old_keys_removed:
  assumes "key_entries data = Ok entries"
  shows "RemoveOldKeysFromSecret data givenTime minKeys =
    Ok (int (length (outdated_keys givenTime minKeys entries)), without_keys (outdated_keys givenTime minKeys entries) data)"
  using assms by (rule remove_old_keys_eq)

definition ex_keys :: "string bag" where
  "ex_keys = [(''active_root_key'', ''key-30''), (''key-30'', ''c''), (''key-10'', ''a''), (''key-20'', ''b'')]"

definition ex_entries :: "(string \<times> int) list" where
  "ex_entries = [(''key-30'', 30), (''key-10'', 10), (''key-20'', 20)]"

lemma ex_entries: "key_entries ex_keys = Ok ex_entries"
  by code_simp

theorem old_keys_removed_witness:
  "RemoveOldKeysFromSecret ex_keys 25 2 = Ok (1, [(''active_root_key'', ''key-30''), (''key-30'', ''c''), (''key-20'', ''b'')])"
proof -
  have "outdated_keys 25 2 ex_entries = [''key-10'']" by code_simp
  then show ?thesis using old_keys_removed [OF ex_entries, of 25 2] by (simp add: without_keys_def ex_keys_def)
qed

text \<open>
  When old keys are removed from a well-named secret, the pointer to the active key stays, the count is the number of
  entries that went, at least the minimal number of keys (or all, if there were fewer) remain, and every key that went
  was older than the given time and not newer than any key that remains.
\<close>

theorem old_keys_pruned_safely:
  assumes "well_named data entries" "RemoveOldKeysFromSecret data givenTime minKeys = Ok (n, data')"
  shows "map_of data' ActiveRootKey = map_of data ActiveRootKey \<and> n = int (length data) - int (length data') \<and>
    int (length (key_names data')) \<ge> min minKeys (int (length (key_names data))) \<and>
    (\<forall>k \<in> set (key_names data) - set (key_names data'). \<exists>t < givenTime. key_time k = Ok t \<and>
       (\<forall>k' \<in> set (key_names data'). \<exists>t' \<ge> t. key_time k' = Ok t'))"
proof -
  let ?old = "outdated_keys givenTime minKeys entries"
  note w = assms(1)
  have data': "data' = without_keys ?old data" and n: "n = int (length ?old)"
    using assms(2) remove_old_keys_eq [OF well_namedD(1) [OF w], of givenTime minKeys] by simp_all
  have "ActiveRootKey \<notin> set ?old" using removed_are_keys [OF w] by (auto simp: key_names_def)
  then have a: "map_of data' ActiveRootKey = map_of data ActiveRootKey" by (simp add: data' map_of_without_keys)
  have b: "n = int (length data) - int (length data')" using count_removed [OF w, of givenTime minKeys] by (simp add: n data')
  have c: "int (length (key_names data')) \<ge> min minKeys (int (length (key_names data)))"
    using enough_left [OF w, of minKeys givenTime] well_named_keys(1) [OF w] by (metis data' length_map)
  have left: "set (key_names data') = set (key_names data) - set ?old"
    by (auto simp: data' key_names_def fst_without_keys simp flip: set_map)
  have timed: "\<exists>t. key_time k = Ok t" if "k \<in> set (key_names data)" for k
    using that well_named_keys [OF w] by (metis imageE list.set_map)
  have "\<exists>t < givenTime. key_time k = Ok t \<and> (\<forall>k' \<in> set (key_names data'). \<exists>t' \<ge> t. key_time k' = Ok t')"
    if "k \<in> set (key_names data) - set (key_names data')" for k
  proof -
    have k: "k \<in> set ?old" using that left by auto
    then obtain t where t: "t < givenTime" "key_time k = Ok t" using set_outdated well_named_keys(2) [OF w] by fastforce
    have "\<exists>t' \<ge> t. key_time k' = Ok t'" if "k' \<in> set (key_names data')" for k'
      using timed [of k'] removed_older [OF w k _ _ t(2)] that left by blast
    then show ?thesis using t by blast
  qed
  then show ?thesis using a b c by blast
qed

theorem old_keys_pruned_safely_witness:
  "\<exists>t < 25. key_time ''key-10'' = Ok t"
proof -
  have "well_named ex_keys ex_entries" by (simp add: well_named_def ex_entries) (simp add: ex_keys_def)
  moreover have "RemoveOldKeysFromSecret ex_keys 25 2 = Ok (1, [(''active_root_key'', ''key-30''), (''key-30'', ''c''), (''key-20'', ''b'')])"
    by code_simp
  ultimately have "\<forall>k \<in> set (key_names ex_keys) - set (key_names [(''active_root_key'', ''key-30''), (''key-30'', ''c''), (''key-20'', ''b'')]).
     \<exists>t < 25. key_time k = Ok t"
    using old_keys_pruned_safely by blast
  then show ?thesis by (simp add: key_names_def ex_keys_def)
qed

end
