(* ===== verification/Kms_Storage.thy ===== *)
theory Kms_Storage
  imports Kms
begin

text \<open>
  The two back ends that the operator implements itself: IBM Key Protect
  (\<^verbatim>\<open>kms_ibm_kp_storage.go\<close>) and KMIP (\<^verbatim>\<open>kms_kmip_storage.go\<close>).  Both keep the key
  in a remote service and track it in a Kubernetes secret, which the storage holds in memory and refreshes before
  it is read.  The clients of the two services are parameters.
\<close>

section \<open>The tracking secret\<close>

record 'x tracked =
  st_ext :: 'x
  st_secret :: Secret

definition on_ext :: "('x, 'a) proc \<Rightarrow> ('x tracked, 'a) proc" where
  "on_ext m s = (case m (st_ext s) of (r, x) \<Rightarrow> (r, s\<lparr>st_ext := x\<rparr>))"

text \<open>\<^verbatim>\<open>util.KubeCheck(i.secret)\<close>: the secret is refreshed when it exists.\<close>

definition refresh :: "('x, Secret) klient \<Rightarrow> ('x tracked, unit) proc" where
  "refresh cl = bindp (gets (\<lambda>s. k_Get cl (st_secret s) (st_ext s))) (\<lambda>g. bindp (lift (check_get g)) (\<lambda>r.
     case r of None \<Rightarrow> ret () | Some sec \<Rightarrow> modify (\<lambda>s. s\<lparr>st_secret := SecretResetStringDataFromData sec\<rparr>)))"

definition string_data :: "string \<Rightarrow> ('x tracked, string option) proc" where
  "string_data key = gets (\<lambda>s. sec_StringData (st_secret s) key)"

definition set_string_data :: "string \<Rightarrow> string \<Rightarrow> ('x tracked, unit) proc" where
  "set_string_data key val = modify (\<lambda>s. s\<lparr>st_secret := (st_secret s)\<lparr>sec_StringData := (sec_StringData (st_secret s))(key \<mapsto> val)\<rparr>\<rparr>)"

definition update_tracking :: "('x, Secret) klient \<Rightarrow> string \<Rightarrow> ('x tracked, unit) proc" where
  "update_tracking cl msg = bindp (gets st_secret) (\<lambda>sec. bindp (on_ext (KubeUpdate cl sec)) (\<lambda>ok.
     if \<not> ok then raise (PlainError (msg @ sec_Name sec @ '' in ns '' @ sec_Namespace sec)) else ret ()))"

abbreviation rotating :: "string \<Rightarrow> bool" where "rotating secretID \<equiv> HasSuffix secretID ''-root-master-key-backend''"

section \<open>IBM Key Protect\<close>

record kp_Key =
  kp_ID :: string
  kp_Name :: string
  kp_Payload :: string

record kp_ClientConfig =
  cc_BaseURL :: string
  cc_APIKey :: string
  cc_TokenURL :: string
  cc_InstanceID :: string
  cc_Timeout :: int

text \<open>The client library; \<open>kp_pages\<close> bounds the pages that one search reads.\<close>

record 'x kp_api =
  kp_DefaultBaseURL :: string
  kp_DefaultTokenURL :: string
  kp_New :: "kp_ClientConfig \<Rightarrow> go_error option"
  kp_GetKeys :: "nat \<Rightarrow> nat \<Rightarrow> ('x, kp_Key list) proc"
  kp_GetKey :: "string \<Rightarrow> ('x, kp_Key) proc"
  kp_CreateImportedStandardKey :: "string \<Rightarrow> string \<Rightarrow> ('x, kp_Key) proc"
  kp_DeleteKey :: "string \<Rightarrow> ('x, unit) proc"
  kp_pages :: nat

definition getIbmParam :: "(string \<Rightarrow> string option) \<Rightarrow> iface bag \<Rightarrow> string \<Rightarrow> string result" where
  "getIbmParam getenv secretConfig name = (case map_of secretConfig name of
     Some tokenIntf \<Rightarrow> as_string tokenIntf
   | None \<Rightarrow> Ok (case getenv name of None \<Rightarrow> '''' | Some v \<Rightarrow> v))"

definition required_param :: "(string \<Rightarrow> string option) \<Rightarrow> iface bag \<Rightarrow> string \<Rightarrow> string result" where
  "required_param getenv secretConfig name = bind_r (getIbmParam getenv secretConfig name) (\<lambda>v.
     if v = '''' then Err (PlainError (name @ '' is not set'')) else Ok v)"

definition default_param :: "(string \<Rightarrow> string option) \<Rightarrow> iface bag \<Rightarrow> string \<Rightarrow> string \<Rightarrow> string result" where
  "default_param getenv secretConfig name d = bind_r (getIbmParam getenv secretConfig name) (\<lambda>v. Ok (if v = '''' then d else v))"

text \<open>The configuration of the client and the tracking secret of a new storage.\<close>

definition NewIBMKpSecretStorage ::
    "'x kp_api \<Rightarrow> (string \<Rightarrow> string option) \<Rightarrow> iface bag \<Rightarrow> (kp_ClientConfig \<times> Secret) result" where
  "NewIBMKpSecretStorage kp getenv secretConfig =
     bind_r (required_param getenv secretConfig ''IBM_KP_SERVICE_API_KEY'') (\<lambda>serviceAPIKey.
     bind_r (required_param getenv secretConfig ''IBM_KP_SERVICE_INSTANCE_ID'') (\<lambda>instanceID.
     bind_r (default_param getenv secretConfig ''IBM_KP_BASE_URL'' (kp_DefaultBaseURL kp)) (\<lambda>baseURL.
     bind_r (default_param getenv secretConfig ''IBM_KP_TOKEN_URL'' (kp_DefaultTokenURL kp)) (\<lambda>tokenURL.
     let cc = \<lparr>cc_BaseURL = baseURL, cc_APIKey = serviceAPIKey, cc_TokenURL = tokenURL, cc_InstanceID = instanceID,
               cc_Timeout = 10\<rparr>
     in case kp_New kp cc of
          Some err \<Rightarrow> Err err
        | None \<Rightarrow> (case map_of secretConfig ''secret'' of
            None \<Rightarrow> Err (PlainError ''Missing IBM secret'')
          | Some (ISecret sec) \<Rightarrow> Ok (cc, sec)
          | Some _ \<Rightarrow> Panic)))))"

fun find_in_pages :: "'x kp_api \<Rightarrow> string \<Rightarrow> nat \<Rightarrow> nat \<Rightarrow> ('x, kp_Key) proc" where
  "find_in_pages kp secretID 0 pageNo = lift Panic"
| "find_in_pages kp secretID (Suc fuel) pageNo =
     bindp (kp_GetKeys kp 2000 (pageNo * 2000)) (\<lambda>keys.
       if keys = [] then raise ErrInvalidSecretId
       else case find (\<lambda>k. kp_Name k = secretID) keys of
         Some k \<Rightarrow> ret k
       | None \<Rightarrow> find_in_pages kp secretID fuel (Suc pageNo))"

definition getKeyByName :: "'x kp_api \<Rightarrow> string \<Rightarrow> ('x, kp_Key) proc" where
  "getKeyByName kp secretID = find_in_pages kp secretID (kp_pages kp) 0"

definition IBM_GetSecret ::
    "('x, Secret) klient \<Rightarrow> 'x kp_api \<Rightarrow> string \<Rightarrow> key_context \<Rightarrow> ('x tracked, iface bag) proc" where
  "IBM_GetSecret cl kp secretID keyContext =
     seqp (refresh cl)
     (bindp (if rotating secretID
             then bindp (string_data ''IBM_KP_ACTIVE_KEY_ID'') (\<lambda>a. case a of
                    None \<Rightarrow> raise ErrInvalidSecretId
                  | Some activeKeyID \<Rightarrow> ret activeKeyID)
             else ret '''') (\<lambda>activeKeyID.
      bindp (if activeKeyID \<noteq> ''''
             then bindp (string_data (''IBM_KP_KEY_'' @ activeKeyID)) (\<lambda>a. case a of
                    None \<Rightarrow> raise ErrInvalidSecretId
                  | Some keyIDInKP \<Rightarrow> ret keyIDInKP)
             else ret secretID) (\<lambda>keyNameToFind.
      bindp (on_ext (getKeyByName kp keyNameToFind)) (\<lambda>key.
      bindp (on_ext (kp_GetKey kp (kp_ID key))) (\<lambda>keyPayload.
      if activeKeyID \<noteq> ''''
      then ret (AList.update activeKeyID (IStr (kp_Payload keyPayload)) [(ActiveRootKey, IStr activeKeyID)])
      else ret [(secretID, IStr (kp_Payload keyPayload))])))))"

definition IBM_PutSecret ::
    "('x, Secret) klient \<Rightarrow> 'x kp_api \<Rightarrow> string \<Rightarrow> iface bag \<Rightarrow> key_context \<Rightarrow> ('x tracked, unit) proc" where
  "IBM_PutSecret cl kp secretID plainText keyContext =
     bindp (if rotating secretID
            then (case map_of plainText ActiveRootKey of
                    None \<Rightarrow> raise (PlainError ''missing active_root_key in rotating secret format'')
                  | Some activeKeyIntf \<Rightarrow> bindp (lift (as_string activeKeyIntf)) (\<lambda>activeKey.
                      case map_of plainText activeKey of
                        None \<Rightarrow> raise (PlainError (''missing value for active key '' @ activeKey))
                      | Some valueIntf \<Rightarrow> bindp (lift (as_string valueIntf)) (\<lambda>value. ret (activeKey, value))))
            else (case map_of plainText secretID of
                    None \<Rightarrow> raise (PlainError (''invalid secret value format for secretID '' @ secretID))
                  | Some valueIntf \<Rightarrow> bindp (lift (as_string valueIntf)) (\<lambda>value. ret ('''', value)))) (\<lambda>(activeKey, value).
     let keyNameInKP = (if activeKey \<noteq> '''' then activeKey else secretID) in
     bindp (on_ext (kp_CreateImportedStandardKey kp keyNameInKP value)) (\<lambda>key.
     whenp (activeKey \<noteq> '''')
       (seqp (set_string_data ''IBM_KP_ACTIVE_KEY_ID'' activeKey)
       (seqp (set_string_data (''IBM_KP_KEY_'' @ activeKey) (kp_Name key))
         (update_tracking cl ''failed to update IBM KP tracking secret '')))))"

definition IBM_DeleteSecret :: "'x kp_api \<Rightarrow> string \<Rightarrow> key_context \<Rightarrow> ('x tracked, unit) proc" where
  "IBM_DeleteSecret kp secretID keyContext =
     bindp (on_ext (getKeyByName kp secretID)) (\<lambda>k. on_ext (kp_DeleteKey kp (kp_ID k)))"

definition ibmKpSecretStorage :: "('x, Secret) klient \<Rightarrow> 'x kp_api \<Rightarrow> 'x tracked Secrets" where
  "ibmKpSecretStorage cl kp = \<lparr>GetSecret = IBM_GetSecret cl kp, PutSecret = IBM_PutSecret cl kp,
     DeleteSecret = IBM_DeleteSecret kp\<rparr>"

section \<open>KMIP\<close>

datatype kmip_operation = OperationDiscoverVersions | OperationGet | OperationRegister | OperationDestroy | OtherOperation int
datatype kmip_object_type = ObjectTypeSymmetricKey | OtherObjectType int
datatype kmip_key_format = KeyFormatTypeRaw | OtherKeyFormat int
datatype kmip_algorithm = CryptographicAlgorithmAES | OtherAlgorithm int
datatype kmip_key_material = KeyBytes string | OtherKeyMaterial

record KeyBlock =
  kb_KeyFormatType :: kmip_key_format
  kb_KeyValue :: "kmip_key_material option"
  kb_CryptographicLength :: int
  kb_CryptographicAlgorithm :: kmip_algorithm

datatype kmip_request =
    DiscoverVersionsRequestPayload "(int \<times> int) list"
  | GetRequestPayload string
  | RegisterRequestPayload kmip_object_type KeyBlock
  | DestroyRequestPayload string

record RequestMessage =
  rq_ProtocolVersion :: "int \<times> int"
  rq_BatchCount :: int
  rq_BatchItem :: "(string \<times> kmip_operation \<times> kmip_request) list"

text \<open>The payload of a response is encoded text, or a value of another type.\<close>

datatype kmip_payload = TTLV string | OtherPayload

record ResponseBatchItem =
  bi_Operation :: kmip_operation
  bi_UniqueBatchItemID :: string
  bi_Success :: bool
  bi_ResponsePayload :: kmip_payload

record ResponseMessage =
  rm_BatchCount :: int
  rm_BatchItem :: "ResponseBatchItem list"

record GetResponsePayload =
  gr_UniqueIdentifier :: string
  gr_ObjectType :: kmip_object_type
  gr_SymmetricKey :: "KeyBlock option"

text \<open>
  The library: the connection (\<^verbatim>\<open>tls.Dial\<close>, the deadlines and the handshake), a request and its decoded
  response, the identifiers of requests, the decoders of the payloads and the texts of errors that print values of the
  library.
\<close>

record 'x kmip_api =
  km_X509KeyPair :: "string \<Rightarrow> string \<Rightarrow> go_error option"
  km_Dial :: "string \<Rightarrow> ('x, unit) proc"
  km_SetReadDeadline :: "int \<Rightarrow> ('x, unit) proc"
  km_SetWriteDeadline :: "int \<Rightarrow> ('x, unit) proc"
  km_Handshake :: "('x, unit) proc"
  km_Close :: "('x, unit) proc"
  km_uuid :: "('x, string) proc"
  km_exchange :: "RequestMessage \<Rightarrow> ('x, ResponseMessage) proc"
  km_DecodeDiscover :: "string \<Rightarrow> go_error + (int \<times> int) list"
  km_DecodeGet :: "string \<Rightarrow> go_error + GetResponsePayload"
  km_DecodeRegister :: "string \<Rightarrow> go_error + string"
  km_DecodeDestroy :: "string \<Rightarrow> go_error + string"
  km_show_operation :: "kmip_operation \<Rightarrow> string"
  km_show_item :: "ResponseBatchItem \<Rightarrow> string"
  km_show_key :: "GetResponsePayload \<Rightarrow> string"
  km_base64_error :: "string \<Rightarrow> string"

record kmip_config =
  kc_endpoint :: string
  kc_serverName :: string
  kc_readTimeout :: int
  kc_writeTimeout :: int

definition required_string :: "iface bag \<Rightarrow> string \<Rightarrow> string result" where
  "required_string secretConfig name = (case map_of secretConfig name of
     None \<Rightarrow> Err (PlainError (name @ '' is not set''))
   | Some v \<Rightarrow> as_string v)"

definition int_or :: "int \<Rightarrow> iface option \<Rightarrow> int result" where
  "int_or d v = (case v of None \<Rightarrow> Ok d | Some (IInt i) \<Rightarrow> Ok i | Some _ \<Rightarrow> Panic)"

definition NewKMIPSecretStorage :: "'x kmip_api \<Rightarrow> iface bag \<Rightarrow> (kmip_config \<times> Secret) result" where
  "NewKMIPSecretStorage km secretConfig =
     bind_r (required_string secretConfig ''KMIP_ENDPOINT'') (\<lambda>endpoint.
     bind_r (required_string secretConfig ''CA_CERT'') (\<lambda>caCert.
     bind_r (required_string secretConfig ''CLIENT_CERT'') (\<lambda>clientCert.
     bind_r (required_string secretConfig ''CLIENT_KEY'') (\<lambda>clientKey.
     bind_r (case map_of secretConfig ''TLS_SERVER_NAME'' of None \<Rightarrow> Ok '''' | Some v \<Rightarrow> as_string v) (\<lambda>serverName.
     bind_r (int_or 10 (map_of secretConfig ''READ_TIMEOUT'')) (\<lambda>readTimeout.
     bind_r (int_or 10 (map_of secretConfig ''WRITE_TIMEOUT'')) (\<lambda>writeTimeout.
     case km_X509KeyPair km clientCert clientKey of
       Some err \<Rightarrow> Err (PlainError (''Invalid X509 key pair: '' @ Error err))
     | None \<Rightarrow> (case map_of secretConfig ''secret'' of
         None \<Rightarrow> Err (PlainError ''Missing KMS secret'')
       | Some (ISecret sec) \<Rightarrow>
           Ok (\<lparr>kc_endpoint = endpoint, kc_serverName = serverName, kc_readTimeout = readTimeout,
                kc_writeTimeout = writeTimeout\<rparr>, sec)
       | Some _ \<Rightarrow> Panic))))))))"

definition send :: "'x kmip_api \<Rightarrow> kmip_operation \<Rightarrow> kmip_request \<Rightarrow> ('x, ResponseMessage \<times> string) proc" where
  "send km operation payload =
     bindp (km_uuid km) (\<lambda>biID.
     bindp (km_exchange km \<lparr>rq_ProtocolVersion = (1, 4), rq_BatchCount = 1, rq_BatchItem = [(biID, operation, payload)]\<rparr>) (\<lambda>resp.
     ret (resp, biID)))"

definition response :: "'x kmip_api \<Rightarrow> ResponseMessage \<Rightarrow> kmip_operation \<Rightarrow> string \<Rightarrow> ResponseBatchItem result" where
  "response km respMsg operation uniqueBatchItemID =
     (if rm_BatchCount respMsg \<noteq> 1 then Err (PlainError (''Batch count '' @ show_int (rm_BatchCount respMsg) @ '' should be 1''))
      else case rm_BatchItem respMsg of
        [bi] \<Rightarrow>
          if operation \<noteq> bi_Operation bi then
            Err (PlainError (''Unexpected operation, real '' @ km_show_operation km (bi_Operation bi)
              @ '' expected '' @ km_show_operation km operation))
          else if uniqueBatchItemID \<noteq> bi_UniqueBatchItemID bi then
            Err (PlainError (''Unexpected uniqueBatchItemID, real '' @ km_show_item km bi @ '' expected '' @ uniqueBatchItemID))
          else if \<not> bi_Success bi then Err (PlainError (''Unexpected result status '' @ km_show_item km bi))
          else Ok bi
      | items \<Rightarrow> Err (PlainError (''Batch Intems list len '' @ show_nat (length items) @ '' should be 1'')))"

text \<open>One operation: request, check of the response and decoding of its payload, which must be encoded text.\<close>

definition not_parsed :: "'a result" where
  "not_parsed = Err (PlainError ''failed to parse responsePayload'')"

definition operate ::
    "'x kmip_api \<Rightarrow> kmip_operation \<Rightarrow> kmip_request \<Rightarrow> (string \<Rightarrow> go_error + 'a) \<Rightarrow> 'a result \<Rightarrow> ('x, 'a) proc" where
  "operate km operation payload decode otherwise =
     bindp (send km operation payload) (\<lambda>(respMsg, uniqueBatchItemID).
     bindp (lift (response km respMsg operation uniqueBatchItemID)) (\<lambda>bi.
     case bi_ResponsePayload bi of
       OtherPayload \<Rightarrow> lift otherwise
     | TTLV t \<Rightarrow> (case decode t of Inl err \<Rightarrow> raise err | Inr p \<Rightarrow> ret p)))"

definition discover :: "'x kmip_api \<Rightarrow> ('x, unit) proc" where
  "discover km =
     bindp (operate km OperationDiscoverVersions (DiscoverVersionsRequestPayload [(1, 4)]) (km_DecodeDiscover km) not_parsed) (\<lambda>versions.
     case versions of
       [pv] \<Rightarrow>
         if pv \<noteq> (1, 4) then raise (PlainError (''Invalid discovered protocol version '' @ show_int (fst pv) @ ''.'' @ show_int (snd pv)
           @ '' expected 1.4''))
         else ret ()
     | _ \<Rightarrow> raise (PlainError (''Invalid len of discovered protocol versions '' @ show_nat (length versions) @ '' expected 1'')))"

text \<open>A step whose error is returned after the connection was closed.\<close>

definition or_close :: "'x kmip_api \<Rightarrow> ('x, unit) proc \<Rightarrow> ('x, unit) proc" where
  "or_close km m = bindp (tryp m) (\<lambda>r. case r of
     Inl err \<Rightarrow> bindp (tryp (km_Close km)) (\<lambda>_. raise err)
   | Inr _ \<Rightarrow> ret ())"

definition connect :: "'x kmip_api \<Rightarrow> kmip_config \<Rightarrow> ('x, unit) proc" where
  "connect km k =
     seqp (km_Dial km (kc_endpoint k))
     (seqp (whenp (kc_readTimeout k \<noteq> 0) (km_SetReadDeadline km (kc_readTimeout k)))
     (seqp (whenp (kc_writeTimeout k \<noteq> 0) (km_SetWriteDeadline km (kc_writeTimeout k)))
     (seqp (or_close km (km_Handshake km))
     (or_close km (discover km)))))"

text \<open>\<^verbatim>\<open>defer util.SafeClose(conn)\<close>: the connection is closed after the rest of the body, also after an error or a panic.\<close>

definition deferred :: "('x tracked, unit) proc \<Rightarrow> ('x tracked, 'a) proc \<Rightarrow> ('x tracked, 'a) proc" where
  "deferred close m s = (case m s of (r, s1) \<Rightarrow> (r, snd (close s1)))"

definition check_key :: "'x kmip_api \<Rightarrow> string \<Rightarrow> GetResponsePayload \<Rightarrow> string result" where
  "check_key km uniqueIdentifier p =
     (if gr_UniqueIdentifier p \<noteq> uniqueIdentifier then
        Err (PlainError (''Unexpected get response uniqueIdentifier actual '' @ gr_UniqueIdentifier p @ '', expected '' @ uniqueIdentifier))
      else if gr_ObjectType p \<noteq> ObjectTypeSymmetricKey then Err (PlainError (''Unexpected  get response object type '' @ km_show_key km p))
      else case gr_SymmetricKey p of
        None \<Rightarrow> Err (PlainError ''Unexpected  get response SymmetricKey can not be nil'')
      | Some kb \<Rightarrow>
          if kb_CryptographicLength kb \<noteq> 256 then
            Err (PlainError (''Unexpected  KeyBlock crypto len actual '' @ show_int (kb_CryptographicLength kb) @ '', expected 256''))
          else if kb_KeyFormatType kb \<noteq> KeyFormatTypeRaw then Err (PlainError (''Unexpected  KeyBlock format type '' @ km_show_key km p))
          else if kb_CryptographicAlgorithm kb \<noteq> CryptographicAlgorithmAES then
            Err (PlainError (''Unexpected  KeyBlock crypto algo '' @ km_show_key km p))
          else case kb_KeyValue kb of
            Some (KeyBytes secretBytes) \<Rightarrow> Ok (EncodeToString secretBytes)
          | _ \<Rightarrow> Panic)"

definition KMIP_GetSecret ::
    "('x, Secret) klient \<Rightarrow> 'x kmip_api \<Rightarrow> kmip_config \<Rightarrow> string \<Rightarrow> key_context \<Rightarrow> ('x tracked, iface bag) proc" where
  "KMIP_GetSecret cl km k secretID keyContext =
     seqp (refresh cl)
     (bindp (if rotating secretID
             then bindp (string_data ''NewActiveKeyID'') (\<lambda>a. case a of
                    None \<Rightarrow> raise ErrInvalidSecretId
                  | Some activeKeyID \<Rightarrow> ret (''UniqueIdentifierNew'', activeKeyID))
             else ret (''UniqueIdentifier'', '''')) (\<lambda>(lookfor, activeKeyID).
      bindp (string_data lookfor) (\<lambda>u. case u of
        None \<Rightarrow> raise ErrInvalidSecretId
      | Some uniqueIdentifier \<Rightarrow>
          seqp (on_ext (connect km k))
          (deferred (on_ext (km_Close km))
            (bindp (on_ext (operate km OperationGet (GetRequestPayload uniqueIdentifier) (km_DecodeGet km) Panic)) (\<lambda>p.
             bindp (lift (check_key km uniqueIdentifier p)) (\<lambda>secretBase64.
             if activeKeyID \<noteq> ''''
             then ret (AList.update activeKeyID (IStr secretBase64) [(ActiveRootKey, IStr activeKeyID)])
             else ret [(secretID, IStr secretBase64)])))))))"

text \<open>A missing entry of a map of interfaces is nil, whose conversion to a string panics.\<close>

definition string_entry :: "iface bag \<Rightarrow> string \<Rightarrow> string result" where
  "string_entry plainText key = (case map_of plainText key of None \<Rightarrow> Panic | Some v \<Rightarrow> as_string v)"

definition aes_block :: "string \<Rightarrow> KeyBlock" where
  "aes_block valueBytes = \<lparr>kb_KeyFormatType = KeyFormatTypeRaw, kb_KeyValue = Some (KeyBytes valueBytes),
     kb_CryptographicLength = 256, kb_CryptographicAlgorithm = CryptographicAlgorithmAES\<rparr>"

definition KMIP_PutSecret ::
    "('x, Secret) klient \<Rightarrow> 'x kmip_api \<Rightarrow> kmip_config \<Rightarrow> string \<Rightarrow> iface bag \<Rightarrow> key_context \<Rightarrow> ('x tracked, unit) proc" where
  "KMIP_PutSecret cl km k secretID plainText keyContext =
     bindp (lift (string_entry plainText ActiveRootKey)) (\<lambda>activeKey.
     bindp (lift (string_entry plainText activeKey)) (\<lambda>value.
     case DecodeString value of
       None \<Rightarrow> raise (PlainError (km_base64_error km value))
     | Some valueBytes \<Rightarrow>
         seqp (on_ext (connect km k))
         (deferred (on_ext (km_Close km))
           (bindp (on_ext (operate km OperationRegister (RegisterRequestPayload ObjectTypeSymmetricKey (aes_block valueBytes))
              (km_DecodeRegister km) Panic)) (\<lambda>uniqueIdentifier.
            seqp (set_string_data ''NewActiveKeyID'' activeKey)
            (seqp (set_string_data ''UniqueIdentifierNew'' uniqueIdentifier)
              (update_tracking cl ''Failed to update KMS secret '')))))))"

definition drop_data :: "string \<Rightarrow> ('x tracked, unit) proc" where
  "drop_data key = modify (\<lambda>s. let sec = st_secret s in
     s\<lparr>st_secret := sec\<lparr>sec_Data := (sec_Data sec)(key := None), sec_StringData := (sec_StringData sec)(key := None)\<rparr>\<rparr>)"

definition KMIP_DeleteSecret ::
    "('x, Secret) klient \<Rightarrow> 'x kmip_api \<Rightarrow> kmip_config \<Rightarrow> string \<Rightarrow> key_context \<Rightarrow> ('x tracked, unit) proc" where
  "KMIP_DeleteSecret cl km k secretID keyContext =
     (let lookfor = (if rotating secretID then ''UniqueIdentifierNew'' else ''UniqueIdentifier'') in
      seqp (refresh cl)
      (bindp (string_data lookfor) (\<lambda>u. case u of
         None \<Rightarrow> raise ErrInvalidSecretId
       | Some uniqueIdentifier \<Rightarrow>
           seqp (on_ext (connect km k))
           (deferred (on_ext (km_Close km))
             (bindp (on_ext (operate km OperationDestroy (DestroyRequestPayload uniqueIdentifier) (km_DecodeDestroy km) not_parsed)) (\<lambda>destroyed.
              if uniqueIdentifier \<noteq> destroyed then
                raise (PlainError (''Unexpected uniqueIdentifier '' @ destroyed @ '' in destroy response , expected '' @ uniqueIdentifier))
              else seqp (drop_data lookfor) (update_tracking cl ''Failed to update KMS secret '')))))))"

definition KMIPSecretStorage :: "('x, Secret) klient \<Rightarrow> 'x kmip_api \<Rightarrow> kmip_config \<Rightarrow> 'x tracked Secrets" where
  "KMIPSecretStorage cl km k = \<lparr>GetSecret = KMIP_GetSecret cl km k, PutSecret = KMIP_PutSecret cl km k,
     DeleteSecret = KMIP_DeleteSecret cl km k\<rparr>"

section \<open>Documented behaviour of the cluster and the services\<close>

text \<open>
  A successful update of a secret is what a later read returns, with the string data merged into the data.
\<close>

definition secret_writes :: "('x, Secret) klient \<Rightarrow> bool" where
  "secret_writes cl \<longleftrightarrow> (\<forall>sec x x1. k_Update cl sec x = (None, x1) \<longrightarrow>
     (\<exists>sec1. sec_Data sec1 = sec_Data sec ++ sec_StringData sec \<and>
       (\<forall>q. sec_Name q = sec_Name sec \<and> sec_Namespace q = sec_Namespace sec \<longrightarrow> k_Get cl q x1 = Inr sec1)))"

text \<open>
  The key service keeps a list of keys: a page is a part of the list without the payloads, a key is read by its id, and
  an imported key is added at the end.  Updates of Kubernetes secrets do not touch it.
\<close>

definition listed :: "kp_Key \<Rightarrow> kp_Key" where
  "listed k = k\<lparr>kp_Payload := ''''\<rparr>"

definition kp_laws :: "('x, Secret) klient \<Rightarrow> 'x kp_api \<Rightarrow> ('x \<Rightarrow> kp_Key list) \<Rightarrow> bool" where
  "kp_laws cl kp keys \<longleftrightarrow>
     (\<forall>x l off. kp_GetKeys kp l off x = (Ok (map listed (take l (drop off (keys x)))), x)) \<and>
     (\<forall>x k. k \<in> set (keys x) \<longrightarrow> kp_GetKey kp (kp_ID k) x = (Ok k, x)) \<and>
     (\<forall>x n v k x1. kp_CreateImportedStandardKey kp n v x = (Ok k, x1) \<longrightarrow>
        kp_Name k = n \<and> keys x1 = keys x @ [\<lparr>kp_ID = kp_ID k, kp_Name = n, kp_Payload = v\<rparr>]) \<and>
     (\<forall>sec x. keys (snd (k_Update cl sec x)) = keys x)"

section \<open>The search by name\<close>

lemma find_map_listed: "find (\<lambda>k. kp_Name k = n) (map listed ks) = map_option listed (find (\<lambda>k. kp_Name k = n) ks)"
  by (induction ks) (auto simp: listed_def)

lemma find_append: "find P (xs @ ys) = (case find P xs of None \<Rightarrow> find P ys | Some x \<Rightarrow> Some x)"
  by (induction xs) auto

lemma pages_left: "length ks \<ge> p * 2000 + 1 \<Longrightarrow> (length ks - p * 2000) div 2000 + 2 \<le> Suc f \<Longrightarrow>
    (length ks - Suc p * 2000) div 2000 + 2 \<le> f \<or> length ks \<le> Suc p * 2000 \<and> 1 \<le> f"
  by (cases "length ks \<le> Suc p * 2000") (simp_all add: le_div_geq [of 2000 "length ks - p * 2000"] add.commute)

lemma find_in_pages_eq:
  assumes "\<forall>x l off. kp_GetKeys kp l off x = (Ok (map listed (take l (drop off (keys x)))), x)"
    and "(length (keys x) - p * 2000) div 2000 + 2 \<le> f \<or> length (keys x) \<le> p * 2000 \<and> 1 \<le> f"
  shows "find_in_pages kp n f p x =
    (case find (\<lambda>k. kp_Name k = n) (drop (p * 2000) (keys x)) of Some k \<Rightarrow> (Ok (listed k), x) | None \<Rightarrow> (Err ErrInvalidSecretId, x))"
  using assms(2)
proof (induction f arbitrary: p)
  case (Suc f)
  let ?rest = "drop (p * 2000) (keys x)"
  have page: "kp_GetKeys kp 2000 (p * 2000) x = (Ok (map listed (take 2000 ?rest)), x)" using assms(1) by simp
  show ?case
  proof (cases "?rest = []")
    case True
    then show ?thesis using page by simp
  next
    case False
    have split: "find (\<lambda>k. kp_Name k = n) ?rest = (case find (\<lambda>k. kp_Name k = n) (take 2000 ?rest) of
        None \<Rightarrow> find (\<lambda>k. kp_Name k = n) (drop (Suc p * 2000) (keys x)) | Some k \<Rightarrow> Some k)"
      by (subst append_take_drop_id [of 2000 ?rest, symmetric], subst find_append) (simp add: add.commute split: option.splits)
    have "(length (keys x) - Suc p * 2000) div 2000 + 2 \<le> f \<or> length (keys x) \<le> Suc p * 2000 \<and> 1 \<le> f"
      using False Suc.prems by (intro pages_left) auto
    note IH = Suc.IH [OF this]
    show ?thesis
      using page False split IH by (simp add: find_map_listed split: option.splits)
  qed
qed auto

lemma getKeyByName_eq:
  assumes "kp_laws cl kp keys" "length (keys x) div 2000 + 2 \<le> kp_pages kp"
  shows "getKeyByName kp n x =
    (case find (\<lambda>k. kp_Name k = n) (keys x) of Some k \<Rightarrow> (Ok (listed k), x) | None \<Rightarrow> (Err ErrInvalidSecretId, x))"
  using find_in_pages_eq [of kp keys x 0 "kp_pages kp" n] assms by (simp add: getKeyByName_def kp_laws_def)

section \<open>Round trips\<close>

lemma on_ext_run: "m (st_ext s) = (r, x) \<Longrightarrow> on_ext m s = (r, s\<lparr>st_ext := x\<rparr>)"
  by (simp add: on_ext_def)

lemma on_ext_OkE:
  assumes "on_ext m s = (Ok y, s1)"
  obtains x where "m (st_ext s) = (Ok y, x)" "s1 = s\<lparr>st_ext := x\<rparr>"
  using assms by (auto simp: on_ext_def split: prod.splits)

lemma KubeUpdate_True: "KubeUpdate cl sec x = (Ok True, x1) \<Longrightarrow> k_Update cl sec x = (None, x1)"
  by (auto simp: KubeUpdate_def split: prod.splits option.splits if_splits)

lemma update_tracking_OkE:
  assumes "update_tracking cl msg s = (Ok (), s1)"
  obtains x where "k_Update cl (st_secret s) (st_ext s) = (None, x)" "s1 = s\<lparr>st_ext := x\<rparr>"
  using assms unfolding update_tracking_def
  by (auto elim!: bindp_OkE on_ext_OkE split: if_splits dest!: KubeUpdate_True)

text \<open>After a successful update of the tracking secret a refresh reads back the strings that were stored.\<close>

lemma refresh_after_update:
  assumes "secret_writes cl" "update_tracking cl msg s = (Ok (), s1)"
    and "st_secret s1' = st_secret s1" "\<forall>q. k_Get cl q (st_ext s1') = k_Get cl q (st_ext s1)"
  shows "\<exists>s2. refresh cl s1' = (Ok (), s2) \<and> st_ext s2 = st_ext s1' \<and>
    (\<forall>k v. sec_StringData (st_secret s) k = Some v \<longrightarrow> sec_StringData (st_secret s2) k = Some v)"
proof -
  obtain x where x: "k_Update cl (st_secret s) (st_ext s) = (None, x)" "s1 = s\<lparr>st_ext := x\<rparr>"
    using assms(2) by (rule update_tracking_OkE)
  obtain sec1 where sec1: "sec_Data sec1 = sec_Data (st_secret s) ++ sec_StringData (st_secret s)"
      "k_Get cl (st_secret s) x = Inr sec1"
    using assms(1) x(1) unfolding secret_writes_def by blast
  then have "refresh cl s1' = (Ok (), s1'\<lparr>st_secret := SecretResetStringDataFromData sec1\<rparr>)"
    using assms(3,4) by (simp add: refresh_def x(2))
  then show ?thesis using sec1(1) by (auto simp: SecretResetStringDataFromData_def)
qed

subsection \<open>IBM Key Protect\<close>

type_synonym 'x ibm_setup = "('x, Secret) klient \<times> 'x kp_api \<times> ('x \<Rightarrow> kp_Key list)"

definition ibm_storage_of :: "'x ibm_setup \<Rightarrow> 'x tracked Secrets" where
  "ibm_storage_of u = (case u of (cl, kp, keys) \<Rightarrow> ibmKpSecretStorage cl kp)"

text \<open>Ready for a new key: its name is new in the service, and a search can read all pages.\<close>

fun ibm_ready :: "'x ibm_setup \<Rightarrow> string \<Rightarrow> string \<Rightarrow> string \<Rightarrow> 'x tracked \<Rightarrow> bool" where
  "ibm_ready (cl, kp, keys) path key v s \<longleftrightarrow>
     secret_writes cl \<and> kp_laws cl kp keys \<and> rotating path \<and> key \<noteq> '''' \<and> key \<noteq> ActiveRootKey \<and>
     key \<notin> kp_Name ` set (keys (st_ext s)) \<and> Suc (length (keys (st_ext s))) div 2000 + 2 \<le> kp_pages kp"

lemma find_None_names: "n \<notin> kp_Name ` set ks \<Longrightarrow> find (\<lambda>k. kp_Name k = n) ks = None"
  by (auto simp: find_None_iff)

lemma ibm_put_OkE:
  assumes "IBM_PutSecret cl kp path m c s = (Ok (), s1)" "rotating path" "key \<noteq> ''''"
    and "map_of m ActiveRootKey = Some (IStr key)" "map_of m key = Some (IStr v)"
  obtains k x t where "kp_CreateImportedStandardKey kp key v (st_ext s) = (Ok k, x)" "update_tracking cl ''failed to update IBM KP tracking secret '' t = (Ok (), s1)"
    "st_ext t = x" "sec_StringData (st_secret t) = (sec_StringData (st_secret s))(''IBM_KP_ACTIVE_KEY_ID'' \<mapsto> key, ''IBM_KP_KEY_'' @ key \<mapsto> kp_Name k)"
proof -
  obtain k x where k: "kp_CreateImportedStandardKey kp key v (st_ext s) = (Ok k, x)"
    "seqp (set_string_data ''IBM_KP_ACTIVE_KEY_ID'' key) (seqp (set_string_data (''IBM_KP_KEY_'' @ key) (kp_Name k))
         (update_tracking cl ''failed to update IBM KP tracking secret '')) (s\<lparr>st_ext := x\<rparr>) = (Ok (), s1)"
    using assms by (auto simp: IBM_PutSecret_def Let_def elim!: bindp_OkE on_ext_OkE)
  show thesis
    using k(2) by (intro that [OF k(1)]) (auto simp: set_string_data_def seqp_def bindp_def)
qed

lemma ibm_put_get:
  assumes "ibm_ready (cl, kp, keys) path key v s" "IBM_PutSecret cl kp path m c s = (Ok (), s1)"
    and "map_of m ActiveRootKey = Some (IStr key)" "map_of m key = Some (IStr v)"
  shows "\<exists>s2. IBM_GetSecret cl kp path c' s1 = (Ok [(ActiveRootKey, IStr key), (key, IStr v)], s2)"
proof -
  note r = assms(1) [simplified]
  have laws: "kp_laws cl kp keys" using r by simp
  obtain k x t where t: "kp_CreateImportedStandardKey kp key v (st_ext s) = (Ok k, x)"
      "update_tracking cl ''failed to update IBM KP tracking secret '' t = (Ok (), s1)" "st_ext t = x"
      "sec_StringData (st_secret t) = (sec_StringData (st_secret s))(''IBM_KP_ACTIVE_KEY_ID'' \<mapsto> key, ''IBM_KP_KEY_'' @ key \<mapsto> kp_Name k)"
    using ibm_put_OkE [OF assms(2) _ _ assms(3,4)] r by metis
  define new where "new = \<lparr>kp_ID = kp_ID k, kp_Name = key, kp_Payload = v\<rparr>"
  have new: "kp_Name k = key" "keys x = keys (st_ext s) @ [new]" using laws t(1) by (auto simp: kp_laws_def new_def)
  obtain x1 where x1: "k_Update cl (st_secret t) x = (None, x1)" "s1 = t\<lparr>st_ext := x1\<rparr>"
    using t(2,3) by (metis update_tracking_OkE)
  have keys: "keys (st_ext s1) = keys (st_ext s) @ [new]" using laws x1 new(2) unfolding kp_laws_def by (metis snd_conv tracked.select_convs(1) tracked.surjective tracked.update_convs(1))
  obtain s2 where s2: "refresh cl s1 = (Ok (), s2)" "st_ext s2 = st_ext s1"
      "sec_StringData (st_secret s2) ''IBM_KP_ACTIVE_KEY_ID'' = Some key" "sec_StringData (st_secret s2) (''IBM_KP_KEY_'' @ key) = Some key"
    using refresh_after_update [OF _ t(2), of s1] r new(1) t(4) by auto
  have "find (\<lambda>k. kp_Name k = key) (keys (st_ext s2)) = Some new"
    using r by (simp add: s2(2) keys find_append find_None_names new_def)
  then have search: "getKeyByName kp key (st_ext s2) = (Ok (listed new), st_ext s2)"
    using getKeyByName_eq [OF laws, of "st_ext s2" key] r by (simp add: s2(2) keys)
  have "new \<in> set (keys (st_ext s2))" by (simp add: s2(2) keys)
  then have read: "kp_GetKey kp (kp_ID (listed new)) (st_ext s2) = (Ok new, st_ext s2)"
    using laws by (simp add: kp_laws_def listed_def)
  have calls: "on_ext (getKeyByName kp key) s2 = (Ok (listed new), s2)" "on_ext (kp_GetKey kp (kp_ID (listed new))) s2 = (Ok new, s2)"
    by (simp_all add: on_ext_def search read)
  have "kp_Payload new = v" by (simp add: new_def)
  moreover have "rotating path" "key \<noteq> ''''" "ActiveRootKey \<noteq> key" using r by auto
  ultimately show ?thesis
    using s2(1,3,4) calls by (simp add: IBM_GetSecret_def string_data_def)
qed

interpretation ibm: rotating_backend ibm_storage_of ibm_ready
proof (unfold_locales)
  fix u :: "'a ibm_setup" and path key v and w :: "'a tracked" and m c w1 c'
  assume a: "ibm_ready u path key v w" "PutSecret (ibm_storage_of u) path m c w = (Ok (), w1)"
    "map_of m ActiveRootKey = Some (IStr key)" "map_of m key = Some (IStr v)"
  obtain cl kp keys where u: "u = (cl, kp, keys)" by (cases u)
  have "\<exists>s2. IBM_GetSecret cl kp path c' w1 = (Ok [(ActiveRootKey, IStr key), (key, IStr v)], s2)"
    using a by (intro ibm_put_get) (auto simp: u ibm_storage_of_def ibmKpSecretStorage_def)
  then show "\<exists>r w2. GetSecret (ibm_storage_of u) path c' w1 = (Ok r, w2) \<and> map_of r ActiveRootKey = Some (IStr key) \<and>
      map_of r key = Some (IStr v) \<and> (\<forall>(k, u) \<in> set r. \<exists>s. u = IStr s)"
    using a(1) by (auto simp: u ibm_storage_of_def ibmKpSecretStorage_def)
qed

subsection \<open>KMIP\<close>

text \<open>
  A reachable server with registered keys: the steps of a connection succeed, the server speaks version 1.4, it registers
  the key of a request under a new identifier and returns a registered key.
\<close>

definition same_view :: "('x, Secret) klient \<Rightarrow> ('x \<Rightarrow> string \<rightharpoonup> string) \<Rightarrow> 'x \<Rightarrow> 'x \<Rightarrow> bool" where
  "same_view cl keys x x' \<longleftrightarrow> keys x' = keys x \<and> (\<forall>q. k_Get cl q x' = k_Get cl q x)"

definition calm :: "('x, Secret) klient \<Rightarrow> ('x \<Rightarrow> string \<rightharpoonup> string) \<Rightarrow> ('x, 'a) proc \<Rightarrow> bool" where
  "calm cl keys m \<longleftrightarrow> (\<forall>x. \<exists>y x'. m x = (Ok y, x') \<and> same_view cl keys x x')"

definition accepted :: "string \<Rightarrow> kmip_operation \<Rightarrow> string \<Rightarrow> ResponseMessage" where
  "accepted biID operation t = \<lparr>rm_BatchCount = 1, rm_BatchItem =
     [\<lparr>bi_Operation = operation, bi_UniqueBatchItemID = biID, bi_Success = True, bi_ResponsePayload = TTLV t\<rparr>]\<rparr>"

definition request :: "string \<Rightarrow> kmip_operation \<Rightarrow> kmip_request \<Rightarrow> RequestMessage" where
  "request biID operation payload = \<lparr>rq_ProtocolVersion = (1, 4), rq_BatchCount = 1, rq_BatchItem = [(biID, operation, payload)]\<rparr>"

definition kmip_laws :: "('x, Secret) klient \<Rightarrow> 'x kmip_api \<Rightarrow> ('x \<Rightarrow> string \<rightharpoonup> string) \<Rightarrow> bool" where
  "kmip_laws cl km keys \<longleftrightarrow>
     (\<forall>ep. calm cl keys (km_Dial km ep)) \<and> (\<forall>t. calm cl keys (km_SetReadDeadline km t)) \<and>
     (\<forall>t. calm cl keys (km_SetWriteDeadline km t)) \<and> calm cl keys (km_Handshake km) \<and> calm cl keys (km_Close km) \<and>
     calm cl keys (km_uuid km) \<and>
     (\<forall>b x. \<exists>t x'. km_exchange km (request b OperationDiscoverVersions (DiscoverVersionsRequestPayload [(1, 4)])) x =
        (Ok (accepted b OperationDiscoverVersions t), x') \<and> km_DecodeDiscover km t = Inr [(1, 4)] \<and> same_view cl keys x x') \<and>
     (\<forall>b bs x. \<exists>t u x'. km_exchange km (request b OperationRegister (RegisterRequestPayload ObjectTypeSymmetricKey (aes_block bs))) x =
        (Ok (accepted b OperationRegister t), x') \<and> km_DecodeRegister km t = Inr u \<and> keys x u = None \<and> keys x' = (keys x)(u \<mapsto> bs) \<and>
        (\<forall>q. k_Get cl q x' = k_Get cl q x)) \<and>
     (\<forall>b u bs x. keys x u = Some bs \<longrightarrow> (\<exists>t x'. km_exchange km (request b OperationGet (GetRequestPayload u)) x =
        (Ok (accepted b OperationGet t), x') \<and>
        km_DecodeGet km t = Inr \<lparr>gr_UniqueIdentifier = u, gr_ObjectType = ObjectTypeSymmetricKey, gr_SymmetricKey = Some (aes_block bs)\<rparr> \<and>
        same_view cl keys x x')) \<and>
     (\<forall>sec x. keys (snd (k_Update cl sec x)) = keys x)"

lemma same_view_refl [simp]: "same_view cl keys x x"
  by (simp add: same_view_def)

lemma same_view_trans: "same_view cl keys x y \<Longrightarrow> same_view cl keys y z \<Longrightarrow> same_view cl keys x z"
  by (simp add: same_view_def)

lemma calmE:
  assumes "calm cl keys m"
  obtains y x' where "m x = (Ok y, x')" "same_view cl keys x x'"
  using assms unfolding calm_def by blast

lemma calm_seqp:
  assumes "calm cl keys m" "calm cl keys n"
  shows "calm cl keys (seqp m n)"
  unfolding calm_def
proof
  fix x
  obtain y x1 where 1: "m x = (Ok y, x1)" "same_view cl keys x x1" using assms(1) by (rule calmE)
  obtain z x2 where 2: "n x1 = (Ok z, x2)" "same_view cl keys x1 x2" using assms(2) by (rule calmE)
  show "\<exists>y x'. seqp m n x = (Ok y, x') \<and> same_view cl keys x x'"
    using 1 2 same_view_trans by (intro exI [of _ z] exI [of _ x2]) auto
qed

lemma calm_whenp: "calm cl keys m \<Longrightarrow> calm cl keys (whenp b m)"
  by (cases b) (auto simp: calm_def)

lemma calm_or_close: "calm cl keys m \<Longrightarrow> calm cl keys (or_close km m)"
  unfolding calm_def or_close_def
proof
  fix x assume "\<forall>x. \<exists>y x'. m x = (Ok y, x') \<and> same_view cl keys x x'"
  then obtain y x' where "m x = (Ok y, x')" "same_view cl keys x x'" by blast
  then show "\<exists>y x'. bindp (tryp m) (\<lambda>r. case r of Inl err \<Rightarrow> bindp (tryp (km_Close km)) (\<lambda>_. raise err) | Inr _ \<Rightarrow> ret ()) x =
      (Ok y, x') \<and> same_view cl keys x x'" by simp
qed

text \<open>An exchange that the server accepts gives the decoded payload.\<close>

lemma operate_accepted:
  assumes "calm cl keys (km_uuid km)"
    and "\<And>b x. keys x = keys x0 \<Longrightarrow> \<exists>t u x'. km_exchange km (request b operation payload) x = (Ok (accepted b operation t), x') \<and>
        decode t = Inr u \<and> Q x u x'"
  shows "\<exists>x1 y x'. operate km operation payload decode otherwise x0 = (Ok y, x') \<and> same_view cl keys x0 x1 \<and> Q x1 y x'"
proof -
  obtain b x1 where b: "km_uuid km x0 = (Ok b, x1)" "same_view cl keys x0 x1" using assms(1) by (rule calmE)
  then have "keys x1 = keys x0" by (simp add: same_view_def)
  then obtain t u x' where t: "km_exchange km (request b operation payload) x1 = (Ok (accepted b operation t), x')"
      "decode t = Inr u" "Q x1 u x'"
    using assms(2) by blast
  have "send km operation payload x0 = (Ok (accepted b operation t, b), x')"
    using b(1) t(1) by (simp add: send_def request_def)
  then have "operate km operation payload decode otherwise x0 = (Ok u, x')"
    using t(2) by (simp add: operate_def response_def accepted_def)
  then show ?thesis using b(2) t(3) by blast
qed

lemma calm_discover: "kmip_laws cl km keys \<Longrightarrow> calm cl keys (discover km)"
  unfolding calm_def
proof
  fix x0 assume laws: "kmip_laws cl km keys"
  have "\<exists>x1 y x'. operate km OperationDiscoverVersions (DiscoverVersionsRequestPayload [(1, 4)]) (km_DecodeDiscover km) not_parsed x0 = (Ok y, x') \<and>
      same_view cl keys x0 x1 \<and> (y = [(1, 4)] \<and> same_view cl keys x1 x')"
    using laws by (intro operate_accepted) (simp_all add: kmip_laws_def)
  then obtain x1 y x' where "operate km OperationDiscoverVersions (DiscoverVersionsRequestPayload [(1, 4)]) (km_DecodeDiscover km) not_parsed x0 = (Ok y, x')"
      "same_view cl keys x0 x1" "y = [(1, 4)]" "same_view cl keys x1 x'" by blast
  then show "\<exists>y x'. discover km x0 = (Ok y, x') \<and> same_view cl keys x0 x'"
    using same_view_trans [of cl keys x0 x1 x'] by (simp add: discover_def)
qed

lemma calm_connect: "kmip_laws cl km keys \<Longrightarrow> calm cl keys (connect km k)"
  using calm_discover [of cl km keys] unfolding connect_def
  by (intro calm_seqp calm_whenp calm_or_close) (simp_all add: kmip_laws_def)

lemma register_key:
  assumes "kmip_laws cl km keys"
  obtains u x1 x' where "operate km OperationRegister (RegisterRequestPayload ObjectTypeSymmetricKey (aes_block bs)) (km_DecodeRegister km) Panic x = (Ok u, x')"
    "keys x' = (keys x)(u \<mapsto> bs)" "\<forall>q. k_Get cl q x' = k_Get cl q x"
proof -
  have "\<exists>x1 u x'. operate km OperationRegister (RegisterRequestPayload ObjectTypeSymmetricKey (aes_block bs)) (km_DecodeRegister km) Panic x = (Ok u, x') \<and>
      same_view cl keys x x1 \<and> (keys x' = (keys x1)(u \<mapsto> bs) \<and> (\<forall>q. k_Get cl q x' = k_Get cl q x1))"
  proof (rule operate_accepted)
    show "calm cl keys (km_uuid km)" using assms by (simp add: kmip_laws_def)
    show "\<And>b x. \<exists>t u x'. km_exchange km (request b OperationRegister (RegisterRequestPayload ObjectTypeSymmetricKey (aes_block bs))) x =
        (Ok (accepted b OperationRegister t), x') \<and> km_DecodeRegister km t = Inr u \<and>
        keys x' = (keys x)(u \<mapsto> bs) \<and> (\<forall>q. k_Get cl q x' = k_Get cl q x)"
      using assms unfolding kmip_laws_def by meson
  qed
  then show thesis using that unfolding same_view_def by metis
qed

lemma fetch_key:
  assumes "kmip_laws cl km keys" "keys x u = Some bs"
  obtains x' where "operate km OperationGet (GetRequestPayload u) (km_DecodeGet km) Panic x =
     (Ok \<lparr>gr_UniqueIdentifier = u, gr_ObjectType = ObjectTypeSymmetricKey, gr_SymmetricKey = Some (aes_block bs)\<rparr>, x')"
proof -
  have "\<exists>x1 p x'. operate km OperationGet (GetRequestPayload u) (km_DecodeGet km) Panic x = (Ok p, x') \<and> same_view cl keys x x1 \<and>
     p = \<lparr>gr_UniqueIdentifier = u, gr_ObjectType = ObjectTypeSymmetricKey, gr_SymmetricKey = Some (aes_block bs)\<rparr>"
  proof (rule operate_accepted)
    show "calm cl keys (km_uuid km)" using assms by (simp add: kmip_laws_def)
    show "\<And>b x1. keys x1 = keys x \<Longrightarrow> \<exists>t p x'. km_exchange km (request b OperationGet (GetRequestPayload u)) x1 =
        (Ok (accepted b OperationGet t), x') \<and> km_DecodeGet km t = Inr p \<and>
        p = \<lparr>gr_UniqueIdentifier = u, gr_ObjectType = ObjectTypeSymmetricKey, gr_SymmetricKey = Some (aes_block bs)\<rparr>"
      using assms unfolding kmip_laws_def by metis
  qed
  then show thesis using that by blast
qed

type_synonym 'x kmip_setup = "('x, Secret) klient \<times> 'x kmip_api \<times> kmip_config \<times> ('x \<Rightarrow> string \<rightharpoonup> string)"

fun kmip_storage_of :: "'x kmip_setup \<Rightarrow> 'x tracked Secrets" where
  "kmip_storage_of (cl, km, k, keys) = KMIPSecretStorage cl km k"

text \<open>The storage decodes the value and encodes the bytes it reads, so that the value must be canonical.\<close>

fun kmip_ready :: "'x kmip_setup \<Rightarrow> string \<Rightarrow> string \<Rightarrow> string \<Rightarrow> 'x tracked \<Rightarrow> bool" where
  "kmip_ready (cl, km, k, keys) path key v s \<longleftrightarrow>
     secret_writes cl \<and> kmip_laws cl km keys \<and> rotating path \<and> key \<noteq> '''' \<and> key \<noteq> ActiveRootKey \<and> canonical64 v"

lemma deferred_OkE:
  assumes "deferred close m s = (Ok y, s1)"
  obtains t where "m s = (Ok y, t)" "s1 = snd (close t)"
  using assms by (auto simp: deferred_def split: prod.splits)

lemma kmip_put_OkE:
  assumes "KMIP_PutSecret cl km k path m c s = (Ok (), s1)" "kmip_laws cl km keys" "DecodeString v = Some bs"
    and "map_of m ActiveRootKey = Some (IStr key)" "map_of m key = Some (IStr v)"
  obtains u t t1 where "update_tracking cl ''Failed to update KMS secret '' t = (Ok (), t1)" "keys (st_ext s1) u = Some bs"
    "sec_StringData (st_secret t) = (sec_StringData (st_secret s))(''NewActiveKeyID'' \<mapsto> key, ''UniqueIdentifierNew'' \<mapsto> u)"
    "st_secret s1 = st_secret t1" "\<forall>q. k_Get cl q (st_ext s1) = k_Get cl q (st_ext t1)"
proof -
  let ?body = "bindp (on_ext (operate km OperationRegister (RegisterRequestPayload ObjectTypeSymmetricKey (aes_block bs))
     (km_DecodeRegister km) Panic)) (\<lambda>u. seqp (set_string_data ''NewActiveKeyID'' key)
        (seqp (set_string_data ''UniqueIdentifierNew'' u) (update_tracking cl ''Failed to update KMS secret '')))"
  obtain x1 where x1: "connect km k (st_ext s) = (Ok (), x1)" using calm_connect [OF assms(2), of k] unfolding calm_def by (metis unit.exhaust)
  then have "deferred (on_ext (km_Close km)) ?body (s\<lparr>st_ext := x1\<rparr>) = (Ok (), s1)"
    using assms(1,3-5) by (simp add: KMIP_PutSecret_def string_entry_def on_ext_run [of "connect km k" s "Ok ()" x1])
  then obtain t1 where t1: "?body (s\<lparr>st_ext := x1\<rparr>) = (Ok (), t1)" "s1 = snd (on_ext (km_Close km) t1)" by (rule deferred_OkE)
  obtain u x2 where u: "operate km OperationRegister (RegisterRequestPayload ObjectTypeSymmetricKey (aes_block bs)) (km_DecodeRegister km) Panic x1 = (Ok u, x2)"
      "keys x2 = (keys x1)(u \<mapsto> bs)"
    using register_key [OF assms(2)] by metis
  define t where "t = s\<lparr>st_ext := x2, st_secret := (st_secret s)\<lparr>sec_StringData :=
     (sec_StringData (st_secret s))(''NewActiveKeyID'' \<mapsto> key, ''UniqueIdentifierNew'' \<mapsto> u)\<rparr>\<rparr>"
  have upd: "update_tracking cl ''Failed to update KMS secret '' t = (Ok (), t1)"
    using t1(1) u(1) by (simp add: on_ext_def set_string_data_def seqp_def bindp_def t_def)
  obtain x3 where x3: "k_Update cl (st_secret t) x2 = (None, x3)" "st_ext t1 = x3" using upd by (auto elim!: update_tracking_OkE simp: t_def)
  have "keys x3 = keys x2" using assms(2) x3(1) unfolding kmip_laws_def by (metis snd_conv)
  moreover obtain x4 where x4: "km_Close km x3 = (Ok (), x4)" "same_view cl keys x3 x4"
    using assms(2) unfolding kmip_laws_def by (metis calmE unit.exhaust)
  moreover have s1: "s1 = t1\<lparr>st_ext := x4\<rparr>" using t1(2) x3(2) x4(1) by (simp add: on_ext_def)
  ultimately show thesis
    using upd u(2) x3(2) by (intro that [OF upd, of u]) (simp_all add: same_view_def t_def)
qed

lemma kmip_put_get:
  assumes "kmip_ready (cl, km, k, keys) path key v s" "KMIP_PutSecret cl km k path m c s = (Ok (), s1)"
    and "map_of m ActiveRootKey = Some (IStr key)" "map_of m key = Some (IStr v)"
  shows "\<exists>s2. KMIP_GetSecret cl km k path c' s1 = (Ok [(ActiveRootKey, IStr key), (key, IStr v)], s2)"
proof -
  have laws: "kmip_laws cl km keys" and r: "secret_writes cl" "rotating path" "key \<noteq> ''''" "ActiveRootKey \<noteq> key"
    using assms(1) by auto
  obtain bs where bs: "DecodeString v = Some bs" "EncodeToString bs = v"
    using assms(1) by (auto simp: canonical64_def split: option.splits)
  obtain u t t1 where u: "update_tracking cl ''Failed to update KMS secret '' t = (Ok (), t1)" "keys (st_ext s1) u = Some bs"
      "sec_StringData (st_secret t) = (sec_StringData (st_secret s))(''NewActiveKeyID'' \<mapsto> key, ''UniqueIdentifierNew'' \<mapsto> u)"
      "st_secret s1 = st_secret t1" "\<forall>q. k_Get cl q (st_ext s1) = k_Get cl q (st_ext t1)"
    using kmip_put_OkE [OF assms(2) laws bs(1) assms(3,4)] by metis
  obtain s2 where s2: "refresh cl s1 = (Ok (), s2)" "st_ext s2 = st_ext s1"
      "sec_StringData (st_secret s2) ''NewActiveKeyID'' = Some key" "sec_StringData (st_secret s2) ''UniqueIdentifierNew'' = Some u"
    using refresh_after_update [OF r(1) u(1,4,5)] u(3) by auto
  obtain x1 where x1: "connect km k (st_ext s2) = (Ok (), x1)" "keys x1 u = Some bs"
    using calm_connect [OF laws, of k] u(2) s2(2) unfolding calm_def same_view_def by (metis unit.exhaust)
  let ?p = "\<lparr>gr_UniqueIdentifier = u, gr_ObjectType = ObjectTypeSymmetricKey, gr_SymmetricKey = Some (aes_block bs)\<rparr>"
  obtain x2 where x2: "operate km OperationGet (GetRequestPayload u) (km_DecodeGet km) Panic x1 = (Ok ?p, x2)"
    using fetch_key [OF laws x1(2)] by metis
  have "check_key km u ?p = Ok v" by (simp add: check_key_def aes_block_def bs(2))
  then show ?thesis
    using r s2(1,3,4) x2 by (simp add: KMIP_GetSecret_def string_data_def on_ext_run [of "connect km k" s2, OF x1(1)] deferred_def
        on_ext_run [of "operate km OperationGet (GetRequestPayload u) (km_DecodeGet km) Panic" "s2\<lparr>st_ext := x1\<rparr>" "Ok ?p" x2])
qed

interpretation kmip: rotating_backend kmip_storage_of kmip_ready
proof (unfold_locales)
  fix u :: "'a kmip_setup" and path key v and w :: "'a tracked" and m c w1 c'
  assume a: "kmip_ready u path key v w" "PutSecret (kmip_storage_of u) path m c w = (Ok (), w1)"
    "map_of m ActiveRootKey = Some (IStr key)" "map_of m key = Some (IStr v)"
  obtain cl km k keys where u: "u = (cl, km, k, keys)" by (cases u)
  have "\<exists>s2. KMIP_GetSecret cl km k path c' w1 = (Ok [(ActiveRootKey, IStr key), (key, IStr v)], s2)"
    using a by (intro kmip_put_get) (auto simp: u KMIPSecretStorage_def)
  then show "\<exists>r w2. GetSecret (kmip_storage_of u) path c' w1 = (Ok r, w2) \<and> map_of r ActiveRootKey = Some (IStr key) \<and>
      map_of r key = Some (IStr v) \<and> (\<forall>(k, u) \<in> set r. \<exists>s. u = IStr s)"
    using a(1) by (auto simp: u KMIPSecretStorage_def)
qed

section \<open>A cluster with both services\<close>

text \<open>A concrete outside for the witnesses: one stored secret, the keys of Key Protect and the keys of a KMIP server.\<close>

record ex_world =
  xw_secret :: Secret
  xw_kp :: "kp_Key list"
  xw_kmip :: "string list"

definition ex_kube :: "(ex_world, Secret) klient" where
  "ex_kube = \<lparr>k_Get = (\<lambda>q w. if sec_Name q = sec_Name (xw_secret w) \<and> sec_Namespace q = sec_Namespace (xw_secret w)
       then Inr (xw_secret w) else Inl NotFoundError),
     k_Create = (\<lambda>q w. (Some (OtherError ''read only''), w)),
     k_Update = (\<lambda>q w. (None, w\<lparr>xw_secret := q\<lparr>sec_Data := sec_Data q ++ sec_StringData q, sec_StringData := Map.empty\<rparr>\<rparr>)),
     k_Delete = (\<lambda>q w. (Some NotFoundError, w)), k_SetResourceVersion = (\<lambda>q r. q)\<rparr>"

lemma ex_kube_writes: "secret_writes ex_kube"
  unfolding secret_writes_def
proof (intro allI impI)
  fix sec x x1 assume "k_Update ex_kube sec x = (None, x1)"
  then have x1: "xw_secret x1 = sec\<lparr>sec_Data := sec_Data sec ++ sec_StringData sec, sec_StringData := Map.empty\<rparr>"
    by (auto simp: ex_kube_def)
  show "\<exists>sec1. sec_Data sec1 = sec_Data sec ++ sec_StringData sec \<and>
      (\<forall>q. sec_Name q = sec_Name sec \<and> sec_Namespace q = sec_Namespace sec \<longrightarrow> k_Get ex_kube q x1 = Inr sec1)"
    using x1 by (intro exI [of _ "xw_secret x1"]) (simp add: ex_kube_def)
qed

definition ex_kp_id :: "nat \<Rightarrow> string" where
  "ex_kp_id n = replicate n (CHR ''i'')"

definition ex_kp_keys :: "ex_world \<Rightarrow> kp_Key list" where
  "ex_kp_keys w = map (\<lambda>(i, k). k\<lparr>kp_ID := ex_kp_id i\<rparr>) (zip [0 ..< length (xw_kp w)] (xw_kp w))"

definition ex_kp :: "ex_world kp_api" where
  "ex_kp = \<lparr>kp_DefaultBaseURL = ''https://base'', kp_DefaultTokenURL = ''https://token'', kp_New = (\<lambda>cc. None),
     kp_GetKeys = (\<lambda>l off w. (Ok (map listed (take l (drop off (ex_kp_keys w)))), w)),
     kp_GetKey = (\<lambda>i w. (case find (\<lambda>k. kp_ID k = i) (ex_kp_keys w) of
        None \<Rightarrow> Err (PlainError ''no such key'') | Some k \<Rightarrow> Ok k, w)),
     kp_CreateImportedStandardKey = (\<lambda>n v w.
        (Ok \<lparr>kp_ID = ex_kp_id (length (xw_kp w)), kp_Name = n, kp_Payload = ''''\<rparr>,
         w\<lparr>xw_kp := xw_kp w @ [\<lparr>kp_ID = '''', kp_Name = n, kp_Payload = v\<rparr>]\<rparr>)),
     kp_DeleteKey = (\<lambda>i w. (Ok (), w)), kp_pages = 3\<rparr>"

lemma find_by_key: "distinct (map f xs) \<Longrightarrow> k \<in> set xs \<Longrightarrow> find (\<lambda>k'. f k' = f k) xs = Some k"
  by (induction xs) (auto simp: image_def)

lemma ex_kp_find: "k \<in> set (ex_kp_keys w) \<Longrightarrow> find (\<lambda>k'. kp_ID k' = kp_ID k) (ex_kp_keys w) = Some k"
proof (rule find_by_key)
  have ids: "map kp_ID (ex_kp_keys w) = map ex_kp_id [0 ..< length (xw_kp w)]"
    by (rule nth_equalityI) (simp_all add: ex_kp_keys_def case_prod_beta)
  show "distinct (map kp_ID (ex_kp_keys w))" unfolding ids by (simp add: distinct_map inj_on_def ex_kp_id_def replicate_eq_replicate)
qed

lemma ex_kp_keys_append: "ex_kp_keys (w\<lparr>xw_kp := xw_kp w @ [k]\<rparr>) = ex_kp_keys w @ [k\<lparr>kp_ID := ex_kp_id (length (xw_kp w))\<rparr>]"
  by (simp add: ex_kp_keys_def)

lemma ex_kp_laws: "kp_laws ex_kube ex_kp ex_kp_keys"
proof -
  have "ex_kp_keys (w\<lparr>xw_secret := q\<rparr>) = ex_kp_keys w" for w q by (simp add: ex_kp_keys_def)
  then show ?thesis using ex_kp_find ex_kp_keys_append unfolding kp_laws_def by (auto simp: ex_kp_def ex_kube_def)
qed

definition ex_tracking :: Secret where
  "ex_tracking = new_secret ''kms'' ''noobaa''"

definition ex_start :: "ex_world tracked" where
  "ex_start = \<lparr>st_ext = \<lparr>xw_secret = ex_tracking, xw_kp = [], xw_kmip = []\<rparr>, st_secret = ex_tracking\<rparr>"

text \<open>The example server names its keys by words over one letter and answers with the name and the bytes of a key.\<close>

definition ex_bytes :: "ex_world \<Rightarrow> string \<rightharpoonup> string" where
  "ex_bytes w u = (if length u < length (xw_kmip w) \<and> u = ex_kp_id (length u) then Some (xw_kmip w ! length u) else None)"

definition ex_exchange :: "RequestMessage \<Rightarrow> (ex_world, ResponseMessage) proc" where
  "ex_exchange r w = (case rq_BatchItem r of
     [(b, operation, payload)] \<Rightarrow>
       (case payload of
          RegisterRequestPayload t kb \<Rightarrow> (case kb_KeyValue kb of
            Some (KeyBytes bs) \<Rightarrow> (Ok (accepted b operation (ex_kp_id (length (xw_kmip w)))), w\<lparr>xw_kmip := xw_kmip w @ [bs]\<rparr>)
          | _ \<Rightarrow> (Err (PlainError ''bad key''), w))
        | GetRequestPayload u \<Rightarrow> (case ex_bytes w u of
            Some bs \<Rightarrow> (Ok (accepted b operation (u @ ''|'' @ bs)), w)
          | None \<Rightarrow> (Err (PlainError ''no such key''), w))
        | DestroyRequestPayload u \<Rightarrow> (Ok (accepted b operation u), w)
        | DiscoverVersionsRequestPayload vs \<Rightarrow> (Ok (accepted b operation ''''), w))
   | _ \<Rightarrow> (Err (PlainError ''bad request''), w))"

definition ex_kmip :: "ex_world kmip_api" where
  "ex_kmip = \<lparr>km_X509KeyPair = (\<lambda>_ _. None), km_Dial = (\<lambda>_. ret ()), km_SetReadDeadline = (\<lambda>_. ret ()),
     km_SetWriteDeadline = (\<lambda>_. ret ()), km_Handshake = ret (), km_Close = ret (), km_uuid = ret ''b'', km_exchange = ex_exchange,
     km_DecodeDiscover = (\<lambda>_. Inr [(1, 4)]),
     km_DecodeGet = (\<lambda>t. case Cut t (CHR ''|'') of (u, bs, _) \<Rightarrow>
        Inr \<lparr>gr_UniqueIdentifier = u, gr_ObjectType = ObjectTypeSymmetricKey, gr_SymmetricKey = Some (aes_block bs)\<rparr>),
     km_DecodeRegister = Inr, km_DecodeDestroy = Inr, km_show_operation = (\<lambda>_. ''''), km_show_item = (\<lambda>_. ''''),
     km_show_key = (\<lambda>_. ''''), km_base64_error = (\<lambda>_. ''illegal base64 data'')\<rparr>"

lemma Cut_ex_id: "Cut (ex_kp_id n @ ''|'' @ bs) (CHR ''|'') = (ex_kp_id n, bs, True)"
  by (induction n) (simp_all add: ex_kp_id_def)

lemma ex_bytes_append: "ex_bytes (w\<lparr>xw_kmip := xw_kmip w @ [bs]\<rparr>) = (ex_bytes w)(ex_kp_id (length (xw_kmip w)) \<mapsto> bs)"
  by (rule ext) (auto simp: ex_bytes_def ex_kp_id_def nth_append less_Suc_eq)

lemma ex_bytes_new: "ex_bytes w (ex_kp_id (length (xw_kmip w))) = None"
  by (simp add: ex_bytes_def ex_kp_id_def)

lemma ex_bytes_id: "ex_bytes w u = Some bs \<Longrightarrow> Cut (u @ ''|'' @ bs') (CHR ''|'') = (u, bs', True)"
  by (metis Cut_ex_id ex_bytes_def option.distinct(1))

lemma ex_kmip_laws: "kmip_laws ex_kube ex_kmip ex_bytes"
proof -
  have get: "\<exists>t x'. km_exchange ex_kmip (request b OperationGet (GetRequestPayload u)) x = (Ok (accepted b OperationGet t), x') \<and>
      km_DecodeGet ex_kmip t = Inr \<lparr>gr_UniqueIdentifier = u, gr_ObjectType = ObjectTypeSymmetricKey, gr_SymmetricKey = Some (aes_block bs)\<rparr> \<and>
      same_view ex_kube ex_bytes x x'" if "ex_bytes x u = Some bs" for b u bs x
    using that ex_bytes_id [OF that, of bs]
    by (intro exI [of _ "u @ ''|'' @ bs"] exI [of _ x]) (simp add: ex_kmip_def ex_exchange_def request_def)
  have reg: "\<exists>t u x'. km_exchange ex_kmip (request b OperationRegister (RegisterRequestPayload ObjectTypeSymmetricKey (aes_block bs))) x =
      (Ok (accepted b OperationRegister t), x') \<and> km_DecodeRegister ex_kmip t = Inr u \<and> ex_bytes x u = None \<and>
      ex_bytes x' = (ex_bytes x)(u \<mapsto> bs) \<and> (\<forall>q. k_Get ex_kube q x' = k_Get ex_kube q x)" for b bs x
    using ex_bytes_new [of x] ex_bytes_append [of x bs]
    by (intro exI [of _ "ex_kp_id (length (xw_kmip x))"] exI [of _ "x\<lparr>xw_kmip := xw_kmip x @ [bs]\<rparr>"])
       (simp add: ex_kmip_def ex_exchange_def request_def aes_block_def ex_kube_def)
  have upd: "ex_bytes (snd (k_Update ex_kube sec x)) = ex_bytes x" for sec x by (rule ext) (simp add: ex_kube_def ex_bytes_def)
  have disc: "\<exists>t x'. km_exchange ex_kmip (request b OperationDiscoverVersions (DiscoverVersionsRequestPayload [(1, 4)])) x =
        (Ok (accepted b OperationDiscoverVersions t), x') \<and> km_DecodeDiscover ex_kmip t = Inr [(1, 4)] \<and> same_view ex_kube ex_bytes x x'" for b x
    by (simp add: ex_kmip_def ex_exchange_def request_def accepted_def)
  show ?thesis unfolding kmip_laws_def
    by (intro conjI allI impI get reg upd disc) (simp_all add: calm_def ex_kmip_def)
qed

section \<open>Properties\<close>

text \<open>
  C17. The search for a key by its name reads the pages of the service until one is empty: it always ends, returns the first
  key of the list with the name, and reports an invalid id exactly when there is none.
\<close>

theorem key_search_complete:
  assumes "kp_laws cl kp keys" "length (keys x) div 2000 + 2 \<le> kp_pages kp"
  shows "getKeyByName kp n x =
    (case find (\<lambda>k. kp_Name k = n) (keys x) of Some k \<Rightarrow> (Ok (listed k), x) | None \<Rightarrow> (Err ErrInvalidSecretId, x))"
  using assms by (rule getKeyByName_eq)

definition ex_kp_world :: ex_world where
  "ex_kp_world = \<lparr>xw_secret = ex_tracking, xw_kp = [\<lparr>kp_ID = '''', kp_Name = ''a'', kp_Payload = ''p''\<rparr>, \<lparr>kp_ID = '''', kp_Name = ''b'', kp_Payload = ''q''\<rparr>],
     xw_kmip = []\<rparr>"

theorem key_search_complete_witness:
  "getKeyByName ex_kp ''b'' ex_kp_world = (Ok \<lparr>kp_ID = ''i'', kp_Name = ''b'', kp_Payload = ''''\<rparr>, ex_kp_world) \<and>
   getKeyByName ex_kp ''c'' ex_kp_world = (Err ErrInvalidSecretId, ex_kp_world)"
proof -
  have k: "ex_kp_keys ex_kp_world = [\<lparr>kp_ID = '''', kp_Name = ''a'', kp_Payload = ''p''\<rparr>, \<lparr>kp_ID = ''i'', kp_Name = ''b'', kp_Payload = ''q''\<rparr>]"
    by (simp add: ex_kp_keys_def ex_kp_world_def ex_kp_id_def upt_rec)
  then have "length (ex_kp_keys ex_kp_world) div 2000 + 2 \<le> kp_pages ex_kp" by (simp add: ex_kp_def)
  from key_search_complete [OF ex_kp_laws this] show ?thesis by (simp add: k listed_def)
qed

text \<open>
  C15. A new root key set in IBM Key Protect is read back: after a successful \<open>Set\<close> under a name that is new in the service,
  a \<open>Get\<close> in the same outside returns the pointer to the new key and its value.
\<close>

theorem ibm_key_read_back:
  assumes "k_Secrets k = ibmKpSecretStorage cl kp" "key = keyName (ke_UnixNano e (v_world s))"
    and "ibm_ready (cl, kp, keys) (BackendSecretName (d_name (k_driver k))) key val (v_world s)"
    and "Rotating_Set e k val s = (Ok (), s1)" "v_world s2 = v_world s1"
  shows "\<exists>s3 d. Rotating_Get e k s2 = (Ok (), s3) \<and> v_data s3 = Some d \<and> map_of d ActiveRootKey = Some key \<and> map_of d key = Some val"
  using assms by (intro ibm.set_get [of k "(cl, kp, keys)"]) (simp_all add: ibm_storage_of_def)

text \<open>
  A new root key registered with a KMIP server is read back: after a successful \<open>Set\<close> of a canonical base64 value, a
  \<open>Get\<close> returns the pointer to the new key and the same value.
\<close>

theorem kmip_key_read_back:
  assumes "k_Secrets k = KMIPSecretStorage cl km c" "key = keyName (ke_UnixNano e (v_world s))"
    and "kmip_ready (cl, km, c, keys) (BackendSecretName (d_name (k_driver k))) key val (v_world s)"
    and "Rotating_Set e k val s = (Ok (), s1)" "v_world s2 = v_world s1"
  shows "\<exists>s3 d. Rotating_Get e k s2 = (Ok (), s3) \<and> v_data s3 = Some d \<and> map_of d ActiveRootKey = Some key \<and> map_of d key = Some val"
  using assms by (intro kmip.set_get [of k "(cl, km, c, keys)"]) simp_all

text \<open>Both on a concrete outside.\<close>

definition ex_kms_env :: "'w kms_env" where
  "ex_kms_env = \<lparr>ke_TypeK8s = ''k8s'', ke_k8s_Name = ''k8s'', ke_vault_Name = ''vault'', ke_azure_Name = ''azure-kv'',
     ke_SecretNamespace = ''namespace'', ke_DestroySecret = ''destroy'', ke_AuthMethod = ''VAULT_AUTH_METHOD'',
     ke_AuthMethodKubernetes = ''kubernetes'', ke_AzureClientCertPath = ''AZURE_CERT'', ke_Getenv = (\<lambda>_ _. None),
     ke_Setenv = (\<lambda>_ _. ret ()), ke_CreateTemp = ret ''/tmp/1'', ke_WriteFile = (\<lambda>_ _. ret ()),
     ke_client = \<lparr>k_Get = (\<lambda>_ _. Inl NotFoundError), k_Create = (\<lambda>_ w. (None, w)), k_Update = (\<lambda>_ w. (None, w)),
        k_Delete = (\<lambda>_ w. (Some NotFoundError, w)), k_SetResourceVersion = (\<lambda>o' _. o')\<rparr>,
     ke_polls = 1, ke_UnixNano = (\<lambda>_. 7), ke_New = (\<lambda>_ _. raise (PlainError ''unsupported''))\<rparr>"

definition ex_ibm :: "ex_world tracked KMS" where
  "ex_ibm = \<lparr>k_Secrets = ibmKpSecretStorage ex_kube ex_kp, k_Type = ''ibmkeyprotect'', k_driver = IBM ''u'' ''noobaa'' ''ns''\<rparr>"

definition ex_kmip_kms :: "ex_world tracked KMS" where
  "ex_kmip_kms = \<lparr>k_Secrets = KMIPSecretStorage ex_kube ex_kmip \<lparr>kc_endpoint = ''e'', kc_serverName = '''', kc_readTimeout = 10, kc_writeTimeout = 10\<rparr>,
     k_Type = ''kmip'', k_driver = KMIP ''u'' ''noobaa'' ''ns''\<rparr>"

definition ex_client :: "ex_world tracked VersionRotatingSecret" where
  "ex_client = \<lparr>v_world = ex_start, v_data = None\<rparr>"

lemma ex_key_name: "keyName 7 = ''key-7''"
  by code_simp

lemma ex_backend_rotating: "rotating (BackendSecretName ''noobaa'')"
  by code_simp

lemma ex_backend_name: "BackendSecretName ''noobaa'' = ''noobaa-root-master-key-backend''"
  by (simp add: BackendSecretName_def)

lemma ex_canonical: "DecodeString ''cm9vdA=='' = Some ''root''" "canonical64 ''cm9vdA==''"
  by code_simp+

lemmas ex_set_defs = Rotating_Set_def ex_kms_env_def ex_client_def ex_key_name on_world_def toInterfaceMap_def Let_def run_defs

lemma ex_ibm_sets: "\<exists>s1. Rotating_Set ex_kms_env ex_ibm ''cm9vdA=='' ex_client = (Ok (), s1)"
  using ex_backend_rotating
  by (simp add: ex_set_defs ex_ibm_def ibmKpSecretStorage_def IBM_PutSecret_def ex_start_def ex_kp_def on_ext_def set_string_data_def
      update_tracking_def ex_kube_def KubeUpdate_def del: run_rules)

lemma ex_kmip_sets: "\<exists>s1. Rotating_Set ex_kms_env ex_kmip_kms ''cm9vdA=='' ex_client = (Ok (), s1)"
  by (simp add: ex_set_defs ex_kmip_kms_def KMIPSecretStorage_def KMIP_PutSecret_def ex_start_def string_entry_def ex_canonical on_ext_def
      connect_def ex_kmip_def or_close_def discover_def operate_def send_def ex_exchange_def response_def accepted_def deferred_def
      set_string_data_def update_tracking_def ex_kube_def KubeUpdate_def aes_block_def del: run_rules)

theorem ibm_key_read_back_witness:
  "\<exists>s1 s3 d. Rotating_Set ex_kms_env ex_ibm ''cm9vdA=='' ex_client = (Ok (), s1) \<and> Rotating_Get ex_kms_env ex_ibm s1 = (Ok (), s3) \<and>
     v_data s3 = Some d \<and> map_of d ActiveRootKey = Some ''key-7'' \<and> map_of d ''key-7'' = Some ''cm9vdA==''"
proof -
  obtain s1 where s1: "Rotating_Set ex_kms_env ex_ibm ''cm9vdA=='' ex_client = (Ok (), s1)" using ex_ibm_sets by blast
  have "ibm_ready (ex_kube, ex_kp, ex_kp_keys) (BackendSecretName (d_name (k_driver ex_ibm))) ''key-7'' ''cm9vdA=='' (v_world ex_client)"
  proof -
    have "kp_pages ex_kp = 3" "ex_kp_keys (st_ext ex_start) = []" by (simp_all add: ex_kp_def ex_kp_keys_def ex_start_def)
    then show ?thesis using ex_backend_rotating by (simp add: ex_kube_writes ex_kp_laws ex_ibm_def ex_client_def)
  qed
  then show ?thesis
    using ibm_key_read_back [OF _ _ _ s1 refl, of ex_kube ex_kp "''key-7''" ex_kp_keys] s1
    by (auto simp: ex_ibm_def ex_kms_env_def ex_key_name)
qed

theorem kmip_key_read_back_witness:
  "\<exists>s1 s3 d. Rotating_Set ex_kms_env ex_kmip_kms ''cm9vdA=='' ex_client = (Ok (), s1) \<and> Rotating_Get ex_kms_env ex_kmip_kms s1 = (Ok (), s3) \<and>
     v_data s3 = Some d \<and> map_of d ActiveRootKey = Some ''key-7'' \<and> map_of d ''key-7'' = Some ''cm9vdA==''"
proof -
  obtain s1 where s1: "Rotating_Set ex_kms_env ex_kmip_kms ''cm9vdA=='' ex_client = (Ok (), s1)" using ex_kmip_sets by blast
  let ?c = "\<lparr>kc_endpoint = ''e'', kc_serverName = '''', kc_readTimeout = 10, kc_writeTimeout = 10\<rparr>"
  have "kmip_ready (ex_kube, ex_kmip, ?c, ex_bytes) (BackendSecretName (d_name (k_driver ex_kmip_kms))) ''key-7'' ''cm9vdA=='' (v_world ex_client)"
    using ex_backend_rotating by (simp add: ex_kube_writes ex_kmip_laws ex_kmip_kms_def ex_canonical)
  then show ?thesis
    using kmip_key_read_back [OF _ _ _ s1 refl, of ex_kube ex_kmip ?c "''key-7''" ex_bytes] s1
    by (auto simp: ex_kmip_kms_def ex_kms_env_def ex_key_name)
qed

lemma last_show_nat: "show_nat n \<noteq> [] \<and> last (show_nat n) = byte (48 + n mod 10)"
  by (subst (1 2) show_nat.simps) simp

lemma last_keyName: "last (keyName now) \<noteq> CHR ''d''"
proof
  assume "last (keyName now) = CHR ''d''"
  then obtain n where "byte (48 + n mod 10) = CHR ''d''"
    using last_show_nat by (auto simp: keyName_def show_int_def split: if_splits)
  then have "of_char (byte (48 + n mod 10)) = (100 :: nat)" by simp
  moreover have "48 + n mod 10 < 58" by simp
  ultimately show False by (simp add: b64_val_byte)
qed

text \<open>
  C18. Deleting the rotating secret from IBM Key Protect looks for a key with the name of the secret, while the keys are
  stored under timestamped names: with only such keys in the service nothing is deleted and the id is reported as invalid.
\<close>

theorem ibm_delete_misses_keys:
  assumes "kp_laws cl kp keys" "length (keys (st_ext s)) div 2000 + 2 \<le> kp_pages kp"
    and "\<forall>k \<in> set (keys (st_ext s)). \<exists>now. kp_Name k = keyName now"
  shows "IBM_DeleteSecret kp (BackendSecretName name) c s = (Err ErrInvalidSecretId, s)"
proof -
  have "BackendSecretName name \<noteq> keyName now" for now
  proof -
    have "last (BackendSecretName name) = CHR ''d''" by (simp add: BackendSecretName_def)
    then show ?thesis using last_keyName [of now] by metis
  qed
  then have "BackendSecretName name \<notin> kp_Name ` set (keys (st_ext s))" using assms(3) by (metis imageE)
  then have "find (\<lambda>k. kp_Name k = BackendSecretName name) (keys (st_ext s)) = None" by (rule find_None_names)
  then have "getKeyByName kp (BackendSecretName name) (st_ext s) = (Err ErrInvalidSecretId, st_ext s)"
    using getKeyByName_eq [OF assms(1,2)] by simp
  then show ?thesis by (simp add: IBM_DeleteSecret_def on_ext_def bindp_def)
qed

definition ex_rotated :: "ex_world tracked" where
  "ex_rotated = ex_start\<lparr>st_ext := (st_ext ex_start)\<lparr>xw_kp := [\<lparr>kp_ID = '''', kp_Name = ''key-7'', kp_Payload = ''cm9vdA==''\<rparr>]\<rparr>\<rparr>"

theorem ibm_delete_misses_keys_witness:
  "IBM_DeleteSecret ex_kp (BackendSecretName ''noobaa'') [] ex_rotated = (Err ErrInvalidSecretId, ex_rotated)"
proof (rule ibm_delete_misses_keys [OF ex_kp_laws])
  show "length (ex_kp_keys (st_ext ex_rotated)) div 2000 + 2 \<le> kp_pages ex_kp"
    by (simp add: ex_kp_keys_def ex_rotated_def) (simp add: ex_kp_def)
  show "\<forall>k \<in> set (ex_kp_keys (st_ext ex_rotated)). \<exists>now. kp_Name k = keyName now"
    by (auto simp: ex_kp_keys_def ex_rotated_def intro!: exI [of _ 7] ex_key_name [symmetric])
qed

end
