(* ===== verification/Kms_System.thy ===== *)
theory Kms_System
  imports Kms_Storage
begin

text \<open>
  The root master key of a system: how the system reconciler reads it from the key management service, creates it when
  there is none, exposes it to the pods in a mounted secret, rotates it on a schedule and deletes it
  (\<^verbatim>\<open>pkg/system/phase2_creating.go\<close>, \<^verbatim>\<open>pkg/system/reconciler.go\<close>).
\<close>

section \<open>State and environment\<close>

text \<open>
  The part of the system reconciler that the root key uses.  \<open>rs_data\<close> is the data of the client at hand.  A zero
  time is \<open>None\<close>.
\<close>

record 'w root_state =
  rs_world :: 'w
  rs_data :: "string bag option"
  rs_Conditions :: "Condition list"
  rs_LastKeyRotateTime :: "int option"
  rs_SecretRootMasterKey :: string
  rs_SecretRootMasterMap :: Secret

text \<open>
  Beside the key management: the cron library, the calendar, random bytes, the condition and owner libraries and
  \<^verbatim>\<open>controllerutil.CreateOrUpdate\<close>, which applies a change to the object of the cluster and returns the
  object as the call leaves it.
\<close>

record 'w root_env =
  re_kms :: "'w kms_env"
  re_Name :: string
  re_Namespace :: string
  re_UID :: string
  re_Meta :: ObjectMeta
  re_SetStatusCondition :: set_condition
  re_ParseStandard :: "string \<Rightarrow> go_error + (int \<Rightarrow> int)"
  re_SixMonthsBefore :: "int \<Rightarrow> int"
  re_RandomBytes :: "'w \<Rightarrow> string"
  re_SetControllerReference :: "ObjectMeta \<Rightarrow> ObjectMeta \<Rightarrow> ObjectMeta option"
  re_CreateOrUpdate :: "Secret \<Rightarrow> (Secret \<Rightarrow> Secret) \<Rightarrow> 'w \<Rightarrow> (go_error option \<times> Secret) \<times> 'w"

type_synonym ('w, 'a) root_proc = "('w root_state, 'a) proc"

definition on_root :: "('w, 'a) proc \<Rightarrow> ('w, 'a) root_proc" where
  "on_root m s = (case m (rs_world s) of (r, w) \<Rightarrow> (r, s\<lparr>rs_world := w\<rparr>))"

definition on_version :: "('w VersionRotatingSecret, 'a) proc \<Rightarrow> ('w, 'a) root_proc" where
  "on_version m s = (case m \<lparr>v_world = rs_world s, v_data = rs_data s\<rparr> of
     (r, v) \<Rightarrow> (r, s\<lparr>rs_world := v_world v, rs_data := v_data v\<rparr>))"

definition open_kms :: "'w root_env \<Rightarrow> KeyManagementServiceSpec \<Rightarrow> ('w, 'w KMS) root_proc" where
  "open_kms e spec s =
     (case NewKMS (re_kms e) (kms_ConnectionDetails spec) (kms_TokenSecretName spec) (re_Name e) (re_Namespace e) (re_UID e) (rs_world s) of
        (Ok (k, data), w) \<Rightarrow> (Ok k, s\<lparr>rs_world := w, rs_data := data\<rparr>)
      | (Err err, w) \<Rightarrow> (Err err, s\<lparr>rs_world := w\<rparr>)
      | (Panic, w) \<Rightarrow> (Panic, s\<lparr>rs_world := w\<rparr>))"

section \<open>Conditions\<close>

abbreviation ConditionTypeKMSStatus :: ConditionType where "ConditionTypeKMSStatus \<equiv> ConditionOther ''KMS-Status''"
abbreviation ConditionTypeKMSType :: ConditionType where "ConditionTypeKMSType \<equiv> ConditionOther ''KMS-Type''"

definition setKMSConditionStatus :: "'w root_env \<Rightarrow> ConditionStatus \<Rightarrow> ('w, unit) root_proc" where
  "setKMSConditionStatus e st = modify (\<lambda>s. s\<lparr>rs_Conditions := re_SetStatusCondition e (rs_Conditions s)
     \<lparr>c_Type = ConditionTypeKMSStatus, c_Status = st, c_Reason = '''', c_Message = ''''\<rparr>\<rparr>)"

definition setKMSConditionType :: "'w root_env \<Rightarrow> string \<Rightarrow> ('w, unit) root_proc" where
  "setKMSConditionType e t = modify (\<lambda>s. s\<lparr>rs_Conditions := re_SetStatusCondition e (rs_Conditions s)
     \<lparr>c_Type = ConditionTypeKMSType, c_Status = ConditionStatusOther t, c_Reason = '''', c_Message = ''''\<rparr>\<rparr>)"

text \<open>An error is returned after the condition was set.\<close>

definition or_status :: "'w root_env \<Rightarrow> ConditionStatus \<Rightarrow> ('w, 'a) root_proc \<Rightarrow> ('w, 'a) root_proc" where
  "or_status e st m = bindp (tryp m) (\<lambda>r. case r of
     Inl err \<Rightarrow> seqp (setKMSConditionStatus e st) (raise err)
   | Inr x \<Rightarrow> ret x)"

section \<open>The mounted secret\<close>

text \<open>\<open>ReconcileObject\<close> of the secret: ownership, create or update, and the data moved to the string data.\<close>

definition reconcile_master_map :: "'w root_env \<Rightarrow> (Secret \<Rightarrow> Secret) \<Rightarrow> ('w, unit) root_proc" where
  "reconcile_master_map e desired s =
     (let sec = rs_SecretRootMasterMap s in
      case re_SetControllerReference e (re_Meta e) (sec_Meta sec) of
        None \<Rightarrow> (Panic, s)
      | Some m \<Rightarrow>
          (case re_CreateOrUpdate e (sec\<lparr>sec_Meta := m\<rparr>) desired (rs_world s) of
             ((err, sec1), w) \<Rightarrow>
               ((case err of None \<Rightarrow> Ok () | Some x \<Rightarrow> Err x),
                s\<lparr>rs_world := w, rs_SecretRootMasterMap := SecretResetStringDataFromData sec1\<rparr>)))"

definition desired_map :: "int \<Rightarrow> string bag \<Rightarrow> Secret \<Rightarrow> Secret" where
  "desired_map numDeletedKeys data sec =
     (if numDeletedKeys > 0 then sec\<lparr>sec_Data := Map.empty\<rparr> else sec)\<lparr>sec_StringData := map_of data\<rparr>"

definition ReconcileSecretMap :: "'w root_env \<Rightarrow> string bag option \<Rightarrow> ('w, unit) root_proc" where
  "ReconcileSecretMap e d = (case d of
     None \<Rightarrow> raise (PlainError ''system Reconciler ReconcileSecretMap data is nil'')
   | Some data \<Rightarrow>
       bindp (gets (\<lambda>s. re_SixMonthsBefore e (ke_UnixNano (re_kms e) (rs_world s)))) (\<lambda>sixMonthAgo.
       case RemoveOldKeysFromSecret data sixMonthAgo 50 of
         Err err \<Rightarrow> raise (PlainError (''Failed removing old keys from secret '' @ Error err))
       | Panic \<Rightarrow> lift Panic
       | Ok (numDeletedKeys, data1) \<Rightarrow> reconcile_master_map e (desired_map numDeletedKeys data1)))"

definition ReconcileSecretString :: "string \<Rightarrow> ('w, unit) root_proc" where
  "ReconcileSecretString data =
     (if data = '''' then raise (PlainError ''system Reconciler ReconcileSecretString data len is zero'')
      else modify (\<lambda>s. s\<lparr>rs_SecretRootMasterKey := data\<rparr>))"

text \<open>The rotating version hands its map to the reconciler; without data the type assertion panics.\<close>

definition Rotating_Reconcile :: "'w root_env \<Rightarrow> ('w, unit) root_proc" where
  "Rotating_Reconcile e = bindp (gets rs_data) (\<lambda>d. case d of None \<Rightarrow> lift Panic | Some data \<Rightarrow> ReconcileSecretMap e (Some data))"

section \<open>Rotation and the root secret\<close>

definition new_root_key :: "'w root_env \<Rightarrow> ('w, string) root_proc" where
  "new_root_key e = gets (\<lambda>s. RandomBase64 (re_RandomBytes e (rs_world s)))"

definition keyRotate :: "'w root_env \<Rightarrow> KeyManagementServiceSpec \<Rightarrow> ('w, unit) root_proc" where
  "keyRotate e spec = bindp (gets rs_SecretRootMasterKey) (\<lambda>single.
     if single \<noteq> '''' then raise (PlainError ''Master root key rotation is not supported by the KMS backend'')
     else
       bindp (or_status e ConditionKMSInvalid (open_kms e spec)) (\<lambda>k.
       seqp (or_status e ConditionKMSErrorRead (on_version (Rotating_Get (re_kms e) k)))
       (bindp (new_root_key e) (\<lambda>val.
       seqp (or_status e ConditionKMSErrorWrite (on_version (Rotating_Set (re_kms e) k val)))
       (seqp (or_status e ConditionKMSErrorSecretReconcile (Rotating_Reconcile e))
       (setKMSConditionStatus e ConditionKMSKeyRotate))))))"

definition ReconcileKeyRotation :: "'w root_env \<Rightarrow> KeyManagementServiceSpec \<Rightarrow> ('w, unit) root_proc" where
  "ReconcileKeyRotation e spec = bindp (gets rs_SecretRootMasterKey) (\<lambda>single.
     if single \<noteq> '''' then ret ()
     else if \<not> kms_EnableKeyRotation spec then ret ()
     else
       let scheduleCronSpec = (if kms_Schedule spec = '''' then ''0 0 1 * *'' else kms_Schedule spec) in
       case re_ParseStandard e scheduleCronSpec of
         Inl err \<Rightarrow> raise err
       | Inr schedule_Next \<Rightarrow>
           bindp (gets (\<lambda>s. ke_UnixNano (re_kms e) (rs_world s))) (\<lambda>now.
           bindp (gets rs_LastKeyRotateTime) (\<lambda>last. case last of
             None \<Rightarrow> modify (\<lambda>s. s\<lparr>rs_LastKeyRotateTime := Some now\<rparr>)
           | Some lastTime \<Rightarrow>
               if schedule_Next lastTime > now then ret ()
               else seqp (keyRotate e spec) (modify (\<lambda>s. s\<lparr>rs_LastKeyRotateTime := Some now\<rparr>)))))"

definition ReconcileRootSecret :: "'w root_env \<Rightarrow> KeyManagementServiceSpec \<Rightarrow> ('w, unit) root_proc" where
  "ReconcileRootSecret e spec =
     bindp (or_status e ConditionKMSInvalid (open_kms e spec)) (\<lambda>k.
     seqp (setKMSConditionType e (k_Type k))
     (bindp (tryp (on_version (Rotating_Get (re_kms e) k))) (\<lambda>r.
      bindp (case r of
          Inr _ \<Rightarrow> ret ConditionKMSSync
        | Inl err \<Rightarrow>
            if err \<noteq> ErrInvalidSecretId then seqp (setKMSConditionStatus e ConditionKMSErrorRead) (raise err)
            else bindp (new_root_key e) (\<lambda>val.
              seqp (or_status e ConditionKMSErrorWrite (on_version (Rotating_Set (re_kms e) k val))) (ret ConditionKMSInit))) (\<lambda>conditionStatus.
      seqp (or_status e ConditionKMSErrorSecretReconcile (Rotating_Reconcile e))
      (seqp (setKMSConditionStatus e conditionStatus)
        (ReconcileKeyRotation e spec))))))"

definition deleteRootSecret :: "'w root_env \<Rightarrow> KeyManagementServiceSpec \<Rightarrow> ('w, unit) root_proc" where
  "deleteRootSecret e spec = bindp (tryp (open_kms e spec)) (\<lambda>r. case r of
     Inl err \<Rightarrow> ret ()
   | Inr k \<Rightarrow> wrap_error ''deleteRootSecret: '' (on_version (Rotating_Delete (re_kms e) k)))"

section \<open>The condition tells the outcome\<close>

definition kms_status :: "'w root_state \<Rightarrow> ConditionStatus option" where
  "kms_status s = status_of ConditionTypeKMSStatus (rs_Conditions s)"

definition kms_valid :: "'w root_state \<Rightarrow> bool" where
  "kms_valid s \<longleftrightarrow> (\<exists>st. kms_status s = Some st \<and> StatusValid st)"

lemma set_status_run:
  assumes "status_condition_laws (re_SetStatusCondition e)"
  shows "\<exists>s'. setKMSConditionStatus e st s = (Ok (), s') \<and> kms_status s' = Some st \<and> rs_world s' = rs_world s \<and>
    rs_SecretRootMasterMap s' = rs_SecretRootMasterMap s \<and> rs_SecretRootMasterKey s' = rs_SecretRootMasterKey s"
  using assms by (simp add: setKMSConditionStatus_def kms_status_def status_of_def status_condition_laws_def)

text \<open>Every error of these procedures leaves an invalid condition.\<close>

named_theorems report_rules \<open>procedures whose errors are reported in the condition\<close>

definition reports :: "('w, 'a) root_proc \<Rightarrow> bool" where
  "reports m \<longleftrightarrow> (\<forall>s err s'. m s = (Err err, s') \<longrightarrow> \<not> kms_valid s')"

lemma reports_basic [report_rules]: "reports (ret x)" "reports (gets f)" "reports (modify g)" "reports (lift Panic)"
  by (simp_all add: reports_def)

lemma reports_bindp [report_rules]: "reports m \<Longrightarrow> (\<And>x. reports (f x)) \<Longrightarrow> reports (bindp m f)"
  unfolding reports_def bindp_def by (auto split: prod.splits result.splits)

lemma reports_seqp [report_rules]: "reports m \<Longrightarrow> reports k \<Longrightarrow> reports (seqp m k)"
  unfolding seqp_def by (rule reports_bindp)

lemma reports_or_status [report_rules]:
  assumes "status_condition_laws (re_SetStatusCondition e)" "\<not> StatusValid st"
  shows "reports (or_status e st m)"
  unfolding reports_def
proof (intro allI impI)
  fix s err s' assume run: "or_status e st m s = (Err err, s')"
  obtain r s1 where r: "m s = (r, s1)" by (cases "m s")
  obtain s2 where s2: "setKMSConditionStatus e st s1 = (Ok (), s2)" "kms_status s2 = Some st"
    using set_status_run [OF assms(1)] by blast
  show "\<not> kms_valid s'"
    using run r s2 assms(2) by (cases r) (auto simp: or_status_def kms_valid_def)
qed

lemma reports_set_status [report_rules]: "reports (setKMSConditionStatus e st)" "reports (setKMSConditionType e t)" "reports (new_root_key e)"
  by (simp_all add: setKMSConditionStatus_def setKMSConditionType_def new_root_key_def reports_basic)

lemma status_codes:
  "\<not> StatusValid ConditionKMSInvalid" "\<not> StatusValid ConditionKMSErrorRead" "\<not> StatusValid ConditionKMSErrorWrite"
  "\<not> StatusValid ConditionKMSErrorSecretReconcile" "StatusValid ConditionKMSSync" "StatusValid ConditionKMSInit" "StatusValid ConditionKMSKeyRotate"
  by (simp_all add: StatusValid_def)

lemma or_status_OkE:
  assumes "or_status e st m s = (Ok x, s')"
  shows "m s = (Ok x, s')"
  using assms unfolding or_status_def
  by (cases "m s"; cases "fst (m s)") (auto simp: tryp_def bindp_def seqp_def setKMSConditionStatus_def)

lemma keyRotate_reports:
  assumes laws: "status_condition_laws (re_SetStatusCondition e)" and "rs_SecretRootMasterKey s = ''''"
    and "keyRotate e spec s = (Err err, s')"
  shows "\<not> kms_valid s'"
proof -
  let ?rest = "bindp (or_status e ConditionKMSInvalid (open_kms e spec)) (\<lambda>k.
       seqp (or_status e ConditionKMSErrorRead (on_version (Rotating_Get (re_kms e) k)))
       (bindp (new_root_key e) (\<lambda>val.
       seqp (or_status e ConditionKMSErrorWrite (on_version (Rotating_Set (re_kms e) k val)))
       (seqp (or_status e ConditionKMSErrorSecretReconcile (Rotating_Reconcile e))
       (setKMSConditionStatus e ConditionKMSKeyRotate)))))"
  have "?rest s = (Err err, s')" using assms(2,3) by (simp add: keyRotate_def)
  moreover have "reports ?rest" by (intro report_rules laws status_codes)
  ultimately show ?thesis by (auto simp: reports_def)
qed

lemma keyRotate_valid:
  assumes laws: "status_condition_laws (re_SetStatusCondition e)" and "keyRotate e spec s = (Ok (), s')"
  shows "kms_valid s'"
proof -
  obtain s1 where s1: "setKMSConditionStatus e ConditionKMSKeyRotate s1 = (Ok (), s')"
    using assms(2) unfolding keyRotate_def by (auto elim!: bindp_OkE seqp_OkE split: if_splits)
  then show ?thesis using set_status_run [OF laws, of ConditionKMSKeyRotate s1] status_codes by (auto simp: kms_valid_def)
qed

lemma rotation_status:
  assumes laws: "status_condition_laws (re_SetStatusCondition e)" and v: "kms_valid s"
    and run: "ReconcileKeyRotation e spec s = (r, s')"
  shows "(r = Ok () \<longrightarrow> kms_valid s') \<and>
    (\<forall>err. r = Err err \<longrightarrow> \<not> kms_valid s' \<or> re_ParseStandard e (if kms_Schedule spec = '''' then ''0 0 1 * *'' else kms_Schedule spec) = Inl err)"
proof -
  let ?now = "ke_UnixNano (re_kms e) (rs_world s)"
  have keep: "kms_valid (t\<lparr>rs_LastKeyRotateTime := x\<rparr>) = kms_valid t" for t :: "'a root_state" and x
    by (simp add: kms_valid_def kms_status_def)
  show ?thesis
  proof (cases "rs_SecretRootMasterKey s \<noteq> '''' \<or> \<not> kms_EnableKeyRotation spec")
    case True
    then have "ReconcileKeyRotation e spec s = (Ok (), s)" by (cases "rs_SecretRootMasterKey s = ''''") (simp_all add: ReconcileKeyRotation_def)
    then show ?thesis using run v by auto
  next
    case False
    then have single: "rs_SecretRootMasterKey s = ''''" by simp
    obtain r1 s1 where k: "keyRotate e spec s = (r1, s1)" by (cases "keyRotate e spec s")
    have rot: "(r1 = Ok () \<longrightarrow> kms_valid s1) \<and> (\<forall>err. r1 = Err err \<longrightarrow> \<not> kms_valid s1)"
      using k keyRotate_valid [OF laws] keyRotate_reports [OF laws single] by blast
    show ?thesis
      using run v False k rot
      by (cases r1) (auto simp: ReconcileKeyRotation_def Let_def keep split: sum.splits option.splits if_splits)
  qed
qed

section \<open>Properties\<close>

text \<open>
  C16. The condition of the key management tells the outcome of a reconciliation: after a success it is one of the valid
  states, and after an error it is not, unless the error is that the rotation schedule cannot be parsed.
\<close>

theorem kms_condition_tells_outcome:
  assumes "status_condition_laws (re_SetStatusCondition e)" "ReconcileRootSecret e spec s = (r, s')"
  shows "(r = Ok () \<longrightarrow> kms_valid s') \<and>
    (\<forall>err. r = Err err \<longrightarrow> \<not> kms_valid s' \<or> re_ParseStandard e (if kms_Schedule spec = '''' then ''0 0 1 * *'' else kms_Schedule spec) = Inl err)"
proof -
  note laws = assms(1)
  let ?get = "\<lambda>r k. case r of
          Inr _ \<Rightarrow> ret ConditionKMSSync
        | Inl err \<Rightarrow>
            if err \<noteq> ErrInvalidSecretId then seqp (setKMSConditionStatus e ConditionKMSErrorRead) (raise err)
            else bindp (new_root_key e) (\<lambda>val.
              seqp (or_status e ConditionKMSErrorWrite (on_version (Rotating_Set (re_kms e) k val))) (ret ConditionKMSInit))"
  let ?before = "bindp (or_status e ConditionKMSInvalid (open_kms e spec)) (\<lambda>k.
     seqp (setKMSConditionType e (k_Type k))
     (bindp (tryp (on_version (Rotating_Get (re_kms e) k))) (\<lambda>r.
      bindp (?get r k) (\<lambda>conditionStatus.
      seqp (or_status e ConditionKMSErrorSecretReconcile (Rotating_Reconcile e)) (ret conditionStatus)))))"
  have split: "ReconcileRootSecret e spec s = bindp ?before (\<lambda>st. seqp (setKMSConditionStatus e st) (ReconcileKeyRotation e spec)) s"
    unfolding ReconcileRootSecret_def by (simp add: proc_assoc)
  have tryp: "reports (tryp m)" for m :: "('a, 'b) root_proc" by (auto simp: reports_def tryp_def split: prod.splits result.splits)
  have read: "reports (seqp (setKMSConditionStatus e ConditionKMSErrorRead) (raise err))" for err
    using set_status_run [OF laws, of ConditionKMSErrorRead] status_codes(2)
    by (auto simp: reports_def kms_valid_def setKMSConditionStatus_def)
  have get: "reports (?get r k)" for r k
    by (cases r) (auto intro!: report_rules laws status_codes read)
  have before: "reports ?before" by (intro report_rules laws status_codes tryp get)
  obtain r1 s1 where r1: "?before s = (r1, s1)" by (cases "?before s")
  show ?thesis
  proof (cases r1)
    case (Ok st)
    then have "st = ConditionKMSSync \<or> st = ConditionKMSInit"
      using r1 by (auto elim!: bindp_OkE seqp_OkE split: sum.splits if_splits)
    then have valid: "StatusValid st" using status_codes by auto
    obtain s2 where s2: "setKMSConditionStatus e st s1 = (Ok (), s2)" "kms_status s2 = Some st" using set_status_run [OF laws] by blast
    then have "kms_valid s2" "ReconcileKeyRotation e spec s2 = (r, s')"
      using valid assms(2) Ok r1 unfolding split by (auto simp: kms_valid_def)
    then show ?thesis using rotation_status [OF laws] by blast
  next
    case (Err err)
    then have "r = Err err" "s' = s1" using assms(2) r1 unfolding split by auto
    then show ?thesis using before r1 Err by (auto simp: reports_def)
  next
    case Panic
    then show ?thesis using assms(2) r1 unfolding split by auto
  qed
qed

text \<open>
  C12. A root key that cannot be read is never replaced: when the key management service answers a read with an error other
  than an invalid id, the reconciliation returns that error, makes no further call (the outside and the mounted secret stay
  as the read left them) and reports a read error.
\<close>

theorem unreadable_root_key_kept:
  assumes "status_condition_laws (re_SetStatusCondition e)" "open_kms e spec s = (Ok k, s1)"
    and "Rotating_Get (re_kms e) k \<lparr>v_world = rs_world s1, v_data = rs_data s1\<rparr> = (Err err, v)" "err \<noteq> ErrInvalidSecretId"
  shows "\<exists>s'. ReconcileRootSecret e spec s = (Err err, s') \<and> rs_world s' = v_world v \<and>
    rs_SecretRootMasterMap s' = rs_SecretRootMasterMap s \<and> kms_status s' = Some ConditionKMSErrorRead"
proof -
  have map: "rs_SecretRootMasterMap s1 = rs_SecretRootMasterMap s"
    using assms(2) by (auto simp: open_kms_def split: prod.splits result.splits)
  obtain s2 where s2: "setKMSConditionType e (k_Type k) s1 = (Ok (), s2)" "rs_world s2 = rs_world s1" "rs_data s2 = rs_data s1"
      "rs_SecretRootMasterMap s2 = rs_SecretRootMasterMap s1"
    by (simp add: setKMSConditionType_def)
  let ?s3 = "s2\<lparr>rs_world := v_world v, rs_data := v_data v\<rparr>"
  have read: "on_version (Rotating_Get (re_kms e) k) s2 = (Err err, ?s3)" using assms(3) s2 by (simp add: on_version_def)
  obtain s4 where s4: "setKMSConditionStatus e ConditionKMSErrorRead ?s3 = (Ok (), s4)" "kms_status s4 = Some ConditionKMSErrorRead"
      "rs_world s4 = rs_world ?s3" "rs_SecretRootMasterMap s4 = rs_SecretRootMasterMap ?s3"
    using set_status_run [OF assms(1)] by blast
  have "or_status e ConditionKMSInvalid (open_kms e spec) s = (Ok k, s1)" using assms(2) by (simp add: or_status_def)
  then have "ReconcileRootSecret e spec s = (Err err, s4)"
    using s2(1) read s4(1) assms(4) by (simp add: ReconcileRootSecret_def)
  then show ?thesis using s4 s2(4) map by simp
qed

text \<open>
  A key is rotated at most once for each date of the schedule: a reconciliation that rotated the key stores the time at
  which it started, and until the next date after that time a further reconciliation of the rotation changes nothing.
\<close>

theorem key_rotated_once:
  assumes "re_ParseStandard e (if kms_Schedule spec = '''' then ''0 0 1 * *'' else kms_Schedule spec) = Inr schedule_Next"
    and "rs_LastKeyRotateTime s = Some lastTime" "now = ke_UnixNano (re_kms e) (rs_world s)" "schedule_Next lastTime \<le> now"
    and "kms_EnableKeyRotation spec" "keyRotate e spec s = (Ok (), s1)" "rs_SecretRootMasterKey s1 = ''''"
  shows "ReconcileKeyRotation e spec s = (Ok (), s1\<lparr>rs_LastKeyRotateTime := Some now\<rparr>) \<and>
    (\<forall>s2. rs_LastKeyRotateTime s2 = Some now \<and> ke_UnixNano (re_kms e) (rs_world s2) < schedule_Next now \<longrightarrow>
       ReconcileKeyRotation e spec s2 = (Ok (), s2))"
proof -
  have "rs_SecretRootMasterKey s = ''''" using assms(6) by (auto simp: keyRotate_def split: if_splits)
  then have "ReconcileKeyRotation e spec s = (Ok (), s1\<lparr>rs_LastKeyRotateTime := Some now\<rparr>)"
    using assms by (simp add: ReconcileKeyRotation_def Let_def)
  moreover have "ReconcileKeyRotation e spec s2 = (Ok (), s2)"
    if "rs_LastKeyRotateTime s2 = Some now" "ke_UnixNano (re_kms e) (rs_world s2) < schedule_Next now" for s2
    using that assms(1) by (cases "rs_SecretRootMasterKey s2 = ''''") (simp_all add: ReconcileKeyRotation_def Let_def)
  ultimately show ?thesis by blast
qed

text \<open>
  The documented behaviour of \<^verbatim>\<open>controllerutil.CreateOrUpdate\<close> for secrets: on success the object is the
  changed object as the server stores it, with the string data merged into the data.
\<close>

definition create_or_update_laws :: "'w root_env \<Rightarrow> bool" where
  "create_or_update_laws e \<longleftrightarrow> (\<forall>sec f w sec1 w1. re_CreateOrUpdate e sec f w = ((None, sec1), w1) \<longrightarrow>
     (\<exists>cur. sec_Data sec1 = sec_Data (f cur) ++ sec_StringData (f cur)))"

lemma mounted_data:
  assumes "create_or_update_laws e" "reconcile_master_map e (desired_map n data) s = (Ok (), s')" "map_of data k = Some v"
  shows "sec_StringData (rs_SecretRootMasterMap s') k = Some v"
proof -
  obtain m sec1 w where m: "re_CreateOrUpdate e ((rs_SecretRootMasterMap s)\<lparr>sec_Meta := m\<rparr>) (desired_map n data) (rs_world s) = ((None, sec1), w)"
      "rs_SecretRootMasterMap s' = SecretResetStringDataFromData sec1"
    using assms(2) by (auto simp: reconcile_master_map_def Let_def split: option.splits prod.splits)
  obtain cur where "sec_Data sec1 = sec_Data (desired_map n data cur) ++ sec_StringData (desired_map n data cur)"
    using assms(1) m(1) unfolding create_or_update_laws_def by blast
  then show ?thesis using m(2) assms(3) by (simp add: SecretResetStringDataFromData_def desired_map_def)
qed

text \<open>
  C14. The active root key reaches the pods: when the map of keys is handed to the mounted secret and the active key is the
  newest one, the mounted secret holds the pointer to the active key and its value, whatever was removed as outdated.
\<close>

theorem active_key_mounted:
  assumes "create_or_update_laws e" "well_named data entries" "map_of data ActiveRootKey = Some key" "map_of data key = Some val"
    and "(key, t) \<in> set entries" "\<forall>(k, t') \<in> set entries. k \<noteq> key \<longrightarrow> t' < t"
    and "ReconcileSecretMap e (Some data) s = (Ok (), s')"
  shows "sec_StringData (rs_SecretRootMasterMap s') ActiveRootKey = Some key \<and> sec_StringData (rs_SecretRootMasterMap s') key = Some val"
proof -
  let ?T = "re_SixMonthsBefore e (ke_UnixNano (re_kms e) (rs_world s))"
  let ?old = "outdated_keys ?T 50 entries"
  have run: "reconcile_master_map e (desired_map (int (length ?old)) (without_keys ?old data)) s = (Ok (), s')"
    using assms(7) remove_old_keys_eq [OF well_namedD(1) [OF assms(2)], of ?T 50] by (simp add: ReconcileSecretMap_def)
  have "ActiveRootKey \<notin> set ?old" using removed_are_keys [OF assms(2)] by (auto simp: key_names_def)
  moreover have "key \<notin> set ?old" using newest_kept [OF assms(2,5)] assms(6) by fastforce
  ultimately show ?thesis
    using mounted_data [OF assms(1) run] assms(3,4) by (simp add: map_of_without_keys)
qed

section \<open>A system with a simple key store\<close>

record ex_kv =
  kv_store :: "string \<rightharpoonup> iface bag"
  kv_down :: bool

definition ex_kv_secrets :: "ex_kv Secrets" where
  "ex_kv_secrets = \<lparr>
     GetSecret = (\<lambda>p c w. (case kv_store w p of
        None \<Rightarrow> Err (PlainError ''not found'')
      | Some m \<Rightarrow> if kv_down w then Err (PlainError ''timeout'') else Ok m, w)),
     PutSecret = (\<lambda>p m c w. (Ok (), w\<lparr>kv_store := (kv_store w)(p \<mapsto> m)\<rparr>)),
     DeleteSecret = (\<lambda>p c w. (Ok (), w\<lparr>kv_store := (kv_store w)(p := None)\<rparr>))\<rparr>"

definition ex_root_env :: "ex_kv root_env" where
  "ex_root_env = \<lparr>re_kms = ex_kms_env\<lparr>ke_New := (\<lambda>t c. ret ex_kv_secrets)\<rparr>, re_Name = ''noobaa'', re_Namespace = ''ns'',
     re_UID = ''u'', re_Meta = empty_meta, re_SetStatusCondition = list_set_condition,
     re_ParseStandard = (\<lambda>_. Inr (\<lambda>t. t + 5)), re_SixMonthsBefore = (\<lambda>t. t - 3), re_RandomBytes = (\<lambda>_. ''root''),
     re_SetControllerReference = (\<lambda>_ m. Some m),
     re_CreateOrUpdate = (\<lambda>sec f w. ((None, let s = f sec in s\<lparr>sec_Data := sec_Data s ++ sec_StringData s\<rparr>), w))\<rparr>"

definition ex_kms_spec :: KeyManagementServiceSpec where
  "ex_kms_spec = \<lparr>kms_ConnectionDetails = [], kms_TokenSecretName = '''', kms_EnableKeyRotation = True, kms_Schedule = ''''\<rparr>"

definition ex_root_state :: "ex_kv \<Rightarrow> ex_kv root_state" where
  "ex_root_state w = \<lparr>rs_world = w, rs_data = None, rs_Conditions = [], rs_LastKeyRotateTime = Some 1,
     rs_SecretRootMasterKey = '''', rs_SecretRootMasterMap = new_secret ''volume'' ''ns''\<rparr>"

definition ex_kv_full :: ex_kv where
  "ex_kv_full = \<lparr>kv_store = [''noobaa-root-master-key-backend'' \<mapsto> [(''active_root_key'', IStr ''key-3''), (''key-3'', IStr ''v'')]], kv_down = False\<rparr>"

definition ex_root_kms :: "ex_kv KMS" where
  "ex_root_kms = \<lparr>k_Secrets = ex_kv_secrets, k_Type = ''k8s'', k_driver = K8S ''noobaa'' ''ns''\<rparr>"

lemma ex_root_kms_env:
  "ke_TypeK8s (re_kms ex_root_env) = ''k8s''" "ke_New (re_kms ex_root_env) t c = ret ex_kv_secrets" "ke_UnixNano (re_kms ex_root_env) w = 7"
  "init_drivers (re_kms ex_root_env) =
    Ok [(''azure-kv'', NewAzureVault), (''ibmkeyprotect'', NewIBM), (''k8s'', NewK8S), (''kmip'', NewKMIP), (''vault'', NewVault)]"
  by (simp_all add: init_drivers_def register_def RegisterDriver_def ex_kms_env_def ex_root_env_def)

lemma ex_root_names: "re_Name ex_root_env = ''noobaa''" "re_Namespace ex_root_env = ''ns''" "re_UID ex_root_env = ''u''"
  by (simp_all add: ex_root_env_def)

lemma ex_upgrade:
  "kv_store w ''noobaa-root-master-key'' = None \<Longrightarrow>
     Rotating_Upgrade (re_kms ex_root_env) ex_root_kms \<lparr>v_world = w, v_data = None\<rparr> = (Ok (), \<lparr>v_world = w, v_data = None\<rparr>)"
proof -
  have "Contains_str ''not found'' ''not found''" by code_simp
  then show "kv_store w ''noobaa-root-master-key'' = None \<Longrightarrow> ?thesis"
    by (simp add: Rotating_Upgrade_def run_single_def Single_Get_def on_s_world_def ex_root_kms_def ex_kv_secrets_def get_error_def Error_def
      run_defs del: run_rules)
qed

lemma ex_open:
  assumes "kv_store w ''noobaa-root-master-key'' = None"
  shows "open_kms ex_root_env ex_kms_spec (ex_root_state w) = (Ok ex_root_kms, ex_root_state w)"
proof -
  have "NewKMS (re_kms ex_root_env) [] '''' ''noobaa'' ''ns'' ''u'' w = (Ok (ex_root_kms, None), w)"
    using ex_upgrade [OF assms]
    by (simp add: NewKMS_def kmsType_def ex_root_kms_env NewDriver_def NewK8S_def ex_root_kms_def Let_def run_defs del: run_rules)
  then show ?thesis by (simp add: open_kms_def ex_kms_spec_def ex_root_names ex_root_state_def)
qed

lemma ex_laws: "status_condition_laws (re_SetStatusCondition ex_root_env)" "create_or_update_laws ex_root_env"
  by (auto simp: ex_root_env_def list_set_condition_laws create_or_update_laws_def Let_def)

theorem unreadable_root_key_kept_witness:
  "\<exists>s'. ReconcileRootSecret ex_root_env ex_kms_spec (ex_root_state (ex_kv_full\<lparr>kv_down := True\<rparr>)) = (Err (PlainError ''timeout''), s') \<and>
     rs_world s' = ex_kv_full\<lparr>kv_down := True\<rparr> \<and> kms_status s' = Some ConditionKMSErrorRead"
proof -
  let ?w = "ex_kv_full\<lparr>kv_down := True\<rparr>"
  have missing: "\<not> Contains_str ''timeout'' ''not found''" "\<not> Contains_str ''timeout'' ''does not exist''" by code_simp+
  have "kv_store ?w ''noobaa-root-master-key'' = None" by (simp add: ex_kv_full_def)
  note opened = ex_open [OF this]
  have read: "Rotating_Get (re_kms ex_root_env) ex_root_kms \<lparr>v_world = ?w, v_data = None\<rparr> = (Err (PlainError ''timeout''), \<lparr>v_world = ?w, v_data = None\<rparr>)"
    using missing by (simp add: Rotating_Get_def on_world_def ex_root_kms_def BackendSecretName_def ex_kv_secrets_def ex_kv_full_def get_error_def Error_def run_defs
        del: run_rules)
  show ?thesis
    using unreadable_root_key_kept [OF ex_laws(1) opened, of "PlainError ''timeout''" "\<lparr>v_world = ?w, v_data = None\<rparr>"] read
    by (auto simp: ex_root_state_def)
qed

lemma ex_full_read:
  "Rotating_Get (re_kms ex_root_env) ex_root_kms \<lparr>v_world = ex_kv_full, v_data = d\<rparr> =
     (Ok (), \<lparr>v_world = ex_kv_full, v_data = Some [(''active_root_key'', ''key-3''), (''key-3'', ''v'')]\<rparr>)"
  by (simp add: Rotating_Get_def on_world_def ex_root_kms_def BackendSecretName_def ex_kv_secrets_def ex_kv_full_def run_defs del: run_rules)

lemma ex_full_open: "open_kms ex_root_env ex_kms_spec (ex_root_state ex_kv_full) = (Ok ex_root_kms, ex_root_state ex_kv_full)"
  by (rule ex_open) (simp add: ex_kv_full_def)

lemma ex_key_times: "key_time ''key-3'' = Ok 3" "key_time ''key-7'' = Ok 7"
  by code_simp+

definition ex_rotated_map :: "string bag" where
  "ex_rotated_map = [(''active_root_key'', ''key-7''), (''key-3'', ''v''), (''key-7'', ''cm9vdA=='')]"

lemma ex_rotated_entries: "well_named ex_rotated_map [(''key-3'', 3), (''key-7'', 7)]"
  by (simp add: well_named_def ex_rotated_map_def ex_key_times)

lemma ex_map_reconciled:
  assumes "length data \<le> 50"
  shows "ReconcileSecretMap ex_root_env (Some data) s =
    (Ok (), s\<lparr>rs_SecretRootMasterMap := (rs_SecretRootMasterMap s)\<lparr>sec_StringData := sec_Data (rs_SecretRootMasterMap s) ++ map_of data,
        sec_Data := Map.empty\<rparr>\<rparr>)"
  using assms by (simp add: ReconcileSecretMap_def RemoveOldKeysFromSecret_def reconcile_master_map_def desired_map_def ex_root_env_def Let_def
      SecretResetStringDataFromData_def)

theorem active_key_mounted_witness:
  "sec_StringData (rs_SecretRootMasterMap (snd (ReconcileSecretMap ex_root_env (Some ex_rotated_map) (ex_root_state ex_kv_full)))) ''key-7'' = Some ''cm9vdA==''"
proof -
  obtain s' where s': "ReconcileSecretMap ex_root_env (Some ex_rotated_map) (ex_root_state ex_kv_full) = (Ok (), s')"
    using ex_map_reconciled [of ex_rotated_map] by (simp add: ex_rotated_map_def)
  show ?thesis
    using active_key_mounted [OF ex_laws(2) ex_rotated_entries _ _ _ _ s', of "''key-7''" "''cm9vdA==''" 7] s'
    by (simp add: ex_rotated_map_def)
qed

lemma ex_new_key: "RandomBase64 (re_RandomBytes ex_root_env w) = ''cm9vdA==''"
proof -
  have "EncodeToString ''root'' = ''cm9vdA==''" by code_simp
  then show ?thesis by (simp add: RandomBase64_def ex_root_env_def)
qed

lemma ex_full_set:
  "\<exists>w1. Rotating_Set (re_kms ex_root_env) ex_root_kms ''cm9vdA=='' \<lparr>v_world = ex_kv_full, v_data = Some [(''active_root_key'', ''key-3''), (''key-3'', ''v'')]\<rparr> =
     (Ok (), \<lparr>v_world = w1, v_data = Some ex_rotated_map\<rparr>)"
  by (simp add: Rotating_Set_def on_world_def ex_root_kms_env ex_key_name ex_root_kms_def ex_kv_secrets_def Let_def ex_rotated_map_def run_defs
      del: run_rules)

text \<open>One rotation of the example.\<close>

lemma ex_rotates:
  assumes "rs_world s = ex_kv_full" "rs_SecretRootMasterKey s = ''''" "open_kms ex_root_env ex_kms_spec s = (Ok ex_root_kms, s)"
  shows "\<exists>s1. keyRotate ex_root_env ex_kms_spec s = (Ok (), s1) \<and> rs_SecretRootMasterKey s1 = ''''"
proof -
  obtain w1 where w1: "Rotating_Set (re_kms ex_root_env) ex_root_kms ''cm9vdA=='' \<lparr>v_world = ex_kv_full, v_data = Some [(''active_root_key'', ''key-3''), (''key-3'', ''v'')]\<rparr> =
     (Ok (), \<lparr>v_world = w1, v_data = Some ex_rotated_map\<rparr>)" using ex_full_set by blast
  let ?s1 = "s\<lparr>rs_world := ex_kv_full, rs_data := Some [(''active_root_key'', ''key-3''), (''key-3'', ''v'')]\<rparr>"
  let ?s2 = "?s1\<lparr>rs_world := w1, rs_data := Some ex_rotated_map\<rparr>"
  have steps: "or_status ex_root_env st (open_kms ex_root_env ex_kms_spec) s = (Ok ex_root_kms, s)"
    "or_status ex_root_env st (on_version (Rotating_Get (re_kms ex_root_env) ex_root_kms)) s = (Ok (), ?s1)"
    "or_status ex_root_env st (on_version (Rotating_Set (re_kms ex_root_env) ex_root_kms ''cm9vdA=='')) ?s1 = (Ok (), ?s2)"
    "new_root_key ex_root_env ?s1 = (Ok ''cm9vdA=='', ?s1)" for st
    using assms w1 ex_full_read by (simp_all add: or_status_def on_version_def new_root_key_def ex_new_key)
  have "length ex_rotated_map \<le> 50" by (simp add: ex_rotated_map_def)
  note mounted = ex_map_reconciled [OF this, of ?s2]
  then have "\<exists>s3. or_status ex_root_env st (Rotating_Reconcile ex_root_env) ?s2 = (Ok (), s3) \<and> rs_SecretRootMasterKey s3 = ''''" for st
    using assms(2) by (simp add: or_status_def Rotating_Reconcile_def)
  then obtain s3 where "or_status ex_root_env ConditionKMSErrorSecretReconcile (Rotating_Reconcile ex_root_env) ?s2 = (Ok (), s3)" "rs_SecretRootMasterKey s3 = ''''"
    by blast
  then show ?thesis using assms(2) steps by (simp add: keyRotate_def setKMSConditionStatus_def)
qed

theorem key_rotated_once_witness:
  "\<exists>s1. ReconcileKeyRotation ex_root_env ex_kms_spec (ex_root_state ex_kv_full) = (Ok (), s1) \<and> rs_LastKeyRotateTime s1 = Some 7 \<and>
     ReconcileKeyRotation ex_root_env ex_kms_spec s1 = (Ok (), s1)"
proof -
  obtain s1 where s1: "keyRotate ex_root_env ex_kms_spec (ex_root_state ex_kv_full) = (Ok (), s1)" "rs_SecretRootMasterKey s1 = ''''"
    using ex_rotates [OF _ _ ex_full_open] by (auto simp: ex_root_state_def)
  have "re_ParseStandard ex_root_env x = Inr (\<lambda>t. t + 5)" for x by (simp add: ex_root_env_def)
  then have "ReconcileKeyRotation ex_root_env ex_kms_spec (ex_root_state ex_kv_full) = (Ok (), s1\<lparr>rs_LastKeyRotateTime := Some 7\<rparr>) \<and>
    (\<forall>s2. rs_LastKeyRotateTime s2 = Some 7 \<and> ke_UnixNano (re_kms ex_root_env) (rs_world s2) < 7 + 5 \<longrightarrow>
       ReconcileKeyRotation ex_root_env ex_kms_spec s2 = (Ok (), s2))"
    using s1 by (intro key_rotated_once [where lastTime = 1]) (auto simp: ex_root_state_def ex_kms_spec_def ex_root_kms_env)
  then show ?thesis by (intro exI [of _ "s1\<lparr>rs_LastKeyRotateTime := Some 7\<rparr>"]) (simp add: ex_root_kms_env)
qed

theorem kms_condition_tells_outcome_witness:
  "\<not> kms_valid (snd (ReconcileRootSecret ex_root_env ex_kms_spec (ex_root_state (ex_kv_full\<lparr>kv_down := True\<rparr>))))"
proof -
  let ?s = "ex_root_state (ex_kv_full\<lparr>kv_down := True\<rparr>)"
  have missing: "\<not> Contains_str ''timeout'' ''not found''" "\<not> Contains_str ''timeout'' ''does not exist''" by code_simp+
  have "open_kms ex_root_env ex_kms_spec ?s = (Ok ex_root_kms, ?s)" by (rule ex_open) (simp add: ex_kv_full_def)
  then have "\<exists>s'. ReconcileRootSecret ex_root_env ex_kms_spec ?s = (Err (PlainError ''timeout''), s')"
    using missing
    by (simp add: ReconcileRootSecret_def or_status_def setKMSConditionType_def on_version_def ex_root_state_def Rotating_Get_def on_world_def ex_root_kms_def
        BackendSecretName_def ex_kv_secrets_def ex_kv_full_def get_error_def Error_def setKMSConditionStatus_def run_defs del: run_rules)
  then obtain s' where run: "ReconcileRootSecret ex_root_env ex_kms_spec ?s = (Err (PlainError ''timeout''), s')" by blast
  show ?thesis using kms_condition_tells_outcome [OF ex_laws(1) run] run by (simp add: ex_root_env_def)
qed

end
