(* ===== verification/Obc_Provisioner.thy ===== *)
theory Obc_Provisioner
  imports NA_Reconciler Account_Validation
begin

text \<open>
  The provisioner of object bucket claims (\<^verbatim>\<open>pkg/obc/provisioner.go\<close>, \<^verbatim>\<open>pkg/obc/validation.go\<close>):
  the callbacks of the bucket provisioning library that create a bucket and an account for a claim, grant access to a bucket,
  delete and revoke both and apply a changed configuration, with the search for the bucket class, the tiering structure, the
  quota, the replication policy and the tags of a bucket.  Events sent to the recorder are left out.
\<close>

section \<open>Claims and buckets\<close>

record ObjectBucketClaim =
  obc_Meta :: ObjectMeta
  obc_StorageClassName :: string
  obc_BucketName :: string
  obc_AdditionalConfig :: "(string \<rightharpoonup> string) option"

record ObjectBucketEndpoint =
  obe_BucketHost :: string
  obe_BucketPort :: int
  obe_BucketName :: string
  obe_AdditionalConfigData :: "(string \<rightharpoonup> string) option"

record ObjectBucketConnection =
  obn_Endpoint :: "ObjectBucketEndpoint option"
  obn_AdditionalState :: "(string \<rightharpoonup> string) option"
  obn_AccessKeys :: "S3AccessKeys option"

record ObjectBucket =
  ob_Name :: string
  ob_Connection :: "ObjectBucketConnection option"
  ob_ClaimNamespace :: "string option"

record BucketOptions =
  bo_BucketName :: string
  bo_ObjectBucketClaim :: ObjectBucketClaim
  bo_Parameters :: "(string \<rightharpoonup> string) option"

text \<open>
  The outside of the provisioner beside the cluster: the replies of the core to reads of buckets, the parts of addresses
  (\<^verbatim>\<open>net/url\<close>), the decoders of JSON, the S3 client that sets tags, and the order in which a loop visits a map.
\<close>

record obc_env =
  oe_cluster :: cluster
  oe_ReadBucket :: "history \<Rightarrow> string \<Rightarrow> rpc_error + BucketInfo"
  oe_Hostname :: "string \<Rightarrow> string"
  oe_Port :: "string \<Rightarrow> string"
  oe_ParseRequestURI :: "string \<Rightarrow> string + string"
  oe_repl :: "string repl_env"
  oe_decode_nsfs :: decode_nsfs
  oe_NewSession :: "string \<Rightarrow> go_error option"
  oe_PutBucketTagging :: "history \<Rightarrow> string \<Rightarrow> (string \<times> string) list \<Rightarrow> go_error option"
  oe_range :: "(string \<rightharpoonup> string) \<Rightarrow> (string \<times> string) list"

record BucketRequest =
  r_OB :: ObjectBucket
  r_OBC :: "ObjectBucketClaim option"
  r_BucketName :: string
  r_AccountName :: string
  r_SysClient :: Client
  r_BucketClass :: "BucketClass option"

abbreviation obc_Name :: "ObjectBucketClaim \<Rightarrow> string" where "obc_Name o' \<equiv> om_Name (obc_Meta o')"
abbreviation obc_Namespace :: "ObjectBucketClaim \<Rightarrow> string" where "obc_Namespace o' \<equiv> om_Namespace (obc_Meta o')"

text \<open>The error by which the library knows that a bucket exists.\<close>

abbreviation NewBucketExistsError :: "string \<Rightarrow> go_error" where "NewBucketExistsError msg \<equiv> LibraryError (''BucketExists: '' @ msg)"

section \<open>Numbers\<close>

definition Atoi_error :: "string \<Rightarrow> string" where
  "Atoi_error s = ''strconv.Atoi: parsing '' @ go_quote s @ '': ''
     @ (if ParseInt_syntax s then ''value out of range'' else ''invalid syntax'')"

text \<open>\<^verbatim>\<open>%x\<close> of a natural number.\<close>

fun show_hex :: "nat \<Rightarrow> string" where
  "show_hex n = (if n < 16 then [''0123456789abcdef'' ! n] else show_hex (n div 16) @ [''0123456789abcdef'' ! (n mod 16)])"

declare show_hex.simps [simp del]

definition show_hex_int :: "int \<Rightarrow> string" where
  "show_hex_int i = (if i < 0 then CHR ''-'' # show_hex (nat (- i)) else show_hex (nat i))"

definition now_unix :: "obc_env \<Rightarrow> ('r, int) reconcile_proc" where
  "now_unix e = asks (\<lambda>h. c_Now (oe_cluster e) h div 1000000000)"

section \<open>Validation of a claim\<close>

definition validateAdditionalConfig :: "obc_env \<Rightarrow> string \<Rightarrow> (string \<rightharpoonup> string) option \<Rightarrow> bool \<Rightarrow> bool \<Rightarrow> check" where
  "validateAdditionalConfig e objectName additionalConfig isUpdate isCLI =
     (case additionalConfig of
        None \<Rightarrow> pass
      | Some m \<Rightarrow>
          (let get = map_get (Some m) in first_err
            [ValidateQuotaConfig (c_ParseQuantity (oe_cluster e)) objectName (get ''maxSize'') (get ''maxObjects''),
             ValidateReplicationPolicy (oe_repl e) objectName (get ''replicationPolicy'') isUpdate isCLI,
             ValidateNSFSAccountConfig (oe_decode_nsfs e) (get ''nsfsAccountConfig'') (get ''bucketclass''),
             (if get ''bucketType'' \<noteq> '''' \<and> get ''bucketType'' \<noteq> ''vector''
              then Err (PlainError (''OBC '' @ go_quote objectName @ '' specifies unsupported bucketType '' @ go_quote (get ''bucketType'')
                @ '' (valid values: vector)''))
              else pass)]))"

definition ValidateOBC :: "obc_env \<Rightarrow> ObjectBucketClaim option \<Rightarrow> bool \<Rightarrow> check" where
  "ValidateOBC e obc isCLI = (case obc of
     None \<Rightarrow> pass
   | Some o' \<Rightarrow> validateAdditionalConfig e (obc_Name o') (obc_AdditionalConfig o') False isCLI)"

text \<open>A bucket without connection or endpoint is dereferenced.\<close>

definition ob_endpoint :: "ObjectBucket \<Rightarrow> ObjectBucketEndpoint result" where
  "ob_endpoint ob = bind_r (deref (ob_Connection ob)) (\<lambda>cn. deref (obn_Endpoint cn))"

definition ValidateOB :: "obc_env \<Rightarrow> ObjectBucket option \<Rightarrow> bool \<Rightarrow> check" where
  "ValidateOB e ob isCLI = (case ob of
     None \<Rightarrow> pass
   | Some o' \<Rightarrow> bind_r (ob_endpoint o') (\<lambda>ep. validateAdditionalConfig e (ob_Name o') (obe_AdditionalConfigData ep) True isCLI))"

section \<open>The bucket class of a claim\<close>

definition empty_bucket_class :: "string \<Rightarrow> string \<Rightarrow> BucketClass" where
  "empty_bucket_class name ns = \<lparr>bc_Meta = \<lparr>om_Name = name, om_Namespace = ns, om_UID = [], om_Generation = 0, om_Labels = None,
       om_Annotations = None, om_Finalizers = [], om_OwnerReferences = [], om_DeletionTimestamp = None, om_CreationTimestamp = 0\<rparr>,
     bc_Spec = \<lparr>bcs_PlacementPolicy = None, bcs_NamespacePolicy = None, bcs_Quota = None, bcs_ReplicationPolicy = '''',
       bcs_VectorPolicy = None, bcs_ArchivePolicy = None\<rparr>,
     bc_Status = \<lparr>bct_Phase = BucketClassPhaseNone, bct_Conditions = [], bct_Mode = ''''\<rparr>\<rparr>"

text \<open>The class is looked for in the namespace of the claim and then in that of the provisioner.\<close>

definition getBucketClassByName :: "obc_env \<Rightarrow> string \<Rightarrow> string \<Rightarrow> string \<Rightarrow> ('r, BucketClass \<times> bool) reconcile_proc" where
  "getBucketClassByName e name obcNamespace provisionerNS =
     (if name = '''' then ret (empty_bucket_class '''' '''', False)
      else
        bindp (if obcNamespace \<noteq> '''' then look (\<lambda>h. c_BucketClass (oe_cluster e) h obcNamespace name) else ret None) (\<lambda>found.
        case found of
          Some bc \<Rightarrow> ret (bc, True)
        | None \<Rightarrow> bindp (look (\<lambda>h. c_BucketClass (oe_cluster e) h provisionerNS name)) (\<lambda>found2. case found2 of
            Some bc \<Rightarrow> ret (bc, True)
          | None \<Rightarrow> ret (empty_bucket_class name provisionerNS, False))))"

definition bucket_class_name :: "ObjectBucketClaim \<Rightarrow> BucketOptions option \<Rightarrow> string" where
  "bucket_class_name obc bo =
     (let n = map_get (obc_AdditionalConfig obc) ''bucketclass'' in
      if n = '''' then (case bo of None \<Rightarrow> n | Some b \<Rightarrow> map_get (bo_Parameters b) ''bucketclass'') else n)"

definition getBucketClass :: "obc_env \<Rightarrow> ObjectBucketClaim option \<Rightarrow> BucketOptions option \<Rightarrow> string \<Rightarrow> ('r, BucketClass \<times> bool) reconcile_proc" where
  "getBucketClass e obc bo provisionerNS = (case obc of
     None \<Rightarrow> ret (empty_bucket_class '''' '''', False)
   | Some o' \<Rightarrow> getBucketClassByName e (bucket_class_name o' bo) (obc_Namespace o') provisionerNS)"

section \<open>The address of a bucket\<close>

datatype externalDNSService = externalDNSServiceS3 | externalDNSServiceVectors | externalDNSServiceOther string

fun external_service_string :: "externalDNSService \<Rightarrow> string" where
  "external_service_string externalDNSServiceS3 = ''s3''"
| "external_service_string externalDNSServiceVectors = ''vectors''"
| "external_service_string (externalDNSServiceOther s) = s"

definition getExternalDNSDetails :: "obc_env \<Rightarrow> NooBaa option \<Rightarrow> externalDNSService \<Rightarrow> (string \<times> int) result" where
  "getExternalDNSDetails e p svc = (case p of
     None \<Rightarrow> Err (PlainError ''no services found in status'')
   | Some nb \<Rightarrow>
       bind_r (case svc of
           externalDNSServiceS3 \<Rightarrow> Ok (nb_S3ExternalDNS nb)
         | externalDNSServiceVectors \<Rightarrow> Ok (nb_VectorsExternalDNS nb)
         | _ \<Rightarrow> Err (PlainError (''unknown external DNS service '' @ go_quote (external_service_string svc)))) (\<lambda>externalDNS.
       case externalDNS of
         [] \<Rightarrow> Err (PlainError (''no external '' @ go_quote (external_service_string svc) @ '' service endpoint in status (Route or LoadBalancer)''))
       | primary # _ \<Rightarrow>
           (case oe_ParseRequestURI e primary of
              Inl err \<Rightarrow> Err (PlainError err)
            | Inr uri \<Rightarrow>
                (case ParseInt 64 (oe_Port e uri) of
                   None \<Rightarrow> Err (PlainError (''failed to parse external DNS in '' @ go_quote (external_service_string svc) @ '' service: port ''
                     @ go_quote (oe_Port e uri) @ ''. got error: '' @ Atoi_error (oe_Port e uri)))
                 | Some port \<Rightarrow> Ok (oe_Hostname e uri, port)))))"

definition service_port :: "obc_env \<Rightarrow> string \<Rightarrow> string \<Rightarrow> int result" where
  "service_port e what u = (case ParseInt 64 (oe_Port e u) of
     None \<Rightarrow> Err (PlainError (''failed to parse '' @ what @ '' port '' @ go_quote u @ ''. got error: '' @ Atoi_error (oe_Port e u)))
   | Some port \<Rightarrow> Ok port)"

definition bucket_address :: "obc_env \<Rightarrow> Client \<Rightarrow> ObjectBucketClaim \<Rightarrow> BucketClass \<Rightarrow> int \<Rightarrow> int \<Rightarrow> string \<times> int" where
  "bucket_address e sys obc bc s3Port vectorsPort =
     (let vector = (bcs_VectorPolicy (bc_Spec bc) \<noteq> None);
          internal = (if vector then (oe_Hostname e (cl_VectorsURL sys), vectorsPort) else (oe_Hostname e (cl_S3URL sys), s3Port))
      in if IsRemoteObcAnnotation (om_Annotations (obc_Meta obc)) then
           (case getExternalDNSDetails e (Some (cl_NooBaa sys)) (if vector then externalDNSServiceVectors else externalDNSServiceS3) of
              Ok ext \<Rightarrow> ext
            | _ \<Rightarrow> internal)
         else internal)"

section \<open>Requests\<close>

definition new_claim_request :: "obc_env \<Rightarrow> Client \<Rightarrow> int \<Rightarrow> int \<Rightarrow> BucketOptions \<Rightarrow> ('r, BucketRequest) reconcile_proc" where
  "new_claim_request e sys s3Port vectorsPort bo =
     (let obc = bo_ObjectBucketClaim bo; className = bucket_class_name obc (Some bo); ns = c_Namespace (oe_cluster e) in
      bindp (now_unix e) (\<lambda>now.
      let account = ''obc-account.'' @ bo_BucketName bo @ ''.'' @ show_hex_int now @ ''@noobaa.io'' in
      if className = '''' then raise (PlainError (''failed to find bucket class in OBC '' @ obc_Name obc @ '' or storage class ''
        @ obc_StorageClassName obc))
      else
        bindp (getBucketClass e (Some obc) (Some bo) ns) (\<lambda>(bc, exists).
        if \<not> exists then
          (if bc_Name bc = '''' then raise (PlainError (''failed to find bucket class name in OBC '' @ obc_Name obc @ '' or storage class ''
             @ obc_StorageClassName obc))
           else raise (PlainError (''BucketClass '' @ go_quote className @ '' not found in namespace '' @ go_quote ns)))
        else if bct_Phase (bc_Status bc) \<noteq> BucketClassPhaseReady then
          raise (PlainError (''BucketClass '' @ go_quote className @ '' is not ready''))
        else
          (case bucket_address e sys obc bc s3Port vectorsPort of (host, port) \<Rightarrow>
            ret \<lparr>r_OB = \<lparr>ob_Name = '''', ob_Connection = Some \<lparr>
                obn_Endpoint = Some \<lparr>obe_BucketHost = host, obe_BucketPort = port, obe_BucketName = bo_BucketName bo,
                  obe_AdditionalConfigData = Some (case obc_AdditionalConfig obc of None \<Rightarrow> Map.empty | Some m \<Rightarrow> m)\<rparr>,
                obn_AdditionalState = Some [''account'' \<mapsto> account, ''bucketclass'' \<mapsto> className,
                  ''bucketclassgeneration'' \<mapsto> show_int (om_Generation (bc_Meta bc))],
                obn_AccessKeys = None\<rparr>, ob_ClaimNamespace = None\<rparr>,
              r_OBC = Some obc, r_BucketName = bo_BucketName bo, r_AccountName = account, r_SysClient = sys, r_BucketClass = Some bc\<rparr>))))"

definition new_bucket_request :: "obc_env \<Rightarrow> Client \<Rightarrow> ObjectBucket \<Rightarrow> ('r, BucketRequest) reconcile_proc" where
  "new_bucket_request e sys ob = (case ob_Connection ob of
     None \<Rightarrow> raise (PlainError ''ObjectBucket has no connection/endpoint info'')
   | Some cn \<Rightarrow> (case obn_Endpoint cn of
       None \<Rightarrow> raise (PlainError ''ObjectBucket has no connection/endpoint info'')
     | Some ep \<Rightarrow>
         bindp (getBucketClassByName e (map_get (obn_AdditionalState cn) ''bucketclass'')
           (case ob_ClaimNamespace ob of None \<Rightarrow> '''' | Some ns \<Rightarrow> ns) (c_Namespace (oe_cluster e))) (\<lambda>(bc, exists).
         let data = (case obe_AdditionalConfigData ep of None \<Rightarrow> Map.empty | Some m \<Rightarrow> m) in
         ret \<lparr>r_OB = ob\<lparr>ob_Connection := Some (cn\<lparr>obn_Endpoint := Some (ep\<lparr>obe_AdditionalConfigData := Some data\<rparr>)\<rparr>)\<rparr>,
           r_OBC = None, r_BucketName = obe_BucketName ep, r_AccountName = map_get (obn_AdditionalState cn) ''account'',
           r_SysClient = sys, r_BucketClass = Some bc\<rparr>)))"

text \<open>A request is made for a bucket or, when there is none, for the options of a claim.\<close>

definition NewBucketRequest :: "obc_env \<Rightarrow> ObjectBucket + BucketOptions \<Rightarrow> ('r, BucketRequest) reconcile_proc" where
  "NewBucketRequest e src =
     bindp (ConnectClient (oe_cluster e)) (\<lambda>sys.
     bindp (lift (service_port e ''s3'' (cl_S3URL sys))) (\<lambda>s3Port.
     bindp (lift (service_port e ''vectors'' (cl_VectorsURL sys))) (\<lambda>vectorsPort.
     case src of
       Inr bo \<Rightarrow> new_claim_request e sys s3Port vectorsPort bo
     | Inl ob \<Rightarrow> new_bucket_request e sys ob)))"

section \<open>Creating and updating a bucket\<close>

definition create_tier :: "obc_env \<Rightarrow> string \<Rightarrow> nat \<times> Tier \<Rightarrow> ('r, unit) reconcile_proc" where
  "create_tier e tierName it = (case it of (i, tier) \<Rightarrow>
     (let name = tierName @ ''.'' @ show_nat i in
      bindp (attempt (oe_cluster e) (CreateTierAPI \<lparr>ti_Name = name,
        ti_DataPlacement = (if tier_Placement tier = TierPlacementMirror then ''MIRROR'' else ''SPREAD''),
        ti_AttachedPools = tier_BackingStores tier\<rparr>)) (\<lambda>err. case err of
          None \<Rightarrow> ret ()
        | Some x \<Rightarrow> raise (PlainError (''Failed to create tier '' @ go_quote name @ '' with error: '' @ Error (rpc_go x))))))"

text \<open>The name of the policy is returned with the error, too.\<close>

definition CreateTieringStructure :: "obc_env \<Rightarrow> PlacementPolicy \<Rightarrow> string \<Rightarrow> ('r, string \<times> go_error option) reconcile_proc" where
  "CreateTieringStructure e policy bucketName =
     bindp (now_unix e) (\<lambda>now.
     let tierName = bucketName @ ''.'' @ show_hex_int now; tiers = zip [0 ..< length (pp_Tiers policy)] (pp_Tiers policy) in
     bindp (tryp (forp (create_tier e tierName) tiers)) (\<lambda>r. case r of
       Inl err \<Rightarrow> ret (tierName, Some err)
     | Inr _ \<Rightarrow>
         bindp (attempt (oe_cluster e) (CreateTieringPolicyAPI tierName
           (map (\<lambda>(i, tier). (int i, tierName @ ''.'' @ show_nat i)) tiers))) (\<lambda>err. case err of
           None \<Rightarrow> ret (tierName, None)
         | Some x \<Rightarrow> ret (tierName, Some (PlainError (''Failed to create tiering policy '' @ go_quote tierName @ '' with error: ''
             @ Error (rpc_go x)))))))"

definition quota_of :: "obc_env \<Rightarrow> BucketRequest \<Rightarrow> BucketClass \<Rightarrow> QuotaConfig result" where
  "quota_of e r bc = bind_r (ob_endpoint (r_OB r)) (\<lambda>ep.
     GetQuotaConfig (c_ParseQuantity (oe_cluster e)) (r_BucketName r) (bc_Spec bc) (obe_AdditionalConfigData ep))"

definition UpdateBucket :: "obc_env \<Rightarrow> BucketRequest \<Rightarrow> ('r, unit) reconcile_proc" where
  "UpdateBucket e r = (case r_BucketClass r of
     None \<Rightarrow> raise (PlainError ''BucketClass not loaded'')
   | Some bc \<Rightarrow>
       bindp (query (ReadBucketAPI (r_BucketName r)) (\<lambda>h. oe_ReadBucket e h (r_BucketName r))) (\<lambda>b. case b of
         Inl err \<Rightarrow> raise (PlainError (''Bucket '' @ go_quote (r_BucketName r) @ '' doesn't exist''))
       | Inr bucket \<Rightarrow>
           bindp (lift (quota_of e r bc)) (\<lambda>quota.
           if QuotaConfig_IsEqual (Some quota) (bi_Quota bucket) then ret ()
           else
             bindp (lift (WarnIfQuotaCappedByFree (Some bucket) None (Some quota))) (\<lambda>_.
             seqp (lift (ValidateQuotaAgainstBucketUsage (Some bucket) (Some quota)))
             (bindp (attempt (oe_cluster e) (UpdateBucketAPI \<lparr>cbp_Name = r_BucketName r, cbp_Tiering = '''', cbp_BucketClaim = None,
                cbp_Quota = Some quota, cbp_Namespace = None, cbp_ArchivePolicy = None\<rparr>)) (\<lambda>err. case err of
                None \<Rightarrow> ret ()
              | Some x \<Rightarrow> raise (PlainError (''failed to update bucket '' @ go_quote (r_BucketName r) @ '' with error: '' @ Error (rpc_go x)))))))))"

datatype replication_change = PutReplication BucketReplicationParams | RemoveReplication string

definition PrepareReplicationParams :: "obc_env \<Rightarrow> string \<Rightarrow> string \<Rightarrow> bool \<Rightarrow> replication_change result" where
  "PrepareReplicationParams e bucketName policy isUpdate =
     (if policy = '''' \<and> isUpdate then Ok (RemoveReplication bucketName)
      else case re_decode (oe_repl e) policy of
        (rules, Some err) \<Rightarrow> Err (PlainError (''PrepareReplicationParams: Failed to parse replication json ''
          @ re_print (oe_repl e) rules @ '': '' @ err))
      | (rules, None) \<Rightarrow> Ok (PutReplication \<lparr>brp_Name = bucketName, brp_ReplicationPolicy = rules\<rparr>))"

definition put_replication :: "obc_env \<Rightarrow> string \<Rightarrow> BucketReplicationParams \<Rightarrow> ('r, unit) reconcile_proc" where
  "put_replication e name params = bindp (attempt (oe_cluster e) (PutBucketReplicationAPI params)) (\<lambda>err. case err of
     None \<Rightarrow> ret ()
   | Some x \<Rightarrow> raise (PlainError (''Provisioner Failed to update replication on bucket '' @ go_quote name @ '' with error: '' @ Error (rpc_go x))))"

definition updateReplicationPolicy :: "obc_env \<Rightarrow> BucketRequest \<Rightarrow> ObjectBucket \<Rightarrow> ('r, unit) reconcile_proc" where
  "updateReplicationPolicy e r ob =
     bindp (lift (ob_endpoint ob)) (\<lambda>ep.
     bindp (lift (PrepareReplicationParams e (r_BucketName r) (map_get (obe_AdditionalConfigData ep) ''replicationPolicy'') True)) (\<lambda>ch.
     case ch of
       RemoveReplication n \<Rightarrow> bindp (attempt (oe_cluster e) (DeleteBucketReplicationAPI n)) (\<lambda>err. case err of
         None \<Rightarrow> ret ()
       | Some x \<Rightarrow> raise (PlainError (''Provisioner Failed to remove replication of bucket '' @ go_quote (ob_Name ob) @ '' with error: ''
           @ Error (rpc_go x))))
     | PutReplication params \<Rightarrow> put_replication e (ob_Name ob) params))"

text \<open>The read that must fail before a bucket is created; only an error reply of the core with another code stops the request.\<close>

definition ensure_new_bucket :: "obc_env \<Rightarrow> BucketRequest \<Rightarrow> bool \<Rightarrow> ('r, unit) reconcile_proc" where
  "ensure_new_bucket e r vector =
     bindp (if vector then attempt (oe_cluster e) (GetVectorBucketAPI (r_BucketName r))
            else bindp (query (ReadBucketAPI (r_BucketName r)) (\<lambda>h. oe_ReadBucket e h (r_BucketName r))) (\<lambda>b.
              ret (case b of Inl err \<Rightarrow> Some err | Inr _ \<Rightarrow> None))) (\<lambda>err.
     case err of
       None \<Rightarrow> raise (NewBucketExistsError (''Bucket '' @ go_quote (r_BucketName r) @ '' already exists''))
     | Some x \<Rightarrow> (case rpc_code x of
         Some code \<Rightarrow> if code \<noteq> ''NO_SUCH_BUCKET'' then raise (rpc_go x) else ret ()
       | None \<Rightarrow> ret ()))"

definition claim_info :: "BucketClass \<Rightarrow> ObjectBucketClaim \<Rightarrow> BucketClaimInfo" where
  "claim_info bc obc = \<lparr>bci_BucketClass = bc_Name bc, bci_Namespace = obc_Namespace obc\<rparr>"

text \<open>An error reply that the bucket exists is told to the library; any other error is a failure.\<close>

definition created_or :: "string \<Rightarrow> string \<Rightarrow> string \<Rightarrow> rpc_error \<Rightarrow> go_error" where
  "created_or what failed name x =
     (if rpc_code x = Some ''BUCKET_ALREADY_EXISTS''
      then NewBucketExistsError (what @ '' '' @ go_quote name @ '' already exists'')
      else PlainError (failed @ '' '' @ go_quote name @ '' with error: '' @ Error (rpc_go x)))"

definition create_vector_bucket :: "obc_env \<Rightarrow> BucketRequest \<Rightarrow> ObjectBucketClaim \<Rightarrow> BucketClass \<Rightarrow> VectorPolicy \<Rightarrow> ('r, unit) reconcile_proc" where
  "create_vector_bucket e r obc bc vp =
     bindp (attempt (oe_cluster e) (CreateVectorBucketAPI \<lparr>cvb_VectorBucketName = r_BucketName r, cvb_VectorDBType = vp_VectorDBType vp,
        cvb_NamespaceResource = \<lparr>nrc_Resource = vp_Resource vp, nrc_Path = map_get (obc_AdditionalConfig obc) ''path''\<rparr>,
        cvb_BucketClaim = claim_info bc obc\<rparr>)) (\<lambda>err. case err of
       Some x \<Rightarrow> raise (created_or ''Vector bucket'' ''Failed to create vector bucket'' (r_BucketName r) x)
     | None \<Rightarrow> bindp (attempt (oe_cluster e) (GetVectorBucketAPI (r_BucketName r))) (\<lambda>err2. case err2 of
         Some x \<Rightarrow> raise (PlainError (''Failed to read vector bucket '' @ go_quote (r_BucketName r) @ '' after creation: '' @ Error (rpc_go x)))
       | None \<Rightarrow> ret ()))"

text \<open>The tiering policy and the archive of a bucket of a placement class.\<close>

definition placement_params :: "obc_env \<Rightarrow> BucketRequest \<Rightarrow> ObjectBucketClaim \<Rightarrow> BucketClass \<Rightarrow> CreateBucketParams \<Rightarrow> ('r, CreateBucketParams) reconcile_proc" where
  "placement_params e r obc bc params = (case bcs_PlacementPolicy (bc_Spec bc) of
     None \<Rightarrow> ret params
   | Some pp \<Rightarrow>
       if map_get (obc_AdditionalConfig obc) ''path'' \<noteq> '''' then
         raise (PlainError (''Could not create OBC '' @ go_quote (obc_Name obc) @ '' with inner path while missing namespace bucketclass''))
       else bindp (CreateTieringStructure e pp (r_BucketName r)) (\<lambda>(tierName, err). case err of
         Some x \<Rightarrow> raise (PlainError (''CreateTieringStructure for PlacementPolicy failed to create policy '' @ go_quote tierName
           @ '' with error: '' @ Error x))
       | None \<Rightarrow> ret (params\<lparr>cbp_Tiering := tierName, cbp_ArchivePolicy :=
           (case bcs_ArchivePolicy (bc_Spec bc) of
              None \<Rightarrow> cbp_ArchivePolicy params
            | Some ap \<Rightarrow> Some \<lparr>nrc_Resource = ap_DeepArchiveResource ap, nrc_Path = ''''\<rparr>)\<rparr>)))"

definition namespace_bucket_params :: "BucketRequest \<Rightarrow> ObjectBucketClaim \<Rightarrow> BucketClass \<Rightarrow> CreateBucketParams \<Rightarrow> CreateBucketParams result" where
  "namespace_bucket_params r obc bc params = (case bcs_NamespacePolicy (bc_Spec bc) of
     None \<Rightarrow> Ok params
   | Some np \<Rightarrow>
       (let p = map_get (obc_AdditionalConfig obc) ''path'' in
        bind_r (CreateNamespaceBucketInfoStructure np (if p = '''' then r_BucketName r else p)) (\<lambda>info.
          Ok (params\<lparr>cbp_Namespace := Some info\<rparr>))))"

definition create_bucket :: "obc_env \<Rightarrow> BucketRequest \<Rightarrow> ObjectBucketClaim \<Rightarrow> BucketClass \<Rightarrow> ('r, unit) reconcile_proc" where
  "create_bucket e r obc bc =
     (let claimPolicy = map_get (obc_AdditionalConfig obc) ''replicationPolicy'';
          policy = (if claimPolicy \<noteq> '''' then claimPolicy else bcs_ReplicationPolicy (bc_Spec bc))
      in bindp (if policy = '''' then ret None
                else bindp (lift (PrepareReplicationParams e (r_BucketName r) policy False)) (\<lambda>ch. ret (Some ch))) (\<lambda>replication.
         bindp (placement_params e r obc bc \<lparr>cbp_Name = r_BucketName r, cbp_Tiering = '''', cbp_BucketClaim = Some (claim_info bc obc),
           cbp_Quota = None, cbp_Namespace = None, cbp_ArchivePolicy = None\<rparr>) (\<lambda>params1.
         bindp (lift (namespace_bucket_params r obc bc params1)) (\<lambda>params.
         bindp (attempt (oe_cluster e) (CreateBucketAPI params)) (\<lambda>err. case err of
           Some x \<Rightarrow> raise (created_or ''Bucket'' ''Failed to create bucket'' (r_BucketName r) x)
         | None \<Rightarrow>
             seqp (case replication of
                 Some (PutReplication p) \<Rightarrow> put_replication e (r_BucketName r) p
               | _ \<Rightarrow> ret ())
             (UpdateBucket e r))))))"

definition CreateAndUpdateBucket :: "obc_env \<Rightarrow> BucketRequest \<Rightarrow> ('r, unit) reconcile_proc" where
  "CreateAndUpdateBucket e r =
     (let vector = (case r_BucketClass r of None \<Rightarrow> False | Some bc \<Rightarrow> bcs_VectorPolicy (bc_Spec bc) \<noteq> None) in
      seqp (ensure_new_bucket e r vector)
      (case r_BucketClass r of
         None \<Rightarrow> raise (PlainError ''BucketClass not loaded'')
       | Some bc \<Rightarrow> (case r_OBC r of
           None \<Rightarrow> lift Panic
         | Some obc \<Rightarrow>
             let bucketType = map_get (obc_AdditionalConfig obc) ''bucketType'' in
             if bucketType = ''vector'' \<and> bcs_VectorPolicy (bc_Spec bc) = None then
               raise (PlainError (''OBC '' @ go_quote (obc_Name obc) @ '' specifies bucketType '' @ go_quote bucketType @ '' but BucketClass ''
                 @ go_quote (bc_Name bc) @ '' does not have a VectorPolicy''))
             else (case bcs_VectorPolicy (bc_Spec bc) of
               Some vp \<Rightarrow> create_vector_bucket e r obc bc vp
             | None \<Rightarrow> create_bucket e r obc bc))))"

section \<open>Accounts\<close>

definition default_resource :: "BucketClass \<Rightarrow> string result" where
  "default_resource bc = (case bcs_PlacementPolicy (bc_Spec bc) of
     None \<Rightarrow> Ok ''''
   | Some pp \<Rightarrow> (case pp_Tiers pp of
       [] \<Rightarrow> Panic
     | t # _ \<Rightarrow> (case tier_BackingStores t of [] \<Rightarrow> Panic | b # _ \<Rightarrow> Ok b)))"

text \<open>
  The code compares the user id with the address of a local variable to find the default \<open>-1\<close> of the command line; the
  addresses differ, so that the ids are always sent.
\<close>

definition nsfs_account_config :: "obc_env \<Rightarrow> string \<Rightarrow> AccountNsfsConfig option result" where
  "nsfs_account_config e text =
     (if text = '''' then Ok None
      else case oe_decode_nsfs e text of
        Inl err \<Rightarrow> Err (PlainError (''failed to parse NSFS config '' @ go_quote text @ '': '' @ err))
      | Inr conf \<Rightarrow> Ok (Some (conf\<lparr>nsfs_NewBucketsPath := '''', nsfs_NsfsOnly := True\<rparr>)))"

definition claim_account :: "BucketRequest \<Rightarrow> string \<Rightarrow> AccountNsfsConfig option \<Rightarrow> CreateAccountParams" where
  "claim_account r resource nsfs = \<lparr>cap_Name = r_AccountName r, cap_Email = r_AccountName r, cap_HasLogin = False, cap_S3Access = True,
     cap_AllowBucketCreate = False, cap_DefaultResource = resource, cap_ForceMd5Etag = None,
     cap_BucketClaimOwner = r_BucketName r, cap_NsfsAccountConfig = nsfs\<rparr>"

definition with_keys :: "ObjectBucket \<Rightarrow> S3AccessKeys \<Rightarrow> string \<Rightarrow> ObjectBucket result" where
  "with_keys ob keys arn = bind_r (deref (ob_Connection ob)) (\<lambda>cn.
     case obn_AdditionalState cn of
       None \<Rightarrow> Panic
     | Some st \<Rightarrow> Ok (ob\<lparr>ob_Connection := Some (cn\<lparr>obn_AccessKeys := Some keys, obn_AdditionalState := Some (st(''arn'' \<mapsto> arn))\<rparr>)\<rparr>))"

definition CreateAccount :: "obc_env \<Rightarrow> BucketRequest \<Rightarrow> ('r, BucketRequest) reconcile_proc" where
  "CreateAccount e r =
     bindp (lift (bind_r (deref (r_BucketClass r)) default_resource)) (\<lambda>resource.
     bindp (lift (deref (r_OBC r))) (\<lambda>obc.
     bindp (lift (nsfs_account_config e (map_get (obc_AdditionalConfig obc) ''nsfsAccountConfig''))) (\<lambda>nsfs.
     let params = claim_account r resource nsfs in
     bindp (query (CreateAccountAPI params) (\<lambda>h. c_CreateAccount (oe_cluster e) h params)) (\<lambda>a.
     bindp (reply a) (\<lambda>accountInfo.
     bindp (if akr_AccessKeys accountInfo = []
            then bindp (query (ReadAccountAPI (r_AccountName r)) (\<lambda>h. c_ReadAccount (oe_cluster e) h (r_AccountName r))) reply
            else ret accountInfo) (\<lambda>withKeys.
     bindp (lift (first_keys withKeys)) (\<lambda>keys.
     bindp (lift (with_keys (r_OB r) keys (akr_ARN accountInfo))) (\<lambda>ob. ret (r\<lparr>r_OB := ob\<rparr>)))))))))"

definition DeleteAccount :: "obc_env \<Rightarrow> BucketRequest \<Rightarrow> ('r, unit) reconcile_proc" where
  "DeleteAccount e r = bindp (attempt (oe_cluster e) (DeleteAccountAPI (r_AccountName r))) (\<lambda>err. case err of
     None \<Rightarrow> ret ()
   | Some x \<Rightarrow>
       if rpc_code x = Some ''NO_SUCH_ACCOUNT'' then ret ()
       else raise (PlainError (''failed to delete account '' @ go_quote (r_AccountName r) @ ''. got error: '' @ Error (rpc_go x))))"

definition delete_call :: "BucketRequest \<Rightarrow> rpc result" where
  "delete_call r = bind_r (ob_endpoint (r_OB r)) (\<lambda>ep.
     let vectorClass = (case r_BucketClass r of None \<Rightarrow> False | Some bc \<Rightarrow> bcs_VectorPolicy (bc_Spec bc) \<noteq> None);
         namespaceClass = (case r_BucketClass r of None \<Rightarrow> False | Some bc \<Rightarrow> bcs_NamespacePolicy (bc_Spec bc) \<noteq> None)
     in Ok (if vectorClass \<or> map_get (obe_AdditionalConfigData ep) ''bucketType'' = ''vector'' then DeleteVectorBucketAPI (r_BucketName r)
            else if namespaceClass then DeleteBucketAPI (r_BucketName r)
            else DeleteBucketAndObjectsAPI (r_BucketName r)))"

definition DeleteBucket :: "obc_env \<Rightarrow> BucketRequest \<Rightarrow> ('r, unit) reconcile_proc" where
  "DeleteBucket e r =
     bindp (lift (delete_call r)) (\<lambda>c.
     bindp (attempt (oe_cluster e) c) (\<lambda>err. case err of
       None \<Rightarrow> ret ()
     | Some x \<Rightarrow>
         if rpc_code x = Some ''NO_SUCH_BUCKET'' then ret ()
         else raise (PlainError (''failed to delete bucket '' @ go_quote (r_BucketName r) @ ''. got error: '' @ Error (rpc_go x)))))"

section \<open>Tags\<close>

definition excludeBucketTaggingLabelKeysSet :: "string list" where
  "excludeBucketTaggingLabelKeysSet = [''app'', ''noobaa-domain'', ''bucket-provisioner'', ''remote-obc-name'', ''remote-obc-namespace'',
     ''remote-obc-uid'', ''storage-consumer-name'', ''storage-consumer-uuid'']"

definition tags_of :: "obc_env \<Rightarrow> (string \<rightharpoonup> string) \<Rightarrow> (string \<times> string) list" where
  "tags_of e labels = filter (\<lambda>(k, v). k \<notin> set excludeBucketTaggingLabelKeysSet) (oe_range e labels)"

definition UpdateBucketTagging :: "obc_env \<Rightarrow> Client \<Rightarrow> ObjectBucketClaim option \<Rightarrow> ('r, unit) reconcile_proc" where
  "UpdateBucketTagging e sys p = (case p of
     None \<Rightarrow> raise (PlainError ''OBC is not provided or doesn't contain any label'')
   | Some obc \<Rightarrow> (case om_Labels (obc_Meta obc) of
       None \<Rightarrow> raise (PlainError ''OBC is not provided or doesn't contain any label'')
     | Some labels \<Rightarrow> (case nb_S3InternalDNS (cl_NooBaa sys) of
         [] \<Rightarrow> lift Panic
       | endpoint # _ \<Rightarrow> (case oe_NewSession e endpoint of
           Some err \<Rightarrow> raise err
         | None \<Rightarrow>
             let tags = tags_of e labels in
             if tags = [] then ret ()
             else bindp (asks (\<lambda>h. oe_PutBucketTagging e h (obc_BucketName obc) tags)) (\<lambda>err.
               seqp (emit (TaggedBucket (obc_BucketName obc) tags))
                 (case err of None \<Rightarrow> ret () | Some x \<Rightarrow> raise x))))))"

section \<open>The callbacks\<close>

definition GenerateUserID :: "ObjectBucketClaim \<Rightarrow> ObjectBucket \<Rightarrow> string" where
  "GenerateUserID obc ob = ''''"

text \<open>New requests are refused while a system with the graceful finalizer is deleted.\<close>

definition refuse_deleting :: "BucketRequest \<Rightarrow> ('r, unit) reconcile_proc" where
  "refuse_deleting r =
     (let m = nb_Meta (cl_NooBaa (r_SysClient r)) in
      if om_DeletionTimestamp m \<noteq> None \<and> Contains (om_Finalizers m) GracefulFinalizer
      then raise (NewBucketExistsError ''NooBaa is in deleting state, new requests will be ignored'')
      else ret ())"

definition is_vector_request :: "BucketRequest \<Rightarrow> bool" where
  "is_vector_request r \<longleftrightarrow> (case r_BucketClass r of None \<Rightarrow> False | Some bc \<Rightarrow> bcs_VectorPolicy (bc_Spec bc) \<noteq> None)"

definition Provision :: "obc_env \<Rightarrow> BucketOptions \<Rightarrow> ('r, ObjectBucket) reconcile_proc" where
  "Provision e bo =
     seqp (lift (ValidateOBC e (Some (bo_ObjectBucketClaim bo)) False))
     (bindp (NewBucketRequest e (Inr bo)) (\<lambda>r.
      seqp (refuse_deleting r)
      (seqp (CreateAndUpdateBucket e r)
      (bindp (CreateAccount e r) (\<lambda>r1.
       if is_vector_request r1 then ret (r_OB r1)
       else bindp (tryp (UpdateBucketTagging e (r_SysClient r1) (r_OBC r1))) (\<lambda>_. ret (r_OB r1)))))))"

definition Grant :: "obc_env \<Rightarrow> BucketOptions \<Rightarrow> ('r, ObjectBucket) reconcile_proc" where
  "Grant e bo =
     bindp (NewBucketRequest e (Inr bo)) (\<lambda>r.
     seqp (refuse_deleting r)
     (bindp (CreateAccount e r) (\<lambda>r1. ret (r_OB r1))))"

definition Delete :: "obc_env \<Rightarrow> ObjectBucket \<Rightarrow> ('r, unit) reconcile_proc" where
  "Delete e ob = bindp (NewBucketRequest e (Inl ob)) (\<lambda>r. seqp (DeleteBucket e r) (DeleteAccount e r))"

definition Revoke :: "obc_env \<Rightarrow> ObjectBucket \<Rightarrow> ('r, unit) reconcile_proc" where
  "Revoke e ob = bindp (NewBucketRequest e (Inl ob)) (\<lambda>r. DeleteAccount e r)"

definition Update :: "obc_env \<Rightarrow> ObjectBucket \<Rightarrow> ('r, unit) reconcile_proc" where
  "Update e ob =
     seqp (lift (ValidateOB e (Some ob) False))
     (bindp (NewBucketRequest e (Inl ob)) (\<lambda>r.
      if is_vector_request r then ret ()
      else seqp (updateReplicationPolicy e r (r_OB r)) (UpdateBucket e r)))"


section \<open>What the callbacks send to the core\<close>

text \<open>The calls that make a bucket, and those that remove one.\<close>

fun creates :: "string \<Rightarrow> rpc \<Rightarrow> bool" where
  "creates n (CreateBucketAPI p) = (cbp_Name p = n)"
| "creates n (CreateVectorBucketAPI p) = (cvb_VectorBucketName p = n)"
| "creates n _ = False"

fun removes :: "string \<Rightarrow> rpc \<Rightarrow> bool" where
  "removes n (DeleteBucketAPI m) = (m = n)"
| "removes n (DeleteBucketAndObjectsAPI m) = (m = n)"
| "removes n (DeleteVectorBucketAPI m) = (m = n)"
| "removes n _ = False"

text \<open>In the events \<open>es\<close> after the history \<open>h\<close>, the core accepted the creation of a bucket.\<close>

definition bucket_created :: "obc_env \<Rightarrow> history \<Rightarrow> event list \<Rightarrow> string \<Rightarrow> bool" where
  "bucket_created e h es n \<longleftrightarrow>
     (\<exists>es1 es2 q. es = es1 @ Called q # es2 \<and> creates n q \<and> c_call (oe_cluster e) (h @ es1) q = None)"

lemma bucket_created_more: "bucket_created e h es n \<Longrightarrow> bucket_created e h (es @ es') n"
  unfolding bucket_created_def by fastforce

lemma bucket_created_shift: "bucket_created e (h @ es0) es n \<Longrightarrow> bucket_created e h (es0 @ es) n"
  unfolding bucket_created_def by (metis append.assoc)

lemma bucket_created_now: "creates n q \<Longrightarrow> c_call (oe_cluster e) h q = None \<Longrightarrow> bucket_created e h (Called q # es) n"
  unfolding bucket_created_def by (metis append.right_neutral append_Nil)

text \<open>An event that no earlier part of a run can emit lies in the later part.\<close>

lemma event_in_later_part: "a @ b = es1 @ x # es2 \<Longrightarrow> x \<notin> set a \<Longrightarrow> \<exists>es. es1 = a @ es \<and> b = es @ x # es2"
  by (auto simp: append_eq_append_conv2 append_eq_Cons_conv Cons_eq_append_conv)

lemma emits_now_unix [emit_rules]: "emits E (now_unix e)"
  by (simp add: now_unix_def emits_basic)

lemma emits_getBucketClassByName [emit_rules]: "E Looked \<Longrightarrow> emits E (getBucketClassByName e n ns pns)"
  unfolding getBucketClassByName_def by (intro emit_rules)

lemma emits_getBucketClass [emit_rules]: "E Looked \<Longrightarrow> emits E (getBucketClass e obc bo ns)"
  unfolding getBucketClass_def by (intro emit_rules)

lemma emits_NewBucketRequest [emit_rules]:
  "E Looked \<Longrightarrow> (\<And>x. E (Updated (ONooBaa x))) \<Longrightarrow> emits E (NewBucketRequest e src)"
  unfolding NewBucketRequest_def new_claim_request_def new_bucket_request_def Let_def
  by (intro emit_rules) auto

text \<open>What a request is about.\<close>

lemma claim_request:
  assumes "NewBucketRequest e (Inr bo) s = (Ok r, s')"
  shows "r_BucketName r = bo_BucketName bo" "r_OBC r = Some (bo_ObjectBucketClaim bo)"
    "\<exists>ep st. ob_Connection (r_OB r) = Some \<lparr>obn_Endpoint = Some ep, obn_AdditionalState = Some st, obn_AccessKeys = None\<rparr>
       \<and> obe_BucketName ep = bo_BucketName bo \<and> st ''account'' = Some (r_AccountName r)"
  using assms unfolding NewBucketRequest_def new_claim_request_def
  by (auto elim!: bindp_OkE split: if_splits prod.splits simp: Let_def)

lemma bucket_request:
  assumes "NewBucketRequest e (Inl ob) s = (Ok r, s')"
  obtains cn ep where "ob_Connection ob = Some cn" "obn_Endpoint cn = Some ep" "r_BucketName r = obe_BucketName ep"
    "r_AccountName r = map_get (obn_AdditionalState cn) ''account''"
  using assms unfolding NewBucketRequest_def new_bucket_request_def
  by (auto elim!: bindp_OkE split: if_splits prod.splits option.splits simp: Let_def)

subsection \<open>The bucket of a claim\<close>

definition account_event :: "event \<Rightarrow> bool" where
  "account_event ev \<longleftrightarrow> (\<exists>p. ev = Called (CreateAccountAPI p))"

lemma account_event_simps [simp]:
  "\<not> account_event Looked" "\<not> account_event (Updated x)" "account_event (Called (CreateAccountAPI p))"
  by (simp_all add: account_event_def)

lemma emits_CreateTieringStructure [emit_rules]: "emits (\<lambda>ev. \<not> account_event ev) (CreateTieringStructure e pp n)"
  unfolding CreateTieringStructure_def create_tier_def Let_def by (intro emit_rules) (auto simp: account_event_def)

lemma emits_UpdateBucket [emit_rules]: "emits (\<lambda>ev. \<not> account_event ev) (UpdateBucket e r)"
  unfolding UpdateBucket_def by (intro emit_rules) (auto simp: account_event_def)

lemma emits_placement_params [emit_rules]: "emits (\<lambda>ev. \<not> account_event ev) (placement_params e r obc bc ps)"
  unfolding placement_params_def by (intro emit_rules)

lemma emits_ensure_new_bucket [emit_rules]: "emits (\<lambda>ev. \<not> account_event ev) (ensure_new_bucket e r v)"
  unfolding ensure_new_bucket_def by (intro emit_rules) (auto simp: account_event_def)

lemma emits_create_vector_bucket [emit_rules]: "emits (\<lambda>ev. \<not> account_event ev) (create_vector_bucket e r obc bc vp)"
  unfolding create_vector_bucket_def by (intro emit_rules) (auto simp: account_event_def)

lemma emits_put_replication [emit_rules]: "emits (\<lambda>ev. \<not> account_event ev) (put_replication e n ps)"
  unfolding put_replication_def by (intro emit_rules) (auto simp: account_event_def)


lemma emits_change [emit_rules]:
  "(\<And>p. v = PutReplication p \<Longrightarrow> emits E (f p)) \<Longrightarrow> (\<And>n. v = RemoveReplication n \<Longrightarrow> emits E (g n)) \<Longrightarrow>
     emits E (case v of PutReplication p \<Rightarrow> f p | RemoveReplication n \<Rightarrow> g n)"
  by (cases v) simp_all

lemma emits_create_bucket [emit_rules]: "emits (\<lambda>ev. \<not> account_event ev) (create_bucket e r obc bc)"
  unfolding create_bucket_def by (intro emit_rules) (auto simp: account_event_def)

lemma emits_CreateAndUpdateBucket [emit_rules]: "emits (\<lambda>ev. \<not> account_event ev) (CreateAndUpdateBucket e r)"
  unfolding CreateAndUpdateBucket_def by (intro emit_rules)

lemma created_by_call:
  assumes "creates n q" "c_call (oe_cluster e) (hist s) q = None" "emits E m" "m (s\<lparr>hist := hist s @ [Called q]\<rparr>) = (x, s')"
  obtains es where "hist s' = hist s @ es" "bucket_created e (hist s) es n"
  using emitsD [OF assms(3,4)] bucket_created_now [OF assms(1,2)] by auto

lemma created_later:
  assumes "emits E m" "m s = (x, s1)" "hist s' = hist s1 @ es" "bucket_created e (hist s1) es n"
  obtains es' where "hist s' = hist s @ es'" "bucket_created e (hist s) es' n"
  using emitsD [OF assms(1,2)] assms(3,4) bucket_created_shift by (metis append.assoc)

lemma create_vector_bucket_creates:
  assumes "create_vector_bucket e r obc bc vp s = (Ok (), s')"
  obtains es where "hist s' = hist s @ es" "bucket_created e (hist s) es (r_BucketName r)"
proof -
  let ?q = "CreateVectorBucketAPI \<lparr>cvb_VectorBucketName = r_BucketName r, cvb_VectorDBType = vp_VectorDBType vp,
        cvb_NamespaceResource = \<lparr>nrc_Resource = vp_Resource vp, nrc_Path = map_get (obc_AdditionalConfig obc) ''path''\<rparr>,
        cvb_BucketClaim = claim_info bc obc\<rparr>"
  have "c_call (oe_cluster e) (hist s) ?q = None" "\<exists>ev. hist s' = hist s @ [Called ?q, ev]"
    using assms by (auto simp: create_vector_bucket_def bindp_def split: option.splits)
  then show ?thesis using that bucket_created_now [of "r_BucketName r" ?q e "hist s"] by fastforce
qed

lemma placement_params_name:
  "placement_params e r obc bc ps s = (Ok ps', s') \<Longrightarrow> cbp_Name ps' = cbp_Name ps"
  by (auto simp: placement_params_def split: option.splits if_splits prod.splits elim!: bindp_OkE)

lemma namespace_bucket_params_name: "namespace_bucket_params r obc bc ps = Ok ps' \<Longrightarrow> cbp_Name ps' = cbp_Name ps"
  by (auto simp: namespace_bucket_params_def Let_def split: option.splits result.splits elim!: bind_r.elims)

lemma create_bucket_creates:
  assumes "create_bucket e r obc bc s = (Ok (), s')"
  obtains es where "hist s' = hist s @ es" "bucket_created e (hist s) es (r_BucketName r)"
proof -
  let ?rep = "\<lambda>policy. if policy = '''' then ret None
                else bindp (lift (PrepareReplicationParams e (r_BucketName r) policy False)) (\<lambda>ch. ret (Some ch))"
  let ?k = "\<lambda>v. seqp (case v of Some (PutReplication p) \<Rightarrow> put_replication e (r_BucketName r) p | _ \<Rightarrow> ret ()) (UpdateBucket e r)"
  define policy where "policy = (let claimPolicy = map_get (obc_AdditionalConfig obc) ''replicationPolicy'' in
    if claimPolicy \<noteq> '''' then claimPolicy else bcs_ReplicationPolicy (bc_Spec bc))"
  from assms obtain v s1 ps1 s2 ps where v: "?rep policy s = (Ok v, s1)"
    and p1: "placement_params e r obc bc \<lparr>cbp_Name = r_BucketName r, cbp_Tiering = '''', cbp_BucketClaim = Some (claim_info bc obc),
           cbp_Quota = None, cbp_Namespace = None, cbp_ArchivePolicy = None\<rparr> s1 = (Ok ps1, s2)"
    and ps: "namespace_bucket_params r obc bc ps1 = Ok ps"
    and ok: "c_call (oe_cluster e) (hist s2) (CreateBucketAPI ps) = None"
    and k: "?k v (s2\<lparr>hist := hist s2 @ [Called (CreateBucketAPI ps)]\<rparr>) = (Ok (), s')"
    unfolding create_bucket_def policy_def Let_def
    by (elim bindp_OkE) (auto split: option.splits)
  have same: "s1 = s" using v by (auto split: if_splits elim: bindp_OkE)
  have n: "creates (r_BucketName r) (CreateBucketAPI ps)"
    using placement_params_name [OF p1] namespace_bucket_params_name [OF ps] by simp
  have "emits (\<lambda>ev. \<not> account_event ev) (?k v)" by (intro emit_rules)
  from created_by_call [OF n ok this k] obtain es where es: "hist s' = hist s2 @ es" "bucket_created e (hist s2) es (r_BucketName r)" .
  from created_later [OF emits_placement_params p1 es] that same show ?thesis by blast
qed

text \<open>A bucket request that ends well has had its bucket created.\<close>

lemma CreateAndUpdateBucket_creates:
  assumes "CreateAndUpdateBucket e r s = (Ok (), s')"
  obtains es where "hist s' = hist s @ es" "bucket_created e (hist s) es (r_BucketName r)"
proof -
  from assms obtain v s1 bc obc vp where first: "ensure_new_bucket e r v s = (Ok (), s1)"
    and rest: "create_bucket e r obc bc s1 = (Ok (), s') \<or> create_vector_bucket e r obc bc vp s1 = (Ok (), s')"
    unfolding CreateAndUpdateBucket_def Let_def
    by (elim seqp_OkE) (auto split: option.splits if_splits, blast+)
  from rest obtain es where "hist s' = hist s1 @ es" "bucket_created e (hist s1) es (r_BucketName r)"
    by (auto elim: create_vector_bucket_creates create_bucket_creates)
  from created_later [OF emits_ensure_new_bucket first this] that show ?thesis by blast
qed


subsection \<open>The account of a claim\<close>

text \<open>The account that is made for a request: it owns the bucket, and it may not make others.\<close>

definition account_of :: "BucketRequest \<Rightarrow> CreateAccountParams \<Rightarrow> bool" where
  "account_of r p \<longleftrightarrow> cap_BucketClaimOwner p = r_BucketName r \<and> cap_Email p = r_AccountName r \<and> cap_S3Access p
     \<and> \<not> cap_AllowBucketCreate p \<and> \<not> cap_HasLogin p"

lemma emits_CreateAccount:
  "emits (\<lambda>ev. \<forall>p. ev = Called (CreateAccountAPI p) \<longrightarrow> account_of r p) (CreateAccount e r)"
  unfolding CreateAccount_def Let_def by (intro emit_rules) (auto simp: account_of_def claim_account_def)

lemma emits_UpdateBucketTagging: "(\<And>n t. E (TaggedBucket n t)) \<Longrightarrow> emits E (UpdateBucketTagging e sys obc)"
  unfolding UpdateBucketTagging_def Let_def by (intro emit_rules)

text \<open>The part of \<open>Provision\<close> before the account, and the part after it.\<close>

definition provision_bucket :: "obc_env \<Rightarrow> BucketOptions \<Rightarrow> ('r, BucketRequest) reconcile_proc" where
  "provision_bucket e bo =
     seqp (lift (ValidateOBC e (Some (bo_ObjectBucketClaim bo)) False))
     (bindp (NewBucketRequest e (Inr bo)) (\<lambda>r. seqp (refuse_deleting r) (seqp (CreateAndUpdateBucket e r) (ret r))))"

definition provision_account :: "obc_env \<Rightarrow> BucketRequest \<Rightarrow> ('r, ObjectBucket) reconcile_proc" where
  "provision_account e r = bindp (CreateAccount e r) (\<lambda>r1.
       if is_vector_request r1 then ret (r_OB r1)
       else bindp (tryp (UpdateBucketTagging e (r_SysClient r1) (r_OBC r1))) (\<lambda>_. ret (r_OB r1)))"

lemma Provision_parts: "Provision e bo = bindp (provision_bucket e bo) (provision_account e)"
  by (simp add: Provision_def provision_bucket_def provision_account_def proc_assoc)

lemma emits_refuse_deleting [emit_rules]: "emits E (refuse_deleting r)"
  unfolding refuse_deleting_def Let_def by (intro emit_rules)

lemma emits_provision_bucket: "emits (\<lambda>ev. \<not> account_event ev) (provision_bucket e bo)"
  unfolding provision_bucket_def by (intro emit_rules) auto

lemma emits_provision_account:
  "emits (\<lambda>ev. \<forall>p. ev = Called (CreateAccountAPI p) \<longrightarrow> account_of r p) (provision_account e r)"
  unfolding provision_account_def by (intro emit_rules emits_CreateAccount emits_UpdateBucketTagging) auto

lemma provision_bucket_creates:
  assumes "provision_bucket e bo s = (Ok r, s')"
  obtains es where "hist s' = hist s @ es" "bucket_created e (hist s) es (bo_BucketName bo)" "list_all (\<lambda>ev. \<not> account_event ev) es"
    "r_BucketName r = bo_BucketName bo" "\<exists>s1. NewBucketRequest e (Inr bo) s = (Ok r, s1)"
proof -
  from assms obtain s1 where req: "NewBucketRequest e (Inr bo) s = (Ok r, s1)" and cr: "CreateAndUpdateBucket e r s1 = (Ok (), s')"
    unfolding provision_bucket_def refuse_deleting_def Let_def
    by (auto elim!: seqp_OkE bindp_OkE split: if_splits)
  note n = claim_request(1) [OF req]
  from CreateAndUpdateBucket_creates [OF cr] n obtain es where "hist s' = hist s1 @ es" "bucket_created e (hist s1) es (bo_BucketName bo)"
    by metis
  from created_later [OF emits_NewBucketRequest [where E = "\<lambda>_. True"] req this] obtain es' where
    es': "hist s' = hist s @ es'" "bucket_created e (hist s) es' (bo_BucketName bo)" by auto
  moreover have "list_all (\<lambda>ev. \<not> account_event ev) es'"
    using emitsD [OF emits_provision_bucket assms] es'(1) by (metis same_append_eq)
  ultimately show ?thesis using that n req by blast
qed

text \<open>
  C10. An account for a claim is only made after its bucket: whatever the outcome of a run of \<open>Provision\<close>, each call of the
  run that creates an account comes after a call of the same run that created the bucket of the claim and that the core
  accepted.  The account owns that bucket; it can use S3, and it can neither log in nor create other buckets.
\<close>

theorem account_after_bucket:
  assumes run: "Provision e bo s = (res, s')"
    and call: "hist s' = hist s @ es1 @ Called (CreateAccountAPI p) # es2"
  shows "bucket_created e (hist s) es1 (bo_BucketName bo) \<and>
     cap_BucketClaimOwner p = bo_BucketName bo \<and> cap_S3Access p \<and> \<not> cap_HasLogin p \<and> \<not> cap_AllowBucketCreate p"
proof -
  obtain r1 s1 where bucket: "provision_bucket e bo s = (r1, s1)" by (cases "provision_bucket e bo s")
  obtain a where a: "hist s1 = hist s @ a" "list_all (\<lambda>ev. \<not> account_event ev) a" using emitsD [OF emits_provision_bucket bucket] .
  have new: "Called (CreateAccountAPI p) \<notin> set a" using a(2) by (auto simp: list_all_iff account_event_def)
  have "\<exists>r. r1 = Ok r" using run bucket a(1) call new by (cases r1) (auto simp: Provision_parts)
  then obtain r where ok: "r1 = Ok r" ..
  have rest: "provision_account e r s1 = (res, s')" using run bucket ok by (simp add: Provision_parts)
  from emitsD [OF emits_provision_account rest] obtain b where b: "hist s' = hist s1 @ b"
    "list_all (\<lambda>ev. \<forall>p. ev = Called (CreateAccountAPI p) \<longrightarrow> account_of r p) b" .
  have "a @ b = es1 @ Called (CreateAccountAPI p) # es2" using a(1) b(1) call by simp
  from event_in_later_part [OF this new] obtain es where es: "es1 = a @ es" "b = es @ Called (CreateAccountAPI p) # es2" by blast
  from provision_bucket_creates [OF bucket [unfolded ok]] a(1) have cr: "bucket_created e (hist s) a (bo_BucketName bo)"
    and n: "r_BucketName r = bo_BucketName bo" by (metis same_append_eq)+
  have "account_of r p" using es(2) b(2) by simp
  then show ?thesis using es(1) cr bucket_created_more n by (simp add: account_of_def)
qed


subsection \<open>Deleting a bucket and its account\<close>

text \<open>A deletion has taken effect: it was accepted, or the core answered that the object does not exist.\<close>

definition gone :: "obc_env \<Rightarrow> history \<Rightarrow> rpc \<Rightarrow> string \<Rightarrow> bool" where
  "gone e h q code \<longleftrightarrow> (case c_call (oe_cluster e) h q of None \<Rightarrow> True | Some x \<Rightarrow> rpc_code x = Some code)"

lemma delete_call_removes: "delete_call r = Ok q \<Longrightarrow> removes (r_BucketName r) q"
  by (auto simp: delete_call_def bind_r_eq_Ok Let_def split: if_splits)

lemma DeleteBucket_run:
  "DeleteBucket e r s = (case delete_call r of
     Ok q \<Rightarrow> (if gone e (hist s) q ''NO_SUCH_BUCKET'' then Ok ()
             else Err (PlainError (''failed to delete bucket '' @ go_quote (r_BucketName r) @ ''. got error: ''
               @ Error (rpc_go (the (c_call (oe_cluster e) (hist s) q))))), s\<lparr>hist := hist s @ [Called q]\<rparr>)
   | Err x \<Rightarrow> (Err x, s) | Panic \<Rightarrow> (Panic, s))"
  by (auto simp: DeleteBucket_def gone_def run_defs split: result.splits option.splits)

lemma DeleteAccount_run:
  "DeleteAccount e r s = (if gone e (hist s) (DeleteAccountAPI (r_AccountName r)) ''NO_SUCH_ACCOUNT'' then Ok ()
     else Err (PlainError (''failed to delete account '' @ go_quote (r_AccountName r) @ ''. got error: ''
       @ Error (rpc_go (the (c_call (oe_cluster e) (hist s) (DeleteAccountAPI (r_AccountName r))))))),
     s\<lparr>hist := hist s @ [Called (DeleteAccountAPI (r_AccountName r))]\<rparr>)"
  by (auto simp: DeleteAccount_def gone_def run_defs split: option.splits)

text \<open>The deletion of a bucket, after the request was understood.\<close>

lemma Delete_run:
  assumes "Delete e ob s = (res, s')"
  obtains (early) es where "hist s' = hist s @ es" "list_all (\<lambda>ev. \<forall>q. ev \<noteq> Called q) es" "res \<noteq> Ok ()"
  | (refused) es q cn ep where "ob_Connection ob = Some cn" "obn_Endpoint cn = Some ep" "removes (obe_BucketName ep) q"
      "list_all (\<lambda>ev. \<forall>q. ev \<noteq> Called q) es" "hist s' = hist s @ es @ [Called q]"
      "\<not> gone e (hist s @ es) q ''NO_SUCH_BUCKET''" "res \<noteq> Ok ()"
  | (removed) es q cn ep where "ob_Connection ob = Some cn" "obn_Endpoint cn = Some ep" "removes (obe_BucketName ep) q"
      "list_all (\<lambda>ev. \<forall>q. ev \<noteq> Called q) es"
      "hist s' = hist s @ es @ [Called q, Called (DeleteAccountAPI (map_get (obn_AdditionalState cn) ''account''))]"
      "gone e (hist s @ es) q ''NO_SUCH_BUCKET''"
      "res = Ok () \<longleftrightarrow> gone e (hist s @ es @ [Called q]) (DeleteAccountAPI (map_get (obn_AdditionalState cn) ''account'')) ''NO_SUCH_ACCOUNT''"
proof -
  have em: "emits (\<lambda>ev. \<forall>q. ev \<noteq> Called q) (NewBucketRequest e (Inl ob))" by (intro emit_rules) auto
  obtain rq s1 where req: "NewBucketRequest e (Inl ob) s = (rq, s1)" by (cases "NewBucketRequest e (Inl ob) s")
  obtain es where es: "hist s1 = hist s @ es" "list_all (\<lambda>ev. \<forall>q. ev \<noteq> Called q) es" using emitsD [OF em req] .
  show ?thesis
  proof (cases rq)
    case (Ok r)
    from bucket_request [OF req [unfolded Ok]] obtain cn ep where ob: "ob_Connection ob = Some cn" "obn_Endpoint cn = Some ep"
      and n: "r_BucketName r = obe_BucketName ep" "r_AccountName r = map_get (obn_AdditionalState cn) ''account''" .
    have run: "seqp (DeleteBucket e r) (DeleteAccount e r) s1 = (res, s')" using assms req Ok by (simp add: Delete_def)
    show ?thesis
    proof (cases "delete_call r")
      case (Ok q)
      note q = delete_call_removes [OF Ok] 
      show ?thesis
      proof (cases "gone e (hist s1) q ''NO_SUCH_BUCKET''")
        case True
        then show ?thesis using removed [OF ob q [unfolded n] es(2)] run Ok es(1) n(2)
          by (auto simp: DeleteBucket_run DeleteAccount_run split: if_splits)
      next
        case False
        then show ?thesis using refused [OF ob q [unfolded n] es(2)] run Ok es(1)
          by (auto simp: DeleteBucket_run)
      qed
    qed (use early [of es] run es in \<open>auto simp: DeleteBucket_run\<close>)
  qed (use early [of es] assms req es in \<open>auto simp: Delete_def\<close>)
qed

text \<open>
  The account of a claim outlives its bucket: in every run of \<open>Delete\<close>, the call that deletes an account comes directly
  after the call that removes the bucket, and only when the core accepted that call or has no such bucket.  When the core
  refuses to remove the bucket, for instance because it is not empty, the account is kept and the next attempt can still
  use it.
\<close>

theorem account_kept_until_bucket_gone:
  assumes "Delete e ob s = (res, s')" and "hist s' = hist s @ es1 @ Called (DeleteAccountAPI a) # es2"
  shows "\<exists>es q cn ep. ob_Connection ob = Some cn \<and> obn_Endpoint cn = Some ep \<and> es1 = es @ [Called q] \<and> es2 = [] \<and>
     removes (obe_BucketName ep) q \<and> gone e (hist s @ es) q ''NO_SUCH_BUCKET'' \<and> a = map_get (obn_AdditionalState cn) ''account''"
  using assms(1)
proof (cases rule: Delete_run)
  case (early es)
  then have "Called (DeleteAccountAPI a) \<in> set es" using assms(2) by auto
  then show ?thesis using early by (auto simp: list_all_iff)
next
  case (refused es q cn ep)
  have "Called (DeleteAccountAPI a) \<notin> set es" "removes (obe_BucketName ep) q"
    using refused by (auto simp: list_all_iff)
  moreover have "es @ [Called q] = es1 @ Called (DeleteAccountAPI a) # es2" using refused assms(2) by simp
  ultimately show ?thesis using event_in_later_part [of es "[Called q]" es1] by (auto simp: Cons_eq_append_conv)
next
  case (removed es q cn ep)
  have "Called (DeleteAccountAPI a) \<notin> set (es @ [Called q])" using removed by (auto simp: list_all_iff)
  moreover have "(es @ [Called q]) @ [Called (DeleteAccountAPI (map_get (obn_AdditionalState cn) ''account''))]
      = es1 @ Called (DeleteAccountAPI a) # es2" using removed assms(2) by simp
  ultimately have "es1 = es @ [Called q]" "es2 = []" "a = map_get (obn_AdditionalState cn) ''account''"
    by (auto simp: append_eq_append_conv2 append_eq_Cons_conv Cons_eq_append_conv)
  then show ?thesis using removed by blast
qed

subsection \<open>From provision to deletion\<close>

lemma CreateAccount_ok:
  assumes "CreateAccount e r s = (Ok r1, s')"
    and conn: "ob_Connection (r_OB r) = Some \<lparr>obn_Endpoint = Some ep, obn_AdditionalState = Some st, obn_AccessKeys = None\<rparr>"
  obtains p keys arn where "Called (CreateAccountAPI p) \<in> set (drop (length (hist s)) (hist s'))" "account_of r p"
    "ob_Connection (r_OB r1) = Some \<lparr>obn_Endpoint = Some ep, obn_AdditionalState = Some (st(''arn'' \<mapsto> arn)), obn_AccessKeys = Some keys\<rparr>"
proof -
  from assms(1) obtain resource nsfs a w s2 keys ob where
    w: "(if akr_AccessKeys a = []
            then bindp (query (ReadAccountAPI (r_AccountName r)) (\<lambda>h. c_ReadAccount (oe_cluster e) h (r_AccountName r))) reply
            else ret a) (s\<lparr>hist := hist s @ [Called (CreateAccountAPI (claim_account r resource nsfs))]\<rparr>) = (Ok w, s2)"
    and ob: "with_keys (r_OB r) keys (akr_ARN a) = Ok ob" "r1 = r\<lparr>r_OB := ob\<rparr>" "s' = s2"
    unfolding CreateAccount_def Let_def query_def reply_def
    by (auto elim!: bindp_OkE split: sum.splits)
  have "\<exists>es. hist s2 = (hist s @ [Called (CreateAccountAPI (claim_account r resource nsfs))]) @ es"
    using w by (auto simp: query_def reply_def split: if_splits sum.splits)
  then have "Called (CreateAccountAPI (claim_account r resource nsfs)) \<in> set (drop (length (hist s)) (hist s'))"
    using ob(3) by auto
  moreover have "account_of r (claim_account r resource nsfs)" by (simp add: account_of_def claim_account_def)
  ultimately show ?thesis using that ob(1,2) conn by (auto simp: with_keys_def)
qed



subsection \<open>Claims for buckets that exist\<close>

definition reads_only :: "string \<Rightarrow> event \<Rightarrow> bool" where
  "reads_only n ev \<longleftrightarrow> ev = Looked \<or> (\<exists>x. ev = Updated (ONooBaa x)) \<or> ev = Called (ReadBucketAPI n) \<or> ev = Called (GetVectorBucketAPI n)"

lemma CreateAndUpdateBucket_refused:
  "ensure_new_bucket e r (is_vector_request r) s = (Err x, s1) \<Longrightarrow> CreateAndUpdateBucket e r s = (Err x, s1)"
  by (simp add: CreateAndUpdateBucket_def is_vector_request_def Let_def)

text \<open>
  A claim never takes over a bucket: when the core shows a bucket (or a vector bucket) of the requested name, \<open>Provision\<close>
  ends with an error and changes nothing there; the run makes no call but reads of that bucket.  The only write it can
  send is the update of the system resource with its missing labels and finalizer.
\<close>

theorem existing_bucket_refused:
  assumes run: "Provision e bo s = (res, s')"
    and exists: "\<And>h. \<exists>b. oe_ReadBucket e h (bo_BucketName bo) = Inr b"
    and vector: "\<And>h. c_call (oe_cluster e) h (GetVectorBucketAPI (bo_BucketName bo)) = None"
  shows "(\<forall>ob. res \<noteq> Ok ob) \<and> (\<exists>es. hist s' = hist s @ es \<and> list_all (reads_only (bo_BucketName bo)) es)"
proof -
  let ?n = "bo_BucketName bo"
  have ensure: "\<exists>ev x. ensure_new_bucket e r v t = (Err x, t\<lparr>hist := hist t @ [ev]\<rparr>) \<and> reads_only ?n ev"
    if "r_BucketName r = ?n" for r v and t :: "(event, 'a) logged_scheme"
    using exists [of "hist t"] vector [of "hist t"] that by (auto simp: ensure_new_bucket_def reads_only_def query_def)
  have em: "emits (reads_only ?n) (seqp (lift (ValidateOBC e (Some (bo_ObjectBucketClaim bo)) False)) (NewBucketRequest e (Inr bo)))"
    by (intro emit_rules) (auto simp: reads_only_def)
  let ?m = "seqp (lift (ValidateOBC e (Some (bo_ObjectBucketClaim bo)) False)) (NewBucketRequest e (Inr bo))"
  obtain rq s1 where req: "?m s = (rq, s1)" by (cases "?m s")
  obtain es where es: "hist s1 = hist s @ es" "list_all (reads_only ?n) es" using emitsD [OF em req] .
  have split: "Provision e bo = bindp ?m (\<lambda>r. seqp (refuse_deleting r) (seqp (CreateAndUpdateBucket e r) (provision_account e r)))"
    by (simp add: Provision_def provision_account_def proc_assoc)
  show ?thesis
  proof (cases rq)
    case (Ok r)
    have "r_BucketName r = ?n" using req Ok by (auto elim!: seqp_OkE dest: claim_request(1))
    from ensure [OF this, where t = s1 and v = "is_vector_request r"]
    have refused: "\<exists>ev x. CreateAndUpdateBucket e r s1 = (Err x, s1\<lparr>hist := hist s1 @ [ev]\<rparr>) \<and> reads_only ?n ev"
      by (auto dest: CreateAndUpdateBucket_refused)
    have "seqp (refuse_deleting r) (seqp (CreateAndUpdateBucket e r) (provision_account e r)) s1 = (res, s')"
      using run req Ok by (simp add: split)
    then show ?thesis using refused es by (auto simp: refuse_deleting_def Let_def split: if_splits)
  qed (use run req es in \<open>auto simp: split\<close>)
qed


subsection \<open>A concrete claim\<close>

definition ex_claim :: ObjectBucketClaim where
  "ex_claim = \<lparr>obc_Meta = (ex_meta ''claim'')\<lparr>om_Namespace := ''app''\<rparr>, obc_StorageClassName = ''noobaa'', obc_BucketName = ''bucket'',
     obc_AdditionalConfig = Some [''bucketclass'' \<mapsto> ''class'']\<rparr>"

definition ex_options :: BucketOptions where
  "ex_options = \<lparr>bo_BucketName = ''bucket'', bo_ObjectBucketClaim = ex_claim, bo_Parameters = None\<rparr>"

definition ex_missing :: rpc_error where
  "ex_missing = RemoteError ''NO_SUCH_BUCKET'' ''no such bucket''"

fun is_create :: "event \<Rightarrow> bool" where
  "is_create (Called (CreateBucketAPI p)) = True"
| "is_create _ = False"

definition ex_bucket :: BucketInfo where
  "ex_bucket = \<lparr>bi_Name = ''bucket'', bi_BucketType = ''REGULAR'', bi_BucketClaim = None, bi_Tiering = None, bi_DataCapacity = None,
     bi_NumObjects = None, bi_Quota = None\<rparr>"

definition ex_ready_class :: BucketClass where
  "ex_ready_class = ex_bc\<lparr>bc_Status := (bc_Status ex_bc)\<lparr>bct_Phase := BucketClassPhaseReady\<rparr>\<rparr>"

definition ex_obc_env :: obc_env where
  "ex_obc_env = \<lparr>oe_cluster = ex_cluster\<lparr>c_BucketClass := (\<lambda>_ _ _. Inr ex_ready_class)\<rparr>,
     oe_ReadBucket = (\<lambda>h _. if list_ex is_create h then Inr ex_bucket else Inl ex_missing),
     oe_Hostname = id, oe_Port = (\<lambda>_. ''443''), oe_ParseRequestURI = Inr,
     oe_repl = \<lparr>re_decode = (\<lambda>s. (s, None)), re_rules = (\<lambda>_. 1), re_print = id, re_connect = (\<lambda>_. pass), re_validate = (\<lambda>_ _. pass)\<rparr>,
     oe_decode_nsfs = (\<lambda>_. Inl ''bad''), oe_NewSession = (\<lambda>_. None), oe_PutBucketTagging = (\<lambda>_ _ _. None), oe_range = (\<lambda>_. [])\<rparr>"

lemmas ex_obc_defs = ex_obc_env_def ex_options_def ex_claim_def ex_missing_def ex_bucket_def ex_ready_class_def

lemma ex_obc_env_simps [simp]:
  "oe_ReadBucket ex_obc_env h n = (if list_ex is_create h then Inr ex_bucket else Inl ex_missing)"
  "oe_Hostname ex_obc_env u = u" "oe_Port ex_obc_env u = ''443''" "oe_NewSession ex_obc_env u = None"
  "c_call (oe_cluster ex_obc_env) h q = None" "c_Now (oe_cluster ex_obc_env) h = 0" "c_Namespace (oe_cluster ex_obc_env) = ''noobaa''"
  "c_BucketClass (oe_cluster ex_obc_env) h ns n = Inr ex_ready_class"
  "c_CreateAccount (oe_cluster ex_obc_env) h p = Inr \<lparr>akr_ARN = ''arn'', akr_AccessKeys = []\<rparr>"
  "c_ReadAccount (oe_cluster ex_obc_env) h n = Inr \<lparr>akr_ARN = ''arn'', akr_AccessKeys = [\<lparr>ak_AccessKey = ''key'', ak_SecretKey = ''pw''\<rparr>]\<rparr>"
  by (simp_all add: ex_obc_env_def ex_cluster_def)

lemma ParseInt_443: "ParseInt 64 ''443'' = Some 443"
  by code_simp

lemma show_hex_zero [simp]: "show_hex_int 0 = ''0''"
  by (simp add: show_hex_int_def show_hex.simps)

definition ex_client :: Client where
  "ex_client = \<lparr>cl_NooBaa = ex_system, cl_S3URL = ''https://s3'', cl_VectorsURL = ''https://vectors'',
     cl_SecretAdmin = SecretResetStringDataFromData (ex_secret_of ''noobaa'' ''noobaa-admin'')\<rparr>"

lemma ConnectClient_ex:
  "ConnectClient (oe_cluster ex_obc_env) s = (Ok ex_client, s\<lparr>hist := hist s @ [Looked, Looked, Looked, Looked]\<rparr>)"
  by (simp add: ConnectClient_def CheckSystem_def look_def ex_cluster_def ex_system_def ex_nb_def ex_meta_def Let_def ex_obc_env_def
      EnsureCommonMetaFields_def AddFinalizer_def map_get_def ex_secret_of_def SecretResetStringDataFromData_def url_ok_def ex_client_def)

definition ex_request :: BucketRequest where
  "ex_request = \<lparr>r_OB = \<lparr>ob_Name = '''', ob_Connection = Some \<lparr>
      obn_Endpoint = Some \<lparr>obe_BucketHost = ''https://s3'', obe_BucketPort = 443, obe_BucketName = ''bucket'',
        obe_AdditionalConfigData = Some [''bucketclass'' \<mapsto> ''class'']\<rparr>,
      obn_AdditionalState = Some [''account'' \<mapsto> ''obc-account.bucket.0@noobaa.io'', ''bucketclass'' \<mapsto> ''class'',
        ''bucketclassgeneration'' \<mapsto> show_int (om_Generation (ex_meta ''class''))],
      obn_AccessKeys = None\<rparr>, ob_ClaimNamespace = None\<rparr>,
    r_OBC = Some ex_claim, r_BucketName = ''bucket'', r_AccountName = ''obc-account.bucket.0@noobaa.io'',
    r_SysClient = ex_client, r_BucketClass = Some ex_ready_class\<rparr>"

lemma NewBucketRequest_ex:
  "NewBucketRequest ex_obc_env (Inr ex_options) s = (Ok ex_request, s\<lparr>hist := hist s @ [Looked, Looked, Looked, Looked, Looked]\<rparr>)"
  by (simp add: NewBucketRequest_def ConnectClient_ex service_port_def new_claim_request_def now_unix_def getBucketClass_def
      getBucketClassByName_def look_def bucket_class_name_def ex_options_def ex_claim_def ex_ready_class_def ParseInt_443 Let_def
      map_get_def ex_bc_def bucket_address_def IsRemoteObcAnnotation_def GetAnnotationValue_def ex_meta_def ex_bc_spec_def ex_request_def ex_client_def)


lemma show_nat_0: "show_nat 0 = ''0''"
  by code_simp

definition ex_tier_calls :: "event list" where
  "ex_tier_calls = [Called (ReadBucketAPI ''bucket''),
     Called (CreateTierAPI \<lparr>ti_Name = ''bucket.0.0'', ti_DataPlacement = ''SPREAD'', ti_AttachedPools = [''store'']\<rparr>),
     Called (CreateTieringPolicyAPI ''bucket.0'' [(0, ''bucket.0.0'')])]"

definition ex_create :: rpc where
  "ex_create = CreateBucketAPI \<lparr>cbp_Name = ''bucket'', cbp_Tiering = ''bucket.0'',
     cbp_BucketClaim = Some \<lparr>bci_BucketClass = ''class'', bci_Namespace = ''app''\<rparr>, cbp_Quota = None, cbp_Namespace = None, cbp_ArchivePolicy = None\<rparr>"


lemma CreateAndUpdateBucket_ex:
  "CreateAndUpdateBucket ex_obc_env ex_request \<lparr>hist = [Looked, Looked, Looked, Looked, Looked]\<rparr> = (Ok (),
     \<lparr>hist = [Looked, Looked, Looked, Looked, Looked] @ ex_tier_calls @ [Called ex_create, Called (ReadBucketAPI ''bucket'')]\<rparr>)"
  by (simp add: QuotaConfig_IsEqual_def CreateAndUpdateBucket_def ensure_new_bucket_def create_bucket_def placement_params_def CreateTieringStructure_def
      create_tier_def now_unix_def namespace_bucket_params_def UpdateBucket_def quota_of_def ob_endpoint_def GetQuotaConfig_def
      query_def ex_request_def ex_claim_def ex_ready_class_def ex_bc_def ex_bc_spec_def ex_meta_def ex_missing_def ex_bucket_def
      Let_def map_get_def ex_tier_calls_def ex_create_def show_nat_0 run_defs claim_info_def del: run_rules)


definition ex_ob :: ObjectBucket where
  "ex_ob = (r_OB ex_request)\<lparr>ob_Connection := map_option (\<lambda>cn. cn\<lparr>obn_AccessKeys := Some \<lparr>ak_AccessKey = ''key'', ak_SecretKey = ''pw''\<rparr>,
     obn_AdditionalState := map_option (\<lambda>m. m(''arn'' \<mapsto> ''arn'')) (obn_AdditionalState cn)\<rparr>) (ob_Connection (r_OB ex_request))\<rparr>"

definition ex_before :: "event list" where
  "ex_before = [Looked, Looked, Looked, Looked, Looked] @ ex_tier_calls @ [Called ex_create, Called (ReadBucketAPI ''bucket'')]"

lemma provision_account_ex:
  "provision_account ex_obc_env ex_request \<lparr>hist = h\<rparr> = (Ok ex_ob,
     \<lparr>hist = h @ [Called (CreateAccountAPI (claim_account ex_request ''store'' None)), Called (ReadAccountAPI (r_AccountName ex_request))]\<rparr>)"
  by (simp add: provision_account_def CreateAccount_def default_resource_def nsfs_account_config_def query_def reply_def first_keys_def
      with_keys_def ex_ob_def ex_request_def ex_ready_class_def ex_bc_def ex_bc_spec_def ex_claim_def ex_meta_def map_get_def
      UpdateBucketTagging_def is_vector_request_def Let_def run_defs del: run_rules)

lemma Provision_ex:
  "Provision ex_obc_env ex_options \<lparr>hist = []\<rparr> = (Ok ex_ob, \<lparr>hist = ex_before @
     [Called (CreateAccountAPI (claim_account ex_request ''store'' None)), Called (ReadAccountAPI (r_AccountName ex_request))]\<rparr>)"
proof -
  have "ValidateOBC ex_obc_env (Some ex_claim) False = pass"
    by (simp add: ValidateOBC_def validateAdditionalConfig_def ex_claim_def map_get_def ValidateQuotaConfig_def ValidateReplicationPolicy_def
        ValidateNSFSAccountConfig_def Let_def)
  moreover have "refuse_deleting ex_request s = (Ok (), s)" for s :: "event logged"
    by (simp add: refuse_deleting_def ex_request_def ex_client_def ex_system_def ex_nb_def ex_meta_def)
  moreover have "bo_ObjectBucketClaim ex_options = ex_claim" by (simp add: ex_options_def)
  ultimately show ?thesis
    by (simp add: Provision_parts provision_bucket_def NewBucketRequest_ex CreateAndUpdateBucket_ex provision_account_ex ex_before_def
        run_defs del: run_rules)
qed

theorem account_after_bucket_witness:
  "bucket_created ex_obc_env [] ex_before ''bucket'' \<and> cap_BucketClaimOwner (claim_account ex_request ''store'' None) = ''bucket''"
  using account_after_bucket [OF Provision_ex, of ex_before "claim_account ex_request ''store'' None"]
  by (simp add: ex_options_def)

lemma Delete_ex:
  "Delete ex_obc_env ex_ob \<lparr>hist = h\<rparr> = (Ok (), \<lparr>hist = (h @ [Looked, Looked, Looked, Looked, Looked, Called (DeleteBucketAndObjectsAPI ''bucket'')])
     @ [Called (DeleteAccountAPI ''obc-account.bucket.0@noobaa.io'')]\<rparr>)"
  by (simp add: Delete_def NewBucketRequest_def ConnectClient_ex service_port_def ParseInt_443 new_bucket_request_def getBucketClassByName_def
      look_def ex_ob_def ex_request_def map_get_def Let_def DeleteBucket_run DeleteAccount_run delete_call_def ob_endpoint_def
      ex_ready_class_def ex_bc_def ex_bc_spec_def gone_def)

theorem account_kept_until_bucket_gone_witness:
  "\<exists>q. Called (DeleteBucketAndObjectsAPI ''bucket'') = Called q \<and> removes ''bucket'' q \<and>
     gone ex_obc_env [Looked, Looked, Looked, Looked, Looked] q ''NO_SUCH_BUCKET''"
  using account_kept_until_bucket_gone [OF Delete_ex [where h = "[]"],
      of "[Looked, Looked, Looked, Looked, Looked, Called (DeleteBucketAndObjectsAPI ''bucket'')]" "''obc-account.bucket.0@noobaa.io''" "[]"]
  by (auto simp: ex_ob_def ex_request_def)


theorem existing_bucket_refused_witness:
  "\<exists>x s'. Provision (ex_obc_env\<lparr>oe_ReadBucket := (\<lambda>_ _. Inr ex_bucket)\<rparr>) ex_options \<lparr>hist = []\<rparr> = (x, s') \<and> list_all (reads_only ''bucket'') (hist s')"
  using existing_bucket_refused [of "ex_obc_env\<lparr>oe_ReadBucket := (\<lambda>_ _. Inr ex_bucket)\<rparr>" ex_options "\<lparr>hist = []\<rparr>"]
  by (cases "Provision (ex_obc_env\<lparr>oe_ReadBucket := (\<lambda>_ _. Inr ex_bucket)\<rparr>) ex_options \<lparr>hist = []\<rparr>") (simp add: ex_options_def)

end
