(* ===== verification/Nb_Router.thy ===== *)
theory Nb_Router
  imports Prelude "HOL-Library.Word"
begin

text \<open>
  Services of the cluster and the routers that map an API of the core to an address
  (\<^verbatim>\<open>pkg/nb/router.go\<close>), with the addresses of a service (\<open>GetFormattedEndpoint\<close> of
  \<^verbatim>\<open>pkg/util/util.go\<close>).  The numeric value of a target port (\<^verbatim>\<open>intstr\<close>) is an argument.
\<close>

section \<open>Services\<close>

datatype IntOrString = IntPort int | StringPort string

record ServicePort =
  sp_Name :: string
  sp_Port :: int
  sp_NodePort :: int
  sp_TargetPort :: IntOrString

record LoadBalancerIngress =
  lbi_IP :: string
  lbi_Hostname :: string

record Service =
  svc_Name :: string
  svc_Namespace :: string
  svc_Ports :: "ServicePort list"
  svc_Selector :: "string \<rightharpoonup> string"
  svc_ClusterIP :: string
  svc_ExternalIPs :: "string list"
  svc_Ingress :: "LoadBalancerIngress list"

definition no_port :: ServicePort where
  "no_port = \<lparr>sp_Name = '''', sp_Port = 0, sp_NodePort = 0, sp_TargetPort = IntPort 0\<rparr>"

definition FindPortByName :: "Service \<Rightarrow> string \<Rightarrow> ServicePort" where
  "FindPortByName srv portName = (case first_with sp_Name portName (svc_Ports srv) of Some p \<Rightarrow> p | None \<Rightarrow> no_port)"

definition GetAPIPortName :: "string \<Rightarrow> string" where
  "GetAPIPortName api =
     (if api = ''scrubber_api'' then ''bg-https''
      else if api = ''hosted_agents_api'' then ''hosted-agents-https''
      else ''mgmt-https'')"

section \<open>Addresses\<close>

definition JoinHostPort :: "string \<Rightarrow> string \<Rightarrow> string" where
  "JoinHostPort host port = (if CHR '':'' \<in> set host then ''['' @ host @ '']:'' @ port else host @ '':'' @ port)"

definition GetFormattedEndpoint :: "string \<Rightarrow> string \<Rightarrow> int \<Rightarrow> string" where
  "GetFormattedEndpoint scheme host port = scheme @ ''://'' @ JoinHostPort host (show_int port)"

section \<open>Port forwarding\<close>

text \<open>
  The forwarder logs a line per port; the dots of the pattern stand for any character but a line break, which a line
  does not have.  A number that is no 16-bit number panics.
\<close>

definition all_digits :: "string \<Rightarrow> bool" where
  "all_digits s \<longleftrightarrow> s \<noteq> [] \<and> list_all (\<lambda>c. digit c \<noteq> None) s"

fun match_prefix :: "string \<Rightarrow> string \<Rightarrow> string option" where
  "match_prefix [] s = Some s"
| "match_prefix (p # ps) [] = None"
| "match_prefix (p # ps) (c # cs) = (if p = CHR ''.'' \<or> p = c then match_prefix ps cs else None)"

definition forwardingLogRE :: "string \<Rightarrow> (string \<times> string) option" where
  "forwardingLogRE line = (case match_prefix ''Forwarding from 127.0.0.1:'' line of
     None \<Rightarrow> None
   | Some rest \<Rightarrow>
       (let local = takeWhile (\<lambda>c. digit c \<noteq> None) rest; rest2 = dropWhile (\<lambda>c. digit c \<noteq> None) rest in
        if local = [] \<or> \<not> HasPrefix rest2 '' -> '' then None
        else let remote = TrimPrefix rest2 '' -> '' in
             if all_digits remote then Some (local, remote) else None))"

definition ParseUint16 :: "string \<Rightarrow> 16 word option" where
  "ParseUint16 s = (if \<not> all_digits s then None
     else case parse_digits 0 s of None \<Rightarrow> None | Some n \<Rightarrow> if n < 2 ^ 16 then Some (word_of_nat n) else None)"

fun port_map :: "string list \<Rightarrow> (16 word \<rightharpoonup> 16 word) \<Rightarrow> (16 word \<rightharpoonup> 16 word) result" where
  "port_map [] m = Ok m"
| "port_map (line # lines) m = (case forwardingLogRE line of
     None \<Rightarrow> port_map lines m
   | Some (local, remote) \<Rightarrow>
       (case (ParseUint16 local, ParseUint16 remote) of
          (Some l, Some r) \<Rightarrow> port_map lines (m(r \<mapsto> l))
        | _ \<Rightarrow> Panic))"

definition parse_forwarding :: "string \<Rightarrow> (16 word \<rightharpoonup> 16 word) result" where
  "parse_forwarding out = port_map (Split out (byte 10)) Map.empty"

section \<open>Routers\<close>

datatype APIRouter =
    APIRouterPortForward Service "16 word \<rightharpoonup> 16 word"
  | APIRouterPodPort Service string
  | APIRouterNodePort Service string
  | APIRouterServicePort Service
  | SimpleRouter string

fun GetAddress :: "(IntOrString \<Rightarrow> int) \<Rightarrow> APIRouter \<Rightarrow> string \<Rightarrow> string" where
  "GetAddress IntValue (APIRouterPortForward svc m) api =
     (let port = IntValue (sp_TargetPort (FindPortByName svc (GetAPIPortName api)));
          localPort = (case m (word_of_int port) of Some p \<Rightarrow> p | None \<Rightarrow> 0)
      in ''wss://localhost:'' @ show_nat (unat localPort) @ ''/rpc/'')"
| "GetAddress IntValue (APIRouterPodPort svc ip) api =
     (let port = IntValue (sp_TargetPort (FindPortByName svc (GetAPIPortName api)))
      in ''wss://'' @ JoinHostPort ip (show_int port) @ ''/rpc/'')"
| "GetAddress IntValue (APIRouterNodePort svc ip) api =
     GetFormattedEndpoint ''wss'' ip (sp_NodePort (FindPortByName svc (GetAPIPortName api)))"
| "GetAddress IntValue (APIRouterServicePort svc) api =
     ''wss://'' @ svc_Name svc @ ''.'' @ svc_Namespace svc @ ''.svc.cluster.local:''
       @ show_int (sp_Port (FindPortByName svc (GetAPIPortName api))) @ ''/rpc/''"
| "GetAddress IntValue (SimpleRouter address) api = address"

end
