(* ===== verification/Rpc_Wire.thy ===== *)
theory Rpc_Wire
  imports Nb_Router
begin

text \<open>
  The messages of the management API as they travel (\<^verbatim>\<open>pkg/nb/rpc.go\<close>, \<^verbatim>\<open>pkg/nb/rpc_ws.go\<close>,
  \<^verbatim>\<open>pkg/nb/rpc_http.go\<close>): the frame of a websocket message with its two 32-bit big-endian numbers, the
  body of an HTTP reply, and the buffers that follow a body.  JSON and the transport are arguments.
\<close>

section \<open>Messages\<close>

record RPCError =
  re_RPCCode :: string
  re_Message :: string

record RPCBuffer =
  rb_Name :: string
  rb_Length :: int
  rb_Buffer :: string

text \<open>The parameters of a request and the reply are JSON values, held as their text.\<close>

record RPCMessage =
  m_Op :: string
  m_API :: string
  m_Method :: string
  m_RequestID :: string
  m_AuthToken :: string
  m_Error :: "RPCError option"
  m_Params :: string
  m_Reply :: string
  m_Buffers :: "RPCBuffer list"
  m_RawBytes :: string

definition RPCVersionNumber :: "32 word" where "RPCVersionNumber = 0xba000000"

definition RPCMaxMessageSize :: nat where "RPCMaxMessageSize = 64 * 1024 * 1024"

section \<open>Slices\<close>

text \<open>
  A slice is a window on a longer array: \<open>s[i:j]\<close> is bounded by the capacity, not by the length.  A slice of
  bytes is its array from its first byte on; the operations below only look at that array.
\<close>

definition slice :: "string \<Rightarrow> int \<Rightarrow> int \<Rightarrow> string result" where
  "slice backing i j = (if 0 \<le> i \<and> i \<le> j \<and> j \<le> int (length backing)
     then Ok (take (nat j - nat i) (drop (nat i) backing)) else Panic)"

fun set_buffers :: "string \<Rightarrow> int \<Rightarrow> RPCBuffer list \<Rightarrow> RPCBuffer list result" where
  "set_buffers backing pos [] = Ok []"
| "set_buffers backing pos (b # bs) =
     bind_r (slice backing pos (pos + rb_Length b)) (\<lambda>part.
     bind_r (set_buffers backing (pos + rb_Length b) bs) (\<lambda>rest. Ok (b\<lparr>rb_Buffer := part\<rparr> # rest)))"

definition SetBuffers :: "RPCMessage \<Rightarrow> string \<Rightarrow> RPCMessage result" where
  "SetBuffers msg backing = bind_r (set_buffers backing 0 (m_Buffers msg)) (\<lambda>bs. Ok (msg\<lparr>m_Buffers := bs\<rparr>))"

section \<open>Frames\<close>

text \<open>\<^verbatim>\<open>binary.Write\<close> and \<^verbatim>\<open>binary.Read\<close> of a 32-bit number.\<close>

definition be32 :: "32 word \<Rightarrow> string" where
  "be32 w = map (\<lambda>i. byte (unat w div 256 ^ i mod 256)) [3, 2, 1, 0]"

definition unexpected_EOF :: go_error where "unexpected_EOF = PlainError ''unexpected EOF''"

definition word_of_bytes :: "nat \<Rightarrow> nat \<Rightarrow> nat \<Rightarrow> nat \<Rightarrow> 32 word" where
  "word_of_bytes a b c d = word_of_nat (((a * 256 + b) * 256 + c) * 256 + d)"

definition read_be32 :: "string \<Rightarrow> (32 word \<times> string) result" where
  "read_be32 s = (case s of
     a # b # c # d # rest \<Rightarrow>
       Ok (word_of_bytes (of_char a) (of_char b) (of_char c) (of_char d), rest)
   | [] \<Rightarrow> Err (PlainError ''EOF'')
   | _ \<Rightarrow> Err unexpected_EOF)"

text \<open>What \<open>SendMessage\<close> writes for a marshalled message; the length is converted to 32 bits.\<close>

definition frame :: "string \<Rightarrow> string" where
  "frame body = be32 RPCVersionNumber @ be32 (word_of_nat (length body)) @ body"

text \<open>
  \<open>SendMessage\<close> opens a writer, marshals and writes; \<open>ws_write\<close> is the error of the first write that
  fails, and the bytes go out as one message.
\<close>

record wire =
  w_Marshal :: "RPCMessage \<Rightarrow> go_error + string"
  w_Unmarshal :: "string \<Rightarrow> go_error + RPCMessage"
  w_spare :: "string \<Rightarrow> string"

definition SendMessage :: "wire \<Rightarrow> go_error option \<Rightarrow> go_error option \<Rightarrow> RPCMessage \<Rightarrow> string result" where
  "SendMessage w open_error write_error msg = (case open_error of
     Some e \<Rightarrow> Err e
   | None \<Rightarrow> (case w_Marshal w msg of
       Inl e \<Rightarrow> Err e
     | Inr body \<Rightarrow> (case write_error of Some e \<Rightarrow> Err e | None \<Rightarrow> Ok (frame body))))"

text \<open>
  \<open>ReadMessage\<close> of the bytes of one websocket message.  \<open>w_spare\<close> is what lies behind the bytes that
  \<^verbatim>\<open>io.ReadAll\<close> returns, up to the capacity of its result.
\<close>

definition ReadMessage :: "wire \<Rightarrow> string \<Rightarrow> RPCMessage result" where
  "ReadMessage w input =
     bind_r (read_be32 input) (\<lambda>(rpcVersionNumber, rest1).
     bind_r (read_be32 rest1) (\<lambda>(bodySize, rest).
     if rpcVersionNumber \<noteq> RPCVersionNumber then
       Err (PlainError (''RPC: mismatch RPC version number expected '' @ show_nat (unat RPCVersionNumber) @ '' received ''
         @ show_nat (unat rpcVersionNumber)))
     else if unat bodySize > RPCMaxMessageSize then
       Err (PlainError (''RPC: message body too big '' @ show_nat (unat bodySize)))
     else if length rest < unat bodySize then
       Err (if rest = [] then PlainError ''EOF'' else unexpected_EOF)
     else
       (let msgBytes = take (unat bodySize) rest; buffers = drop (unat bodySize) rest in
        case w_Unmarshal w msgBytes of
          Inl e \<Rightarrow> Err e
        | Inr msg0 \<Rightarrow>
            (let msg = msg0\<lparr>m_RawBytes := msgBytes\<rparr> in
             if m_Buffers msg = [] then Ok msg else SetBuffers msg (buffers @ w_spare w buffers)))))"

section \<open>HTTP\<close>

text \<open>
  \<open>Call\<close> over HTTP: the header gives the length of the JSON body, and the rest of the reply is the buffers.
  \<open>reply\<close> is the reply of the server: its header and body, or an error.
\<close>

definition http_Call :: "wire \<Rightarrow> (RPCMessage \<Rightarrow> go_error + (string \<times> (go_error + string))) \<Rightarrow> RPCMessage \<Rightarrow> RPCMessage result" where
  "http_Call w Do req = (case w_Marshal w req of
     Inl e \<Rightarrow> Panic
   | Inr _ \<Rightarrow> (case Do req of
       Inl e \<Rightarrow> Err e
     | Inr (header, body) \<Rightarrow> (case ParseInt 64 header of
         None \<Rightarrow> Err (PlainError (''strconv.ParseInt: parsing '' @ go_quote header @ '': ''
           @ (if ParseInt_syntax header then ''value out of range'' else ''invalid syntax'')))
       | Some bodyLen \<Rightarrow> (case body of
           Inl e \<Rightarrow> Err e
         | Inr resBytes \<Rightarrow>
             bind_r (slice (resBytes @ w_spare w resBytes) 0 bodyLen) (\<lambda>jsonBytes.
             case w_Unmarshal w jsonBytes of
               Inl e \<Rightarrow> Err e
             | Inr res \<Rightarrow>
                 if int (length resBytes) < bodyLen then Panic
                 else (let buffers = drop (nat bodyLen) resBytes in
                       if buffers = [] then Ok res else SetBuffers res (buffers @ w_spare w resBytes)))))))"


section \<open>Round trip and bounds\<close>

lemma of_char_byte: "n < 256 \<Longrightarrow> of_char (byte n) = n"
  by (simp add: byte_def)

lemma split_256: "u < 256 ^ 4 \<Longrightarrow> ((u div 256 ^ 3 mod 256 * 256 + u div 256 ^ 2 mod 256) * 256 + u div 256 mod 256) * 256 + u mod 256 = u"
  for u :: nat
proof -
  assume u: "u < 256 ^ 4"
  have parts: "u div 256 ^ 3 = u div 256 div 256 div 256" "u div 256 ^ 2 = u div 256 div 256" by (simp_all add: div_mult2_eq [symmetric])
  have "u div 256 div 256 div 256 < 256" using u by (simp add: div_mult2_eq [symmetric])
  then have "u div 256 ^ 3 mod 256 * 256 + u div 256 ^ 2 mod 256 = u div 256 div 256" unfolding parts by simp
  then show ?thesis by (simp only: div_mult_mod_eq)
qed

lemma read_be32_be32 [simp]: "read_be32 (be32 w @ rest) = Ok (w, rest)"
proof -
  have "unat w < 256 ^ 4" using unsigned_less [of w] by simp
  then have "word_of_bytes (unat w div 256 ^ 3 mod 256) (unat w div 256 ^ 2 mod 256) (unat w div 256 mod 256) (unat w mod 256) = w"
    unfolding word_of_bytes_def by (simp only: split_256) simp
  then show ?thesis by (simp add: be32_def read_be32_def of_char_byte)
qed

lemma length_be32 [simp]: "length (be32 w) = 4"
  by (simp add: be32_def)

lemma unat_length: "length xs < 2 ^ 32 \<Longrightarrow> unat (word_of_nat (length xs) :: 32 word) = length xs"
  by (simp add: unat_of_nat)

lemma frame_read:
  assumes "length body < 2 ^ 32"
  shows "ReadMessage w (frame body) =
     (if length body > RPCMaxMessageSize then Err (PlainError (''RPC: message body too big '' @ show_nat (length body)))
      else case w_Unmarshal w body of
        Inl e \<Rightarrow> Err e
      | Inr msg0 \<Rightarrow> if m_Buffers msg0 = [] then Ok (msg0\<lparr>m_RawBytes := body\<rparr>) else SetBuffers (msg0\<lparr>m_RawBytes := body\<rparr>) (w_spare w []))"
  using assms by (simp add: ReadMessage_def frame_def unat_length Let_def split: sum.split)



lemma read_be32_OkE:
  assumes "read_be32 s = Ok (n, rest)"
  shows "length s = 4 + length rest"
  using assms by (auto simp: read_be32_def split: list.splits)

lemma set_buffers_raw: "SetBuffers msg backing = Ok msg' \<Longrightarrow> m_RawBytes msg' = m_RawBytes msg"
  by (auto simp: SetBuffers_def bind_r_eq_Ok)

text \<open>
  C24. The reader is bounded: whatever bytes a peer sends, a message that \<open>ReadMessage\<close> accepts has a body of at most
  64 MiB, which lies in the bytes received after the two numbers.
\<close>

theorem read_message_bounded:
  assumes "ReadMessage w input = Ok msg"
  shows "length (m_RawBytes msg) \<le> RPCMaxMessageSize \<and> length (m_RawBytes msg) + 8 \<le> length input"
proof -
  from assms obtain v rest1 n rest where r1: "read_be32 input = Ok (v, rest1)" and r2: "read_be32 rest1 = Ok (n, rest)"
    and n: "unat n \<le> RPCMaxMessageSize" "unat n \<le> length rest" and raw: "m_RawBytes msg = take (unat n) rest"
    unfolding ReadMessage_def
    by (auto simp: bind_r_eq_Ok Let_def dest: set_buffers_raw split: if_splits sum.splits)
  from read_be32_OkE [OF r1] read_be32_OkE [OF r2] n raw show ?thesis by simp
qed

text \<open>The buffers of a message are consecutive parts of what follows its body.\<close>

lemma set_buffers_Ok:
  "0 \<le> pos \<Longrightarrow> set_buffers backing pos bs = Ok bs' \<Longrightarrow>
     (\<forall>b \<in> set bs. 0 \<le> rb_Length b) \<and> (bs \<noteq> [] \<longrightarrow> pos + sum_list (map rb_Length bs) \<le> int (length backing)) \<and>
     concat (map rb_Buffer bs') = take (nat (sum_list (map rb_Length bs))) (drop (nat pos) backing)"
proof (induction bs arbitrary: pos bs')
  case (Cons b bs)
  let ?p = "pos + rb_Length b"
  from Cons.prems obtain rest where part: "0 \<le> rb_Length b" "?p \<le> int (length backing)"
    and rest: "set_buffers backing ?p bs = Ok rest"
    and bs': "bs' = b\<lparr>rb_Buffer := take (nat (rb_Length b)) (drop (nat pos) backing)\<rparr> # rest"
    by (auto simp: bind_r_eq_Ok slice_def nat_add_distrib split: if_splits)
  have "0 \<le> ?p" using Cons.prems(1) part(1) by simp
  note IH = Cons.IH [OF this rest]
  have sum: "0 \<le> sum_list (map rb_Length bs)" using IH by (intro sum_list_nonneg) auto
  have "concat (map rb_Buffer bs') = take (nat (rb_Length b)) (drop (nat pos) backing)
      @ take (nat (sum_list (map rb_Length bs))) (drop (nat (rb_Length b)) (drop (nat pos) backing))"
    using IH Cons.prems(1) part(1) by (simp add: bs' nat_add_distrib add.commute)
  then have "concat (map rb_Buffer bs') = take (nat (sum_list (map rb_Length (b # bs)))) (drop (nat pos) backing)"
    using sum part(1) by (simp add: take_add nat_add_distrib)
  then show ?case using IH part Cons.prems(1) by (cases "bs = []") auto
qed simp

lemma set_buffers_total:
  "0 \<le> pos \<Longrightarrow> \<forall>b \<in> set bs. 0 \<le> rb_Length b \<Longrightarrow> pos + sum_list (map rb_Length bs) \<le> int (length backing) \<Longrightarrow>
     \<exists>bs'. set_buffers backing pos bs = Ok bs'"
proof (induction bs arbitrary: pos)
  case (Cons b bs)
  have sum: "0 \<le> sum_list (map rb_Length bs)" using Cons.prems(2) by (intro sum_list_nonneg) auto
  have "\<exists>bs'. set_buffers backing (pos + rb_Length b) bs = Ok bs'" using Cons.prems by (intro Cons.IH) auto
  then show ?case using Cons.prems sum by (auto simp: slice_def bind_r_eq_Ok)
qed simp

lemma set_buffers_no_Err: "set_buffers backing pos bs \<noteq> Err e"
  by (induction bs arbitrary: pos) (auto simp: slice_def bind_r_eq_Err split: if_splits)

text \<open>
  \<open>SetBuffers\<close> cuts the buffers of a message from the bytes that follow it, one after the other, exactly when the
  declared lengths are not negative and together fit these bytes.  The lengths come from the peer and are not checked:
  otherwise the slice expression panics, in a goroutine that does not recover, and ends the operator.
\<close>

theorem buffers_cut_or_panic:
  "(case SetBuffers msg backing of
      Ok msg' \<Rightarrow> list_all (\<lambda>b. 0 \<le> rb_Length b) (m_Buffers msg) \<and> sum_list (map rb_Length (m_Buffers msg)) \<le> int (length backing)
        \<and> concat (map rb_Buffer (m_Buffers msg')) = take (nat (sum_list (map rb_Length (m_Buffers msg)))) backing
    | Panic \<Rightarrow> list_ex (\<lambda>b. rb_Length b < 0) (m_Buffers msg) \<or> int (length backing) < sum_list (map rb_Length (m_Buffers msg))
    | Err e \<Rightarrow> False)"
proof (cases "set_buffers backing 0 (m_Buffers msg)")
  case (Ok bs')
  from set_buffers_Ok [OF _ this] show ?thesis using Ok by (cases "m_Buffers msg = []") (auto simp: SetBuffers_def list_all_iff)
next
  case Panic
  then show ?thesis using set_buffers_total [of 0 "m_Buffers msg" backing] by (force simp: SetBuffers_def list_ex_iff)
qed (simp add: set_buffers_no_Err)

subsection \<open>Witnesses\<close>

definition ex_msg :: RPCMessage where
  "ex_msg = \<lparr>m_Op = ''req'', m_API = ''auth_api'', m_Method = ''read_auth'', m_RequestID = ''r-0'', m_AuthToken = '''', m_Error = None,
     m_Params = '''', m_Reply = '''', m_Buffers = [], m_RawBytes = ''''\<rparr>"

definition ex_wire :: wire where
  "ex_wire = \<lparr>w_Marshal = (\<lambda>m. Inr (m_Method m)), w_Unmarshal = (\<lambda>s. Inr (ex_msg\<lparr>m_Method := s\<rparr>)), w_spare = (\<lambda>_. '''')\<rparr>"


theorem read_message_bounded_witness:
  "length (m_RawBytes (ex_msg\<lparr>m_RawBytes := ''read_auth''\<rparr>)) + 8 \<le> length (frame ''read_auth'')"
  using read_message_bounded [of ex_wire "frame ''read_auth''" "ex_msg\<lparr>m_RawBytes := ''read_auth''\<rparr>"]
  by (simp add: frame_read ex_wire_def ex_msg_def RPCMaxMessageSize_def)

end
