(* ===== verification/Rpc_Client.thy ===== *)
theory Rpc_Client
  imports Rpc_Wire
begin

text \<open>
  The RPC client of the management API (\<^verbatim>\<open>pkg/nb/rpc.go\<close>, \<^verbatim>\<open>pkg/nb/rpc_ws.go\<close>):
  connections that are shared by concurrent calls, the table of pending requests of a connection, the goroutine that reads
  responses, and the goroutines that close and reconnect.  The code between a lock and its unlock is one step; the steps
  of the callers, the readers and the other goroutines interleave in any order.  What the network does (whether a dial,
  a write, a read or a ping fails, and which messages arrive when) is left open: every outcome is a step.
\<close>

section \<open>State\<close>

datatype ws_state = WsInit | WsConnected | WsClosed

text \<open>The goroutine that reads: it waits for a message, or it has taken a pending request and is about to answer it.\<close>

datatype ws_reader = NoReader | Reading | Delivering nat RPCMessage | ReaderDone

text \<open>
  A connection.  Its table of pending requests maps request ids to the indices of calls.  \<open>ws_Count\<close> counts the requests of the connection; the
  code only has the 64-bit \<open>ws_NextRequestID\<close>.
\<close>

record RPCConnWS =
  ws_Address :: string
  ws_State :: ws_state
  ws_PendingRequests :: "(string \<times> nat) list"
  ws_NextRequestID :: "64 word"
  ws_Reader :: ws_reader
  ws_Count :: nat

datatype rpc_conn = WS nat | HTTPConn string

text \<open>
  A call of \<open>RPCConnWS.Call\<close>: where it is, its reply channel (of capacity one), the request it registered, and the
  response it was given.
\<close>

datatype call_pc = NotStarted | HasConn nat | Sending nat string | Waiting nat string | Returned "go_error option"

record RPCPendingRequest =
  pr_Address :: string
  pr_pc :: call_pc
  pr_ReplyChan :: "go_error option list"
  pr_Request :: "(nat \<times> string) option"
  pr_Res :: "RPCMessage option"

record RPC =
  rpc_ConnMap :: "string \<rightharpoonup> nat"
  rpc_Conns :: "RPCConnWS list"
  rpc_Calls :: "nat \<Rightarrow> RPCPendingRequest"
  rpc_Spawned :: "string list"
  rpc_Reconnecting :: "nat list"

abbreviation conn :: "RPC \<Rightarrow> nat \<Rightarrow> RPCConnWS" where "conn st k \<equiv> rpc_Conns st ! k"

definition set_conn :: "nat \<Rightarrow> (RPCConnWS \<Rightarrow> RPCConnWS) \<Rightarrow> RPC \<Rightarrow> RPC" where
  "set_conn k f st = st\<lparr>rpc_Conns := (rpc_Conns st)[k := f (conn st k)]\<rparr>"

definition set_call :: "nat \<Rightarrow> (RPCPendingRequest \<Rightarrow> RPCPendingRequest) \<Rightarrow> RPC \<Rightarrow> RPC" where
  "set_call i f st = st\<lparr>rpc_Calls := (rpc_Calls st)(i := f (rpc_Calls st i))\<rparr>"

section \<open>Connections\<close>

definition NewRPCConnWS :: "string \<Rightarrow> RPCConnWS" where
  "NewRPCConnWS address = \<lparr>ws_Address = address, ws_State = WsInit, ws_PendingRequests = [], ws_NextRequestID = 0,
     ws_Reader = NoReader, ws_Count = 0\<rparr>"

text \<open>HTTP connections are made for one request and are not kept.\<close>

definition GetConnection :: "string \<Rightarrow> RPC \<Rightarrow> rpc_conn \<times> RPC" where
  "GetConnection address st =
     (if HasPrefix address ''wss:'' \<or> HasPrefix address ''ws:'' then
        (case rpc_ConnMap st address of
           Some k \<Rightarrow> (WS k, st)
         | None \<Rightarrow>
             (let k = length (rpc_Conns st) in
              (WS k, st\<lparr>rpc_Conns := rpc_Conns st @ [NewRPCConnWS address], rpc_ConnMap := (rpc_ConnMap st)(address \<mapsto> k)\<rparr>)))
      else (HTTPConn address, st))"

definition RemoveConnection :: "nat \<Rightarrow> RPC \<Rightarrow> RPC" where
  "RemoveConnection k st =
     (let address = ws_Address (conn st k);
          current = rpc_ConnMap st address;
          st1 = (if current = Some k then st\<lparr>rpc_ConnMap := (rpc_ConnMap st)(address := None)\<rparr> else st)
      in if current = Some k \<or> current = None then st1\<lparr>rpc_Spawned := address # rpc_Spawned st1\<rparr> else st1)"

text \<open>
  \<open>CloseUnderLock\<close> sends an error to the channel of every pending request, with the lock held.  \<open>None\<close> is a
  send to a full channel, which blocks.  The requests stay in the table.
\<close>

definition closing_error :: "RPCConnWS \<Rightarrow> string \<Rightarrow> go_error" where
  "closing_error c reqid = PlainError (''RPC: connection closed while request is pending '' @ ws_Address c @ '' '' @ reqid)"

fun wakeup_pending :: "RPCConnWS \<Rightarrow> (string \<times> nat) list \<Rightarrow> (nat \<Rightarrow> RPCPendingRequest) \<Rightarrow> (nat \<Rightarrow> RPCPendingRequest) option" where
  "wakeup_pending c [] calls = Some calls"
| "wakeup_pending c ((reqid, i) # ps) calls =
     (if pr_ReplyChan (calls i) \<noteq> [] then None
      else wakeup_pending c ps (calls(i := (calls i)\<lparr>pr_ReplyChan := [Some (closing_error c reqid)]\<rparr>)))"

definition CloseUnderLock :: "nat \<Rightarrow> RPC \<Rightarrow> RPC option" where
  "CloseUnderLock k st =
     (if ws_State (conn st k) = WsClosed then Some st
      else case wakeup_pending (conn st k) (ws_PendingRequests (conn st k)) (rpc_Calls st) of
        None \<Rightarrow> None
      | Some calls \<Rightarrow> Some (RemoveConnection k ((set_conn k (\<lambda>c. c\<lparr>ws_State := WsClosed\<rparr>) st)\<lparr>rpc_Calls := calls\<rparr>)))"

text \<open>\<open>dial\<close> is the error of the dial, if it is made.\<close>

definition already_closed :: go_error where "already_closed = PlainError ''RPC: connection already closed''"

definition ConnectUnderLock :: "go_error option \<Rightarrow> nat \<Rightarrow> RPC \<Rightarrow> (go_error option \<times> RPC) option" where
  "ConnectUnderLock dial k st = (case ws_State (conn st k) of
     WsConnected \<Rightarrow> Some (None, st)
   | WsClosed \<Rightarrow> Some (Some already_closed, st)
   | WsInit \<Rightarrow> (case dial of
       Some err \<Rightarrow> (case CloseUnderLock k st of None \<Rightarrow> None | Some st1 \<Rightarrow> Some (Some err, st1))
     | None \<Rightarrow> Some (None, set_conn k (\<lambda>c. c\<lparr>ws_State := WsConnected, ws_Reader := Reading\<rparr>) st)))"

definition request_id :: "string \<Rightarrow> 64 word \<Rightarrow> string" where
  "request_id address n = address @ ''-'' @ show_nat (unat n)"

definition NewRequest :: "nat \<Rightarrow> nat \<Rightarrow> RPC \<Rightarrow> RPC" where
  "NewRequest i k st =
     (let c = conn st k; reqid = request_id (ws_Address c) (ws_NextRequestID c) in
      set_call i (\<lambda>p. p\<lparr>pr_pc := Sending k reqid, pr_Request := Some (k, reqid), pr_ReplyChan := []\<rparr>)
        (set_conn k (\<lambda>c. c\<lparr>ws_NextRequestID := ws_NextRequestID c + 1, ws_PendingRequests := (reqid, i) # filter (\<lambda>(r, _). r \<noteq> reqid) (ws_PendingRequests c),
           ws_Count := ws_Count c + 1\<rparr>) st))"

text \<open>The part of \<open>RPCConnWS.Call\<close> under the lock.\<close>

definition begin_call :: "go_error option \<Rightarrow> nat \<Rightarrow> nat \<Rightarrow> RPC \<Rightarrow> RPC option" where
  "begin_call dial i k st = (case ConnectUnderLock dial k st of
     None \<Rightarrow> None
   | Some (Some err, st1) \<Rightarrow> Some (set_call i (\<lambda>p. p\<lparr>pr_pc := Returned (Some err)\<rparr>) st1)
   | Some (None, st1) \<Rightarrow> Some (NewRequest i k st1))"

text \<open>The part of \<open>HandleResponse\<close> under the lock, and the send that follows it.\<close>

definition take_pending :: "nat \<Rightarrow> RPCMessage \<Rightarrow> RPC \<Rightarrow> RPC" where
  "take_pending k msg st = (case map_of (ws_PendingRequests (conn st k)) (m_RequestID msg) of
     None \<Rightarrow> st
   | Some i \<Rightarrow> set_conn k (\<lambda>c. c\<lparr>ws_PendingRequests := filter (\<lambda>(r, _). r \<noteq> m_RequestID msg) (ws_PendingRequests c),
       ws_Reader := Delivering i msg\<rparr>) st)"

definition deliver :: "wire \<Rightarrow> nat \<Rightarrow> nat \<Rightarrow> RPCMessage \<Rightarrow> RPC \<Rightarrow> RPC" where
  "deliver w k i msg st =
     set_conn k (\<lambda>c. c\<lparr>ws_Reader := Reading\<rparr>)
       (set_call i (\<lambda>p. case w_Unmarshal w (m_RawBytes msg) of
          Inl err \<Rightarrow> p\<lparr>pr_ReplyChan := pr_ReplyChan p @ [Some err]\<rparr>
        | Inr res \<Rightarrow> p\<lparr>pr_ReplyChan := pr_ReplyChan p @ [None], pr_Res := Some msg\<rparr>) st)"

section \<open>Steps\<close>

inductive rpc_step :: "wire \<Rightarrow> RPC \<Rightarrow> RPC \<Rightarrow> bool" for w where
  get: "pr_pc (rpc_Calls st i) = NotStarted \<Longrightarrow> GetConnection (pr_Address (rpc_Calls st i)) st = (WS k, st1) \<Longrightarrow>
    rpc_step w st (set_call i (\<lambda>p. p\<lparr>pr_pc := HasConn k\<rparr>) st1)"
| start: "pr_pc (rpc_Calls st i) = HasConn k \<Longrightarrow> begin_call dial i k st = Some st1 \<Longrightarrow> rpc_step w st st1"
| sent: "pr_pc (rpc_Calls st i) = Sending k reqid \<Longrightarrow> rpc_step w st (set_call i (\<lambda>p. p\<lparr>pr_pc := Waiting k reqid\<rparr>) st)"
| send_failed: "pr_pc (rpc_Calls st i) = Sending k reqid \<Longrightarrow>
    rpc_step w st (set_call i (\<lambda>p. p\<lparr>pr_pc := Returned (Some err)\<rparr>) st)"
| receive: "pr_pc (rpc_Calls st i) = Waiting k reqid \<Longrightarrow> pr_ReplyChan (rpc_Calls st i) = r # rs \<Longrightarrow>
    rpc_step w st (set_call i (\<lambda>p. p\<lparr>pr_pc := Returned r, pr_ReplyChan := rs\<rparr>) st)"
| respond: "k < length (rpc_Conns st) \<Longrightarrow> ws_Reader (conn st k) = Reading \<Longrightarrow> rpc_step w st (take_pending k msg st)"
| answer: "k < length (rpc_Conns st) \<Longrightarrow> ws_Reader (conn st k) = Delivering i msg \<Longrightarrow> pr_ReplyChan (rpc_Calls st i) = [] \<Longrightarrow>
    rpc_step w st (deliver w k i msg st)"
| read_failed: "k < length (rpc_Conns st) \<Longrightarrow> ws_Reader (conn st k) = Reading \<Longrightarrow> CloseUnderLock k st = Some st1 \<Longrightarrow>
    rpc_step w st (set_conn k (\<lambda>c. c\<lparr>ws_Reader := ReaderDone\<rparr>) st1)"
| close: "k < length (rpc_Conns st) \<Longrightarrow> ws_State (conn st k) \<noteq> WsInit \<Longrightarrow> CloseUnderLock k st = Some st1 \<Longrightarrow> rpc_step w st st1"
| respawn: "a \<in> set (rpc_Spawned st) \<Longrightarrow> GetConnection a (st\<lparr>rpc_Spawned := remove1 a (rpc_Spawned st)\<rparr>) = (WS k, st1) \<Longrightarrow>
    rpc_step w st (st1\<lparr>rpc_Reconnecting := k # rpc_Reconnecting st1\<rparr>)"
| reconnect: "k \<in> set (rpc_Reconnecting st) \<Longrightarrow>
    ConnectUnderLock dial k (st\<lparr>rpc_Reconnecting := remove1 k (rpc_Reconnecting st)\<rparr>) = Some (err, st1) \<Longrightarrow> rpc_step w st st1"

text \<open>Before the first call.\<close>

definition rpc_init :: "(nat \<Rightarrow> string) \<Rightarrow> RPC" where
  "rpc_init addresses = \<lparr>rpc_ConnMap = Map.empty, rpc_Conns = [], rpc_Calls = (\<lambda>i. \<lparr>pr_Address = addresses i, pr_pc = NotStarted,
     pr_ReplyChan = [], pr_Request = None, pr_Res = None\<rparr>), rpc_Spawned = [], rpc_Reconnecting = []\<rparr>"

inductive rpc_reachable :: "wire \<Rightarrow> RPC \<Rightarrow> bool" for w where
  initial: "rpc_reachable w (rpc_init addresses)"
| more: "rpc_reachable w st \<Longrightarrow> rpc_step w st st' \<Longrightarrow> rpc_reachable w st'"

text \<open>The result of \<open>RPCClient.Call\<close>: an error reply of the server is an error, too.\<close>

definition call_result :: "go_error option \<Rightarrow> RPCMessage \<Rightarrow> go_error option" where
  "call_result err res = (case err of
     Some e \<Rightarrow> Some e
   | None \<Rightarrow> (case m_Error res of None \<Rightarrow> None | Some e \<Rightarrow> Some (RPCError (re_RPCCode e) (re_Message e))))"


section \<open>The invariant\<close>

text \<open>A connection: its requests belong to the calls they point to, and an open connection has answered none of them.\<close>

definition conn_inv :: "(nat \<Rightarrow> RPCPendingRequest) \<Rightarrow> nat \<Rightarrow> RPCConnWS \<Rightarrow> bool" where
  "conn_inv calls k c \<longleftrightarrow>
     ws_NextRequestID c = word_of_nat (ws_Count c) \<and>
     distinct (map fst (ws_PendingRequests c)) \<and> distinct (map snd (ws_PendingRequests c)) \<and>
     (ws_State c = WsInit \<longrightarrow> ws_PendingRequests c = [] \<and> ws_Reader c = NoReader) \<and>
     (\<forall>r i. (r, i) \<in> set (ws_PendingRequests c) \<longrightarrow> pr_Request (calls i) = Some (k, r) \<and> pr_Res (calls i) = None \<and>
       (\<exists>n < ws_Count c. r = request_id (ws_Address c) (word_of_nat n)) \<and>
       (ws_State c = WsConnected \<longrightarrow> pr_ReplyChan (calls i) = []) \<and>
       (ws_State c = WsClosed \<longrightarrow> pr_ReplyChan (calls i) \<noteq> [] \<or> (\<exists>x. pr_pc (calls i) = Returned x))) \<and>
     (\<forall>i msg. ws_Reader c = Delivering i msg \<longrightarrow> pr_Request (calls i) = Some (k, m_RequestID msg) \<and>
       pr_Res (calls i) = None \<and> i \<notin> snd ` set (ws_PendingRequests c))"

text \<open>A call: what it was given is a response to its request, and a call that waits is not forgotten.\<close>

definition answered :: "RPCPendingRequest \<Rightarrow> bool" where
  "answered p \<longleftrightarrow> (\<exists>k msg. pr_Request p = Some (k, m_RequestID msg) \<and> pr_Res p = Some msg)"

definition expected :: "RPCConnWS list \<Rightarrow> nat \<Rightarrow> nat \<Rightarrow> string \<Rightarrow> RPCPendingRequest \<Rightarrow> bool" where
  "expected conns i k r p \<longleftrightarrow> (r, i) \<in> set (ws_PendingRequests (conns ! k)) \<or> (\<exists>msg. ws_Reader (conns ! k) = Delivering i msg) \<or>
     pr_ReplyChan p \<noteq> []"

definition call_inv :: "RPCConnWS list \<Rightarrow> nat \<Rightarrow> RPCPendingRequest \<Rightarrow> bool" where
  "call_inv conns i p \<longleftrightarrow>
     (case pr_pc p of
        NotStarted \<Rightarrow> pr_Request p = None \<and> pr_ReplyChan p = [] \<and> pr_Res p = None
      | HasConn k \<Rightarrow> k < length conns \<and> pr_Request p = None \<and> pr_ReplyChan p = [] \<and> pr_Res p = None
      | Sending k r \<Rightarrow> pr_Request p = Some (k, r) \<and> expected conns i k r p
      | Waiting k r \<Rightarrow> pr_Request p = Some (k, r) \<and> expected conns i k r p
      | Returned x \<Rightarrow> x = None \<longrightarrow> answered p) \<and>
     (None \<in> set (pr_ReplyChan p) \<longrightarrow> answered p) \<and>
     (\<forall>k r. pr_Request p = Some (k, r) \<longrightarrow> k < length conns \<and> ws_State (conns ! k) \<noteq> WsInit)"

definition rpc_inv :: "RPC \<Rightarrow> bool" where
  "rpc_inv st \<longleftrightarrow>
     (\<forall>k < length (rpc_Conns st). conn_inv (rpc_Calls st) k (conn st k)) \<and>
     (\<forall>i. call_inv (rpc_Conns st) i (rpc_Calls st i)) \<and>
     (\<forall>a k. rpc_ConnMap st a = Some k \<longrightarrow> k < length (rpc_Conns st)) \<and>
     (\<forall>k \<in> set (rpc_Reconnecting st). k < length (rpc_Conns st))"

text \<open>No connection has had more requests than there are request numbers.\<close>

definition rpc_bounded :: "RPC \<Rightarrow> bool" where
  "rpc_bounded st \<longleftrightarrow> (\<forall>c \<in> set (rpc_Conns st). ws_Count c \<le> 2 ^ 64)"

lemma rpc_invI:
  assumes "\<And>k. k < length (rpc_Conns st) \<Longrightarrow> conn_inv (rpc_Calls st) k (conn st k)" "\<And>i. call_inv (rpc_Conns st) i (rpc_Calls st i)"
    "\<And>a k. rpc_ConnMap st a = Some k \<Longrightarrow> k < length (rpc_Conns st)" "\<And>k. k \<in> set (rpc_Reconnecting st) \<Longrightarrow> k < length (rpc_Conns st)"
  shows "rpc_inv st"
  using assms by (auto simp: rpc_inv_def)

lemma rpc_invD:
  assumes "rpc_inv st"
  shows "k < length (rpc_Conns st) \<Longrightarrow> conn_inv (rpc_Calls st) k (conn st k)" "call_inv (rpc_Conns st) i (rpc_Calls st i)"
    "rpc_ConnMap st a = Some k \<Longrightarrow> k < length (rpc_Conns st)" "k \<in> set (rpc_Reconnecting st) \<Longrightarrow> k < length (rpc_Conns st)"
  using assms by (auto simp: rpc_inv_def)

text \<open>The woken requests.\<close>

lemma wakeup_pending_run:
  "distinct (map snd ps) \<Longrightarrow> (\<And>r i. (r, i) \<in> set ps \<Longrightarrow> pr_ReplyChan (calls i) = []) \<Longrightarrow>
     wakeup_pending c ps calls = Some (\<lambda>i. case find (\<lambda>(r, j). j = i) ps of
       None \<Rightarrow> calls i | Some (r, _) \<Rightarrow> (calls i)\<lparr>pr_ReplyChan := [Some (closing_error c r)]\<rparr>)"
proof (induction ps arbitrary: calls)
  case (Cons p ps)
  obtain r i where p: "p = (r, i)" by (cases p)
  have fresh: "i \<notin> snd ` set ps" using Cons.prems(1) by (simp add: p)
  define calls' where "calls' = calls(i := (calls i)\<lparr>pr_ReplyChan := [Some (closing_error c r)]\<rparr>)"
  have "pr_ReplyChan (calls' j) = []" if "(r', j) \<in> set ps" for r' j
    using Cons.prems(2) [of r' j] fresh that by (force simp: p calls'_def)
  from Cons.IH [of calls', OF _ this] have "wakeup_pending c ps calls' = Some (\<lambda>j. case find (\<lambda>(r', j'). j' = j) ps of
       None \<Rightarrow> calls' j | Some (r', _) \<Rightarrow> (calls' j)\<lparr>pr_ReplyChan := [Some (closing_error c r')]\<rparr>)"
    using Cons.prems(1) by (simp add: p)
  then have "wakeup_pending c (p # ps) calls = Some (\<lambda>j. case find (\<lambda>(r', j'). j' = j) ps of
       None \<Rightarrow> calls' j | Some (r', _) \<Rightarrow> (calls' j)\<lparr>pr_ReplyChan := [Some (closing_error c r')]\<rparr>)"
    using Cons.prems(2) [of r i] by (simp add: p calls'_def)
  moreover have "find (\<lambda>(r', j'). j' = i) ps = None" using fresh by (force simp: find_None_iff)
  ultimately show ?case by (auto simp: p fun_eq_iff calls'_def split: option.splits)
qed (simp add: fun_eq_iff)

lemma find_request:
  assumes "distinct (map snd ps)"
  shows "(r, i) \<in> set ps \<Longrightarrow> find (\<lambda>(r', j). j = i) ps = Some (r, i)" and "i \<notin> snd ` set ps \<Longrightarrow> find (\<lambda>(r', j). j = i) ps = None"
  using assms by (induction ps) (auto simp: image_iff)


lemma conn_invD:
  assumes "conn_inv calls k c"
  shows "ws_NextRequestID c = word_of_nat (ws_Count c)"
    "distinct (map fst (ws_PendingRequests c))" "distinct (map snd (ws_PendingRequests c))"
    "ws_State c = WsInit \<Longrightarrow> ws_PendingRequests c = [] \<and> ws_Reader c = NoReader"
    "(r, i) \<in> set (ws_PendingRequests c) \<Longrightarrow> pr_Request (calls i) = Some (k, r)"
    "(r, i) \<in> set (ws_PendingRequests c) \<Longrightarrow> \<exists>n < ws_Count c. r = request_id (ws_Address c) (word_of_nat n)"
    "(r, i) \<in> set (ws_PendingRequests c) \<Longrightarrow> ws_State c \<noteq> WsClosed \<Longrightarrow> pr_ReplyChan (calls i) = []"
    "(r, i) \<in> set (ws_PendingRequests c) \<Longrightarrow> ws_State c = WsClosed \<Longrightarrow> pr_ReplyChan (calls i) \<noteq> [] \<or> (\<exists>x. pr_pc (calls i) = Returned x)"
    "ws_Reader c = Delivering i msg \<Longrightarrow> pr_Request (calls i) = Some (k, m_RequestID msg) \<and> i \<notin> snd ` set (ws_PendingRequests c)"
    "(r, i) \<in> set (ws_PendingRequests c) \<Longrightarrow> pr_Res (calls i) = None" "ws_Reader c = Delivering i msg \<Longrightarrow> pr_Res (calls i) = None"
  using assms by (auto simp: conn_inv_def) (cases "ws_State c"; auto)+

text \<open>The calls after the wake-up: only the channels of the woken requests differ.\<close>

definition woken :: "RPCConnWS \<Rightarrow> (nat \<Rightarrow> RPCPendingRequest) \<Rightarrow> nat \<Rightarrow> RPCPendingRequest" where
  "woken c calls i = (case find (\<lambda>(r, j). j = i) (ws_PendingRequests c) of
       None \<Rightarrow> calls i | Some (r, _) \<Rightarrow> (calls i)\<lparr>pr_ReplyChan := [Some (closing_error c r)]\<rparr>)"

lemma woken_fields [simp]:
  "pr_pc (woken c calls i) = pr_pc (calls i)" "pr_Request (woken c calls i) = pr_Request (calls i)"
  "pr_Res (woken c calls i) = pr_Res (calls i)" "answered (woken c calls i) = answered (calls i)"
  by (auto simp: woken_def answered_def split: option.splits)

lemma woken_chan:
  assumes "distinct (map snd (ws_PendingRequests c))"
  shows "(r, i) \<in> set (ws_PendingRequests c) \<Longrightarrow> pr_ReplyChan (woken c calls i) = [Some (closing_error c r)]"
    "i \<notin> snd ` set (ws_PendingRequests c) \<Longrightarrow> woken c calls i = calls i"
  using find_request [OF assms] by (auto simp: woken_def)

lemma CloseUnderLock_run:
  assumes inv: "rpc_inv st" and k: "k < length (rpc_Conns st)" and opened: "ws_State (conn st k) \<noteq> WsClosed"
  obtains st' where "CloseUnderLock k st = Some st'" "rpc_Conns st' = (rpc_Conns st)[k := (conn st k)\<lparr>ws_State := WsClosed\<rparr>]"
    "rpc_Calls st' = woken (conn st k) (rpc_Calls st)" "rpc_Reconnecting st' = rpc_Reconnecting st"
    "\<And>a j. rpc_ConnMap st' a = Some j \<Longrightarrow> rpc_ConnMap st a = Some j"
proof -
  note c = conn_invD [OF rpc_invD(1) [OF inv k]]
  have "wakeup_pending (conn st k) (ws_PendingRequests (conn st k)) (rpc_Calls st) = Some (woken (conn st k) (rpc_Calls st))"
    using wakeup_pending_run [OF c(3), of "rpc_Calls st" "conn st k"] c(7) opened by (simp add: woken_def [abs_def])
  then show ?thesis using opened
    by (intro that [of "RemoveConnection k ((set_conn k (\<lambda>c. c\<lparr>ws_State := WsClosed\<rparr>) st)\<lparr>rpc_Calls := woken (conn st k) (rpc_Calls st)\<rparr>)"])
      (auto simp: CloseUnderLock_def RemoveConnection_def set_conn_def Let_def split: if_splits)
qed

lemma woken_chan_cases:
  assumes "conn_inv calls k c"
  shows "pr_ReplyChan (woken c calls i) = pr_ReplyChan (calls i) \<or>
    (\<exists>r. (r, i) \<in> set (ws_PendingRequests c) \<and> pr_ReplyChan (woken c calls i) = [Some (closing_error c r)])"
  using woken_chan [OF conn_invD(3) [OF assms]] by (metis image_iff prod.collapse)

lemma conn_inv_woken:
  assumes "conn_inv calls k c" "conn_inv calls j d" "j \<noteq> k"
  shows "conn_inv (woken c calls) j d"
proof -
  have "woken c calls i = calls i" if "(r, i) \<in> set (ws_PendingRequests d)" for r i
    using conn_invD(5) [OF assms(1)] conn_invD(5) [OF assms(2) that] assms(3)
    by (intro woken_chan(2) [OF conn_invD(3) [OF assms(1)]]) force
  then show ?thesis using assms(2) unfolding conn_inv_def by auto
qed

lemma conn_inv_closed:
  assumes "conn_inv calls k c" "ws_State c \<noteq> WsClosed"
  shows "conn_inv (woken c calls) k (c\<lparr>ws_State := WsClosed\<rparr>)"
proof -
  note c = conn_invD [OF assms(1)]
  show ?thesis using c(1-3,5,6,9-11) woken_chan(1) [OF c(3)] by (auto simp: conn_inv_def)
qed

lemma expected_woken:
  assumes "expected conns i j r p" "length conns = length conns'" "\<And>m. ws_PendingRequests (conns' ! m) = ws_PendingRequests (conns ! m)"
    "\<And>m. ws_Reader (conns' ! m) = ws_Reader (conns ! m)" "pr_ReplyChan p \<noteq> [] \<Longrightarrow> pr_ReplyChan p' \<noteq> []"
  shows "expected conns' i j r p'"
  using assms by (auto simp: expected_def)

lemma closed_conn_inv:
  assumes inv: "rpc_inv st" and k: "k < length (rpc_Conns st)" and opened: "ws_State (conn st k) \<noteq> WsClosed"
    and st': "rpc_Conns st' = (rpc_Conns st)[k := (conn st k)\<lparr>ws_State := WsClosed\<rparr>]" "rpc_Calls st' = woken (conn st k) (rpc_Calls st)"
      "rpc_Reconnecting st' = rpc_Reconnecting st" "\<And>a j. rpc_ConnMap st' a = Some j \<Longrightarrow> rpc_ConnMap st a = Some j"
  shows "rpc_inv st'"
proof (rule rpc_invI)
  note ck = rpc_invD(1) [OF inv k]
  fix m assume m: "m < length (rpc_Conns st')"
  then show "conn_inv (rpc_Calls st') m (conn st' m)"
    using rpc_invD(1) [OF inv, of m] conn_inv_closed [OF ck opened] conn_inv_woken [OF ck] k by (auto simp: st' nth_list_update)
next
  fix i
  note ck = rpc_invD(1) [OF inv k]
  have ci: "call_inv (rpc_Conns st) i (rpc_Calls st i)" by (rule rpc_invD(2) [OF inv])
  have chan: "pr_ReplyChan (rpc_Calls st i) \<noteq> [] \<Longrightarrow> pr_ReplyChan (rpc_Calls st' i) \<noteq> []"
    "None \<in> set (pr_ReplyChan (rpc_Calls st' i)) \<Longrightarrow> None \<in> set (pr_ReplyChan (rpc_Calls st i))"
    "pr_ReplyChan (rpc_Calls st i) = [] \<Longrightarrow> pr_Request (rpc_Calls st i) = None \<Longrightarrow> pr_ReplyChan (rpc_Calls st' i) = []"
    using woken_chan_cases [OF ck, of i] conn_invD(5) [OF ck] by (auto simp: st')
  have "expected (rpc_Conns st') i j r (rpc_Calls st' i)" if "expected (rpc_Conns st) i j r (rpc_Calls st i)" for j r
    using that chan(1) by (intro expected_woken [OF that]) (auto simp: st' nth_list_update k)
  then show "call_inv (rpc_Conns st') i (rpc_Calls st' i)"
    using ci chan k unfolding call_inv_def by (auto simp: st'(1) st'(2) nth_list_update split: call_pc.splits if_splits)
qed (use rpc_invD(3) [OF inv st'(4)] rpc_invD(4) [OF inv] in \<open>auto simp: st'\<close>)

text \<open>What closing keeps of the calls and the connections.\<close>

definition same_calls :: "RPC \<Rightarrow> RPC \<Rightarrow> bool" where
  "same_calls st st' \<longleftrightarrow> (\<forall>i. pr_pc (rpc_Calls st' i) = pr_pc (rpc_Calls st i) \<and> pr_Request (rpc_Calls st' i) = pr_Request (rpc_Calls st i)
     \<and> pr_Res (rpc_Calls st' i) = pr_Res (rpc_Calls st i))"

lemma same_calls_refl [simp]: "same_calls st st"
  by (simp add: same_calls_def)

lemma close_inv:
  assumes inv: "rpc_inv st" and k: "k < length (rpc_Conns st)" and run: "CloseUnderLock k st = Some st'"
  shows "rpc_inv st'" and "length (rpc_Conns st') = length (rpc_Conns st)" and "ws_State (conn st' k) = WsClosed"
    and "same_calls st st'" and "map ws_Count (rpc_Conns st') = map ws_Count (rpc_Conns st)"
    and "ws_Reader (conn st' k) = ws_Reader (conn st k)" and "ws_State (conn st k) = WsInit \<Longrightarrow> rpc_Calls st' = rpc_Calls st"
proof -
  have "rpc_inv st' \<and> length (rpc_Conns st') = length (rpc_Conns st) \<and> ws_State (conn st' k) = WsClosed \<and> same_calls st st' \<and>
    map ws_Count (rpc_Conns st') = map ws_Count (rpc_Conns st) \<and> ws_Reader (conn st' k) = ws_Reader (conn st k) \<and>
    (ws_State (conn st k) = WsInit \<longrightarrow> rpc_Calls st' = rpc_Calls st)"
  proof (cases "ws_State (conn st k) = WsClosed")
    case True
    then show ?thesis using run inv by (simp add: CloseUnderLock_def)
  next
    case False
    from CloseUnderLock_run [OF inv k False] obtain st2 where st2: "CloseUnderLock k st = Some st2"
      "rpc_Conns st2 = (rpc_Conns st)[k := (conn st k)\<lparr>ws_State := WsClosed\<rparr>]" "rpc_Calls st2 = woken (conn st k) (rpc_Calls st)"
      "rpc_Reconnecting st2 = rpc_Reconnecting st" "\<And>a j. rpc_ConnMap st2 a = Some j \<Longrightarrow> rpc_ConnMap st a = Some j"
      by blast
    have st': "st' = st2" using run st2(1) by simp
    have "ws_State (conn st k) = WsInit \<longrightarrow> rpc_Calls st' = rpc_Calls st"
      using conn_invD(4) [OF rpc_invD(1) [OF inv k]] by (auto simp: st' st2 woken_def fun_eq_iff)
    moreover have "map ws_Count (rpc_Conns st') = map ws_Count (rpc_Conns st)"
      by (simp add: st' st2 map_update list_update_same_conv k)
    ultimately show ?thesis using closed_conn_inv [OF inv k False st2(2-5)] k by (simp add: st' st2 same_calls_def)
  qed
  then show "rpc_inv st'" "length (rpc_Conns st') = length (rpc_Conns st)" "ws_State (conn st' k) = WsClosed" "same_calls st st'"
    "map ws_Count (rpc_Conns st') = map ws_Count (rpc_Conns st)" "ws_Reader (conn st' k) = ws_Reader (conn st k)"
    "ws_State (conn st k) = WsInit \<Longrightarrow> rpc_Calls st' = rpc_Calls st"
    by auto
qed

text \<open>A change of one call that keeps its channel and its request.\<close>

lemma set_call_simps [simp]:
  "rpc_Conns (set_call i f st) = rpc_Conns st" "rpc_ConnMap (set_call i f st) = rpc_ConnMap st"
  "rpc_Reconnecting (set_call i f st) = rpc_Reconnecting st" "rpc_Spawned (set_call i f st) = rpc_Spawned st"
  "rpc_Calls (set_call i f st) = (rpc_Calls st)(i := f (rpc_Calls st i))"
  by (simp_all add: set_call_def)

lemma set_conn_simps [simp]:
  "rpc_Conns (set_conn k f st) = (rpc_Conns st)[k := f (conn st k)]" "rpc_ConnMap (set_conn k f st) = rpc_ConnMap st"
  "rpc_Reconnecting (set_conn k f st) = rpc_Reconnecting st" "rpc_Spawned (set_conn k f st) = rpc_Spawned st"
  "rpc_Calls (set_conn k f st) = rpc_Calls st"
  by (simp_all add: set_conn_def)

lemma conn_inv_call:
  assumes "conn_inv calls k c" "pr_Request p = pr_Request (calls i)" "pr_Res p = pr_Res (calls i)" "pr_ReplyChan p = pr_ReplyChan (calls i) \<or> (\<exists>x. pr_pc p = Returned x \<and> pr_ReplyChan (calls i) \<noteq> [])"
    "(\<exists>x. pr_pc (calls i) = Returned x) \<Longrightarrow> \<exists>x. pr_pc p = Returned x"
  shows "conn_inv (calls(i := p)) k c"
  using assms unfolding conn_inv_def by (auto split: if_splits)

lemma set_call_inv:
  assumes "rpc_inv st" "pr_Request (f (rpc_Calls st i)) = pr_Request (rpc_Calls st i)" "pr_Res (f (rpc_Calls st i)) = pr_Res (rpc_Calls st i)"
    "pr_ReplyChan (f (rpc_Calls st i)) = pr_ReplyChan (rpc_Calls st i) \<or>
      (\<exists>x. pr_pc (f (rpc_Calls st i)) = Returned x \<and> pr_ReplyChan (rpc_Calls st i) \<noteq> [])"
    "(\<exists>x. pr_pc (rpc_Calls st i) = Returned x) \<Longrightarrow> \<exists>x. pr_pc (f (rpc_Calls st i)) = Returned x"
    "call_inv (rpc_Conns st) i (f (rpc_Calls st i))"
  shows "rpc_inv (set_call i f st)"
  using assms conn_inv_call [of "rpc_Calls st" _ _ "f (rpc_Calls st i)" i] unfolding rpc_inv_def by auto

lemma GetConnection_inv:
  assumes inv: "rpc_inv st" and run: "GetConnection a st = (WS k, st1)"
  shows "rpc_inv st1" and "k < length (rpc_Conns st1)" and "rpc_Calls st1 = rpc_Calls st"
    and "length (rpc_Conns st) \<le> length (rpc_Conns st1)" and "\<And>j. j < length (rpc_Conns st) \<Longrightarrow> conn st1 j = conn st j"
    and "set (map ws_Count (rpc_Conns st)) \<subseteq> set (map ws_Count (rpc_Conns st1))"
proof -
  show "rpc_Calls st1 = rpc_Calls st" "k < length (rpc_Conns st1)" "length (rpc_Conns st) \<le> length (rpc_Conns st1)"
    and same: "\<And>j. j < length (rpc_Conns st) \<Longrightarrow> conn st1 j = conn st j"
    and "set (map ws_Count (rpc_Conns st)) \<subseteq> set (map ws_Count (rpc_Conns st1))"
    using run rpc_invD(3) [OF inv]
    by (auto simp: GetConnection_def Let_def nth_append split: if_splits option.splits)
  have new: "conn_inv calls j (NewRPCConnWS a)" for calls j by (simp add: conn_inv_def NewRPCConnWS_def)
  have grow: "call_inv (rpc_Conns st @ [NewRPCConnWS a]) i p" if "call_inv (rpc_Conns st) i p" for i p
  proof -
    have "expected (rpc_Conns st @ [NewRPCConnWS a]) i j r p" if "expected (rpc_Conns st) i j r p" "j < length (rpc_Conns st)" for j r
      using that by (auto simp: expected_def nth_append)
    then show ?thesis using that by (auto simp: call_inv_def nth_append split: call_pc.splits)
  qed
  show "rpc_inv st1"
  proof (cases "rpc_Conns st1 = rpc_Conns st")
    case True
    then show ?thesis using run inv by (auto simp: GetConnection_def Let_def split: if_splits option.splits)
  next
    case False
    then have st1: "st1 = st\<lparr>rpc_Conns := rpc_Conns st @ [NewRPCConnWS a], rpc_ConnMap := (rpc_ConnMap st)(a \<mapsto> length (rpc_Conns st))\<rparr>"
      using run by (auto simp: GetConnection_def Let_def split: if_splits option.splits)
    show ?thesis
      by (rule rpc_invI) (use rpc_invD [OF inv] new grow in \<open>auto simp: st1 nth_append less_Suc_eq split: if_splits\<close>)
  qed
qed

lemma connected_inv:
  assumes inv: "rpc_inv st" and k: "k < length (rpc_Conns st)" and init: "ws_State (conn st k) = WsInit"
  shows "rpc_inv (set_conn k (\<lambda>c. c\<lparr>ws_State := WsConnected, ws_Reader := Reading\<rparr>) st)"
proof (rule rpc_invI)
  note ck = rpc_invD(1) [OF inv k]
  fix j assume "j < length (rpc_Conns (set_conn k (\<lambda>c. c\<lparr>ws_State := WsConnected, ws_Reader := Reading\<rparr>) st))"
  then show "conn_inv (rpc_Calls (set_conn k (\<lambda>c. c\<lparr>ws_State := WsConnected, ws_Reader := Reading\<rparr>) st)) j
      (conn (set_conn k (\<lambda>c. c\<lparr>ws_State := WsConnected, ws_Reader := Reading\<rparr>) st) j)"
    using rpc_invD(1) [OF inv, of j] conn_invD(1,4) [OF ck] init k by (auto simp: nth_list_update conn_inv_def)
next
  fix i
  have "call_inv (rpc_Conns st) i (rpc_Calls st i)" by (rule rpc_invD(2) [OF inv])
  moreover have "pr_Request (rpc_Calls st i) = Some (k, r) \<Longrightarrow> False" for r using calculation init by (simp add: call_inv_def)
  ultimately show "call_inv (rpc_Conns (set_conn k (\<lambda>c. c\<lparr>ws_State := WsConnected, ws_Reader := Reading\<rparr>) st)) i
      (rpc_Calls (set_conn k (\<lambda>c. c\<lparr>ws_State := WsConnected, ws_Reader := Reading\<rparr>) st) i)"
    using k by (auto simp: call_inv_def expected_def nth_list_update split: call_pc.splits)
qed (use rpc_invD(3,4) [OF inv] in auto)

lemma ConnectUnderLock_inv:
  assumes inv: "rpc_inv st" and k: "k < length (rpc_Conns st)" and run: "ConnectUnderLock dial k st = Some (err, st1)"
  shows "rpc_inv st1" and "length (rpc_Conns st1) = length (rpc_Conns st)" and "rpc_Calls st1 = rpc_Calls st"
    and "map ws_Count (rpc_Conns st1) = map ws_Count (rpc_Conns st)" and "err = None \<Longrightarrow> ws_State (conn st1 k) = WsConnected"
proof -
  have "rpc_inv st1 \<and> length (rpc_Conns st1) = length (rpc_Conns st) \<and> rpc_Calls st1 = rpc_Calls st \<and>
    map ws_Count (rpc_Conns st1) = map ws_Count (rpc_Conns st) \<and> (err = None \<longrightarrow> ws_State (conn st1 k) = WsConnected)"
  proof (cases "ws_State (conn st k)")
    case WsInit
    show ?thesis
    proof (cases dial)
      case None
      then show ?thesis using run WsInit connected_inv [OF inv k WsInit] k
        by (auto simp: ConnectUnderLock_def map_update list_update_same_conv)
    next
      case (Some e)
      then obtain st2 where "CloseUnderLock k st = Some st2" "st1 = st2" "err = Some e"
        using run WsInit by (auto simp: ConnectUnderLock_def split: option.splits)
      then show ?thesis using close_inv [OF inv k] WsInit by auto
    qed
  qed (use run inv in \<open>auto simp: ConnectUnderLock_def\<close>)
  then show "rpc_inv st1" "length (rpc_Conns st1) = length (rpc_Conns st)" "rpc_Calls st1 = rpc_Calls st"
    "map ws_Count (rpc_Conns st1) = map ws_Count (rpc_Conns st)" "err = None \<Longrightarrow> ws_State (conn st1 k) = WsConnected" by auto
qed


text \<open>Request ids of one connection are different as long as their numbers fit 64 bits.\<close>

lemma show_nat_inj: "show_nat m = show_nat n \<Longrightarrow> m = n"
  by (metis option.inject parse_digits_show_nat)

lemma request_id_inj:
  assumes "request_id a (word_of_nat m) = request_id a (word_of_nat n)" "m < 2 ^ 64" "n < 2 ^ 64"
  shows "m = n"
proof -
  have "show_nat (unat (word_of_nat m :: 64 word)) = show_nat (unat (word_of_nat n :: 64 word))"
    using assms(1) by (simp add: request_id_def)
  then have "show_nat m = show_nat n" using assms(2,3) by (simp add: unat_of_nat)
  then show ?thesis by (rule show_nat_inj)
qed

lemma fresh_request:
  assumes "conn_inv calls k c" "ws_Count c < 2 ^ 64"
  shows "request_id (ws_Address c) (ws_NextRequestID c) \<notin> fst ` set (ws_PendingRequests c)"
proof
  assume "request_id (ws_Address c) (ws_NextRequestID c) \<in> fst ` set (ws_PendingRequests c)"
  then obtain n where "n < ws_Count c" "request_id (ws_Address c) (word_of_nat (ws_Count c)) = request_id (ws_Address c) (word_of_nat n)"
    using conn_invD(1,6) [OF assms(1)] by fastforce
  then show False using request_id_inj [of "ws_Address c" "ws_Count c" n] assms(2) by simp
qed

lemma filter_fresh: "r \<notin> fst ` set ps \<Longrightarrow> filter (\<lambda>(r', _). r' \<noteq> r) ps = ps"
  by (rule filter_True) force

lemma NewRequest_inv:
  assumes inv: "rpc_inv st" and k: "k < length (rpc_Conns st)" and up: "ws_State (conn st k) = WsConnected"
    and pc: "pr_pc (rpc_Calls st i) = HasConn k'" and room: "ws_Count (conn st k) < 2 ^ 64"
  shows "rpc_inv (NewRequest i k st)"
proof -
  let ?c = "conn st k"
  let ?r = "request_id (ws_Address ?c) (ws_NextRequestID ?c)"
  let ?p = "(rpc_Calls st i)\<lparr>pr_pc := Sending k ?r, pr_Request := Some (k, ?r), pr_ReplyChan := []\<rparr>"
  let ?c' = "?c\<lparr>ws_NextRequestID := ws_NextRequestID ?c + 1, ws_PendingRequests := (?r, i) # ws_PendingRequests ?c, ws_Count := ws_Count ?c + 1\<rparr>"
  note ck = rpc_invD(1) [OF inv k]
  note fresh = fresh_request [OF ck room]
  have st': "rpc_Conns (NewRequest i k st) = (rpc_Conns st)[k := ?c']" "rpc_Calls (NewRequest i k st) = (rpc_Calls st)(i := ?p)"
    "rpc_ConnMap (NewRequest i k st) = rpc_ConnMap st" "rpc_Reconnecting (NewRequest i k st) = rpc_Reconnecting st"
    by (simp_all add: NewRequest_def Let_def filter_fresh [OF fresh])
  have none: "pr_Request (rpc_Calls st i) = None" "pr_Res (rpc_Calls st i) = None"
    using rpc_invD(2) [OF inv, of i] pc by (simp_all add: call_inv_def)
  have "conn_inv ((rpc_Calls st)(i := ?p)) m d" if "conn_inv (rpc_Calls st) m d" for m d
    using that none unfolding conn_inv_def by auto
  moreover have "conn_inv ((rpc_Calls st)(i := ?p)) k ?c'"
  proof -
    have "i \<notin> snd ` set (ws_PendingRequests ?c)" using conn_invD(5) [OF ck] none by force
    moreover have "\<exists>n < Suc (ws_Count ?c). ?r = request_id (ws_Address ?c) (word_of_nat n)" using conn_invD(1) [OF ck] by auto
    moreover have "\<exists>n < Suc (ws_Count ?c). r = request_id (ws_Address ?c) (word_of_nat n)" if "(r, j) \<in> set (ws_PendingRequests ?c)" for r j
      using conn_invD(6) [OF ck that] less_SucI by blast
    ultimately show ?thesis using conn_invD(1-3,5,7) [OF ck] conn_invD(9-11) [OF ck] up fresh none
      unfolding conn_inv_def by (auto simp: add.commute)
  qed
  moreover have "call_inv ((rpc_Conns st)[k := ?c']) j (((rpc_Calls st)(i := ?p)) j)" for j
  proof (cases "j = i")
    case True
    then show ?thesis using k up by (simp add: call_inv_def expected_def)
  next
    case False
    have "expected ((rpc_Conns st)[k := ?c']) j m r p" if "expected (rpc_Conns st) j m r p" for m r p
      using that k by (auto simp: expected_def nth_list_update)
    then show ?thesis using rpc_invD(2) [OF inv, of j] False k by (auto simp: call_inv_def nth_list_update split: call_pc.splits)
  qed
  ultimately show ?thesis using rpc_invD [OF inv] k by (intro rpc_invI) (auto simp: st' nth_list_update)
qed

text \<open>The reader takes a pending request and answers it.\<close>

lemma take_pending_inv:
  assumes inv: "rpc_inv st" and k: "k < length (rpc_Conns st)" and rd: "ws_Reader (conn st k) = Reading"
  shows "rpc_inv (take_pending k msg st)"
proof (cases "map_of (ws_PendingRequests (conn st k)) (m_RequestID msg)")
  case None
  then show ?thesis using inv by (simp add: take_pending_def)
next
  case (Some i)
  let ?c = "conn st k" and ?ps = "filter (\<lambda>(r, _). r \<noteq> m_RequestID msg) (ws_PendingRequests (conn st k))"
  let ?c' = "?c\<lparr>ws_PendingRequests := ?ps, ws_Reader := Delivering i msg\<rparr>"
  note ck = rpc_invD(1) [OF inv k]
  have st': "take_pending k msg st = set_conn k (\<lambda>c. ?c') st" using Some by (simp add: take_pending_def set_conn_def)
  have mem: "(m_RequestID msg, i) \<in> set (ws_PendingRequests ?c)" using Some by (rule map_of_SomeD)
  have "i \<notin> snd ` set ?ps" using mem conn_invD(3) [OF ck] by (force simp: distinct_map inj_on_def)
  then have "conn_inv (rpc_Calls st) k ?c'"
    using ck conn_invD(5,10) [OF ck mem] mem rd unfolding conn_inv_def by (auto simp: distinct_map inj_on_def)
  moreover have uniq: "(m_RequestID msg, j) \<in> set (ws_PendingRequests (conn st m)) \<Longrightarrow> k = m \<Longrightarrow> i = j" for j m
    using eq_key_imp_eq_value [OF conn_invD(2) [OF ck] mem] by auto
  moreover have "call_inv ((rpc_Conns st)[k := ?c']) j (rpc_Calls st j)" for j
  proof -
    have "expected ((rpc_Conns st)[k := ?c']) j m r (rpc_Calls st j)"
      if "expected (rpc_Conns st) j m r (rpc_Calls st j)" "pr_Request (rpc_Calls st j) = Some (m, r)" for m r
      using that k rd by (auto simp: expected_def nth_list_update dest: uniq)
    then show ?thesis using rpc_invD(2) [OF inv, of j] k by (auto simp: call_inv_def nth_list_update split: call_pc.splits)
  qed
  ultimately show ?thesis using rpc_invD [OF inv] k unfolding st' by (intro rpc_invI) (auto simp: nth_list_update)
qed

lemma deliver_inv:
  assumes inv: "rpc_inv st" and k: "k < length (rpc_Conns st)" and rd: "ws_Reader (conn st k) = Delivering i msg"
    and room: "pr_ReplyChan (rpc_Calls st i) = []"
  shows "rpc_inv (deliver w k i msg st)"
proof -
  let ?c' = "(conn st k)\<lparr>ws_Reader := Reading\<rparr>"
  define p where "p = (case w_Unmarshal w (m_RawBytes msg) of
          Inl err \<Rightarrow> (rpc_Calls st i)\<lparr>pr_ReplyChan := [Some err]\<rparr>
        | Inr res \<Rightarrow> (rpc_Calls st i)\<lparr>pr_ReplyChan := [None], pr_Res := Some msg\<rparr>)"
  note ck = rpc_invD(1) [OF inv k]
  note del = conn_invD(9) [OF ck rd]
  have fields: "pr_pc p = pr_pc (rpc_Calls st i)" "pr_Request p = pr_Request (rpc_Calls st i)" "pr_ReplyChan p \<noteq> []"
    "None \<in> set (pr_ReplyChan p) \<Longrightarrow> pr_Res p = Some msg" "pr_Res p = Some msg \<or> pr_Res p = pr_Res (rpc_Calls st i)"
    by (auto simp: p_def split: sum.splits)
  have st': "deliver w k i msg st = set_conn k (\<lambda>_. ?c') (set_call i (\<lambda>_. p) st)"
    using room by (simp add: deliver_def p_def set_conn_def set_call_def split: sum.splits)
  have other: "j \<noteq> i" if "(r, j) \<in> set (ws_PendingRequests (conn st m))" "m < length (rpc_Conns st)" for r j m
    using del conn_invD(5) [OF rpc_invD(1) [OF inv that(2)] that(1)] that(1) by (force simp: image_iff)
  have keep: "conn_inv ((rpc_Calls st)(i := p)) m d" if "conn_inv (rpc_Calls st) m d" "\<And>r j. (r, j) \<in> set (ws_PendingRequests d) \<Longrightarrow> j \<noteq> i"
      "\<And>msg. ws_Reader d \<noteq> Delivering i msg" for m d
    using that fields(2) unfolding conn_inv_def by auto
  have "conn_inv (rpc_Calls st) k ?c'" using ck by (simp add: conn_inv_def) (use rd in auto)
  then have at_k: "conn_inv ((rpc_Calls st)(i := p)) k ?c'" using other [OF _ k] by (intro keep) auto
  have "ws_Reader (conn st m) \<noteq> Delivering i msg'" if "m < length (rpc_Conns st)" "m \<noteq> k" for m msg'
    using conn_invD(9) [OF rpc_invD(1) [OF inv that(1)]] del that(2) by auto
  then have "conn_inv ((rpc_Calls st)(i := p)) m (conn st m)" if "m < length (rpc_Conns st)" "m \<noteq> k" for m
    using rpc_invD(1) [OF inv that(1)] other [OF _ that(1)] that by (intro keep) auto
  with at_k have "conn_inv ((rpc_Calls st)(i := p)) m (((rpc_Conns st)[k := ?c']) ! m)" if "m < length (rpc_Conns st)" for m
    using k that by (cases "m = k") auto
  moreover have ans: "None \<in> set (pr_ReplyChan p) \<Longrightarrow> answered p" "answered (rpc_Calls st i) \<Longrightarrow> answered p"
    using del fields(2,4,5) by (auto simp: answered_def)
  moreover have "call_inv ((rpc_Conns st)[k := ?c']) j (((rpc_Calls st)(i := p)) j)" for j
  proof -
    have "expected ((rpc_Conns st)[k := ?c']) j m r (rpc_Calls st j)" if "expected (rpc_Conns st) j m r (rpc_Calls st j)" "j \<noteq> i" for m r
      using that k rd by (auto simp: expected_def nth_list_update)
    note keep = this
    show ?thesis
    proof (cases "j = i")
      case True
      then show ?thesis using rpc_invD(2) [OF inv, of i] k fields(1-3) ans del
        by (auto simp: call_inv_def expected_def nth_list_update split: call_pc.splits)
    next
      case False
      then show ?thesis using rpc_invD(2) [OF inv, of j] keep k by (auto simp: call_inv_def nth_list_update split: call_pc.splits)
    qed
  qed
  ultimately show ?thesis using rpc_invD(3,4) [OF inv] unfolding st' by (intro rpc_invI) auto
qed


section \<open>Reachable states\<close>

lemma count_update: "ws_Count y = ws_Count (xs ! k) \<Longrightarrow> map ws_Count (xs[k := y]) = map ws_Count xs"
  by (cases "k < length xs") (simp_all add: map_update list_update_same_conv list_update_beyond not_less)

lemma close_counts: "CloseUnderLock k st = Some st' \<Longrightarrow> map ws_Count (rpc_Conns st') = map ws_Count (rpc_Conns st)"
  by (auto simp: CloseUnderLock_def RemoveConnection_def Let_def count_update split: if_splits option.splits)

lemma connect_counts: "ConnectUnderLock dial k st = Some (e, st') \<Longrightarrow> map ws_Count (rpc_Conns st') = map ws_Count (rpc_Conns st)"
  by (auto simp: ConnectUnderLock_def count_update dest: close_counts split: ws_state.splits option.splits)

definition counts_grow :: "RPC \<Rightarrow> RPC \<Rightarrow> bool" where
  "counts_grow st st' \<longleftrightarrow> length (rpc_Conns st) \<le> length (rpc_Conns st') \<and>
     (\<forall>m < length (rpc_Conns st). ws_Count (conn st m) \<le> ws_Count (conn st' m))"

lemma counts_growI:
  assumes "map ws_Count (rpc_Conns st') = map ws_Count (rpc_Conns st)"
  shows "counts_grow st st'"
  using map_eq_imp_length_eq [OF assms] arg_cong [OF assms, of "\<lambda>xs. xs ! m" for m] unfolding counts_grow_def
  by (metis nth_map order_refl)

lemma counts_grow_trans: "counts_grow a b \<Longrightarrow> counts_grow b c \<Longrightarrow> counts_grow a c"
  by (auto simp: counts_grow_def intro: order_trans less_le_trans)

lemma update_counts: "(\<And>c. ws_Count (f c) = ws_Count c) \<Longrightarrow> map ws_Count (rpc_Conns (set_conn k f st)) = map ws_Count (rpc_Conns st)"
  by (simp add: count_update)

lemma get_counts: "GetConnection a st = (x, st') \<Longrightarrow> counts_grow st st'"
  by (auto simp: GetConnection_def counts_grow_def Let_def nth_append split: if_splits option.splits)

lemma NewRequest_conns:
  "length (rpc_Conns (NewRequest i k st)) = length (rpc_Conns st)"
  "m < length (rpc_Conns st) \<Longrightarrow> ws_Count (conn (NewRequest i k st) m) = (if m = k then Suc (ws_Count (conn st m)) else ws_Count (conn st m))"
  by (auto simp: NewRequest_def Let_def nth_list_update)

lemma begin_counts:
  assumes run: "begin_call dial i k st = Some st'"
  shows "counts_grow st st'"
proof -
  from run obtain e st1 where c: "ConnectUnderLock dial k st = Some (e, st1)" by (auto simp: begin_call_def split: option.splits)
  note grow = counts_growI [OF connect_counts [OF c]]
  show ?thesis
  proof (cases e)
    case None
    then have "st' = NewRequest i k st1" using run c by (simp add: begin_call_def)
    then have "counts_grow st1 st'" by (simp add: counts_grow_def NewRequest_conns)
    with grow show ?thesis by (rule counts_grow_trans)
  qed (use run c grow in \<open>auto simp: begin_call_def counts_grow_def\<close>)
qed

lemma step_counts: "rpc_step w st st' \<Longrightarrow> counts_grow st st'"
proof (induction rule: rpc_step.induct)
  case (get st i k st1)
  then show ?case using get_counts by (simp add: counts_grow_def)
next
  case (respond k st msg)
  then show ?case by (auto simp: take_pending_def intro!: counts_growI update_counts split: option.splits)
next
  case (answer k st i msg)
  then show ?case by (auto simp: deliver_def count_update intro!: counts_growI)
next
  case (read_failed k st st1)
  then show ?case using close_counts [OF read_failed(3)] update_counts [of "\<lambda>c. c\<lparr>ws_Reader := ReaderDone\<rparr>" k st1]
    by (intro counts_growI) simp
next
  case (respawn a st k st1)
  then show ?case using get_counts [OF respawn(2)] by (simp add: counts_grow_def)
next
  case (reconnect k st dial err st1)
  then show ?case using connect_counts [OF reconnect(2)] by (intro counts_growI) simp
qed (auto intro: begin_counts counts_growI close_counts)

lemma bounded_before: "rpc_step w st st' \<Longrightarrow> rpc_bounded st' \<Longrightarrow> rpc_bounded st"
  using step_counts [of w st st'] unfolding rpc_bounded_def counts_grow_def
  by (metis (no_types, lifting) in_set_conv_nth less_le_trans order_trans)

lemma begin_call_inv:
  assumes inv: "rpc_inv st" and pc: "pr_pc (rpc_Calls st i) = HasConn k" and run: "begin_call dial i k st = Some st'" and b: "rpc_bounded st'"
  shows "rpc_inv st'"
proof -
  have k: "k < length (rpc_Conns st)" using rpc_invD(2) [OF inv, of i] pc by (simp add: call_inv_def)
  from run obtain e st1 where c: "ConnectUnderLock dial k st = Some (e, st1)" by (auto simp: begin_call_def split: option.splits)
  note st1 = ConnectUnderLock_inv [OF inv k c]
  have k1: "k < length (rpc_Conns st1)" using k st1(2) by simp
  have pc1: "pr_pc (rpc_Calls st1 i) = HasConn k" using pc st1(3) by simp
  show ?thesis
  proof (cases e)
    case None
    then have st': "st' = NewRequest i k st1" using run c by (simp add: begin_call_def)
    have "conn st' k \<in> set (rpc_Conns st')" using k1 by (simp add: st' NewRequest_conns)
    then have "Suc (ws_Count (conn st1 k)) \<le> 2 ^ 64" using b k1 NewRequest_conns(2) [of k st1 i k] unfolding rpc_bounded_def st' by fastforce
    then show ?thesis using NewRequest_inv [OF st1(1) k1 st1(5) [OF None] pc1] by (simp add: st')
  next
    case (Some err)
    then have "st' = set_call i (\<lambda>p. p\<lparr>pr_pc := Returned (Some err)\<rparr>) st1" using run c by (simp add: begin_call_def)
    then show ?thesis using st1(1) rpc_invD(2) [OF st1(1), of i] pc1 by (auto intro!: set_call_inv simp: call_inv_def answered_def)
  qed
qed

lemma reader_done_inv:
  assumes inv: "rpc_inv st" and k: "k < length (rpc_Conns st)" and rd: "ws_Reader (conn st k) = Reading"
  shows "rpc_inv (set_conn k (\<lambda>c. c\<lparr>ws_Reader := ReaderDone\<rparr>) st)"
proof (rule rpc_invI)
  fix j assume "j < length (rpc_Conns (set_conn k (\<lambda>c. c\<lparr>ws_Reader := ReaderDone\<rparr>) st))"
  then show "conn_inv (rpc_Calls (set_conn k (\<lambda>c. c\<lparr>ws_Reader := ReaderDone\<rparr>) st)) j (conn (set_conn k (\<lambda>c. c\<lparr>ws_Reader := ReaderDone\<rparr>) st) j)"
    using rpc_invD(1) [OF inv, of j] k rd by (auto simp: nth_list_update conn_inv_def)
next
  fix i show "call_inv (rpc_Conns (set_conn k (\<lambda>c. c\<lparr>ws_Reader := ReaderDone\<rparr>) st)) i (rpc_Calls (set_conn k (\<lambda>c. c\<lparr>ws_Reader := ReaderDone\<rparr>) st) i)"
    using rpc_invD(2) [OF inv, of i] k rd by (auto simp: nth_list_update call_inv_def expected_def split: call_pc.splits)
qed (use rpc_invD(3,4) [OF inv] in auto)

lemma step_inv: "rpc_step w st st' \<Longrightarrow> rpc_inv st \<Longrightarrow> rpc_bounded st' \<Longrightarrow> rpc_inv st'"
proof (induction rule: rpc_step.induct)
  case (get st i k st1)
  note g = GetConnection_inv [OF get(3,2)]
  have "pr_pc (rpc_Calls st1 i) = NotStarted" using get(1) g(3) by simp
  then show ?case using g(1,2) rpc_invD(2) [OF g(1), of i] by (auto intro!: set_call_inv simp: call_inv_def answered_def)
next
  case (start st i k dial st1)
  then show ?case using begin_call_inv by blast
next
  case (sent st i k reqid)
  then show ?case using rpc_invD(2) [OF sent(2), of i] by (auto intro!: set_call_inv simp: call_inv_def expected_def answered_def)
next
  case (send_failed st i k reqid err)
  then show ?case using rpc_invD(2) [OF send_failed(2), of i] by (auto intro!: set_call_inv simp: call_inv_def expected_def answered_def)
next
  case (receive st i k reqid r rs)
  then show ?case using rpc_invD(2) [OF receive(3), of i] by (auto intro!: set_call_inv simp: call_inv_def expected_def answered_def)
next
  case (respond k st msg)
  then show ?case using take_pending_inv by blast
next
  case (answer k st i msg)
  then show ?case using deliver_inv by blast
next
  case (read_failed k st st1)
  note c = close_inv [OF read_failed(4,1,3)]
  show ?case using reader_done_inv [OF c(1)] c(2,6) read_failed(1,2) by simp
next
  case (close k st st1)
  then show ?case using close_inv(1) by blast
next
  case (respawn a st k st1)
  have inv: "rpc_inv (st\<lparr>rpc_Spawned := remove1 a (rpc_Spawned st)\<rparr>)" using respawn(3) by (simp add: rpc_inv_def)
  note g = GetConnection_inv [OF inv respawn(2)]
  show ?case using g(1,2) by (simp add: rpc_inv_def)
next
  case (reconnect k st dial err st1)
  have inv: "rpc_inv (st\<lparr>rpc_Reconnecting := remove1 k (rpc_Reconnecting st)\<rparr>)"
    using reconnect(3) set_remove1_subset [of k "rpc_Reconnecting st"] by (auto simp: rpc_inv_def)
  have "k < length (rpc_Conns st)" using rpc_invD(4) [OF reconnect(3,1)] .
  then show ?case using ConnectUnderLock_inv(1) [OF inv _ reconnect(2)] by simp
qed

lemma init_inv: "rpc_inv (rpc_init addresses)"
  by (simp add: rpc_inv_def rpc_init_def call_inv_def)

lemma reachable_inv: "rpc_reachable w st \<Longrightarrow> rpc_bounded st \<Longrightarrow> rpc_inv st"
  by (induction rule: rpc_reachable.induct) (auto intro: init_inv step_inv dest: bounded_before)


text \<open>
  C19. A call gets the response to its own request: in every reachable state, a call over a shared connection that has
  returned without error registered a request, and the response it was given carries the id of that request.  This holds
  for any number of concurrent calls, responses in any order, and connections that close and reconnect, as long as no
  connection has had more than \<open>2 ^ 64\<close> requests.
\<close>

theorem response_matches_request:
  assumes "rpc_reachable w st" "rpc_bounded st" and "pr_pc (rpc_Calls st i) = Returned None"
  shows "\<exists>k msg. pr_Request (rpc_Calls st i) = Some (k, m_RequestID msg) \<and> pr_Res (rpc_Calls st i) = Some msg"
  using rpc_invD(2) [OF reachable_inv [OF assms(1,2)], of i] assms(3) by (simp add: call_inv_def answered_def)

text \<open>
  C21. A connection can always be closed: \<open>CloseUnderLock\<close> sends an error on the channel of every pending request while
  it holds the lock of the connection; in every reachable state each of these channels has room, so that no send blocks
  and the lock is released.  The same holds for the dial that fails.
\<close>

theorem close_never_blocks:
  assumes "rpc_reachable w st" "rpc_bounded st" and k: "k < length (rpc_Conns st)"
  shows "CloseUnderLock k st \<noteq> None \<and> ConnectUnderLock dial k st \<noteq> None"
proof -
  note inv = reachable_inv [OF assms(1,2)]
  have "CloseUnderLock k st \<noteq> None"
  proof (cases "ws_State (conn st k) = WsClosed")
    case False
    show ?thesis by (rule CloseUnderLock_run [OF inv k False]) simp
  qed (simp add: CloseUnderLock_def)
  then show ?thesis by (auto simp: ConnectUnderLock_def split: ws_state.splits option.splits)
qed


section \<open>The abstract protocol\<close>

text \<open>What a call promises its caller: it asks once, and it is answered once with the response to that request, or it fails.\<close>

datatype call_status = Idle | Asked string | Answered RPCMessage | Failed go_error

inductive protocol_step :: "call_status \<Rightarrow> call_status \<Rightarrow> bool" where
  ask: "protocol_step Idle (Asked r)"
| refuse: "protocol_step Idle (Failed e)"
| respond: "m_RequestID msg = r \<Longrightarrow> protocol_step (Asked r) (Answered msg)"
| give_up: "protocol_step (Asked r) (Failed e)"

definition lost_response :: go_error where "lost_response = PlainError ''no response''"

definition status_of_call :: "RPCPendingRequest \<Rightarrow> call_status" where
  "status_of_call p = (case pr_pc p of
     NotStarted \<Rightarrow> Idle | HasConn k \<Rightarrow> Idle | Sending k r \<Rightarrow> Asked r | Waiting k r \<Rightarrow> Asked r
   | Returned (Some e) \<Rightarrow> Failed e
   | Returned None \<Rightarrow> (case pr_Res p of Some msg \<Rightarrow> Answered msg | None \<Rightarrow> Failed lost_response))"

lemma status_same: "pr_pc p = pr_pc q \<Longrightarrow> pr_Res p = pr_Res q \<Longrightarrow> status_of_call p = status_of_call q"
  by (auto simp: status_of_call_def split: call_pc.splits option.splits)

lemma status_same_calls: "same_calls st st' \<Longrightarrow> status_of_call (rpc_Calls st' i) = status_of_call (rpc_Calls st i)"
  by (rule status_same) (simp_all add: same_calls_def)

lemma begin_call_status:
  assumes inv: "rpc_inv st" and pc: "pr_pc (rpc_Calls st i) = HasConn k" and run: "begin_call dial i k st = Some st'"
  shows "status_of_call (rpc_Calls st' j) = status_of_call (rpc_Calls st j) \<or>
    protocol_step (status_of_call (rpc_Calls st j)) (status_of_call (rpc_Calls st' j))"
proof -
  have k: "k < length (rpc_Conns st)" using rpc_invD(2) [OF inv, of i] pc by (simp add: call_inv_def)
  from run obtain e st1 where c: "ConnectUnderLock dial k st = Some (e, st1)" by (auto simp: begin_call_def split: option.splits)
  note calls = ConnectUnderLock_inv(3) [OF inv k c]
  show ?thesis
  proof (cases "j = i")
    case True
    then show ?thesis using run c pc calls
      by (cases e) (auto simp: begin_call_def NewRequest_def Let_def status_of_call_def intro: protocol_step.intros)
  next
    case False
    then have "rpc_Calls st' j = rpc_Calls st j" using run c calls by (cases e) (auto simp: begin_call_def NewRequest_def Let_def)
    then show ?thesis by simp
  qed
qed

text \<open>
  C20. The client refines the protocol: every step of every goroutine in a reachable state is, for every call, a step of the
  abstract protocol or no change.  So a call that asked is answered at most once, with the response to its request, and a
  call that has returned keeps its outcome whatever happens to its connection later.
\<close>

theorem calls_refine_protocol:
  assumes reach: "rpc_reachable w st" and step: "rpc_step w st st'" and bound: "rpc_bounded st'"
  shows "status_of_call (rpc_Calls st' j) = status_of_call (rpc_Calls st j) \<or>
    protocol_step (status_of_call (rpc_Calls st j)) (status_of_call (rpc_Calls st' j))"
proof -
  note inv = reachable_inv [OF reach bounded_before [OF step bound]]
  show ?thesis using step inv
  proof (induction rule: rpc_step.induct)
    case (get st i k st1)
    then show ?case using GetConnection_inv(3) [OF get(3,2)] by (auto simp: status_of_call_def)
  next
    case (start st i k dial st1)
    then show ?case using begin_call_status by blast
  next
    case (sent st i k reqid)
    then show ?case by (auto simp: status_of_call_def)
  next
    case (send_failed st i k reqid err)
    then show ?case by (auto simp: status_of_call_def intro: protocol_step.intros)
  next
    case (receive st i k reqid r rs)
    then show ?case using rpc_invD(2) [OF receive(3), of i]
      by (cases r) (auto simp: status_of_call_def call_inv_def answered_def intro: protocol_step.intros)
  next
    case (respond k st msg)
    then show ?case by (auto simp: take_pending_def split: option.splits)
  next
    case (answer k st i msg)
    have "pr_pc (rpc_Calls st i) \<noteq> Returned None"
      using rpc_invD(2) [OF answer(4), of i] conn_invD(11) [OF rpc_invD(1) [OF answer(4,1)] answer(2)] by (auto simp: call_inv_def answered_def)
    then show ?case by (auto simp: deliver_def status_of_call_def split: sum.splits call_pc.splits option.splits)
  next
    case (read_failed k st st1)
    then show ?case using status_same_calls [OF close_inv(4) [OF read_failed(4,1,3)]] by simp
  next
    case (close k st st1)
    then show ?case using status_same_calls [OF close_inv(4) [OF close(4,1,3)]] by simp
  next
    case (respawn a st k st1)
    have "rpc_inv (st\<lparr>rpc_Spawned := remove1 a (rpc_Spawned st)\<rparr>)" using respawn(3) by (simp add: rpc_inv_def)
    from GetConnection_inv(3) [OF this respawn(2)] show ?case by simp
  next
    case (reconnect k st dial err st1)
    have inv: "rpc_inv (st\<lparr>rpc_Reconnecting := remove1 k (rpc_Reconnecting st)\<rparr>)"
      using reconnect(3) set_remove1_subset [of k "rpc_Reconnecting st"] by (auto simp: rpc_inv_def)
    have "k < length (rpc_Conns st)" using rpc_invD(4) [OF reconnect(3,1)] .
    then show ?case using ConnectUnderLock_inv(3) [OF inv _ reconnect(2)] by simp
  qed
qed


section \<open>A concrete run\<close>

text \<open>One call that is answered, and the same call on a connection that is closed before the response.\<close>

definition ex_address :: string where "ex_address = ''wss://core''"

definition ex_rpc0 :: RPC where "ex_rpc0 = rpc_init (\<lambda>_. ex_address)"

definition ex_rpc1 :: RPC where "ex_rpc1 = set_call 0 (\<lambda>p. p\<lparr>pr_pc := HasConn 0\<rparr>) (snd (GetConnection ex_address ex_rpc0))"

definition ex_rpc2 :: RPC where
  "ex_rpc2 = NewRequest 0 0 (set_conn 0 (\<lambda>c. c\<lparr>ws_State := WsConnected, ws_Reader := Reading\<rparr>) ex_rpc1)"

definition ex_rpc3 :: RPC where "ex_rpc3 = set_call 0 (\<lambda>p. p\<lparr>pr_pc := Waiting 0 (request_id ex_address 0)\<rparr>) ex_rpc2"

definition ex_response :: RPCMessage where
  "ex_response = ex_msg\<lparr>m_Op := ''res'', m_RequestID := request_id ex_address 0, m_RawBytes := ''read_auth''\<rparr>"

definition ex_rpc4 :: RPC where "ex_rpc4 = take_pending 0 ex_response ex_rpc3"

definition ex_rpc5 :: RPC where "ex_rpc5 = deliver ex_wire 0 0 ex_response ex_rpc4"

definition ex_rpc6 :: RPC where "ex_rpc6 = set_call 0 (\<lambda>p. p\<lparr>pr_pc := Returned None, pr_ReplyChan := []\<rparr>) ex_rpc5"

definition ex_closed :: RPC where "ex_closed = the (CloseUnderLock 0 ex_rpc3)"

lemmas ex_rpc_defs = ex_rpc0_def ex_rpc1_def ex_rpc2_def ex_rpc3_def ex_rpc4_def ex_rpc5_def ex_rpc6_def
lemmas rpc_run_defs = rpc_init_def GetConnection_def NewRPCConnWS_def NewRequest_def take_pending_def deliver_def set_call_def set_conn_def

lemma ex_rpc0_step: "rpc_step ex_wire ex_rpc0 ex_rpc1"
  unfolding ex_rpc1_def
  by (rule rpc_step.get) (simp_all add: ex_rpc0_def rpc_run_defs ex_address_def HasPrefix_def)

lemma ex_rpc1_step: "rpc_step ex_wire ex_rpc1 ex_rpc2"
  by (rule rpc_step.start [where i = 0 and k = 0 and dial = None])
    (simp_all add: ex_rpc_defs rpc_run_defs ex_address_def HasPrefix_def begin_call_def ConnectUnderLock_def Let_def)

lemma ex_rpc2_step: "rpc_step ex_wire ex_rpc2 ex_rpc3"
  unfolding ex_rpc3_def
  by (rule rpc_step.sent) (simp add: ex_rpc_defs rpc_run_defs ex_address_def HasPrefix_def Let_def)

lemma ex_rpc3_step: "rpc_step ex_wire ex_rpc3 ex_rpc4"
  unfolding ex_rpc4_def
  by (rule rpc_step.respond) (simp_all add: ex_rpc_defs rpc_run_defs ex_address_def HasPrefix_def Let_def)

lemma ex_rpc4_step: "rpc_step ex_wire ex_rpc4 ex_rpc5"
  unfolding ex_rpc5_def
  by (rule rpc_step.answer) (simp_all add: ex_rpc_defs rpc_run_defs ex_response_def ex_msg_def ex_address_def HasPrefix_def Let_def)

lemma ex_rpc5_step: "rpc_step ex_wire ex_rpc5 ex_rpc6"
  unfolding ex_rpc6_def
  by (rule rpc_step.receive [where k = 0 and reqid = "request_id ex_address 0"])
    (simp_all add: ex_rpc_defs rpc_run_defs ex_response_def ex_msg_def ex_wire_def ex_address_def HasPrefix_def Let_def)

lemma ex_closed_run: "CloseUnderLock 0 ex_rpc3 = Some ex_closed"
  by (simp add: ex_closed_def CloseUnderLock_def ex_rpc_defs rpc_run_defs ex_address_def HasPrefix_def Let_def)

lemma ex_closed_step: "rpc_step ex_wire ex_rpc3 ex_closed"
  by (rule rpc_step.close [OF _ _ ex_closed_run]) (simp_all add: ex_rpc_defs rpc_run_defs ex_address_def HasPrefix_def Let_def)

lemma ex_reachable: "rpc_reachable ex_wire ex_rpc2" "rpc_reachable ex_wire ex_rpc3" "rpc_reachable ex_wire ex_rpc5" "rpc_reachable ex_wire ex_rpc6"
  "rpc_reachable ex_wire ex_closed"
proof -
  have "rpc_reachable ex_wire ex_rpc0" unfolding ex_rpc0_def by (rule rpc_reachable.initial)
  note rpc_reachable.more [OF rpc_reachable.more [OF this ex_rpc0_step] ex_rpc1_step]
  note r2 = this
  note r3 = rpc_reachable.more [OF r2 ex_rpc2_step]
  note r5 = rpc_reachable.more [OF rpc_reachable.more [OF r3 ex_rpc3_step] ex_rpc4_step]
  from r2 r3 r5 rpc_reachable.more [OF r5 ex_rpc5_step] rpc_reachable.more [OF r3 ex_closed_step]
  show "rpc_reachable ex_wire ex_rpc2" "rpc_reachable ex_wire ex_rpc3" "rpc_reachable ex_wire ex_rpc5" "rpc_reachable ex_wire ex_rpc6"
    "rpc_reachable ex_wire ex_closed" .
qed

lemma ex_bounded: "rpc_bounded ex_rpc3" "rpc_bounded ex_rpc6" "rpc_bounded ex_closed"
  by (simp_all add: rpc_bounded_def ex_closed_def CloseUnderLock_def RemoveConnection_def ex_rpc_defs rpc_run_defs ex_response_def ex_msg_def
      ex_address_def HasPrefix_def Let_def)

theorem response_matches_request_witness:
  "\<exists>k msg. pr_Request (rpc_Calls ex_rpc6 0) = Some (k, m_RequestID msg) \<and> pr_Res (rpc_Calls ex_rpc6 0) = Some msg"
  by (rule response_matches_request [OF ex_reachable(4) ex_bounded(2)]) (simp add: ex_rpc6_def)

theorem close_never_blocks_witness: "CloseUnderLock 0 ex_rpc3 \<noteq> None"
  using close_never_blocks [OF ex_reachable(2) ex_bounded(1), of 0] by (simp add: ex_rpc_defs rpc_run_defs ex_address_def HasPrefix_def Let_def)


theorem calls_refine_protocol_witness:
  "protocol_step (status_of_call (rpc_Calls ex_rpc5 0)) (status_of_call (rpc_Calls ex_rpc6 0))"
proof -
  have "status_of_call (rpc_Calls ex_rpc6 0) \<noteq> status_of_call (rpc_Calls ex_rpc5 0)"
    by (simp add: status_of_call_def ex_rpc_defs rpc_run_defs ex_response_def ex_msg_def ex_wire_def ex_address_def HasPrefix_def Let_def)
  with calls_refine_protocol [OF ex_reachable(3) ex_rpc5_step ex_bounded(2), of 0] show ?thesis by simp
qed


section \<open>A reader that never ends\<close>

text \<open>A reader that is about to send on a full channel whose call has returned.\<close>

definition stuck_reader :: "nat \<Rightarrow> RPC \<Rightarrow> bool" where
  "stuck_reader k st \<longleftrightarrow> k < length (rpc_Conns st) \<and> (\<exists>i msg x. ws_Reader (conn st k) = Delivering i msg \<and> pr_ReplyChan (rpc_Calls st i) \<noteq> [] \<and>
     pr_pc (rpc_Calls st i) = Returned x)"

lemma stuck_close:
  assumes "stuck_reader k st" "rpc_inv st" "j < length (rpc_Conns st)" "CloseUnderLock j st = Some st'"
  shows "stuck_reader k st'"
proof (cases "ws_State (conn st j) = WsClosed")
  case True
  then show ?thesis using assms(1,4) by (simp add: CloseUnderLock_def)
next
  case False
  from CloseUnderLock_run [OF assms(2,3) False] obtain st2 where "CloseUnderLock j st = Some st2"
    and st2: "rpc_Conns st2 = (rpc_Conns st)[j := (conn st j)\<lparr>ws_State := WsClosed\<rparr>]" "rpc_Calls st2 = woken (conn st j) (rpc_Calls st)" by blast
  moreover have "pr_ReplyChan (woken (conn st j) (rpc_Calls st) i) \<noteq> []" if "pr_ReplyChan (rpc_Calls st i) \<noteq> []" for i
    using woken_chan_cases [OF rpc_invD(1) [OF assms(2,3)], of i] that by auto
  ultimately show ?thesis using assms(1,3,4) by (auto simp: stuck_reader_def nth_list_update)
qed

lemma stuck_connect:
  assumes "stuck_reader k st" "rpc_inv st" "j < length (rpc_Conns st)" "ConnectUnderLock dial j st = Some (e, st')"
  shows "stuck_reader k st'"
  using assms stuck_close [OF assms(1,2,3)] conn_invD(4) [OF rpc_invD(1) [OF assms(2,3)]]
  by (auto simp: ConnectUnderLock_def stuck_reader_def nth_list_update split: ws_state.splits option.splits)

lemma stuck_step: "rpc_step w st st' \<Longrightarrow> rpc_inv st \<Longrightarrow> stuck_reader k st \<Longrightarrow> stuck_reader k st'"
proof (induction rule: rpc_step.induct)
  case (get st i j st1)
  then obtain i' msg x where s: "k < length (rpc_Conns st)" "ws_Reader (conn st k) = Delivering i' msg"
    "pr_ReplyChan (rpc_Calls st i') \<noteq> []" "pr_pc (rpc_Calls st i') = Returned x" by (auto simp: stuck_reader_def)
  then have "i' \<noteq> i" using get(1) by auto
  then show ?case using GetConnection_inv(3,4,5) [OF get(3,2)] s unfolding stuck_reader_def
    by (intro conjI exI [of _ i'] exI [of _ msg] exI [of _ x]) auto
next
  case (start st i j dial st1)
  have j: "j < length (rpc_Conns st)" using rpc_invD(2) [OF start(3), of i] start(1) by (simp add: call_inv_def)
  from start(2) obtain e st2 where c: "ConnectUnderLock dial j st = Some (e, st2)" by (auto simp: begin_call_def split: option.splits)
  have "stuck_reader k st2" "pr_pc (rpc_Calls st2 i) = HasConn j"
    using stuck_connect [OF start(4,3) j c] ConnectUnderLock_inv(3) [OF start(3) j c] start(1) by simp_all
  then obtain i' msg x where s: "k < length (rpc_Conns st2)" "ws_Reader (conn st2 k) = Delivering i' msg"
    "pr_ReplyChan (rpc_Calls st2 i') \<noteq> []" "pr_pc (rpc_Calls st2 i') = Returned x" "pr_pc (rpc_Calls st2 i) = HasConn j"
    by (auto simp: stuck_reader_def)
  then have "i' \<noteq> i" by auto
  note s = s this
  show ?case
  proof (cases e)
    case None
    then show ?thesis using start(2) c s unfolding stuck_reader_def
      by (intro conjI exI [of _ i'] exI [of _ msg] exI [of _ x])
        (cases "j = k"; auto simp: begin_call_def NewRequest_def Let_def)+
  next
    case (Some err)
    then show ?thesis using start(2) c s unfolding stuck_reader_def
      by (intro conjI exI [of _ i'] exI [of _ msg] exI [of _ x]) (auto simp: begin_call_def)
  qed
next
  case (respond j st msg)
  then show ?case by (auto simp: take_pending_def stuck_reader_def nth_list_update split: option.splits)
next
  case (answer j st i msg)
  then show ?case by (auto simp: deliver_def stuck_reader_def nth_list_update split: sum.splits)
next
  case (read_failed j st st1)
  note c = stuck_close [OF read_failed(5,4,1,3)] close_inv(2,6) [OF read_failed(4,1,3)]
  then show ?case using read_failed(1,2) by (auto simp: stuck_reader_def nth_list_update)
next
  case (close j st st1)
  then show ?case using stuck_close by blast
next
  case (respawn a st j st1)
  have inv: "rpc_inv (st\<lparr>rpc_Spawned := remove1 a (rpc_Spawned st)\<rparr>)" using respawn(3) by (simp add: rpc_inv_def)
  show ?case using respawn(4) GetConnection_inv [OF inv respawn(2)] by (auto simp: stuck_reader_def)
next
  case (reconnect j st dial err st1)
  have inv: "rpc_inv (st\<lparr>rpc_Reconnecting := remove1 j (rpc_Reconnecting st)\<rparr>)"
    using reconnect(3) set_remove1_subset [of j "rpc_Reconnecting st"] by (auto simp: rpc_inv_def)
  have "j < length (rpc_Conns st)" using rpc_invD(4) [OF reconnect(3,1)] .
  then show ?case using stuck_connect [OF _ inv _ reconnect(2), of k] reconnect(4) by (simp add: stuck_reader_def)
qed (auto simp: stuck_reader_def; metis call_pc.distinct)+

definition ex_failed :: RPC where "ex_failed = set_call 0 (\<lambda>p. p\<lparr>pr_pc := Returned (Some unexpected_EOF)\<rparr>) ex_rpc2"

definition ex_stuck :: RPC where "ex_stuck = take_pending 0 ex_response (the (CloseUnderLock 0 ex_failed))"

lemma ex_failed_step: "rpc_step ex_wire ex_rpc2 ex_failed"
  unfolding ex_failed_def
  by (rule rpc_step.send_failed) (simp add: ex_rpc_defs rpc_run_defs ex_address_def HasPrefix_def Let_def)

lemma ex_failed_run: "CloseUnderLock 0 ex_failed = Some (the (CloseUnderLock 0 ex_failed))"
  by (simp add: ex_failed_def CloseUnderLock_def ex_rpc_defs rpc_run_defs ex_address_def HasPrefix_def Let_def)

lemma ex_stuck_reachable: "rpc_reachable ex_wire ex_stuck"
proof -
  have "rpc_step ex_wire ex_failed (the (CloseUnderLock 0 ex_failed))"
    by (rule rpc_step.close [OF _ _ ex_failed_run]) (simp_all add: ex_failed_def ex_rpc_defs rpc_run_defs ex_address_def HasPrefix_def Let_def)
  moreover have "rpc_step ex_wire (the (CloseUnderLock 0 ex_failed)) ex_stuck"
    unfolding ex_stuck_def by (rule rpc_step.respond)
      (simp_all add: ex_failed_def CloseUnderLock_def RemoveConnection_def ex_rpc_defs rpc_run_defs ex_address_def HasPrefix_def Let_def)
  ultimately show ?thesis using ex_reachable(1) ex_failed_step by (meson rpc_reachable.more)
qed

text \<open>
  A reader can be blocked for ever.  When the send of a request fails, the request stays in the table and nobody will
  read its channel.  If the connection closes and a response to that request is still read, the channel gets two messages
  and holds one: the reader blocks in every later state, and its goroutine and its connection are never released.
\<close>

theorem reader_blocked_forever:
  "\<exists>st. rpc_reachable ex_wire st \<and> stuck_reader 0 st"
  "rpc_reachable w st \<Longrightarrow> rpc_bounded st' \<Longrightarrow> stuck_reader k st \<Longrightarrow> rpc_step w st st' \<Longrightarrow> stuck_reader k st'"
proof -
  have "stuck_reader 0 ex_stuck"
    by (simp add: stuck_reader_def ex_stuck_def ex_failed_def CloseUnderLock_def RemoveConnection_def ex_rpc_defs rpc_run_defs
        ex_response_def ex_msg_def ex_address_def HasPrefix_def Let_def)
  then show "\<exists>st. rpc_reachable ex_wire st \<and> stuck_reader 0 st" using ex_stuck_reachable by blast
  show "rpc_reachable w st \<Longrightarrow> rpc_bounded st' \<Longrightarrow> stuck_reader k st \<Longrightarrow> rpc_step w st st' \<Longrightarrow> stuck_reader k st'"
    using stuck_step reachable_inv bounded_before by blast
qed

end
