(* ===== verification/Pg_Config.thy ===== *)
theory Pg_Config
  imports Profiles
begin

text \<open>
  The settings the operator computes for the database (\<open>calculatePGConfig\<close> and its helpers in
  \<^verbatim>\<open>pkg/system/db_reconciler.go\<close>).  The code computes with \<open>int64\<close>: products and sums are written with
  their wrap-around, and division truncates towards zero.
\<close>

section \<open>Settings\<close>

definition formatBytesKB :: "int \<Rightarrow> string" where
  "formatBytesKB kb =
     (if kb \<ge> 1024 * 1024 \<and> kb mod (1024 * 1024) = 0 then show_int (kb div (1024 * 1024)) @ ''GB''
      else if kb \<ge> 1024 \<and> kb mod 1024 = 0 then show_int (kb div 1024) @ ''MB''
      else show_int kb @ ''kB'')"

definition calculateMaxConnections :: "int \<Rightarrow> int" where
  "calculateMaxConnections numEndpoints = wrap64 (3 * 20 + wrap64 (numEndpoints * 80) + 3)"

definition calculateWalKeepSize :: "parse_quantity \<Rightarrow> string \<Rightarrow> string" where
  "calculateWalKeepSize ParseQuantity dataVolumeSize = (case ParseQuantity dataVolumeSize of
     Inl _ \<Rightarrow> ''6GB''
   | Inr qty \<Rightarrow>
       (let volMB = quot64 (q_Value qty) (1024 * 1024);
            walKeepMB = quot64 (wrap64 (volMB * 12)) 100;
            walKeepMB = (if walKeepMB > 16 * 1024 then 16 * 1024 else walKeepMB);
            walKeepMB = (if walKeepMB < 1024 then 1024 else walKeepMB)
        in formatBytesKB (walKeepMB * 1024)))"

definition wal_buffers_kb :: "int \<Rightarrow> int" where
  "wal_buffers_kb sharedBuffersKB =
     (let kb = quot64 (wrap64 (3 * sharedBuffersKB)) 100;
          kb = (if kb > 16 * 1024 then 16 * 1024 else if kb > 14 * 1024 then 16 * 1024 else kb)
      in if kb < 32 then 32 else kb)"

definition parallel_settings :: "int \<Rightarrow> (string \<rightharpoonup> string)" where
  "parallel_settings cpuNum =
     (if cpuNum \<ge> 4 then
        (let half = quot64 (wrap64 (cpuNum + 1)) 2; workers = (if half > 4 then 4 else half) in
         [''max_worker_processes'' \<mapsto> show_int cpuNum, ''max_parallel_workers'' \<mapsto> show_int cpuNum,
          ''max_parallel_workers_per_gather'' \<mapsto> show_int workers, ''max_parallel_maintenance_workers'' \<mapsto> show_int workers])
      else Map.empty)"

text \<open>A zero divisor panics.\<close>

definition work_mem_kb :: "int \<Rightarrow> int \<Rightarrow> int \<Rightarrow> int \<Rightarrow> int result" where
  "work_mem_kb totalMemoryKB sharedBuffersKB maxConnections parallelForWorkMem =
     (let d = wrap64 (wrap64 (maxConnections + parallelForWorkMem) * 3) in
      if d = 0 then Panic
      else (let kb = (let n = wrap64 (totalMemoryKB - sharedBuffersKB) in if 0 < d then quot64 n d else - quot64 n (- d))
            in Ok (if kb < 4 * 1024 then 4 * 1024 else kb)))"

definition calculatePGConfig :: "parse_quantity \<Rightarrow> int \<Rightarrow> int \<Rightarrow> int \<Rightarrow> string \<Rightarrow> (string \<rightharpoonup> string) result" where
  "calculatePGConfig ParseQuantity totalMemoryKB cpuNum numEndpoints dataVolumeSize =
     (let maxConnections = calculateMaxConnections numEndpoints;
          sharedBuffersKB = quot64 totalMemoryKB 4;
          maintenanceWorkMemKB = (let m = quot64 totalMemoryKB 16 in if m > 8 * 1024 * 1024 then 8 * 1024 * 1024 else m);
          parallelForWorkMem = (if cpuNum \<ge> 4 then cpuNum else 8)
      in bind_r (work_mem_kb totalMemoryKB sharedBuffersKB maxConnections parallelForWorkMem) (\<lambda>workMemKB. Ok
        (parallel_settings cpuNum ++
         [''shared_buffers'' \<mapsto> formatBytesKB sharedBuffersKB,
          ''effective_cache_size'' \<mapsto> formatBytesKB (quot64 (wrap64 (totalMemoryKB * 3)) 4),
          ''maintenance_work_mem'' \<mapsto> formatBytesKB maintenanceWorkMemKB,
          ''wal_buffers'' \<mapsto> formatBytesKB (wal_buffers_kb sharedBuffersKB),
          ''max_connections'' \<mapsto> show_int maxConnections,
          ''work_mem'' \<mapsto> formatBytesKB workMemKB,
          ''wal_keep_size'' \<mapsto> calculateWalKeepSize ParseQuantity dataVolumeSize])))"

section \<open>Reading a setting back\<close>

text \<open>How the database reads a memory setting: a decimal number and a unit.\<close>

definition pg_unit :: "string \<Rightarrow> int option" where
  "pg_unit u = (if u = ''kB'' then Some 1 else if u = ''MB'' then Some 1024 else if u = ''GB'' then Some (1024 * 1024) else None)"

definition pg_memory :: "string \<Rightarrow> int option" where
  "pg_memory s = (let ds = takeWhile (\<lambda>c. digit c \<noteq> None) s; u = dropWhile (\<lambda>c. digit c \<noteq> None) s in
     case (ParseInt 64 ds, pg_unit u) of (Some n, Some k) \<Rightarrow> Some (n * k) | _ \<Rightarrow> None)"

lemma show_nat_digits: "\<forall>c \<in> set (show_nat n). digit c \<noteq> None"
proof (induction n rule: show_nat.induct)
  case (1 n)
  have d: "digit (byte (48 + m)) \<noteq> None" if "m < 10" for m using that by (simp add: digit_byte)
  show ?case
  proof (cases "n < 10")
    case True
    then show ?thesis using d by (simp add: show_nat.simps [of n])
  next
    case False
    then show ?thesis using 1 d by (auto simp: show_nat.simps [of n])
  qed
qed

text \<open>A printed number followed by a unit is split where the number ends.\<close>

lemma pg_memory_show:
  assumes "0 \<le> n" "n < 2 ^ 63" "pg_unit u = Some k"
  shows "pg_memory (show_int n @ u) = Some (n * k)"
proof -
  have u: "u \<noteq> []" "digit (hd u) = None"
    using assms(3) by (auto simp: pg_unit_def digit_def split: if_splits)
  have ds: "\<forall>c \<in> set (show_int n). digit c \<noteq> None" using show_nat_digits assms(1) by (simp add: show_int_def)
  have "takeWhile (\<lambda>c. digit c \<noteq> None) (show_int n @ u) = show_int n" "dropWhile (\<lambda>c. digit c \<noteq> None) (show_int n @ u) = u"
    using u ds by (cases u; simp add: takeWhile_append dropWhile_append takeWhile_eq_all_conv dropWhile_eq_Nil_conv)+
  moreover have "ParseInt 64 (show_int n) = Some n"
    using ParseInt_show_nat [of "nat n" 64] assms(1,2) by (simp add: show_int_def nat_less_iff)
  ultimately show ?thesis using assms(3) by (simp add: pg_memory_def Let_def)
qed

lemma div_le_self: "0 \<le> a \<Longrightarrow> 0 < b \<Longrightarrow> a div b \<le> a" for a b :: int
  using zdiv_mono2 [of a 1 b] by simp

lemma formatBytesKB_read:
  assumes "0 \<le> kb" "kb < 2 ^ 63"
  shows "pg_memory (formatBytesKB kb) = Some kb"
proof -
  have "kb div k < 2 ^ 63" if "0 < k" for k :: int
    using div_le_self [OF assms(1) that] assms(2) by simp
  then have "pg_memory (show_int (kb div k) @ u) = Some (kb div k * k)" if "0 < k" "pg_unit u = Some k" for k u
    using assms(1) that by (intro pg_memory_show) (auto simp: pos_imp_zdiv_nonneg_iff)
  from this [of "1024 * 1024" "''GB''"] this [of 1024 "''MB''"] pg_memory_show [OF assms, of "''kB''" 1]
  show ?thesis by (auto simp: formatBytesKB_def pg_unit_def)
qed

text \<open>
  The memory settings are printed without loss: the database reads back every amount of kilobytes that the operator
  formats.
\<close>

theorem memory_setting_round_trip: "0 \<le> kb \<Longrightarrow> kb < 2 ^ 63 \<Longrightarrow> pg_memory (formatBytesKB kb) = Some kb"
  by (rule formatBytesKB_read)

theorem memory_setting_round_trip_witness:
  "formatBytesKB 4194304 = ''4GB'' \<and> pg_memory (formatBytesKB 4194304) = Some 4194304"
proof -
  have "formatBytesKB 4194304 = ''4GB''" by code_simp
  then show ?thesis using memory_setting_round_trip [of 4194304] by simp
qed

section \<open>Bounds\<close>

lemma max_connections: "0 \<le> n \<Longrightarrow> n < 2 ^ 31 \<Longrightarrow> calculateMaxConnections n = 63 + 80 * n"
  by (simp add: calculateMaxConnections_def wrap64_id)

lemma wal_buffers_bounds: "0 \<le> kb \<Longrightarrow> kb < 2 ^ 53 \<Longrightarrow> 32 \<le> wal_buffers_kb kb \<and> wal_buffers_kb kb \<le> 16 * 1024"
  by (simp add: wal_buffers_kb_def wrap64_id Let_def)

text \<open>The memory of the queries: the minimum, or a share of what the shared buffers leave.\<close>

lemma work_mem:
  assumes "0 \<le> memKB" "memKB < 2 ^ 53" "0 < d" "d < 2 ^ 40" "d = c + p" "0 \<le> c" "0 \<le> p"
  shows "\<exists>kb. work_mem_kb memKB (memKB div 4) c p = Ok kb \<and> 4 * 1024 \<le> kb \<and> kb < 2 ^ 53 \<and>
    (kb = 4 * 1024 \<or> memKB div 4 + d * 3 * kb \<le> memKB)"
proof -
  define n where "n = memKB - memKB div 4"
  have n: "0 \<le> n" "n < 2 ^ 53" using assms(1,2) by (simp_all add: n_def)
  have "wrap64 (wrap64 (c + p) * 3) = d * 3" "wrap64 n = n"
    using assms n by (simp_all add: wrap64_id)
  then have run: "work_mem_kb memKB (memKB div 4) c p = Ok (if n div (d * 3) < 4 * 1024 then 4 * 1024 else n div (d * 3))"
    using assms(3) n by (simp add: work_mem_kb_def Let_def n_def)
  have "d * 3 * (n div (d * 3)) \<le> n" using mult_div_mod_eq [of "d * 3" n] pos_mod_sign [of "d * 3" n] assms(3) by linarith
  moreover have "n div (d * 3) \<le> n" using n(1) assms(3) by (simp add: div_le_self)
  ultimately show ?thesis using run n by (auto simp: n_def)
qed

lemma wal_keep_size: "\<exists>kb. pg_memory (calculateWalKeepSize pq vol) = Some kb \<and> 1024 * 1024 \<le> kb \<and> kb \<le> 16 * 1024 * 1024"
proof (cases "pq vol")
  case (Inl e)
  have "pg_memory ''6GB'' = Some (6 * 1024 * 1024)" by code_simp
  then show ?thesis using Inl by (simp add: calculateWalKeepSize_def)
next
  case (Inr qty)
  define mb where "mb = quot64 (wrap64 (quot64 (q_Value qty) (1024 * 1024) * 12)) 100"
  define kb where "kb = (let m = (if mb > 16 * 1024 then 16 * 1024 else mb) in if m < 1024 then 1024 else m) * 1024"
  have "1024 * 1024 \<le> kb" "kb \<le> 16 * 1024 * 1024" by (simp_all add: kb_def Let_def)
  moreover have "calculateWalKeepSize pq vol = formatBytesKB kb"
    using Inr by (simp add: calculateWalKeepSize_def Let_def kb_def mb_def)
  ultimately show ?thesis using formatBytesKB_read [of kb] by auto
qed

definition setting :: "(string \<rightharpoonup> string) \<Rightarrow> string \<Rightarrow> int option" where
  "setting params k = Option.bind (params k) pg_memory"

text \<open>The memory a database may use for its queries, when every connection and every worker takes its share three times.\<close>

definition query_memory :: "int \<Rightarrow> int \<Rightarrow> int \<Rightarrow> int" where
  "query_memory cpuNum numEndpoints workMemKB = (63 + 80 * numEndpoints + (if cpuNum \<ge> 4 then cpuNum else 8)) * 3 * workMemKB"

text \<open>
  C40. The settings computed for the database fit the memory it has.  For every amount of memory, number of processors and
  number of endpoints in range, the computation returns; the shared buffers are a quarter of the memory and the
  memory of the queries fits in the rest, unless it is the minimum of 4 MB; the maintenance memory, the WAL buffers and the
  kept WAL stay within their limits, whatever the size of the volume is.
\<close>

theorem database_settings_bounded:
  assumes "0 \<le> memKB" "memKB < 2 ^ 53" "1 \<le> cpuNum" "cpuNum < 2 ^ 32" "0 \<le> numEndpoints" "numEndpoints < 2 ^ 31"
  shows "\<exists>params work maintenance wal keep. calculatePGConfig pq memKB cpuNum numEndpoints vol = Ok params \<and>
    params ''max_connections'' = Some (show_int (63 + 80 * numEndpoints)) \<and>
    setting params ''shared_buffers'' = Some (memKB div 4) \<and>
    setting params ''effective_cache_size'' = Some (3 * memKB div 4) \<and>
    setting params ''work_mem'' = Some work \<and> 4 * 1024 \<le> work \<and>
      (work = 4 * 1024 \<or> memKB div 4 + query_memory cpuNum numEndpoints work \<le> memKB) \<and>
    setting params ''maintenance_work_mem'' = Some maintenance \<and> maintenance \<le> 8 * 1024 * 1024 \<and> maintenance \<le> memKB div 16 \<and>
    setting params ''wal_buffers'' = Some wal \<and> 32 \<le> wal \<and> wal \<le> 16 * 1024 \<and>
    setting params ''wal_keep_size'' = Some keep \<and> 1024 * 1024 \<le> keep \<and> keep \<le> 16 * 1024 * 1024"
proof -
  define p where "p = (if cpuNum \<ge> 4 then cpuNum else 8)"
  define mm where "mm = (if memKB div 16 > 8 * 1024 * 1024 then 8 * 1024 * 1024 else memKB div 16)"
  have p: "0 \<le> p" "p < 2 ^ 32" using assms(3,4) by (simp_all add: p_def)
  obtain work where work: "work_mem_kb memKB (memKB div 4) (63 + 80 * numEndpoints) p = Ok work" "4 * 1024 \<le> work" "work < 2 ^ 53"
    "work = 4 * 1024 \<or> memKB div 4 + (63 + 80 * numEndpoints + p) * 3 * work \<le> memKB"
    using work_mem [OF assms(1,2), of "63 + 80 * numEndpoints + p" "63 + 80 * numEndpoints" p] assms(5,6) p by auto
  obtain keep where keep: "pg_memory (calculateWalKeepSize pq vol) = Some keep" "1024 * 1024 \<le> keep" "keep \<le> 16 * 1024 * 1024"
    using wal_keep_size by blast
  have wal: "32 \<le> wal_buffers_kb (memKB div 4)" "wal_buffers_kb (memKB div 4) \<le> 16 * 1024"
    using wal_buffers_bounds [of "memKB div 4"] assms(1,2) by auto
  have cache: "quot64 (wrap64 (memKB * 3)) 4 = 3 * memKB div 4" using assms(1,2) by (simp add: wrap64_id mult.commute)
  have read: "pg_memory (formatBytesKB (memKB div 4)) = Some (memKB div 4)" "pg_memory (formatBytesKB (3 * memKB div 4)) = Some (3 * memKB div 4)"
    "pg_memory (formatBytesKB work) = Some work" "pg_memory (formatBytesKB mm) = Some mm"
    "pg_memory (formatBytesKB (wal_buffers_kb (memKB div 4))) = Some (wal_buffers_kb (memKB div 4))"
    using assms(1,2) work(2,3) wal by (auto intro!: formatBytesKB_read simp: mm_def)
  have mm: "mm \<le> 8 * 1024 * 1024" "mm \<le> memKB div 16" by (auto simp: mm_def)
  obtain params where params: "calculatePGConfig pq memKB cpuNum numEndpoints vol = Ok params"
    "params ''shared_buffers'' = Some (formatBytesKB (memKB div 4))" "params ''effective_cache_size'' = Some (formatBytesKB (3 * memKB div 4))"
    "params ''maintenance_work_mem'' = Some (formatBytesKB mm)" "params ''wal_buffers'' = Some (formatBytesKB (wal_buffers_kb (memKB div 4)))"
    "params ''max_connections'' = Some (show_int (63 + 80 * numEndpoints))" "params ''work_mem'' = Some (formatBytesKB work)"
    "params ''wal_keep_size'' = Some (calculateWalKeepSize pq vol)"
    using work(1) cache assms(1) max_connections [OF assms(5,6)] by (auto simp: calculatePGConfig_def Let_def p_def mm_def)
  show ?thesis
    using params read keep wal mm work(2,4) by (intro exI [of _ params] exI) (auto simp: setting_def query_memory_def p_def)
qed

theorem database_settings_bounded_witness:
  "\<exists>params work. calculatePGConfig (\<lambda>_. Inl ''bad'') 16777216 4 2 ''50Gi'' = Ok params \<and>
     setting params ''shared_buffers'' = Some 4194304 \<and> setting params ''work_mem'' = Some work \<and>
     4 * 1024 \<le> work \<and> (work = 4 * 1024 \<or> 4194304 + query_memory 4 2 work \<le> 16777216)"
  using database_settings_bounded [of 16777216 4 2 "\<lambda>_. Inl ''bad''" "''50Gi''"] by auto

lemma calculatePGConfig_returns:
  assumes "0 \<le> memKB" "memKB < 2 ^ 53" "1 \<le> cpuNum" "cpuNum < 2 ^ 32" "0 \<le> numEndpoints" "numEndpoints < 2 ^ 31"
  shows "\<exists>params. calculatePGConfig pq memKB cpuNum numEndpoints vol = Ok params"
proof -
  define p where "p = (if cpuNum \<ge> 4 then cpuNum else 8)"
  have "0 \<le> p" "p < 2 ^ 32" using assms(3,4) by (simp_all add: p_def)
  then obtain work where "work_mem_kb memKB (memKB div 4) (63 + 80 * numEndpoints) p = Ok work"
    using work_mem [OF assms(1,2), of "63 + 80 * numEndpoints + p" "63 + 80 * numEndpoints" p] assms(5,6) by auto
  then show ?thesis using assms(1) max_connections [OF assms(5,6)] by (simp add: calculatePGConfig_def Let_def p_def)
qed

end
