(* ===== verification/Db_Reconciler.thy ===== *)
theory Db_Reconciler
  imports Pg_Config Reconcile_Base Tls "HOL-Library.Multiset"
begin

text \<open>
  The database of a system: \<^verbatim>\<open>pkg/system/db_reconciler.go\<close>, \<^verbatim>\<open>pkg/system/pdb_alert_silencer.go\<close> and the
  helpers they use.  The operator keeps an image catalog and a cluster resource of the CNPG operator, configures the
  database, recovers it from a snapshot, schedules backups and keeps a number of snapshots.

  The history of a run has its own events; the answers of the API server and of Alertmanager are functions of it.  Fields of a
  CNPG resource that the operator neither reads nor writes are kept as one text.
\<close>

section \<open>Resources\<close>

record CatalogImage =
  cat_Major :: int
  cat_Image :: string

record ImageCatalog =
  ic_Meta :: ObjectMeta
  ic_Images :: "CatalogImage list"

record EmbeddedObjectMetadata =
  em_Labels :: "(string \<rightharpoonup> string) option"
  em_Annotations :: "(string \<rightharpoonup> string) option"

record PVCTemplate =
  tpl_AccessModes :: "string list"
  tpl_Other :: string

record StorageConfiguration =
  sc_StorageClass :: "string option"
  sc_Size :: string
  sc_Template :: "PVCTemplate option"

record AffinityConfiguration =
  ac_NodeAffinity :: "string option"
  ac_TopologyKey :: string
  ac_Tolerations :: "Toleration list"
  ac_Other :: string

record MonitoringConfiguration =
  mon_EnablePodMonitor :: bool
  mon_TLSEnabled :: "bool option"
  mon_Other :: string

record CertificatesConfiguration =
  cert_ServerAltDNSNames :: "string list"
  cert_Other :: string

record VolumeSnapshotConfiguration =
  vsc_ClassName :: string
  vsc_Online :: "bool option"
  vsc_Other :: string

record BackupConfiguration =
  bk_VolumeSnapshot :: "VolumeSnapshotConfiguration option"
  bk_Other :: string

text \<open>How a new cluster starts: the database, its owner, and the collation or the snapshot to recover from.\<close>

datatype BootstrapConfiguration = InitDB string string string | BootstrapRecovery string string string

record ClusterSpec =
  cs_InheritedMetadata :: "EmbeddedObjectMetadata option"
  cs_ImageCatalogRef :: "(string \<times> int) option"
  cs_Instances :: int
  cs_Resources :: ResourceRequirements
  cs_Storage :: StorageConfiguration
  cs_Affinity :: AffinityConfiguration
  cs_PriorityClassName :: string
  cs_Monitoring :: "MonitoringConfiguration option"
  cs_Certificates :: "CertificatesConfiguration option"
  cs_FailoverDelay :: int
  cs_Parameters :: "(string \<rightharpoonup> string) option"
  cs_Backup :: "BackupConfiguration option"
  cs_Bootstrap :: "BootstrapConfiguration option"

record CnpgCluster =
  cn_Meta :: ObjectMeta
  cn_Spec :: ClusterSpec
  cn_Conditions :: "(string \<times> string) list"

record ScheduledBackup =
  sb_Meta :: ObjectMeta
  sb_Schedule :: string
  sb_Cluster :: string
  sb_Method :: string
  sb_Online :: "bool option"
  sb_Target :: string
  sb_LastScheduleTime :: "int option"
  sb_NextScheduleTime :: "int option"

record VolumeSnapshot =
  vs_Name :: string
  vs_CreationTimestamp :: int

record StorageClassInfo =
  sci_Name :: string
  sci_Annotations :: "(string \<rightharpoonup> string) option"
  sci_Provisioner :: string

section \<open>Status\<close>

datatype DBClusterStatus =
    DBClusterStatusNone | DBClusterStatusCreating | DBClusterStatusUpdating | DBClusterStatusImporting
  | DBClusterStatusRecovering | DBClusterStatusReady | DBClusterStatusFailed

datatype DBRecoveryStatusType =
    DBRecoveryStatusNone | DBRecoveryStatusPending | DBRecoveryStatusRunning | DBRecoveryStatusCompleted | DBRecoveryStatusFailed

record DBBackupStatus =
  bst_LastBackupTime :: "int option"
  bst_NextBackupTime :: "int option"
  bst_TotalSnapshots :: int
  bst_AvailableSnapshots :: "string list"

record DBRecoveryStatus =
  rec_Status :: DBRecoveryStatusType
  rec_SnapshotName :: string
  rec_RecoveryTime :: "int option"

record NooBaaDBStatus =
  dbt_DBClusterStatus :: DBClusterStatus
  dbt_DBCurrentImage :: string
  dbt_CurrentPgMajorVersion :: int
  dbt_ActualVolumeSize :: string
  dbt_BackupStatus :: "DBBackupStatus option"
  dbt_RecoveryStatus :: "DBRecoveryStatus option"

section \<open>Silences\<close>

record SilenceMatcher =
  sm_Name :: string
  sm_Value :: string
  sm_IsRegex :: bool
  sm_IsEqual :: bool

record AlertmanagerSilence =
  si_ID :: string
  si_Matchers :: "SilenceMatcher list"
  si_StartsAt :: int
  si_EndsAt :: int
  si_CreatedBy :: string
  si_Comment :: string

section \<open>State and environment\<close>

datatype noobaa_app = CoreApp | EndpointApp

datatype db_event =
    DbLooked
  | CatalogWritten ImageCatalog
  | ClusterCreated CnpgCluster | ClusterUpdated CnpgCluster
  | Scaled noobaa_app int
  | BackupScheduled ScheduledBackup | ScheduledBackupDeleted string
  | SnapshotDeleted string | BackupDeleted string
  | SilencePosted AlertmanagerSilence

text \<open>The part of the reconciler that the database uses; a zero time is \<open>None\<close>.\<close>

record db_state = "db_event logged" +
  dbs_NooBaa :: NooBaa
  dbs_Status :: "NooBaaDBStatus option"
  dbs_Catalog :: ImageCatalog
  dbs_Cluster :: CnpgCluster
  dbs_lastSilenceCheckTime :: "int option"

type_synonym 'a db_proc = "(db_state, 'a) proc"
type_synonym db_history = "db_event list"

text \<open>
  The options of the operator, the Go libraries and the answers of the outside.  \<open>de_CreateOrUpdate\<close> stands for
  \<^verbatim>\<open>controllerutil.CreateOrUpdate\<close>, which returns the object as the call leaves it; \<open>de_Sort\<close> for
  \<^verbatim>\<open>slices.SortFunc\<close>, which does not say how it orders snapshots of the same time.  An affinity is a text; its
  parts are read by two functions.
\<close>

record db_env =
  de_Namespace :: string
  de_OptionsNamespace :: string
  de_goarch :: string
  de_TLSConfigDisabled :: bool
  de_PostgresMajorVersion :: int
  de_DBImage :: string
  de_DefaultDBVolumeSize :: string
  de_ServiceDbPgName :: string
  de_ErrorText :: "kube_error \<Rightarrow> string"
  de_ParseQuantity :: parse_quantity
  de_NodeAffinity :: "string \<Rightarrow> string option"
  de_TopologyKey :: "string \<Rightarrow> string"
  de_SetControllerReference :: "ObjectMeta \<Rightarrow> ObjectMeta \<Rightarrow> ObjectMeta option"
  de_Sort :: "VolumeSnapshot list \<Rightarrow> VolumeSnapshot list"
  de_Now :: "db_history \<Rightarrow> int"
  de_Cluster :: "db_history \<Rightarrow> string \<Rightarrow> string \<Rightarrow> kube_error + CnpgCluster"
  de_StorageClasses :: "db_history \<Rightarrow> kube_error + StorageClassInfo list"
  de_PodCount :: "db_history \<Rightarrow> string \<Rightarrow> string \<Rightarrow> kube_error + nat"
  de_ScheduledBackup :: "db_history \<Rightarrow> string \<Rightarrow> string \<Rightarrow> kube_error + ScheduledBackup"
  de_Snapshots :: "db_history \<Rightarrow> string \<Rightarrow> string \<Rightarrow> kube_error + VolumeSnapshot list"
  de_write :: "db_history \<Rightarrow> db_event \<Rightarrow> kube_error option"
  de_Reply :: "db_history \<Rightarrow> CnpgCluster \<Rightarrow> CnpgCluster"
  de_AppMeta :: "noobaa_app \<Rightarrow> ObjectMeta"
  de_CatalogCreateOrUpdate :: "db_history \<Rightarrow> ImageCatalog \<Rightarrow> (ImageCatalog \<Rightarrow> ImageCatalog) \<Rightarrow> go_error option \<times> ImageCatalog"
  de_BackupCreateOrUpdate :: "db_history \<Rightarrow> ScheduledBackup \<Rightarrow> (ScheduledBackup \<Rightarrow> ScheduledBackup) \<Rightarrow> go_error option \<times> ScheduledBackup option \<times> ScheduledBackup"
  de_Scale :: "db_history \<Rightarrow> noobaa_app \<Rightarrow> int \<Rightarrow> go_error option"
  de_Token :: "go_error + string"
  de_ListSilences :: "db_history \<Rightarrow> string \<Rightarrow> string \<Rightarrow> (bool \<times> go_error) + AlertmanagerSilence list"
  de_PostSilence :: "db_history \<Rightarrow> string \<Rightarrow> string \<Rightarrow> AlertmanagerSilence \<Rightarrow> go_error option"

section \<open>Accesses\<close>

definition db_look :: "(db_history \<Rightarrow> kube_error + 'o) \<Rightarrow> 'o option db_proc" where
  "db_look f = bindp (asks f) (\<lambda>g. seqp (emit DbLooked) (lift (check_get g)))"

text \<open>\<open>KubeList\<close> into an empty list: whether it succeeded, and the list.\<close>

definition db_list :: "(db_history \<Rightarrow> kube_error + 'o) \<Rightarrow> 'o \<Rightarrow> (bool \<times> 'o) db_proc" where
  "db_list f dflt = bindp (asks f) (\<lambda>g. seqp (emit DbLooked) (case g of
     Inr xs \<Rightarrow> ret (True, xs)
   | Inl err \<Rightarrow> bindp (lift (KubeList (Some err))) (\<lambda>_. ret (False, dflt))))"

definition db_write :: "db_env \<Rightarrow> db_event \<Rightarrow> kube_error option db_proc" where
  "db_write e ev = bindp (asks (\<lambda>h. de_write e h ev)) (\<lambda>r. seqp (emit ev) (ret r))"

definition db_fail :: "db_env \<Rightarrow> kube_error \<Rightarrow> 'a db_proc" where
  "db_fail e err = raise (PlainError (de_ErrorText e err))"

definition own_db :: "db_env \<Rightarrow> ObjectMeta \<Rightarrow> ObjectMeta db_proc" where
  "own_db e m = bindp (gets (\<lambda>s. nb_Meta (dbs_NooBaa s))) (\<lambda>owner.
     case de_SetControllerReference e owner m of None \<Rightarrow> lift Panic | Some m1 \<Rightarrow> ret m1)"

definition db_spec :: "NooBaaDBSpec db_proc" where
  "db_spec = bindp (gets (\<lambda>s. nbs_DBSpec (nb_Spec (dbs_NooBaa s)))) (\<lambda>p. lift (deref p))"

definition upd_status :: "(NooBaaDBStatus \<Rightarrow> NooBaaDBStatus) \<Rightarrow> unit db_proc" where
  "upd_status f = bindp (gets dbs_Status) (\<lambda>p. case p of
     None \<Rightarrow> lift Panic
   | Some t \<Rightarrow> modify (\<lambda>s. s\<lparr>dbs_Status := Some (f t)\<rparr>))"

definition upd_spec :: "(ClusterSpec \<Rightarrow> ClusterSpec) \<Rightarrow> unit db_proc" where
  "upd_spec f = modify (\<lambda>s. s\<lparr>dbs_Cluster := (dbs_Cluster s)\<lparr>cn_Spec := f (cn_Spec (dbs_Cluster s))\<rparr>\<rparr>)"

abbreviation cn_Name :: "CnpgCluster \<Rightarrow> string" where "cn_Name cl \<equiv> om_Name (cn_Meta cl)"
abbreviation cn_Namespace :: "CnpgCluster \<Rightarrow> string" where "cn_Namespace cl \<equiv> om_Namespace (cn_Meta cl)"
abbreviation hours :: "int \<Rightarrow> int" where "hours n \<equiv> n * 3600000000000"

section \<open>The image catalog\<close>

definition getDesiredMajorVersion :: "db_env \<Rightarrow> NooBaaDBSpec \<Rightarrow> int" where
  "getDesiredMajorVersion e dbSpec = (case db_PostgresMajorVersion dbSpec of Some v \<Rightarrow> v | None \<Rightarrow> de_PostgresMajorVersion e)"

definition getDesiredDbImage :: "db_env \<Rightarrow> NooBaaDBSpec \<Rightarrow> string" where
  "getDesiredDbImage e dbSpec = (case db_DBImage dbSpec of Some i \<Rightarrow> i | None \<Rightarrow> de_DBImage e)"

fun set_image :: "int \<Rightarrow> string \<Rightarrow> CatalogImage list \<Rightarrow> CatalogImage list" where
  "set_image major img [] = [\<lparr>cat_Major = major, cat_Image = img\<rparr>]"
| "set_image major img (x # xs) = (if cat_Major x = major then x\<lparr>cat_Image := img\<rparr> # xs else x # set_image major img xs)"

definition reconcileCNPGImageCatalog :: "db_env \<Rightarrow> unit db_proc" where
  "reconcileCNPGImageCatalog e = bindp db_spec (\<lambda>dbSpec.
     let major = getDesiredMajorVersion e dbSpec; img = getDesiredDbImage e dbSpec in
     bindp (gets dbs_Catalog) (\<lambda>cat.
     bindp (own_db e (ic_Meta cat)) (\<lambda>m.
     bindp (asks (\<lambda>h. de_CatalogCreateOrUpdate e h (cat\<lparr>ic_Meta := m\<rparr>) (\<lambda>x. x\<lparr>ic_Images := set_image major img (ic_Images x)\<rparr>))) (\<lambda>(err, cat1).
     seqp (emit (CatalogWritten cat1))
     (seqp (modify (\<lambda>s. s\<lparr>dbs_Catalog := cat1\<rparr>))
     (case err of
        Some x \<Rightarrow> raise x
      | None \<Rightarrow> upd_status (\<lambda>t. t\<lparr>dbt_CurrentPgMajorVersion := major, dbt_DBCurrentImage := img\<rparr>)))))))"

section \<open>The desired cluster\<close>

definition with_labels :: "ClusterSpec \<Rightarrow> ClusterSpec" where
  "with_labels spec =
     (let em = (case cs_InheritedMetadata spec of Some em \<Rightarrow> em | None \<Rightarrow> \<lparr>em_Labels = None, em_Annotations = None\<rparr>);
          labels = (case em_Labels em of Some m \<Rightarrow> m | None \<Rightarrow> Map.empty)
      in spec\<lparr>cs_InheritedMetadata := Some (em\<lparr>em_Labels := Some (labels(''app'' \<mapsto> ''noobaa''))\<rparr>)\<rparr>)"

definition with_size :: "db_env \<Rightarrow> NooBaa \<Rightarrow> NooBaaDBSpec \<Rightarrow> string \<Rightarrow> ClusterSpec \<Rightarrow> ClusterSpec" where
  "with_size e nb dbSpec catalog spec = spec\<lparr>cs_ImageCatalogRef := Some (catalog, getDesiredMajorVersion e dbSpec),
     cs_Instances := getDBInstances (de_goarch e) nb, cs_Resources := getDBResources (de_goarch e) nb\<rparr>"

fun pick_class :: "StorageClassInfo list \<Rightarrow> string list \<Rightarrow> string result" where
  "pick_class [] lso = (case lso of
     [] \<Rightarrow> Err (PlainError ''Error: found no LSO storage class and no storage class was marked as default'')
   | [x] \<Rightarrow> Ok x
   | _ \<Rightarrow> Err (PlainError ''Error: found more than one LSO storage class and none was marked as default''))"
| "pick_class (sc # scs) lso =
     (if map_get (sci_Annotations sc) ''storageclass.kubernetes.io/is-default-class'' = ''true'' then Ok (sci_Name sc)
      else pick_class scs (if sci_Provisioner sc = ''kubernetes.io/no-provisioner'' then lso @ [sci_Name sc] else lso))"

definition findLocalStorageClass :: "db_env \<Rightarrow> string db_proc" where
  "findLocalStorageClass e = bindp (db_list (de_StorageClasses e) []) (\<lambda>(ok, scs). lift (pick_class scs []))"

definition getDesiredDBPVCAccessMode :: "(string \<rightharpoonup> string) option \<Rightarrow> string" where
  "getDesiredDBPVCAccessMode annotations =
     (if map_get annotations ''noobaa.io/pvc_access_mode_rwo'' = ''true'' then ''ReadWriteOnce'' else ''ReadWriteOncePod'')"

text \<open>The size of the volume: the minimum of the specification, or the current size when that is larger.\<close>

definition desired_size :: "db_env \<Rightarrow> NooBaaDBSpec \<Rightarrow> string \<Rightarrow> string result" where
  "desired_size e dbSpec current =
     (let desired = (if db_DBMinVolumeSize dbSpec \<noteq> '''' then db_DBMinVolumeSize dbSpec else de_DefaultDBVolumeSize e) in
      if current = '''' then Ok desired
      else case de_ParseQuantity e current of
        Inl err \<Rightarrow> Err (PlainError err)
      | Inr currentQuantity \<Rightarrow> (case de_ParseQuantity e desired of
          Inl err \<Rightarrow> Err (PlainError err)
        | Inr desiredQuantity \<Rightarrow> Ok (if q_Cmp currentQuantity desiredQuantity > 0 then current else desired)))"

definition with_access_mode :: "string \<Rightarrow> StorageConfiguration \<Rightarrow> StorageConfiguration" where
  "with_access_mode mode conf = conf\<lparr>sc_Template := Some ((case sc_Template conf of
     Some t \<Rightarrow> t | None \<Rightarrow> \<lparr>tpl_AccessModes = [], tpl_Other = ''''\<rparr>)\<lparr>tpl_AccessModes := [mode]\<rparr>)\<rparr>"

definition upd_storage :: "(StorageConfiguration \<Rightarrow> StorageConfiguration) \<Rightarrow> unit db_proc" where
  "upd_storage f = upd_spec (\<lambda>spec. spec\<lparr>cs_Storage := f (cs_Storage spec)\<rparr>)"

definition setDesiredStorageConf :: "db_env \<Rightarrow> NooBaaDBSpec \<Rightarrow> (string \<rightharpoonup> string) option \<Rightarrow> unit db_proc" where
  "setDesiredStorageConf e dbSpec annotations =
     seqp (upd_storage (with_access_mode (getDesiredDBPVCAccessMode annotations)))
     (bindp (case db_DBStorageClass dbSpec of Some sc \<Rightarrow> ret sc | None \<Rightarrow> findLocalStorageClass e) (\<lambda>sc.
      seqp (upd_storage (\<lambda>conf. conf\<lparr>sc_StorageClass := Some sc\<rparr>))
      (bindp (gets (\<lambda>s. sc_Size (cs_Storage (cn_Spec (dbs_Cluster s))))) (\<lambda>current.
       bindp (lift (desired_size e dbSpec current)) (\<lambda>sz. upd_storage (\<lambda>conf. conf\<lparr>sc_Size := sz\<rparr>))))))"

definition with_affinity :: "db_env \<Rightarrow> NooBaa \<Rightarrow> AffinityConfiguration \<Rightarrow> AffinityConfiguration" where
  "with_affinity e nb ac =
     (let ac1 = (case nbs_Affinity (nb_Spec nb) of
            Some a \<Rightarrow> ac\<lparr>ac_NodeAffinity := de_NodeAffinity e a,
              ac_TopologyKey := (if de_TopologyKey e a \<noteq> '''' then de_TopologyKey e a else ac_TopologyKey ac)\<rparr>
          | None \<Rightarrow> ac\<lparr>ac_NodeAffinity := None, ac_TopologyKey := ''''\<rparr>)
      in if nbs_Tolerations (nb_Spec nb) \<noteq> [] then ac1\<lparr>ac_Tolerations := nbs_Tolerations (nb_Spec nb)\<rparr> else ac1)"

definition with_monitoring :: "NooBaa \<Rightarrow> ClusterSpec \<Rightarrow> ClusterSpec" where
  "with_monitoring nb spec =
     (let mon = (case cs_Monitoring spec of Some m \<Rightarrow> m | None \<Rightarrow> \<lparr>mon_EnablePodMonitor = False, mon_TLSEnabled = None, mon_Other = ''''\<rparr>)
      in spec\<lparr>cs_Monitoring := Some (mon\<lparr>
        mon_EnablePodMonitor := (map_get (om_Annotations (nb_Meta nb)) ''noobaa.io/disable_db_default_monitoring'' \<noteq> ''true''),
        mon_TLSEnabled := Some True\<rparr>)\<rparr>)"

definition with_certificates :: "db_env \<Rightarrow> ClusterSpec \<Rightarrow> ClusterSpec" where
  "with_certificates e spec =
     (let cert = (case cs_Certificates spec of Some c \<Rightarrow> c | None \<Rightarrow> \<lparr>cert_ServerAltDNSNames = [], cert_Other = ''''\<rparr>);
          n = de_ServiceDbPgName e
      in spec\<lparr>cs_Certificates := Some (cert\<lparr>cert_ServerAltDNSNames :=
        [n, n @ ''.'' @ de_Namespace e, n @ ''.'' @ de_Namespace e @ ''.svc'']\<rparr>)\<rparr>)"

definition with_placement :: "db_env \<Rightarrow> NooBaa \<Rightarrow> ClusterSpec \<Rightarrow> ClusterSpec" where
  "with_placement e nb spec = (with_certificates e (with_monitoring nb (spec\<lparr>cs_Affinity := with_affinity e nb (cs_Affinity spec),
     cs_PriorityClassName := nbs_DBPriorityClassName (nb_Spec nb)\<rparr>)))\<lparr>cs_FailoverDelay := 30\<rparr>"

subsection \<open>Parameters of the database\<close>

definition default_parameters :: "string \<rightharpoonup> string" where
  "default_parameters = [''huge_pages'' \<mapsto> ''off'', ''checkpoint_completion_target'' \<mapsto> ''0.9'', ''default_statistics_target'' \<mapsto> ''100'',
     ''random_page_cost'' \<mapsto> ''1.1'', ''effective_io_concurrency'' \<mapsto> ''300'', ''min_wal_size'' \<mapsto> ''2GB'', ''max_wal_size'' \<mapsto> ''8GB'',
     ''jit'' \<mapsto> ''off'', ''wal_compression'' \<mapsto> ''lz4'', ''wal_level'' \<mapsto> ''replica'', ''wal_sender_timeout'' \<mapsto> ''60s'',
     ''wal_receiver_timeout'' \<mapsto> ''60s'', ''pg_stat_statements.track'' \<mapsto> ''all'']"

definition resource_of :: "ResourceList \<Rightarrow> ResourceName \<Rightarrow> quantity" where
  "resource_of l k = (case l k of Some q \<Rightarrow> q | None \<Rightarrow> 0)"

definition calc_memory_kb :: "ResourceRequirements \<Rightarrow> int" where
  "calc_memory_kb r =
     (if resource_of (rr_Limits r) ResourceMemory \<noteq> 0 then quot64 (q_Value (resource_of (rr_Limits r) ResourceMemory)) 1024
      else if resource_of (rr_Requests r) ResourceMemory \<noteq> 0 then quot64 (q_Value (resource_of (rr_Requests r) ResourceMemory)) 1024
      else 16 * 1024 * 1024)"

definition calc_cpu :: "ResourceRequirements \<Rightarrow> int" where
  "calc_cpu r =
     (let n = (if resource_of (rr_Limits r) ResourceCPU \<noteq> 0 then quot64 (q_MilliValue (resource_of (rr_Limits r) ResourceCPU)) 1000
               else if resource_of (rr_Requests r) ResourceCPU \<noteq> 0 then quot64 (q_MilliValue (resource_of (rr_Requests r) ResourceCPU)) 1000
               else 4)
      in if n < 1 then 1 else n)"

definition tls_parameters :: "db_env \<Rightarrow> NooBaa \<Rightarrow> (string \<rightharpoonup> string)" where
  "tls_parameters e nb = (case nbs_APIServerSecurity (nb_Spec nb) of
     None \<Rightarrow> Map.empty
   | Some tls \<Rightarrow>
       if de_TLSConfigDisabled e then Map.empty
       else (case tls_TLSMinVersion tls of Some v \<Rightarrow> [''ssl_min_protocol_version'' \<mapsto> tls_version_string v] | None \<Rightarrow> Map.empty) ++
            (if tls_TLSCiphers tls \<noteq> [] then [''ssl_ciphers'' \<mapsto> MapCiphersToOpenSSL (tls_TLSCiphers tls)] else Map.empty))"

definition override_parameters :: "db_env \<Rightarrow> NooBaa \<Rightarrow> NooBaaDBSpec \<Rightarrow> string \<Rightarrow> (string \<rightharpoonup> string) result" where
  "override_parameters e nb dbSpec sz =
     (let r = getDBResources (de_goarch e) nb in
      bind_r (calculatePGConfig (de_ParseQuantity e) (calc_memory_kb r) (calc_cpu r) (snd (getEndpointMinMax (de_goarch e) nb)) sz) (\<lambda>calc.
      Ok (default_parameters ++ calc ++ tls_parameters e nb ++ (case db_DBConf dbSpec of Some m \<Rightarrow> m | None \<Rightarrow> Map.empty))))"

text \<open>A parameter is only written when its value differs; a missing entry reads as the empty string.\<close>

definition apply_parameters :: "(string \<rightharpoonup> string) option \<Rightarrow> (string \<rightharpoonup> string) \<Rightarrow> (string \<rightharpoonup> string) option" where
  "apply_parameters old override = Some (\<lambda>k.
     let oldv = (case old of Some m \<Rightarrow> m k | None \<Rightarrow> None) in
     case override k of
       None \<Rightarrow> oldv
     | Some v \<Rightarrow> if map_get old k = v then oldv else Some v)"

definition setPostgresConfig :: "db_env \<Rightarrow> unit db_proc" where
  "setPostgresConfig e =
     bindp (gets dbs_NooBaa) (\<lambda>nb. bindp db_spec (\<lambda>dbSpec.
     bindp (gets (\<lambda>s. sc_Size (cs_Storage (cn_Spec (dbs_Cluster s))))) (\<lambda>sz.
     bindp (lift (override_parameters e nb dbSpec sz)) (\<lambda>override.
     upd_spec (\<lambda>spec. spec\<lparr>cs_Parameters := apply_parameters (cs_Parameters spec) override\<rparr>)))))"

subsection \<open>Backup settings and the whole specification\<close>

definition with_backup :: "VolumeSnapshotBackupSpec \<Rightarrow> ClusterSpec \<Rightarrow> ClusterSpec" where
  "with_backup v spec = spec\<lparr>cs_Backup := Some (case cs_Backup spec of
     None \<Rightarrow> \<lparr>bk_VolumeSnapshot = Some \<lparr>vsc_ClassName = vsb_VolumeSnapshotClass v, vsc_Online = Some False, vsc_Other = ''''\<rparr>, bk_Other = ''''\<rparr>
   | Some b \<Rightarrow> b\<lparr>bk_VolumeSnapshot := Some ((case bk_VolumeSnapshot b of
         Some c \<Rightarrow> c | None \<Rightarrow> \<lparr>vsc_ClassName = '''', vsc_Online = None, vsc_Other = ''''\<rparr>)
       \<lparr>vsc_ClassName := vsb_VolumeSnapshotClass v, vsc_Online := Some False\<rparr>)\<rparr>)\<rparr>"

definition no_snapshot_config :: go_error where
  "no_snapshot_config = PlainError ''volume snapshot backup configuration is not specified''"

definition set_backup :: "NooBaaDBSpec \<Rightarrow> unit db_proc" where
  "set_backup dbSpec = (case db_DBBackup dbSpec of
     None \<Rightarrow> upd_spec (\<lambda>spec. spec\<lparr>cs_Backup := None\<rparr>)
   | Some b \<Rightarrow> (case dbb_VolumeSnapshot b of None \<Rightarrow> raise no_snapshot_config | Some v \<Rightarrow> upd_spec (with_backup v)))"

definition reconcileClusterSpec :: "db_env \<Rightarrow> NooBaaDBSpec \<Rightarrow> unit db_proc" where
  "reconcileClusterSpec e dbSpec =
     bindp (gets dbs_NooBaa) (\<lambda>nb. bindp (gets (\<lambda>s. om_Name (ic_Meta (dbs_Catalog s)))) (\<lambda>catalog.
     seqp (upd_spec (\<lambda>spec. with_size e nb dbSpec catalog (with_labels spec)))
     (seqp (setDesiredStorageConf e dbSpec (om_Annotations (nb_Meta nb)))
     (seqp (upd_spec (with_placement e nb))
     (seqp (setPostgresConfig e)
     (set_backup dbSpec))))))"

definition wasClusterSpecChanged :: "ClusterSpec \<Rightarrow> ClusterSpec \<Rightarrow> bool" where
  "wasClusterSpecChanged old new \<longleftrightarrow>
     cs_InheritedMetadata old \<noteq> cs_InheritedMetadata new \<or> cs_ImageCatalogRef old \<noteq> cs_ImageCatalogRef new \<or>
     cs_Instances old \<noteq> cs_Instances new \<or> cs_Affinity old \<noteq> cs_Affinity new \<or> cs_Resources old \<noteq> cs_Resources new \<or>
     sc_StorageClass (cs_Storage old) \<noteq> sc_StorageClass (cs_Storage new) \<or> sc_Size (cs_Storage old) \<noteq> sc_Size (cs_Storage new) \<or>
     sc_Template (cs_Storage old) \<noteq> sc_Template (cs_Storage new) \<or> cs_Monitoring old \<noteq> cs_Monitoring new \<or>
     cs_Parameters old \<noteq> cs_Parameters new \<or> cs_Backup old \<noteq> cs_Backup new \<or> cs_Certificates old \<noteq> cs_Certificates new \<or>
     cs_PriorityClassName old \<noteq> cs_PriorityClassName new \<or> cs_FailoverDelay old \<noteq> cs_FailoverDelay new"

section \<open>Backups\<close>

definition getBackupResourceName :: "CnpgCluster \<Rightarrow> string" where
  "getBackupResourceName cl = cn_Name cl @ ''-scheduled-backup''"

definition GetCnpgScheduledBackupObj :: "string \<Rightarrow> string \<Rightarrow> ScheduledBackup" where
  "GetCnpgScheduledBackupObj namespace n = \<lparr>sb_Meta = \<lparr>om_Name = n, om_Namespace = namespace, om_UID = '''', om_Generation = 0,
       om_Labels = None, om_Annotations = None, om_Finalizers = [], om_OwnerReferences = [], om_DeletionTimestamp = None,
       om_CreationTimestamp = 0\<rparr>,
     sb_Schedule = '''', sb_Cluster = '''', sb_Method = '''', sb_Online = None, sb_Target = '''',
     sb_LastScheduleTime = None, sb_NextScheduleTime = None\<rparr>"

definition cleanupDBBackup :: "db_env \<Rightarrow> unit db_proc" where
  "cleanupDBBackup e = bindp (gets dbs_Cluster) (\<lambda>cl. let n = getBackupResourceName cl in
     bindp (db_look (\<lambda>h. de_ScheduledBackup e h (cn_Namespace cl) n)) (\<lambda>found.
     if found = None then ret ()
     else bindp (db_write e (ScheduledBackupDeleted n)) (\<lambda>r. case r of
       None \<Rightarrow> ret ()
     | Some err \<Rightarrow> if err = NotFoundError then ret () else db_fail e err)))"

text \<open>\<open>strings.Fields\<close> of the runes of a string: the parts between white space.\<close>

definition Fields :: "nat list \<Rightarrow> nat list list" where
  "Fields rs = filter (\<lambda>f. f \<noteq> []) (foldr (\<lambda>r acc. if unicode_IsSpace r then [] # acc else (case acc of [] \<Rightarrow> [[r]] | f # fs \<Rightarrow> (r # f) # fs)) rs [[]])"

definition convertToSixFieldCron :: "string \<Rightarrow> string result" where
  "convertToSixFieldCron schedule =
     (if schedule \<noteq> [] \<and> hd schedule = CHR ''@'' then Ok schedule
      else let n = length (Fields (utf8_runes (map of_char schedule))) in
        if n = 6 then Ok schedule
        else if n = 5 then Ok (''0 '' @ schedule)
        else Err (PlainError (''invalid cron schedule '' @ go_quote schedule)))"

definition desired_backup :: "CnpgCluster \<Rightarrow> string \<Rightarrow> ScheduledBackup \<Rightarrow> ScheduledBackup" where
  "desired_backup cl cnpgSchedule sb = sb\<lparr>sb_Schedule := cnpgSchedule, sb_Cluster := cn_Name cl, sb_Method := ''volumeSnapshot'',
     sb_Online := Some False, sb_Target := ''prefer-standby''\<rparr>"

text \<open>
  The function that sets the desired fields also copies the times of the object it is given; the answer of
  \<open>de_BackupCreateOrUpdate\<close> has that object, unless the function was not called.
\<close>

definition copy_times :: "ScheduledBackup \<Rightarrow> DBBackupStatus \<Rightarrow> DBBackupStatus" where
  "copy_times sb b = b\<lparr>bst_LastBackupTime := (case sb_LastScheduleTime sb of Some t \<Rightarrow> Some t | None \<Rightarrow> bst_LastBackupTime b),
     bst_NextBackupTime := (case sb_NextScheduleTime sb of Some t \<Rightarrow> Some t | None \<Rightarrow> bst_NextBackupTime b)\<rparr>"

definition upd_backup_status :: "(DBBackupStatus \<Rightarrow> DBBackupStatus) \<Rightarrow> unit db_proc" where
  "upd_backup_status f = upd_status (\<lambda>t. t\<lparr>dbt_BackupStatus := map_option f (dbt_BackupStatus t)\<rparr>)"

definition reconcileScheduledBackup :: "db_env \<Rightarrow> DBBackupSpec \<Rightarrow> unit db_proc" where
  "reconcileScheduledBackup e backupSpec =
     bindp (lift (convertToSixFieldCron (dbb_Schedule backupSpec))) (\<lambda>cnpgSchedule.
     bindp (gets dbs_Cluster) (\<lambda>cl.
     let sb = GetCnpgScheduledBackupObj (cn_Namespace cl) (getBackupResourceName cl) in
     bindp (own_db e (sb_Meta sb)) (\<lambda>m.
     bindp (asks (\<lambda>h. de_BackupCreateOrUpdate e h (sb\<lparr>sb_Meta := m\<rparr>) (desired_backup cl cnpgSchedule))) (\<lambda>(err, given, sb1).
     seqp (emit (BackupScheduled sb1))
     (seqp (case given of None \<Rightarrow> ret () | Some x \<Rightarrow> upd_backup_status (copy_times x))
     (case err of Some x \<Rightarrow> raise x | None \<Rightarrow> ret ()))))))"

definition listVolumeSnapshotsOrderByCreate :: "db_env \<Rightarrow> VolumeSnapshot list db_proc" where
  "listVolumeSnapshotsOrderByCreate e = bindp (gets dbs_Cluster) (\<lambda>cl.
     bindp (asks (\<lambda>h. de_Snapshots e h (cn_Namespace cl) (cn_Name cl))) (\<lambda>r. seqp (emit DbLooked) (case r of
       Inl err \<Rightarrow> db_fail e err
     | Inr items \<Rightarrow> ret (de_Sort e (filter (\<lambda>x. HasPrefix (vs_Name x) (getBackupResourceName cl)) items)))))"

fun delete_snapshots :: "db_env \<Rightarrow> string option \<Rightarrow> VolumeSnapshot list \<Rightarrow> VolumeSnapshot list \<Rightarrow> int \<Rightarrow> (VolumeSnapshot list \<times> int) db_proc" where
  "delete_snapshots e recovery [] availableItems totalSnapshots = ret (availableItems, totalSnapshots)"
| "delete_snapshots e recovery (x # xs) availableItems totalSnapshots =
     (if recovery = Some (vs_Name x) then delete_snapshots e recovery xs (availableItems @ [x]) totalSnapshots
      else bindp (db_write e (SnapshotDeleted (vs_Name x))) (\<lambda>r.
        if r \<noteq> None \<and> r \<noteq> Some NotFoundError then delete_snapshots e recovery xs availableItems totalSnapshots
        else bindp (db_write e (BackupDeleted (vs_Name x))) (\<lambda>_. delete_snapshots e recovery xs availableItems (totalSnapshots - 1))))"

text \<open>A negative maximum makes the slice of the snapshots to delete longer than the list, which panics.\<close>

definition reconcileBackupRetention :: "db_env \<Rightarrow> VolumeSnapshotBackupSpec \<Rightarrow> unit db_proc" where
  "reconcileBackupRetention e v = (let maxSnapshots = vsb_MaxSnapshots v in
     if maxSnapshots = 0 then ret ()
     else bindp (listVolumeSnapshotsOrderByCreate e) (\<lambda>snapshots.
       let totalSnapshots = int (length snapshots); numToDelete = totalSnapshots - maxSnapshots in
       bindp db_spec (\<lambda>dbSpec.
       bindp (if totalSnapshots > maxSnapshots then
                (if numToDelete > totalSnapshots then lift Panic
                 else delete_snapshots e (db_DBRecovery dbSpec) (take (nat numToDelete) snapshots) (drop (nat numToDelete) snapshots) totalSnapshots)
              else ret (snapshots, totalSnapshots)) (\<lambda>(availableItems, n).
       upd_backup_status (\<lambda>b. b\<lparr>bst_TotalSnapshots := n, bst_AvailableSnapshots := map vs_Name availableItems\<rparr>)))))"

definition reconcileDBBackup :: "db_env \<Rightarrow> unit db_proc" where
  "reconcileDBBackup e = bindp db_spec (\<lambda>dbSpec. case db_DBBackup dbSpec of
     None \<Rightarrow> seqp (cleanupDBBackup e) (upd_status (\<lambda>t. t\<lparr>dbt_BackupStatus := None\<rparr>))
   | Some b \<Rightarrow>
       seqp (upd_status (\<lambda>t. t\<lparr>dbt_BackupStatus := Some (case dbt_BackupStatus t of
         Some x \<Rightarrow> x | None \<Rightarrow> \<lparr>bst_LastBackupTime = None, bst_NextBackupTime = None, bst_TotalSnapshots = 0, bst_AvailableSnapshots = []\<rparr>)\<rparr>))
       (case dbb_VolumeSnapshot b of
          None \<Rightarrow> raise no_snapshot_config
        | Some v \<Rightarrow> seqp (reconcileScheduledBackup e b) (reconcileBackupRetention e v)))"

section \<open>Recovery\<close>

definition scale_to_zero :: "db_env \<Rightarrow> noobaa_app \<Rightarrow> unit db_proc" where
  "scale_to_zero e app = bindp (own_db e (de_AppMeta e app)) (\<lambda>_.
     bindp (asks (\<lambda>h. de_Scale e h app 0)) (\<lambda>err. seqp (emit (Scaled app 0))
       (case err of Some x \<Rightarrow> raise x | None \<Rightarrow> ret ())))"

definition count_pods :: "db_env \<Rightarrow> string \<Rightarrow> string \<Rightarrow> nat db_proc" where
  "count_pods e label what = bindp (db_list (\<lambda>h. de_PodCount e h (de_OptionsNamespace e) label) 0) (\<lambda>(ok, n).
     if ok then ret n else raise (PlainError (''got error listing '' @ what @ '' pods'')))"

definition stopNoobaaPodsAndGetNumRunningPods :: "db_env \<Rightarrow> nat db_proc" where
  "stopNoobaaPodsAndGetNumRunningPods e =
     seqp (scale_to_zero e CoreApp)
     (seqp (scale_to_zero e EndpointApp)
     (bindp (count_pods e ''noobaa-core'' ''noobaa-core'') (\<lambda>core.
      bindp (count_pods e ''noobaa-s3'' ''noobaa-endpoints'') (\<lambda>endpoints. ret (core + endpoints)))))"

definition pods_running :: go_error where
  "pods_running = PlainError ''waiting for noobaa-core and noobaa-endpoint pods to be terminated''"

definition reconcileClusterRecovery :: "db_env \<Rightarrow> string \<Rightarrow> unit db_proc" where
  "reconcileClusterRecovery e snapshot =
     seqp (upd_status (\<lambda>t. t\<lparr>dbt_RecoveryStatus := Some \<lparr>rec_Status = DBRecoveryStatusPending, rec_SnapshotName = snapshot, rec_RecoveryTime = None\<rparr>\<rparr>))
     (bindp (stopNoobaaPodsAndGetNumRunningPods e) (\<lambda>numRunningPods.
      if numRunningPods \<noteq> 0 then raise pods_running
      else seqp (upd_spec (\<lambda>spec. spec\<lparr>cs_Bootstrap := Some (BootstrapRecovery ''nbcore'' ''noobaa'' snapshot)\<rparr>))
        (cleanupDBBackup e)))"

section \<open>The cluster\<close>

definition dbClusterStatusAfterSpecUpdate :: "DBClusterStatus \<Rightarrow> DBClusterStatus" where
  "dbClusterStatusAfterSpecUpdate current = (if current = DBClusterStatusReady then DBClusterStatusUpdating else current)"

definition isClusterReady :: "CnpgCluster \<Rightarrow> bool" where
  "isClusterReady cl \<longleftrightarrow> (''Ready'', ''True'') \<in> set (cn_Conditions cl)"

text \<open>The annotation and the bootstrap of a new cluster; the metadata was made by \<open>reconcileClusterSpec\<close>.\<close>

definition fresh_install :: "ClusterSpec \<Rightarrow> ClusterSpec result" where
  "fresh_install spec = (case cs_InheritedMetadata spec of
     None \<Rightarrow> Panic
   | Some em \<Rightarrow>
       (let ann = (case em_Annotations em of Some m \<Rightarrow> m | None \<Rightarrow> Map.empty) in
        Ok (spec\<lparr>cs_InheritedMetadata := Some (em\<lparr>em_Annotations := Some (ann(''openshift.io/required-scc'' \<mapsto> ''restricted-v2''))\<rparr>),
          cs_Bootstrap := Some (case cs_Bootstrap spec of Some b \<Rightarrow> b | None \<Rightarrow> InitDB ''nbcore'' ''noobaa'' ''C'')\<rparr>)))"

definition created_status :: "BootstrapConfiguration \<Rightarrow> string option \<Rightarrow> int \<Rightarrow> NooBaaDBStatus \<Rightarrow> NooBaaDBStatus" where
  "created_status bootstrap recovery now t = (case bootstrap of
     InitDB _ _ _ \<Rightarrow> t\<lparr>dbt_DBClusterStatus := DBClusterStatusCreating\<rparr>
   | BootstrapRecovery _ _ _ \<Rightarrow> t\<lparr>dbt_DBClusterStatus := DBClusterStatusRecovering, dbt_RecoveryStatus := Some
       \<lparr>rec_Status = DBRecoveryStatusRunning,
        rec_SnapshotName = (case recovery of Some n \<Rightarrow> n | None \<Rightarrow>
          (case dbt_RecoveryStatus t of Some r \<Rightarrow> rec_SnapshotName r | None \<Rightarrow> '''')),
        rec_RecoveryTime = Some now\<rparr>\<rparr>)"

definition create_cluster :: "db_env \<Rightarrow> NooBaaDBSpec \<Rightarrow> unit db_proc" where
  "create_cluster e dbSpec =
     seqp (case db_DBRecovery dbSpec of
        None \<Rightarrow> bindp (gets (\<lambda>s. cn_Spec (dbs_Cluster s))) (\<lambda>spec. bindp (lift (fresh_install spec)) (\<lambda>spec1. upd_spec (\<lambda>_. spec1)))
      | Some snapshot \<Rightarrow> reconcileClusterRecovery e snapshot)
     (bindp (gets dbs_Cluster) (\<lambda>cl.
      bindp (own_db e (cn_Meta cl)) (\<lambda>m. let cl1 = cl\<lparr>cn_Meta := m\<rparr> in
      seqp (modify (\<lambda>s. s\<lparr>dbs_Cluster := cl1\<rparr>))
      (bindp (asks (\<lambda>h. de_Reply e h cl1)) (\<lambda>cl2.
       bindp (db_write e (ClusterCreated cl1)) (\<lambda>r. case r of
         Some err \<Rightarrow> db_fail e err
       | None \<Rightarrow>
           seqp (modify (\<lambda>s. s\<lparr>dbs_Cluster := cl2\<rparr>))
           (bindp (lift (deref (cs_Bootstrap (cn_Spec cl2)))) (\<lambda>bootstrap.
            bindp (asks (de_Now e)) (\<lambda>now. upd_status (created_status bootstrap (db_DBRecovery dbSpec) now))))))))))"

definition update_cluster :: "db_env \<Rightarrow> ClusterSpec \<Rightarrow> unit db_proc" where
  "update_cluster e existing = bindp (gets dbs_Cluster) (\<lambda>cl.
     whenp (wasClusterSpecChanged existing (cn_Spec cl))
       (bindp (asks (\<lambda>h. de_Reply e h cl)) (\<lambda>cl2.
        bindp (db_write e (ClusterUpdated cl)) (\<lambda>r. case r of
          Some err \<Rightarrow> db_fail e err
        | None \<Rightarrow>
            seqp (modify (\<lambda>s. s\<lparr>dbs_Cluster := cl2\<rparr>))
            (upd_status (\<lambda>t. t\<lparr>dbt_DBClusterStatus := dbClusterStatusAfterSpecUpdate (dbt_DBClusterStatus t)\<rparr>))))))"

definition reconcileDBCluster :: "db_env \<Rightarrow> unit db_proc" where
  "reconcileDBCluster e =
     bindp (gets dbs_Cluster) (\<lambda>cl0.
     bindp (db_look (\<lambda>h. de_Cluster e h (cn_Namespace cl0) (cn_Name cl0))) (\<lambda>found.
     seqp (modify (\<lambda>s. s\<lparr>dbs_Cluster := (case found of Some cl \<Rightarrow> cl | None \<Rightarrow> dbs_Cluster s)\<rparr>))
     (bindp (gets (\<lambda>s. cn_Spec (dbs_Cluster s))) (\<lambda>existing.
      bindp db_spec (\<lambda>dbSpec.
      seqp (reconcileClusterSpec e dbSpec)
      (bindp (gets (\<lambda>s. om_UID (cn_Meta (dbs_Cluster s)))) (\<lambda>uid.
       if uid = '''' then create_cluster e dbSpec else update_cluster e existing)))))))"

section \<open>Silencing an alert\<close>

definition shouldReconcileCNPGCluster :: "NooBaa \<Rightarrow> bool" where
  "shouldReconcileCNPGCluster nb \<longleftrightarrow> nbs_DBSpec (nb_Spec nb) \<noteq> None \<and> nbs_ExternalPgSecret (nb_Spec nb) = None"

text \<open>A difference of times is a duration, which saturates.\<close>

definition saturated_duration :: "int \<Rightarrow> int" where
  "saturated_duration d = max (- (2 ^ 63)) (min (2 ^ 63 - 1) d)"

definition equal_matcher :: "string \<Rightarrow> string \<Rightarrow> SilenceMatcher" where
  "equal_matcher n v = \<lparr>sm_Name = n, sm_Value = v, sm_IsRegex = False, sm_IsEqual = True\<rparr>"

definition PodDisruptionBudgetAtLimitAlertName :: string where
  "PodDisruptionBudgetAtLimitAlertName = ''PodDisruptionBudgetAtLimit''"

definition CreateCNPGPDBSilence :: "db_env \<Rightarrow> CnpgCluster \<Rightarrow> int \<Rightarrow> AlertmanagerSilence" where
  "CreateCNPGPDBSilence e cl now = \<lparr>si_ID = '''',
     si_Matchers = [equal_matcher ''alertname'' PodDisruptionBudgetAtLimitAlertName, equal_matcher ''namespace'' (de_Namespace e),
       equal_matcher ''poddisruptionbudget'' (cn_Name cl @ ''-primary'')],
     si_StartsAt = now, si_EndsAt = 32503680000 * 10 ^ 9, si_CreatedBy = ''noobaa-operator'',
     si_Comment = ''The PodDisruptionBudgetAtLimit alert for the NooBaa CNPG cluster '' @ cn_Name cl @ '' is silenced by noobaa-operator. ''
       @ ''The alert is expected and does not indicate a problem. '' @ ''The PDB '' @ cn_Name cl @ ''-primary''
       @ '' has disruptionsAllowed=0 by design to prevent the primary instance from being deleted during node drains. ''
       @ ''This is safe because CNPG automatically performs a graceful switchover to a secondary instance when a node is drained. ''
       @ ''Once the instance in the node is downgraded and is no longer the primary, draining can resume. ''\<rparr>"

definition has_matcher :: "string \<Rightarrow> string \<Rightarrow> AlertmanagerSilence \<Rightarrow> bool" where
  "has_matcher n v silence = list_ex (\<lambda>m. sm_Name m = n \<and> sm_Value m = v \<and> \<not> sm_IsRegex m) (si_Matchers silence)"

definition IsCNPGPDBSilence :: "db_env \<Rightarrow> CnpgCluster \<Rightarrow> AlertmanagerSilence \<Rightarrow> bool" where
  "IsCNPGPDBSilence e cl silence \<longleftrightarrow> si_CreatedBy silence = ''noobaa-operator'' \<and>
     has_matcher ''alertname'' PodDisruptionBudgetAtLimitAlertName silence \<and> has_matcher ''namespace'' (de_Namespace e) silence \<and>
     has_matcher ''poddisruptionbudget'' (cn_Name cl @ ''-primary'') silence"

definition SetLastSilenceCheckTime :: "db_env \<Rightarrow> unit db_proc" where
  "SetLastSilenceCheckTime e = bindp (asks (de_Now e)) (\<lambda>now. modify (\<lambda>s. s\<lparr>dbs_lastSilenceCheckTime := Some now\<rparr>))"

definition createOrUpdateSilence :: "db_env \<Rightarrow> string \<Rightarrow> string \<Rightarrow> AlertmanagerSilence \<Rightarrow> unit db_proc" where
  "createOrUpdateSilence e url token silence = bindp (asks (\<lambda>h. de_PostSilence e h url token silence)) (\<lambda>err.
     seqp (emit (SilencePosted silence)) (case err of Some x \<Rightarrow> raise x | None \<Rightarrow> ret ()))"

definition reconcile_silence :: "db_env \<Rightarrow> CnpgCluster \<Rightarrow> string \<Rightarrow> string \<Rightarrow> AlertmanagerSilence list \<Rightarrow> unit db_proc" where
  "reconcile_silence e cl url token existing =
     bindp (asks (de_Now e)) (\<lambda>now. let silence = CreateCNPGPDBSilence e cl now in
     seqp (case filter (IsCNPGPDBSilence e cl) existing of
         x # _ \<Rightarrow> bindp (asks (de_Now e)) (\<lambda>now2.
           whenp (saturated_duration (si_EndsAt x - now2) < hours 24) (createOrUpdateSilence e url token (silence\<lparr>si_ID := si_ID x\<rparr>)))
       | [] \<Rightarrow> createOrUpdateSilence e url token silence)
       (SetLastSilenceCheckTime e))"

definition ReconcilePDBAlertSilencer :: "db_env \<Rightarrow> unit db_proc" where
  "ReconcilePDBAlertSilencer e =
     bindp (gets dbs_NooBaa) (\<lambda>nb. bindp (gets dbs_Cluster) (\<lambda>cl.
     bindp (gets dbs_lastSilenceCheckTime) (\<lambda>last. bindp (asks (de_Now e)) (\<lambda>now.
     if \<not> shouldReconcileCNPGCluster nb then ret ()
     else if cn_Name cl = '''' then ret ()
     else if (case last of None \<Rightarrow> False | Some t \<Rightarrow> saturated_duration (now - t) < hours 1) then ret ()
     else
       let override = map_get (om_Annotations (nb_Meta nb)) ''noobaa.io/alertmanager_host_override'';
           url = (if override = '''' then ''https://alertmanager-main.openshift-monitoring.svc.cluster.local:9094'' else override)
       in case de_Token e of
         Inl err \<Rightarrow> raise (PlainError (''failed to read service account token: '' @ Error err))
       | Inr token \<Rightarrow>
           bindp (asks (\<lambda>h. de_ListSilences e h url token)) (\<lambda>r. seqp (emit DbLooked) (case r of
             Inl (dns, err) \<Rightarrow> if dns then SetLastSilenceCheckTime e else raise err
           | Inr existing \<Rightarrow> reconcile_silence e cl url token existing))))))"

section \<open>The whole\<close>

definition init_status :: "unit db_proc" where
  "init_status = modify (\<lambda>s. s\<lparr>dbs_Status := Some (case dbs_Status s of Some t \<Rightarrow> t | None \<Rightarrow>
     \<lparr>dbt_DBClusterStatus = DBClusterStatusNone, dbt_DBCurrentImage = '''', dbt_CurrentPgMajorVersion = 0, dbt_ActualVolumeSize = '''',
      dbt_BackupStatus = None, dbt_RecoveryStatus = None\<rparr>)\<rparr>)"

definition ready_status :: "CnpgCluster \<Rightarrow> NooBaaDBStatus \<Rightarrow> NooBaaDBStatus" where
  "ready_status cl t = t\<lparr>dbt_DBClusterStatus := DBClusterStatusReady, dbt_ActualVolumeSize := sc_Size (cs_Storage (cn_Spec cl)),
     dbt_RecoveryStatus := map_option (\<lambda>r. r\<lparr>rec_Status := DBRecoveryStatusCompleted\<rparr>) (dbt_RecoveryStatus t)\<rparr>"

definition ReconcileCNPGCluster :: "db_env \<Rightarrow> unit db_proc" where
  "ReconcileCNPGCluster e =
     seqp init_status
     (seqp (reconcileCNPGImageCatalog e)
     (seqp (reconcileDBCluster e)
     (bindp (gets dbs_Cluster) (\<lambda>cl.
      if \<not> isClusterReady cl then raise (PlainError ''cnpg cluster is not ready'')
      else seqp (upd_status (ready_status cl))
        (seqp (reconcileDBBackup e)
        (bindp (tryp (ReconcilePDBAlertSilencer e)) (\<lambda>_. ret ())))))))"

section \<open>Runs of the helpers\<close>

lemma upd_status_run: "upd_status f s = (case dbs_Status s of None \<Rightarrow> (Panic, s) | Some t \<Rightarrow> (Ok (), s\<lparr>dbs_Status := Some (f t)\<rparr>))"
  by (simp add: upd_status_def split: option.splits)

lemma upd_spec_run [simp]:
  "upd_spec f s = (Ok (), s\<lparr>dbs_Cluster := (dbs_Cluster s)\<lparr>cn_Spec := f (cn_Spec (dbs_Cluster s))\<rparr>\<rparr>)"
  by (simp add: upd_spec_def)

lemma upd_storage_run [simp]:
  "upd_storage f s = (Ok (), s\<lparr>dbs_Cluster := (dbs_Cluster s)\<lparr>cn_Spec := (cn_Spec (dbs_Cluster s))\<lparr>cs_Storage :=
     f (cs_Storage (cn_Spec (dbs_Cluster s)))\<rparr>\<rparr>\<rparr>)"
  by (simp add: upd_storage_def)

lemma db_spec_run [simp]: "db_spec s = (deref (nbs_DBSpec (nb_Spec (dbs_NooBaa s))), s)"
  by (simp add: db_spec_def)

lemma db_write_run [simp]: "db_write e ev s = (Ok (de_write e (hist s) ev), s\<lparr>hist := hist s @ [ev]\<rparr>)"
  by (simp add: db_write_def)

lemma db_fail_run [simp]: "db_fail e err s = (Err (PlainError (de_ErrorText e err)), s)"
  by (simp add: db_fail_def)

lemma db_look_run: "db_look f s = (check_get (f (hist s)), s\<lparr>hist := hist s @ [DbLooked]\<rparr>)"
  by (simp add: db_look_def)

section \<open>Retention\<close>

text \<open>What the sort promises: a permutation, ordered by time.\<close>

definition sort_laws :: "(VolumeSnapshot list \<Rightarrow> VolumeSnapshot list) \<Rightarrow> bool" where
  "sort_laws f \<longleftrightarrow> (\<forall>xs. mset (f xs) = mset xs \<and> sorted (map vs_CreationTimestamp (f xs)))"

lemma delete_snapshots_run:
  "\<exists>es n. delete_snapshots e recovery xs avail tot s = (Ok (avail @ filter (\<lambda>x. recovery = Some (vs_Name x)) xs, n), s\<lparr>hist := hist s @ es\<rparr>) \<and>
     (\<forall>m. SnapshotDeleted m \<in> set es \<longrightarrow> m \<in> vs_Name ` set xs \<and> recovery \<noteq> Some m) \<and> tot - int (length xs) \<le> n \<and> n \<le> tot"
proof (induction xs arbitrary: avail tot s)
  case (Cons x xs)
  consider "recovery = Some (vs_Name x)" | "recovery \<noteq> Some (vs_Name x)" "de_write e (hist s) (SnapshotDeleted (vs_Name x)) \<notin> {None, Some NotFoundError}"
    | "recovery \<noteq> Some (vs_Name x)" "de_write e (hist s) (SnapshotDeleted (vs_Name x)) \<in> {None, Some NotFoundError}" by blast
  then show ?case
  proof cases
    case 1
    then show ?thesis using Cons.IH [of "avail @ [x]" tot s] by fastforce
  next
    case 2
    obtain es n where es: "delete_snapshots e recovery xs avail tot (s\<lparr>hist := hist s @ [SnapshotDeleted (vs_Name x)]\<rparr>) =
        (Ok (avail @ filter (\<lambda>x. recovery = Some (vs_Name x)) xs, n), s\<lparr>hist := (hist s @ [SnapshotDeleted (vs_Name x)]) @ es\<rparr>)"
      "\<forall>m. SnapshotDeleted m \<in> set es \<longrightarrow> m \<in> vs_Name ` set xs \<and> recovery \<noteq> Some m" "tot - int (length xs) \<le> n" "n \<le> tot"
      using Cons.IH [of avail tot "s\<lparr>hist := hist s @ [SnapshotDeleted (vs_Name x)]\<rparr>"] by auto
    show ?thesis using 2 es by (intro exI [of _ "SnapshotDeleted (vs_Name x) # es"] exI [of _ n]) auto
  next
    case 3
    let ?es = "[SnapshotDeleted (vs_Name x), BackupDeleted (vs_Name x)]"
    obtain es n where es: "delete_snapshots e recovery xs avail (tot - 1) (s\<lparr>hist := hist s @ ?es\<rparr>) =
        (Ok (avail @ filter (\<lambda>x. recovery = Some (vs_Name x)) xs, n), s\<lparr>hist := (hist s @ ?es) @ es\<rparr>)"
      "\<forall>m. SnapshotDeleted m \<in> set es \<longrightarrow> m \<in> vs_Name ` set xs \<and> recovery \<noteq> Some m" "tot - 1 - int (length xs) \<le> n" "n \<le> tot - 1"
      using Cons.IH [of avail "tot - 1" "s\<lparr>hist := hist s @ ?es\<rparr>"] by auto
    show ?thesis using 3 es by (intro exI [of _ "?es @ es"] exI [of _ n]) auto
  qed
qed (auto intro: exI [of _ "[]"])

definition scheduled_snapshots :: "CnpgCluster \<Rightarrow> VolumeSnapshot list \<Rightarrow> VolumeSnapshot list" where
  "scheduled_snapshots cl items = filter (\<lambda>x. HasPrefix (vs_Name x) (getBackupResourceName cl)) items"

lemma sorted_split:
  assumes "sorted (map f xs)" "x \<in> set (take k xs)" "y \<in> set (drop k xs)"
  shows "f x \<le> f y"
proof -
  have "sorted (map f (take k xs) @ map f (drop k xs))" using assms(1) by (simp flip: map_append)
  then show ?thesis using assms(2,3) by (auto simp: sorted_append)
qed

text \<open>The retention deletes among the first snapshots of the sorted list, or nothing.\<close>

lemma retention_run:
  assumes "de_Snapshots e (hist s) (cn_Namespace (dbs_Cluster s)) (cn_Name (dbs_Cluster s)) = Inr items"
    and "nbs_DBSpec (nb_Spec (dbs_NooBaa s)) = Some dbSpec" and "reconcileBackupRetention e v s = (r, s')"
  shows "\<exists>es k. hist s' = hist s @ es \<and>
    min (vsb_MaxSnapshots v) (int (length (de_Sort e (scheduled_snapshots (dbs_Cluster s) items)))) \<le>
      int (length (de_Sort e (scheduled_snapshots (dbs_Cluster s) items))) - int k \<and>
    (\<forall>m. SnapshotDeleted m \<in> set es \<longrightarrow> m \<in> vs_Name ` set (take k (de_Sort e (scheduled_snapshots (dbs_Cluster s) items))) \<and>
      db_DBRecovery dbSpec \<noteq> Some m)"
proof -
  let ?xs = "de_Sort e (scheduled_snapshots (dbs_Cluster s) items)" and ?s1 = "s\<lparr>hist := hist s @ [DbLooked]\<rparr>"
  define d where "d = int (length ?xs) - vsb_MaxSnapshots v"
  have l: "listVolumeSnapshotsOrderByCreate e s = (Ok ?xs, ?s1)"
    using assms(1) by (simp add: listVolumeSnapshotsOrderByCreate_def scheduled_snapshots_def)
  have quiet: ?thesis if "hist s' = hist s \<or> hist s' = hist s @ [DbLooked]"
    using that by (intro exI [of _ "drop (length (hist s)) (hist s')"] exI [of _ 0]) auto
  have keep_hist: "hist (snd (upd_backup_status f t)) = hist t" for f t by (simp add: upd_backup_status_def upd_status_run split: option.splits)
  consider "vsb_MaxSnapshots v = 0" | "vsb_MaxSnapshots v \<noteq> 0" "d \<le> 0 \<or> d > int (length ?xs)" | "vsb_MaxSnapshots v \<noteq> 0" "0 < d" "d \<le> int (length ?xs)"
    by linarith
  then show ?thesis
  proof cases
    case 1
    then show ?thesis using assms(3) quiet by (simp add: reconcileBackupRetention_def)
  next
    case 2
    then have "hist (snd (reconcileBackupRetention e v s)) = hist s @ [DbLooked]"
      using assms(2) l keep_hist [of _ ?s1] by (auto simp: reconcileBackupRetention_def Let_def d_def split: if_splits)
    then show ?thesis using quiet assms(3) by simp
  next
    case 3
    obtain es n where del: "delete_snapshots e (db_DBRecovery dbSpec) (take (nat d) ?xs) (drop (nat d) ?xs) (int (length ?xs)) ?s1 =
        (Ok (drop (nat d) ?xs @ filter (\<lambda>x. db_DBRecovery dbSpec = Some (vs_Name x)) (take (nat d) ?xs), n), s\<lparr>hist := hist s @ DbLooked # es\<rparr>)"
      "\<forall>m. SnapshotDeleted m \<in> set es \<longrightarrow> m \<in> vs_Name ` set (take (nat d) ?xs) \<and> db_DBRecovery dbSpec \<noteq> Some m"
      using delete_snapshots_run [of e "db_DBRecovery dbSpec" "take (nat d) ?xs" "drop (nat d) ?xs" "int (length ?xs)" ?s1] by auto
    then have "hist (snd (reconcileBackupRetention e v s)) = hist s @ DbLooked # es"
      using assms(2) l 3 keep_hist [of _ "s\<lparr>hist := hist s @ DbLooked # es\<rparr>"]
      by (auto simp: reconcileBackupRetention_def Let_def d_def)
    then have "hist s' = hist s @ DbLooked # es" using assms(3) by simp
    then show ?thesis using del(2) 3 by (intro exI [of _ "DbLooked # es"] exI [of _ "nat d"]) (auto simp: d_def)
  qed
qed


section \<open>A concrete database\<close>

definition ex_cluster_spec :: ClusterSpec where
  "ex_cluster_spec = \<lparr>cs_InheritedMetadata = None, cs_ImageCatalogRef = None, cs_Instances = 0,
     cs_Resources = \<lparr>rr_Requests = Map.empty, rr_Limits = Map.empty\<rparr>,
     cs_Storage = \<lparr>sc_StorageClass = None, sc_Size = '''', sc_Template = None\<rparr>,
     cs_Affinity = \<lparr>ac_NodeAffinity = None, ac_TopologyKey = '''', ac_Tolerations = [], ac_Other = ''''\<rparr>,
     cs_PriorityClassName = '''', cs_Monitoring = None, cs_Certificates = None, cs_FailoverDelay = 0, cs_Parameters = None,
     cs_Backup = None, cs_Bootstrap = None\<rparr>"

definition ex_db_cluster :: CnpgCluster where
  "ex_db_cluster = \<lparr>cn_Meta = (ex_meta ''pg'')\<lparr>om_UID := ''''\<rparr>, cn_Spec = ex_cluster_spec, cn_Conditions = []\<rparr>"

definition ex_db_spec :: NooBaaDBSpec where
  "ex_db_spec = \<lparr>db_DBImage = None, db_PostgresMajorVersion = None, db_Instances = None, db_DBResources = None,
     db_DBMinVolumeSize = '''', db_DBStorageClass = Some ''fast'', db_DBConf = None,
     db_DBBackup = Some \<lparr>dbb_Schedule = ''0 0 * * *'', dbb_VolumeSnapshot = Some \<lparr>vsb_VolumeSnapshotClass = ''csi'', vsb_MaxSnapshots = 1\<rparr>\<rparr>,
     db_DBRecovery = Some ''snap''\<rparr>"

definition ex_db_env :: db_env where
  "ex_db_env = \<lparr>de_Namespace = ''ns'', de_OptionsNamespace = ''ns'', de_goarch = ''amd64'', de_TLSConfigDisabled = False,
     de_PostgresMajorVersion = 16, de_DBImage = ''pg:16'', de_DefaultDBVolumeSize = ''50Gi'', de_ServiceDbPgName = ''noobaa-db-pg'',
     de_ErrorText = (\<lambda>_. ''error''), de_ParseQuantity = (\<lambda>_. Inr (Gi 50)), de_NodeAffinity = (\<lambda>_. None), de_TopologyKey = (\<lambda>_. ''''),
     de_SetControllerReference = (\<lambda>_ m. Some m), de_Sort = sort_key vs_CreationTimestamp, de_Now = (\<lambda>h. int (length h)),
     de_Cluster = (\<lambda>_ _ _. Inl NotFoundError), de_StorageClasses = (\<lambda>_. Inr []), de_PodCount = (\<lambda>_ _ _. Inr 0),
     de_ScheduledBackup = (\<lambda>_ _ _. Inl NotFoundError),
     de_Snapshots = (\<lambda>_ _ _. Inr [\<lparr>vs_Name = ''pg-scheduled-backup-2'', vs_CreationTimestamp = 2\<rparr>, \<lparr>vs_Name = ''pg-scheduled-backup-1'', vs_CreationTimestamp = 1\<rparr>]),
     de_write = (\<lambda>_ _. None), de_Reply = (\<lambda>_ cl. cl\<lparr>cn_Conditions := [(''Ready'', ''True'')]\<rparr>), de_AppMeta = (\<lambda>_. ex_meta ''app''),
     de_CatalogCreateOrUpdate = (\<lambda>_ x f. (None, f x)), de_BackupCreateOrUpdate = (\<lambda>_ x f. (None, Some x, f x)), de_Scale = (\<lambda>_ _ _. None),
     de_Token = Inr ''token'', de_ListSilences = (\<lambda>_ _ _. Inr []), de_PostSilence = (\<lambda>_ _ _ _. None)\<rparr>"

definition ex_db_state :: db_state where
  "ex_db_state = \<lparr>hist = [], dbs_NooBaa = ex_nb\<lparr>nb_Spec := (nb_Spec ex_nb)\<lparr>nbs_DBSpec := Some ex_db_spec\<rparr>\<rparr>, dbs_Status = None,
     dbs_Catalog = \<lparr>ic_Meta = ex_meta ''catalog'', ic_Images = []\<rparr>, dbs_Cluster = ex_db_cluster, dbs_lastSilenceCheckTime = None\<rparr>"

lemmas ex_db_defs = ex_cluster_spec_def ex_db_cluster_def ex_db_spec_def ex_db_env_def ex_db_state_def

lemma ex_sort_laws: "sort_laws (de_Sort ex_db_env)"
  by (simp add: sort_laws_def ex_db_env_def)


section \<open>Recovery\<close>

text \<open>The steps that compute the desired cluster only look at the cluster resources, and keep what is not theirs.\<close>

named_theorems db_quiet \<open>steps that emit no write\<close>

lemma quiet_steps [db_quiet]:
  "emits ((=) DbLooked) (db_look f)" "emits ((=) DbLooked) (db_list g d)" "emits ((=) DbLooked) db_spec"
  "emits ((=) DbLooked) (upd_spec u)" "emits ((=) DbLooked) (upd_storage u2)" "emits ((=) DbLooked) (upd_status u3)"
  unfolding db_look_def db_list_def db_spec_def upd_spec_def upd_storage_def upd_status_def
  by (intro emit_rules; simp)+

lemma quiet_findLocalStorageClass [db_quiet]: "emits ((=) DbLooked) (findLocalStorageClass e)"
  unfolding findLocalStorageClass_def by (intro emit_rules db_quiet)

lemma quiet_reconcileClusterSpec [db_quiet]: "emits ((=) DbLooked) (reconcileClusterSpec e dbSpec)"
  unfolding reconcileClusterSpec_def setDesiredStorageConf_def setPostgresConfig_def set_backup_def
  by (intro emit_rules db_quiet)

named_theorems db_keep \<open>what the steps of the database keep\<close>

definition frame_free :: "(db_state \<Rightarrow> bool) \<Rightarrow> bool" where
  "frame_free P \<longleftrightarrow> hist_free P \<and> (\<forall>s f. P s \<longrightarrow> P (s\<lparr>dbs_Cluster := (dbs_Cluster s)\<lparr>cn_Spec := f (cn_Spec (dbs_Cluster s))\<rparr>\<rparr>))"

lemma keeps_upd_spec [db_keep]: "frame_free P \<Longrightarrow> keeps P (upd_spec f)" "frame_free P \<Longrightarrow> keeps P (upd_storage g)"
  by (auto simp: keeps_def frame_free_def)

lemma keeps_db_looks [db_keep]: "frame_free P \<Longrightarrow> keeps P (db_look f)" "frame_free P \<Longrightarrow> keeps P (db_list g d)" "keeps P db_spec"
  unfolding db_look_def db_list_def db_spec_def frame_free_def by (intro keep_rules; simp)+

lemma keeps_reconcileClusterSpec [db_keep]: "frame_free P \<Longrightarrow> keeps P (reconcileClusterSpec e dbSpec)"
  unfolding reconcileClusterSpec_def setDesiredStorageConf_def setPostgresConfig_def set_backup_def findLocalStorageClass_def
  by (intro keep_rules db_keep; assumption?)+

lemma own_db_OkE:
  assumes "own_db e m s = (Ok m1, s1)"
  obtains "s1 = s" "de_SetControllerReference e (nb_Meta (dbs_NooBaa s)) m = Some m1"
  using assms by (auto simp: own_db_def split: option.splits)

lemma scale_to_zero_OkE:
  assumes "scale_to_zero e app s = (Ok (), s1)"
  obtains "s1 = s\<lparr>hist := hist s @ [Scaled app 0]\<rparr>" "de_Scale e (hist s) app 0 = None"
  using assms by (auto simp: scale_to_zero_def elim!: bindp_OkE own_db_OkE seqp_OkE simp: asks_def split: option.splits)

lemma count_pods_OkE:
  assumes "count_pods e label what s = (Ok n, s1)"
  obtains "s1 = s\<lparr>hist := hist s @ [DbLooked]\<rparr>" "de_PodCount e (hist s) (de_OptionsNamespace e) label = Inr n"
  using assms by (auto simp: count_pods_def db_list_def KubeList_def elim!: bindp_OkE seqp_OkE simp: asks_def split: sum.splits if_splits)

text \<open>The scheduled backup is gone: it was not there, or its deletion was accepted.\<close>

definition backup_removed :: "db_env \<Rightarrow> db_history \<Rightarrow> string \<Rightarrow> string \<Rightarrow> db_event list \<Rightarrow> bool" where
  "backup_removed e h namespace n es \<longleftrightarrow>
     check_get (de_ScheduledBackup e h namespace n) = Ok None \<and> es = [DbLooked] \<or>
     de_write e (h @ [DbLooked]) (ScheduledBackupDeleted n) \<in> {None, Some NotFoundError} \<and> es = [DbLooked, ScheduledBackupDeleted n]"

lemma cleanupDBBackup_OkE:
  assumes "cleanupDBBackup e s = (Ok (), s1)"
  obtains es where "s1 = s\<lparr>hist := hist s @ es\<rparr>"
    "backup_removed e (hist s) (cn_Namespace (dbs_Cluster s)) (getBackupResourceName (dbs_Cluster s)) es"
  using assms by (auto simp: cleanupDBBackup_def backup_removed_def db_look_run Let_def elim!: bindp_OkE split: if_splits option.splits)

lemma recovery_OkE:
  assumes "reconcileClusterRecovery e snapshot s = (Ok (), s1)"
  obtains es where
    "hist s1 = hist s @ [Scaled CoreApp 0, Scaled EndpointApp 0, DbLooked, DbLooked] @ es"
    "de_Scale e (hist s) CoreApp 0 = None" "de_Scale e (hist s @ [Scaled CoreApp 0]) EndpointApp 0 = None"
    "de_PodCount e (hist s @ [Scaled CoreApp 0, Scaled EndpointApp 0]) (de_OptionsNamespace e) ''noobaa-core'' = Inr 0"
    "de_PodCount e (hist s @ [Scaled CoreApp 0, Scaled EndpointApp 0, DbLooked]) (de_OptionsNamespace e) ''noobaa-s3'' = Inr 0"
    "backup_removed e (hist s @ [Scaled CoreApp 0, Scaled EndpointApp 0, DbLooked, DbLooked]) (cn_Namespace (dbs_Cluster s))
       (getBackupResourceName (dbs_Cluster s)) es"
    "cs_Bootstrap (cn_Spec (dbs_Cluster s1)) = Some (BootstrapRecovery ''nbcore'' ''noobaa'' snapshot)"
    "cn_Meta (dbs_Cluster s1) = cn_Meta (dbs_Cluster s)"
  using assms
  by (auto simp: reconcileClusterRecovery_def stopNoobaaPodsAndGetNumRunningPods_def upd_status_run getBackupResourceName_def
      elim!: bindp_OkE seqp_OkE scale_to_zero_OkE count_pods_OkE cleanupDBBackup_OkE split: if_splits option.splits)

text \<open>A cluster is created last, after the step that prepares its bootstrap, which creates none.\<close>

definition no_creation :: "db_event \<Rightarrow> bool" where
  "no_creation ev = (case ev of ClusterCreated _ \<Rightarrow> False | _ \<Rightarrow> True)"

lemma emits_db_write: "E ev \<Longrightarrow> emits E (db_write e ev)" "emits E (db_fail e err)" "emits E (own_db e m)"
  unfolding db_write_def db_fail_def own_db_def by (intro emit_rules; assumption?)+

lemma emits_quiet: "emits ((=) DbLooked) m \<Longrightarrow> E DbLooked \<Longrightarrow> emits E m"
proof -
  assume m: "emits ((=) DbLooked) m" and E: "E DbLooked"
  show "emits E m"
    unfolding emits_def
  proof
    fix s
    obtain es where "hist (snd (m s)) = hist s @ es" "list_all ((=) DbLooked) es" using m unfolding emits_def by blast
    moreover from this(2) have "list_all E es" using E by (auto simp: list_all_iff)
    ultimately show "\<exists>es. hist (snd (m s)) = hist s @ es \<and> list_all E es" by blast
  qed
qed

lemma recovery_creates_none: "emits no_creation (reconcileClusterRecovery e snapshot)"
  unfolding reconcileClusterRecovery_def stopNoobaaPodsAndGetNumRunningPods_def scale_to_zero_def count_pods_def cleanupDBBackup_def Let_def
  by (intro emit_rules emits_db_write emits_quiet [OF quiet_steps(1)] emits_quiet [OF quiet_steps(2)] emits_quiet [OF quiet_steps(4)]
      emits_quiet [OF quiet_steps(6)]; simp add: no_creation_def)

lemma fresh_prefix: "hist s' = hist s @ es \<Longrightarrow> drop (length (hist s)) (hist s') = es"
  by simp

lemma create_clusterE:
  assumes "create_cluster e dbSpec s = (r, s')" "db_DBRecovery dbSpec = Some snapshot" "hist s' = hist s @ es" "ClusterCreated cl \<in> set es"
  obtains s1 where "reconcileClusterRecovery e snapshot s = (Ok (), s1)" "hist s' = hist s1 @ [ClusterCreated cl]"
    "cn_Spec cl = cn_Spec (dbs_Cluster s1)"
proof -
  obtain q s1 where q: "reconcileClusterRecovery e snapshot s = (q, s1)" by (rule prod.exhaust)
  obtain es1 where es1: "hist s1 = hist s @ es1" "list_all no_creation es1" using emitsD [OF recovery_creates_none q] .
  have none: "ClusterCreated c \<notin> set es1" for c using es1(2) by (auto simp: list_all_iff no_creation_def)
  have "q = Ok ()"
  proof (cases q)
    case (Err x)
    then have "s' = s1" using assms(1,2) q by (simp add: create_cluster_def)
    then show ?thesis using es1(1) assms(3,4) none by simp
  next
    case Panic
    then have "s' = s1" using assms(1,2) q by (simp add: create_cluster_def)
    then show ?thesis using es1(1) assms(3,4) none by simp
  qed simp
  then have run: "reconcileClusterRecovery e snapshot s = (Ok (), s1)" using q by simp
  show ?thesis
  proof (cases "de_SetControllerReference e (nb_Meta (dbs_NooBaa s1)) (cn_Meta (dbs_Cluster s1))")
    case None
    then have "s' = s1" using assms(1,2) run by (simp add: create_cluster_def own_db_def)
    then show ?thesis using es1(1) assms(3,4) none by simp
  next
    case (Some m)
    then have "hist (snd (create_cluster e dbSpec s)) = hist s1 @ [ClusterCreated ((dbs_Cluster s1)\<lparr>cn_Meta := m\<rparr>)]"
      using assms(2) run by (auto simp: create_cluster_def own_db_def Let_def upd_status_run deref_def asks_def split: option.splits)
    then have h: "hist s' = hist s1 @ [ClusterCreated ((dbs_Cluster s1)\<lparr>cn_Meta := m\<rparr>)]" using assms(1) by simp
    then have "es = es1 @ [ClusterCreated ((dbs_Cluster s1)\<lparr>cn_Meta := m\<rparr>)]" using assms(3) es1(1) by simp
    then have "cl = (dbs_Cluster s1)\<lparr>cn_Meta := m\<rparr>" using assms(4) none by auto
    then show ?thesis using that run h by simp
  qed
qed

text \<open>The server gives every stored object a UID.\<close>

definition stored_have_uids :: "db_env \<Rightarrow> bool" where
  "stored_have_uids e \<longleftrightarrow> (\<forall>h ns n cl. de_Cluster e h ns n = Inr cl \<longrightarrow> om_UID (cn_Meta cl) \<noteq> '''')"

lemma looked_replicate: "list_all ((=) DbLooked) es \<longleftrightarrow> es = replicate (length es) DbLooked"
  by (induction es) auto

lemma update_creates_none: "emits no_creation (update_cluster e old)"
  unfolding update_cluster_def
  by (intro emit_rules emits_db_write emits_quiet [OF quiet_steps(6)]; simp add: no_creation_def)

lemma create_grows: "emits (\<lambda>_. True) (create_cluster e dbSpec)"
  unfolding create_cluster_def reconcileClusterRecovery_def stopNoobaaPodsAndGetNumRunningPods_def scale_to_zero_def count_pods_def
    cleanupDBBackup_def Let_def
  by (intro emit_rules emits_db_write emits_quiet [OF quiet_steps(1)] emits_quiet [OF quiet_steps(2)] emits_quiet [OF quiet_steps(4)]
      emits_quiet [OF quiet_steps(6)]; simp)

text \<open>A run that creates the cluster did not find it, and computed the desired cluster first.\<close>

lemma reconcileDBCluster_createE:
  assumes "stored_have_uids e" "nbs_DBSpec (nb_Spec (dbs_NooBaa s)) = Some dbSpec"
    and "reconcileDBCluster e s = (r, s')" "hist s' = hist s @ es" "ClusterCreated cl \<in> set es"
  obtains s2 k es2 where "create_cluster e dbSpec s2 = (r, s')" "hist s2 = hist s @ replicate k DbLooked" "cn_Meta (dbs_Cluster s2) = cn_Meta (dbs_Cluster s)"
    "hist s' = hist s2 @ es2" "ClusterCreated cl \<in> set es2"
proof -
  let ?g = "check_get (de_Cluster e (hist s) (cn_Namespace (dbs_Cluster s)) (cn_Name (dbs_Cluster s)))"
  define s1 where "s1 = (\<lambda>found. s\<lparr>hist := hist s @ [DbLooked], dbs_Cluster := (case found of Some cl \<Rightarrow> cl | None \<Rightarrow> dbs_Cluster s)\<rparr>)"
  have quiet: False if "hist s' = hist s @ es'" "list_all no_creation es'" for es'
    using that assms(4,5) by (auto simp: list_all_iff no_creation_def)
  have "?g \<noteq> Panic" using quiet [of "[DbLooked]"] assms(3) by (auto simp: reconcileDBCluster_def db_look_run no_creation_def)
  then obtain found where found: "?g = Ok found" by (cases ?g) auto
  obtain q s2 where q: "reconcileClusterSpec e dbSpec (s1 found) = (q, s2)" by (rule prod.exhaust)
  obtain es1 where es1: "hist s2 = hist (s1 found) @ es1" "list_all ((=) DbLooked) es1" using emitsD [OF quiet_reconcileClusterSpec q] .
  then have looks: "hist s2 = hist s @ replicate (Suc (length es1)) DbLooked"
    using es1 by (simp add: s1_def looked_replicate)
  have keep: "cn_Meta (dbs_Cluster s2) = cn_Meta (dbs_Cluster (s1 found))"
    using keepsD [OF keeps_reconcileClusterSpec [of "\<lambda>t. cn_Meta (dbs_Cluster t) = cn_Meta (dbs_Cluster (s1 found))"] _ q]
    by (auto simp: frame_free_def hist_free_def)
  have run: "reconcileDBCluster e s = (case q of
      Ok _ \<Rightarrow> if om_UID (cn_Meta (dbs_Cluster s2)) = '''' then create_cluster e dbSpec s2 else update_cluster e (cn_Spec (dbs_Cluster (s1 found))) s2
    | Err x \<Rightarrow> (Err x, s2) | Panic \<Rightarrow> (Panic, s2))"
    using found q assms(2) by (cases q; cases found) (simp_all add: reconcileDBCluster_def db_look_run s1_def deref_def)
  have silent: "list_all no_creation (replicate k DbLooked)" for k by (simp add: list_all_iff no_creation_def)
  from run assms(3) consider "s' = s2" | "om_UID (cn_Meta (dbs_Cluster s2)) = ''''" "create_cluster e dbSpec s2 = (r, s')"
    | "update_cluster e (cn_Spec (dbs_Cluster (s1 found))) s2 = (r, s')" by (cases q) (auto split: if_splits)
  then show ?thesis
  proof cases
    case 1
    then show ?thesis using quiet [OF _ silent] looks by blast
  next
    case 3
    obtain es3 where "hist s' = hist s2 @ es3" "list_all no_creation es3" using emitsD [OF update_creates_none 3] .
    then show ?thesis using quiet [of "replicate (Suc (length es1)) DbLooked @ es3"] looks silent by (simp add: no_creation_def)
  next
    case 2
    then have "found = None" using found keep assms(1) by (cases found) (auto simp: s1_def stored_have_uids_def)
    then have meta: "cn_Meta (dbs_Cluster s2) = cn_Meta (dbs_Cluster s)" using keep by (simp add: s1_def)
    obtain es2 where es2: "hist s' = hist s2 @ es2" using emitsD [OF create_grows 2(2)] by blast
    then have "es = replicate (Suc (length es1)) DbLooked @ es2" using looks assms(4) by simp
    then have "ClusterCreated cl \<in> set es2" using assms(5) by auto
    then show ?thesis using that [OF 2(2) looks meta es2] by blast
  qed
qed

text \<open>
  C35. A database is recovered from a snapshot only when nothing uses it.  A run that creates the cluster while a recovery is
  configured has first scaled the core and the endpoints to zero, has then found that none of their pods runs, and has removed the
  scheduled backup; the creation is its last event, and the new cluster starts from the configured snapshot.
\<close>

theorem recovery_waits_for_pods:
  assumes "stored_have_uids e" "nbs_DBSpec (nb_Spec (dbs_NooBaa s)) = Some dbSpec" "db_DBRecovery dbSpec = Some snapshot"
    and "reconcileDBCluster e s = (r, s')" "hist s' = hist s @ es" "ClusterCreated cl \<in> set es"
  shows "\<exists>k h del. hist s' = h @ [Scaled CoreApp 0, Scaled EndpointApp 0, DbLooked, DbLooked] @ del @ [ClusterCreated cl] \<and>
    h = hist s @ replicate k DbLooked \<and>
    de_Scale e h CoreApp 0 = None \<and> de_Scale e (h @ [Scaled CoreApp 0]) EndpointApp 0 = None \<and>
    de_PodCount e (h @ [Scaled CoreApp 0, Scaled EndpointApp 0]) (de_OptionsNamespace e) ''noobaa-core'' = Inr 0 \<and>
    de_PodCount e (h @ [Scaled CoreApp 0, Scaled EndpointApp 0, DbLooked]) (de_OptionsNamespace e) ''noobaa-s3'' = Inr 0 \<and>
    backup_removed e (h @ [Scaled CoreApp 0, Scaled EndpointApp 0, DbLooked, DbLooked]) (cn_Namespace (dbs_Cluster s))
      (getBackupResourceName (dbs_Cluster s)) del \<and>
    cs_Bootstrap (cn_Spec cl) = Some (BootstrapRecovery ''nbcore'' ''noobaa'' snapshot)"
proof -
  obtain s2 k es2 where s2: "create_cluster e dbSpec s2 = (r, s')" "hist s2 = hist s @ replicate k DbLooked"
    "cn_Meta (dbs_Cluster s2) = cn_Meta (dbs_Cluster s)" "hist s' = hist s2 @ es2" "ClusterCreated cl \<in> set es2"
    using reconcileDBCluster_createE [OF assms(1,2,4,5,6)] .
  obtain s3 where s3: "reconcileClusterRecovery e snapshot s2 = (Ok (), s3)" "hist s' = hist s3 @ [ClusterCreated cl]" "cn_Spec cl = cn_Spec (dbs_Cluster s3)"
    using create_clusterE [OF s2(1) assms(3) s2(4,5)] .
  show ?thesis
    using s3(1)
  proof (rule recovery_OkE)
    fix del
    assume "hist s3 = hist s2 @ [Scaled CoreApp 0, Scaled EndpointApp 0, DbLooked, DbLooked] @ del"
      "de_Scale e (hist s2) CoreApp 0 = None" "de_Scale e (hist s2 @ [Scaled CoreApp 0]) EndpointApp 0 = None"
      "de_PodCount e (hist s2 @ [Scaled CoreApp 0, Scaled EndpointApp 0]) (de_OptionsNamespace e) ''noobaa-core'' = Inr 0"
      "de_PodCount e (hist s2 @ [Scaled CoreApp 0, Scaled EndpointApp 0, DbLooked]) (de_OptionsNamespace e) ''noobaa-s3'' = Inr 0"
      "backup_removed e (hist s2 @ [Scaled CoreApp 0, Scaled EndpointApp 0, DbLooked, DbLooked]) (cn_Namespace (dbs_Cluster s2))
         (getBackupResourceName (dbs_Cluster s2)) del"
      "cs_Bootstrap (cn_Spec (dbs_Cluster s3)) = Some (BootstrapRecovery ''nbcore'' ''noobaa'' snapshot)"
    then show ?thesis using s2(2,3) s3(2,3)
      by (intro exI [of _ k] exI [of _ "hist s2"] exI [of _ del]) (simp add: getBackupResourceName_def)
  qed
qed

section \<open>The status tells the state\<close>

definition db_ready :: "db_state \<Rightarrow> bool" where
  "db_ready s \<longleftrightarrow> (\<exists>t. dbs_Status s = Some t \<and> dbt_DBClusterStatus t = DBClusterStatusReady)"

lemma keeps_reads [db_keep]: "hist_free P \<Longrightarrow> keeps P (db_look f)" "hist_free P \<Longrightarrow> keeps P (db_list g d)" "hist_free P \<Longrightarrow> keeps P (db_write e ev)"
  "keeps P (db_fail e err)" "keeps P (own_db e m)" "keeps P db_spec"
  unfolding db_look_def db_list_def db_write_def db_fail_def own_db_def db_spec_def by (intro keep_rules; assumption?)+

lemma keeps_upd_status [db_keep]: "(\<And>s t. P s \<Longrightarrow> dbs_Status s = Some t \<Longrightarrow> P (s\<lparr>dbs_Status := Some (f t)\<rparr>)) \<Longrightarrow> keeps P (upd_status f)"
  by (auto simp: keeps_def upd_status_run split: option.splits)

text \<open>What follows the status of a ready cluster keeps it and the cluster: the backups and the silence.\<close>

definition ready_with :: "CnpgCluster \<Rightarrow> bool \<Rightarrow> db_state \<Rightarrow> bool" where
  "ready_with cl b s \<longleftrightarrow> dbs_Cluster s = cl \<and> (\<exists>t. dbs_Status s = Some t \<and> dbt_DBClusterStatus t = DBClusterStatusReady \<and>
     dbt_ActualVolumeSize t = sc_Size (cs_Storage (cn_Spec cl)) \<and> (\<forall>r. dbt_RecoveryStatus t = Some r \<longrightarrow> rec_Status r = DBRecoveryStatusCompleted) \<and>
     (b \<longrightarrow> dbt_BackupStatus t \<noteq> None))"

lemma ready_with_free: "hist_free (ready_with cl b)" "ready_with cl b s \<Longrightarrow> ready_with cl b (s\<lparr>dbs_lastSilenceCheckTime := x\<rparr>)"
  by (auto simp: hist_free_def ready_with_def)

lemma keeps_backup_steps [db_keep]:
  "keeps (ready_with cl b) (upd_backup_status f)" "keeps (ready_with cl b) (cleanupDBBackup e)"
  unfolding upd_backup_status_def cleanupDBBackup_def Let_def
  by (intro keep_rules db_keep ready_with_free(1); auto simp: ready_with_def)+

lemma keeps_delete_snapshots [db_keep]: "keeps (ready_with cl b) (delete_snapshots e rec xs avail n)"
proof (induction xs arbitrary: avail n)
  case Nil
  show ?case unfolding delete_snapshots.simps by (rule keep_rules)
next
  case (Cons x xs)
  show ?case unfolding delete_snapshots.simps by (intro keep_rules db_keep ready_with_free(1) Cons.IH)
qed

lemma keeps_scheduled [db_keep]: "keeps (ready_with cl b) (reconcileScheduledBackup e bs)" "keeps (ready_with cl b) (reconcileBackupRetention e v)"
  unfolding reconcileScheduledBackup_def reconcileBackupRetention_def listVolumeSnapshotsOrderByCreate_def Let_def
  by (intro keep_rules db_keep ready_with_free(1))+

lemma keeps_silencer [db_keep]: "keeps (ready_with cl b) (ReconcilePDBAlertSilencer e)"
  unfolding ReconcilePDBAlertSilencer_def reconcile_silence_def createOrUpdateSilence_def SetLastSilenceCheckTime_def Let_def
  by (intro keep_rules db_keep ready_with_free | erule ready_with_free(2))+

lemma keeps_dbbackup [db_keep]: "keeps (ready_with cl False) (reconcileDBBackup e)"
  unfolding reconcileDBBackup_def
  by (intro keep_rules db_keep ready_with_free(1); auto simp: ready_with_def)

definition unready :: "db_state \<Rightarrow> bool" where
  "unready s \<longleftrightarrow> \<not> db_ready s"

lemma unready_free: "hist_free unready" "frame_free unready" "unready s \<Longrightarrow> unready (s\<lparr>dbs_Cluster := x\<rparr>)" "unready s \<Longrightarrow> unready (s\<lparr>dbs_Catalog := y\<rparr>)"
  by (auto simp: hist_free_def frame_free_def unready_def db_ready_def)

lemma unready_spec: "keeps unready (upd_spec f)"
  by (rule keeps_upd_spec(1) [OF unready_free(2)])

lemma keeps_unready_catalog: "keeps unready (reconcileCNPGImageCatalog e)"
  unfolding reconcileCNPGImageCatalog_def Let_def
  by (intro keep_rules db_keep unready_free(1) | erule unready_free | simp add: unready_def db_ready_def)+

lemma keeps_unready_create: "keeps unready (create_cluster e dbSpec)"
  unfolding create_cluster_def reconcileClusterRecovery_def stopNoobaaPodsAndGetNumRunningPods_def scale_to_zero_def count_pods_def
    cleanupDBBackup_def Let_def
  by (intro keep_rules db_keep unready_free(1) unready_spec | erule unready_free
      | simp add: unready_def db_ready_def created_status_def split: BootstrapConfiguration.splits)+

lemma keeps_unready_update: "keeps unready (update_cluster e old)"
  unfolding update_cluster_def
  by (intro keep_rules db_keep unready_free(1) | erule unready_free | simp add: unready_def db_ready_def dbClusterStatusAfterSpecUpdate_def)+

lemma keeps_unready_cluster: "keeps unready (reconcileDBCluster e)"
  unfolding reconcileDBCluster_def
  by (intro keep_rules keeps_reads keeps_reconcileClusterSpec keeps_unready_create keeps_unready_update unready_free(1,2) | erule unready_free)+

text \<open>The part of a run before the cluster is seen ready.\<close>

definition until_cluster :: "db_env \<Rightarrow> unit db_proc" where
  "until_cluster e = seqp init_status (seqp (reconcileCNPGImageCatalog e) (reconcileDBCluster e))"

lemma keeps_until_cluster: "keeps unready (until_cluster e)"
  unfolding until_cluster_def init_status_def
  by (intro keep_rules keeps_unready_catalog keeps_unready_cluster) (auto simp: unready_def db_ready_def split: option.splits)

definition after_ready :: "db_env \<Rightarrow> unit db_proc" where
  "after_ready e = seqp (reconcileDBBackup e) (bindp (tryp (ReconcilePDBAlertSilencer e)) (\<lambda>_. ret ()))"

lemma ReconcileCNPGCluster_split:
  "ReconcileCNPGCluster e = seqp (until_cluster e) (bindp (gets dbs_Cluster) (\<lambda>cl.
     if \<not> isClusterReady cl then raise (PlainError ''cnpg cluster is not ready'') else seqp (upd_status (ready_status cl)) (after_ready e)))"
  unfolding ReconcileCNPGCluster_def until_cluster_def after_ready_def by (simp add: proc_assoc)

lemma keeps_after_ready: "keeps (ready_with cl False) (after_ready e)"
  unfolding after_ready_def by (intro keep_rules db_keep)

lemma ReconcileCNPGClusterE:
  assumes "ReconcileCNPGCluster e s = (r, s')"
  obtains "\<And>x. r \<noteq> Ok x" "unready s \<Longrightarrow> unready s'" | "isClusterReady (dbs_Cluster s')" "ready_with (dbs_Cluster s') False s'"
proof -
  obtain q s1 where q: "until_cluster e s = (q, s1)" by (rule prod.exhaust)
  have keep: "unready s \<Longrightarrow> unready s1" using keepsD [OF keeps_until_cluster _ q] .
  consider "\<And>x. r \<noteq> Ok x" "s' = s1" | t where "q = Ok ()" "isClusterReady (dbs_Cluster s1)" "dbs_Status s1 = Some t"
    "after_ready e (s1\<lparr>dbs_Status := Some (ready_status (dbs_Cluster s1) t)\<rparr>) = (r, s')"
    using assms q by (cases q; cases "dbs_Status s1") (auto simp: ReconcileCNPGCluster_split upd_status_run split: if_splits)
  then show thesis
  proof cases
    case 1
    then show ?thesis using that(1) keep by blast
  next
    case 2
    have "ready_with (dbs_Cluster s1) False (s1\<lparr>dbs_Status := Some (ready_status (dbs_Cluster s1) t)\<rparr>)"
      by (auto simp: ready_with_def ready_status_def)
    then have "ready_with (dbs_Cluster s1) False s'" using keepsD [OF keeps_after_ready _ 2(4)] by blast
    moreover from this have "dbs_Cluster s' = dbs_Cluster s1" by (simp add: ready_with_def)
    ultimately show ?thesis using that(2) 2(2) by simp
  qed
qed

text \<open>
  C37. The status of the database tells its state: a run that succeeds leaves the status \<open>Ready\<close>, with the size of the volume and a
  completed recovery, and the cluster it last saw reports that it is ready; and no run, successful or not, turns another status into \<open>Ready\<close> unless
  the cluster reports that it is ready.
\<close>

theorem database_ready_when_reported:
  assumes "ReconcileCNPGCluster e s = (r, s')"
  shows "(r = Ok () \<longrightarrow> isClusterReady (dbs_Cluster s') \<and> (\<exists>t. dbs_Status s' = Some t \<and> dbt_DBClusterStatus t = DBClusterStatusReady \<and>
      dbt_ActualVolumeSize t = sc_Size (cs_Storage (cn_Spec (dbs_Cluster s'))) \<and>
      (\<forall>x. dbt_RecoveryStatus t = Some x \<longrightarrow> rec_Status x = DBRecoveryStatusCompleted))) \<and>
    (\<not> db_ready s \<and> db_ready s' \<longrightarrow> isClusterReady (dbs_Cluster s'))"
  using assms
proof (rule ReconcileCNPGClusterE)
  assume "\<And>x. r \<noteq> Ok x" "unready s \<Longrightarrow> unready s'"
  then show ?thesis by (auto simp: unready_def)
next
  assume "isClusterReady (dbs_Cluster s')" "ready_with (dbs_Cluster s') False s'"
  then show ?thesis by (auto simp: ready_with_def)
qed

section \<open>The desired cluster is stable\<close>

text \<open>The specification that \<open>reconcileClusterSpec\<close> computes, as a function of the storage class, the size and the parameters.\<close>

definition storage_conf :: "NooBaa \<Rightarrow> string \<Rightarrow> string \<Rightarrow> StorageConfiguration \<Rightarrow> StorageConfiguration" where
  "storage_conf nb sc sz conf = (with_access_mode (getDesiredDBPVCAccessMode (om_Annotations (nb_Meta nb))) conf)\<lparr>sc_StorageClass := Some sc, sc_Size := sz\<rparr>"

definition backup_conf :: "NooBaaDBSpec \<Rightarrow> ClusterSpec \<Rightarrow> ClusterSpec" where
  "backup_conf dbSpec spec = (case db_DBBackup dbSpec of
     None \<Rightarrow> spec\<lparr>cs_Backup := None\<rparr>
   | Some b \<Rightarrow> (case dbb_VolumeSnapshot b of None \<Rightarrow> spec | Some v \<Rightarrow> with_backup v spec))"

definition desired_cluster ::
  "db_env \<Rightarrow> NooBaa \<Rightarrow> NooBaaDBSpec \<Rightarrow> string \<Rightarrow> string \<Rightarrow> string \<Rightarrow> (string \<rightharpoonup> string) \<Rightarrow> ClusterSpec \<Rightarrow> ClusterSpec" where
  "desired_cluster e nb dbSpec catalog sc sz override spec0 =
     (let spec1 = with_size e nb dbSpec catalog (with_labels spec0);
          spec2 = with_placement e nb (spec1\<lparr>cs_Storage := storage_conf nb sc sz (cs_Storage spec1)\<rparr>)
      in backup_conf dbSpec (spec2\<lparr>cs_Parameters := apply_parameters (cs_Parameters spec2) override\<rparr>))"

definition chosen_class :: "db_env \<Rightarrow> NooBaaDBSpec \<Rightarrow> db_history \<Rightarrow> string result" where
  "chosen_class e dbSpec h = (case db_DBStorageClass dbSpec of
     Some sc \<Rightarrow> Ok sc
   | None \<Rightarrow> (case de_StorageClasses e h of Inr scs \<Rightarrow> pick_class scs [] | Inl err \<Rightarrow> bind_r (KubeList (Some err)) (\<lambda>_. pick_class [] [])))"

lemma cs_storage_simps [simp]:
  "cs_Storage (with_labels spec) = cs_Storage spec" "cs_Storage (with_size e nb dbSpec cat spec) = cs_Storage spec"
  "cs_Storage (with_placement e nb spec) = cs_Storage spec"
  by (simp_all add: with_labels_def with_size_def with_placement_def with_certificates_def with_monitoring_def Let_def)

lemma class_run:
  "(case db_DBStorageClass dbSpec of Some sc \<Rightarrow> ret sc | None \<Rightarrow> findLocalStorageClass e) s =
     (chosen_class e dbSpec (hist s), if db_DBStorageClass dbSpec = None then s\<lparr>hist := hist s @ [DbLooked]\<rparr> else s)"
  by (auto simp: chosen_class_def findLocalStorageClass_def db_list_def asks_def KubeList_def split: option.splits sum.splits)

lemma setDesiredStorageConf_OkE:
  assumes "setDesiredStorageConf e dbSpec (om_Annotations (nb_Meta nb)) s = (Ok (), s1)"
  obtains h sc sz where "chosen_class e dbSpec (hist s) = Ok sc" "desired_size e dbSpec (sc_Size (cs_Storage (cn_Spec (dbs_Cluster s)))) = Ok sz"
    "s1 = s\<lparr>hist := h, dbs_Cluster := (dbs_Cluster s)\<lparr>cn_Spec := (cn_Spec (dbs_Cluster s))\<lparr>cs_Storage :=
      storage_conf nb sc sz (cs_Storage (cn_Spec (dbs_Cluster s)))\<rparr>\<rparr>\<rparr>"
proof -
  define s0 where "s0 = s\<lparr>dbs_Cluster := (dbs_Cluster s)\<lparr>cn_Spec := (cn_Spec (dbs_Cluster s))\<lparr>cs_Storage :=
    with_access_mode (getDesiredDBPVCAccessMode (om_Annotations (nb_Meta nb))) (cs_Storage (cn_Spec (dbs_Cluster s)))\<rparr>\<rparr>\<rparr>"
  define t0 where "t0 = (if db_DBStorageClass dbSpec = None then s0\<lparr>hist := hist s0 @ [DbLooked]\<rparr> else s0)"
  have c: "(case db_DBStorageClass dbSpec of Some sc \<Rightarrow> ret sc | None \<Rightarrow> findLocalStorageClass e) s0 = (chosen_class e dbSpec (hist s), t0)"
    unfolding class_run by (simp add: t0_def s0_def)

  have sz: "sc_Size (cs_Storage (cn_Spec (dbs_Cluster t0))) = sc_Size (cs_Storage (cn_Spec (dbs_Cluster s)))"
    by (simp add: t0_def s0_def with_access_mode_def)
  obtain sc where sc: "chosen_class e dbSpec (hist s) = Ok sc"
    using assms c by (cases "chosen_class e dbSpec (hist s)") (simp_all add: setDesiredStorageConf_def s0_def)
  obtain z where z: "desired_size e dbSpec (sc_Size (cs_Storage (cn_Spec (dbs_Cluster s)))) = Ok z"
    using assms c [unfolded sc] sz
    by (cases "desired_size e dbSpec (sc_Size (cs_Storage (cn_Spec (dbs_Cluster s))))") (simp_all add: setDesiredStorageConf_def s0_def [symmetric])
  have "s1 = t0\<lparr>dbs_Cluster := (dbs_Cluster t0)\<lparr>cn_Spec := (cn_Spec (dbs_Cluster t0))\<lparr>cs_Storage :=
      (cs_Storage (cn_Spec (dbs_Cluster t0)))\<lparr>sc_StorageClass := Some sc, sc_Size := z\<rparr>\<rparr>\<rparr>\<rparr>"
    using assms c [unfolded sc] sz z by (simp add: setDesiredStorageConf_def s0_def [symmetric])
  then have "s1 = s\<lparr>hist := hist t0, dbs_Cluster := (dbs_Cluster s)\<lparr>cn_Spec := (cn_Spec (dbs_Cluster s))\<lparr>cs_Storage :=
      storage_conf nb sc z (cs_Storage (cn_Spec (dbs_Cluster s)))\<rparr>\<rparr>\<rparr>"
    by (cases "db_DBStorageClass dbSpec") (simp_all add: t0_def s0_def storage_conf_def)
  then show ?thesis using that sc z by blast
qed

text \<open>A run is determined by the class, the size and the parameters.\<close>

lemma reconcileClusterSpec_OkE:
  assumes "reconcileClusterSpec e dbSpec s = (Ok (), s1)" "nbs_DBSpec (nb_Spec (dbs_NooBaa s)) = Some dbSpec"
  obtains sc sz override where
    "chosen_class e dbSpec (hist s) = Ok sc" "desired_size e dbSpec (sc_Size (cs_Storage (cn_Spec (dbs_Cluster s)))) = Ok sz"
    "override_parameters e (dbs_NooBaa s) dbSpec sz = Ok override"
    "cn_Spec (dbs_Cluster s1) = desired_cluster e (dbs_NooBaa s) dbSpec (om_Name (ic_Meta (dbs_Catalog s))) sc sz override (cn_Spec (dbs_Cluster s))"
proof -
  let ?spec1 = "with_size e (dbs_NooBaa s) dbSpec (om_Name (ic_Meta (dbs_Catalog s))) (with_labels (cn_Spec (dbs_Cluster s)))"
  let ?s0 = "s\<lparr>dbs_Cluster := (dbs_Cluster s)\<lparr>cn_Spec := ?spec1\<rparr>\<rparr>"
  obtain s2 where s2: "setDesiredStorageConf e dbSpec (om_Annotations (nb_Meta (dbs_NooBaa s))) ?s0 = (Ok (), s2)"
    and rest: "seqp (upd_spec (with_placement e (dbs_NooBaa s))) (seqp (setPostgresConfig e) (set_backup dbSpec)) s2 = (Ok (), s1)"
    using assms(1) unfolding reconcileClusterSpec_def by (auto elim!: seqp_OkE)
  from s2 obtain h sc sz where c: "chosen_class e dbSpec (hist s) = Ok sc"
    "desired_size e dbSpec (sc_Size (cs_Storage (cn_Spec (dbs_Cluster s)))) = Ok sz"
    "s2 = s\<lparr>hist := h, dbs_Cluster := (dbs_Cluster s)\<lparr>cn_Spec := ?spec1\<lparr>cs_Storage := storage_conf (dbs_NooBaa s) sc sz (cs_Storage ?spec1)\<rparr>\<rparr>\<rparr>"
    by (rule setDesiredStorageConf_OkE) simp
  let ?spec2 = "with_placement e (dbs_NooBaa s) (?spec1\<lparr>cs_Storage := storage_conf (dbs_NooBaa s) sc sz (cs_Storage ?spec1)\<rparr>)"
  have size: "sc_Size (cs_Storage ?spec2) = sz" by (simp add: storage_conf_def)
  obtain override where o: "override_parameters e (dbs_NooBaa s) dbSpec sz = Ok override"
    using rest c(3) size assms(2) by (cases "override_parameters e (dbs_NooBaa s) dbSpec sz") (simp_all add: setPostgresConfig_def deref_def)
  then have "cn_Spec (dbs_Cluster s1) = backup_conf dbSpec (?spec2\<lparr>cs_Parameters := apply_parameters (cs_Parameters ?spec2) override\<rparr>)"
    using rest c(3) size assms(2)
    by (auto simp: setPostgresConfig_def deref_def set_backup_def backup_conf_def split: option.splits)
  then show ?thesis using that c(1,2) o by (simp add: desired_cluster_def Let_def)
qed

lemma desired_size_stable: "desired_size e dbSpec cur = Ok sz \<Longrightarrow> desired_size e dbSpec sz = Ok sz2 \<Longrightarrow> sz2 = sz"
  by (auto simp: desired_size_def Let_def q_Cmp_def split: if_splits sum.splits)

lemma apply_parameters_stable: "apply_parameters (apply_parameters old ov) ov = apply_parameters old ov"
  by (auto simp: apply_parameters_def Let_def map_get_def fun_eq_iff split: option.splits)

text \<open>The fields of the desired cluster, one by one.\<close>

lemma backup_conf_fields [simp]:
  "cs_InheritedMetadata (backup_conf d spec) = cs_InheritedMetadata spec" "cs_ImageCatalogRef (backup_conf d spec) = cs_ImageCatalogRef spec"
  "cs_Instances (backup_conf d spec) = cs_Instances spec" "cs_Resources (backup_conf d spec) = cs_Resources spec"
  "cs_Storage (backup_conf d spec) = cs_Storage spec" "cs_Affinity (backup_conf d spec) = cs_Affinity spec"
  "cs_PriorityClassName (backup_conf d spec) = cs_PriorityClassName spec" "cs_Monitoring (backup_conf d spec) = cs_Monitoring spec"
  "cs_Certificates (backup_conf d spec) = cs_Certificates spec" "cs_FailoverDelay (backup_conf d spec) = cs_FailoverDelay spec"
  "cs_Parameters (backup_conf d spec) = cs_Parameters spec" "cs_Bootstrap (backup_conf d spec) = cs_Bootstrap spec"
  by (simp_all add: backup_conf_def with_backup_def split: option.splits)

definition labels_of :: "EmbeddedObjectMetadata option \<Rightarrow> EmbeddedObjectMetadata option" where
  "labels_of m = cs_InheritedMetadata (with_labels (ex_cluster_spec\<lparr>cs_InheritedMetadata := m\<rparr>))"

definition monitoring_of :: "NooBaa \<Rightarrow> MonitoringConfiguration option \<Rightarrow> MonitoringConfiguration option" where
  "monitoring_of nb m = cs_Monitoring (with_monitoring nb (ex_cluster_spec\<lparr>cs_Monitoring := m\<rparr>))"

definition certificates_of :: "db_env \<Rightarrow> CertificatesConfiguration option \<Rightarrow> CertificatesConfiguration option" where
  "certificates_of e c = cs_Certificates (with_certificates e (ex_cluster_spec\<lparr>cs_Certificates := c\<rparr>))"

definition backup_of :: "NooBaaDBSpec \<Rightarrow> BackupConfiguration option \<Rightarrow> BackupConfiguration option" where
  "backup_of d b = cs_Backup (backup_conf d (ex_cluster_spec\<lparr>cs_Backup := b\<rparr>))"

lemma desired_cluster_fields:
  "cs_InheritedMetadata (desired_cluster e nb d catalog sc sz ov spec) = labels_of (cs_InheritedMetadata spec)"
  "cs_ImageCatalogRef (desired_cluster e nb d catalog sc sz ov spec) = Some (catalog, getDesiredMajorVersion e d)"
  "cs_Instances (desired_cluster e nb d catalog sc sz ov spec) = getDBInstances (de_goarch e) nb"
  "cs_Resources (desired_cluster e nb d catalog sc sz ov spec) = getDBResources (de_goarch e) nb"
  "cs_Storage (desired_cluster e nb d catalog sc sz ov spec) = storage_conf nb sc sz (cs_Storage spec)"
  "cs_Affinity (desired_cluster e nb d catalog sc sz ov spec) = with_affinity e nb (cs_Affinity spec)"
  "cs_PriorityClassName (desired_cluster e nb d catalog sc sz ov spec) = nbs_DBPriorityClassName (nb_Spec nb)"
  "cs_Monitoring (desired_cluster e nb d catalog sc sz ov spec) = monitoring_of nb (cs_Monitoring spec)"
  "cs_Certificates (desired_cluster e nb d catalog sc sz ov spec) = certificates_of e (cs_Certificates spec)"
  "cs_FailoverDelay (desired_cluster e nb d catalog sc sz ov spec) = 30"
  "cs_Parameters (desired_cluster e nb d catalog sc sz ov spec) = apply_parameters (cs_Parameters spec) ov"
  "cs_Backup (desired_cluster e nb d catalog sc sz ov spec) = backup_of d (cs_Backup spec)"
  "cs_Bootstrap (desired_cluster e nb d catalog sc sz ov spec) = cs_Bootstrap spec"
  by (simp_all add: desired_cluster_def Let_def labels_of_def monitoring_of_def certificates_of_def backup_of_def with_labels_def with_size_def
      with_placement_def with_certificates_def with_monitoring_def backup_conf_def with_backup_def split: option.splits)

lemma parts_stable:
  "labels_of (labels_of m) = labels_of m" "monitoring_of nb (monitoring_of nb x) = monitoring_of nb x"
  "certificates_of e (certificates_of e c) = certificates_of e c" "backup_of d (backup_of d b) = backup_of d b"
  "storage_conf nb sc sz (storage_conf nb sc sz conf) = storage_conf nb sc sz conf" "with_affinity e nb (with_affinity e nb a) = with_affinity e nb a"
  by (auto simp: labels_of_def monitoring_of_def certificates_of_def backup_of_def storage_conf_def with_access_mode_def with_affinity_def with_labels_def
      with_monitoring_def with_certificates_def backup_conf_def with_backup_def Let_def split: option.splits)

lemma desired_cluster_stable:
  "\<not> wasClusterSpecChanged (desired_cluster e nb d catalog sc sz ov spec)
     (desired_cluster e nb d catalog sc sz ov (desired_cluster e nb d catalog sc sz ov spec))"
  unfolding wasClusterSpecChanged_def desired_cluster_fields parts_stable apply_parameters_stable by simp


text \<open>
  C39. The volume of the database never shrinks: whatever the specification asks for, the size of the desired cluster is at least the size the
  cluster has.
\<close>

theorem database_volume_never_shrinks:
  assumes "nbs_DBSpec (nb_Spec (dbs_NooBaa s)) = Some dbSpec" "reconcileClusterSpec e dbSpec s = (Ok (), s1)"
    and "sc_Size (cs_Storage (cn_Spec (dbs_Cluster s))) \<noteq> ''''"
  shows "\<exists>old new. de_ParseQuantity e (sc_Size (cs_Storage (cn_Spec (dbs_Cluster s)))) = Inr old \<and>
    de_ParseQuantity e (sc_Size (cs_Storage (cn_Spec (dbs_Cluster s1)))) = Inr new \<and> old \<le> new"
proof -
  obtain sc sz ov where 1: "desired_size e dbSpec (sc_Size (cs_Storage (cn_Spec (dbs_Cluster s)))) = Ok sz"
    "cn_Spec (dbs_Cluster s1) = desired_cluster e (dbs_NooBaa s) dbSpec (om_Name (ic_Meta (dbs_Catalog s))) sc sz ov (cn_Spec (dbs_Cluster s))"
    using reconcileClusterSpec_OkE [OF assms(2,1)] by blast
  then have "sc_Size (cs_Storage (cn_Spec (dbs_Cluster s1))) = sz" by (simp add: desired_cluster_fields storage_conf_def)
  then show ?thesis using 1(1) assms(3)
    by (auto simp: desired_size_def Let_def q_Cmp_def split: if_splits sum.splits)
qed

section \<open>Schedules and silences\<close>

lemma Fields_cons: "\<not> unicode_IsSpace a \<Longrightarrow> unicode_IsSpace b \<Longrightarrow> Fields (a # b # rs) = [a] # Fields rs"
  by (simp add: Fields_def)

text \<open>
  A schedule that is accepted has the form the CNPG operator reads: a descriptor, or six fields.
\<close>

theorem accepted_schedule_has_six_fields:
  assumes "convertToSixFieldCron schedule = Ok cron"
  shows "cron \<noteq> [] \<and> hd cron = CHR ''@'' \<and> cron = schedule \<or> length (Fields (utf8_runes (map of_char cron))) = 6"
proof -
  have "length (Fields (utf8_runes (map of_char (''0 '' @ schedule)))) = Suc (length (Fields (utf8_runes (map of_char schedule))))"
    by (simp add: Fields_cons unicode_IsSpace_def)
  then show ?thesis using assms by (auto simp: convertToSixFieldCron_def Let_def split: if_splits)
qed

theorem accepted_schedule_has_six_fields_witness:
  "\<exists>cron. convertToSixFieldCron ''0 0 * * *'' = Ok cron \<and> length (Fields (utf8_runes (map of_char cron))) = 6"
proof -
  have run: "convertToSixFieldCron ''0 0 * * *'' = Ok ''0 0 0 * * *''"
    by (simp add: convertToSixFieldCron_def Fields_def unicode_IsSpace_def)
  show ?thesis using accepted_schedule_has_six_fields [OF run] run by simp
qed

text \<open>The silence the operator posts is one it recognizes.\<close>

lemma posted_silence_recognized: "IsCNPGPDBSilence e cl (CreateCNPGPDBSilence e cl now)"
  by (simp add: IsCNPGPDBSilence_def has_matcher_def CreateCNPGPDBSilence_def equal_matcher_def)

text \<open>
  The alert is silenced once: when the silences of Alertmanager include one the operator has posted for this cluster, and
  the first such silence is valid for at least another day, a check posts nothing and succeeds; when there is none, it posts
  the silence.
\<close>

theorem silence_posted_once:
  assumes "\<And>x. x \<in> set existing \<Longrightarrow> si_EndsAt x - de_Now e (hist s) \<ge> hours 24"
    and "reconcile_silence e cl url token existing s = (r, s')"
  shows "(if list_ex (IsCNPGPDBSilence e cl) existing then r = Ok () \<and> hist s' = hist s
    else \<exists>silence. hist s' = hist s @ [SilencePosted silence] \<and> IsCNPGPDBSilence e cl silence)"
proof (cases "filter (IsCNPGPDBSilence e cl) existing")
  case Nil
  then have "\<not> list_ex (IsCNPGPDBSilence e cl) existing" by (auto simp: list_ex_iff filter_empty_conv)
  moreover have "hist s' = hist s @ [SilencePosted (CreateCNPGPDBSilence e cl (de_Now e (hist s)))]"
    using assms(2) Nil
    by (cases "de_PostSilence e (hist s) url token (CreateCNPGPDBSilence e cl (de_Now e (hist s)))")
      (auto simp: reconcile_silence_def createOrUpdateSilence_def SetLastSilenceCheckTime_def Let_def asks_def)
  ultimately show ?thesis using posted_silence_recognized by auto
next
  case (Cons x xs)
  then have "x \<in> set (filter (IsCNPGPDBSilence e cl) existing)" by simp
  then have x: "x \<in> set existing" "IsCNPGPDBSilence e cl x" by simp_all
  have "\<not> saturated_duration (si_EndsAt x - de_Now e (hist s)) < hours 24" using assms(1) [OF x(1)] by (simp add: saturated_duration_def)
  then have "r = Ok ()" "hist s' = hist s"
    using assms(2) Cons by (auto simp: reconcile_silence_def SetLastSilenceCheckTime_def Let_def asks_def)
  then show ?thesis using x by (auto simp: list_ex_iff)
qed

theorem silence_posted_once_witness:
  "\<exists>r s'. reconcile_silence ex_db_env ex_db_cluster '''' '''' [] ex_db_state = (r, s') \<and>
     (\<exists>silence. hist s' = [SilencePosted silence] \<and> IsCNPGPDBSilence ex_db_env ex_db_cluster silence)"
proof -
  obtain r s' where run: "reconcile_silence ex_db_env ex_db_cluster '''' '''' [] ex_db_state = (r, s')" by (rule prod.exhaust)
  show ?thesis using silence_posted_once [OF _ run] run by (simp add: ex_db_state_def)
qed

section \<open>Concrete runs\<close>

text \<open>With a storage class and a snapshot class, sizes that can be read and a default profile, the desired cluster is computed.\<close>

lemma ex_parameters: "\<exists>ov. override_parameters ex_db_env (dbs_NooBaa ex_db_state) ex_db_spec sz = Ok ov"
proof -
  let ?nb = "dbs_NooBaa ex_db_state"
  have r: "getDBResources (de_goarch ex_db_env) ?nb = profileResources (of_units 1) (of_units 1) (Gi 2) (Gi 2)"
    by (simp add: getDBResources_def lookupProfile_def performanceProfiles_def profile_table_def default_profile_def ibmZCpuArch_def ex_db_defs ex_nb_def)
  have m: "getEndpointMinMax (de_goarch ex_db_env) ?nb = (1, 2)"
    by (simp add: getEndpointMinMax_def lookupProfile_def performanceProfiles_def profile_table_def default_profile_def ibmZCpuArch_def ex_db_defs ex_nb_def)
  have "calc_memory_kb (profileResources (of_units 1) (of_units 1) (Gi 2) (Gi 2)) = 2 * 1024 * 1024"
    by (simp add: calc_memory_kb_def profileResources_def resource_of_def Gi_def) (simp add: of_units_def)
  moreover have "calc_cpu (profileResources (of_units 1) (of_units 1) (Gi 2) (Gi 2)) = 1"
    by (simp add: calc_cpu_def profileResources_def resource_of_def of_units_def q_MilliValue_def round_away_def)
  ultimately show ?thesis
    using calculatePGConfig_returns [of "2 * 1024 * 1024" 1 2 "de_ParseQuantity ex_db_env" sz] by (auto simp: override_parameters_def r m)
qed

lemma reconcileClusterSpec_runs:
  assumes "nbs_DBSpec (nb_Spec (dbs_NooBaa s)) = Some dbSpec" "db_DBStorageClass dbSpec = Some sc"
    and "desired_size e dbSpec (sc_Size (cs_Storage (cn_Spec (dbs_Cluster s)))) = Ok sz" "override_parameters e (dbs_NooBaa s) dbSpec sz = Ok ov"
    and "db_DBBackup dbSpec = Some b" "dbb_VolumeSnapshot b = Some v"
  shows "reconcileClusterSpec e dbSpec s = (Ok (), s\<lparr>dbs_Cluster := (dbs_Cluster s)\<lparr>cn_Spec :=
    desired_cluster e (dbs_NooBaa s) dbSpec (om_Name (ic_Meta (dbs_Catalog s))) sc sz ov (cn_Spec (dbs_Cluster s))\<rparr>\<rparr>)"
  using assms
  by (simp add: reconcileClusterSpec_def setDesiredStorageConf_def setPostgresConfig_def set_backup_def deref_def with_access_mode_def
      desired_cluster_def backup_conf_def storage_conf_def Let_def)

lemma ex_size: "desired_size ex_db_env ex_db_spec '''' = Ok ''50Gi''" "desired_size ex_db_env ex_db_spec ''50Gi'' = Ok ''50Gi''"
  by (simp_all add: desired_size_def ex_db_env_def ex_db_spec_def q_Cmp_def)

lemma ex_spec_runs:
  assumes "dbs_NooBaa s = dbs_NooBaa ex_db_state" "sc_Size (cs_Storage (cn_Spec (dbs_Cluster s))) \<in> {'''', ''50Gi''}"
  shows "\<exists>ov. reconcileClusterSpec ex_db_env ex_db_spec s = (Ok (), s\<lparr>dbs_Cluster := (dbs_Cluster s)\<lparr>cn_Spec :=
    desired_cluster ex_db_env (dbs_NooBaa s) ex_db_spec (om_Name (ic_Meta (dbs_Catalog s))) ''fast'' ''50Gi'' ov (cn_Spec (dbs_Cluster s))\<rparr>\<rparr>)"
proof -
  obtain ov where ov: "override_parameters ex_db_env (dbs_NooBaa ex_db_state) ex_db_spec ''50Gi'' = Ok ov" using ex_parameters by blast
  have sz: "desired_size ex_db_env ex_db_spec (sc_Size (cs_Storage (cn_Spec (dbs_Cluster s)))) = Ok ''50Gi''" using assms(2) ex_size by auto
  have "nbs_DBSpec (nb_Spec (dbs_NooBaa ex_db_state)) = Some ex_db_spec" by (simp add: ex_db_state_def)
  from reconcileClusterSpec_runs [OF this [folded assms(1)] _ sz ov [folded assms(1)]] show ?thesis by (auto simp: ex_db_spec_def)
qed


theorem database_volume_never_shrinks_witness:
  "\<exists>s s1 new. sc_Size (cs_Storage (cn_Spec (dbs_Cluster s))) = ''50Gi'' \<and> reconcileClusterSpec ex_db_env ex_db_spec s = (Ok (), s1) \<and>
     de_ParseQuantity ex_db_env (sc_Size (cs_Storage (cn_Spec (dbs_Cluster s1)))) = Inr new \<and> Gi 50 \<le> new"
proof -
  let ?s = "ex_db_state\<lparr>dbs_Cluster := ex_db_cluster\<lparr>cn_Spec := ex_cluster_spec\<lparr>cs_Storage := \<lparr>sc_StorageClass = None, sc_Size = ''50Gi'', sc_Template = None\<rparr>\<rparr>\<rparr>\<rparr>"
  have s: "dbs_NooBaa ?s = dbs_NooBaa ex_db_state" "sc_Size (cs_Storage (cn_Spec (dbs_Cluster ?s))) = ''50Gi''" by simp_all
  obtain s1 where run: "reconcileClusterSpec ex_db_env ex_db_spec ?s = (Ok (), s1)" using ex_spec_runs [OF s(1)] s(2) by fastforce
  have spec: "nbs_DBSpec (nb_Spec (dbs_NooBaa ?s)) = Some ex_db_spec" by (simp add: ex_db_state_def)
  have "\<exists>new. de_ParseQuantity ex_db_env (sc_Size (cs_Storage (cn_Spec (dbs_Cluster s1)))) = Inr new \<and> Gi 50 \<le> new"
    using database_volume_never_shrinks [OF spec run] s(2) by (auto simp: ex_db_env_def)
  then show ?thesis using run s(2) by blast
qed

lemma ex_env_simps:
  "de_Cluster ex_db_env h ns n = Inl NotFoundError" "de_SetControllerReference ex_db_env o1 m = Some m" "de_Scale ex_db_env h app k = None"
  "de_PodCount ex_db_env h ns l = Inr 0" "de_ScheduledBackup ex_db_env h ns n = Inl NotFoundError" "de_write ex_db_env h ev = None"
  "de_Reply ex_db_env h cl = cl\<lparr>cn_Conditions := [(''Ready'', ''True'')]\<rparr>" "de_CatalogCreateOrUpdate ex_db_env h x f = (None, f x)"
  "de_BackupCreateOrUpdate ex_db_env h y g = (None, Some y, g y)" "de_Token ex_db_env = Inr ''token''" "de_ListSilences ex_db_env h u t = Inr []"
  "de_PostSilence ex_db_env h u t z = None"
  by (simp_all add: ex_db_env_def)

lemma ex_cluster_run:
  assumes "dbs_NooBaa s = dbs_NooBaa ex_db_state" "dbs_Cluster s = ex_db_cluster" "dbs_Status s = Some t"
  shows "fst (reconcileDBCluster ex_db_env s) = Ok ()" "dbs_NooBaa (snd (reconcileDBCluster ex_db_env s)) = dbs_NooBaa s"
    "isClusterReady (dbs_Cluster (snd (reconcileDBCluster ex_db_env s)))" "dbs_Status (snd (reconcileDBCluster ex_db_env s)) \<noteq> None"
    "cn_Meta (dbs_Cluster (snd (reconcileDBCluster ex_db_env s))) = cn_Meta ex_db_cluster"
    "\<exists>h cl. hist (snd (reconcileDBCluster ex_db_env s)) = hist s @ h \<and> ClusterCreated cl \<in> set h"
proof -
  let ?s1 = "s\<lparr>hist := hist s @ [DbLooked]\<rparr>"
  have s1: "dbs_NooBaa ?s1 = dbs_NooBaa ex_db_state" "sc_Size (cs_Storage (cn_Spec (dbs_Cluster ?s1))) \<in> {'''', ''50Gi''}"
    using assms by (simp_all add: ex_db_defs)
  obtain ov where run: "reconcileClusterSpec ex_db_env ex_db_spec ?s1 = (Ok (), ?s1\<lparr>dbs_Cluster := (dbs_Cluster ?s1)\<lparr>cn_Spec :=
      desired_cluster ex_db_env (dbs_NooBaa ?s1) ex_db_spec (om_Name (ic_Meta (dbs_Catalog ?s1))) ''fast'' ''50Gi'' ov (cn_Spec (dbs_Cluster ?s1))\<rparr>\<rparr>)"
    using ex_spec_runs [OF s1] by blast
  have spec: "nbs_DBSpec (nb_Spec (dbs_NooBaa s)) = Some ex_db_spec" "om_UID (cn_Meta ex_db_cluster) = ''''" "db_DBRecovery ex_db_spec = Some ''snap''"
    using assms(1) by (simp_all add: ex_db_defs)
  note facts = run assms(2,3) spec
  show "fst (reconcileDBCluster ex_db_env s) = Ok ()" "dbs_NooBaa (snd (reconcileDBCluster ex_db_env s)) = dbs_NooBaa s"
    "isClusterReady (dbs_Cluster (snd (reconcileDBCluster ex_db_env s)))" "dbs_Status (snd (reconcileDBCluster ex_db_env s)) \<noteq> None"
    "cn_Meta (dbs_Cluster (snd (reconcileDBCluster ex_db_env s))) = cn_Meta ex_db_cluster"
    "\<exists>h cl. hist (snd (reconcileDBCluster ex_db_env s)) = hist s @ h \<and> ClusterCreated cl \<in> set h"
    using facts
    by (simp_all add: isClusterReady_def reconcileDBCluster_def db_look_run ex_env_simps deref_def create_cluster_def reconcileClusterRecovery_def upd_status_run
        stopNoobaaPodsAndGetNumRunningPods_def scale_to_zero_def own_db_def asks_def count_pods_def db_list_def cleanupDBBackup_def Let_def)
qed

theorem recovery_waits_for_pods_witness:
  "\<exists>cl h del. hist (snd (reconcileDBCluster ex_db_env (snd (init_status ex_db_state)))) = h @ [Scaled CoreApp 0, Scaled EndpointApp 0, DbLooked, DbLooked] @ del @ [ClusterCreated cl] \<and>
     cs_Bootstrap (cn_Spec cl) = Some (BootstrapRecovery ''nbcore'' ''noobaa'' ''snap'')"
proof -
  define s where "s = snd (init_status ex_db_state)"
  have s: "dbs_NooBaa s = dbs_NooBaa ex_db_state" "dbs_Cluster s = ex_db_cluster" "\<exists>t. dbs_Status s = Some t"
    by (simp_all add: s_def init_status_def ex_db_state_def)
  then obtain t where t: "dbs_Status s = Some t" by blast
  obtain r s' where run: "reconcileDBCluster ex_db_env s = (r, s')" by (rule prod.exhaust)
  obtain es cl where es: "hist s' = hist s @ es" "ClusterCreated cl \<in> set es" using ex_cluster_run(6) [OF s(1,2) t] run by auto
  have "stored_have_uids ex_db_env" "nbs_DBSpec (nb_Spec (dbs_NooBaa s)) = Some ex_db_spec" "db_DBRecovery ex_db_spec = Some ''snap''"
    using s(1) by (simp_all add: stored_have_uids_def ex_db_defs)
  from recovery_waits_for_pods [OF this run es] show ?thesis unfolding s_def [symmetric] run snd_conv by blast
qed

lemma ex_backup_run:
  assumes "dbs_NooBaa s = dbs_NooBaa ex_db_state" "dbs_Status s = Some t" "cn_Meta (dbs_Cluster s) = cn_Meta ex_db_cluster"
  shows "\<exists>s1. reconcileDBBackup ex_db_env s = (Ok (), s1)"
proof -
  let ?v = "\<lparr>vsb_VolumeSnapshotClass = ''csi'', vsb_MaxSnapshots = 1\<rparr>" and ?b = "\<lparr>dbb_Schedule = ''0 0 * * *'', dbb_VolumeSnapshot = Some \<lparr>vsb_VolumeSnapshotClass = ''csi'', vsb_MaxSnapshots = 1\<rparr>\<rparr>"
  have cron: "convertToSixFieldCron ''0 0 * * *'' = Ok ''0 0 0 * * *''"
    by (simp add: convertToSixFieldCron_def Fields_def unicode_IsSpace_def)
  have spec: "nbs_DBSpec (nb_Spec (dbs_NooBaa s)) = Some ex_db_spec" "db_DBBackup ex_db_spec = Some ?b" "db_DBRecovery ex_db_spec = Some ''snap''"
    using assms(1) by (simp_all add: ex_db_defs)
  have name: "getBackupResourceName (dbs_Cluster s) = ''pg-scheduled-backup''" using assms(3) by (simp add: getBackupResourceName_def ex_db_defs ex_meta_def)
  show ?thesis
    using assms(2) spec
    by (simp add: reconcileDBBackup_def deref_def upd_status_run reconcileScheduledBackup_def cron Let_def own_db_def ex_env_simps asks_def
        upd_backup_status_def reconcileBackupRetention_def listVolumeSnapshotsOrderByCreate_def name HasPrefix_def)
      (simp add: ex_db_env_def name HasPrefix_def upd_status_run)
qed

definition no_panic :: "('s, 'a) proc \<Rightarrow> bool" where
  "no_panic m \<longleftrightarrow> (\<forall>s. fst (m s) \<noteq> Panic)"

lemma no_panic_rules:
  "no_panic (ret x)" "no_panic (raise err)" "no_panic (gets g)" "no_panic (modify f)" "no_panic (asks q)" "no_panic (emit ev)"
  "no_panic m \<Longrightarrow> (\<And>x. no_panic (k x)) \<Longrightarrow> no_panic (bindp m k)" "no_panic m \<Longrightarrow> no_panic m2 \<Longrightarrow> no_panic (seqp m m2)"
  "no_panic u \<Longrightarrow> no_panic (whenp b u)"
  by (auto simp: no_panic_def asks_def bindp_def seqp_def whenp_def split: prod.splits result.splits) (metis fst_conv)+

lemma silencer_no_panic: "no_panic (ReconcilePDBAlertSilencer e)"
  unfolding ReconcilePDBAlertSilencer_def reconcile_silence_def createOrUpdateSilence_def SetLastSilenceCheckTime_def Let_def
  by (auto intro!: no_panic_rules split: sum.splits list.splits option.splits if_splits)

theorem database_ready_when_reported_witness:
  "\<exists>s' t. ReconcileCNPGCluster ex_db_env ex_db_state = (Ok (), s') \<and> isClusterReady (dbs_Cluster s') \<and>
     dbs_Status s' = Some t \<and> dbt_DBClusterStatus t = DBClusterStatusReady"
proof -
  define s where "s = snd (seqp init_status (reconcileCNPGImageCatalog ex_db_env) ex_db_state)"
  have s: "seqp init_status (reconcileCNPGImageCatalog ex_db_env) ex_db_state = (Ok (), s)" "dbs_NooBaa s = dbs_NooBaa ex_db_state"
    "dbs_Cluster s = ex_db_cluster" "\<exists>t. dbs_Status s = Some t"
    unfolding s_def by (simp_all add: init_status_def reconcileCNPGImageCatalog_def Let_def own_db_def ex_env_simps asks_def upd_status_run deref_def ex_db_state_def)
  then obtain t where t: "dbs_Status s = Some t" by blast
  define s1 where "s1 = snd (reconcileDBCluster ex_db_env s)"
  note c = ex_cluster_run [OF s(2,3) t, folded s1_def]
  have "reconcileDBCluster ex_db_env s = (Ok (), s1)" using c(1) by (simp add: prod_eq_iff s1_def)
  moreover have "until_cluster ex_db_env = seqp (seqp init_status (reconcileCNPGImageCatalog ex_db_env)) (reconcileDBCluster ex_db_env)"
    by (simp add: until_cluster_def proc_assoc)
  ultimately have u: "until_cluster ex_db_env ex_db_state = (Ok (), s1)" using s(1) by (simp only: seqp_simps)
  obtain t1 where t1: "dbs_Status s1 = Some t1" using c(4) by blast
  let ?s2 = "s1\<lparr>dbs_Status := Some (ready_status (dbs_Cluster s1) t1)\<rparr>"
  obtain s3 where s3: "reconcileDBBackup ex_db_env ?s2 = (Ok (), s3)" using ex_backup_run [of ?s2] c(2,5) s(2) by auto
  obtain q s' where q: "ReconcilePDBAlertSilencer ex_db_env s3 = (q, s')" by (rule prod.exhaust)
  then have "after_ready ex_db_env ?s2 = (Ok (), s')" using s3 silencer_no_panic [of ex_db_env, unfolded no_panic_def, rule_format, of s3]
    by (cases q) (simp_all add: after_ready_def)
  then have run: "ReconcileCNPGCluster ex_db_env ex_db_state = (Ok (), s')" using u c(3) t1 by (simp add: ReconcileCNPGCluster_split upd_status_run)
  show ?thesis using database_ready_when_reported [OF run] run by auto
qed

end
