(* ===== verification/Spec2Isabelle.thy ===== *)
theory Spec2Isabelle
  imports Admission Leader_Elect Pool_Props NS_Reconciler NA_Reconciler Kms_System Obc_Provisioner Rpc_Client Db_Reconciler
begin

text \<open>
  A verification library of the NooBaa operator, the Kubernetes operator that manages NooBaa systems and their
  backing stores, namespace stores, bucket classes and accounts.

  \<^bold>\<open>The program.\<close>  Users declare custom resources (\<^verbatim>\<open>src/pkg/apis/noobaa/v1alpha1\<close>).  An admission
  webhook (\<^verbatim>\<open>src/pkg/admission\<close>, with the checks of \<^verbatim>\<open>src/pkg/validations\<close>) refuses
  malformed or unsafe changes before they are stored.  Reconcilers (one package per resource) compare a stored resource
  with the cluster and with the NooBaa core, which they reach through the management API of
  \<^verbatim>\<open>src/pkg/nb\<close>, and move the resource through its phases.  All of them use the helpers of
  \<^verbatim>\<open>src/pkg/util\<close>.

  \<^bold>\<open>Conventions.\<close>  A Go pointer is an option, an error result is a value of \<open>result\<close>, and a nil
  dereference is its third outcome \<open>Panic\<close>, so that a crash of the operator is a value one can reason about.
  Code that is not in the repository (the Kubernetes client, \<^verbatim>\<open>net/url\<close> parsing, JSON, the quantity
  parser, the core) is an argument of the definitions; what is assumed of it is a named predicate
  (\<open>status_condition_laws\<close>, \<open>url_laws\<close>, \<open>drains\<close>), satisfied by a concrete
  function in the witness of each theorem that uses it.

  \<^bold>\<open>Theories.\<close>

  \<^item> \<open>Prelude\<close>: errors, results, chains of checks, and the Go string functions the operator calls.
  \<^item> \<open>Api_Types\<close>, \<open>Nb_Types\<close>: the custom resources and the replies of the management API;
    capacities are 64-bit words.
  \<^item> \<open>Kube\<close>: existence checks, create, update, apply and delete (\<^verbatim>\<open>util.go\<close>), finalizers,
    common metadata, conditions, combination of errors.  Deleting polls without a bound; the model takes fuel, and
    \<open>delete_terminates\<close> says that fuel above the number of polls the object needs is enough.
  \<^item> \<open>Slice_Util\<close>: tolerations, environment variables, keyed merges (a locale with three interpretations),
    owner references.
  \<^item> \<open>Store_Util\<close>: the accessors that dispatch on the type of a store (the locale \<open>secret_store\<close>,
    interpreted for both kinds of store), and the search for a secret with the same credentials.
  \<^item> \<open>Tls\<close>: TLS tables, validation and translation.
  \<^item> \<open>Quota\<close>: quotas, with \<open>float64\<close> arithmetic rounded to 53 bits where the code rounds.
  \<^item> \<open>BS_Validation\<close>, \<open>NS_Validation\<close>, \<open>BC_Validation\<close>,
    \<open>Account_Validation\<close>: every function of the files of \<^verbatim>\<open>src/pkg/validations\<close>.  The main
    theorems characterise what is accepted by a declarative predicate.
  \<^item> \<open>Admission\<close>: the webhook; the locale \<open>admission_validator\<close> holds what the five validators
    share.
  \<^item> \<open>Examples\<close>: the concrete objects of the witnesses.

  \<^bold>\<open>Not modelled.\<close>  Logging, the transport of the RPC client, the command line, the generated bundle of
  manifests and the templates the system reconciler fills.  The reconcilers are next.
\<close>

end
